(* ===== verification/Engine_Prelude.thy ===== *)
theory Engine_Prelude
  imports Main "HOL-Library.Word"
begin

text \<open>
  Shared vocabulary of the development.

  \<^item> Machine integers. The engine's token counters are \<open>u64\<close> and are modelled as
    \<open>64 word\<close>; its signed quantities (\<open>i64\<close> balances, timestamps and basis points,
    \<open>i128\<close> nanodollar amounts) are integers whose width is written out by the operators
    below: \<open>checked_*\<close> (Rust's \<open>checked_add\<close>, \<open>checked_mul\<close>,
    \<open>try_from\<close>), \<open>sat_*\<close> (\<open>saturating_*\<close>) and the plain operators, which
    wrap in the release profile of the workspace (\<open>Cargo.toml\<close> turns no overflow checks on).
  \<^item> Strings are UTF-8 byte strings (\<open>char list\<close>), with the string operations the sources
    use.
  \<^item> The third-party JSON library is the record \<open>serde_json\<close> of operations that every
    parser takes as an argument.
  \<^item> Error results are \<open>'e + 'a\<close>, \<open>Inl\<close> being Rust's \<open>Err\<close>.
\<close>

section \<open>Automation\<close>

named_theorems machine_defs "unfolding of the machine-integer operators"
named_theorems exact "conditions under which machine arithmetic is exact arithmetic"

section \<open>Machine integers\<close>

type_synonym u64 = "64 word"
type_synonym i64 = int
type_synonym i128 = int

definition in_i64 :: "int \<Rightarrow> bool" where
  "in_i64 x \<longleftrightarrow> - (2 ^ 63) \<le> x \<and> x < 2 ^ 63"

definition in_i128 :: "int \<Rightarrow> bool" where
  "in_i128 x \<longleftrightarrow> - (2 ^ 127) \<le> x \<and> x < 2 ^ 127"

definition i64_try_from :: "int \<Rightarrow> i64 option" where
  "i64_try_from x = (if in_i64 x then Some x else None)"

definition checked_add_i64 :: "i64 \<Rightarrow> i64 \<Rightarrow> i64 option" where
  "checked_add_i64 a b = i64_try_from (a + b)"

definition checked_sub_i64 :: "i64 \<Rightarrow> i64 \<Rightarrow> i64 option" where
  "checked_sub_i64 a b = i64_try_from (a - b)"

definition checked_mul_i64 :: "i64 \<Rightarrow> i64 \<Rightarrow> i64 option" where
  "checked_mul_i64 a b = i64_try_from (a * b)"

definition i128_try_from :: "int \<Rightarrow> i128 option" where
  "i128_try_from x = (if in_i128 x then Some x else None)"

definition checked_add_i128 :: "i128 \<Rightarrow> i128 \<Rightarrow> i128 option" where
  "checked_add_i128 a b = i128_try_from (a + b)"

definition checked_sub_i128 :: "i128 \<Rightarrow> i128 \<Rightarrow> i128 option" where
  "checked_sub_i128 a b = i128_try_from (a - b)"

definition checked_mul_i128 :: "i128 \<Rightarrow> i128 \<Rightarrow> i128 option" where
  "checked_mul_i128 a b = i128_try_from (a * b)"

definition wrap_i64 :: "int \<Rightarrow> i64" where
  "wrap_i64 x = (x + 2 ^ 63) mod 2 ^ 64 - 2 ^ 63"

definition wrap_i128 :: "int \<Rightarrow> i128" where
  "wrap_i128 x = (x + 2 ^ 127) mod 2 ^ 128 - 2 ^ 127"

definition add_i128 :: "i128 \<Rightarrow> i128 \<Rightarrow> i128" where
  "add_i128 a b = wrap_i128 (a + b)"

definition sub_i128 :: "i128 \<Rightarrow> i128 \<Rightarrow> i128" where
  "sub_i128 a b = wrap_i128 (a - b)"

definition mul_i128 :: "i128 \<Rightarrow> i128 \<Rightarrow> i128" where
  "mul_i128 a b = wrap_i128 (a * b)"

definition clamp_i64 :: "int \<Rightarrow> i64" where
  "clamp_i64 x = max (- (2 ^ 63)) (min (2 ^ 63 - 1) x)"

definition clamp_i128 :: "int \<Rightarrow> i128" where
  "clamp_i128 x = max (- (2 ^ 127)) (min (2 ^ 127 - 1) x)"

definition sat_add_i64 :: "i64 \<Rightarrow> i64 \<Rightarrow> i64" where
  "sat_add_i64 a b = clamp_i64 (a + b)"

definition sat_sub_i64 :: "i64 \<Rightarrow> i64 \<Rightarrow> i64" where
  "sat_sub_i64 a b = clamp_i64 (a - b)"

definition sat_add_i128 :: "i128 \<Rightarrow> i128 \<Rightarrow> i128" where
  "sat_add_i128 a b = clamp_i128 (a + b)"

definition sat_mul_i128 :: "i128 \<Rightarrow> i128 \<Rightarrow> i128" where
  "sat_mul_i128 a b = clamp_i128 (a * b)"

text \<open>Rust's \<open>/\<close> on signed integers truncates towards zero.\<close>

definition trunc_div :: "int \<Rightarrow> int \<Rightarrow> int" where
  "trunc_div a b = (if 0 \<le> a then a div b else - ((- a) div b))"

definition sat_add_u64 :: "u64 \<Rightarrow> u64 \<Rightarrow> u64" where
  "sat_add_u64 a b = (if uint a + uint b < 2 ^ 64 then a + b else 18446744073709551615)"

definition sat_sub_u64 :: "u64 \<Rightarrow> u64 \<Rightarrow> u64" where
  "sat_sub_u64 a b = (if a < b then 0 else a - b)"

definition checked_add_u64 :: "u64 \<Rightarrow> u64 \<Rightarrow> u64 option" where
  "checked_add_u64 a b = (if uint a + uint b < 2 ^ 64 then Some (a + b) else None)"

lemmas machine_defs_all [machine_defs] =
  in_i64_def in_i128_def i64_try_from_def i128_try_from_def
  checked_add_i64_def checked_sub_i64_def checked_mul_i64_def
  checked_add_i128_def checked_sub_i128_def checked_mul_i128_def
  sat_add_i64_def sat_sub_i64_def sat_add_i128_def sat_mul_i128_def clamp_i64_def clamp_i128_def

subsection \<open>Exactness of the wrapping operators inside their range\<close>

lemma wrap_i128_exact [exact]: "in_i128 x \<Longrightarrow> wrap_i128 x = x"
  by (simp add: wrap_i128_def in_i128_def)

lemma wrap_i64_exact [exact]: "in_i64 x \<Longrightarrow> wrap_i64 x = x"
  by (simp add: wrap_i64_def in_i64_def)

lemma wrap_i128_range: "in_i128 (wrap_i128 x)"
proof -
  have "0 \<le> (x + 2 ^ 127) mod 2 ^ 128" "(x + 2 ^ 127) mod 2 ^ 128 < (2 ^ 128 :: int)"
    by simp_all
  then show ?thesis by (simp add: wrap_i128_def in_i128_def)
qed

lemma add_i128_exact [exact]: "in_i128 (a + b) \<Longrightarrow> add_i128 a b = a + b"
  by (simp add: add_i128_def wrap_i128_exact)

lemma sub_i128_exact [exact]: "in_i128 (a - b) \<Longrightarrow> sub_i128 a b = a - b"
  by (simp add: sub_i128_def wrap_i128_exact)

lemma mul_i128_exact [exact]: "in_i128 (a * b) \<Longrightarrow> mul_i128 a b = a * b"
  by (simp add: mul_i128_def wrap_i128_exact)

lemma clamp_i128_exact [exact]: "in_i128 x \<Longrightarrow> clamp_i128 x = x"
  by (auto simp: clamp_i128_def in_i128_def)

lemma sat_add_i128_exact [exact]: "in_i128 (a + b) \<Longrightarrow> sat_add_i128 a b = a + b"
  by (simp add: sat_add_i128_def clamp_i128_exact)

lemma sat_mul_i128_exact [exact]: "in_i128 (a * b) \<Longrightarrow> sat_mul_i128 a b = a * b"
  by (simp add: sat_mul_i128_def clamp_i128_exact)

lemma i128_try_from_eq_Some [simp]: "i128_try_from x = Some y \<longleftrightarrow> in_i128 x \<and> y = x"
  by (auto simp: i128_try_from_def)

lemma i128_try_from_eq_None [simp]: "i128_try_from x = None \<longleftrightarrow> \<not> in_i128 x"
  by (auto simp: i128_try_from_def)

lemma i64_try_from_eq_Some [simp]: "i64_try_from x = Some y \<longleftrightarrow> in_i64 x \<and> y = x"
  by (auto simp: i64_try_from_def)

lemma i64_try_from_eq_None [simp]: "i64_try_from x = None \<longleftrightarrow> \<not> in_i64 x"
  by (auto simp: i64_try_from_def)

subsection \<open>Counters\<close>

lemma uint_u64_lt: "uint (w :: u64) < 2 ^ 64"
  using uint_lt2p [of w] by simp

lemma uint_u64_bounds [simp]: "0 \<le> uint (w :: u64)" "uint (w :: u64) < 18446744073709551616"
  using uint_u64_lt [of w] by simp_all

lemma min_uint_u64_max [simp]: "min (uint (w :: u64)) 18446744073709551615 = uint w"
  using uint_u64_bounds(2) [of w] by (intro min_absorb1) linarith

lemma uint_add_u64: "uint a + uint b < 2 ^ 64 \<Longrightarrow> uint (a + b :: u64) = uint a + uint b"
  by (simp add: uint_word_ariths)

lemma uint_sub_u64: "b \<le> a \<Longrightarrow> uint (a - b :: u64) = uint a - uint b"
  by (simp add: uint_sub_if' word_le_def)

lemma uint_sat_add_u64: "uint (sat_add_u64 a b) = min (uint a + uint b) (2 ^ 64 - 1)"
  by (simp add: sat_add_u64_def uint_add_u64)

lemma uint_sat_sub_u64: "uint (sat_sub_u64 a b) = max (uint a - uint b) 0"
  by (auto simp: sat_sub_u64_def uint_sub_u64 word_less_def not_less word_le_def)

lemma uint_min_u64: "uint (min a b :: u64) = min (uint a) (uint b)"
  by (simp add: min_def word_le_def)

lemma uint_max_u64: "uint (max a b :: u64) = max (uint a) (uint b)"
  by (simp add: max_def word_le_def)

lemmas uint_u64_simps = uint_sat_add_u64 uint_sat_sub_u64 uint_min_u64 uint_max_u64

lemma u64_eq_iff: "a = b \<longleftrightarrow> uint a = uint (b :: u64)"
  by (rule word_uint_eq_iff)

lemma mul_u64_price_bound:
  assumes "0 \<le> p" "p \<le> 2 ^ 40"
  shows "0 \<le> uint (w :: u64) * p" "uint (w :: u64) * p \<le> 2 ^ 104"
proof -
  show "0 \<le> uint w * p" using assms by simp
  have "uint w * p \<le> 2 ^ 64 * 2 ^ 40"
    using assms uint_u64_lt [of w] by (intro mult_mono) (simp_all add: less_imp_le)
  then show "uint w * p \<le> 2 ^ 104" by simp
qed

section \<open>Strings\<close>

definition starts_with :: "string \<Rightarrow> string \<Rightarrow> bool" where
  "starts_with s p \<longleftrightarrow> take (length p) s = p"

fun str_contains :: "string \<Rightarrow> string \<Rightarrow> bool" where
  "str_contains [] p \<longleftrightarrow> p = []"
| "str_contains (c # s) p \<longleftrightarrow> starts_with (c # s) p \<or> str_contains s p"

definition strip_prefix :: "string \<Rightarrow> string \<Rightarrow> string option" where
  "strip_prefix s p = (if starts_with s p then Some (drop (length p) s) else None)"

definition ascii_lower :: "char \<Rightarrow> char" where
  "ascii_lower c = (let n = (of_char c :: nat) in if 65 \<le> n \<and> n \<le> 90 then char_of (n + 32) else c)"

definition to_ascii_lowercase :: "string \<Rightarrow> string" where
  "to_ascii_lowercase s = map ascii_lower s"

definition eq_ignore_ascii_case :: "string \<Rightarrow> string \<Rightarrow> bool" where
  "eq_ignore_ascii_case a b \<longleftrightarrow> to_ascii_lowercase a = to_ascii_lowercase b"

definition is_ascii :: "string \<Rightarrow> bool" where
  "is_ascii s \<longleftrightarrow> (\<forall>c\<in>set s. (of_char c :: nat) < 128)"

text \<open>
  \<open>str::to_lowercase\<close> is Unicode lowercasing, whose tables are not part of the model: the
  functions that use it take it as an argument. What the engine relies on is its documented
  behaviour on ASCII strings.
\<close>

definition unicode_lowercase_spec :: "(string \<Rightarrow> string) \<Rightarrow> bool" where
  "unicode_lowercase_spec to_lowercase \<longleftrightarrow>
     (\<forall>s. is_ascii s \<longrightarrow> to_lowercase s = to_ascii_lowercase s)"

text \<open>
  \<open>str::trim\<close> removes characters with the Unicode property \<open>White_Space\<close>; these are their
  UTF-8 encodings.
\<close>

definition bytes :: "nat list \<Rightarrow> string" where
  "bytes ns = map char_of ns"

definition unicode_ws :: "string list" where
  "unicode_ws = map bytes
     ([[9], [10], [11], [12], [13], [32], [194, 133], [194, 160], [225, 154, 128]]
      @ map (\<lambda>b. [226, 128, b]) [128, 129, 130, 131, 132, 133, 134, 135, 136, 137, 138, 168, 169, 175]
      @ [[226, 129, 159], [227, 128, 128]])"

fun strip_steps :: "nat \<Rightarrow> string list \<Rightarrow> string \<Rightarrow> string" where
  "strip_steps 0 ws s = s"
| "strip_steps (Suc n) ws s =
     (case List.find (\<lambda>w. w \<noteq> [] \<and> starts_with s w) ws of
        None \<Rightarrow> s
      | Some w \<Rightarrow> strip_steps n ws (drop (length w) s))"

text \<open>Each step removes at least one byte, so as many steps as bytes are enough
  (\<open>strip_any_done\<close> below).\<close>

definition strip_any :: "string list \<Rightarrow> string \<Rightarrow> string" where
  "strip_any ws s = strip_steps (length s) ws s"

lemma strip_any_done:
  assumes "w \<in> set ws" "w \<noteq> []"
  shows "\<not> starts_with (strip_any ws s) w"
proof -
  have "length s \<le> n \<Longrightarrow> \<not> starts_with (strip_steps n ws s) w" for n s
  proof (induction n arbitrary: s)
    case 0
    then show ?case using assms by (simp add: starts_with_def)
  next
    case (Suc n)
    show ?case
    proof (cases "List.find (\<lambda>w. w \<noteq> [] \<and> starts_with s w) ws")
      case None
      then have "\<not> starts_with s w" using assms by (auto simp: find_None_iff)
      then show ?thesis by (simp add: None)
    next
      case (Some v)
      then have "v \<noteq> []" by (auto simp: find_Some_iff)
      then show ?thesis using Some Suc by (cases v) simp_all
    qed
  qed
  then show ?thesis by (simp add: strip_any_def)
qed

definition trim_start :: "string \<Rightarrow> string" where
  "trim_start s = strip_any unicode_ws s"

definition trim_end :: "string \<Rightarrow> string" where
  "trim_end s = rev (strip_any (map rev unicode_ws) (rev s))"

definition trim :: "string \<Rightarrow> string" where
  "trim s = trim_end (trim_start s)"

definition printable :: "char \<Rightarrow> bool" where
  "printable c \<longleftrightarrow> 33 \<le> (of_char c :: nat) \<and> (of_char c :: nat) \<le> 126"

lemma unicode_ws_ends: "\<forall>w\<in>set unicode_ws. w \<noteq> [] \<and> \<not> printable (hd w) \<and> \<not> printable (last w)"
  by code_simp

lemma strip_any_printable:
  assumes "\<forall>w\<in>set ws. w \<noteq> [] \<and> \<not> printable (hd w)" "s \<noteq> []" "printable (hd s)"
  shows "strip_any ws s = s"
proof -
  have "\<not> starts_with s w" if "w \<in> set ws" for w
    using assms that by (cases s; cases w) (auto simp: starts_with_def)
  then have "List.find (\<lambda>w. w \<noteq> [] \<and> starts_with s w) ws = None" by (auto simp: find_None_iff)
  then show ?thesis by (cases s) (simp_all add: strip_any_def)
qed

lemma trim_start_printable: "s \<noteq> [] \<Longrightarrow> printable (hd s) \<Longrightarrow> trim_start s = s"
  using unicode_ws_ends by (simp add: trim_start_def strip_any_printable)

lemma trim_printable:
  assumes "s \<noteq> []" "printable (hd s)" "printable (last s)"
  shows "trim s = s"
proof -
  have "strip_any (map rev unicode_ws) (rev s) = rev s"
    using unicode_ws_ends assms by (intro strip_any_printable) (auto simp: hd_rev)
  then show ?thesis using assms by (simp add: trim_def trim_end_def trim_start_printable)
qed

text \<open>\<open>str::lines\<close>: split after each line feed, drop one trailing carriage return of each line,
  and yield no empty line after a final line feed.\<close>

definition drop_cr :: "string \<Rightarrow> string" where
  "drop_cr l = (if l \<noteq> [] \<and> last l = char_of (13 :: nat) then butlast l else l)"

fun split_lf :: "string \<Rightarrow> string \<Rightarrow> string list" where
  "split_lf acc [] = (if acc = [] then [] else [rev acc])"
| "split_lf acc (c # s) =
     (if c = char_of (10 :: nat) then drop_cr (rev acc) # split_lf [] s else split_lf (c # acc) s)"

definition str_lines :: "string \<Rightarrow> string list" where
  "str_lines s = split_lf [] s"

text \<open>\<open>str::from_utf8\<close> accepts exactly the well-formed UTF-8 byte sequences.\<close>

definition utf8_cont :: "nat \<Rightarrow> bool" where
  "utf8_cont b \<longleftrightarrow> 128 \<le> b \<and> b \<le> 191"

fun utf8_ok :: "nat list \<Rightarrow> bool" where
  "utf8_ok [] \<longleftrightarrow> True"
| "utf8_ok [a] \<longleftrightarrow> a < 128"
| "utf8_ok [a, b] \<longleftrightarrow> (if a < 128 then utf8_ok [b] else 194 \<le> a \<and> a \<le> 223 \<and> utf8_cont b)"
| "utf8_ok [a, b, c] \<longleftrightarrow>
     (if a < 128 then utf8_ok [b, c]
      else if a \<le> 223 then 194 \<le> a \<and> utf8_cont b \<and> utf8_ok [c]
      else a \<le> 239 \<and> utf8_cont b \<and> utf8_cont c
        \<and> (a = 224 \<longrightarrow> 160 \<le> b) \<and> (a = 237 \<longrightarrow> b \<le> 159))"
| "utf8_ok (a # b # c # d # s) \<longleftrightarrow>
     (if a < 128 then utf8_ok (b # c # d # s)
      else if a \<le> 223 then 194 \<le> a \<and> utf8_cont b \<and> utf8_ok (c # d # s)
      else if a \<le> 239 then utf8_cont b \<and> utf8_cont c
        \<and> (a = 224 \<longrightarrow> 160 \<le> b) \<and> (a = 237 \<longrightarrow> b \<le> 159) \<and> utf8_ok (d # s)
      else a \<le> 244 \<and> utf8_cont b \<and> utf8_cont c \<and> utf8_cont d
        \<and> (a = 240 \<longrightarrow> 144 \<le> b) \<and> (a = 244 \<longrightarrow> b \<le> 143) \<and> utf8_ok s)"

definition from_utf8 :: "string \<Rightarrow> string option" where
  "from_utf8 s = (if utf8_ok (map of_char s) then Some s else None)"

lemma utf8_ok_ascii: "\<forall>b\<in>set s. b < 128 \<Longrightarrow> utf8_ok s"
  by (induction s rule: utf8_ok.induct) simp_all

lemma from_utf8_ascii: "is_ascii s \<Longrightarrow> from_utf8 s = Some s"
  by (simp add: from_utf8_def is_ascii_def utf8_ok_ascii)

section \<open>The JSON library\<close>

text \<open>
  The operations of the \<open>serde_json\<close> crate the engine calls, over an abstract type \<open>'v\<close> of JSON
  values: \<open>Value::get\<close>, \<open>as_u64\<close>, \<open>as_str\<close>, \<open>as_array\<close>, the values of
  \<open>as_object\<close>, and \<open>from_str\<close> / \<open>from_slice\<close>.
\<close>

record 'v serde_json =
  jget :: "'v \<Rightarrow> string \<Rightarrow> 'v option"
  as_u64 :: "'v \<Rightarrow> u64 option"
  as_str :: "'v \<Rightarrow> string option"
  as_array :: "'v \<Rightarrow> 'v list option"
  object_values :: "'v \<Rightarrow> 'v list option"
  from_str :: "string \<Rightarrow> 'v option"

definition get_u64 :: "'v serde_json \<Rightarrow> 'v \<Rightarrow> string \<Rightarrow> u64" where
  "get_u64 J v k = (case Option.bind (jget J v k) (as_u64 J) of None \<Rightarrow> 0 | Some n \<Rightarrow> n)"

definition get_str :: "'v serde_json \<Rightarrow> 'v \<Rightarrow> string \<Rightarrow> string option" where
  "get_str J v k = Option.bind (jget J v k) (as_str J)"

text \<open>A concrete JSON value type, used to instantiate the library in examples.\<close>

datatype jvalue =
    JNull
  | JBool bool
  | JUInt u64
  | JStr string
  | JArr "jvalue list"
  | JObj "(string \<times> jvalue) list"

fun jv_get :: "jvalue \<Rightarrow> string \<Rightarrow> jvalue option" where
  "jv_get (JObj kvs) k = map_of kvs k"
| "jv_get _ k = None"

fun jv_u64 :: "jvalue \<Rightarrow> u64 option" where
  "jv_u64 (JUInt n) = Some n"
| "jv_u64 _ = None"

fun jv_str :: "jvalue \<Rightarrow> string option" where
  "jv_str (JStr s) = Some s"
| "jv_str _ = None"

fun jv_arr :: "jvalue \<Rightarrow> jvalue list option" where
  "jv_arr (JArr vs) = Some vs"
| "jv_arr _ = None"

fun jv_obj :: "jvalue \<Rightarrow> jvalue list option" where
  "jv_obj (JObj kvs) = Some (map snd kvs)"
| "jv_obj _ = None"

definition jv_ops :: "(string \<Rightarrow> jvalue option) \<Rightarrow> jvalue serde_json" where
  "jv_ops parse = \<lparr>jget = jv_get, as_u64 = jv_u64, as_str = jv_str, as_array = jv_arr,
     object_values = jv_obj, from_str = parse\<rparr>"

section \<open>Lists, options and sums\<close>

text \<open>The server-sent-event framing the parsers share: the JSON payload of a \<open>data:\<close> line.\<close>

definition is_Inr :: "'e + 'a \<Rightarrow> bool" where
  "is_Inr r \<longleftrightarrow> (case r of Inl _ \<Rightarrow> False | Inr _ \<Rightarrow> True)"

definition ok_or :: "'e \<Rightarrow> 'a option \<Rightarrow> 'e + 'a" where
  "ok_or e x = (case x of None \<Rightarrow> Inl e | Some a \<Rightarrow> Inr a)"

definition bind_res :: "'e + 'a \<Rightarrow> ('a \<Rightarrow> 'e + 'b) \<Rightarrow> 'e + 'b" where
  "bind_res r f = (case r of Inl e \<Rightarrow> Inl e | Inr a \<Rightarrow> f a)"

lemma ok_or_simps [simp]: "ok_or e None = Inl e" "ok_or e (Some a) = Inr a"
  by (simp_all add: ok_or_def)

lemma ok_or_eq_Inr [simp]: "ok_or e x = Inr a \<longleftrightarrow> x = Some a"
  by (cases x) auto

lemma ok_or_eq_Inl [simp]: "ok_or e x = Inl e' \<longleftrightarrow> x = None \<and> e' = e"
  by (cases x) auto

lemma bind_res_simps [simp]: "bind_res (Inl e) f = Inl e" "bind_res (Inr a) f = f a"
  by (simp_all add: bind_res_def)

lemma bind_res_eq_Inr: "bind_res r f = Inr b \<longleftrightarrow> (\<exists>a. r = Inr a \<and> f a = Inr b)"
  by (cases r) auto

lemma bind_res_InrE [elim!]:
  assumes "bind_res r f = Inr b"
  obtains a where "r = Inr a" "f a = Inr b"
  using assms by (cases r) auto

lemma find_Some_mem: "List.find P xs = Some x \<Longrightarrow> x \<in> set xs \<and> P x"
  by (auto simp: find_Some_iff)

lemma find_None_ball: "List.find P xs = None \<longleftrightarrow> (\<forall>x\<in>set xs. \<not> P x)"
  by (auto simp: find_None_iff)

lemma find_append: "List.find P (xs @ ys) = (case List.find P xs of None \<Rightarrow> List.find P ys | Some x \<Rightarrow> Some x)"
  by (induction xs) auto


section \<open>Command systems\<close>

text \<open>
  The interface every stateful component offers its invariant proofs: the effect of one command
  and an invariant that the initial state has and every command keeps. The invariant then holds
  after every sequence of commands.
\<close>

locale command_system =
  fixes exec :: "'c \<Rightarrow> 's \<Rightarrow> 's"
    and inv :: "'s \<Rightarrow> bool"
    and init :: 's
  assumes inv_init: "inv init"
    and inv_exec: "inv s \<Longrightarrow> inv (exec c s)"
begin

lemma inv_fold: "inv s \<Longrightarrow> inv (fold exec cs s)"
  by (induction cs arbitrary: s) (simp_all add: inv_exec)

lemma inv_run: "inv (fold exec cs init)"
  by (rule inv_fold) (rule inv_init)

end

text \<open>The same under a side condition on the commands, for properties that some commands may end.\<close>

locale guarded_system =
  fixes exec :: "'c \<Rightarrow> 's \<Rightarrow> 's"
    and ok :: "'c \<Rightarrow> bool"
    and inv :: "'s \<Rightarrow> bool"
  assumes ok_exec: "ok c \<Longrightarrow> inv s \<Longrightarrow> inv (exec c s)"
begin

lemma ok_fold: "list_all ok cs \<Longrightarrow> inv s \<Longrightarrow> inv (fold exec cs s)"
  by (induction cs arbitrary: s) (simp_all add: ok_exec)

end

sublocale command_system \<subseteq> guarded_system exec "\<lambda>_. True" inv
  by unfold_locales (rule inv_exec)

end
