(* ===== verification/Decimal.thy ===== *)
theory Decimal
  imports Engine_Prelude
begin

text \<open>
  Decimal integers as the sources read and write them: \<open>Display\<close> and \<open>FromStr\<close> of the machine
  integers, and the canonical decimal strings that carry money legs in stored payloads
  (\<open>src/crates/registry/src/pricing/tariffs.rs\<close>, module \<open>i128_string\<close>).
\<close>

section \<open>Printing and parsing\<close>

definition digit_char :: "nat \<Rightarrow> char" where
  "digit_char d = char_of (48 + d)"

definition is_ascii_digit :: "char \<Rightarrow> bool" where
  "is_ascii_digit c \<longleftrightarrow> 48 \<le> (of_char c :: nat) \<and> (of_char c :: nat) \<le> 57"

definition digit_value :: "char \<Rightarrow> nat" where
  "digit_value c = of_char c - 48"

fun digits_of :: "nat \<Rightarrow> string" where
  "digits_of n = (if n < 10 then [digit_char n] else digits_of (n div 10) @ [digit_char (n mod 10)])"

declare digits_of.simps [simp del]

definition int_to_string :: "int \<Rightarrow> string" where
  "int_to_string v = (if v < 0 then CHR ''-'' # digits_of (nat (- v)) else digits_of (nat v))"

text \<open>The digits of a non-empty decimal string, without a bound; the range test of the integer type
  follows.\<close>

definition digits_value :: "string \<Rightarrow> nat" where
  "digits_value s = foldl (\<lambda>acc c. 10 * acc + digit_value c) 0 s"

definition parse_digits :: "string \<Rightarrow> nat option" where
  "parse_digits s = (if s \<noteq> [] \<and> list_all is_ascii_digit s then Some (digits_value s) else None)"

definition parse_int :: "string \<Rightarrow> int option" where
  "parse_int s =
     (case s of
        c # r \<Rightarrow>
          if c = CHR ''-'' then map_option (\<lambda>n. - int n) (parse_digits r)
          else if c = CHR ''+'' then map_option int (parse_digits r)
          else map_option int (parse_digits s)
      | [] \<Rightarrow> None)"

definition parse_i128 :: "string \<Rightarrow> i128 option" where
  "parse_i128 s = Option.bind (parse_int s) i128_try_from"

text \<open>Unsigned integers take an optional plus sign.\<close>

definition parse_u64 :: "string \<Rightarrow> u64 option" where
  "parse_u64 s =
     Option.bind (case s of c # r \<Rightarrow> if c = CHR ''+'' then parse_digits r else parse_digits s
        | [] \<Rightarrow> None)
       (\<lambda>n. if n < 2 ^ 64 then Some (of_nat n) else None)"

section \<open>Canonical money legs\<close>

definition i128_string_serialize :: "i128 \<Rightarrow> string" where
  "i128_string_serialize v = int_to_string v"

definition i128_string_deserialize :: "string \<Rightarrow> i128 option" where
  "i128_string_deserialize raw =
     Option.bind (parse_i128 raw) (\<lambda>v. if raw \<noteq> int_to_string v then None else Some v)"

section \<open>Round trips\<close>

lemma digit_char_value: "d < 10 \<Longrightarrow> digit_value (digit_char d) = d \<and> is_ascii_digit (digit_char d)"
  by (simp add: digit_value_def digit_char_def is_ascii_digit_def of_char_of take_bit_nat_def)

lemma digits_of_ok: "digits_of n \<noteq> [] \<and> list_all is_ascii_digit (digits_of n) \<and> digits_value (digits_of n) = n"
proof (induction n rule: digits_of.induct)
  case (1 n)
  show ?case
  proof (cases "n < 10")
    case True
    then show ?thesis
      by (subst (1 2 3) digits_of.simps) (simp add: digits_value_def digit_char_value)
  next
    case False
    then show ?thesis
      using 1 by (subst (1 2 3) digits_of.simps) (simp add: digits_value_def digit_char_value)
  qed
qed

lemma digits_of_head: "hd (digits_of n) \<noteq> CHR ''-'' \<and> hd (digits_of n) \<noteq> CHR ''+''"
proof -
  have "is_ascii_digit (hd (digits_of n))"
    using digits_of_ok [of n] by (cases "digits_of n") simp_all
  then show ?thesis by (auto simp: is_ascii_digit_def)
qed

lemma parse_digits_of [simp]: "parse_digits (digits_of n) = Some n"
  using digits_of_ok [of n] by (simp add: parse_digits_def)

lemma parse_int_to_string [simp]: "parse_int (int_to_string v) = Some v"
proof (cases "v < 0")
  case False
  then show ?thesis
    using digits_of_ok [of "nat v"] digits_of_head [of "nat v"] parse_digits_of [of "nat v"]
    by (cases "digits_of (nat v)") (simp_all add: parse_int_def int_to_string_def)
qed (simp add: parse_int_def int_to_string_def)

lemma int_to_string_inject: "int_to_string v = int_to_string w \<longleftrightarrow> v = w"
  using parse_int_to_string by (metis option.inject)

text \<open>Exactly the printed forms of the values in range are accepted.\<close>

lemma i128_string_canonical:
  "i128_string_deserialize raw = Some v \<longleftrightarrow> in_i128 v \<and> raw = i128_string_serialize v"
  by (auto simp: i128_string_deserialize_def i128_string_serialize_def parse_i128_def
      bind_eq_Some_conv i128_try_from_def)

end
