(* ===== verification/Metering_Anthropic.thy ===== *)
theory Metering_Anthropic
  imports Decimal
begin

text \<open>
  The crate root of \<open>src/crates/metering\<close> (\<open>lib.rs\<close>): the Anthropic token buckets and
  rate card, the heuristic tariff matcher with its override families, the audited admission
  identity, the exact cost arithmetic with its multipliers, and the usage parsers for plain JSON
  and server-sent-event responses.
\<close>

section \<open>Data\<close>

datatype tariff_identity_error =
    InvalidPricedTimestamp
  | UnsupportedModelIdentity
  | UnsupportedModifier

record usage =
  input_tokens :: u64
  output_tokens :: u64
  cache_read_tokens :: u64
  cache_write_5m_tokens :: u64
  cache_write_1h_tokens :: u64
  web_search_requests :: u64

definition usage_default :: usage where
  "usage_default = \<lparr>input_tokens = 0, output_tokens = 0, cache_read_tokens = 0,
     cache_write_5m_tokens = 0, cache_write_1h_tokens = 0, web_search_requests = 0\<rparr>"

definition total_tokens :: "usage \<Rightarrow> u64" where
  "total_tokens u = input_tokens u + output_tokens u + cache_read_tokens u
     + cache_write_5m_tokens u + cache_write_1h_tokens u"

definition usage_is_zero :: "usage \<Rightarrow> bool" where
  "usage_is_zero u \<longleftrightarrow> total_tokens u = 0 \<and> web_search_requests u = 0"

definition usage_add :: "usage \<Rightarrow> usage \<Rightarrow> usage" where
  "usage_add u v = \<lparr>
     input_tokens = input_tokens u + input_tokens v,
     output_tokens = output_tokens u + output_tokens v,
     cache_read_tokens = cache_read_tokens u + cache_read_tokens v,
     cache_write_5m_tokens = cache_write_5m_tokens u + cache_write_5m_tokens v,
     cache_write_1h_tokens = cache_write_1h_tokens u + cache_write_1h_tokens v,
     web_search_requests = web_search_requests u + web_search_requests v\<rparr>"

record prices =
  pr_input :: i128
  pr_output :: i128
  pr_cache_read :: i128
  pr_cache_write_5m :: i128
  pr_cache_write_1h :: i128

definition WEB_SEARCH_NANO :: i128 where
  "WEB_SEARCH_NANO = 10000000"

definition OPUS_CURRENT_PRICES :: prices where
  "OPUS_CURRENT_PRICES = \<lparr>pr_input = 5000, pr_output = 25000, pr_cache_read = 500,
     pr_cache_write_5m = 6250, pr_cache_write_1h = 10000\<rparr>"

definition MAX_PRICES :: prices where
  "MAX_PRICES = \<lparr>pr_input = 15000, pr_output = 75000, pr_cache_read = 1500,
     pr_cache_write_5m = 18750, pr_cache_write_1h = 30000\<rparr>"

definition FAST_OPUS_CURRENT_PRICES :: prices where
  "FAST_OPUS_CURRENT_PRICES = \<lparr>pr_input = 10000, pr_output = 50000, pr_cache_read = 1000,
     pr_cache_write_5m = 12500, pr_cache_write_1h = 20000\<rparr>"

definition FAST_OPUS_47_PRICES :: prices where
  "FAST_OPUS_47_PRICES = \<lparr>pr_input = 30000, pr_output = 150000, pr_cache_read = 3000,
     pr_cache_write_5m = 37500, pr_cache_write_1h = 60000\<rparr>"

definition FABLE_5_PRICES :: prices where
  "FABLE_5_PRICES = \<lparr>pr_input = 10000, pr_output = 50000, pr_cache_read = 1000,
     pr_cache_write_5m = 12500, pr_cache_write_1h = 20000\<rparr>"

definition OPUS_LEGACY_PRICES :: prices where
  "OPUS_LEGACY_PRICES = \<lparr>pr_input = 15000, pr_output = 75000, pr_cache_read = 1500,
     pr_cache_write_5m = 18750, pr_cache_write_1h = 30000\<rparr>"

definition SONNET_STANDARD_PRICES :: prices where
  "SONNET_STANDARD_PRICES = \<lparr>pr_input = 3000, pr_output = 15000, pr_cache_read = 300,
     pr_cache_write_5m = 3750, pr_cache_write_1h = 6000\<rparr>"

definition SONNET5_INTRO_PRICES :: prices where
  "SONNET5_INTRO_PRICES = \<lparr>pr_input = 2000, pr_output = 10000, pr_cache_read = 200,
     pr_cache_write_5m = 2500, pr_cache_write_1h = 4000\<rparr>"

definition SONNET5_STD_START :: i64 where
  "SONNET5_STD_START = 1788220800"

definition HAIKU_45_PRICES :: prices where
  "HAIKU_45_PRICES = \<lparr>pr_input = 1000, pr_output = 5000, pr_cache_read = 100,
     pr_cache_write_5m = 1250, pr_cache_write_1h = 2000\<rparr>"

definition HAIKU_35_PRICES :: prices where
  "HAIKU_35_PRICES = \<lparr>pr_input = 800, pr_output = 4000, pr_cache_read = 80,
     pr_cache_write_5m = 1000, pr_cache_write_1h = 1600\<rparr>"

definition HAIKU_3_PRICES :: prices where
  "HAIKU_3_PRICES = \<lparr>pr_input = 250, pr_output = 1250, pr_cache_read = 25,
     pr_cache_write_5m = 313, pr_cache_write_1h = 500\<rparr>"

lemmas price_tables =
  OPUS_CURRENT_PRICES_def MAX_PRICES_def FAST_OPUS_CURRENT_PRICES_def FAST_OPUS_47_PRICES_def
  FABLE_5_PRICES_def OPUS_LEGACY_PRICES_def SONNET_STANDARD_PRICES_def SONNET5_INTRO_PRICES_def
  HAIKU_45_PRICES_def HAIKU_35_PRICES_def HAIKU_3_PRICES_def

section \<open>Tariff matching\<close>

definition anthropic_tariff_branch_at ::
    "(string \<Rightarrow> string) \<Rightarrow> string \<Rightarrow> i64 \<Rightarrow> (string \<times> prices) option" where
  "anthropic_tariff_branch_at to_lowercase model now_unix =
     (let m = to_lowercase model; has = str_contains m in
      if has ''fable'' \<or> has ''mythos'' then
        Some (''anthropic/standard/fable-5'', FABLE_5_PRICES)
      else if m = ''claude-opus-5'' \<or> has ''opus-4-8'' \<or> has ''opus-4-7'' \<or> has ''opus-4-6''
          \<or> has ''opus-4-5'' then
        Some (''anthropic/standard/opus-current'', OPUS_CURRENT_PRICES)
      else if has ''opus-4-1'' \<or> m = ''claude-opus-4-20250514'' \<or> m = ''claude-opus-4''
          \<or> has ''opus-3'' \<or> has ''3-opus'' then
        Some (''anthropic/standard/opus-legacy'', OPUS_LEGACY_PRICES)
      else if has ''sonnet-5'' then
        Some (if now_unix < SONNET5_STD_START
              then (''anthropic/standard/sonnet-5-intro'', SONNET5_INTRO_PRICES)
              else (''anthropic/standard/sonnet-current'', SONNET_STANDARD_PRICES))
      else if has ''sonnet'' then
        Some (''anthropic/standard/sonnet-current'', SONNET_STANDARD_PRICES)
      else if has ''haiku'' then
        (if has ''haiku-4-5'' then Some (''anthropic/standard/haiku-4-5'', HAIKU_45_PRICES)
         else if has ''haiku-3-5'' \<or> has ''3-5-haiku'' then
           Some (''anthropic/standard/haiku-3-5'', HAIKU_35_PRICES)
         else Some (''anthropic/standard/haiku-3'', HAIKU_3_PRICES))
      else None)"

definition model_prices_matched_at :: "(string \<Rightarrow> string) \<Rightarrow> string \<Rightarrow> i64 \<Rightarrow> prices option" where
  "model_prices_matched_at to_lowercase model now_unix =
     map_option snd (anthropic_tariff_branch_at to_lowercase model now_unix)"

definition model_prices_at :: "(string \<Rightarrow> string) \<Rightarrow> string \<Rightarrow> i64 \<Rightarrow> prices" where
  "model_prices_at to_lowercase model now_unix =
     (case model_prices_matched_at to_lowercase model now_unix of
        None \<Rightarrow> MAX_PRICES | Some p \<Rightarrow> p)"

definition model_prices :: "(string \<Rightarrow> string) \<Rightarrow> string \<Rightarrow> prices" where
  "model_prices to_lowercase model = model_prices_at to_lowercase model SONNET5_STD_START"

definition model_prices_reserve_at :: "(string \<Rightarrow> string) \<Rightarrow> string \<Rightarrow> i64 \<Rightarrow> prices" where
  "model_prices_reserve_at to_lowercase model now_unix =
     (case model_prices_matched_at to_lowercase model now_unix of
        None \<Rightarrow> MAX_PRICES | Some p \<Rightarrow> p)"

definition model_prices_reserve :: "(string \<Rightarrow> string) \<Rightarrow> string \<Rightarrow> prices" where
  "model_prices_reserve to_lowercase model =
     model_prices_reserve_at to_lowercase model SONNET5_STD_START"

definition model_prices_for_speed_at ::
    "(string \<Rightarrow> string) \<Rightarrow> string \<Rightarrow> i64 \<Rightarrow> bool \<Rightarrow> prices" where
  "model_prices_for_speed_at to_lowercase model now_unix fast =
     (if \<not> fast then model_prices_at to_lowercase model now_unix
      else let m = to_ascii_lowercase model in
        if m = ''claude-opus-5'' \<or> str_contains m ''opus-4-8'' then FAST_OPUS_CURRENT_PRICES
        else FAST_OPUS_47_PRICES)"

definition model_prices_reserve_for_speed_at ::
    "(string \<Rightarrow> string) \<Rightarrow> string \<Rightarrow> i64 \<Rightarrow> bool \<Rightarrow> prices" where
  "model_prices_reserve_for_speed_at to_lowercase model now_unix fast =
     (if fast then model_prices_for_speed_at to_lowercase model now_unix True
      else model_prices_reserve_at to_lowercase model now_unix)"

definition premium_ceil :: "i64 \<Rightarrow> i128 \<Rightarrow> i128" where
  "premium_ceil basis_points value =
     trunc_div (add_i128 (mul_i128 value (max basis_points 0)) 9999) 10000"

definition premium_prices_ceil :: "prices \<Rightarrow> i64 \<Rightarrow> prices" where
  "premium_prices_ceil p basis_points = \<lparr>
     pr_input = premium_ceil basis_points (pr_input p),
     pr_output = premium_ceil basis_points (pr_output p),
     pr_cache_read = premium_ceil basis_points (pr_cache_read p),
     pr_cache_write_5m = premium_ceil basis_points (pr_cache_write_5m p),
     pr_cache_write_1h = premium_ceil basis_points (pr_cache_write_1h p)\<rparr>"

definition anthropic_matched_tariff_at ::
    "(string \<Rightarrow> string) \<Rightarrow> string \<Rightarrow> i64 \<Rightarrow> bool \<Rightarrow> (string \<times> prices) option" where
  "anthropic_matched_tariff_at to_lowercase model now_unix fast =
     (if \<not> fast then anthropic_tariff_branch_at to_lowercase model now_unix
      else let m = to_ascii_lowercase model in
        if m = ''claude-opus-5'' \<or> str_contains m ''opus-4-8''
        then Some (''anthropic/fast/opus-current'', FAST_OPUS_CURRENT_PRICES)
        else Some (''anthropic/fast/opus-4-7-conservative'', FAST_OPUS_47_PRICES))"

definition anthropic_compiled_tariffs_at :: "i64 \<Rightarrow> (string \<times> prices) list" where
  "anthropic_compiled_tariffs_at now_unix =
     [(''anthropic/standard/fable-5'', FABLE_5_PRICES),
      (''anthropic/standard/opus-current'', OPUS_CURRENT_PRICES),
      (''anthropic/standard/opus-legacy'', OPUS_LEGACY_PRICES),
      (''anthropic/standard/sonnet-current'', SONNET_STANDARD_PRICES),
      (''anthropic/standard/haiku-4-5'', HAIKU_45_PRICES),
      (''anthropic/standard/haiku-3-5'', HAIKU_35_PRICES),
      (''anthropic/standard/haiku-3'', HAIKU_3_PRICES),
      (''anthropic/fast/opus-current'', FAST_OPUS_CURRENT_PRICES),
      (''anthropic/fast/opus-4-7-conservative'', FAST_OPUS_47_PRICES)]
     @ (if now_unix < SONNET5_STD_START
        then [(''anthropic/standard/sonnet-5-intro'', SONNET5_INTRO_PRICES)] else [])"

section \<open>Audited admission identity\<close>

datatype anthropic_speed = Standard | Fast

datatype anthropic_inference_geo = Global | Us

record anthropic_admission_modifiers =
  am_speed :: anthropic_speed
  am_inference_geo :: anthropic_inference_geo

definition inference_geo_basis_points :: "anthropic_admission_modifiers \<Rightarrow> i64" where
  "inference_geo_basis_points m =
     (case am_inference_geo m of Global \<Rightarrow> 10000 | Us \<Rightarrow> 11000)"

record anthropic_admission_tariff_identity =
  aa_canonical_model_id :: string
  aa_alias_generation :: i64
  aa_tariff_schedule_id :: string
  aa_schedule_effective_from :: i64
  aa_effective_reserve_prices :: prices
  aa_modifiers :: anthropic_admission_modifiers

definition ANTHROPIC_ALIAS_GENERATION :: i64 where
  "ANTHROPIC_ALIAS_GENERATION = 2"

definition ANTHROPIC_DATED_SNAPSHOT_ALIASES :: "(string \<times> string) list" where
  "ANTHROPIC_DATED_SNAPSHOT_ALIASES =
     [(''claude-haiku-4-5-20251001'', ''claude-haiku-4-5''),
      (''claude-opus-4-5-20251101'', ''claude-opus-4-5''),
      (''claude-sonnet-4-5-20250929'', ''claude-sonnet-4-5'')]"

definition canonical_alias_for :: "string \<Rightarrow> string" where
  "canonical_alias_for model_id =
     (case List.find (\<lambda>(alias, _). alias = model_id) ANTHROPIC_DATED_SNAPSHOT_ALIASES of
        None \<Rightarrow> model_id | Some (_, canonical) \<Rightarrow> canonical)"

definition anthropic_canonical_models :: "string list" where
  "anthropic_canonical_models =
     [''claude-opus-4-8'', ''claude-opus-4-7'', ''claude-opus-4-6'', ''claude-opus-4-5'',
      ''claude-sonnet-5'', ''claude-sonnet-4-6'', ''claude-sonnet-4-5'', ''claude-haiku-4-5'',
      ''claude-opus-5'', ''claude-fable-5'']"

definition anthropic_schedule_for ::
    "string \<Rightarrow> bool \<Rightarrow> i64 \<Rightarrow> tariff_identity_error + (string \<times> i64)" where
  "anthropic_schedule_for c fast priced_ts =
     (if fast \<and> c \<in> set [''claude-opus-4-8'', ''claude-opus-5''] then
        Inr (''anthropic/fast/opus-current/v1'', 0)
      else if fast then Inr (''anthropic/fast/opus-4-7-conservative/v1'', 0)
      else if c \<in> set [''claude-opus-4-8'', ''claude-opus-4-7'', ''claude-opus-4-6'',
          ''claude-opus-4-5'', ''claude-opus-5''] then
        Inr (''anthropic/standard/opus-current/v1'', 0)
      else if c = ''claude-fable-5'' then Inr (''anthropic/standard/fable-5/v1'', 0)
      else if c = ''claude-sonnet-5'' \<and> priced_ts < SONNET5_STD_START then
        Inr (''anthropic/standard/sonnet-5-intro/v1'', 0)
      else if c = ''claude-sonnet-5'' then
        Inr (''anthropic/standard/sonnet-current/v1'', SONNET5_STD_START)
      else if c \<in> set [''claude-sonnet-4-6'', ''claude-sonnet-4-5''] then
        Inr (''anthropic/standard/sonnet-current/v1'', 0)
      else if c = ''claude-haiku-4-5'' then Inr (''anthropic/standard/haiku-4-5/v1'', 0)
      else Inl UnsupportedModelIdentity)"

definition anthropic_tariff_capability_at ::
    "(string \<Rightarrow> string) \<Rightarrow> string \<Rightarrow> i64 \<Rightarrow> anthropic_admission_modifiers
      \<Rightarrow> tariff_identity_error + anthropic_admission_tariff_identity" where
  "anthropic_tariff_capability_at to_lowercase requested_model_id priced_ts modifiers =
     (if priced_ts \<le> 0 then Inl InvalidPricedTimestamp
      else let requested = canonical_alias_for requested_model_id in
        case List.find (\<lambda>canonical. requested = canonical) anthropic_canonical_models of
          None \<Rightarrow> Inl UnsupportedModelIdentity
        | Some canonical \<Rightarrow>
            (let fast = (am_speed modifiers = Fast) in
             case anthropic_schedule_for canonical fast priced_ts of
               Inl e \<Rightarrow> Inl e
             | Inr (schedule_id, effective_from) \<Rightarrow>
                 (let base = model_prices_reserve_for_speed_at to_lowercase canonical priced_ts fast;
                      effective = (if am_inference_geo modifiers = Us
                        then premium_prices_ceil base (inference_geo_basis_points modifiers)
                        else base)
                  in Inr \<lparr>aa_canonical_model_id = canonical,
                       aa_alias_generation = ANTHROPIC_ALIAS_GENERATION,
                       aa_tariff_schedule_id = schedule_id,
                       aa_schedule_effective_from = effective_from,
                       aa_effective_reserve_prices = effective,
                       aa_modifiers = modifiers\<rparr>)))"

section \<open>Cost\<close>

definition cost_nanodollars :: "usage \<Rightarrow> prices \<Rightarrow> i128" where
  "cost_nanodollars u p =
     add_i128 (add_i128 (add_i128 (add_i128 (add_i128
       (mul_i128 (uint (input_tokens u)) (pr_input p))
       (mul_i128 (uint (output_tokens u)) (pr_output p)))
       (mul_i128 (uint (cache_read_tokens u)) (pr_cache_read p)))
       (mul_i128 (uint (cache_write_5m_tokens u)) (pr_cache_write_5m p)))
       (mul_i128 (uint (cache_write_1h_tokens u)) (pr_cache_write_1h p)))
       (mul_i128 (uint (web_search_requests u)) WEB_SEARCH_NANO)"

record cost_breakdown_t =
  cb_input :: i128
  cb_output :: i128
  cb_cache_read :: i128
  cb_cache_write_5m :: i128
  cb_cache_write_1h :: i128
  cb_web_search :: i128

definition cb_total :: "cost_breakdown_t \<Rightarrow> i128" where
  "cb_total b = add_i128 (add_i128 (add_i128 (add_i128 (add_i128 (cb_input b) (cb_output b))
     (cb_cache_read b)) (cb_cache_write_5m b)) (cb_cache_write_1h b)) (cb_web_search b)"

definition apply_multiplier :: "i128 \<Rightarrow> i64 \<Rightarrow> i128" where
  "apply_multiplier nano mult_bp =
     (if 0 \<le> nano then trunc_div (add_i128 (mul_i128 nano mult_bp) 5000) 10000
      else trunc_div (sub_i128 (mul_i128 nano mult_bp) 5000) 10000)"

definition apply_token_multiplier :: "cost_breakdown_t \<Rightarrow> i64 \<Rightarrow> cost_breakdown_t" where
  "apply_token_multiplier b basis_points = \<lparr>
     cb_input = apply_multiplier (cb_input b) basis_points,
     cb_output = apply_multiplier (cb_output b) basis_points,
     cb_cache_read = apply_multiplier (cb_cache_read b) basis_points,
     cb_cache_write_5m = apply_multiplier (cb_cache_write_5m b) basis_points,
     cb_cache_write_1h = apply_multiplier (cb_cache_write_1h b) basis_points,
     cb_web_search = cb_web_search b\<rparr>"

definition cost_breakdown :: "usage \<Rightarrow> prices \<Rightarrow> cost_breakdown_t" where
  "cost_breakdown u p = \<lparr>
     cb_input = mul_i128 (uint (input_tokens u)) (pr_input p),
     cb_output = mul_i128 (uint (output_tokens u)) (pr_output p),
     cb_cache_read = mul_i128 (uint (cache_read_tokens u)) (pr_cache_read p),
     cb_cache_write_5m = mul_i128 (uint (cache_write_5m_tokens u)) (pr_cache_write_5m p),
     cb_cache_write_1h = mul_i128 (uint (cache_write_1h_tokens u)) (pr_cache_write_1h p),
     cb_web_search = mul_i128 (uint (web_search_requests u)) WEB_SEARCH_NANO\<rparr>"

definition OVERDRAFT_NANO :: i128 where
  "OVERDRAFT_NANO = 1000000000"

definition apply_multiplier_floor :: "i128 \<Rightarrow> i64 \<Rightarrow> i128" where
  "apply_multiplier_floor nano mult_bp = trunc_div (mul_i128 nano mult_bp) 10000"

definition cost_with_multiplier :: "(string \<Rightarrow> string) \<Rightarrow> usage \<Rightarrow> string \<Rightarrow> i64 \<Rightarrow> i128" where
  "cost_with_multiplier to_lowercase u model mult_bp =
     apply_multiplier (cost_nanodollars u (model_prices to_lowercase model)) mult_bp"

text \<open>Amounts for people and logs: whole dollars and six digits of the fraction, rounded towards zero
  (the format \<open>{:06}\<close> fills with zeros on the left).\<close>

definition NANO_PER_USD :: i128 where
  "NANO_PER_USD = 1000000000"

definition zero_padded :: "nat \<Rightarrow> nat \<Rightarrow> string" where
  "zero_padded width n = replicate (width - length (digits_of n)) (CHR ''0'') @ digits_of n"

definition nano_to_usd_string :: "i128 \<Rightarrow> string" where
  "nano_to_usd_string nano =
     (let n = \<bar>nano\<bar>; whole = n div NANO_PER_USD; micro = (n mod NANO_PER_USD) div 1000
      in (if nano < 0 then ''-'' else []) @ ''$'' @ digits_of (nat whole) @ ''.'' @ zero_padded 6 (nat micro))"

section \<open>Usage parsing\<close>

definition usage_from_value :: "'v serde_json \<Rightarrow> 'v \<Rightarrow> usage" where
  "usage_from_value J u =
     (let g = get_u64 J u;
          split = jget J u ''cache_creation'';
          part = (\<lambda>k. case split of None \<Rightarrow> 0 | Some c \<Rightarrow> get_u64 J c k);
          cw5_split = part ''ephemeral_5m_input_tokens'';
          cw1_split = part ''ephemeral_1h_input_tokens'';
          cw_total = g ''cache_creation_input_tokens'';
          (cw5, cw1) = (if cw5_split + cw1_split = 0 \<and> cw_total > 0 then (cw_total, 0)
                        else (cw5_split, cw1_split));
          web = (case jget J u ''server_tool_use'' of None \<Rightarrow> 0
                 | Some s \<Rightarrow> get_u64 J s ''web_search_requests'')
      in \<lparr>input_tokens = g ''input_tokens'', output_tokens = g ''output_tokens'',
          cache_read_tokens = g ''cache_read_input_tokens'',
          cache_write_5m_tokens = cw5, cache_write_1h_tokens = cw1,
          web_search_requests = web\<rparr>)"

definition usage_from_response_json :: "'v serde_json \<Rightarrow> string \<Rightarrow> usage" where
  "usage_from_response_json J body =
     (case from_str J body of
        Some v \<Rightarrow> (case jget J v ''usage'' of None \<Rightarrow> usage_default | Some u \<Rightarrow> usage_from_value J u)
      | None \<Rightarrow> usage_default)"

definition speed_from_response_json :: "'v serde_json \<Rightarrow> string \<Rightarrow> string option" where
  "speed_from_response_json J body =
     Option.bind (from_str J body) (\<lambda>v. Option.bind (jget J v ''usage'') (\<lambda>u. get_str J u ''speed''))"

definition model_from_response_json :: "'v serde_json \<Rightarrow> string \<Rightarrow> string option" where
  "model_from_response_json J body = Option.bind (from_str J body) (\<lambda>v. get_str J v ''model'')"

text \<open>The framing every SSE reader repeats: the parsed payload of a raw line, if the line carries
  one.\<close>

definition sse_event :: "'v serde_json \<Rightarrow> string \<Rightarrow> 'v option" where
  "sse_event J raw =
     (case strip_prefix (trim_start raw) ''data:'' of
        None \<Rightarrow> None
      | Some r \<Rightarrow> (let json = trim r in
          if json = [] \<or> json = ''[DONE]'' then None else from_str J json))"

fun sse_has_error_lines :: "'v serde_json \<Rightarrow> string list \<Rightarrow> bool" where
  "sse_has_error_lines J [] = False"
| "sse_has_error_lines J (raw # rest) =
     (case sse_event J raw of
        Some v \<Rightarrow> get_str J v ''type'' = Some ''error'' \<or> sse_has_error_lines J rest
      | None \<Rightarrow> sse_has_error_lines J rest)"

definition sse_has_error :: "'v serde_json \<Rightarrow> string \<Rightarrow> bool" where
  "sse_has_error J sse = sse_has_error_lines J (str_lines sse)"

fun model_from_lines :: "'v serde_json \<Rightarrow> string list \<Rightarrow> string option" where
  "model_from_lines J [] = None"
| "model_from_lines J (raw # rest) =
     (case sse_event J raw of
        None \<Rightarrow> model_from_lines J rest
      | Some v \<Rightarrow> (case Option.bind (jget J v ''message'') (\<lambda>m. get_str J m ''model'') of
            Some m \<Rightarrow> Some m
          | None \<Rightarrow> model_from_lines J rest))"

definition model_from_sse :: "'v serde_json \<Rightarrow> string \<Rightarrow> string option" where
  "model_from_sse J sse = model_from_lines J (str_lines sse)"

fun speed_from_lines :: "'v serde_json \<Rightarrow> string list \<Rightarrow> string option" where
  "speed_from_lines J [] = None"
| "speed_from_lines J (raw # rest) =
     (case strip_prefix (trim_start raw) ''data:'' of
        None \<Rightarrow> speed_from_lines J rest
      | Some r \<Rightarrow> (case from_str J (trim r) of
            None \<Rightarrow> speed_from_lines J rest
          | Some value \<Rightarrow>
              (let usage = (case get_str J value ''type'' of
                     Some t \<Rightarrow>
                       if t = ''message_start'' then
                         Option.bind (jget J value ''message'') (\<lambda>m. jget J m ''usage'')
                       else if t = ''message_delta'' then jget J value ''usage''
                       else None
                   | None \<Rightarrow> None)
               in case Option.bind usage (\<lambda>u. get_str J u ''speed'') of
                    Some speed \<Rightarrow> Some speed
                  | None \<Rightarrow> speed_from_lines J rest)))"

definition speed_from_sse :: "'v serde_json \<Rightarrow> string \<Rightarrow> string option" where
  "speed_from_sse J sse = speed_from_lines J (str_lines sse)"

text \<open>The accumulator of \<open>usage_from_sse\<close>'s loop.\<close>

record sse_acc =
  acc_usage :: usage
  have_output_usage :: bool
  delta_bytes :: u64
  observed_web_search_requests :: u64

definition sse_acc_init :: sse_acc where
  "sse_acc_init = \<lparr>acc_usage = usage_default, have_output_usage = False, delta_bytes = 0,
     observed_web_search_requests = 0\<rparr>"

definition add_delta_field :: "'v serde_json \<Rightarrow> 'v \<Rightarrow> u64 \<Rightarrow> string \<Rightarrow> u64" where
  "add_delta_field J d n f =
     (case get_str J d f of None \<Rightarrow> n | Some t \<Rightarrow> sat_add_u64 n (of_nat (length t)))"

definition delta_field_bytes :: "'v serde_json \<Rightarrow> 'v \<Rightarrow> u64 \<Rightarrow> u64" where
  "delta_field_bytes J d n =
     foldl (add_delta_field J d) n [''text'', ''thinking'', ''partial_json'']"

definition sse_content_block_start :: "'v serde_json \<Rightarrow> 'v \<Rightarrow> sse_acc \<Rightarrow> sse_acc" where
  "sse_content_block_start J v a =
     (let block = jget J v ''content_block'' in
      if Option.bind block (\<lambda>b. get_str J b ''type'') = Some ''server_tool_use''
         \<and> Option.bind block (\<lambda>b. get_str J b ''name'') = Some ''web_search''
      then a\<lparr>observed_web_search_requests := sat_add_u64 (observed_web_search_requests a) 1\<rparr>
      else a)"

definition sse_content_block_delta :: "'v serde_json \<Rightarrow> 'v \<Rightarrow> sse_acc \<Rightarrow> sse_acc" where
  "sse_content_block_delta J v a =
     (case jget J v ''delta'' of None \<Rightarrow> a
      | Some d \<Rightarrow> a\<lparr>delta_bytes := delta_field_bytes J d (delta_bytes a)\<rparr>)"

definition sse_message_start :: "'v serde_json \<Rightarrow> 'v \<Rightarrow> sse_acc \<Rightarrow> sse_acc" where
  "sse_message_start J v a =
     (case Option.bind (jget J v ''message'') (\<lambda>m. jget J m ''usage'') of None \<Rightarrow> a
      | Some mu \<Rightarrow> (let s = usage_from_value J mu; u = acc_usage a in
          a\<lparr>acc_usage := s\<lparr>web_search_requests :=
               if web_search_requests s > 0 then web_search_requests s
               else web_search_requests u\<rparr>\<rparr>))"

definition sse_message_delta :: "'v serde_json \<Rightarrow> 'v \<Rightarrow> sse_acc \<Rightarrow> sse_acc" where
  "sse_message_delta J v a =
     (case jget J v ''usage'' of None \<Rightarrow> a
      | Some du \<Rightarrow>
          (let a1 = (case Option.bind (jget J du ''output_tokens'') (as_u64 J) of None \<Rightarrow> a
                 | Some n \<Rightarrow> a\<lparr>acc_usage := (acc_usage a)\<lparr>output_tokens := n\<rparr>,
                     have_output_usage := True\<rparr>)
           in case Option.bind (jget J du ''server_tool_use'')
                  (\<lambda>s. Option.bind (jget J s ''web_search_requests'') (as_u64 J)) of None \<Rightarrow> a1
              | Some w \<Rightarrow> a1\<lparr>acc_usage := (acc_usage a1)\<lparr>web_search_requests := w\<rparr>\<rparr>))"

definition sse_usage_step :: "'v serde_json \<Rightarrow> sse_acc \<Rightarrow> 'v \<Rightarrow> sse_acc" where
  "sse_usage_step J a v =
     (case get_str J v ''type'' of None \<Rightarrow> a
      | Some t \<Rightarrow>
          if t = ''content_block_start'' then sse_content_block_start J v a
          else if t = ''content_block_delta'' then sse_content_block_delta J v a
          else if t = ''message_start'' then sse_message_start J v a
          else if t = ''message_delta'' then sse_message_delta J v a
          else a)"

definition sse_usage_line :: "'v serde_json \<Rightarrow> sse_acc \<Rightarrow> string \<Rightarrow> sse_acc" where
  "sse_usage_line J a raw = (case sse_event J raw of None \<Rightarrow> a | Some v \<Rightarrow> sse_usage_step J a v)"

definition sse_usage_finish :: "sse_acc \<Rightarrow> usage" where
  "sse_usage_finish a =
     (let u = (acc_usage a)\<lparr>web_search_requests :=
            max (web_search_requests (acc_usage a)) (observed_web_search_requests a)\<rparr>
      in if have_output_usage a then u
         else u\<lparr>output_tokens := max (output_tokens u) (delta_bytes a)\<rparr>)"

definition usage_from_sse :: "'v serde_json \<Rightarrow> string \<Rightarrow> usage" where
  "usage_from_sse J sse =
     sse_usage_finish (foldl (sse_usage_line J) sse_acc_init (str_lines sse))"


section \<open>Exact arithmetic of the charge\<close>

text \<open>
  The specification of the charge in unbounded integers, and the range of per-token prices (far
  above every compiled tariff) for which the \<open>i128\<close> arithmetic cannot wrap on any \<open>u64\<close>
  counters.
\<close>

definition exact_cost :: "usage \<Rightarrow> prices \<Rightarrow> int" where
  "exact_cost u p =
     uint (input_tokens u) * pr_input p + uint (output_tokens u) * pr_output p
     + uint (cache_read_tokens u) * pr_cache_read p
     + uint (cache_write_5m_tokens u) * pr_cache_write_5m p
     + uint (cache_write_1h_tokens u) * pr_cache_write_1h p
     + uint (web_search_requests u) * 10000000"

text \<open>The SSE vocabulary of the properties: an event that reports a final output count, an event
  that overwrites the output count, and the bytes an event streams.\<close>

definition event_type :: "'v serde_json \<Rightarrow> 'v \<Rightarrow> string option" where
  "event_type J e = get_str J e ''type''"

definition delta_output :: "'v serde_json \<Rightarrow> 'v \<Rightarrow> u64 option" where
  "delta_output J e = (if event_type J e = Some ''message_delta''
     then Option.bind (jget J e ''usage'') (\<lambda>du. Option.bind (jget J du ''output_tokens'') (as_u64 J))
     else None)"

definition streamed_bytes :: "'v serde_json \<Rightarrow> 'v \<Rightarrow> int" where
  "streamed_bytes J e = (if event_type J e = Some ''content_block_delta''
     then case jget J e ''delta'' of None \<Rightarrow> 0
       | Some d \<Rightarrow> (\<Sum>f\<leftarrow>[''text'', ''thinking'', ''partial_json''].
           case get_str J d f of None \<Rightarrow> 0 | Some t \<Rightarrow> int (length t))
     else 0)"

definition sse_events :: "'v serde_json \<Rightarrow> string \<Rightarrow> 'v list" where
  "sse_events J sse = List.map_filter (sse_event J) (str_lines sse)"

text \<open>A stream of two text deltas and a closing count, for the examples.\<close>

definition example_delta :: jvalue where
  "example_delta = JObj [(''type'', JStr ''content_block_delta''),
     (''delta'', JObj [(''text'', JStr ''hello'')])]"

definition example_close :: jvalue where
  "example_close = JObj [(''type'', JStr ''message_delta''),
     (''usage'', JObj [(''output_tokens'', JUInt 7)])]"

definition example_json :: "jvalue serde_json" where
  "example_json = jv_ops (\<lambda>s. if s = ''D'' then Some example_delta
     else if s = ''C'' then Some example_close else None)"

definition example_sse :: string where
  "example_sse = ''data:D'' @ [CHR 0x0A] @ ''data:D'' @ [CHR 0x0A]"

definition price_ok :: "i128 \<Rightarrow> bool" where
  "price_ok p \<longleftrightarrow> 0 \<le> p \<and> p \<le> 2 ^ 40"

definition prices_ok :: "prices \<Rightarrow> bool" where
  "prices_ok p \<longleftrightarrow> price_ok (pr_input p) \<and> price_ok (pr_output p) \<and> price_ok (pr_cache_read p)
     \<and> price_ok (pr_cache_write_5m p) \<and> price_ok (pr_cache_write_1h p)"

definition prices_le :: "prices \<Rightarrow> prices \<Rightarrow> bool" where
  "prices_le p q \<longleftrightarrow> pr_input p \<le> pr_input q \<and> pr_output p \<le> pr_output q
     \<and> pr_cache_read p \<le> pr_cache_read q \<and> pr_cache_write_5m p \<le> pr_cache_write_5m q
     \<and> pr_cache_write_1h p \<le> pr_cache_write_1h q"

lemma price_ok_product:
  assumes "price_ok p"
  shows "0 \<le> uint (w :: u64) * p" "uint (w :: u64) * p \<le> 2 ^ 104"
  using mul_u64_price_bound assms by (simp_all add: price_ok_def)

lemma mul_price_exact [exact]: "price_ok p \<Longrightarrow> mul_i128 (uint (w :: u64)) p = uint w * p"
  using price_ok_product [of p w] by (intro mul_i128_exact) (simp add: in_i128_def)

lemma price_ok_web_search [simp]: "price_ok WEB_SEARCH_NANO"
  by (simp add: price_ok_def WEB_SEARCH_NANO_def)

lemma add6_i128_exact:
  fixes a b c d e f :: int
  assumes "0 \<le> a" "a \<le> 2 ^ 110" "0 \<le> b" "b \<le> 2 ^ 110" "0 \<le> c" "c \<le> 2 ^ 110"
    "0 \<le> d" "d \<le> 2 ^ 110" "0 \<le> e" "e \<le> 2 ^ 110" "0 \<le> f" "f \<le> 2 ^ 110"
  shows "add_i128 (add_i128 (add_i128 (add_i128 (add_i128 a b) c) d) e) f = a + b + c + d + e + f"
  using assms by (simp add: exact in_i128_def)

lemma cost_nanodollars_exact [exact]:
  assumes "prices_ok p"
  shows "cost_nanodollars u p = exact_cost u p"
proof -
  have b: "0 \<le> uint w * x" "uint w * x \<le> 2 ^ 110" if "price_ok x" for w :: u64 and x
    using price_ok_product [OF that, of w] by simp_all
  have ok: "price_ok (pr_input p)" "price_ok (pr_output p)" "price_ok (pr_cache_read p)"
      "price_ok (pr_cache_write_5m p)" "price_ok (pr_cache_write_1h p)" "price_ok 10000000"
    using assms price_ok_web_search by (simp_all add: prices_ok_def WEB_SEARCH_NANO_def)
  show ?thesis
    unfolding cost_nanodollars_def exact_cost_def WEB_SEARCH_NANO_def
    by (simp only: ok mul_price_exact, rule add6_i128_exact) (simp_all only: b ok)
qed

lemma cb_total_cost_breakdown: "cb_total (cost_breakdown u p) = cost_nanodollars u p"
  by (simp add: cb_total_def cost_breakdown_def cost_nanodollars_def)

lemma exact_cost_nonneg: "prices_ok p \<Longrightarrow> 0 \<le> exact_cost u p"
  by (simp add: exact_cost_def prices_ok_def price_ok_def)

lemma exact_cost_mono: "prices_le p q \<Longrightarrow> exact_cost u p \<le> exact_cost u q"
  unfolding exact_cost_def prices_le_def by (intro add_mono mult_left_mono) simp_all

subsection \<open>The rate card\<close>

lemma compiled_prices_ok: "(f, p) \<in> set (anthropic_compiled_tariffs_at t) \<Longrightarrow> prices_ok p"
  by (auto simp: anthropic_compiled_tariffs_at_def price_tables prices_ok_def price_ok_def
      split: if_splits)

lemma MAX_PRICES_ok [simp]: "prices_ok MAX_PRICES"
  by (simp add: price_tables prices_ok_def price_ok_def)

lemma tariff_branch_compiled:
  "anthropic_tariff_branch_at lc m t = Some (f, p)
   \<Longrightarrow> (f, p) \<in> set (anthropic_compiled_tariffs_at t) \<and> prices_le p MAX_PRICES"
  by (auto simp: anthropic_tariff_branch_at_def anthropic_compiled_tariffs_at_def Let_def
      price_tables prices_le_def split: if_splits)

lemma matched_tariff_compiled:
  "anthropic_matched_tariff_at lc m t fast = Some (f, p)
   \<Longrightarrow> (f, p) \<in> set (anthropic_compiled_tariffs_at t)"
  using tariff_branch_compiled [of lc m t f p]
  by (auto simp: anthropic_matched_tariff_at_def anthropic_compiled_tariffs_at_def Let_def
      split: if_splits)

lemma compiled_families_distinct: "distinct (map fst (anthropic_compiled_tariffs_at t))"
  by (simp add: anthropic_compiled_tariffs_at_def)

lemma model_prices_at_le_MAX: "prices_le (model_prices_at lc m t) MAX_PRICES"
  using tariff_branch_compiled [of lc m t]
  by (auto simp: model_prices_at_def model_prices_matched_at_def prices_le_def split: option.splits)

lemma model_prices_at_ok: "prices_ok (model_prices_at lc m t)"
  using tariff_branch_compiled [of lc m t] compiled_prices_ok [of _ _ t]
  by (force simp: model_prices_at_def model_prices_matched_at_def split: option.splits)

lemma model_prices_for_speed_ok: "prices_ok (model_prices_for_speed_at lc m t fast)"
  using model_prices_at_ok [of lc m t]
  by (auto simp: model_prices_for_speed_at_def Let_def price_tables prices_ok_def price_ok_def)

lemma matched_tariff_prices:
  "anthropic_matched_tariff_at lc m t fast = Some (f, p) \<Longrightarrow> model_prices_for_speed_at lc m t fast = p"
  by (auto simp: model_prices_for_speed_at_def anthropic_matched_tariff_at_def model_prices_at_def
      model_prices_matched_at_def Let_def split: if_splits)

lemma model_prices_reserve_eq:
  "model_prices_reserve_for_speed_at lc m t fast = model_prices_for_speed_at lc m t fast"
  by (simp add: model_prices_reserve_for_speed_at_def model_prices_reserve_at_def
      model_prices_for_speed_at_def model_prices_at_def)


subsection \<open>Multipliers\<close>

lemma apply_multiplier_nonneg_exact [exact]:
  assumes "0 \<le> nano" "nano \<le> 2 ^ 106" "0 \<le> bp" "bp \<le> 2 ^ 20"
  shows "apply_multiplier nano bp = (nano * bp + 5000) div 10000"
proof -
  have "nano * bp \<le> 2 ^ 106 * 2 ^ 20" using assms by (intro mult_mono) simp_all
  then have r: "0 \<le> nano * bp" "nano * bp \<le> 2 ^ 126" using assms by simp_all
  then have "in_i128 (nano * bp)" "in_i128 (nano * bp + 5000)" by (simp_all add: in_i128_def)
  then show ?thesis using assms r by (simp add: apply_multiplier_def exact trunc_div_def)
qed

lemma apply_multiplier_floor_exact [exact]:
  assumes "0 \<le> nano" "nano \<le> 2 ^ 106" "0 \<le> bp" "bp \<le> 2 ^ 20"
  shows "apply_multiplier_floor nano bp = nano * bp div 10000"
proof -
  have "nano * bp \<le> 2 ^ 106 * 2 ^ 20" using assms by (intro mult_mono) simp_all
  then have r: "0 \<le> nano * bp" "nano * bp \<le> 2 ^ 126" using assms by simp_all
  then have "in_i128 (nano * bp)" by (simp add: in_i128_def)
  then show ?thesis using r by (simp add: apply_multiplier_floor_def exact trunc_div_def)
qed

lemma half_up_div:
  fixes x :: int
  shows "2 * \<bar>10000 * ((x + 5000) div 10000) - x\<bar> \<le> 10000"
    "x div 10000 \<le> (x + 5000) div 10000" "(x + 5000) div 10000 \<le> x div 10000 + 1"
proof -
  have "10000 * ((x + 5000) div 10000) \<le> x + 5000" "x + 5000 < 10000 * ((x + 5000) div 10000) + 10000"
    by linarith+
  then show "2 * \<bar>10000 * ((x + 5000) div 10000) - x\<bar> \<le> 10000" by (simp add: abs_le_iff)
  show "x div 10000 \<le> (x + 5000) div 10000" by linarith
  show "(x + 5000) div 10000 \<le> x div 10000 + 1" by linarith
qed

lemma premium_ceil_exact [exact]:
  assumes "0 \<le> v" "v \<le> 2 ^ 30" "0 \<le> bp" "bp \<le> 2 ^ 20"
  shows "premium_ceil bp v = (v * bp + 9999) div 10000"
proof -
  have "v * bp \<le> 2 ^ 30 * 2 ^ 20" using assms by (intro mult_mono) simp_all
  moreover have n: "0 \<le> v * bp" using assms by simp
  ultimately have "in_i128 (v * bp)" "in_i128 (v * bp + 9999)" by (simp_all add: in_i128_def)
  then show ?thesis
    using assms n by (simp add: premium_ceil_def exact trunc_div_def max_def)
qed

text \<open>One bucket: rounding the charge half up never exceeds tokens times the ceiled price.\<close>

lemma bucket_charge_le_reserve:
  fixes w p bp :: int
  assumes "0 \<le> w"
  shows "(w * p * bp + 5000) div 10000 \<le> w * ((p * bp + 9999) div 10000)"
proof -
  let ?N = "(p * bp + 9999) div 10000"
  have "p * bp \<le> 10000 * ?N" by linarith
  then have "w * (p * bp) \<le> w * (10000 * ?N)" using assms by (rule mult_left_mono)
  then have "w * p * bp + 5000 \<le> 10000 * (w * ?N) + 5000" by (simp add: algebra_simps)
  then show ?thesis by linarith
qed

definition prices_small :: "prices \<Rightarrow> bool" where
  "prices_small p \<longleftrightarrow> (\<forall>x \<in> {pr_input p, pr_output p, pr_cache_read p, pr_cache_write_5m p,
     pr_cache_write_1h p}. 0 \<le> x \<and> x \<le> 2 ^ 20)"

lemma model_prices_for_speed_small: "prices_small (model_prices_for_speed_at lc m t fast)"
proof -
  have "prices_small p" if "(f, p) \<in> set (anthropic_compiled_tariffs_at t)" for f p
    using that by (auto simp: anthropic_compiled_tariffs_at_def price_tables prices_small_def
        split: if_splits)
  moreover have "prices_small MAX_PRICES" "prices_small FAST_OPUS_CURRENT_PRICES"
      "prices_small FAST_OPUS_47_PRICES"
    by (simp_all add: price_tables prices_small_def)
  ultimately show ?thesis
    using tariff_branch_compiled [of lc m t]
    by (force simp: model_prices_for_speed_at_def model_prices_at_def model_prices_matched_at_def
        Let_def split: option.splits)
qed

lemma premium_small:
  assumes "0 \<le> x" "x \<le> 2 ^ 20" "0 \<le> bp" "bp \<le> 2 ^ 20"
  shows "premium_ceil bp x = (x * bp + 9999) div 10000" "price_ok (premium_ceil bp x)"
proof -
  show e: "premium_ceil bp x = (x * bp + 9999) div 10000"
    using assms by (intro premium_ceil_exact) simp_all
  have "x * bp \<le> 1048576 * 1048576" using assms by (intro mult_mono) simp_all
  moreover have "0 \<le> x * bp" using assms by simp
  ultimately have "0 \<le> (x * bp + 9999) div 10000" "(x * bp + 9999) div 10000 \<le> 1099511627776"
    by linarith+
  then show "price_ok (premium_ceil bp x)" by (simp add: e price_ok_def)
qed

lemma bucket_premium:
  assumes "0 \<le> x" "x \<le> 2 ^ 20" "0 \<le> bp" "bp \<le> 2 ^ 20"
  shows "apply_multiplier (mul_i128 (uint (w :: u64)) x) bp \<le> uint w * premium_ceil bp x"
    "0 \<le> apply_multiplier (mul_i128 (uint w) x) bp"
    "apply_multiplier (mul_i128 (uint w) x) bp \<le> 2 ^ 110"
proof -
  have ok: "price_ok x" using assms by (simp add: price_ok_def)
  have b: "0 \<le> uint w * x" "uint w * x \<le> 2 ^ 106"
    using price_ok_product [OF ok, of w] by simp_all
  have e: "apply_multiplier (mul_i128 (uint w) x) bp = (uint w * x * bp + 5000) div 10000"
    using b assms by (simp add: mul_price_exact [OF ok] apply_multiplier_nonneg_exact)
  show le: "apply_multiplier (mul_i128 (uint w) x) bp \<le> uint w * premium_ceil bp x"
    unfolding e premium_small(1) [OF assms] by (rule bucket_charge_le_reserve) simp
  have "0 \<le> uint w * x * bp" using b assms by (intro mult_nonneg_nonneg) simp_all
  then show "0 \<le> apply_multiplier (mul_i128 (uint w) x) bp" unfolding e by linarith
  show "apply_multiplier (mul_i128 (uint w) x) bp \<le> 2 ^ 110"
    using le price_ok_product(2) [OF premium_small(2) [OF assms], of w] by simp
qed

lemma premium_charge_le_reserve:
  assumes "prices_small p" "0 \<le> bp" "bp \<le> 2 ^ 20"
  shows "cb_total (apply_token_multiplier (cost_breakdown u p) bp)
         \<le> cost_nanodollars u (premium_prices_ceil p bp)"
proof -
  have s: "0 \<le> pr_input p" "pr_input p \<le> 2 ^ 20" "0 \<le> pr_output p" "pr_output p \<le> 2 ^ 20"
      "0 \<le> pr_cache_read p" "pr_cache_read p \<le> 2 ^ 20"
      "0 \<le> pr_cache_write_5m p" "pr_cache_write_5m p \<le> 2 ^ 20"
      "0 \<le> pr_cache_write_1h p" "pr_cache_write_1h p \<le> 2 ^ 20"
    using assms(1) by (simp_all add: prices_small_def)
  note b = bucket_premium [OF s(1,2) assms(2,3)] bucket_premium [OF s(3,4) assms(2,3)]
      bucket_premium [OF s(5,6) assms(2,3)] bucket_premium [OF s(7,8) assms(2,3)]
      bucket_premium [OF s(9,10) assms(2,3)]
    and ok = premium_small(2) [OF s(1,2) assms(2,3)] premium_small(2) [OF s(3,4) assms(2,3)]
      premium_small(2) [OF s(5,6) assms(2,3)] premium_small(2) [OF s(7,8) assms(2,3)]
      premium_small(2) [OF s(9,10) assms(2,3)]
  have web: "mul_i128 (uint (web_search_requests u)) WEB_SEARCH_NANO
      = uint (web_search_requests u) * 10000000"
      "0 \<le> uint (web_search_requests u) * 10000000"
      "uint (web_search_requests u) * 10000000 \<le> 2 ^ 110"
    using price_ok_product [OF price_ok_web_search, of "web_search_requests u"]
    by (simp_all add: mul_price_exact, simp_all add: WEB_SEARCH_NANO_def)
  have "prices_ok (premium_prices_ceil p bp)"
    using ok by (simp add: prices_ok_def premium_prices_ceil_def)
  moreover have "cb_total (apply_token_multiplier (cost_breakdown u p) bp)
      \<le> exact_cost u (premium_prices_ceil p bp)"
    unfolding cb_total_def apply_token_multiplier_def cost_breakdown_def exact_cost_def
      premium_prices_ceil_def cost_breakdown_t.simps prices.simps web(1)
    by (subst add6_i128_exact) (intro b web add_mono order.refl)+
  ultimately show ?thesis by (simp add: cost_nanodollars_exact)
qed


subsection \<open>Server-sent events\<close>

lemma usage_from_sse_events:
  "usage_from_sse J sse = sse_usage_finish (foldl (sse_usage_step J) sse_acc_init (sse_events J sse))"
proof -
  have "foldl (sse_usage_line J) a ls = foldl (sse_usage_step J) a (List.map_filter (sse_event J) ls)"
    for a ls
    by (induction ls arbitrary: a)
      (auto simp: sse_usage_line_def map_filter_simps split: option.splits)
  then show ?thesis by (simp add: usage_from_sse_def sse_events_def)
qed

lemmas sse_step_defs = sse_usage_step_def sse_content_block_start_def sse_content_block_delta_def
  sse_message_start_def sse_message_delta_def

lemma step_delta_output:
  "delta_output J d = Some n \<Longrightarrow>
     output_tokens (acc_usage (sse_usage_step J a d)) = n \<and> have_output_usage (sse_usage_step J a d)"
  by (auto simp: sse_step_defs delta_output_def event_type_def Let_def
      split: option.splits if_splits)

lemma step_no_delta_output:
  "delta_output J e = None \<Longrightarrow> have_output_usage (sse_usage_step J a e) = have_output_usage a"
  by (auto simp: sse_step_defs delta_output_def event_type_def Let_def
      split: option.splits bind_splits if_splits)

lemma step_keeps_output:
  "delta_output J e = None \<Longrightarrow> event_type J e \<noteq> Some ''message_start'' \<Longrightarrow>
     output_tokens (acc_usage (sse_usage_step J a e)) = output_tokens (acc_usage a)"
  by (auto simp: sse_step_defs delta_output_def event_type_def Let_def
      split: option.splits bind_splits if_splits)

lemma foldl_keeps_output:
  "\<forall>e\<in>set es. delta_output J e = None \<and> event_type J e \<noteq> Some ''message_start'' \<Longrightarrow>
     output_tokens (acc_usage (foldl (sse_usage_step J) a es)) = output_tokens (acc_usage a)
     \<and> have_output_usage (foldl (sse_usage_step J) a es) = have_output_usage a"
  by (induction es arbitrary: a) (simp_all add: step_keeps_output step_no_delta_output)

lemma foldl_no_delta_output:
  "\<forall>e\<in>set es. delta_output J e = None \<Longrightarrow>
     have_output_usage (foldl (sse_usage_step J) a es) = have_output_usage a"
  by (induction es arbitrary: a) (simp_all add: step_no_delta_output)

lemma uint_of_nat_u64: "uint (of_nat n :: u64) = int n mod 2 ^ 64"
  by (simp add: unsigned_of_nat take_bit_eq_mod zmod_int)


lemma add_delta_field_bytes:
  assumes "case get_str J d f of None \<Rightarrow> True | Some t \<Rightarrow> int (length t) < 2 ^ 64"
  shows "uint (add_delta_field J d n f) =
     min (uint n + (case get_str J d f of None \<Rightarrow> 0 | Some t \<Rightarrow> int (length t))) (2 ^ 64 - 1)"
  using assms uint_u64_bounds(2) [of n]
  by (auto simp: add_delta_field_def uint_sat_add_u64 uint_of_nat_u64 split: option.splits)

lemma step_delta_bytes:
  assumes "streamed_bytes J e < 2 ^ 64"
  shows "uint (delta_bytes (sse_usage_step J a e)) =
     min (uint (delta_bytes a) + streamed_bytes J e) (2 ^ 64 - 1)"
proof (cases "event_type J e = Some ''content_block_delta''")
  case True
  note ty = this [unfolded event_type_def]
  show ?thesis
  proof (cases "jget J e ''delta''")
    case None
    then show ?thesis
      using ty True uint_u64_bounds(2) [of "delta_bytes a"]
      by (simp add: sse_step_defs streamed_bytes_def)
  next
    case (Some d)
    let ?l = "\<lambda>f. case get_str J d f of None \<Rightarrow> 0 | Some t \<Rightarrow> int (length t)"
    have nn: "0 \<le> ?l f" for f by (simp split: option.splits)
    have sum: "streamed_bytes J e = ?l ''text'' + ?l ''thinking'' + ?l ''partial_json''"
      using True Some by (simp add: streamed_bytes_def)
    have small: "?l f < 2 ^ 64" if "f \<in> set [''text'', ''thinking'', ''partial_json'']" for f
      using that assms sum nn [of "''text''"] nn [of "''thinking''"] nn [of "''partial_json''"]
      by auto
    have f: "uint (add_delta_field J d n f) = min (uint n + ?l f) (2 ^ 64 - 1)"
      if "f \<in> set [''text'', ''thinking'', ''partial_json'']" for n f
      using small [OF that] by (intro add_delta_field_bytes) (simp split: option.splits)
    show ?thesis
      using ty Some sum nn [of "''text''"] nn [of "''thinking''"] nn [of "''partial_json''"]
      by (simp add: sse_step_defs delta_field_bytes_def f)
  qed
next
  case False
  then show ?thesis
    using uint_u64_bounds(2) [of "delta_bytes a"]
    by (auto simp: sse_step_defs streamed_bytes_def event_type_def Let_def
        split: option.splits bind_splits)
qed

lemma streamed_bytes_nonneg: "0 \<le> streamed_bytes J e"
  by (auto simp: streamed_bytes_def split: option.splits)

lemma foldl_delta_bytes:
  "\<forall>e\<in>set es. streamed_bytes J e < 2 ^ 64 \<Longrightarrow>
     uint (delta_bytes (foldl (sse_usage_step J) a es)) =
     min (uint (delta_bytes a) + (\<Sum>e\<leftarrow>es. streamed_bytes J e)) (2 ^ 64 - 1)"
proof (induction es arbitrary: a)
  case Nil
  then show ?case using uint_u64_bounds(2) [of "delta_bytes a"] by simp
next
  case (Cons e es)
  have "0 \<le> (\<Sum>e\<leftarrow>es. streamed_bytes J e)"
    by (induction es) (simp_all add: streamed_bytes_nonneg)
  then show ?case using Cons by (simp add: step_delta_bytes)
qed


text \<open>Evaluation of the framing on an unpadded line.\<close>

lemma sse_event_unpadded:
  assumes "s \<noteq> []" "s \<noteq> ''[DONE]''" "printable (hd s)" "printable (last s)"
  shows "sse_event J (''data:'' @ s) = from_str J s"
proof -
  have "trim_start (''data:'' @ s) = ''data:'' @ s"
    by (rule trim_start_printable) (simp_all add: printable_def)
  then show ?thesis using assms
    by (simp add: sse_event_def strip_prefix_def starts_with_def trim_printable Let_def)
qed

lemma example_events:
  "sse_events example_json example_sse = [example_delta, example_delta]"
  "sse_events example_json (example_sse @ ''data:C'') = [example_delta, example_delta, example_close]"
proof -
  have ev: "sse_event example_json ''data:D'' = Some example_delta"
    "sse_event example_json ''data:C'' = Some example_close"
    using sse_event_unpadded [of "''D''" example_json] sse_event_unpadded [of "''C''" example_json]
    by (simp_all add: printable_def example_json_def jv_ops_def)
  have "str_lines example_sse = [''data:D'', ''data:D'']"
    "str_lines (example_sse @ ''data:C'') = [''data:D'', ''data:D'', ''data:C'']" by code_simp+
  then show "sse_events example_json example_sse = [example_delta, example_delta]"
    "sse_events example_json (example_sse @ ''data:C'') = [example_delta, example_delta, example_close]"
    by (simp_all add: sse_events_def map_filter_simps ev)
qed

subsection \<open>The audited identity\<close>

lemma canonical_models_lowercase:
  "unicode_lowercase_spec lc \<Longrightarrow> c \<in> set anthropic_canonical_models \<Longrightarrow>
     lc c = c \<and> to_ascii_lowercase c = c"
proof -
  assume "unicode_lowercase_spec lc" "c \<in> set anthropic_canonical_models"
  moreover have "\<forall>c\<in>set anthropic_canonical_models. is_ascii c \<and> to_ascii_lowercase c = c"
    by code_simp
  ultimately show ?thesis by (simp add: unicode_lowercase_spec_def)
qed

lemma tariff_branch_lc_cong:
  "lc c = lc' c \<Longrightarrow> anthropic_tariff_branch_at lc c t = anthropic_tariff_branch_at lc' c t"
  by (simp add: anthropic_tariff_branch_at_def)

text \<open>The schedule table and the matcher agree on the ten canonical models.\<close>

definition schedule_matches :: "i64 \<Rightarrow> string \<Rightarrow> bool \<Rightarrow> bool" where
  "schedule_matches t c fast =
     (case (anthropic_schedule_for c fast t, anthropic_matched_tariff_at (\<lambda>s. s) c t fast) of
        (Inr (sid, from), Some (f, p)) \<Rightarrow> sid = f @ ''/v1'' \<and> 0 \<le> from \<and> (from = 0 \<or> from \<le> t)
      | _ \<Rightarrow> False)"

lemma schedule_matches_all: "c \<in> set anthropic_canonical_models \<Longrightarrow> schedule_matches t c fast"
proof -
  have "list_all (\<lambda>c. schedule_matches t c fast) anthropic_canonical_models"
    by (simp add: anthropic_canonical_models_def schedule_matches_def anthropic_schedule_for_def
        anthropic_matched_tariff_at_def anthropic_tariff_branch_at_def starts_with_def Let_def
        to_ascii_lowercase_def ascii_lower_def SONNET5_STD_START_def)
  then show "c \<in> set anthropic_canonical_models \<Longrightarrow> schedule_matches t c fast"
    by (simp add: list_all_iff)
qed

lemma capability_cases:
  "anthropic_tariff_capability_at lc requested ts mods =
     (if ts \<le> 0 then Inl InvalidPricedTimestamp
      else if canonical_alias_for requested \<notin> set anthropic_canonical_models
        then Inl UnsupportedModelIdentity
      else let c = canonical_alias_for requested; fast = (am_speed mods = Fast);
               base = model_prices_reserve_for_speed_at lc c ts fast in
        map_sum id (\<lambda>(sid, from). \<lparr>aa_canonical_model_id = c,
            aa_alias_generation = ANTHROPIC_ALIAS_GENERATION, aa_tariff_schedule_id = sid,
            aa_schedule_effective_from = from,
            aa_effective_reserve_prices = (if am_inference_geo mods = Us
              then premium_prices_ceil base 11000 else base),
            aa_modifiers = mods\<rparr>)
          (anthropic_schedule_for c fast ts))"
proof (cases "List.find (\<lambda>canonical. canonical_alias_for requested = canonical) anthropic_canonical_models")
  case None
  then have "canonical_alias_for requested \<notin> set anthropic_canonical_models"
    by (auto simp: find_None_iff)
  then show ?thesis by (simp add: anthropic_tariff_capability_at_def None Let_def)
next
  case (Some c)
  then have "c \<in> set anthropic_canonical_models" "c = canonical_alias_for requested"
    by (auto dest: find_Some_mem)
  then show ?thesis using Some
    by (auto simp: anthropic_tariff_capability_at_def Let_def inference_geo_basis_points_def
        split: sum.splits)
qed

section \<open>Properties\<close>

text \<open>C34: For every usage, model string, timestamp and speed, the \<open>i128\<close> arithmetic of
  \<open>cost_nanodollars\<close> never wraps: the charge is the exact integer sum over the six buckets, is not
  negative, and is the total of \<open>cost_breakdown\<close>.\<close>

theorem charge_is_exact:
  "cost_nanodollars u (model_prices_for_speed_at lc m t fast)
     = exact_cost u (model_prices_for_speed_at lc m t fast)
   \<and> 0 \<le> cost_nanodollars u (model_prices_for_speed_at lc m t fast)
   \<and> cb_total (cost_breakdown u (model_prices_for_speed_at lc m t fast))
     = cost_nanodollars u (model_prices_for_speed_at lc m t fast)"
  by (simp add: cost_nanodollars_exact model_prices_for_speed_ok exact_cost_nonneg
      cb_total_cost_breakdown)

text \<open>The fallback tariff is conservative: at standard speed no model at any time is charged
  more than \<open>MAX_PRICES\<close> charges for the same usage, which is what an unrecognised model pays.\<close>

lemma fallback_tariff_dominates:
  "cost_nanodollars u (model_prices_at lc m t) \<le> cost_nanodollars u MAX_PRICES"
  by (simp add: cost_nanodollars_exact model_prices_at_ok exact_cost_mono model_prices_at_le_MAX)

text \<open>The reserve covers the charge under a token premium: for any multiplier up to
  104.8576 (the engine uses 1.1 for US inference), charging each token bucket with half-up
  rounding never exceeds the cost at the reserve prices with the premium rounded up, for the same
  usage, whatever the model, time and speed.\<close>

lemma premium_reserve_covers_charge:
  assumes "0 \<le> bp" "bp \<le> 2 ^ 20"
  shows "cb_total (apply_token_multiplier
           (cost_breakdown u (model_prices_for_speed_at lc m t fast)) bp)
         \<le> cost_nanodollars u (premium_prices_ceil (model_prices_reserve_for_speed_at lc m t fast) bp)"
  unfolding model_prices_reserve_eq
  using model_prices_for_speed_small assms by (rule premium_charge_le_reserve)

text \<open>The premium of US inference on a fast request for three input tokens.\<close>

text \<open>Multipliers round to the nearest nanodollar; the floored variant used for payouts is never
  above the charge and at most one nanodollar below it.\<close>

lemma multiplier_rounds_half_up:
  assumes "0 \<le> nano" "nano \<le> 2 ^ 106" "0 \<le> bp" "bp \<le> 2 ^ 20"
  shows "2 * \<bar>10000 * apply_multiplier nano bp - nano * bp\<bar> \<le> 10000
    \<and> apply_multiplier_floor nano bp \<le> apply_multiplier nano bp
    \<and> apply_multiplier nano bp \<le> apply_multiplier_floor nano bp + 1"
  by (simp only: apply_multiplier_nonneg_exact [OF assms] apply_multiplier_floor_exact [OF assms]
      half_up_div simp_thms)

text \<open>Whatever family and prices the matcher answers, at any speed, the compiled inventory of that
  instant lists exactly those prices for that family, and they are the prices the charge uses.\<close>

lemma matched_tariff_in_inventory:
  assumes "anthropic_matched_tariff_at lc m t fast = Some (f, p)"
  shows "map_of (anthropic_compiled_tariffs_at t) f = Some p
    \<and> model_prices_for_speed_at lc m t fast = p"
  using matched_tariff_compiled [OF assms] compiled_families_distinct [of t]
    matched_tariff_prices [OF assms] by simp

text \<open>A final output count wins: if a \<open>message_delta\<close> event reports \<open>n\<close> output tokens and
  no later event reports another count or restarts the message, the metered output is \<open>n\<close>,
  whatever text was streamed.\<close>

lemma sse_final_output_wins:
  assumes "sse_events J sse = es1 @ d # es2" "delta_output J d = Some n"
    "\<forall>e\<in>set es2. delta_output J e = None \<and> event_type J e \<noteq> Some ''message_start''"
  shows "output_tokens (usage_from_sse J sse) = n"
  using step_delta_output [OF assms(2)] foldl_keeps_output [OF assms(3)]
  by (simp add: usage_from_sse_events assms(1) sse_usage_finish_def Let_def)

text \<open>An aborted stream is never free: if no event reports a final output count, the metered
  output is at least the number of bytes streamed (saturating at the top of \<open>u64\<close>).\<close>

lemma sse_aborted_stream_charged:
  assumes "\<forall>e\<in>set (sse_events J sse). delta_output J e = None \<and> streamed_bytes J e < 2 ^ 64"
  shows "min (\<Sum>e\<leftarrow>sse_events J sse. streamed_bytes J e) (2 ^ 64 - 1)
         \<le> uint (output_tokens (usage_from_sse J sse))"
proof -
  let ?a = "foldl (sse_usage_step J) sse_acc_init (sse_events J sse)"
  have "\<not> have_output_usage ?a" and "uint (delta_bytes ?a)
      = min (\<Sum>e\<leftarrow>sse_events J sse. streamed_bytes J e) (2 ^ 64 - 1)"
    using foldl_no_delta_output [of "sse_events J sse" J sse_acc_init]
      foldl_delta_bytes [of "sse_events J sse" J sse_acc_init] assms
    by (simp_all add: sse_acc_init_def)
  then show ?thesis
    by (simp add: usage_from_sse_events sse_usage_finish_def Let_def uint_max_u64)
qed


text \<open>The audited admission identity agrees with the rate card: whenever a capability is
  issued, its model is a canonical model reached by the dated-snapshot aliases, the matcher answers
  for it, the schedule id is the matched family's \<open>/v1\<close> schedule, already effective at the priced
  instant, and the reserve prices are the matched prices, raised by the US premium where it
  applies.\<close>

lemma capability_agrees_with_matcher:
  assumes "unicode_lowercase_spec lc"
    and "anthropic_tariff_capability_at lc requested ts mods = Inr cap"
  shows "\<exists>f p. anthropic_matched_tariff_at lc (aa_canonical_model_id cap) ts (am_speed mods = Fast)
        = Some (f, p)
      \<and> aa_canonical_model_id cap = canonical_alias_for requested
      \<and> aa_canonical_model_id cap \<in> set anthropic_canonical_models
      \<and> aa_tariff_schedule_id cap = f @ ''/v1''
      \<and> 0 \<le> aa_schedule_effective_from cap \<and> aa_schedule_effective_from cap \<le> ts
      \<and> aa_effective_reserve_prices cap =
          (if am_inference_geo mods = Us then premium_prices_ceil p 11000 else p)"
proof -
  let ?c = "canonical_alias_for requested" and ?fast = "am_speed mods = Fast"
  have pos: "0 < ts" and mem: "?c \<in> set anthropic_canonical_models"
    using assms(2) by (auto simp: capability_cases split: if_splits)
  have lower: "lc ?c = ?c" using canonical_models_lowercase [OF assms(1) mem] by simp
  obtain sid since f p where sched: "anthropic_schedule_for ?c ?fast ts = Inr (sid, since)"
    and m: "anthropic_matched_tariff_at (\<lambda>s. s) ?c ts ?fast = Some (f, p)"
    and agree: "sid = f @ ''/v1''" "0 \<le> since" "since = 0 \<or> since \<le> ts"
    using schedule_matches_all [OF mem, of ts ?fast]
    by (auto simp: schedule_matches_def split: sum.splits option.splits)
  have m': "anthropic_matched_tariff_at lc ?c ts ?fast = Some (f, p)"
    using m tariff_branch_lc_cong [of lc ?c "\<lambda>s. s" ts] lower
    by (simp add: anthropic_matched_tariff_at_def split: if_splits)
  have "model_prices_reserve_for_speed_at lc ?c ts ?fast = p"
    using m' matched_tariff_prices by (simp add: model_prices_reserve_eq)
  then have "cap = \<lparr>aa_canonical_model_id = ?c,
        aa_alias_generation = ANTHROPIC_ALIAS_GENERATION, aa_tariff_schedule_id = sid,
        aa_schedule_effective_from = since, aa_effective_reserve_prices =
          (if am_inference_geo mods = Us then premium_prices_ceil p 11000 else p),
        aa_modifiers = mods\<rparr>"
    using assms(2) pos mem sched by (auto simp: capability_cases Let_def)
  then show ?thesis using m' mem agree pos by auto
qed

text \<open>Admission fails closed and for exactly two reasons: a timestamp that is not positive,
  or, at a valid timestamp, a model id that is neither canonical nor a dated alias of a canonical
  one. Every canonical model is admitted at every valid instant with every modifier.\<close>

lemma capability_error_classification:
  "(anthropic_tariff_capability_at lc requested ts mods = Inl InvalidPricedTimestamp \<longleftrightarrow> ts \<le> 0)
   \<and> (anthropic_tariff_capability_at lc requested ts mods = Inl UnsupportedModelIdentity
        \<longleftrightarrow> 0 < ts \<and> canonical_alias_for requested \<notin> set anthropic_canonical_models)
   \<and> (is_Inr (anthropic_tariff_capability_at lc requested ts mods)
        \<longleftrightarrow> 0 < ts \<and> canonical_alias_for requested \<in> set anthropic_canonical_models)"
proof -
  have "\<exists>x. anthropic_schedule_for c fast ts = Inr x" if "c \<in> set anthropic_canonical_models" for c fast
    using schedule_matches_all [OF that, of ts fast] by (auto simp: schedule_matches_def split: sum.splits)
  then obtain x where "canonical_alias_for requested \<in> set anthropic_canonical_models \<longrightarrow>
      anthropic_schedule_for (canonical_alias_for requested) (am_speed mods = Fast) ts = Inr x"
    by blast
  then show ?thesis
    by (cases "ts \<le> 0"; cases "canonical_alias_for requested \<in> set anthropic_canonical_models")
      (simp_all add: capability_cases Let_def is_Inr_def)
qed

text \<open>A printed amount shows the dollars and exactly six digits of the truncated fraction.\<close>

lemma digits_of_length: "n < 10 ^ Suc k \<Longrightarrow> length (digits_of n) \<le> Suc k"
proof (induction k arbitrary: n)
  case 0
  then show ?case by (subst digits_of.simps) simp
next
  case (Suc k)
  show ?case
  proof (cases "n < 10")
    case False
    have "n div 10 < 10 ^ Suc k" using Suc.prems by (simp add: less_mult_imp_div_less mult.commute)
    then show ?thesis using Suc.IH [of "n div 10"] False by (subst digits_of.simps) simp
  qed (subst digits_of.simps, simp)
qed

lemma digits_value_zeros: "digits_value (replicate k (CHR ''0'') @ s) = digits_value s"
  by (induction k) (simp_all add: digits_value_def digit_value_def)

lemma zero_padded_value:
  assumes "n < 10 ^ Suc k"
  shows "length (zero_padded (Suc k) n) = Suc k \<and> digits_value (zero_padded (Suc k) n) = n
    \<and> list_all is_ascii_digit (zero_padded (Suc k) n)"
  using digits_of_length [OF assms] digits_of_ok [of n]
  by (simp add: zero_padded_def digits_value_zeros) (simp add: list_all_iff is_ascii_digit_def)

lemma nano_to_usd_string_shows:
  obtains whole micro where
    "nano_to_usd_string nano = (if nano < 0 then ''-'' else []) @ ''$'' @ whole @ ''.'' @ micro"
    "length micro = 6" "list_all is_ascii_digit whole" "list_all is_ascii_digit micro"
    "int (digits_value whole) * 1000000 + int (digits_value micro) = \<bar>nano\<bar> div 1000"
proof -
  let ?w = "nat (\<bar>nano\<bar> div NANO_PER_USD)" and ?m = "nat ((\<bar>nano\<bar> mod NANO_PER_USD) div 1000)"
  have m: "?m < 10 ^ Suc 5" by (simp add: NANO_PER_USD_def nat_less_iff)
  have "n div 1000000000 * 1000000 + n mod 1000000000 div 1000 = n div 1000" for n :: int
  proof -
    have "(n mod 1000000000 + 1000 * (n div 1000000000 * 1000000)) div 1000
        = n div 1000000000 * 1000000 + n mod 1000000000 div 1000"
      by (rule div_mult_self2) simp
    moreover have "n mod 1000000000 + 1000 * (n div 1000000000 * 1000000) = n" by simp
    ultimately show ?thesis by (simp only:)
  qed
  then have v: "int ?w * 1000000 + int ?m = \<bar>nano\<bar> div 1000" by (simp add: NANO_PER_USD_def)
  have six: "Suc 5 = 6" by simp
  note p = zero_padded_value [OF m, unfolded six] and d = digits_of_ok [of ?w]
  show thesis
  proof (rule that)
    show "nano_to_usd_string nano = (if nano < 0 then ''-'' else []) @ ''$'' @ digits_of ?w @ ''.'' @ zero_padded 6 ?m"
      unfolding nano_to_usd_string_def Let_def by (rule refl)
    show "length (zero_padded 6 ?m) = 6" "list_all is_ascii_digit (zero_padded 6 ?m)" using p by blast+
    show "list_all is_ascii_digit (digits_of ?w)" using d by blast
    show "int (digits_value (digits_of ?w)) * 1000000 + int (digits_value (zero_padded 6 ?m)) = \<bar>nano\<bar> div 1000"
      using p d v by metis
  qed
qed

end
