(* ===== verification/Rate_Catalog.thy ===== *)
theory Rate_Catalog
  imports Engine_Prelude
begin

text \<open>
  What the rate catalogues of the metering crate have in common. Every provider module
  (\<open>codex.rs\<close>, \<open>gemini.rs\<close>, \<open>glm.rs\<close>, \<open>kimi.rs\<close>) holds a table of
  models with an effective-dated price schedule each, looks the table up by model, enumerates it
  for the hot tariff overrides, and answers two questions about a family of overrides: whether its
  schedule still changes, and whether one payload can replace it. The modules repeat the code; the
  locales below state the laws once, and each provider interprets them on its own definitions.
\<close>

section \<open>Effective-dated schedules\<close>

locale effective_schedule =
  fixes current :: "'e list \<Rightarrow> i64 \<Rightarrow> 'p"
    and effective_from :: "'e \<Rightarrow> i64"
    and payload :: "'e \<Rightarrow> 'p"
  assumes current_single: "current [e] t = payload e"
    and current_snoc: "es \<noteq> [] \<Longrightarrow>
      current (es @ [e]) t = (if effective_from e \<le> t then payload e else current es t)"
begin

text \<open>The payload in force is that of the last epoch already in effect, and of the first one when
  none is.\<close>

lemma current_last:
  assumes "es \<noteq> []"
  shows "current es t = payload (last (hd es # filter (\<lambda>e. effective_from e \<le> t) es))"
  using assms
proof (induction es rule: rev_nonempty_induct)
  case (single e)
  then show ?case by (simp add: current_single)
next
  case (snoc e es)
  then show ?case by (simp add: current_snoc)
qed

lemma current_mem:
  assumes "es \<noteq> []"
  shows "\<exists>e\<in>set es. current es t = payload e"
proof -
  have "last (hd es # filter (\<lambda>e. effective_from e \<le> t) es)
      \<in> set (hd es # filter (\<lambda>e. effective_from e \<le> t) es)" by (rule last_in_set) simp
  then have "last (hd es # filter (\<lambda>e. effective_from e \<le> t) es) \<in> set es" using assms by auto
  then show ?thesis using assms current_last by blast
qed

lemma current_cong:
  assumes "es \<noteq> []" "\<forall>e\<in>set es. effective_from e \<le> t \<longleftrightarrow> effective_from e \<le> t'"
  shows "current es t = current es t'"
proof -
  have "filter (\<lambda>e. effective_from e \<le> t) es = filter (\<lambda>e. effective_from e \<le> t') es"
    using assms by (intro filter_cong) simp_all
  then show ?thesis using assms by (simp add: current_last)
qed

lemma current_constant: "length es = 1 \<Longrightarrow> current es t = current es t'"
  by (auto simp: length_Suc_conv current_single)

lemma current_settled:
  assumes "es \<noteq> []" "t \<le> t'" "\<not> (\<exists>e\<in>set es. t < effective_from e)"
  shows "current es t' = current es t"
  using assms by (intro current_cong) force+

lemma current_newest:
  assumes "sorted (map effective_from es)" "e \<in> set es" "effective_from e \<le> t"
  obtains d where "d \<in> set es" "current es t = payload d" "effective_from d \<le> t"
    "\<forall>c\<in>set es. effective_from c \<le> t \<longrightarrow> effective_from c \<le> effective_from d"
proof
  define fs where "fs = filter (\<lambda>e. effective_from e \<le> t) es"
  have fs: "fs \<noteq> []" "es \<noteq> []" using assms by (auto simp: fs_def filter_empty_conv)
  then have "last fs \<in> set fs" by simp
  then show "last fs \<in> set es" "effective_from (last fs) \<le> t" by (simp_all add: fs_def)
  show "current es t = payload (last fs)" using fs by (simp add: current_last flip: fs_def)
  have "sorted (map effective_from fs)" using assms by (simp add: fs_def sorted_filter)
  then have "effective_from c \<le> effective_from (last fs)" if "c \<in> set fs" for c
    using that by (induction fs) auto
  then show "\<forall>c\<in>set es. effective_from c \<le> t \<longrightarrow> effective_from c \<le> effective_from (last fs)"
    by (simp add: fs_def)
qed

end

section \<open>Catalogues and their override surface\<close>

text \<open>
  The contract of the override surface. A matched tariff is the one the inventory of that instant
  lists under its family, a family is listed once, a family that may be seeded has the same prices
  at all times, and a family without a future epoch has settled prices from then on.
\<close>

definition override_surface_sound ::
    "(string \<Rightarrow> i64 \<Rightarrow> (string \<times> 'p) option) \<Rightarrow> (i64 \<Rightarrow> (string \<times> 'p) list)
      \<Rightarrow> (string \<Rightarrow> i64 \<Rightarrow> bool) \<Rightarrow> (string \<Rightarrow> bool) \<Rightarrow> bool" where
  "override_surface_sound matched compiled future seed_safe \<longleftrightarrow>
     (\<forall>m t f p. matched m t = Some (f, p) \<longrightarrow> map_of (compiled t) f = Some p)
     \<and> (\<forall>t. distinct (map fst (compiled t)))
     \<and> (\<forall>f t t'. seed_safe f \<longrightarrow> map_of (compiled t) f = map_of (compiled t') f)
     \<and> (\<forall>f t t'. \<not> future f t \<longrightarrow> t \<le> t' \<longrightarrow> map_of (compiled t') f = map_of (compiled t) f)"

lemma override_surface_seed:
  "override_surface_sound matched compiled future seed_safe \<Longrightarrow> seed_safe f
   \<Longrightarrow> map_of (compiled t) f = map_of (compiled t') f"
  by (simp add: override_surface_sound_def)

locale rate_catalog = effective_schedule current effective_from payload
  for current :: "'e list \<Rightarrow> i64 \<Rightarrow> 'p"
    and effective_from :: "'e \<Rightarrow> i64"
    and payload :: "'e \<Rightarrow> 'p" +
  fixes catalog :: "'c list"
    and family :: "'c \<Rightarrow> string"
    and schedule :: "'c \<Rightarrow> 'e list"
    and matched :: "string \<Rightarrow> i64 \<Rightarrow> (string \<times> 'p) option"
    and compiled :: "i64 \<Rightarrow> (string \<times> 'p) list"
    and future :: "string \<Rightarrow> i64 \<Rightarrow> bool"
    and seed_safe :: "string \<Rightarrow> bool"
  assumes schedules: "e \<in> set catalog \<Longrightarrow> schedule e \<noteq> []"
    and matched_row: "matched m t = Some (f, p)
      \<Longrightarrow> \<exists>e\<in>set catalog. f = family e \<and> p = current (schedule e) t"
    and compiled_rows: "set (compiled t) = (\<lambda>e. (family e, current (schedule e) t)) ` set catalog"
    and compiled_distinct: "distinct (map fst (compiled t))"
    and future_row: "e \<in> set catalog
      \<Longrightarrow> future (family e) t \<longleftrightarrow> (\<exists>x\<in>set (schedule e). t < effective_from x)"
    and seed_row: "e \<in> set catalog \<Longrightarrow> seed_safe (family e) \<longleftrightarrow> length (schedule e) = 1"
begin

lemma compiled_lookup:
  "map_of (compiled t) f = Some p \<longleftrightarrow> (\<exists>e\<in>set catalog. f = family e \<and> p = current (schedule e) t)"
proof -
  have "map_of (compiled t) f = Some p \<longleftrightarrow> (f, p) \<in> set (compiled t)"
    using compiled_distinct by simp
  then show ?thesis by (auto simp: compiled_rows)
qed

lemma matched_listed: "matched m t = Some (f, p) \<Longrightarrow> map_of (compiled t) f = Some p"
  using matched_row by (simp add: compiled_lookup)

lemma matched_payload:
  assumes "matched m t = Some (f, p)" "\<forall>e\<in>set catalog. \<forall>x\<in>set (schedule e). P (payload x)"
  shows "P p"
proof -
  obtain e where e: "e \<in> set catalog" "p = current (schedule e) t" using matched_row [OF assms(1)] by blast
  obtain x where "x \<in> set (schedule e)" "current (schedule e) t = payload x"
    using current_mem [OF schedules [OF e(1)]] by blast
  then show ?thesis using assms(2) e by simp
qed

lemma compiled_payload:
  assumes "(f, p) \<in> set (compiled t)" "\<forall>e\<in>set catalog. Q (family e) \<and> (\<forall>x\<in>set (schedule e). P (payload x))"
  shows "Q f \<and> P p"
proof -
  obtain e where e: "e \<in> set catalog" "f = family e" "p = current (schedule e) t"
    using assms(1) by (auto simp: compiled_rows)
  obtain x where "x \<in> set (schedule e)" "current (schedule e) t = payload x"
    using current_mem [OF schedules [OF e(1)]] by blast
  then show ?thesis using assms(2) e by simp
qed

text \<open>A family whose rows agree at two instants has one price vector at both.\<close>

lemma lookup_eqI:
  assumes "\<And>e. e \<in> set catalog \<Longrightarrow> family e = f \<Longrightarrow> current (schedule e) t = current (schedule e) t'"
  shows "map_of (compiled t) f = map_of (compiled t') f"
proof -
  have "map_of (compiled t) f = Some p \<longleftrightarrow> map_of (compiled t') f = Some p" for p
    unfolding compiled_lookup using assms by metis
  then show ?thesis by (metis not_None_eq)
qed

lemma seed_constant: "seed_safe f \<Longrightarrow> map_of (compiled t) f = map_of (compiled t') f"
  by (rule lookup_eqI, rule current_constant) (use seed_row in auto)

lemma seed_unique:
  assumes "seed_safe f" "(f, p) \<in> set (compiled t)" "(f, p') \<in> set (compiled t')"
  shows "p = p'"
proof -
  have "map_of (compiled t) f = Some p" "map_of (compiled t') f = Some p'"
    using assms(2,3) compiled_distinct by simp_all
  then show ?thesis using seed_constant [OF assms(1), of t t'] by simp
qed

lemma settled: "\<not> future f t \<Longrightarrow> t \<le> t' \<Longrightarrow> map_of (compiled t') f = map_of (compiled t) f"
  by (rule lookup_eqI, rule current_settled) (use future_row schedules in auto)

lemma surface: "override_surface_sound matched compiled future seed_safe"
  unfolding override_surface_sound_def
  using matched_listed compiled_distinct seed_constant settled by blast

end

text \<open>The dated inventories without repeated families, for the interpretations.\<close>

lemma find_family_row:
  assumes "e \<in> set rows" "\<forall>d\<in>set rows. fam d = fam e \<longrightarrow> sched d = sched e"
  shows "\<exists>d. List.find (\<lambda>x. fam x = fam e) rows = Some d \<and> sched d = sched e"
proof (cases "List.find (\<lambda>x. fam x = fam e) rows")
  case None
  then show ?thesis using assms(1) by (auto simp: find_None_iff)
next
  case (Some d)
  then show ?thesis using assms(2) by (auto dest: find_Some_mem)
qed

section \<open>Checked charges\<close>

text \<open>The two providers with checked ledgers build a charge the same way: one checked product per
  leg, added up with checked additions, the first failure ending the computation.\<close>

definition checked_leg :: "'e \<Rightarrow> u64 \<Rightarrow> i128 \<Rightarrow> 'e + i128" where
  "checked_leg e tokens rate = ok_or e (checked_mul_i128 (uint tokens) rate)"

fun checked_sum :: "'e \<Rightarrow> i128 \<Rightarrow> i128 list \<Rightarrow> 'e + i128" where
  "checked_sum e acc [] = Inr acc"
| "checked_sum e acc (part # parts) =
     bind_res (ok_or e (checked_add_i128 acc part)) (\<lambda>acc. checked_sum e acc parts)"

text \<open>Rates far above every card are still too small for a \<open>u64\<close> counter to overflow the
  \<open>i128\<close> products.\<close>

definition rate_ok :: "i128 \<Rightarrow> bool" where
  "rate_ok r \<longleftrightarrow> 0 \<le> r \<and> r \<le> 2 ^ 40"

lemma rate_ok_product:
  assumes "rate_ok r"
  shows "0 \<le> uint (w :: u64) * r" "uint (w :: u64) * r \<le> 2 ^ 104"
  using mul_u64_price_bound assms by (simp_all add: rate_ok_def)

lemma checked_leg_exact [exact]: "rate_ok r \<Longrightarrow> checked_leg e w r = Inr (uint w * r)"
  using rate_ok_product [of r w] by (simp add: checked_leg_def checked_mul_i128_def in_i128_def)

lemma checked_sum_exact:
  assumes "0 \<le> acc" "\<forall>p\<in>set parts. 0 \<le> p" "acc + sum_list parts < 2 ^ 127"
  shows "checked_sum e acc parts = Inr (acc + sum_list parts)"
  using assms
proof (induction parts arbitrary: acc)
  case (Cons p ps)
  have "0 \<le> sum_list ps" using Cons.prems(2) by (intro sum_list_nonneg) simp
  then have "in_i128 (acc + p)" using Cons.prems by (simp add: in_i128_def)
  then have "checked_sum e acc (p # ps) = checked_sum e (acc + p) ps"
    by (simp add: checked_add_i128_def i128_try_from_def)
  then show ?case using Cons.IH [of "acc + p"] Cons.prems by (simp add: algebra_simps)
qed simp

lemma checked_sum_i128: "in_i128 acc \<Longrightarrow> checked_sum e acc parts = Inr c \<Longrightarrow> in_i128 c"
  by (induction parts arbitrary: acc) (auto simp: checked_add_i128_def)

section \<open>Stream snapshots\<close>

text \<open>
  A streamed response reports its counters cumulatively and some events leave some of them out. The
  merge of an event replaces a counter by a reported positive value and keeps it otherwise, so that
  after the whole stream each counter is the last positive value any event reported.
\<close>

locale snapshot_merge =
  fixes merge :: "'u \<Rightarrow> 'v \<Rightarrow> 'u"
    and parsed :: "'v \<Rightarrow> 'u option"
    and legs :: "('u \<Rightarrow> u64) set"
  assumes merge_silent: "parsed v = None \<Longrightarrow> merge u v = u"
    and merge_leg: "parsed v = Some p \<Longrightarrow> leg \<in> legs
      \<Longrightarrow> leg (merge u v) = (if 0 < leg p then leg p else leg u)"
begin

lemma leg_fold:
  assumes "leg \<in> legs"
  shows "leg (foldl merge u vs) = last (leg u # filter (\<lambda>n. 0 < n) (map leg (List.map_filter parsed vs)))"
proof (induction vs rule: rev_induct)
  case (snoc v vs)
  then show ?case
    using assms by (cases "parsed v") (simp_all add: merge_silent merge_leg map_filter_def)
qed (simp add: map_filter_def)

text \<open>A repeated event changes nothing.\<close>

lemma leg_repeat: "leg \<in> legs \<Longrightarrow> leg (merge (merge u v) v) = leg (merge u v)"
  by (cases "parsed v") (simp_all add: merge_silent merge_leg)

end

text \<open>
  The reader of a whole stream also tracks whether any event changed the snapshot. Positive counters
  never return to zero, so this flag says exactly whether the final snapshot differs from the empty
  one.
\<close>

locale snapshot_stream = snapshot_merge merge parsed legs
  for merge :: "'u \<Rightarrow> 'v \<Rightarrow> 'u"
    and parsed :: "'v \<Rightarrow> 'u option"
    and legs :: "('u \<Rightarrow> u64) set" +
  fixes zero :: 'u
    and step :: "'u \<times> bool \<Rightarrow> 'v \<Rightarrow> 'u \<times> bool"
  assumes zero_leg: "leg \<in> legs \<Longrightarrow> leg zero = 0"
    and legs_ext: "(\<And>leg. leg \<in> legs \<Longrightarrow> leg u = leg u') \<Longrightarrow> u = u'"
    and step_pair: "step (u, seen) v = (merge u v, merge u v \<noteq> u \<or> seen)"
begin

lemma merge_zero: "merge u v = zero \<Longrightarrow> u = zero"
proof (rule legs_ext)
  fix leg assume z: "merge u v = zero" and l: "leg \<in> legs"
  have "leg (merge u v) = 0" using z l by (simp add: zero_leg)
  then have "leg u = 0" using l by (cases "parsed v") (simp_all add: merge_silent merge_leg split: if_splits)
  then show "leg u = leg zero" using l by (simp add: zero_leg)
qed

lemma merge_eq_zero: "merge u v = zero \<longleftrightarrow> u = zero \<and> (\<forall>p. parsed v = Some p \<longrightarrow> p = zero)"
proof (intro iffI conjI allI impI)
  fix p assume m: "merge u v = zero" and p: "parsed v = Some p"
  show "p = zero"
  proof (rule legs_ext)
    fix leg assume l: "leg \<in> legs"
    have "leg (merge u v) = 0" using m l by (simp add: zero_leg)
    then show "leg p = leg zero" using p l by (simp add: merge_leg zero_leg word_gt_0 split: if_splits)
  qed
next
  assume z: "u = zero \<and> (\<forall>p. parsed v = Some p \<longrightarrow> p = zero)"
  show "merge u v = zero"
  proof (cases "parsed v")
    case (Some p)
    then show ?thesis using z by (intro legs_ext) (simp add: merge_leg zero_leg)
  qed (use z in \<open>simp add: merge_silent\<close>)
qed (rule merge_zero)

lemma stream_empty:
  "foldl merge zero vs = zero \<longleftrightarrow> (\<forall>p\<in>set (List.map_filter parsed vs). p = zero)"
  by (induction vs rule: rev_induct) (auto simp: merge_eq_zero map_filter_def)

lemma stream_seen:
  "foldl step (zero, False) vs = (foldl merge zero vs, foldl merge zero vs \<noteq> zero)"
proof (induction vs rule: rev_induct)
  case (snoc v vs)
  then show ?case using merge_zero [of "foldl merge zero vs" v] by (auto simp: step_pair)
qed simp

end

lemma foldl_map_filter:
  "foldl (\<lambda>st raw. case ev raw of None \<Rightarrow> st | Some v \<Rightarrow> f st v) st ls = foldl f st (List.map_filter ev ls)"
  by (induction ls arbitrary: st) (simp_all add: map_filter_def split: option.split)

end
