(* ===== verification/Metering_Codex.thy ===== *)
theory Metering_Codex
  imports Metering_Anthropic Rate_Catalog
begin

text \<open>
  \<open>src/crates/metering/src/codex.rs\<close>: the effective-dated OpenAI catalogue with its dollar and
  subscription-credit cards, the override inventories of both, the audited admission identity with
  its service and context tiers, and the credit charge of a turn.
\<close>

section \<open>Data\<close>

record codex_prices =
  xp_input :: i128
  xp_cached_input :: i128
  xp_cache_write_input :: i128
  xp_output :: i128
  xp_api_fast_multiplier_basis_points :: i64
  xp_long_context_threshold :: u64
  xp_long_input_basis_points :: i64
  xp_long_output_basis_points :: i64

record codex_credit_rates =
  xr_input :: i128
  xr_cached_input :: i128
  xr_output :: i128

record codex_credit_usage =
  xu_fresh_input_tokens :: u64
  xu_cached_input_tokens :: u64
  xu_output_tokens :: u64
  xu_input_credit_nano :: i128
  xu_cached_input_credit_nano :: i128
  xu_output_credit_nano :: i128
  xu_total_credit_nano :: i128

record codex_model_spec =
  xs_id :: string
  xs_upstream :: string
  xs_created :: i64
  xs_max_output_tokens :: u64
  xs_reasoning_efforts :: "string list"
  xs_subscription_fast_multiplier_basis_points :: "i64 option"
  xs_prices :: codex_prices
  xs_credit_rates :: codex_credit_rates

record codex_price_epoch =
  xe_effective_from :: i64
  xe_prices :: codex_prices

record identified_codex_price_epoch =
  xi_epoch :: codex_price_epoch
  xi_tariff_schedule_id :: string

definition CODEX_ALIAS_GENERATION :: i64 where
  "CODEX_ALIAS_GENERATION = 1"

definition CODEX_CREDIT_FAMILY :: string where
  "CODEX_CREDIT_FAMILY = ''chatgpt/codex-credits''"

datatype codex_service_tier = CodexStandard | CodexFast

datatype codex_context_tier = CodexContextStandard | CodexContextLong

record codex_tariff_modifiers =
  xm_service_tier :: codex_service_tier
  xm_service_tier_multiplier_basis_points :: i64
  xm_context_tier :: codex_context_tier
  xm_input_multiplier_basis_points :: i64
  xm_output_multiplier_basis_points :: i64

record codex_admission_tariff_identity =
  xa_canonical_model_id :: string
  xa_max_output_tokens :: u64
  xa_alias_generation :: i64
  xa_tariff_schedule_id :: string
  xa_schedule_effective_from :: i64
  xa_prices :: codex_prices
  xa_modifiers :: codex_tariff_modifiers

record codex_catalog_entry =
  xc_id :: string
  xc_upstream :: string
  xc_created :: i64
  xc_max_output_tokens :: u64
  xc_reasoning_efforts :: "string list"
  xc_subscription_fast_multiplier_basis_points :: "i64 option"
  xc_credit_rates :: codex_credit_rates
  xc_tariff_family :: string
  xc_credit_family :: string
  xc_schedule :: "identified_codex_price_epoch list"

section \<open>The catalogue\<close>

definition EFFORTS_WITH_MAX :: "string list" where
  "EFFORTS_WITH_MAX = [''none'', ''low'', ''medium'', ''high'', ''xhigh'', ''max'']"

definition EFFORTS_STANDARD :: "string list" where
  "EFFORTS_STANDARD = [''none'', ''low'', ''medium'', ''high'', ''xhigh'']"

definition FAST_25X :: "i64 option" where
  "FAST_25X = Some 25000"

definition FAST_20X :: "i64 option" where
  "FAST_20X = Some 20000"

definition PRICE_CUT_2026_07_30 :: i64 where
  "PRICE_CUT_2026_07_30 = 1785369600"

definition GPT_56_SOL_PROMO_START_2026_08_21 :: i64 where
  "GPT_56_SOL_PROMO_START_2026_08_21 = 1787270400"

definition GPT_56_SOL_STANDARD_RETURN_2026_11_22 :: i64 where
  "GPT_56_SOL_STANDARD_RETURN_2026_11_22 = 1795305600"

definition GPT_54_RELEASED :: i64 where
  "GPT_54_RELEASED = 1772668800"

definition GPT_55_RELEASED :: i64 where
  "GPT_55_RELEASED = 1776988800"

definition GPT_56_RELEASED :: i64 where
  "GPT_56_RELEASED = 1783555200"

definition codex_price_card :: "i128 \<Rightarrow> i128 \<Rightarrow> i128 \<Rightarrow> i128 \<Rightarrow> i64 \<Rightarrow> codex_prices" where
  "codex_price_card input cached_input cache_write_input output fast = \<lparr>xp_input = input,
     xp_cached_input = cached_input, xp_cache_write_input = cache_write_input, xp_output = output,
     xp_api_fast_multiplier_basis_points = fast, xp_long_context_threshold = 272000,
     xp_long_input_basis_points = 20000, xp_long_output_basis_points = 15000\<rparr>"

definition codex_credits :: "i128 \<Rightarrow> i128 \<Rightarrow> i128 \<Rightarrow> codex_credit_rates" where
  "codex_credits input cached_input output =
     \<lparr>xr_input = input, xr_cached_input = cached_input, xr_output = output\<rparr>"

definition codex_dated :: "i64 \<Rightarrow> codex_prices \<Rightarrow> string \<Rightarrow> identified_codex_price_epoch" where
  "codex_dated effective_from p schedule_id =
     \<lparr>xi_epoch = \<lparr>xe_effective_from = effective_from, xe_prices = p\<rparr>,
      xi_tariff_schedule_id = schedule_id\<rparr>"

definition GPT_56_SOL_SCHEDULE :: "identified_codex_price_epoch list" where
  "GPT_56_SOL_SCHEDULE =
     [codex_dated 0 (codex_price_card 5000 500 6250 30000 25000) ''openai/gpt-5.6-sol/epoch-0/v1'',
      codex_dated PRICE_CUT_2026_07_30 (codex_price_card 5000 500 6250 30000 20000)
        ''openai/gpt-5.6-sol/2026-07-30/v2'',
      codex_dated GPT_56_SOL_PROMO_START_2026_08_21 (codex_price_card 4000 400 5000 20000 20000)
        ''openai/gpt-5.6-sol/2026-08-21-promo/v3'',
      codex_dated GPT_56_SOL_STANDARD_RETURN_2026_11_22 (codex_price_card 5000 500 6250 30000 20000)
        ''openai/gpt-5.6-sol/2026-11-22-standard/v4'']"

definition GPT_56_TERRA_SCHEDULE :: "identified_codex_price_epoch list" where
  "GPT_56_TERRA_SCHEDULE =
     [codex_dated 0 (codex_price_card 2500 250 3125 15000 25000) ''openai/gpt-5.6-terra/epoch-0/v1'',
      codex_dated PRICE_CUT_2026_07_30 (codex_price_card 2000 200 2500 12000 20000)
        ''openai/gpt-5.6-terra/2026-07-30/v2'']"

definition GPT_56_LUNA_SCHEDULE :: "identified_codex_price_epoch list" where
  "GPT_56_LUNA_SCHEDULE =
     [codex_dated 0 (codex_price_card 1000 100 1250 6000 25000) ''openai/gpt-5.6-luna/epoch-0/v1'',
      codex_dated PRICE_CUT_2026_07_30 (codex_price_card 200 20 250 1200 20000)
        ''openai/gpt-5.6-luna/2026-07-30/v2'']"

definition GPT_55_SCHEDULE :: "identified_codex_price_epoch list" where
  "GPT_55_SCHEDULE =
     [codex_dated 0 (codex_price_card 5000 500 5000 30000 25000) ''openai/gpt-5.5/epoch-0/v1'']"

definition GPT_54_SCHEDULE :: "identified_codex_price_epoch list" where
  "GPT_54_SCHEDULE =
     [codex_dated 0 (codex_price_card 2500 250 2500 15000 20000) ''openai/gpt-5.4/epoch-0/v1'']"

definition codex_row ::
    "string \<Rightarrow> string \<Rightarrow> i64 \<Rightarrow> string list \<Rightarrow> i64 option \<Rightarrow> codex_credit_rates \<Rightarrow> string \<Rightarrow> string
      \<Rightarrow> identified_codex_price_epoch list \<Rightarrow> codex_catalog_entry" where
  "codex_row i u c ef fm cr tf cf s = \<lparr>xc_id = i, xc_upstream = u, xc_created = c,
     xc_max_output_tokens = 128000, xc_reasoning_efforts = ef,
     xc_subscription_fast_multiplier_basis_points = fm, xc_credit_rates = cr,
     xc_tariff_family = tf, xc_credit_family = cf, xc_schedule = s\<rparr>"

definition CODEX_CATALOG :: "codex_catalog_entry list" where
  "CODEX_CATALOG =
     [codex_row ''gpt-5.6'' ''gpt-5.6-sol'' GPT_56_RELEASED EFFORTS_WITH_MAX FAST_25X
        (codex_credits 125000 12500 750000) ''openai/codex/gpt-5.6-sol''
        ''chatgpt/codex-credits/gpt-5.6-sol'' GPT_56_SOL_SCHEDULE,
      codex_row ''gpt-5.6-sol'' ''gpt-5.6-sol'' GPT_56_RELEASED EFFORTS_WITH_MAX FAST_25X
        (codex_credits 125000 12500 750000) ''openai/codex/gpt-5.6-sol''
        ''chatgpt/codex-credits/gpt-5.6-sol'' GPT_56_SOL_SCHEDULE,
      codex_row ''gpt-5.6-terra'' ''gpt-5.6-terra'' GPT_56_RELEASED EFFORTS_WITH_MAX FAST_25X
        (codex_credits 50000 5000 300000) ''openai/codex/gpt-5.6-terra''
        ''chatgpt/codex-credits/gpt-5.6-terra'' GPT_56_TERRA_SCHEDULE,
      codex_row ''gpt-5.6-luna'' ''gpt-5.6-luna'' GPT_56_RELEASED EFFORTS_WITH_MAX FAST_25X
        (codex_credits 5000 500 30000) ''openai/codex/gpt-5.6-luna''
        ''chatgpt/codex-credits/gpt-5.6-luna'' GPT_56_LUNA_SCHEDULE,
      codex_row ''gpt-5.5'' ''gpt-5.5'' GPT_55_RELEASED EFFORTS_STANDARD FAST_25X
        (codex_credits 125000 12500 750000) ''openai/codex/gpt-5.5''
        ''chatgpt/codex-credits/gpt-5.5'' GPT_55_SCHEDULE,
      codex_row ''gpt-5.4'' ''gpt-5.4'' GPT_54_RELEASED EFFORTS_STANDARD FAST_20X
        (codex_credits 62500 6250 375000) ''openai/codex/gpt-5.4''
        ''chatgpt/codex-credits/gpt-5.4'' GPT_54_SCHEDULE]"

lemmas codex_tables =
  CODEX_CATALOG_def codex_row_def GPT_56_SOL_SCHEDULE_def GPT_56_TERRA_SCHEDULE_def
  GPT_56_LUNA_SCHEDULE_def GPT_55_SCHEDULE_def GPT_54_SCHEDULE_def codex_dated_def
  codex_price_card_def codex_credits_def PRICE_CUT_2026_07_30_def
  GPT_56_SOL_PROMO_START_2026_08_21_def GPT_56_SOL_STANDARD_RETURN_2026_11_22_def
  FAST_25X_def FAST_20X_def

section \<open>Lookups\<close>

text \<open>An empty schedule would be a panic in the source; \<open>codex_schedules\<close> below shows that the
  catalogue has none.\<close>

definition codex_price_epoch_at ::
    "identified_codex_price_epoch list \<Rightarrow> i64 \<Rightarrow> identified_codex_price_epoch" where
  "codex_price_epoch_at schedule now_unix =
     foldl (\<lambda>current epoch. if xe_effective_from (xi_epoch epoch) \<le> now_unix then epoch else current)
       (hd schedule) schedule"

definition codex_schedule_prices_at :: "identified_codex_price_epoch list \<Rightarrow> i64 \<Rightarrow> codex_prices" where
  "codex_schedule_prices_at schedule now_unix =
     xe_prices (xi_epoch (codex_price_epoch_at schedule now_unix))"

definition codex_catalog_at :: "i64 \<Rightarrow> codex_model_spec list" where
  "codex_catalog_at now_unix = map (\<lambda>entry. \<lparr>xs_id = xc_id entry, xs_upstream = xc_upstream entry,
     xs_created = xc_created entry, xs_max_output_tokens = xc_max_output_tokens entry,
     xs_reasoning_efforts = xc_reasoning_efforts entry,
     xs_subscription_fast_multiplier_basis_points = xc_subscription_fast_multiplier_basis_points entry,
     xs_prices = codex_schedule_prices_at (xc_schedule entry) now_unix,
     xs_credit_rates = xc_credit_rates entry\<rparr>) CODEX_CATALOG"

definition codex_find :: "string \<Rightarrow> codex_catalog_entry option" where
  "codex_find model_id = List.find (\<lambda>entry. xc_id entry = model_id) CODEX_CATALOG"

definition codex_prices_at :: "string \<Rightarrow> i64 \<Rightarrow> codex_prices option" where
  "codex_prices_at model_id now_unix =
     map_option (\<lambda>entry. codex_schedule_prices_at (xc_schedule entry) now_unix) (codex_find model_id)"

definition codex_matched_tariff_at :: "string \<Rightarrow> i64 \<Rightarrow> (string \<times> codex_prices) option" where
  "codex_matched_tariff_at model_id now_unix =
     map_option (\<lambda>entry.
       (xc_tariff_family entry, codex_schedule_prices_at (xc_schedule entry) now_unix))
       (codex_find model_id)"

definition codex_credit_rates_of :: "string \<Rightarrow> codex_credit_rates option" where
  "codex_credit_rates_of model_id = map_option xc_credit_rates (codex_find model_id)"

definition codex_matched_credit_rates_at :: "string \<Rightarrow> (string \<times> codex_credit_rates) option" where
  "codex_matched_credit_rates_at model_id =
     map_option (\<lambda>entry. (xc_credit_family entry, xc_credit_rates entry)) (codex_find model_id)"

text \<open>The loop both inventories share: a row is skipped when its family is already listed.\<close>

definition push_new_family :: "(string \<times> 'p) list \<Rightarrow> string \<times> 'p \<Rightarrow> (string \<times> 'p) list" where
  "push_new_family tariffs row =
     (if list_ex (\<lambda>(family, _). family = fst row) tariffs then tariffs else tariffs @ [row])"

definition codex_compiled_tariffs_at :: "i64 \<Rightarrow> (string \<times> codex_prices) list" where
  "codex_compiled_tariffs_at now_unix =
     foldl (\<lambda>tariffs entry. push_new_family tariffs
       (xc_tariff_family entry, codex_schedule_prices_at (xc_schedule entry) now_unix))
       [] CODEX_CATALOG"

definition codex_tariff_has_future_epoch_at :: "string \<Rightarrow> i64 \<Rightarrow> bool" where
  "codex_tariff_has_future_epoch_at tariff_family now_unix =
     (case List.find (\<lambda>entry. xc_tariff_family entry = tariff_family) CODEX_CATALOG of
        None \<Rightarrow> False
      | Some entry \<Rightarrow>
          list_ex (\<lambda>epoch. now_unix < xe_effective_from (xi_epoch epoch)) (xc_schedule entry))"

definition codex_tariff_seed_safe :: "string \<Rightarrow> bool" where
  "codex_tariff_seed_safe tariff_family =
     (case List.find (\<lambda>entry. xc_tariff_family entry = tariff_family) CODEX_CATALOG of
        None \<Rightarrow> False
      | Some entry \<Rightarrow> length (xc_schedule entry) = 1)"

definition codex_compiled_credit_rates :: "(string \<times> codex_credit_rates) list" where
  "codex_compiled_credit_rates =
     foldl (\<lambda>families entry. push_new_family families (xc_credit_family entry, xc_credit_rates entry))
       [] CODEX_CATALOG"

section \<open>Audited admission identity\<close>

definition codex_service_multiplier ::
    "codex_catalog_entry \<Rightarrow> codex_prices \<Rightarrow> codex_service_tier \<Rightarrow> tariff_identity_error + i64" where
  "codex_service_multiplier entry p service_tier =
     (case service_tier of
        CodexStandard \<Rightarrow> Inr 10000
      | CodexFast \<Rightarrow>
          bind_res (ok_or UnsupportedModifier (xc_subscription_fast_multiplier_basis_points entry))
            (\<lambda>_. Inr (xp_api_fast_multiplier_basis_points p)))"

definition codex_tariff_capability_at ::
    "string \<Rightarrow> i64 \<Rightarrow> codex_service_tier \<Rightarrow> u64
      \<Rightarrow> tariff_identity_error + codex_admission_tariff_identity" where
  "codex_tariff_capability_at model_id priced_ts service_tier estimated_input_tokens =
     (if priced_ts \<le> 0 then Inl InvalidPricedTimestamp
      else
        bind_res (ok_or UnsupportedModelIdentity (codex_find model_id)) (\<lambda>entry.
          let epoch = codex_price_epoch_at (xc_schedule entry) priced_ts;
              p = xe_prices (xi_epoch epoch)
          in bind_res (codex_service_multiplier entry p service_tier) (\<lambda>service_bp.
               let (context_tier, input_bp, output_bp) =
                     (if xp_long_context_threshold p < estimated_input_tokens
                      then (CodexContextLong, xp_long_input_basis_points p,
                        xp_long_output_basis_points p)
                      else (CodexContextStandard, 10000, 10000))
               in Inr \<lparr>xa_canonical_model_id = xc_upstream entry,
                    xa_max_output_tokens = xc_max_output_tokens entry,
                    xa_alias_generation = CODEX_ALIAS_GENERATION,
                    xa_tariff_schedule_id = xi_tariff_schedule_id epoch,
                    xa_schedule_effective_from = xe_effective_from (xi_epoch epoch),
                    xa_prices = p,
                    xa_modifiers = \<lparr>xm_service_tier = service_tier,
                      xm_service_tier_multiplier_basis_points = service_bp,
                      xm_context_tier = context_tier,
                      xm_input_multiplier_basis_points = input_bp,
                      xm_output_multiplier_basis_points = output_bp\<rparr>\<rparr>)))"

section \<open>Credits\<close>

definition codex_subscription_fast_multiplier_basis_points :: "string \<Rightarrow> i64 option" where
  "codex_subscription_fast_multiplier_basis_points model_id =
     Option.bind (codex_find model_id) xc_subscription_fast_multiplier_basis_points"

definition codex_credit_cost_nano_with_rates ::
    "codex_credit_rates \<Rightarrow> i64 \<Rightarrow> u64 \<Rightarrow> u64 \<Rightarrow> u64 \<Rightarrow> codex_credit_usage" where
  "codex_credit_cost_nano_with_rates rates fast_multiplier input_toks cached_toks output_toks =
     (let cached = min cached_toks input_toks;
          fresh = sat_sub_u64 input_toks cached;
          input_credit = apply_multiplier (sat_mul_i128 (uint fresh) (xr_input rates)) fast_multiplier;
          cached_credit =
            apply_multiplier (sat_mul_i128 (uint cached) (xr_cached_input rates)) fast_multiplier;
          output_credit =
            apply_multiplier (sat_mul_i128 (uint output_toks) (xr_output rates)) fast_multiplier
      in \<lparr>xu_fresh_input_tokens = fresh, xu_cached_input_tokens = cached,
          xu_output_tokens = output_toks, xu_input_credit_nano = input_credit,
          xu_cached_input_credit_nano = cached_credit, xu_output_credit_nano = output_credit,
          xu_total_credit_nano = sat_add_i128 (sat_add_i128 input_credit cached_credit) output_credit\<rparr>)"

definition codex_credit_cost_nano ::
    "string \<Rightarrow> u64 \<Rightarrow> u64 \<Rightarrow> u64 \<Rightarrow> bool \<Rightarrow> codex_credit_usage option" where
  "codex_credit_cost_nano model_id input_toks cached_toks output_toks fast =
     Option.bind (codex_credit_rates_of model_id) (\<lambda>rates.
     Option.bind (if fast then codex_subscription_fast_multiplier_basis_points model_id
                  else Some 10000) (\<lambda>fast_multiplier.
       Some (codex_credit_cost_nano_with_rates rates fast_multiplier input_toks cached_toks
         output_toks)))"

section \<open>The catalogue laws\<close>

lemma codex_schedules:
  "\<forall>e\<in>set CODEX_CATALOG. xc_schedule e \<noteq> []
     \<and> sorted (map (xe_effective_from \<circ> xi_epoch) (xc_schedule e))
     \<and> xe_effective_from (xi_epoch (hd (xc_schedule e))) = 0"
  by (simp add: codex_tables)

lemma codex_shared_family:
  "\<forall>e\<in>set CODEX_CATALOG. \<forall>d\<in>set CODEX_CATALOG.
     xc_tariff_family d = xc_tariff_family e \<longrightarrow> xc_schedule d = xc_schedule e"
  by (simp add: CODEX_CATALOG_def codex_row_def)

lemma codex_find_family:
  assumes "e \<in> set CODEX_CATALOG"
  shows "\<exists>d. List.find (\<lambda>x. xc_tariff_family x = xc_tariff_family e) CODEX_CATALOG = Some d
    \<and> xc_schedule d = xc_schedule e"
  by (rule find_family_row [OF assms]) (use codex_shared_family assms in blast)

text \<open>When rows of one family are equal, skipping the listed families loses no row.\<close>

lemma push_new_family_rows:
  assumes "\<forall>r\<in>set ts \<union> set rows. \<forall>r'\<in>set ts \<union> set rows. fst r = fst r' \<longrightarrow> r = r'"
  shows "set (foldl push_new_family ts rows) = set ts \<union> set rows"
  using assms
proof (induction rows arbitrary: ts)
  case (Cons r rows)
  have "set (push_new_family ts r) = set ts \<union> {r}"
    using Cons.prems by (force simp: push_new_family_def list_ex_iff)
  then show ?case using Cons by simp
qed simp

lemma push_new_family_distinct:
  assumes "distinct (map fst ts)"
  shows "distinct (map fst (foldl push_new_family ts rows))"
  using assms
proof (induction rows arbitrary: ts)
  case (Cons r rows)
  then have "distinct (map fst (push_new_family ts r))"
    by (force simp: push_new_family_def list_ex_iff)
  then show ?case using Cons.IH by simp
qed simp

lemma codex_compiled_fold:
  "codex_compiled_tariffs_at t = foldl push_new_family []
     (map (\<lambda>e. (xc_tariff_family e, codex_schedule_prices_at (xc_schedule e) t)) CODEX_CATALOG)"
  by (simp add: codex_compiled_tariffs_at_def foldl_map)

lemma codex_rows_agree:
  assumes "d \<in> set CODEX_CATALOG" "e \<in> set CODEX_CATALOG" "xc_tariff_family d = xc_tariff_family e"
  shows "codex_schedule_prices_at (xc_schedule d) t = codex_schedule_prices_at (xc_schedule e) t"
proof -
  have "xc_schedule d = xc_schedule e" using codex_shared_family assms by blast
  then show ?thesis by simp
qed

interpretation codex: rate_catalog codex_schedule_prices_at "xe_effective_from \<circ> xi_epoch"
  "xe_prices \<circ> xi_epoch" CODEX_CATALOG xc_tariff_family xc_schedule codex_matched_tariff_at
  codex_compiled_tariffs_at codex_tariff_has_future_epoch_at codex_tariff_seed_safe
proof unfold_locales
  show "xc_schedule e \<noteq> []" if "e \<in> set CODEX_CATALOG" for e using codex_schedules that by simp
  show "\<exists>e\<in>set CODEX_CATALOG. f = xc_tariff_family e \<and> p = codex_schedule_prices_at (xc_schedule e) t"
    if "codex_matched_tariff_at m t = Some (f, p)" for m t f p
    using that by (auto simp: codex_matched_tariff_at_def codex_find_def dest!: find_Some_mem)
  show "set (codex_compiled_tariffs_at t)
      = (\<lambda>e. (xc_tariff_family e, codex_schedule_prices_at (xc_schedule e) t)) ` set CODEX_CATALOG" for t
    unfolding codex_compiled_fold
    by (subst push_new_family_rows) (auto intro: codex_rows_agree)
  show "distinct (map fst (codex_compiled_tariffs_at t))" for t
    unfolding codex_compiled_fold by (rule push_new_family_distinct) simp
  show "codex_tariff_has_future_epoch_at (xc_tariff_family e) t
      \<longleftrightarrow> (\<exists>x\<in>set (xc_schedule e). t < (xe_effective_from \<circ> xi_epoch) x)"
    if "e \<in> set CODEX_CATALOG" for e t
    using codex_find_family [OF that] by (auto simp: codex_tariff_has_future_epoch_at_def list_ex_iff)
  show "codex_tariff_seed_safe (xc_tariff_family e) \<longleftrightarrow> length (xc_schedule e) = 1"
    if "e \<in> set CODEX_CATALOG" for e
    using codex_find_family [OF that] by (auto simp: codex_tariff_seed_safe_def)
qed (simp_all add: codex_schedule_prices_at_def codex_price_epoch_at_def)

interpretation codex_epochs: effective_schedule codex_price_epoch_at "xe_effective_from \<circ> xi_epoch"
  "\<lambda>e. e"
  by unfold_locales (simp_all add: codex_price_epoch_at_def)

section \<open>The admission identity\<close>

lemma codex_find_mem: "codex_find m = Some e \<Longrightarrow> e \<in> set CODEX_CATALOG \<and> xc_id e = m"
  unfolding codex_find_def by (rule find_Some_mem)

lemma codex_find_None: "codex_find m = None \<longleftrightarrow> m \<notin> xc_id ` set CODEX_CATALOG"
  by (auto simp: codex_find_def find_None_iff)

text \<open>The upstream id of a row is itself a row with the same terms, so resolving an alias twice
  changes nothing.\<close>

lemma codex_upstream_row:
  assumes "e \<in> set CODEX_CATALOG"
  obtains d where "codex_find (xc_upstream e) = Some d" "xc_upstream d = xc_upstream e"
    "xc_schedule d = xc_schedule e" "xc_max_output_tokens d = xc_max_output_tokens e"
    "xc_subscription_fast_multiplier_basis_points d = xc_subscription_fast_multiplier_basis_points e"
proof -
  have "\<forall>e\<in>set CODEX_CATALOG. \<exists>d. codex_find (xc_upstream e) = Some d \<and> xc_upstream d = xc_upstream e
    \<and> xc_schedule d = xc_schedule e \<and> xc_max_output_tokens d = xc_max_output_tokens e
    \<and> xc_subscription_fast_multiplier_basis_points d = xc_subscription_fast_multiplier_basis_points e"
    by (simp add: codex_find_def CODEX_CATALOG_def codex_row_def)
  then show ?thesis using assms that by blast
qed

lemma codex_fast_everywhere:
  "e \<in> set CODEX_CATALOG \<Longrightarrow> xc_subscription_fast_multiplier_basis_points e \<noteq> None"
  by (auto simp: codex_tables)

lemma codex_service_multiplier_ok:
  "e \<in> set CODEX_CATALOG \<Longrightarrow> codex_service_multiplier e p tier =
     Inr (case tier of CodexStandard \<Rightarrow> 10000 | CodexFast \<Rightarrow> xp_api_fast_multiplier_basis_points p)"
  using codex_fast_everywhere [of e]
  by (auto simp: codex_service_multiplier_def split: codex_service_tier.split)

definition codex_identity ::
    "codex_catalog_entry \<Rightarrow> i64 \<Rightarrow> codex_service_tier \<Rightarrow> u64 \<Rightarrow> codex_admission_tariff_identity" where
  "codex_identity e ts tier n =
     (let x = codex_price_epoch_at (xc_schedule e) ts; p = xe_prices (xi_epoch x);
          long = xp_long_context_threshold p < n
      in \<lparr>xa_canonical_model_id = xc_upstream e, xa_max_output_tokens = xc_max_output_tokens e,
          xa_alias_generation = CODEX_ALIAS_GENERATION,
          xa_tariff_schedule_id = xi_tariff_schedule_id x,
          xa_schedule_effective_from = xe_effective_from (xi_epoch x), xa_prices = p,
          xa_modifiers = \<lparr>xm_service_tier = tier,
            xm_service_tier_multiplier_basis_points = (case tier of CodexStandard \<Rightarrow> 10000
               | CodexFast \<Rightarrow> xp_api_fast_multiplier_basis_points p),
            xm_context_tier = (if long then CodexContextLong else CodexContextStandard),
            xm_input_multiplier_basis_points = (if long then xp_long_input_basis_points p else 10000),
            xm_output_multiplier_basis_points =
              (if long then xp_long_output_basis_points p else 10000)\<rparr>\<rparr>)"

lemma codex_capability_cases:
  "codex_tariff_capability_at m ts tier n =
     (if ts \<le> 0 then Inl InvalidPricedTimestamp
      else case codex_find m of None \<Rightarrow> Inl UnsupportedModelIdentity
      | Some e \<Rightarrow> Inr (codex_identity e ts tier n))"
proof (cases "codex_find m")
  case (Some e)
  then have e: "e \<in> set CODEX_CATALOG" using codex_find_mem by blast
  show ?thesis
    by (simp add: codex_tariff_capability_at_def Some codex_service_multiplier_ok [OF e]
        codex_identity_def Let_def)
qed (simp add: codex_tariff_capability_at_def)

lemma codex_identity_upstream:
  assumes "e \<in> set CODEX_CATALOG"
  obtains d where "codex_find (xc_upstream e) = Some d"
    "codex_identity d ts tier n = codex_identity e ts tier n"
  using codex_upstream_row [OF assms] by (metis codex_identity_def)

lemma codex_epoch_newest:
  assumes "e \<in> set CODEX_CATALOG" "0 < ts"
  defines "x \<equiv> codex_price_epoch_at (xc_schedule e) ts"
  shows "x \<in> set (xc_schedule e) \<and> xe_effective_from (xi_epoch x) \<le> ts
    \<and> (\<forall>y\<in>set (xc_schedule e). xe_effective_from (xi_epoch y) \<le> ts
        \<longrightarrow> xe_effective_from (xi_epoch y) \<le> xe_effective_from (xi_epoch x))"
proof -
  have s: "xc_schedule e \<noteq> []" "sorted (map (xe_effective_from \<circ> xi_epoch) (xc_schedule e))"
      "(xe_effective_from \<circ> xi_epoch) (hd (xc_schedule e)) \<le> ts"
    using codex_schedules assms(1,2) by auto
  show ?thesis
    using codex_epochs.current_newest [OF s(2) hd_in_set [OF s(1)] s(3)] by (auto simp: x_def)
qed

text \<open>The audited Codex identity. Admission fails exactly for a non-positive instant
  (\<open>InvalidPricedTimestamp\<close>) or an id outside the pinned catalogue
  (\<open>UnsupportedModelIdentity\<close>), and every catalogued model supports both service tiers.
  Otherwise the identity carries the prices the tariff matcher bills at that instant; they come from
  an epoch of the model's schedule that is in effect and newer than every other epoch in effect; the
  long-context tier is chosen exactly above the card's threshold; and asking again under the
  canonical id gives the same identity, so an alias cannot acquire terms of its own.
\<close>

lemma codex_identity_is_audited:
  "case codex_tariff_capability_at m ts tier n of
     Inl err \<Rightarrow> (ts \<le> 0 \<and> err = InvalidPricedTimestamp)
       \<or> (0 < ts \<and> m \<notin> xc_id ` set CODEX_CATALOG \<and> err = UnsupportedModelIdentity)
   | Inr a \<Rightarrow> 0 < ts
       \<and> (\<exists>e\<in>set CODEX_CATALOG. xc_id e = m
           \<and> codex_matched_tariff_at m ts = Some (xc_tariff_family e, xa_prices a)
           \<and> (\<exists>x\<in>set (xc_schedule e). xa_prices a = xe_prices (xi_epoch x)
               \<and> xa_tariff_schedule_id a = xi_tariff_schedule_id x
               \<and> xa_schedule_effective_from a = xe_effective_from (xi_epoch x)
               \<and> xe_effective_from (xi_epoch x) \<le> ts
               \<and> (\<forall>y\<in>set (xc_schedule e). xe_effective_from (xi_epoch y) \<le> ts
                   \<longrightarrow> xe_effective_from (xi_epoch y) \<le> xe_effective_from (xi_epoch x))))
       \<and> (xm_context_tier (xa_modifiers a) = CodexContextLong
           \<longleftrightarrow> xp_long_context_threshold (xa_prices a) < n)
       \<and> codex_tariff_capability_at (xa_canonical_model_id a) ts tier n = Inr a"
proof (cases "codex_find m")
  case None
  then have "m \<notin> xc_id ` set CODEX_CATALOG" by (simp add: codex_find_None)
  then show ?thesis by (simp add: codex_capability_cases None)
next
  case (Some e)
  show ?thesis
  proof (cases "ts \<le> 0")
    case True
    then show ?thesis by (simp add: codex_capability_cases)
  next
    case False
    define a where "a = codex_identity e ts tier n"
    have e: "e \<in> set CODEX_CATALOG" "xc_id e = m" using codex_find_mem [OF Some] by simp_all
    have a: "codex_tariff_capability_at m ts tier n = Inr a"
      using False by (simp add: codex_capability_cases Some a_def)
    obtain d where d: "codex_find (xc_upstream e) = Some d" "codex_identity d ts tier n = a"
      unfolding a_def by (rule codex_identity_upstream [OF e(1)])
    have matched: "codex_matched_tariff_at m ts = Some (xc_tariff_family e, xa_prices a)"
      by (simp add: codex_matched_tariff_at_def Some a_def codex_identity_def Let_def
          codex_schedule_prices_at_def)
    have again: "codex_tariff_capability_at (xa_canonical_model_id a) ts tier n = Inr a"
      using False d by (simp add: codex_capability_cases a_def codex_identity_def Let_def)
    have epoch: "\<exists>x\<in>set (xc_schedule e). xa_prices a = xe_prices (xi_epoch x)
        \<and> xa_tariff_schedule_id a = xi_tariff_schedule_id x
        \<and> xa_schedule_effective_from a = xe_effective_from (xi_epoch x)
        \<and> xe_effective_from (xi_epoch x) \<le> ts
        \<and> (\<forall>y\<in>set (xc_schedule e). xe_effective_from (xi_epoch y) \<le> ts
            \<longrightarrow> xe_effective_from (xi_epoch y) \<le> xe_effective_from (xi_epoch x))"
      using codex_epoch_newest [OF e(1), of ts] False
      by (intro bexI [of _ "codex_price_epoch_at (xc_schedule e) ts"])
        (simp_all add: a_def codex_identity_def Let_def)
    have long: "xm_context_tier (xa_modifiers a) = CodexContextLong
        \<longleftrightarrow> xp_long_context_threshold (xa_prices a) < n"
      by (simp add: a_def codex_identity_def Let_def)
    show ?thesis using a e matched epoch long again False by auto
  qed
qed

section \<open>The credit charge\<close>

text \<open>One leg of the card is exact when its rate is small and the multiplier divides it evenly.\<close>

definition credit_leg_ok :: "i128 \<Rightarrow> i64 \<Rightarrow> bool" where
  "credit_leg_ok r bp \<longleftrightarrow> rate_ok r \<and> 0 \<le> bp \<and> bp \<le> 2 ^ 20 \<and> r * bp mod 10000 = 0"

lemma codex_leg_exact:
  assumes "credit_leg_ok r bp"
  shows "10000 * apply_multiplier (sat_mul_i128 (uint (w :: u64)) r) bp = uint w * r * bp"
    "0 \<le> apply_multiplier (sat_mul_i128 (uint (w :: u64)) r) bp"
    "apply_multiplier (sat_mul_i128 (uint (w :: u64)) r) bp \<le> 2 ^ 124"
proof -
  have b: "0 \<le> uint w * r" "uint w * r \<le> 2 ^ 104" and bp: "0 \<le> bp" "bp \<le> 2 ^ 20"
    using assms rate_ok_product [of r w] by (simp_all add: credit_leg_ok_def)
  define q where "q = uint w * (r * bp div 10000)"
  have q: "uint w * r * bp = 10000 * q"
    using assms by (auto simp: q_def credit_leg_ok_def ac_simps)
  have "sat_mul_i128 (uint w) r = uint w * r" using b by (simp add: exact in_i128_def)
  then have m: "apply_multiplier (sat_mul_i128 (uint w) r) bp = (uint w * r * bp + 5000) div 10000"
    using b bp by (simp add: apply_multiplier_nonneg_exact)
  also have "\<dots> = q" by (simp add: q)
  finally have eq: "apply_multiplier (sat_mul_i128 (uint w) r) bp = q" .
  have "uint w * r * bp \<le> 2 ^ 104 * 2 ^ 20" using b bp by (intro mult_mono) simp_all
  moreover have "0 \<le> uint w * r * bp" using b bp by simp
  ultimately have "0 \<le> q \<and> q \<le> 2 ^ 124" by (simp add: q)
  then show "10000 * apply_multiplier (sat_mul_i128 (uint w) r) bp = uint w * r * bp"
    "0 \<le> apply_multiplier (sat_mul_i128 (uint w) r) bp"
    "apply_multiplier (sat_mul_i128 (uint w) r) bp \<le> 2 ^ 124"
    using eq q by simp_all
qed

lemma codex_credit_card_ok:
  "\<forall>e\<in>set CODEX_CATALOG. \<forall>bp\<in>{10000} \<union> set_option (xc_subscription_fast_multiplier_basis_points e).
     credit_leg_ok (xr_input (xc_credit_rates e)) bp
     \<and> credit_leg_ok (xr_cached_input (xc_credit_rates e)) bp
     \<and> credit_leg_ok (xr_output (xc_credit_rates e)) bp"
  by (simp add: codex_tables credit_leg_ok_def rate_ok_def)

lemma codex_credit_exact:
  fixes inp cached out :: u64
  assumes "credit_leg_ok (xr_input r) bp" "credit_leg_ok (xr_cached_input r) bp"
    "credit_leg_ok (xr_output r) bp"
  defines "u \<equiv> codex_credit_cost_nano_with_rates r bp inp cached out"
  shows "uint (xu_fresh_input_tokens u) + uint (xu_cached_input_tokens u) = uint inp
    \<and> xu_cached_input_tokens u = min cached inp
    \<and> 10000 * xu_input_credit_nano u = uint (xu_fresh_input_tokens u) * xr_input r * bp
    \<and> 10000 * xu_cached_input_credit_nano u = uint (xu_cached_input_tokens u) * xr_cached_input r * bp
    \<and> 10000 * xu_output_credit_nano u = uint out * xr_output r * bp
    \<and> xu_total_credit_nano u
        = xu_input_credit_nano u + xu_cached_input_credit_nano u + xu_output_credit_nano u"
proof -
  note l1 = codex_leg_exact [OF assms(1)] and l2 = codex_leg_exact [OF assms(2)]
    and l3 = codex_leg_exact [OF assms(3)]
  have part: "uint (sat_sub_u64 inp (min cached inp)) + uint (min cached inp) = uint inp"
    by (simp add: uint_u64_simps)
  have add: "sat_add_i128 (sat_add_i128 a b) c = a + b + c"
    if "0 \<le> a" "a \<le> 2 ^ 124" "0 \<le> b" "b \<le> 2 ^ 124" "0 \<le> c" "c \<le> 2 ^ 124" for a b c
    using that by (simp add: exact in_i128_def)
  show ?thesis
    using part by (simp add: u_def codex_credit_cost_nano_with_rates_def Let_def l1(1) l2(1) l3(1)
        add [OF l1(2,3) l2(2,3) l3(2,3)])
qed

text \<open>The native credit charge of a Codex turn. It exists exactly for catalogued models. The reported
  input splits without loss into fresh tokens and cached tokens (never more cached than input); each
  leg costs exactly tokens times rate times multiplier, with no rounding and no saturation for any
  \<open>u64\<close> counters; the multiplier is one for standard turns and the model's fast multiplier
  otherwise; and the total is the sum of the three legs.
\<close>

lemma codex_credit_charge_is_exact:
  "case (codex_credit_cost_nano m inp cached out fast, codex_find m) of
     (None, entry) \<Rightarrow> entry = None
   | (Some u, None) \<Rightarrow> False
   | (Some u, Some e) \<Rightarrow>
       (\<exists>bp. (if fast then xc_subscription_fast_multiplier_basis_points e = Some bp else bp = 10000)
         \<and> uint (xu_fresh_input_tokens u) + uint (xu_cached_input_tokens u) = uint inp
         \<and> xu_cached_input_tokens u = min cached inp
         \<and> 10000 * xu_input_credit_nano u
             = uint (xu_fresh_input_tokens u) * xr_input (xc_credit_rates e) * bp
         \<and> 10000 * xu_cached_input_credit_nano u
             = uint (xu_cached_input_tokens u) * xr_cached_input (xc_credit_rates e) * bp
         \<and> 10000 * xu_output_credit_nano u = uint out * xr_output (xc_credit_rates e) * bp
         \<and> xu_total_credit_nano u
             = xu_input_credit_nano u + xu_cached_input_credit_nano u + xu_output_credit_nano u)"
proof (cases "codex_find m")
  case None
  then show ?thesis by (simp add: codex_credit_cost_nano_def codex_credit_rates_of_def)
next
  case (Some e)
  then have e: "e \<in> set CODEX_CATALOG" using codex_find_mem by blast
  obtain fbp where fbp: "xc_subscription_fast_multiplier_basis_points e = Some fbp"
    using codex_fast_everywhere [OF e] by auto
  define bp where "bp = (if fast then fbp else 10000)"
  have ok: "credit_leg_ok (xr_input (xc_credit_rates e)) bp"
      "credit_leg_ok (xr_cached_input (xc_credit_rates e)) bp"
      "credit_leg_ok (xr_output (xc_credit_rates e)) bp"
    using codex_credit_card_ok e fbp by (auto simp: bp_def)
  have run: "codex_credit_cost_nano m inp cached out fast
      = Some (codex_credit_cost_nano_with_rates (xc_credit_rates e) bp inp cached out)"
    by (simp add: codex_credit_cost_nano_def codex_credit_rates_of_def Some bp_def fbp
        codex_subscription_fast_multiplier_basis_points_def)
  have "if fast then xc_subscription_fast_multiplier_basis_points e = Some bp else bp = 10000"
    by (simp add: bp_def fbp)
  then show ?thesis
    unfolding run Some prod.case option.case
    by (intro exI [of _ bp] conjI [OF _ codex_credit_exact [OF ok, of inp cached out]])
qed

end
