(* ===== verification/Metering_Gemini.thy ===== *)
theory Metering_Gemini
  imports Metering_Anthropic Rate_Catalog
begin

text \<open>
  \<open>src/crates/metering/src/gemini.rs\<close>: the effective-dated Gemini catalogue with its two search
  billing rules, the split of the provider's usage metadata into billed classes, the merge of
  streamed responses, and the saturating charge with its long-context tier.
\<close>

section \<open>Data\<close>

datatype gemini_search_billing = PerQuery i128 | PerGroundedPrompt i128

record gemini_prices =
  mp_input :: i128
  mp_audio_input :: i128
  mp_cached_input :: i128
  mp_cached_audio_input :: i128
  mp_output :: i128
  mp_image_output :: i128
  mp_long_context_threshold :: u64
  mp_long_input :: i128
  mp_long_audio_input :: i128
  mp_long_cached_input :: i128
  mp_long_cached_audio_input :: i128
  mp_long_output :: i128
  mp_search :: gemini_search_billing

record gemini_price_epoch =
  me_effective_from :: i64
  me_prices :: gemini_prices

record gemini_model_spec =
  ms_id :: string
  ms_display_name :: string
  ms_created :: i64
  ms_input_token_limit :: u64
  ms_output_token_limit :: u64
  ms_prices :: gemini_prices

record gemini_usage =
  mu_input_tokens :: u64
  mu_tool_prompt_tokens :: u64
  mu_audio_input_tokens :: u64
  mu_cached_input_tokens :: u64
  mu_cached_audio_input_tokens :: u64
  mu_output_tokens :: u64
  mu_thinking_output_tokens :: u64
  mu_image_output_tokens :: u64
  mu_search_queries :: u64
  mu_grounded_search_prompts :: u64

definition gemini_usage_default :: gemini_usage where
  "gemini_usage_default = \<lparr>mu_input_tokens = 0, mu_tool_prompt_tokens = 0,
     mu_audio_input_tokens = 0, mu_cached_input_tokens = 0, mu_cached_audio_input_tokens = 0,
     mu_output_tokens = 0, mu_thinking_output_tokens = 0, mu_image_output_tokens = 0,
     mu_search_queries = 0, mu_grounded_search_prompts = 0\<rparr>"

definition gemini_total_tokens :: "gemini_usage \<Rightarrow> u64" where
  "gemini_total_tokens u = sat_add_u64 (sat_add_u64 (sat_add_u64 (sat_add_u64 (sat_add_u64
     (mu_input_tokens u) (mu_audio_input_tokens u)) (mu_cached_input_tokens u))
     (mu_cached_audio_input_tokens u)) (mu_output_tokens u)) (mu_image_output_tokens u)"

definition gemini_is_zero :: "gemini_usage \<Rightarrow> bool" where
  "gemini_is_zero u \<longleftrightarrow> gemini_total_tokens u = 0 \<and> mu_search_queries u = 0
     \<and> mu_grounded_search_prompts u = 0"

record gemini_catalog_entry =
  mc_id :: string
  mc_display_name :: string
  mc_created :: i64
  mc_input_token_limit :: u64
  mc_output_token_limit :: u64
  mc_tariff_family :: string
  mc_schedule :: "gemini_price_epoch list"

section \<open>The catalogue\<close>

definition SEARCH_GEMINI_3 :: gemini_search_billing where
  "SEARCH_GEMINI_3 = PerQuery 14000000"

definition SEARCH_GEMINI_25 :: gemini_search_billing where
  "SEARCH_GEMINI_25 = PerGroundedPrompt 35000000"

definition GEMINI_25_PRO_RELEASED :: i64 where
  "GEMINI_25_PRO_RELEASED = 1750118400"

definition GEMINI_25_FLASH_RELEASED :: i64 where
  "GEMINI_25_FLASH_RELEASED = 1750118400"

definition GEMINI_25_FLASH_LITE_RELEASED :: i64 where
  "GEMINI_25_FLASH_LITE_RELEASED = 1753142400"

definition GEMINI_3_FLASH_PREVIEW_RELEASED :: i64 where
  "GEMINI_3_FLASH_PREVIEW_RELEASED = 1765929600"

definition GEMINI_31_PRO_PREVIEW_RELEASED :: i64 where
  "GEMINI_31_PRO_PREVIEW_RELEASED = 1771459200"

definition GEMINI_31_FLASH_LITE_RELEASED :: i64 where
  "GEMINI_31_FLASH_LITE_RELEASED = 1778112000"

definition GEMINI_35_FLASH_RELEASED :: i64 where
  "GEMINI_35_FLASH_RELEASED = 1779148800"

definition GEMINI_31_FLASH_IMAGE_RELEASED :: i64 where
  "GEMINI_31_FLASH_IMAGE_RELEASED = 1779926400"

definition GEMINI_36_FLASH_RELEASED :: i64 where
  "GEMINI_36_FLASH_RELEASED = 1784592000"

definition GEMINI_37_FLASH_RELEASED :: i64 where
  "GEMINI_37_FLASH_RELEASED = 1786579200"

definition U64_MAX :: u64 where
  "U64_MAX = 18446744073709551615"

definition flat_prices ::
    "i128 \<Rightarrow> i128 \<Rightarrow> i128 \<Rightarrow> i128 \<Rightarrow> i128 \<Rightarrow> gemini_search_billing \<Rightarrow> gemini_prices" where
  "flat_prices input audio_input cached_input cached_audio_input output search = \<lparr>
     mp_input = input, mp_audio_input = audio_input, mp_cached_input = cached_input,
     mp_cached_audio_input = cached_audio_input, mp_output = output, mp_image_output = 0,
     mp_long_context_threshold = U64_MAX, mp_long_input = input, mp_long_audio_input = audio_input,
     mp_long_cached_input = cached_input, mp_long_cached_audio_input = cached_audio_input,
     mp_long_output = output, mp_search = search\<rparr>"

definition gemini_epoch :: "i64 \<Rightarrow> gemini_prices \<Rightarrow> gemini_price_epoch" where
  "gemini_epoch effective_from p = \<lparr>me_effective_from = effective_from, me_prices = p\<rparr>"

definition GEMINI_3_FLASH_PREVIEW :: "gemini_price_epoch list" where
  "GEMINI_3_FLASH_PREVIEW = [gemini_epoch 0 (flat_prices 500 1000 50 100 3000 SEARCH_GEMINI_3)]"

definition GEMINI_36_STANDARD_START :: i64 where
  "GEMINI_36_STANDARD_START = 1798761600"

definition GEMINI_36_FLASH :: "gemini_price_epoch list" where
  "GEMINI_36_FLASH =
     [gemini_epoch 0 (flat_prices 750 750 75 75 3750 SEARCH_GEMINI_3),
      gemini_epoch GEMINI_36_STANDARD_START (flat_prices 1500 1500 150 150 7500 SEARCH_GEMINI_3)]"

definition GEMINI_37_FLASH_STANDARD_RATES_START :: i64 where
  "GEMINI_37_FLASH_STANDARD_RATES_START = 1798761600"

definition GEMINI_37_FLASH :: "gemini_price_epoch list" where
  "GEMINI_37_FLASH =
     [gemini_epoch 0 (flat_prices 750 750 75 75 3750 SEARCH_GEMINI_3),
      gemini_epoch GEMINI_37_FLASH_STANDARD_RATES_START
        (flat_prices 1500 1500 150 150 7500 SEARCH_GEMINI_3)]"

definition GEMINI_35_FLASH :: "gemini_price_epoch list" where
  "GEMINI_35_FLASH = [gemini_epoch 0 (flat_prices 1500 1500 150 150 9000 SEARCH_GEMINI_3)]"

definition GEMINI_31_FLASH_LITE :: "gemini_price_epoch list" where
  "GEMINI_31_FLASH_LITE = [gemini_epoch 0 (flat_prices 250 500 25 50 1500 SEARCH_GEMINI_3)]"

definition GEMINI_31_PRO_PREVIEW :: "gemini_price_epoch list" where
  "GEMINI_31_PRO_PREVIEW = [gemini_epoch 0 \<lparr>mp_input = 2000, mp_audio_input = 2000,
     mp_cached_input = 200, mp_cached_audio_input = 200, mp_output = 12000, mp_image_output = 0,
     mp_long_context_threshold = 200000, mp_long_input = 4000, mp_long_audio_input = 4000,
     mp_long_cached_input = 400, mp_long_cached_audio_input = 400, mp_long_output = 18000,
     mp_search = SEARCH_GEMINI_3\<rparr>]"

definition GEMINI_25_PRO :: "gemini_price_epoch list" where
  "GEMINI_25_PRO = [gemini_epoch 0 \<lparr>mp_input = 1250, mp_audio_input = 1250,
     mp_cached_input = 125, mp_cached_audio_input = 125, mp_output = 10000, mp_image_output = 0,
     mp_long_context_threshold = 200000, mp_long_input = 2500, mp_long_audio_input = 2500,
     mp_long_cached_input = 250, mp_long_cached_audio_input = 250, mp_long_output = 15000,
     mp_search = SEARCH_GEMINI_25\<rparr>]"

definition GEMINI_25_FLASH :: "gemini_price_epoch list" where
  "GEMINI_25_FLASH = [gemini_epoch 0 (flat_prices 300 1000 30 100 2500 SEARCH_GEMINI_25)]"

definition GEMINI_25_FLASH_LITE :: "gemini_price_epoch list" where
  "GEMINI_25_FLASH_LITE = [gemini_epoch 0 (flat_prices 100 300 10 30 400 SEARCH_GEMINI_25)]"

definition GEMINI_31_FLASH_IMAGE :: "gemini_price_epoch list" where
  "GEMINI_31_FLASH_IMAGE = [gemini_epoch 0 \<lparr>mp_input = 500, mp_audio_input = 500,
     mp_cached_input = 500, mp_cached_audio_input = 500, mp_output = 3000, mp_image_output = 60000,
     mp_long_context_threshold = U64_MAX, mp_long_input = 500, mp_long_audio_input = 500,
     mp_long_cached_input = 500, mp_long_cached_audio_input = 500, mp_long_output = 3000,
     mp_search = SEARCH_GEMINI_3\<rparr>]"

definition gemini_row ::
    "string \<Rightarrow> string \<Rightarrow> i64 \<Rightarrow> u64 \<Rightarrow> u64 \<Rightarrow> string \<Rightarrow> gemini_price_epoch list
      \<Rightarrow> gemini_catalog_entry" where
  "gemini_row i d c il ol f s = \<lparr>mc_id = i, mc_display_name = d, mc_created = c,
     mc_input_token_limit = il, mc_output_token_limit = ol, mc_tariff_family = f, mc_schedule = s\<rparr>"

definition GEMINI_CATALOG :: "gemini_catalog_entry list" where
  "GEMINI_CATALOG =
     [gemini_row ''gemini-3.1-flash-image'' ''Gemini 3.1 Flash Image (Nano Banana 2)''
        GEMINI_31_FLASH_IMAGE_RELEASED 131072 32768 ''google/gemini/gemini-3.1-flash-image''
        GEMINI_31_FLASH_IMAGE,
      gemini_row ''gemini-3.7-flash'' ''Gemini 3.7 Flash'' GEMINI_37_FLASH_RELEASED 1048576 65536
        ''google/gemini/gemini-3.7-flash'' GEMINI_37_FLASH,
      gemini_row ''gemini-3.6-flash'' ''Gemini 3.6 Flash'' GEMINI_36_FLASH_RELEASED 1048576 65536
        ''google/gemini/gemini-3.6-flash'' GEMINI_36_FLASH,
      gemini_row ''gemini-3.5-flash'' ''Gemini 3.5 Flash'' GEMINI_35_FLASH_RELEASED 1048576 65536
        ''google/gemini/gemini-3.5-flash'' GEMINI_35_FLASH,
      gemini_row ''gemini-3-flash-preview'' ''Gemini 3 Flash Preview''
        GEMINI_3_FLASH_PREVIEW_RELEASED 1048576 65536 ''google/gemini/gemini-3-flash-preview''
        GEMINI_3_FLASH_PREVIEW,
      gemini_row ''gemini-3.1-flash-lite'' ''Gemini 3.1 Flash-Lite'' GEMINI_31_FLASH_LITE_RELEASED
        1048576 65536 ''google/gemini/gemini-3.1-flash-lite'' GEMINI_31_FLASH_LITE,
      gemini_row ''gemini-3.1-pro-preview'' ''Gemini 3.1 Pro Preview''
        GEMINI_31_PRO_PREVIEW_RELEASED 1048576 65536 ''google/gemini/gemini-3.1-pro-preview''
        GEMINI_31_PRO_PREVIEW,
      gemini_row ''gemini-2.5-pro'' ''Gemini 2.5 Pro'' GEMINI_25_PRO_RELEASED 1048576 65536
        ''google/gemini/gemini-2.5-pro'' GEMINI_25_PRO,
      gemini_row ''gemini-2.5-flash'' ''Gemini 2.5 Flash'' GEMINI_25_FLASH_RELEASED 1048576 65536
        ''google/gemini/gemini-2.5-flash'' GEMINI_25_FLASH,
      gemini_row ''gemini-2.5-flash-lite'' ''Gemini 2.5 Flash-Lite'' GEMINI_25_FLASH_LITE_RELEASED
        1048576 65536 ''google/gemini/gemini-2.5-flash-lite'' GEMINI_25_FLASH_LITE]"

lemmas gemini_schedules_defs =
  GEMINI_31_FLASH_IMAGE_def GEMINI_37_FLASH_def GEMINI_36_FLASH_def GEMINI_35_FLASH_def
  GEMINI_3_FLASH_PREVIEW_def GEMINI_31_FLASH_LITE_def GEMINI_31_PRO_PREVIEW_def GEMINI_25_PRO_def
  GEMINI_25_FLASH_def GEMINI_25_FLASH_LITE_def GEMINI_36_STANDARD_START_def
  GEMINI_37_FLASH_STANDARD_RATES_START_def

section \<open>Lookups\<close>

text \<open>An empty schedule would be a panic in the source; \<open>gemini_catalog_rows\<close> below shows that
  the catalogue has none.\<close>

definition gemini_schedule_prices_at :: "gemini_price_epoch list \<Rightarrow> i64 \<Rightarrow> gemini_prices" where
  "gemini_schedule_prices_at schedule now_unix =
     foldl (\<lambda>current epoch. if me_effective_from epoch \<le> now_unix then me_prices epoch else current)
       (me_prices (hd schedule)) schedule"

definition gemini_catalog_at :: "i64 \<Rightarrow> gemini_model_spec list" where
  "gemini_catalog_at now_unix = map (\<lambda>entry. \<lparr>ms_id = mc_id entry,
     ms_display_name = mc_display_name entry, ms_created = mc_created entry,
     ms_input_token_limit = mc_input_token_limit entry,
     ms_output_token_limit = mc_output_token_limit entry,
     ms_prices = gemini_schedule_prices_at (mc_schedule entry) now_unix\<rparr>) GEMINI_CATALOG"

definition gemini_prices_at :: "string \<Rightarrow> i64 \<Rightarrow> gemini_prices option" where
  "gemini_prices_at model_id now_unix =
     map_option (\<lambda>entry. gemini_schedule_prices_at (mc_schedule entry) now_unix)
       (List.find (\<lambda>entry. mc_id entry = model_id) GEMINI_CATALOG)"

definition gemini_matched_tariff_at :: "string \<Rightarrow> i64 \<Rightarrow> (string \<times> gemini_prices) option" where
  "gemini_matched_tariff_at model_id now_unix =
     map_option (\<lambda>entry.
       (mc_tariff_family entry, gemini_schedule_prices_at (mc_schedule entry) now_unix))
       (List.find (\<lambda>entry. mc_id entry = model_id) GEMINI_CATALOG)"

definition gemini_compiled_tariffs_at :: "i64 \<Rightarrow> (string \<times> gemini_prices) list" where
  "gemini_compiled_tariffs_at now_unix =
     map (\<lambda>entry. (mc_tariff_family entry, gemini_schedule_prices_at (mc_schedule entry) now_unix))
       GEMINI_CATALOG"

definition gemini_tariff_has_future_epoch_at :: "string \<Rightarrow> i64 \<Rightarrow> bool" where
  "gemini_tariff_has_future_epoch_at tariff_family now_unix =
     (case List.find (\<lambda>entry. mc_tariff_family entry = tariff_family) GEMINI_CATALOG of
        None \<Rightarrow> False
      | Some entry \<Rightarrow> list_ex (\<lambda>epoch. now_unix < me_effective_from epoch) (mc_schedule entry))"

definition gemini_tariff_seed_safe :: "string \<Rightarrow> bool" where
  "gemini_tariff_seed_safe tariff_family =
     (case List.find (\<lambda>entry. mc_tariff_family entry = tariff_family) GEMINI_CATALOG of
        None \<Rightarrow> False
      | Some entry \<Rightarrow> length (mc_schedule entry) = 1)"

section \<open>Usage parsing\<close>

text \<open>Indexing a JSON value by a missing key gives \<open>null\<close>, which is no array.\<close>

definition count_modality :: "'v serde_json \<Rightarrow> 'v option \<Rightarrow> string \<Rightarrow> u64" where
  "count_modality J details modality =
     foldl sat_add_u64 0
       (List.map_filter (\<lambda>detail. Option.bind (jget J detail ''tokenCount'') (as_u64 J))
         (filter (\<lambda>detail. case get_str J detail ''modality'' of None \<Rightarrow> False
             | Some value \<Rightarrow> eq_ignore_ascii_case value modality)
           (case Option.bind details (as_array J) of None \<Rightarrow> [] | Some ds \<Rightarrow> ds)))"

definition gemini_usage_from_metadata :: "'v serde_json \<Rightarrow> 'v \<Rightarrow> gemini_usage" where
  "gemini_usage_from_metadata J metadata =
     (let prompt = get_u64 J metadata ''promptTokenCount'';
          cached = min (get_u64 J metadata ''cachedContentTokenCount'') prompt;
          tool_prompt = get_u64 J metadata ''toolUsePromptTokenCount'';
          audio_prompt =
            min (count_modality J (jget J metadata ''promptTokensDetails'') ''AUDIO'') prompt;
          cached_audio =
            min (min (count_modality J (jget J metadata ''cacheTokensDetails'') ''AUDIO'') cached)
              audio_prompt;
          audio_input = sat_sub_u64 audio_prompt cached_audio;
          cached_input = sat_sub_u64 cached cached_audio;
          input = sat_add_u64 (sat_sub_u64 (sat_sub_u64 prompt cached) audio_input) tool_prompt;
          candidates = get_u64 J metadata ''candidatesTokenCount'';
          image_candidates =
            min (count_modality J (jget J metadata ''candidatesTokensDetails'') ''IMAGE'') candidates;
          thoughts = get_u64 J metadata ''thoughtsTokenCount''
      in \<lparr>mu_input_tokens = input, mu_tool_prompt_tokens = min tool_prompt input,
          mu_audio_input_tokens = audio_input, mu_cached_input_tokens = cached_input,
          mu_cached_audio_input_tokens = cached_audio,
          mu_output_tokens = sat_add_u64 (sat_sub_u64 candidates image_candidates) thoughts,
          mu_thinking_output_tokens = thoughts, mu_image_output_tokens = image_candidates,
          mu_search_queries = 0, mu_grounded_search_prompts = 0\<rparr>)"

definition grounding_candidate :: "'v serde_json \<Rightarrow> u64 \<times> bool \<Rightarrow> 'v \<Rightarrow> u64 \<times> bool" where
  "grounding_candidate J st candidate =
     (case jget J candidate ''groundingMetadata'' of
        None \<Rightarrow> st
      | Some grounding \<Rightarrow>
          (let (search_queries, grounded) = st;
               queries = (case Option.bind (jget J grounding ''webSearchQueries'') (as_array J) of
                 None \<Rightarrow> 0 | Some items \<Rightarrow> of_nat (length items))
           in (sat_add_u64 search_queries queries,
               grounded \<or> queries > 0
               \<or> (case Option.bind (jget J grounding ''groundingChunks'') (as_array J) of
                    None \<Rightarrow> False | Some chunks \<Rightarrow> chunks \<noteq> []))))"

definition grounding_usage :: "'v serde_json \<Rightarrow> 'v \<Rightarrow> u64 \<times> bool" where
  "grounding_usage J value =
     foldl (grounding_candidate J) (0, False)
       (case Option.bind (jget J value ''candidates'') (as_array J) of None \<Rightarrow> [] | Some cs \<Rightarrow> cs)"

definition merge_grounding_usage :: "'v serde_json \<Rightarrow> gemini_usage \<Rightarrow> 'v \<Rightarrow> gemini_usage" where
  "merge_grounding_usage J usage value =
     (let (queries, grounded) = grounding_usage J value
      in usage\<lparr>mu_search_queries := max (mu_search_queries usage) queries,
           mu_grounded_search_prompts :=
             max (mu_grounded_search_prompts usage) (if grounded then 1 else 0)\<rparr>)"

definition gemini_usage_from_response_value :: "'v serde_json \<Rightarrow> 'v \<Rightarrow> gemini_usage option" where
  "gemini_usage_from_response_value J value =
     map_option (\<lambda>metadata. merge_grounding_usage J (gemini_usage_from_metadata J metadata) value)
       (jget J value ''usageMetadata'')"

definition gemini_merge_stream_response_value ::
    "'v serde_json \<Rightarrow> gemini_usage \<Rightarrow> 'v \<Rightarrow> gemini_usage" where
  "gemini_merge_stream_response_value J usage value =
     (let usage1 =
        (case jget J value ''usageMetadata'' of
           None \<Rightarrow> usage
         | Some metadata \<Rightarrow>
             (let snapshot = gemini_usage_from_metadata J metadata
              in if gemini_total_tokens snapshot > 0 \<or> gemini_total_tokens usage = 0
                 then snapshot\<lparr>mu_search_queries := mu_search_queries usage,
                        mu_grounded_search_prompts := mu_grounded_search_prompts usage\<rparr>
                 else usage))
      in merge_grounding_usage J usage1 value)"

definition gemini_usage_from_response_json :: "'v serde_json \<Rightarrow> string \<Rightarrow> gemini_usage" where
  "gemini_usage_from_response_json J body =
     (case Option.bind (from_str J body) (gemini_usage_from_response_value J) of
        None \<Rightarrow> gemini_usage_default | Some u \<Rightarrow> u)"

definition gemini_sse_line :: "'v serde_json \<Rightarrow> gemini_usage \<Rightarrow> string \<Rightarrow> gemini_usage" where
  "gemini_sse_line J usage line =
     (case Option.bind (strip_prefix line ''data:'') (\<lambda>data. from_str J (trim data)) of
        None \<Rightarrow> usage
      | Some value \<Rightarrow> gemini_merge_stream_response_value J usage value)"

definition gemini_usage_from_sse :: "'v serde_json \<Rightarrow> string \<Rightarrow> gemini_usage" where
  "gemini_usage_from_sse J body =
     (case from_utf8 body of
        None \<Rightarrow> gemini_usage_default
      | Some text \<Rightarrow> foldl (gemini_sse_line J) gemini_usage_default (str_lines text))"

section \<open>Cost\<close>

definition gemini_prompt_tokens :: "gemini_usage \<Rightarrow> u64" where
  "gemini_prompt_tokens u = sat_add_u64 (sat_add_u64 (sat_add_u64 (mu_input_tokens u)
     (mu_audio_input_tokens u)) (mu_cached_input_tokens u)) (mu_cached_audio_input_tokens u)"

definition gemini_cost_nanodollars :: "gemini_usage \<Rightarrow> gemini_prices \<Rightarrow> i128" where
  "gemini_cost_nanodollars u p =
     (let long = mp_long_context_threshold p < gemini_prompt_tokens u;
          (input, audio, cached, cached_audio, output) =
            (if long then (mp_long_input p, mp_long_audio_input p, mp_long_cached_input p,
               mp_long_cached_audio_input p, mp_long_output p)
             else (mp_input p, mp_audio_input p, mp_cached_input p, mp_cached_audio_input p,
               mp_output p));
          search = (case mp_search p of
              PerQuery nano \<Rightarrow> sat_mul_i128 (uint (mu_search_queries u)) nano
            | PerGroundedPrompt nano \<Rightarrow> sat_mul_i128 (uint (mu_grounded_search_prompts u)) nano)
      in sat_add_i128 (sat_add_i128 (sat_add_i128 (sat_add_i128 (sat_add_i128 (sat_add_i128
           (sat_mul_i128 (uint (mu_input_tokens u)) input)
           (sat_mul_i128 (uint (mu_audio_input_tokens u)) audio))
           (sat_mul_i128 (uint (mu_cached_input_tokens u)) cached))
           (sat_mul_i128 (uint (mu_cached_audio_input_tokens u)) cached_audio))
           (sat_mul_i128 (uint (mu_output_tokens u)) output))
           (sat_mul_i128 (uint (mu_image_output_tokens u)) (mp_image_output p)))
           search)"

section \<open>The catalogue laws\<close>

lemma gemini_catalog_rows:
  "\<forall>e\<in>set GEMINI_CATALOG. mc_schedule e \<noteq> []"
  "distinct (map mc_tariff_family GEMINI_CATALOG)"
  by (simp_all add: GEMINI_CATALOG_def gemini_row_def gemini_schedules_defs)

lemma gemini_find_family:
  assumes "e \<in> set GEMINI_CATALOG"
  shows "\<exists>d. List.find (\<lambda>x. mc_tariff_family x = mc_tariff_family e) GEMINI_CATALOG = Some d \<and> d = e"
proof (rule find_family_row [OF assms])
  show "\<forall>d\<in>set GEMINI_CATALOG. mc_tariff_family d = mc_tariff_family e \<longrightarrow> d = e"
    using gemini_catalog_rows(2) assms by (auto simp: distinct_map inj_on_def)
qed

interpretation gemini: rate_catalog gemini_schedule_prices_at me_effective_from me_prices
  GEMINI_CATALOG mc_tariff_family mc_schedule gemini_matched_tariff_at gemini_compiled_tariffs_at
  gemini_tariff_has_future_epoch_at gemini_tariff_seed_safe
proof unfold_locales
  show "\<exists>e\<in>set GEMINI_CATALOG. f = mc_tariff_family e \<and> p = gemini_schedule_prices_at (mc_schedule e) t"
    if "gemini_matched_tariff_at m t = Some (f, p)" for m t f p
    using that by (auto simp: gemini_matched_tariff_at_def dest!: find_Some_mem)
  show "gemini_tariff_has_future_epoch_at (mc_tariff_family e) t
      \<longleftrightarrow> (\<exists>x\<in>set (mc_schedule e). t < me_effective_from x)" if "e \<in> set GEMINI_CATALOG" for e t
    using gemini_find_family [OF that]
    by (auto simp: gemini_tariff_has_future_epoch_at_def list_ex_iff)
  show "gemini_tariff_seed_safe (mc_tariff_family e) \<longleftrightarrow> length (mc_schedule e) = 1"
    if "e \<in> set GEMINI_CATALOG" for e
    using gemini_find_family [OF that] by (auto simp: gemini_tariff_seed_safe_def)
qed (use gemini_catalog_rows in
      \<open>simp_all add: gemini_schedule_prices_at_def gemini_compiled_tariffs_at_def o_def\<close>)

section \<open>The billed classes\<close>

text \<open>The counts a metadata object reports, capped the way the provider nests them: cached tokens and
  audio tokens are part of the prompt, cached audio tokens are part of both.\<close>

definition reported_prompt :: "'v serde_json \<Rightarrow> 'v \<Rightarrow> int" where
  "reported_prompt J md = uint (get_u64 J md ''promptTokenCount'')"

definition reported_cached :: "'v serde_json \<Rightarrow> 'v \<Rightarrow> int" where
  "reported_cached J md = min (uint (get_u64 J md ''cachedContentTokenCount'')) (reported_prompt J md)"

definition reported_audio :: "'v serde_json \<Rightarrow> 'v \<Rightarrow> int" where
  "reported_audio J md =
     min (uint (count_modality J (jget J md ''promptTokensDetails'') ''AUDIO'')) (reported_prompt J md)"

definition reported_cached_audio :: "'v serde_json \<Rightarrow> 'v \<Rightarrow> int" where
  "reported_cached_audio J md =
     min (min (uint (count_modality J (jget J md ''cacheTokensDetails'') ''AUDIO''))
       (reported_cached J md)) (reported_audio J md)"

definition reported_tool :: "'v serde_json \<Rightarrow> 'v \<Rightarrow> int" where
  "reported_tool J md = uint (get_u64 J md ''toolUsePromptTokenCount'')"

lemmas reported_defs = reported_cached_audio_def reported_audio_def reported_cached_def
  reported_prompt_def reported_tool_def

lemma uint_sat_sub_le: "b \<le> a \<Longrightarrow> uint (sat_sub_u64 a b) = uint a - uint b"
  using leD [of b a] by (simp add: sat_sub_u64_def uint_sub_u64)

text \<open>The split of one report, for any counts.\<close>

lemma gemini_split:
  fixes prompt cached_raw tool audio_raw caudio_raw :: u64
  defines "cached \<equiv> min cached_raw prompt" and "audio \<equiv> min audio_raw prompt"
  defines "caudio \<equiv> min (min caudio_raw cached) audio"
  shows "uint (sat_sub_u64 audio caudio) = uint audio - uint caudio"
    "uint (sat_sub_u64 cached caudio) = uint cached - uint caudio"
    "uint (sat_add_u64 (sat_sub_u64 (sat_sub_u64 prompt cached) (sat_sub_u64 audio caudio)) tool)
       = min (2 ^ 64 - 1) (max 0 (uint prompt - uint cached - (uint audio - uint caudio)) + uint tool)"
proof -
  have "caudio \<le> cached" unfolding caudio_def by (rule min.coboundedI1) simp
  then have le: "caudio \<le> audio" "caudio \<le> cached" "cached \<le> prompt"
    by (simp_all add: caudio_def cached_def)
  show a: "uint (sat_sub_u64 audio caudio) = uint audio - uint caudio"
    and "uint (sat_sub_u64 cached caudio) = uint cached - uint caudio"
    using le by (simp_all add: uint_sat_sub_le)
  show "uint (sat_add_u64 (sat_sub_u64 (sat_sub_u64 prompt cached) (sat_sub_u64 audio caudio)) tool)
      = min (2 ^ 64 - 1) (max 0 (uint prompt - uint cached - (uint audio - uint caudio)) + uint tool)"
    unfolding uint_sat_add_u64 uint_sat_sub_u64 [of "sat_sub_u64 prompt cached"] a
      uint_sat_sub_le [OF le(3)]
    by (simp add: min.commute max.commute)
qed

lemma gemini_metadata_fields:
  "mu_thinking_output_tokens (gemini_usage_from_metadata J md) = get_u64 J md ''thoughtsTokenCount''"
  "mu_image_output_tokens (gemini_usage_from_metadata J md)
     = min (count_modality J (jget J md ''candidatesTokensDetails'') ''IMAGE'')
         (get_u64 J md ''candidatesTokenCount'')"
  "mu_output_tokens (gemini_usage_from_metadata J md)
     = sat_add_u64 (sat_sub_u64 (get_u64 J md ''candidatesTokenCount'')
         (mu_image_output_tokens (gemini_usage_from_metadata J md))) (get_u64 J md ''thoughtsTokenCount'')"
  "mu_tool_prompt_tokens (gemini_usage_from_metadata J md)
     = min (get_u64 J md ''toolUsePromptTokenCount'') (mu_input_tokens (gemini_usage_from_metadata J md))"
  "mu_search_queries (gemini_usage_from_metadata J md) = 0"
  "mu_grounded_search_prompts (gemini_usage_from_metadata J md) = 0"
  unfolding gemini_usage_from_metadata_def Let_def gemini_usage.select_convs by (rule refl)+

lemma gemini_metadata_classes:
  "uint (mu_cached_audio_input_tokens (gemini_usage_from_metadata J md)) = reported_cached_audio J md"
  "uint (mu_audio_input_tokens (gemini_usage_from_metadata J md))
     = reported_audio J md - reported_cached_audio J md"
  "uint (mu_cached_input_tokens (gemini_usage_from_metadata J md))
     = reported_cached J md - reported_cached_audio J md"
  "uint (mu_input_tokens (gemini_usage_from_metadata J md))
     = min (2 ^ 64 - 1) (max 0 (reported_prompt J md - reported_cached J md
         - (reported_audio J md - reported_cached_audio J md)) + reported_tool J md)"
  unfolding gemini_usage_from_metadata_def Let_def gemini_usage.select_convs gemini_split
    reported_defs uint_min_u64 by (rule refl)+

lemma gemini_metadata_output:
  "uint (mu_image_output_tokens (gemini_usage_from_metadata J md))
     \<le> uint (get_u64 J md ''candidatesTokenCount'')"
  "uint (mu_output_tokens (gemini_usage_from_metadata J md))
     = min (2 ^ 64 - 1) (uint (get_u64 J md ''candidatesTokenCount'')
         - uint (mu_image_output_tokens (gemini_usage_from_metadata J md))
         + uint (get_u64 J md ''thoughtsTokenCount''))"
proof -
  define im where "im = min (count_modality J (jget J md ''candidatesTokensDetails'') ''IMAGE'')
    (get_u64 J md ''candidatesTokenCount'')"
  have im: "mu_image_output_tokens (gemini_usage_from_metadata J md) = im"
    by (simp add: gemini_metadata_fields im_def)
  have le: "im \<le> get_u64 J md ''candidatesTokenCount''" by (simp add: im_def)
  then show "uint (mu_image_output_tokens (gemini_usage_from_metadata J md))
      \<le> uint (get_u64 J md ''candidatesTokenCount'')" by (simp add: im word_le_def)
  have "mu_output_tokens (gemini_usage_from_metadata J md)
      = sat_add_u64 (sat_sub_u64 (get_u64 J md ''candidatesTokenCount'') im)
          (get_u64 J md ''thoughtsTokenCount'')"
    by (simp only: gemini_metadata_fields(3) im)
  then show "uint (mu_output_tokens (gemini_usage_from_metadata J md))
     = min (2 ^ 64 - 1) (uint (get_u64 J md ''candidatesTokenCount'')
         - uint (mu_image_output_tokens (gemini_usage_from_metadata J md))
         + uint (get_u64 J md ''thoughtsTokenCount''))"
    unfolding im by (simp only: uint_sat_add_u64 uint_sat_sub_le [OF le] min.commute)
qed

lemma reported_order:
  "0 \<le> reported_cached_audio J md" "reported_cached_audio J md \<le> reported_cached J md"
  "reported_cached_audio J md \<le> reported_audio J md" "reported_cached J md \<le> reported_prompt J md"
  "0 \<le> reported_tool J md"
proof -
  show "reported_cached_audio J md \<le> reported_audio J md" "reported_cached J md \<le> reported_prompt J md"
    by (simp_all add: reported_cached_audio_def reported_cached_def)
  show "reported_cached_audio J md \<le> reported_cached J md"
    unfolding reported_cached_audio_def by (rule min.coboundedI1) simp
  show "0 \<le> reported_cached_audio J md" "0 \<le> reported_tool J md" by (simp_all add: reported_defs)
qed

text \<open>The split of a Gemini usage report into billed classes, for any report whose prompt and tool
  counts do not exceed a \<open>u64\<close> together. No prompt token is lost: the four input classes add up to
  the reported prompt plus the tool tokens or more, and to exactly that when the report is consistent
  (the cached tokens that are not audio and the audio tokens fit into the prompt). Image candidates
  and the remaining candidates with the thinking tokens add up to all reported output when that sum
  fits its counter.
\<close>

lemma gemini_split_loses_nothing:
  fixes J :: "'v serde_json"
  assumes "reported_prompt J md + reported_tool J md < 2 ^ 64"
    and "uint (get_u64 J md ''candidatesTokenCount'') + uint (get_u64 J md ''thoughtsTokenCount'') < 2 ^ 64"
  shows "let u = gemini_usage_from_metadata J md;
       inputs = uint (mu_input_tokens u) + uint (mu_audio_input_tokens u)
         + uint (mu_cached_input_tokens u) + uint (mu_cached_audio_input_tokens u)
     in reported_prompt J md + reported_tool J md \<le> inputs
       \<and> (reported_cached J md - reported_cached_audio J md + reported_audio J md \<le> reported_prompt J md
           \<longleftrightarrow> inputs = reported_prompt J md + reported_tool J md)
       \<and> uint (mu_output_tokens u) + uint (mu_image_output_tokens u)
           = uint (get_u64 J md ''candidatesTokenCount'') + uint (get_u64 J md ''thoughtsTokenCount'')
       \<and> mu_tool_prompt_tokens u \<le> mu_input_tokens u
       \<and> mu_thinking_output_tokens u \<le> mu_output_tokens u"
proof -
  let ?u = "gemini_usage_from_metadata J md"
  let ?c = "uint (get_u64 J md ''candidatesTokenCount'')" and ?t = "uint (get_u64 J md ''thoughtsTokenCount'')"
  note o = reported_order [of J md]
  have out: "uint (mu_output_tokens ?u) = ?c - uint (mu_image_output_tokens ?u) + ?t"
  proof -
    have "?c - uint (mu_image_output_tokens ?u) + ?t \<le> 2 ^ 64 - 1"
      using uint_u64_bounds(1) [of "mu_image_output_tokens ?u"] assms(2) by linarith
    then show ?thesis unfolding gemini_metadata_output(2) [of J md] by (rule min_absorb2)
  qed
  have think: "mu_thinking_output_tokens ?u = get_u64 J md ''thoughtsTokenCount''"
    and tool: "mu_tool_prompt_tokens ?u \<le> mu_input_tokens ?u"
    by (simp_all add: gemini_metadata_fields)
  have le: "mu_thinking_output_tokens ?u \<le> mu_output_tokens ?u"
    unfolding word_le_def think out using gemini_metadata_output(1) [of J md] by simp
  have inp: "uint (mu_input_tokens ?u) = max 0 (reported_prompt J md - reported_cached J md
         - (reported_audio J md - reported_cached_audio J md)) + reported_tool J md"
    using assms(1) o by (simp add: gemini_metadata_classes)
  show ?thesis
    unfolding Let_def inp gemini_metadata_classes(1-3) out using o tool le by auto
qed

section \<open>Streams\<close>

lemma sat_add_u64_eq_0 [simp]: "sat_add_u64 a b = 0 \<longleftrightarrow> a = 0 \<and> b = 0"
proof
  assume z: "sat_add_u64 a b = 0"
  then have "uint a + uint b < 2 ^ 64" by (simp add: sat_add_u64_def split: if_splits)
  then have "uint a + uint b = 0" using z uint_sat_add_u64 [of a b] by simp
  then show "a = 0 \<and> b = 0" by (simp add: add_nonneg_eq_0_iff u64_eq_iff)
qed (simp add: sat_add_u64_def)

text \<open>A metadata object without token counts is the empty report, whatever else it carries.\<close>

lemma gemini_empty_report:
  assumes "gemini_total_tokens (gemini_usage_from_metadata J md) = 0"
  shows "gemini_usage_from_metadata J md = gemini_usage_default"
proof -
  let ?u = "gemini_usage_from_metadata J md"
  have z: "mu_input_tokens ?u = 0" "mu_audio_input_tokens ?u = 0" "mu_cached_input_tokens ?u = 0"
      "mu_cached_audio_input_tokens ?u = 0" "mu_output_tokens ?u = 0" "mu_image_output_tokens ?u = 0"
    using assms by (simp_all add: gemini_total_tokens_def)
  have "get_u64 J md ''thoughtsTokenCount'' = 0"
    using z(5) unfolding gemini_metadata_fields(3) by simp
  then show ?thesis using z
    by (intro gemini_usage.equality)
      (simp_all add: gemini_usage_default_def gemini_metadata_fields(1,4-6))
qed

definition gemini_reports :: "'v serde_json \<Rightarrow> 'v list \<Rightarrow> gemini_usage list" where
  "gemini_reports J vs =
     List.map_filter (\<lambda>v. map_option (gemini_usage_from_metadata J) (jget J v ''usageMetadata'')) vs"

definition gemini_tokens :: "gemini_usage \<Rightarrow> gemini_usage" where
  "gemini_tokens u = u\<lparr>mu_search_queries := 0, mu_grounded_search_prompts := 0\<rparr>"

lemma gemini_tokens_total [simp]: "gemini_total_tokens (gemini_tokens u) = gemini_total_tokens u"
  by (simp add: gemini_tokens_def gemini_total_tokens_def)

lemma gemini_tokens_report [simp]:
  "gemini_tokens (gemini_usage_from_metadata J md) = gemini_usage_from_metadata J md"
  by (intro gemini_usage.equality) (simp_all add: gemini_tokens_def gemini_metadata_fields(5,6))

lemma gemini_tokens_merge:
  "gemini_tokens (gemini_merge_stream_response_value J u v) =
     (case jget J v ''usageMetadata'' of None \<Rightarrow> gemini_tokens u
      | Some md \<Rightarrow> if gemini_total_tokens (gemini_usage_from_metadata J md) > 0 \<or> gemini_total_tokens u = 0
          then gemini_usage_from_metadata J md else gemini_tokens u)"
proof -
  have g: "gemini_tokens (merge_grounding_usage J w v) = gemini_tokens w" for w
    by (simp add: merge_grounding_usage_def gemini_tokens_def split: prod.split)
  have t: "gemini_tokens (s\<lparr>mu_search_queries := q, mu_grounded_search_prompts := n\<rparr>) = gemini_tokens s"
    for s q n by (simp add: gemini_tokens_def)
  show ?thesis
    by (simp add: gemini_merge_stream_response_value_def Let_def g t split: option.split)
qed

lemma gemini_stream_tokens:
  "gemini_tokens (foldl (gemini_merge_stream_response_value J) gemini_usage_default vs)
     = last (gemini_usage_default # filter (\<lambda>s. 0 < gemini_total_tokens s) (gemini_reports J vs))"
proof (induction vs rule: rev_induct)
  case Nil
  show ?case by (simp add: gemini_reports_def map_filter_def gemini_tokens_def gemini_usage_default_def)
next
  case (snoc v vs)
  let ?U = "foldl (gemini_merge_stream_response_value J) gemini_usage_default vs"
  let ?pos = "filter (\<lambda>s. 0 < gemini_total_tokens s) (gemini_reports J vs)"
  show ?case
  proof (cases "jget J v ''usageMetadata''")
    case None
    then show ?thesis using snoc by (simp add: gemini_tokens_merge gemini_reports_def map_filter_def)
  next
    case (Some md)
    let ?s = "gemini_usage_from_metadata J md"
    have r: "gemini_reports J (vs @ [v]) = gemini_reports J vs @ [?s]"
      using Some by (simp add: gemini_reports_def map_filter_def)
    show ?thesis
    proof (cases "0 < gemini_total_tokens ?s")
      case True
      then show ?thesis using Some by (simp add: r gemini_tokens_merge)
    next
      case False
      then have s: "?s = gemini_usage_default" "gemini_total_tokens ?s = 0"
        using gemini_empty_report [of J md] by (simp_all add: word_neq_0_conv [symmetric])
      have "gemini_usage_default = gemini_tokens ?U" if "gemini_total_tokens ?U = 0"
      proof -
        have "gemini_total_tokens (last (gemini_usage_default # ?pos)) = 0"
          using that snoc by (metis gemini_tokens_total)
        moreover have "0 < gemini_total_tokens (last ?pos)" if "?pos \<noteq> []"
          using last_in_set [OF that] by simp
        ultimately have "?pos = []" by (cases "?pos = []") simp_all
        then show ?thesis using snoc by simp
      qed
      then have "gemini_tokens (gemini_merge_stream_response_value J ?U v) = gemini_tokens ?U"
        using Some s by (simp add: gemini_tokens_merge)
      then show ?thesis using s snoc by (simp add: r)
    qed
  qed
qed

lemma gemini_stream_grounding:
  "mu_search_queries (foldl (gemini_merge_stream_response_value J) u vs)
     = foldl max (mu_search_queries u) (map (fst \<circ> grounding_usage J) vs)"
  "mu_grounded_search_prompts (foldl (gemini_merge_stream_response_value J) u vs)
     = foldl max (mu_grounded_search_prompts u)
         (map (\<lambda>v. if snd (grounding_usage J v) then 1 else 0) vs)"
proof -
  have "mu_search_queries (gemini_merge_stream_response_value J w v)
      = max (mu_search_queries w) (fst (grounding_usage J v))"
    "mu_grounded_search_prompts (gemini_merge_stream_response_value J w v)
      = max (mu_grounded_search_prompts w) (if snd (grounding_usage J v) then 1 else 0)" for w v
    by (simp_all add: gemini_merge_stream_response_value_def merge_grounding_usage_def Let_def
        split: prod.split option.split)
  then show "mu_search_queries (foldl (gemini_merge_stream_response_value J) u vs)
      = foldl max (mu_search_queries u) (map (fst \<circ> grounding_usage J) vs)"
    "mu_grounded_search_prompts (foldl (gemini_merge_stream_response_value J) u vs)
      = foldl max (mu_grounded_search_prompts u)
          (map (\<lambda>v. if snd (grounding_usage J v) then 1 else 0) vs)"
    by (induction vs arbitrary: u) simp_all
qed

definition gemini_sse_events :: "'v serde_json \<Rightarrow> string \<Rightarrow> 'v list" where
  "gemini_sse_events J text = List.map_filter
     (\<lambda>line. Option.bind (strip_prefix line ''data:'') (\<lambda>data. from_str J (trim data))) (str_lines text)"

lemma gemini_usage_from_sse_events:
  "gemini_usage_from_sse J body =
     (case from_utf8 body of None \<Rightarrow> gemini_usage_default
      | Some text \<Rightarrow> foldl (gemini_merge_stream_response_value J) gemini_usage_default
          (gemini_sse_events J text))"
  by (simp add: gemini_usage_from_sse_def gemini_sse_line_def [abs_def] foldl_map_filter
      gemini_sse_events_def split: option.split)

section \<open>The charge\<close>

definition gemini_exact_cost :: "gemini_usage \<Rightarrow> gemini_prices \<Rightarrow> int" where
  "gemini_exact_cost u p =
     (let long = mp_long_context_threshold p < gemini_prompt_tokens u;
          rate = (\<lambda>l s. if long then l p else s p)
      in uint (mu_input_tokens u) * rate mp_long_input mp_input
         + uint (mu_audio_input_tokens u) * rate mp_long_audio_input mp_audio_input
         + uint (mu_cached_input_tokens u) * rate mp_long_cached_input mp_cached_input
         + uint (mu_cached_audio_input_tokens u) * rate mp_long_cached_audio_input mp_cached_audio_input
         + uint (mu_output_tokens u) * rate mp_long_output mp_output
         + uint (mu_image_output_tokens u) * mp_image_output p
         + (case mp_search p of PerQuery n \<Rightarrow> uint (mu_search_queries u) * n
            | PerGroundedPrompt n \<Rightarrow> uint (mu_grounded_search_prompts u) * n))"

definition gemini_prices_ok :: "gemini_prices \<Rightarrow> bool" where
  "gemini_prices_ok p \<longleftrightarrow> list_all rate_ok [mp_input p, mp_audio_input p, mp_cached_input p,
     mp_cached_audio_input p, mp_output p, mp_image_output p, mp_long_input p, mp_long_audio_input p,
     mp_long_cached_input p, mp_long_cached_audio_input p, mp_long_output p,
     case mp_search p of PerQuery n \<Rightarrow> n | PerGroundedPrompt n \<Rightarrow> n]"

lemma sat_mul_rate [exact]: "rate_ok r \<Longrightarrow> sat_mul_i128 (uint (w :: u64)) r = uint w * r"
  using rate_ok_product [of r w] by (simp add: exact in_i128_def)

lemma sat_add7_exact:
  fixes a b c d e f g :: int
  assumes "0 \<le> a" "a \<le> 2 ^ 104" "0 \<le> b" "b \<le> 2 ^ 104" "0 \<le> c" "c \<le> 2 ^ 104"
    "0 \<le> d" "d \<le> 2 ^ 104" "0 \<le> e" "e \<le> 2 ^ 104" "0 \<le> f" "f \<le> 2 ^ 104" "0 \<le> g" "g \<le> 2 ^ 104"
  shows "sat_add_i128 (sat_add_i128 (sat_add_i128 (sat_add_i128 (sat_add_i128 (sat_add_i128 a b) c) d)
      e) f) g = a + b + c + d + e + f + g"
  using assms by (simp add: exact in_i128_def)

lemma gemini_cost_exact:
  assumes "gemini_prices_ok p"
  shows "gemini_cost_nanodollars u p = gemini_exact_cost u p"
proof -
  have s: "(case mp_search p of PerQuery nano \<Rightarrow> sat_mul_i128 (uint (mu_search_queries u)) nano
        | PerGroundedPrompt nano \<Rightarrow> sat_mul_i128 (uint (mu_grounded_search_prompts u)) nano)
      = (case mp_search p of PerQuery n \<Rightarrow> uint (mu_search_queries u) * n
        | PerGroundedPrompt n \<Rightarrow> uint (mu_grounded_search_prompts u) * n)"
    and sb: "0 \<le> (case mp_search p of PerQuery n \<Rightarrow> uint (mu_search_queries u) * n
        | PerGroundedPrompt n \<Rightarrow> uint (mu_grounded_search_prompts u) * n)"
      "(case mp_search p of PerQuery n \<Rightarrow> uint (mu_search_queries u) * n
        | PerGroundedPrompt n \<Rightarrow> uint (mu_grounded_search_prompts u) * n) \<le> 2 ^ 104"
    using assms rate_ok_product by (simp_all add: gemini_prices_ok_def exact split: gemini_search_billing.splits)
  have ok: "rate_ok (mp_input p)" "rate_ok (mp_audio_input p)" "rate_ok (mp_cached_input p)"
      "rate_ok (mp_cached_audio_input p)" "rate_ok (mp_output p)" "rate_ok (mp_image_output p)"
      "rate_ok (mp_long_input p)" "rate_ok (mp_long_audio_input p)" "rate_ok (mp_long_cached_input p)"
      "rate_ok (mp_long_cached_audio_input p)" "rate_ok (mp_long_output p)"
    using assms by (simp_all add: gemini_prices_ok_def)
  show ?thesis
  proof (cases "mp_long_context_threshold p < gemini_prompt_tokens u")
    case True
    then show ?thesis
      unfolding gemini_cost_nanodollars_def gemini_exact_cost_def Let_def s
      by (simp only: if_True prod.case sat_mul_rate ok, intro sat_add7_exact)
        (simp_all only: rate_ok_product ok sb)
  next
    case False
    then show ?thesis
      unfolding gemini_cost_nanodollars_def gemini_exact_cost_def Let_def s
      by (simp only: if_False prod.case sat_mul_rate ok, intro sat_add7_exact)
        (simp_all only: rate_ok_product ok sb)
  qed
qed

lemma gemini_schedules_ok:
  "\<forall>e\<in>set GEMINI_CATALOG. \<forall>x\<in>set (mc_schedule e). gemini_prices_ok (me_prices x)"
  by (simp add: GEMINI_CATALOG_def gemini_row_def gemini_schedules_defs gemini_epoch_def
      flat_prices_def gemini_prices_ok_def rate_ok_def SEARCH_GEMINI_3_def SEARCH_GEMINI_25_def)

end
