(* ===== verification/Metering_Glm.thy ===== *)
theory Metering_Glm
  imports Metering_Anthropic Rate_Catalog
begin

text \<open>
  \<open>src/crates/metering/src/glm.rs\<close>: the GLM rate catalogue with its subscription aliases, the
  served-model resolution of the dollar card and of the native credit card, the usage parsers of the
  Anthropic-compatible endpoint, the checked dollar charge, and the credit ledger with its off-peak
  rule.
\<close>

section \<open>Data\<close>

record glm_prices =
  gp_cached_input :: i128
  gp_input :: i128
  gp_cache_write :: i128
  gp_output :: i128

record glm_price_epoch =
  ge_effective_from :: i64
  ge_prices :: glm_prices

record glm_model_spec =
  gs_id :: string
  gs_display_name :: string
  gs_input_token_limit :: u64
  gs_max_output_tokens :: u64
  gs_prices :: glm_prices

record glm_subscription_model =
  gm_alias :: string
  gm_official_model :: string
  gm_input_token_limit :: u64
  gm_max_output_tokens :: u64

record glm_credit_rates =
  gr_input_tenths :: i128
  gr_cached_input_tenths :: i128
  gr_output_tenths :: i128

record glm_usage =
  gu_input_tokens :: u64
  gu_cache_read_tokens :: u64
  gu_cache_write_tokens :: u64
  gu_output_tokens :: u64
  gu_reasoning_output_tokens :: u64

definition glm_usage_default :: glm_usage where
  "glm_usage_default = \<lparr>gu_input_tokens = 0, gu_cache_read_tokens = 0, gu_cache_write_tokens = 0,
     gu_output_tokens = 0, gu_reasoning_output_tokens = 0\<rparr>"

datatype glm_usage_error = GlmReasoningExceedsOutput | GlmOverflow

definition glm_total_tokens :: "glm_usage \<Rightarrow> u64" where
  "glm_total_tokens u = sat_add_u64 (sat_add_u64 (sat_add_u64 (gu_input_tokens u)
     (gu_cache_read_tokens u)) (gu_cache_write_tokens u)) (gu_output_tokens u)"

definition glm_is_zero :: "glm_usage \<Rightarrow> bool" where
  "glm_is_zero u \<longleftrightarrow> glm_total_tokens u = 0"

definition glm_validate :: "glm_usage \<Rightarrow> glm_usage_error + unit" where
  "glm_validate u =
     (if gu_output_tokens u < gu_reasoning_output_tokens u then Inl GlmReasoningExceedsOutput
      else Inr ())"

record glm_catalog_entry =
  gc_id :: string
  gc_display_name :: string
  gc_input_token_limit :: u64
  gc_max_output_tokens :: u64
  gc_schedule :: "glm_price_epoch list"
  gc_tariff_family :: string
  gc_credit_family :: "string option"
  gc_credit_rates :: "glm_credit_rates option"

section \<open>The catalogue\<close>

definition glm_epoch :: "i128 \<Rightarrow> i128 \<Rightarrow> i128 \<Rightarrow> glm_price_epoch" where
  "glm_epoch cached_input input output = \<lparr>ge_effective_from = 0,
     ge_prices = \<lparr>gp_cached_input = cached_input, gp_input = input, gp_cache_write = input,
       gp_output = output\<rparr>\<rparr>"

definition SCHEDULE_GLM_5_2 :: "glm_price_epoch list" where
  "SCHEDULE_GLM_5_2 = [glm_epoch 260 1400 4400]"

definition SCHEDULE_GLM_5_TURBO :: "glm_price_epoch list" where
  "SCHEDULE_GLM_5_TURBO = [glm_epoch 240 1200 4000]"

definition SCHEDULE_GLM_4_7 :: "glm_price_epoch list" where
  "SCHEDULE_GLM_4_7 = [glm_epoch 110 600 2200]"

definition SCHEDULE_GLM_5 :: "glm_price_epoch list" where
  "SCHEDULE_GLM_5 = [glm_epoch 200 1000 3200]"

definition GLM_CONTEXT_1M :: u64 where
  "GLM_CONTEXT_1M = 1000000"

definition GLM_CONTEXT_200K :: u64 where
  "GLM_CONTEXT_200K = 200000"

definition GLM_MAX_OUTPUT :: u64 where
  "GLM_MAX_OUTPUT = 131072"

definition CREDIT_GLM_5_2 :: glm_credit_rates where
  "CREDIT_GLM_5_2 = \<lparr>gr_input_tenths = 69, gr_cached_input_tenths = 17, gr_output_tenths = 240\<rparr>"

definition CREDIT_GLM_5_TURBO :: glm_credit_rates where
  "CREDIT_GLM_5_TURBO = \<lparr>gr_input_tenths = 57, gr_cached_input_tenths = 15, gr_output_tenths = 210\<rparr>"

definition CREDIT_GLM_4_7 :: glm_credit_rates where
  "CREDIT_GLM_4_7 = \<lparr>gr_input_tenths = 46, gr_cached_input_tenths = 12, gr_output_tenths = 160\<rparr>"

definition glm_row ::
    "string \<Rightarrow> string \<Rightarrow> u64 \<Rightarrow> glm_price_epoch list \<Rightarrow> string \<Rightarrow> string option
      \<Rightarrow> glm_credit_rates option \<Rightarrow> glm_catalog_entry" where
  "glm_row i d l s f cf cr = \<lparr>gc_id = i, gc_display_name = d, gc_input_token_limit = l,
     gc_max_output_tokens = GLM_MAX_OUTPUT, gc_schedule = s, gc_tariff_family = f,
     gc_credit_family = cf, gc_credit_rates = cr\<rparr>"

definition GLM_CATALOG :: "glm_catalog_entry list" where
  "GLM_CATALOG =
     [glm_row ''glm-5.2'' ''GLM-5.2'' GLM_CONTEXT_1M SCHEDULE_GLM_5_2 ''zhipu/glm/glm-5.2''
        (Some ''zhipu/glm-credits/glm-5.2'') (Some CREDIT_GLM_5_2),
      glm_row ''glm-5-turbo'' ''GLM-5 Turbo'' GLM_CONTEXT_200K SCHEDULE_GLM_5_TURBO
        ''zhipu/glm/glm-5-turbo'' (Some ''zhipu/glm-credits/glm-5-turbo'') (Some CREDIT_GLM_5_TURBO),
      glm_row ''glm-4.7'' ''GLM-4.7'' GLM_CONTEXT_200K SCHEDULE_GLM_4_7 ''zhipu/glm/glm-4.7''
        (Some ''zhipu/glm-credits/glm-4.7'') (Some CREDIT_GLM_4_7),
      glm_row ''glm-5.1'' ''GLM-5.1'' GLM_CONTEXT_1M SCHEDULE_GLM_5_2 ''zhipu/glm/glm-5.1'' None None,
      glm_row ''glm-5'' ''GLM-5'' GLM_CONTEXT_1M SCHEDULE_GLM_5 ''zhipu/glm/glm-5'' None None]"

definition glm_alias :: "string \<Rightarrow> string \<Rightarrow> u64 \<Rightarrow> glm_subscription_model" where
  "glm_alias a m l = \<lparr>gm_alias = a, gm_official_model = m, gm_input_token_limit = l,
     gm_max_output_tokens = GLM_MAX_OUTPUT\<rparr>"

definition GLM_SUBSCRIPTION_MODELS :: "glm_subscription_model list" where
  "GLM_SUBSCRIPTION_MODELS =
     [glm_alias ''glm-5.2'' ''glm-5.2'' GLM_CONTEXT_1M,
      glm_alias ''glm-5.2[1m]'' ''glm-5.2'' GLM_CONTEXT_1M,
      glm_alias ''glm-5-turbo'' ''glm-5-turbo'' GLM_CONTEXT_200K,
      glm_alias ''glm-4.7'' ''glm-4.7'' GLM_CONTEXT_200K]"

text \<open>An empty schedule would be an index panic in the source; \<open>glm_catalog_rows\<close> below shows
  that no row of the catalogue has one.\<close>

definition glm_schedule_prices_at :: "glm_price_epoch list \<Rightarrow> i64 \<Rightarrow> glm_prices" where
  "glm_schedule_prices_at schedule now_unix =
     foldl (\<lambda>current epoch. if ge_effective_from epoch \<le> now_unix then ge_prices epoch else current)
       (ge_prices (hd schedule)) schedule"

definition glm_catalog_at :: "i64 \<Rightarrow> glm_model_spec list" where
  "glm_catalog_at now_unix = map (\<lambda>entry. \<lparr>gs_id = gc_id entry,
     gs_display_name = gc_display_name entry, gs_input_token_limit = gc_input_token_limit entry,
     gs_max_output_tokens = gc_max_output_tokens entry,
     gs_prices = glm_schedule_prices_at (gc_schedule entry) now_unix\<rparr>) GLM_CATALOG"

definition glm_prices_at :: "string \<Rightarrow> i64 \<Rightarrow> glm_prices option" where
  "glm_prices_at model_id now_unix =
     map_option (\<lambda>entry. glm_schedule_prices_at (gc_schedule entry) now_unix)
       (List.find (\<lambda>entry. gc_id entry = model_id) GLM_CATALOG)"

definition glm_resolve_subscription_model :: "string \<Rightarrow> glm_subscription_model option" where
  "glm_resolve_subscription_model alias =
     List.find (\<lambda>entry. eq_ignore_ascii_case (gm_alias entry) alias) GLM_SUBSCRIPTION_MODELS"

definition glm_matched_tariff_at :: "string \<Rightarrow> i64 \<Rightarrow> (string \<times> glm_prices) option" where
  "glm_matched_tariff_at model_id now_unix =
     (case List.find (\<lambda>entry. gc_id entry = model_id) GLM_CATALOG of
        Some entry \<Rightarrow>
          Some (gc_tariff_family entry, glm_schedule_prices_at (gc_schedule entry) now_unix)
      | None \<Rightarrow>
          Option.bind (glm_resolve_subscription_model model_id) (\<lambda>resolved.
          Option.bind (List.find (\<lambda>entry. gc_id entry = gm_official_model resolved) GLM_CATALOG)
            (\<lambda>entry.
          Some (gc_tariff_family entry, glm_schedule_prices_at (gc_schedule entry) now_unix))))"

definition glm_prices_for_served_model :: "string \<Rightarrow> i64 \<Rightarrow> glm_prices option" where
  "glm_prices_for_served_model model_id now_unix =
     map_option snd (glm_matched_tariff_at model_id now_unix)"

definition glm_compiled_tariffs_at :: "i64 \<Rightarrow> (string \<times> glm_prices) list" where
  "glm_compiled_tariffs_at now_unix =
     map (\<lambda>entry. (gc_tariff_family entry, glm_schedule_prices_at (gc_schedule entry) now_unix))
       GLM_CATALOG"

definition glm_tariff_has_future_epoch_at :: "string \<Rightarrow> i64 \<Rightarrow> bool" where
  "glm_tariff_has_future_epoch_at tariff_family now_unix =
     (case List.find (\<lambda>entry. gc_tariff_family entry = tariff_family) GLM_CATALOG of
        None \<Rightarrow> False
      | Some entry \<Rightarrow> list_ex (\<lambda>epoch. now_unix < ge_effective_from epoch) (gc_schedule entry))"

definition glm_tariff_seed_safe :: "string \<Rightarrow> bool" where
  "glm_tariff_seed_safe tariff_family =
     (case List.find (\<lambda>entry. gc_tariff_family entry = tariff_family) GLM_CATALOG of
        None \<Rightarrow> False
      | Some entry \<Rightarrow> length (gc_schedule entry) = 1)"

definition option_zip :: "'a option \<Rightarrow> 'b option \<Rightarrow> ('a \<times> 'b) option" where
  "option_zip x y = (case (x, y) of (Some a, Some b) \<Rightarrow> Some (a, b) | _ \<Rightarrow> None)"

definition glm_matched_credit_rates_at :: "string \<Rightarrow> (string \<times> glm_credit_rates) option" where
  "glm_matched_credit_rates_at model_id =
     (case List.find (\<lambda>entry. gc_id entry = model_id) GLM_CATALOG of
        Some entry \<Rightarrow> option_zip (gc_credit_family entry) (gc_credit_rates entry)
      | None \<Rightarrow>
          Option.bind (glm_resolve_subscription_model model_id) (\<lambda>resolved.
          Option.bind (List.find (\<lambda>entry. gc_id entry = gm_official_model resolved) GLM_CATALOG)
            (\<lambda>entry. option_zip (gc_credit_family entry) (gc_credit_rates entry))))"

definition glm_credit_rates_for_served_model :: "string \<Rightarrow> glm_credit_rates option" where
  "glm_credit_rates_for_served_model model_id =
     map_option snd (glm_matched_credit_rates_at model_id)"

definition glm_compiled_credit_rates :: "(string \<times> glm_credit_rates) list" where
  "glm_compiled_credit_rates =
     List.map_filter (\<lambda>entry. option_zip (gc_credit_family entry) (gc_credit_rates entry)) GLM_CATALOG"

section \<open>Usage parsing\<close>

definition glm_usage_from_value :: "'v serde_json \<Rightarrow> 'v \<Rightarrow> glm_usage" where
  "glm_usage_from_value J u =
     (let g = get_u64 J u;
          split_total =
            (case Option.bind (jget J u ''cache_creation'') (object_values J) of
               None \<Rightarrow> 0
             | Some vs \<Rightarrow> foldl sat_add_u64 0 (List.map_filter (as_u64 J) vs));
          cache_write =
            (if split_total > 0 then split_total else g ''cache_creation_input_tokens'')
      in \<lparr>gu_input_tokens = g ''input_tokens'',
          gu_cache_read_tokens = g ''cache_read_input_tokens'',
          gu_cache_write_tokens = cache_write,
          gu_output_tokens = g ''output_tokens'',
          gu_reasoning_output_tokens =
            max (g ''reasoning_tokens'') (g ''reasoning_output_tokens'')\<rparr>)"

definition glm_usage_from_response_value :: "'v serde_json \<Rightarrow> 'v \<Rightarrow> glm_usage option" where
  "glm_usage_from_response_value J value =
     map_option (glm_usage_from_value J) (jget J value ''usage'')"

definition glm_usage_from_response_json :: "'v serde_json \<Rightarrow> string \<Rightarrow> glm_usage option" where
  "glm_usage_from_response_json J body =
     Option.bind (from_str J body) (glm_usage_from_response_value J)"

definition glm_event_usage :: "'v serde_json \<Rightarrow> 'v \<Rightarrow> glm_usage option" where
  "glm_event_usage J value =
     map_option (glm_usage_from_value J)
       (case Option.bind (jget J value ''message'') (\<lambda>m. jget J m ''usage'') of
          None \<Rightarrow> jget J value ''usage''
        | Some u \<Rightarrow> Some u)"

definition glm_merge_stream_event :: "'v serde_json \<Rightarrow> glm_usage \<Rightarrow> 'v \<Rightarrow> glm_usage" where
  "glm_merge_stream_event J usage value =
     (case glm_event_usage J value of
        None \<Rightarrow> usage
      | Some parsed \<Rightarrow>
          \<lparr>gu_input_tokens =
             (if gu_input_tokens parsed > 0 then gu_input_tokens parsed else gu_input_tokens usage),
           gu_cache_read_tokens =
             (if gu_cache_read_tokens parsed > 0 then gu_cache_read_tokens parsed
              else gu_cache_read_tokens usage),
           gu_cache_write_tokens =
             (if gu_cache_write_tokens parsed > 0 then gu_cache_write_tokens parsed
              else gu_cache_write_tokens usage),
           gu_output_tokens =
             (if gu_output_tokens parsed > 0 then gu_output_tokens parsed
              else gu_output_tokens usage),
           gu_reasoning_output_tokens =
             (if gu_reasoning_output_tokens parsed > 0 then gu_reasoning_output_tokens parsed
              else gu_reasoning_output_tokens usage)\<rparr>)"

definition glm_sse_step :: "'v serde_json \<Rightarrow> glm_usage \<times> bool \<Rightarrow> 'v \<Rightarrow> glm_usage \<times> bool" where
  "glm_sse_step J st value =
     (let (before, seen) = st;
          usage = glm_merge_stream_event J before value
      in (usage, if usage \<noteq> before then True else seen))"

definition glm_sse_line ::
    "'v serde_json \<Rightarrow> glm_usage \<times> bool \<Rightarrow> string \<Rightarrow> glm_usage \<times> bool" where
  "glm_sse_line J st raw =
     (case sse_event J raw of None \<Rightarrow> st | Some value \<Rightarrow> glm_sse_step J st value)"

definition glm_usage_from_sse :: "'v serde_json \<Rightarrow> string \<Rightarrow> glm_usage option" where
  "glm_usage_from_sse J body =
     Option.bind (from_utf8 body) (\<lambda>text.
       (let (usage, seen) =
              foldl (glm_sse_line J) (glm_usage_default, False) (str_lines text)
        in if seen then Some usage else None))"

section \<open>Cost\<close>

definition glm_cost_nanodollars :: "glm_usage \<Rightarrow> glm_prices \<Rightarrow> glm_usage_error + i128" where
  "glm_cost_nanodollars usage prices =
     bind_res (glm_validate usage) (\<lambda>_.
     bind_res (checked_leg GlmOverflow (gu_input_tokens usage) (gp_input prices)) (\<lambda>acc.
     bind_res (checked_leg GlmOverflow (gu_cache_read_tokens usage) (gp_cached_input prices)) (\<lambda>a.
     bind_res (checked_leg GlmOverflow (gu_cache_write_tokens usage) (gp_cache_write prices)) (\<lambda>b.
     bind_res (checked_leg GlmOverflow (gu_output_tokens usage) (gp_output prices)) (\<lambda>c.
       checked_sum GlmOverflow acc [a, b, c])))))"

section \<open>Native credits\<close>

text \<open>\<open>div_euclid\<close> and \<open>rem_euclid\<close> by a positive divisor are the floor division and
  remainder of HOL; \<open>days + 3\<close> cannot leave the \<open>i64\<close> range after the division.\<close>

definition glm_is_peak_utc :: "i64 \<Rightarrow> bool" where
  "glm_is_peak_utc unix_secs =
     (let sgt = sat_add_i64 unix_secs (8 * 3600);
          days = sgt div 86400;
          secs_of_day = sgt mod 86400;
          weekday = (days + 3) mod 7;
          hour = trunc_div secs_of_day 3600
      in weekday \<le> 4 \<and> 14 \<le> hour \<and> hour < 18)"

definition glm_credit_cost_micro ::
    "glm_usage \<Rightarrow> glm_credit_rates \<Rightarrow> bool \<Rightarrow> glm_usage_error + i128" where
  "glm_credit_cost_micro usage rates off_peak =
     bind_res (glm_validate usage) (\<lambda>_.
     bind_res (checked_leg GlmOverflow (gu_input_tokens usage) (gr_input_tenths rates)) (\<lambda>acc.
     bind_res (checked_leg GlmOverflow (gu_cache_read_tokens usage) (gr_cached_input_tenths rates)) (\<lambda>a.
     bind_res (checked_leg GlmOverflow (gu_output_tokens usage) (gr_output_tenths rates)) (\<lambda>b.
     bind_res (checked_sum GlmOverflow acc [a, b]) (\<lambda>weighted.
       ok_or GlmOverflow (checked_mul_i128 weighted (if off_peak then 5 else 10)))))))"

definition glm_credits_at :: "glm_usage \<Rightarrow> glm_credit_rates \<Rightarrow> i64 \<Rightarrow> glm_usage_error + i128" where
  "glm_credits_at usage rates unix_secs =
     bind_res (glm_credit_cost_micro usage rates (\<not> glm_is_peak_utc unix_secs)) (\<lambda>micro.
       ok_or GlmOverflow (map_option (\<lambda>v. trunc_div v 1000000) (checked_add_i128 micro 500000)))"

section \<open>The catalogue laws\<close>

lemma glm_catalog_rows:
  "\<forall>e\<in>set GLM_CATALOG. gc_schedule e \<noteq> []
     \<and> (\<forall>d\<in>set GLM_CATALOG. gc_tariff_family d = gc_tariff_family e \<longrightarrow> d = e)"
  by code_simp

lemma glm_find_family:
  assumes "e \<in> set GLM_CATALOG"
  shows "List.find (\<lambda>x. gc_tariff_family x = gc_tariff_family e) GLM_CATALOG = Some e"
  using find_family_row [OF assms, of gc_tariff_family "\<lambda>d. d"] glm_catalog_rows assms by simp

lemma glm_families_distinct: "distinct (map gc_tariff_family GLM_CATALOG)"
  by code_simp

interpretation glm: rate_catalog glm_schedule_prices_at ge_effective_from ge_prices
  GLM_CATALOG gc_tariff_family gc_schedule glm_matched_tariff_at glm_compiled_tariffs_at
  glm_tariff_has_future_epoch_at glm_tariff_seed_safe
proof unfold_locales
  show "\<exists>e\<in>set GLM_CATALOG. f = gc_tariff_family e \<and> p = glm_schedule_prices_at (gc_schedule e) t"
    if "glm_matched_tariff_at m t = Some (f, p)" for m t f p
    using that unfolding glm_matched_tariff_at_def
    by (auto split: option.splits simp: bind_eq_Some_conv dest!: find_Some_mem)
  show "glm_tariff_has_future_epoch_at (gc_tariff_family e) t
      \<longleftrightarrow> (\<exists>x\<in>set (gc_schedule e). t < ge_effective_from x)" if "e \<in> set GLM_CATALOG" for e t
    using glm_find_family [OF that] by (simp add: glm_tariff_has_future_epoch_at_def list_ex_iff)
  show "glm_tariff_seed_safe (gc_tariff_family e) \<longleftrightarrow> length (gc_schedule e) = 1"
    if "e \<in> set GLM_CATALOG" for e
    using glm_find_family [OF that] by (simp add: glm_tariff_seed_safe_def)
qed (use glm_catalog_rows glm_families_distinct in
      \<open>simp_all add: glm_schedule_prices_at_def glm_compiled_tariffs_at_def o_def\<close>)

text \<open>Every subscription alias is priced by the card of a catalogued model, under every spelling;
  an alias that is a catalogue id names itself.\<close>

lemma glm_aliases_priced:
  "\<forall>s\<in>set GLM_SUBSCRIPTION_MODELS. \<exists>e\<in>set GLM_CATALOG.
     List.find (\<lambda>x. gc_id x = gm_official_model s) GLM_CATALOG = Some e"
  by (simp add: GLM_SUBSCRIPTION_MODELS_def glm_alias_def GLM_CATALOG_def glm_row_def)

lemma glm_alias_id:
  "\<forall>s\<in>set GLM_SUBSCRIPTION_MODELS. \<forall>e\<in>set GLM_CATALOG.
     eq_ignore_ascii_case (gm_alias s) (gc_id e) \<longrightarrow> gm_official_model s = gc_id e"
  by code_simp

lemma glm_alias_tariff:
  assumes "glm_resolve_subscription_model m = Some s"
  shows "\<exists>f p. glm_matched_tariff_at m t = Some (f, p)
    \<and> glm_matched_tariff_at (gm_official_model s) t = Some (f, p)"
proof -
  have s: "s \<in> set GLM_SUBSCRIPTION_MODELS" "eq_ignore_ascii_case (gm_alias s) m"
    using assms find_Some_mem unfolding glm_resolve_subscription_model_def by fast+
  obtain e where e: "List.find (\<lambda>x. gc_id x = gm_official_model s) GLM_CATALOG = Some e"
    using glm_aliases_priced s(1) by blast
  show ?thesis
  proof (cases "List.find (\<lambda>x. gc_id x = m) GLM_CATALOG")
    case None
    then show ?thesis by (simp add: glm_matched_tariff_at_def assms e)
  next
    case (Some d)
    then have "m = gm_official_model s" using glm_alias_id s by (auto dest!: find_Some_mem)
    then show ?thesis using e by (simp add: glm_matched_tariff_at_def)
  qed
qed

section \<open>The charge\<close>

definition glm_exact_cost :: "glm_usage \<Rightarrow> glm_prices \<Rightarrow> int" where
  "glm_exact_cost u p = uint (gu_input_tokens u) * gp_input p
     + uint (gu_cache_read_tokens u) * gp_cached_input p
     + uint (gu_cache_write_tokens u) * gp_cache_write p
     + uint (gu_output_tokens u) * gp_output p"

definition glm_prices_ok :: "glm_prices \<Rightarrow> bool" where
  "glm_prices_ok p \<longleftrightarrow> rate_ok (gp_input p) \<and> rate_ok (gp_cached_input p)
     \<and> rate_ok (gp_cache_write p) \<and> rate_ok (gp_output p)"

lemma glm_cost_exact:
  assumes "glm_prices_ok p"
  shows "glm_cost_nanodollars u p =
    (if gu_output_tokens u < gu_reasoning_output_tokens u then Inl GlmReasoningExceedsOutput
     else Inr (glm_exact_cost u p))"
proof -
  have ok: "rate_ok (gp_input p)" "rate_ok (gp_cached_input p)" "rate_ok (gp_cache_write p)"
      "rate_ok (gp_output p)"
    using assms by (simp_all add: glm_prices_ok_def)
  note b = rate_ok_product [OF ok(1), of "gu_input_tokens u"]
    rate_ok_product [OF ok(2), of "gu_cache_read_tokens u"]
    rate_ok_product [OF ok(3), of "gu_cache_write_tokens u"]
    rate_ok_product [OF ok(4), of "gu_output_tokens u"]
  have "checked_sum GlmOverflow (uint (gu_input_tokens u) * gp_input p)
      [uint (gu_cache_read_tokens u) * gp_cached_input p,
       uint (gu_cache_write_tokens u) * gp_cache_write p,
       uint (gu_output_tokens u) * gp_output p] = Inr (glm_exact_cost u p)"
    by (subst checked_sum_exact) (use b in \<open>simp_all add: glm_exact_cost_def\<close>)
  then show ?thesis by (simp add: glm_cost_nanodollars_def glm_validate_def checked_leg_exact ok)
qed

lemma glm_schedules_ok: "\<forall>e\<in>set GLM_CATALOG. \<forall>x\<in>set (gc_schedule e). glm_prices_ok (ge_prices x)"
  by (simp add: GLM_CATALOG_def glm_row_def SCHEDULE_GLM_5_2_def SCHEDULE_GLM_5_TURBO_def
      SCHEDULE_GLM_4_7_def SCHEDULE_GLM_5_def glm_epoch_def glm_prices_ok_def rate_ok_def)

section \<open>Streams\<close>

definition glm_legs :: "(glm_usage \<Rightarrow> u64) set" where
  "glm_legs = {gu_input_tokens, gu_cache_read_tokens, gu_cache_write_tokens, gu_output_tokens,
     gu_reasoning_output_tokens}"

interpretation glm_stream: snapshot_stream "glm_merge_stream_event J" "glm_event_usage J" glm_legs
  glm_usage_default "glm_sse_step J" for J
proof unfold_locales
  show "u = u'" if "\<And>leg. leg \<in> glm_legs \<Longrightarrow> leg u = leg u'" for u u' :: glm_usage
    using that by (intro glm_usage.equality) (simp_all add: glm_legs_def)
  show "glm_sse_step J (u, seen) v
      = (glm_merge_stream_event J u v, glm_merge_stream_event J u v \<noteq> u \<or> seen)" for u seen v
    by (simp add: glm_sse_step_def Let_def)
qed (auto simp: glm_merge_stream_event_def glm_legs_def glm_usage_default_def)

lemma glm_usage_from_sse_events:
  "glm_usage_from_sse J body =
     Option.bind (from_utf8 body) (\<lambda>text.
       let usage = foldl (glm_merge_stream_event J) glm_usage_default (sse_events J text)
       in if usage = glm_usage_default then None else Some usage)"
  by (cases "from_utf8 body") (simp_all add: glm_usage_from_sse_def glm_sse_line_def [abs_def]
      foldl_map_filter sse_events_def glm_stream.stream_seen Let_def)

section \<open>The credit ledger\<close>

definition glm_weighted :: "glm_usage \<Rightarrow> glm_credit_rates \<Rightarrow> int" where
  "glm_weighted u r = uint (gu_input_tokens u) * gr_input_tenths r
     + uint (gu_cache_read_tokens u) * gr_cached_input_tenths r
     + uint (gu_output_tokens u) * gr_output_tenths r"

definition glm_credit_rates_ok :: "glm_credit_rates \<Rightarrow> bool" where
  "glm_credit_rates_ok r \<longleftrightarrow> rate_ok (gr_input_tenths r) \<and> rate_ok (gr_cached_input_tenths r)
     \<and> rate_ok (gr_output_tenths r)"

lemma glm_weighted_range:
  "glm_credit_rates_ok r \<Longrightarrow> 0 \<le> glm_weighted u r \<and> glm_weighted u r \<le> 3 * 2 ^ 104"
  using rate_ok_product [of "gr_input_tenths r" "gu_input_tokens u"]
    rate_ok_product [of "gr_cached_input_tenths r" "gu_cache_read_tokens u"]
    rate_ok_product [of "gr_output_tenths r" "gu_output_tokens u"]
  by (simp add: glm_weighted_def glm_credit_rates_ok_def)

lemma glm_credit_cost_exact:
  assumes "glm_credit_rates_ok r"
  shows "glm_credit_cost_micro u r off_peak =
    (if gu_output_tokens u < gu_reasoning_output_tokens u then Inl GlmReasoningExceedsOutput
     else Inr (glm_weighted u r * (if off_peak then 5 else 10)))"
proof -
  have ok: "rate_ok (gr_input_tenths r)" "rate_ok (gr_cached_input_tenths r)"
      "rate_ok (gr_output_tenths r)"
    using assms by (simp_all add: glm_credit_rates_ok_def)
  note b = rate_ok_product [OF ok(1), of "gu_input_tokens u"]
    rate_ok_product [OF ok(2), of "gu_cache_read_tokens u"]
    rate_ok_product [OF ok(3), of "gu_output_tokens u"]
  have sum: "checked_sum GlmOverflow (uint (gu_input_tokens u) * gr_input_tenths r)
      [uint (gu_cache_read_tokens u) * gr_cached_input_tenths r,
       uint (gu_output_tokens u) * gr_output_tenths r] = Inr (glm_weighted u r)"
    by (subst checked_sum_exact) (use b in \<open>simp_all add: glm_weighted_def\<close>)
  have mul: "checked_mul_i128 (glm_weighted u r) k = Some (glm_weighted u r * k)" if "k \<in> {5, 10}" for k
    using glm_weighted_range [OF assms, of u] that by (auto simp: checked_mul_i128_def in_i128_def)
  show ?thesis
    by (simp add: glm_credit_cost_micro_def glm_validate_def checked_leg_exact ok sum mul
        del: checked_sum.simps)
qed

lemma glm_credits_exact:
  assumes "glm_credit_rates_ok r"
  shows "glm_credits_at u r t =
    (if gu_output_tokens u < gu_reasoning_output_tokens u then Inl GlmReasoningExceedsOutput
     else Inr ((glm_weighted u r * (if glm_is_peak_utc t then 10 else 5) + 500000) div 1000000))"
proof -
  have "checked_add_i128 (glm_weighted u r * k) 500000 = Some (glm_weighted u r * k + 500000)"
      "trunc_div (glm_weighted u r * k + 500000) 1000000 = (glm_weighted u r * k + 500000) div 1000000"
    if "k \<in> {5, 10}" for k
    using glm_weighted_range [OF assms, of u] that
    by (auto simp: checked_add_i128_def in_i128_def trunc_div_def)
  then show ?thesis by (simp add: glm_credits_at_def glm_credit_cost_exact [OF assms])
qed

lemma glm_credit_cards_ok:
  "glm_credit_rates_for_served_model m = Some r \<Longrightarrow> glm_credit_rates_ok r"
proof -
  have "\<forall>e\<in>set GLM_CATALOG. \<forall>r\<in>set_option (gc_credit_rates e). glm_credit_rates_ok r"
    by (simp add: GLM_CATALOG_def glm_row_def CREDIT_GLM_5_2_def CREDIT_GLM_5_TURBO_def
        CREDIT_GLM_4_7_def glm_credit_rates_ok_def rate_ok_def)
  then show "glm_credit_rates_for_served_model m = Some r \<Longrightarrow> glm_credit_rates_ok r"
    by (fastforce simp: glm_credit_rates_for_served_model_def glm_matched_credit_rates_at_def
        option_zip_def bind_eq_Some_conv split: option.splits dest!: find_Some_mem)
qed

text \<open>
  Singapore weeks: \<open>316800\<close> is Monday 1970-01-05, 00:00 in UTC+8, so every instant is a number of
  weeks and \<open>s\<close> seconds into a week from there.
\<close>

lemma glm_peak_week:
  assumes "0 \<le> s" "s < 604800" "in_i64 (345600 + 604800 * k + s)"
  shows "glm_is_peak_utc (316800 + 604800 * k + s)
    \<longleftrightarrow> s div 86400 \<le> 4 \<and> 50400 \<le> s mod 86400 \<and> s mod 86400 < 64800"
proof -
  have sgt: "sat_add_i64 (316800 + 604800 * k + s) (8 * 3600) = s + (4 + 7 * k) * 86400"
    using assms(3) by (simp add: sat_add_i64_def clamp_i64_def in_i64_def algebra_simps)
  have "0 \<le> s div 86400" "s div 86400 < 7" using assms by linarith+
  then have day: "(4 + 7 * k + s div 86400 + 3) mod 7 = s div 86400"
    using mod_mult_self2 [of "s div 86400" 7 "k + 1"] by (simp add: algebra_simps)
  have hour: "trunc_div (s mod 86400) 3600 = s mod 86400 div 3600" by (simp add: trunc_div_def)
  have "14 \<le> h div 3600 \<longleftrightarrow> 50400 \<le> h" "h div 3600 < 18 \<longleftrightarrow> h < 64800" for h :: int by linarith+
  moreover have "(s + (4 + 7 * k) * 86400) div 86400 = 4 + 7 * k + s div 86400"
      "(s + (4 + 7 * k) * 86400) mod 86400 = s mod 86400"
    by (rule div_mult_self1, simp) (rule mod_mult_self1)
  ultimately show ?thesis unfolding glm_is_peak_utc_def Let_def sgt by (simp only: day hour)
qed

text \<open>The native GLM credit charge. For every served model with a published credit card, every usage
  and every instant (given as \<open>k\<close> weeks and \<open>s\<close> seconds from a Monday 00:00 in UTC+8), the only
  failure is a reasoning count above the output count; otherwise the charge is the weighted token sum
  at the full rate from 14:00 to 18:00 on Monday to Friday and at exactly half of it at all other
  times, rounded half up to whole credits once, with no overflow. Served ids without a published
  card, the re-routed \<open>glm-5.1\<close> and \<open>glm-5\<close> among them, have no credit rates.
\<close>

lemma glm_credit_ledger:
  assumes "0 \<le> s" "s < 604800" "in_i64 (345600 + 604800 * k + s)"
  shows "(case glm_credit_rates_for_served_model m of
      None \<Rightarrow> True
    | Some r \<Rightarrow> glm_credits_at u r (316800 + 604800 * k + s) =
        (if gu_output_tokens u < gu_reasoning_output_tokens u then Inl GlmReasoningExceedsOutput
         else let weighted = uint (gu_input_tokens u) * gr_input_tenths r
                    + uint (gu_cache_read_tokens u) * gr_cached_input_tenths r
                    + uint (gu_output_tokens u) * gr_output_tenths r;
                  peak = (s div 86400 \<le> 4 \<and> 14 * 3600 \<le> s mod 86400 \<and> s mod 86400 < 18 * 3600)
              in Inr ((weighted * (if peak then 10 else 5) + 500000) div 1000000)))
    \<and> glm_credit_rates_for_served_model ''glm-5.1'' = None
    \<and> glm_credit_rates_for_served_model ''glm-5'' = None"
proof -
  have "glm_credit_rates_for_served_model ''glm-5.1'' = None"
      "glm_credit_rates_for_served_model ''glm-5'' = None"
    by (simp_all add: glm_credit_rates_for_served_model_def glm_matched_credit_rates_at_def
        GLM_CATALOG_def glm_row_def option_zip_def)
  then show ?thesis
    using glm_credit_cards_ok [of m]
    by (simp add: glm_credits_exact glm_peak_week [OF assms] glm_weighted_def Let_def
        split: option.split)
qed

end
