(* ===== verification/Metering_Kimi.thy ===== *)
theory Metering_Kimi
  imports Metering_Anthropic Rate_Catalog
begin

text \<open>
  \<open>src/crates/metering/src/kimi.rs\<close>: the Kimi rate catalogue and its subscription aliases, the
  served-model tariff resolution with its override inventory, the usage parsers of the
  Anthropic-compatible endpoint, and the checked charge of a turn.
\<close>

section \<open>Data\<close>

record kimi_prices =
  kp_cached_input :: i128
  kp_input :: i128
  kp_cache_write :: i128
  kp_output :: i128

record kimi_price_epoch =
  ke_effective_from :: i64
  ke_prices :: kimi_prices

record kimi_model_spec =
  ks_id :: string
  ks_display_name :: string
  ks_input_token_limit :: u64
  ks_prices :: kimi_prices

record kimi_subscription_model =
  km_alias :: string
  km_created :: i64
  km_wire_model :: string
  km_official_model :: string
  km_input_token_limit :: u64

record kimi_usage =
  ku_input_tokens :: u64
  ku_cache_read_tokens :: u64
  ku_cache_write_tokens :: u64
  ku_output_tokens :: u64
  ku_reasoning_output_tokens :: u64

definition kimi_usage_default :: kimi_usage where
  "kimi_usage_default = \<lparr>ku_input_tokens = 0, ku_cache_read_tokens = 0, ku_cache_write_tokens = 0,
     ku_output_tokens = 0, ku_reasoning_output_tokens = 0\<rparr>"

datatype kimi_usage_error = KimiReasoningExceedsOutput | KimiOverflow

definition kimi_total_tokens :: "kimi_usage \<Rightarrow> u64" where
  "kimi_total_tokens u = sat_add_u64 (sat_add_u64 (sat_add_u64 (ku_input_tokens u)
     (ku_cache_read_tokens u)) (ku_cache_write_tokens u)) (ku_output_tokens u)"

definition kimi_is_zero :: "kimi_usage \<Rightarrow> bool" where
  "kimi_is_zero u \<longleftrightarrow> kimi_total_tokens u = 0"

definition kimi_validate :: "kimi_usage \<Rightarrow> kimi_usage_error + unit" where
  "kimi_validate u =
     (if ku_output_tokens u < ku_reasoning_output_tokens u then Inl KimiReasoningExceedsOutput
      else Inr ())"

record kimi_catalog_entry =
  kc_id :: string
  kc_display_name :: string
  kc_input_token_limit :: u64
  kc_tariff_family :: string
  kc_schedule :: "kimi_price_epoch list"

section \<open>The catalogue\<close>

definition kimi_epoch :: "i128 \<Rightarrow> i128 \<Rightarrow> i128 \<Rightarrow> kimi_price_epoch" where
  "kimi_epoch cached_input input output = \<lparr>ke_effective_from = 0,
     ke_prices = \<lparr>kp_cached_input = cached_input, kp_input = input, kp_cache_write = input,
       kp_output = output\<rparr>\<rparr>"

definition SCHEDULE_K3 :: "kimi_price_epoch list" where
  "SCHEDULE_K3 = [kimi_epoch 300 3000 15000]"

definition SCHEDULE_K27_CODE :: "kimi_price_epoch list" where
  "SCHEDULE_K27_CODE = [kimi_epoch 190 950 4000]"

definition SCHEDULE_K27_CODE_HIGHSPEED :: "kimi_price_epoch list" where
  "SCHEDULE_K27_CODE_HIGHSPEED = [kimi_epoch 380 1900 8000]"

definition SCHEDULE_K26 :: "kimi_price_epoch list" where
  "SCHEDULE_K26 = [kimi_epoch 160 950 4000]"

definition KIMI_CONTEXT_256K :: u64 where
  "KIMI_CONTEXT_256K = 262144"

definition KIMI_CONTEXT_1M :: u64 where
  "KIMI_CONTEXT_1M = 1048576"

definition kimi_row :: "string \<Rightarrow> string \<Rightarrow> u64 \<Rightarrow> string \<Rightarrow> kimi_price_epoch list \<Rightarrow> kimi_catalog_entry"
  where "kimi_row i d l f s = \<lparr>kc_id = i, kc_display_name = d, kc_input_token_limit = l,
     kc_tariff_family = f, kc_schedule = s\<rparr>"

definition KIMI_CATALOG :: "kimi_catalog_entry list" where
  "KIMI_CATALOG =
     [kimi_row ''kimi-k3'' ''Kimi K3'' KIMI_CONTEXT_1M ''moonshot/kimi/kimi-k3'' SCHEDULE_K3,
      kimi_row ''kimi-k2.7-code'' ''Kimi K2.7 Code'' KIMI_CONTEXT_256K
        ''moonshot/kimi/kimi-k2.7-code'' SCHEDULE_K27_CODE,
      kimi_row ''kimi-k2.7-code-highspeed'' ''Kimi K2.7 Code HighSpeed'' KIMI_CONTEXT_256K
        ''moonshot/kimi/kimi-k2.7-code-highspeed'' SCHEDULE_K27_CODE_HIGHSPEED,
      kimi_row ''kimi-k2.6'' ''Kimi K2.6'' KIMI_CONTEXT_256K ''moonshot/kimi/kimi-k2.6''
        SCHEDULE_K26]"

definition KIMI_K27_CODE_RELEASED :: i64 where
  "KIMI_K27_CODE_RELEASED = 1781222400"

definition KIMI_K27_CODE_HIGHSPEED_RELEASED :: i64 where
  "KIMI_K27_CODE_HIGHSPEED_RELEASED = 1783555200"

definition KIMI_K3_RELEASED :: i64 where
  "KIMI_K3_RELEASED = 1784160000"

definition KIMI_K3_256K_RELEASED :: i64 where
  "KIMI_K3_256K_RELEASED = KIMI_K3_RELEASED"

definition kimi_alias :: "string \<Rightarrow> i64 \<Rightarrow> string \<Rightarrow> string \<Rightarrow> u64 \<Rightarrow> kimi_subscription_model" where
  "kimi_alias a c w m l = \<lparr>km_alias = a, km_created = c, km_wire_model = w, km_official_model = m,
     km_input_token_limit = l\<rparr>"

definition KIMI_SUBSCRIPTION_MODELS :: "kimi_subscription_model list" where
  "KIMI_SUBSCRIPTION_MODELS =
     [kimi_alias ''kimi-for-coding'' KIMI_K27_CODE_RELEASED ''kimi-for-coding'' ''kimi-k2.7-code''
        KIMI_CONTEXT_256K,
      kimi_alias ''kimi-for-coding-highspeed'' KIMI_K27_CODE_HIGHSPEED_RELEASED
        ''kimi-for-coding-highspeed'' ''kimi-k2.7-code-highspeed'' KIMI_CONTEXT_256K,
      kimi_alias ''k3'' KIMI_K3_RELEASED ''k3'' ''kimi-k3'' KIMI_CONTEXT_1M,
      kimi_alias ''k3[1m]'' KIMI_K3_RELEASED ''k3'' ''kimi-k3'' KIMI_CONTEXT_1M,
      kimi_alias ''k3-256k'' KIMI_K3_256K_RELEASED ''k3-256k'' ''kimi-k3'' KIMI_CONTEXT_256K]"

text \<open>An empty schedule would be an index panic in the source; \<open>kimi_catalog_rows\<close> below shows
  that no row of the catalogue has one.\<close>

definition kimi_schedule_prices_at :: "kimi_price_epoch list \<Rightarrow> i64 \<Rightarrow> kimi_prices" where
  "kimi_schedule_prices_at schedule now_unix =
     foldl (\<lambda>current epoch. if ke_effective_from epoch \<le> now_unix then ke_prices epoch else current)
       (ke_prices (hd schedule)) schedule"

definition kimi_catalog_at :: "i64 \<Rightarrow> kimi_model_spec list" where
  "kimi_catalog_at now_unix = map (\<lambda>entry. \<lparr>ks_id = kc_id entry,
     ks_display_name = kc_display_name entry, ks_input_token_limit = kc_input_token_limit entry,
     ks_prices = kimi_schedule_prices_at (kc_schedule entry) now_unix\<rparr>) KIMI_CATALOG"

definition kimi_prices_at :: "string \<Rightarrow> i64 \<Rightarrow> kimi_prices option" where
  "kimi_prices_at model_id now_unix =
     map_option (\<lambda>entry. kimi_schedule_prices_at (kc_schedule entry) now_unix)
       (List.find (\<lambda>entry. kc_id entry = model_id) KIMI_CATALOG)"

definition kimi_resolve_subscription_model :: "string \<Rightarrow> kimi_subscription_model option" where
  "kimi_resolve_subscription_model alias =
     List.find (\<lambda>entry. eq_ignore_ascii_case (km_alias entry) alias) KIMI_SUBSCRIPTION_MODELS"

definition kimi_matched_tariff_at :: "string \<Rightarrow> i64 \<Rightarrow> (string \<times> kimi_prices) option" where
  "kimi_matched_tariff_at model_id now_unix =
     (case List.find (\<lambda>entry. kc_id entry = model_id) KIMI_CATALOG of
        Some entry \<Rightarrow>
          Some (kc_tariff_family entry, kimi_schedule_prices_at (kc_schedule entry) now_unix)
      | None \<Rightarrow>
          Option.bind (kimi_resolve_subscription_model model_id) (\<lambda>resolved.
          Option.bind (List.find (\<lambda>entry. kc_id entry = km_official_model resolved) KIMI_CATALOG)
            (\<lambda>entry.
          Some (kc_tariff_family entry, kimi_schedule_prices_at (kc_schedule entry) now_unix))))"

definition kimi_prices_for_served_model :: "string \<Rightarrow> i64 \<Rightarrow> kimi_prices option" where
  "kimi_prices_for_served_model model_id now_unix =
     map_option snd (kimi_matched_tariff_at model_id now_unix)"

definition kimi_compiled_tariffs_at :: "i64 \<Rightarrow> (string \<times> kimi_prices) list" where
  "kimi_compiled_tariffs_at now_unix =
     map (\<lambda>entry. (kc_tariff_family entry, kimi_schedule_prices_at (kc_schedule entry) now_unix))
       KIMI_CATALOG"

definition kimi_tariff_has_future_epoch_at :: "string \<Rightarrow> i64 \<Rightarrow> bool" where
  "kimi_tariff_has_future_epoch_at tariff_family now_unix =
     (case List.find (\<lambda>entry. kc_tariff_family entry = tariff_family) KIMI_CATALOG of
        None \<Rightarrow> False
      | Some entry \<Rightarrow> list_ex (\<lambda>epoch. now_unix < ke_effective_from epoch) (kc_schedule entry))"

definition kimi_tariff_seed_safe :: "string \<Rightarrow> bool" where
  "kimi_tariff_seed_safe tariff_family =
     (case List.find (\<lambda>entry. kc_tariff_family entry = tariff_family) KIMI_CATALOG of
        None \<Rightarrow> False
      | Some entry \<Rightarrow> length (kc_schedule entry) = 1)"

section \<open>Usage parsing\<close>

definition kimi_usage_from_value :: "'v serde_json \<Rightarrow> 'v \<Rightarrow> kimi_usage" where
  "kimi_usage_from_value J u =
     (let g = get_u64 J u;
          split_total =
            (case Option.bind (jget J u ''cache_creation'') (object_values J) of
               None \<Rightarrow> 0
             | Some vs \<Rightarrow> foldl sat_add_u64 0 (List.map_filter (as_u64 J) vs));
          cache_write =
            (if split_total > 0 then split_total else g ''cache_creation_input_tokens'')
      in \<lparr>ku_input_tokens = g ''input_tokens'',
          ku_cache_read_tokens = g ''cache_read_input_tokens'',
          ku_cache_write_tokens = cache_write,
          ku_output_tokens = g ''output_tokens'',
          ku_reasoning_output_tokens = g ''reasoning_output_tokens''\<rparr>)"

definition kimi_usage_from_response_value :: "'v serde_json \<Rightarrow> 'v \<Rightarrow> kimi_usage option" where
  "kimi_usage_from_response_value J value =
     map_option (kimi_usage_from_value J) (jget J value ''usage'')"

definition kimi_usage_from_response_json :: "'v serde_json \<Rightarrow> string \<Rightarrow> kimi_usage option" where
  "kimi_usage_from_response_json J body =
     Option.bind (from_str J body) (kimi_usage_from_response_value J)"

definition kimi_event_usage :: "'v serde_json \<Rightarrow> 'v \<Rightarrow> kimi_usage option" where
  "kimi_event_usage J value =
     map_option (kimi_usage_from_value J)
       (case Option.bind (jget J value ''message'') (\<lambda>m. jget J m ''usage'') of
          None \<Rightarrow> jget J value ''usage''
        | Some u \<Rightarrow> Some u)"

definition kimi_merge_stream_event :: "'v serde_json \<Rightarrow> kimi_usage \<Rightarrow> 'v \<Rightarrow> kimi_usage" where
  "kimi_merge_stream_event J usage value =
     (case kimi_event_usage J value of
        None \<Rightarrow> usage
      | Some parsed \<Rightarrow>
          \<lparr>ku_input_tokens =
             (if ku_input_tokens parsed > 0 then ku_input_tokens parsed else ku_input_tokens usage),
           ku_cache_read_tokens =
             (if ku_cache_read_tokens parsed > 0 then ku_cache_read_tokens parsed
              else ku_cache_read_tokens usage),
           ku_cache_write_tokens =
             (if ku_cache_write_tokens parsed > 0 then ku_cache_write_tokens parsed
              else ku_cache_write_tokens usage),
           ku_output_tokens =
             (if ku_output_tokens parsed > 0 then ku_output_tokens parsed
              else ku_output_tokens usage),
           ku_reasoning_output_tokens =
             (if ku_reasoning_output_tokens parsed > 0 then ku_reasoning_output_tokens parsed
              else ku_reasoning_output_tokens usage)\<rparr>)"

definition kimi_sse_step :: "'v serde_json \<Rightarrow> kimi_usage \<times> bool \<Rightarrow> 'v \<Rightarrow> kimi_usage \<times> bool" where
  "kimi_sse_step J st value =
     (let (before, seen) = st;
          usage = kimi_merge_stream_event J before value
      in (usage, if usage \<noteq> before then True else seen))"

definition kimi_sse_line ::
    "'v serde_json \<Rightarrow> kimi_usage \<times> bool \<Rightarrow> string \<Rightarrow> kimi_usage \<times> bool" where
  "kimi_sse_line J st raw =
     (case sse_event J raw of None \<Rightarrow> st | Some value \<Rightarrow> kimi_sse_step J st value)"

definition kimi_usage_from_sse :: "'v serde_json \<Rightarrow> string \<Rightarrow> kimi_usage option" where
  "kimi_usage_from_sse J body =
     Option.bind (from_utf8 body) (\<lambda>text.
       (let (usage, seen) =
              foldl (kimi_sse_line J) (kimi_usage_default, False) (str_lines text)
        in if seen then Some usage else None))"

section \<open>Cost\<close>

definition kimi_cost_nanodollars :: "kimi_usage \<Rightarrow> kimi_prices \<Rightarrow> kimi_usage_error + i128" where
  "kimi_cost_nanodollars usage prices =
     bind_res (kimi_validate usage) (\<lambda>_.
     bind_res (checked_leg KimiOverflow (ku_input_tokens usage) (kp_input prices)) (\<lambda>acc.
     bind_res (checked_leg KimiOverflow (ku_cache_read_tokens usage) (kp_cached_input prices)) (\<lambda>a.
     bind_res (checked_leg KimiOverflow (ku_cache_write_tokens usage) (kp_cache_write prices)) (\<lambda>b.
     bind_res (checked_leg KimiOverflow (ku_output_tokens usage) (kp_output prices)) (\<lambda>c.
       checked_sum KimiOverflow acc [a, b, c])))))"

section \<open>The catalogue laws\<close>

lemma kimi_catalog_rows:
  "\<forall>e\<in>set KIMI_CATALOG. kc_schedule e \<noteq> []
     \<and> (\<forall>d\<in>set KIMI_CATALOG. kc_tariff_family d = kc_tariff_family e \<longrightarrow> d = e)"
  by code_simp

lemma kimi_find_family:
  assumes "e \<in> set KIMI_CATALOG"
  shows "List.find (\<lambda>x. kc_tariff_family x = kc_tariff_family e) KIMI_CATALOG = Some e"
  using find_family_row [OF assms, of kc_tariff_family "\<lambda>d. d"] kimi_catalog_rows assms by simp

lemma kimi_families_distinct: "distinct (map kc_tariff_family KIMI_CATALOG)"
  by code_simp

interpretation kimi: rate_catalog kimi_schedule_prices_at ke_effective_from ke_prices
  KIMI_CATALOG kc_tariff_family kc_schedule kimi_matched_tariff_at kimi_compiled_tariffs_at
  kimi_tariff_has_future_epoch_at kimi_tariff_seed_safe
proof unfold_locales
  show "\<exists>e\<in>set KIMI_CATALOG. f = kc_tariff_family e \<and> p = kimi_schedule_prices_at (kc_schedule e) t"
    if "kimi_matched_tariff_at m t = Some (f, p)" for m t f p
    using that unfolding kimi_matched_tariff_at_def
    by (auto split: option.splits simp: bind_eq_Some_conv dest!: find_Some_mem)
  show "kimi_tariff_has_future_epoch_at (kc_tariff_family e) t
      \<longleftrightarrow> (\<exists>x\<in>set (kc_schedule e). t < ke_effective_from x)" if "e \<in> set KIMI_CATALOG" for e t
    using kimi_find_family [OF that] by (simp add: kimi_tariff_has_future_epoch_at_def list_ex_iff)
  show "kimi_tariff_seed_safe (kc_tariff_family e) \<longleftrightarrow> length (kc_schedule e) = 1"
    if "e \<in> set KIMI_CATALOG" for e
    using kimi_find_family [OF that] by (simp add: kimi_tariff_seed_safe_def)
qed (use kimi_catalog_rows kimi_families_distinct in
      \<open>simp_all add: kimi_schedule_prices_at_def kimi_compiled_tariffs_at_def o_def\<close>)

text \<open>Every subscription alias is priced by the card of a catalogued model, under every spelling,
  and no alias is itself a catalogue id.\<close>

lemma kimi_aliases_priced:
  "\<forall>s\<in>set KIMI_SUBSCRIPTION_MODELS. \<exists>e\<in>set KIMI_CATALOG.
     List.find (\<lambda>x. kc_id x = km_official_model s) KIMI_CATALOG = Some e"
  by (simp add: KIMI_SUBSCRIPTION_MODELS_def kimi_alias_def KIMI_CATALOG_def kimi_row_def)

lemma kimi_alias_not_id:
  "\<forall>s\<in>set KIMI_SUBSCRIPTION_MODELS. \<forall>e\<in>set KIMI_CATALOG. \<not> eq_ignore_ascii_case (km_alias s) (kc_id e)"
  by code_simp

lemma kimi_alias_tariff:
  assumes "kimi_resolve_subscription_model m = Some s"
  shows "\<exists>f p. kimi_matched_tariff_at m t = Some (f, p)
    \<and> kimi_matched_tariff_at (km_official_model s) t = Some (f, p)"
proof -
  have s: "s \<in> set KIMI_SUBSCRIPTION_MODELS" "eq_ignore_ascii_case (km_alias s) m"
    using assms find_Some_mem unfolding kimi_resolve_subscription_model_def by fast+
  obtain e where e: "List.find (\<lambda>x. kc_id x = km_official_model s) KIMI_CATALOG = Some e"
    using kimi_aliases_priced s(1) by blast
  have "List.find (\<lambda>x. kc_id x = m) KIMI_CATALOG = None"
    using kimi_alias_not_id s by (auto simp: find_None_iff)
  then show ?thesis by (simp add: kimi_matched_tariff_at_def assms e)
qed

section \<open>The charge\<close>

definition kimi_exact_cost :: "kimi_usage \<Rightarrow> kimi_prices \<Rightarrow> int" where
  "kimi_exact_cost u p = uint (ku_input_tokens u) * kp_input p
     + uint (ku_cache_read_tokens u) * kp_cached_input p
     + uint (ku_cache_write_tokens u) * kp_cache_write p
     + uint (ku_output_tokens u) * kp_output p"

definition kimi_prices_ok :: "kimi_prices \<Rightarrow> bool" where
  "kimi_prices_ok p \<longleftrightarrow> rate_ok (kp_input p) \<and> rate_ok (kp_cached_input p)
     \<and> rate_ok (kp_cache_write p) \<and> rate_ok (kp_output p)"

lemma kimi_cost_exact:
  assumes "kimi_prices_ok p"
  shows "kimi_cost_nanodollars u p =
    (if ku_output_tokens u < ku_reasoning_output_tokens u then Inl KimiReasoningExceedsOutput
     else Inr (kimi_exact_cost u p))"
proof -
  have ok: "rate_ok (kp_input p)" "rate_ok (kp_cached_input p)" "rate_ok (kp_cache_write p)"
      "rate_ok (kp_output p)"
    using assms by (simp_all add: kimi_prices_ok_def)
  note b = rate_ok_product [OF ok(1), of "ku_input_tokens u"]
    rate_ok_product [OF ok(2), of "ku_cache_read_tokens u"]
    rate_ok_product [OF ok(3), of "ku_cache_write_tokens u"]
    rate_ok_product [OF ok(4), of "ku_output_tokens u"]
  have "checked_sum KimiOverflow (uint (ku_input_tokens u) * kp_input p)
      [uint (ku_cache_read_tokens u) * kp_cached_input p,
       uint (ku_cache_write_tokens u) * kp_cache_write p,
       uint (ku_output_tokens u) * kp_output p] = Inr (kimi_exact_cost u p)"
    by (subst checked_sum_exact) (use b in \<open>simp_all add: kimi_exact_cost_def\<close>)
  then show ?thesis by (simp add: kimi_cost_nanodollars_def kimi_validate_def checked_leg_exact ok)
qed

lemma kimi_schedules_ok: "\<forall>e\<in>set KIMI_CATALOG. \<forall>x\<in>set (kc_schedule e). kimi_prices_ok (ke_prices x)"
  by (simp add: KIMI_CATALOG_def kimi_row_def SCHEDULE_K3_def SCHEDULE_K27_CODE_def
      SCHEDULE_K27_CODE_HIGHSPEED_def SCHEDULE_K26_def kimi_epoch_def kimi_prices_ok_def rate_ok_def)

section \<open>Streams\<close>

definition kimi_legs :: "(kimi_usage \<Rightarrow> u64) set" where
  "kimi_legs = {ku_input_tokens, ku_cache_read_tokens, ku_cache_write_tokens, ku_output_tokens,
     ku_reasoning_output_tokens}"

interpretation kimi_stream: snapshot_stream "kimi_merge_stream_event J" "kimi_event_usage J" kimi_legs
  kimi_usage_default "kimi_sse_step J" for J
proof unfold_locales
  show "u = u'" if "\<And>leg. leg \<in> kimi_legs \<Longrightarrow> leg u = leg u'" for u u' :: kimi_usage
    using that by (intro kimi_usage.equality) (simp_all add: kimi_legs_def)
  show "kimi_sse_step J (u, seen) v
      = (kimi_merge_stream_event J u v, kimi_merge_stream_event J u v \<noteq> u \<or> seen)" for u seen v
    by (simp add: kimi_sse_step_def Let_def)
qed (auto simp: kimi_merge_stream_event_def kimi_legs_def kimi_usage_default_def)

lemma kimi_usage_from_sse_events:
  "kimi_usage_from_sse J body =
     Option.bind (from_utf8 body) (\<lambda>text.
       let usage = foldl (kimi_merge_stream_event J) kimi_usage_default (sse_events J text)
       in if usage = kimi_usage_default then None else Some usage)"
  by (cases "from_utf8 body") (simp_all add: kimi_usage_from_sse_def kimi_sse_line_def [abs_def]
      foldl_map_filter sse_events_def kimi_stream.stream_seen Let_def)

end
