(* ===== verification/Tariff_Properties.thy ===== *)
theory Tariff_Properties
  imports Metering_Anthropic Metering_Codex Metering_Gemini Metering_Glm Metering_Kimi
begin

text \<open>
  The promises that hold across the provider modules of the metering crate: the agreement of the
  override surface with billing, the exactness of the charges of a served model, and the counters a
  streamed response leaves behind.
\<close>

section \<open>Override surfaces\<close>

text \<open>Override surfaces agree with billing, for every provider. Whatever tariff the matcher answers,
  the compiled inventory of that instant lists the same prices under the answered family, and lists
  each family once. For the effective-dated catalogues (Codex, Gemini, GLM, KIMI) moreover a family
  reported safe to seed has the same prices at all instants, so that one payload reproduces its
  whole schedule, and a family without a future epoch keeps its prices for all later instants.
\<close>

lemma override_surfaces_agree:
  "override_surface_sound codex_matched_tariff_at codex_compiled_tariffs_at
       codex_tariff_has_future_epoch_at codex_tariff_seed_safe
   \<and> override_surface_sound gemini_matched_tariff_at gemini_compiled_tariffs_at
       gemini_tariff_has_future_epoch_at gemini_tariff_seed_safe
   \<and> override_surface_sound glm_matched_tariff_at glm_compiled_tariffs_at
       glm_tariff_has_future_epoch_at glm_tariff_seed_safe
   \<and> override_surface_sound kimi_matched_tariff_at kimi_compiled_tariffs_at
       kimi_tariff_has_future_epoch_at kimi_tariff_seed_safe
   \<and> (\<forall>lc m t fast f p. anthropic_matched_tariff_at lc m t fast = Some (f, p)
       \<longrightarrow> map_of (anthropic_compiled_tariffs_at t) f = Some p)
   \<and> (\<forall>t. distinct (map fst (anthropic_compiled_tariffs_at t)))"
  using codex.surface gemini.surface glm.surface kimi.surface matched_tariff_in_inventory
    compiled_families_distinct by blast

section \<open>Charges\<close>

lemma kimi_unpriced:
  "kimi_prices_for_served_model m t = None \<longleftrightarrow> (\<forall>e\<in>set KIMI_CATALOG. kc_id e \<noteq> m)
     \<and> (\<forall>a\<in>set KIMI_SUBSCRIPTION_MODELS. \<not> eq_ignore_ascii_case (km_alias a) m)"
proof (cases "kimi_resolve_subscription_model m")
  case None
  then show ?thesis
    by (auto simp: kimi_prices_for_served_model_def kimi_matched_tariff_at_def
        simp flip: find_None_ball kimi_resolve_subscription_model_def split: option.split)
next
  case (Some a)
  then have "kimi_prices_for_served_model m t \<noteq> None"
    using kimi_alias_tariff [of m a t] by (auto simp: kimi_prices_for_served_model_def)
  moreover have "a \<in> set KIMI_SUBSCRIPTION_MODELS \<and> eq_ignore_ascii_case (km_alias a) m"
    using Some unfolding kimi_resolve_subscription_model_def by (rule find_Some_mem)
  ultimately show ?thesis by blast
qed

lemma glm_unpriced:
  "glm_prices_for_served_model m t = None \<longleftrightarrow> (\<forall>e\<in>set GLM_CATALOG. gc_id e \<noteq> m)
     \<and> (\<forall>a\<in>set GLM_SUBSCRIPTION_MODELS. \<not> eq_ignore_ascii_case (gm_alias a) m)"
proof (cases "glm_resolve_subscription_model m")
  case None
  then show ?thesis
    by (auto simp: glm_prices_for_served_model_def glm_matched_tariff_at_def
        simp flip: find_None_ball glm_resolve_subscription_model_def split: option.split)
next
  case (Some a)
  then have "glm_prices_for_served_model m t \<noteq> None"
    using glm_alias_tariff [of m a t] by (auto simp: glm_prices_for_served_model_def)
  moreover have "a \<in> set GLM_SUBSCRIPTION_MODELS \<and> eq_ignore_ascii_case (gm_alias a) m"
    using Some unfolding glm_resolve_subscription_model_def by (rule find_Some_mem)
  ultimately show ?thesis by blast
qed

lemma kimi_served_charge:
  "kimi_prices_for_served_model m t = Some p \<Longrightarrow> kimi_cost_nanodollars u p =
    (if ku_output_tokens u < ku_reasoning_output_tokens u then Inl KimiReasoningExceedsOutput
     else Inr (kimi_exact_cost u p))"
  using kimi.matched_payload [OF _ kimi_schedules_ok]
  by (intro kimi_cost_exact) (auto simp: kimi_prices_for_served_model_def)

lemma glm_served_charge:
  "glm_prices_for_served_model m t = Some p \<Longrightarrow> glm_cost_nanodollars u p =
    (if gu_output_tokens u < gu_reasoning_output_tokens u then Inl GlmReasoningExceedsOutput
     else Inr (glm_exact_cost u p))"
  using glm.matched_payload [OF _ glm_schedules_ok]
  by (intro glm_cost_exact) (auto simp: glm_prices_for_served_model_def)

lemma gemini_prices_matched: "gemini_prices_at m t = map_option snd (gemini_matched_tariff_at m t)"
  by (cases "List.find (\<lambda>entry. mc_id entry = m) GEMINI_CATALOG")
    (simp_all add: gemini_prices_at_def gemini_matched_tariff_at_def)

lemma gemini_charge:
  "gemini_prices_at m t = Some p \<Longrightarrow> gemini_cost_nanodollars u p = gemini_exact_cost u p"
  using gemini.matched_payload [OF _ gemini_schedules_ok]
  by (intro gemini_cost_exact) (auto simp: gemini_prices_matched)

lemma gemini_unpriced: "gemini_prices_at m t = None \<longleftrightarrow> (\<forall>e\<in>set GEMINI_CATALOG. mc_id e \<noteq> m)"
  by (auto simp: gemini_prices_at_def find_None_iff split: option.split)

text \<open>C35: The charge of a served model, for KIMI, GLM and Gemini, every instant and every \<open>u64\<close>
  counters. A model has no price exactly when it is neither a catalogued id nor, for the subscription
  providers, an alias in some ASCII spelling. A priced KIMI or GLM turn is refused exactly when its
  reasoning count exceeds its output count, and costs otherwise exactly the sum of its four legs at
  the card's rates: the checked arithmetic never overflows. A priced Gemini turn costs exactly the
  sum over its six token classes and its search fee, at the long-context rates for the whole request
  when its prompt exceeds the card's threshold: the saturating arithmetic never saturates.
\<close>

theorem served_charges_are_exact:
  "(kimi_prices_for_served_model m t = None \<longleftrightarrow> (\<forall>e\<in>set KIMI_CATALOG. kc_id e \<noteq> m)
      \<and> (\<forall>a\<in>set KIMI_SUBSCRIPTION_MODELS. \<not> eq_ignore_ascii_case (km_alias a) m))
   \<and> (\<forall>p. kimi_prices_for_served_model m t = Some p \<longrightarrow> kimi_cost_nanodollars ku p =
        (if ku_output_tokens ku < ku_reasoning_output_tokens ku then Inl KimiReasoningExceedsOutput
         else Inr (kimi_exact_cost ku p)))
   \<and> (glm_prices_for_served_model m t = None \<longleftrightarrow> (\<forall>e\<in>set GLM_CATALOG. gc_id e \<noteq> m)
      \<and> (\<forall>a\<in>set GLM_SUBSCRIPTION_MODELS. \<not> eq_ignore_ascii_case (gm_alias a) m))
   \<and> (\<forall>p. glm_prices_for_served_model m t = Some p \<longrightarrow> glm_cost_nanodollars gu p =
        (if gu_output_tokens gu < gu_reasoning_output_tokens gu then Inl GlmReasoningExceedsOutput
         else Inr (glm_exact_cost gu p)))
   \<and> (gemini_prices_at m t = None \<longleftrightarrow> (\<forall>e\<in>set GEMINI_CATALOG. mc_id e \<noteq> m))
   \<and> (\<forall>p. gemini_prices_at m t = Some p \<longrightarrow> gemini_cost_nanodollars mu p = gemini_exact_cost mu p)"
  using kimi_unpriced [of m t] kimi_served_charge [of m t _ ku] glm_unpriced [of m t]
    glm_served_charge [of m t _ gu] gemini_unpriced [of m t] gemini_charge [of m t _ mu] by blast

theorem served_charges_are_exact_witness:
  "kimi_cost_nanodollars \<lparr>ku_input_tokens = 10, ku_cache_read_tokens = 20, ku_cache_write_tokens = 0,
     ku_output_tokens = 5, ku_reasoning_output_tokens = 5\<rparr>
     \<lparr>kp_cached_input = 300, kp_input = 3000, kp_cache_write = 3000, kp_output = 15000\<rparr> = Inr 111000"
proof -
  have "kimi_prices_for_served_model ''K3[1m]'' 0 = Some \<lparr>kp_cached_input = 300, kp_input = 3000,
      kp_cache_write = 3000, kp_output = 15000\<rparr>" by code_simp
  then show ?thesis
    using served_charges_are_exact [where m = "''K3[1m]''" and t = 0 and ku = "\<lparr>ku_input_tokens = 10,
      ku_cache_read_tokens = 20, ku_cache_write_tokens = 0, ku_output_tokens = 5,
      ku_reasoning_output_tokens = 5\<rparr>"]
    by (simp add: kimi_exact_cost_def)
qed

section \<open>Streams\<close>

lemma kimi_stream_counts:
  fixes J :: "'v serde_json"
  assumes "from_utf8 body = Some text"
  defines "reports \<equiv> List.map_filter (kimi_event_usage J) (sse_events J text)"
  shows "case kimi_usage_from_sse J body of
      None \<Rightarrow> (\<forall>r\<in>set reports. r = kimi_usage_default)
    | Some u \<Rightarrow> (\<exists>r\<in>set reports. r \<noteq> kimi_usage_default)
        \<and> (\<forall>leg\<in>kimi_legs. leg u = last (0 # filter (\<lambda>n. 0 < n) (map leg reports)))"
  using kimi_stream.stream_empty [of J "sse_events J text"]
    kimi_stream.leg_fold [of _ J kimi_usage_default "sse_events J text"]
  by (simp add: kimi_usage_from_sse_events assms Let_def kimi_stream.zero_leg)

lemma glm_stream_counts:
  fixes J :: "'v serde_json"
  assumes "from_utf8 body = Some text"
  defines "reports \<equiv> List.map_filter (glm_event_usage J) (sse_events J text)"
  shows "case glm_usage_from_sse J body of
      None \<Rightarrow> (\<forall>r\<in>set reports. r = glm_usage_default)
    | Some u \<Rightarrow> (\<exists>r\<in>set reports. r \<noteq> glm_usage_default)
        \<and> (\<forall>leg\<in>glm_legs. leg u = last (0 # filter (\<lambda>n. 0 < n) (map leg reports)))"
  using glm_stream.stream_empty [of J "sse_events J text"]
    glm_stream.leg_fold [of _ J glm_usage_default "sse_events J text"]
  by (simp add: glm_usage_from_sse_events assms Let_def glm_stream.zero_leg)

text \<open>What a streamed response leaves behind. For KIMI and GLM every counter of the result is the
  last positive value any event reported for it, so that cumulative reports are never added up and a
  silent event erases nothing, and there is no result exactly when no event reported anything but
  zeros. For Gemini the token classes are those of the last report with any tokens: an annotation
  without counts never erases them. Its search facts are the maxima over all frames, so a repeated
  frame is not charged twice. A body that is not UTF-8 yields no usage.
\<close>

lemma streamed_counts_are_last_reported:
  "case from_utf8 body of
     None \<Rightarrow> kimi_usage_from_sse J body = None \<and> glm_usage_from_sse J body = None
       \<and> gemini_usage_from_sse J body = gemini_usage_default
   | Some text \<Rightarrow>
       (let reports = List.map_filter (kimi_event_usage J) (sse_events J text) in
        case kimi_usage_from_sse J body of
          None \<Rightarrow> (\<forall>r\<in>set reports. r = kimi_usage_default)
        | Some u \<Rightarrow> (\<exists>r\<in>set reports. r \<noteq> kimi_usage_default)
            \<and> (\<forall>leg\<in>kimi_legs. leg u = last (0 # filter (\<lambda>n. 0 < n) (map leg reports))))
       \<and> (let reports = List.map_filter (glm_event_usage J) (sse_events J text) in
        case glm_usage_from_sse J body of
          None \<Rightarrow> (\<forall>r\<in>set reports. r = glm_usage_default)
        | Some u \<Rightarrow> (\<exists>r\<in>set reports. r \<noteq> glm_usage_default)
            \<and> (\<forall>leg\<in>glm_legs. leg u = last (0 # filter (\<lambda>n. 0 < n) (map leg reports))))
       \<and> (let events = gemini_sse_events J text; u = gemini_usage_from_sse J body in
          gemini_tokens u = last (gemini_usage_default
            # filter (\<lambda>s. 0 < gemini_total_tokens s) (gemini_reports J events))
          \<and> mu_search_queries u = foldl max 0 (map (fst \<circ> grounding_usage J) events)
          \<and> mu_grounded_search_prompts u
              = foldl max 0 (map (\<lambda>v. if snd (grounding_usage J v) then 1 else 0) events))"
proof (cases "from_utf8 body")
  case None
  then show ?thesis
    by (simp add: kimi_usage_from_sse_def glm_usage_from_sse_def gemini_usage_from_sse_def)
next
  case (Some utf8)
  have "mu_search_queries gemini_usage_default = 0" "mu_grounded_search_prompts gemini_usage_default = 0"
    by (simp_all add: gemini_usage_default_def)
  then show ?thesis
    using kimi_stream_counts [OF Some, of J] glm_stream_counts [OF Some, of J]
    unfolding Some option.case Let_def gemini_usage_from_sse_events gemini_stream_tokens
      gemini_stream_grounding by simp
qed

end
