(* ===== verification/Tariff_Store.thy ===== *)
theory Tariff_Store
  imports Decimal
begin

text \<open>
  \<open>src/crates/registry/src/pricing/tariffs.rs\<close>: the append-only table of hot tariff overrides. The
  mirror price structs, the family and payload validation, the digest, the insert transaction with
  the constraints of migrations 0036 and 0037, the verified read of the table and the resolution of
  the override that prices a family at an instant.

  The derived codecs of the mirror structs, the JSON text encoding and SHA-256 are arguments
  (\<open>tariff_env\<close>); a stored payload is the JSON value itself, since a \<open>jsonb\<close> column returns the
  value it was given. One insert is one transaction under the advisory lock of its family, so the
  table changes in atomic steps; the clock is an argument.
\<close>

section \<open>Mirror structs\<close>

record anthropic_tariff_prices =
  ta_input :: i128
  ta_output :: i128
  ta_cache_read :: i128
  ta_cache_write_5m :: i128
  ta_cache_write_1h :: i128

datatype gemini_tariff_search_billing = TariffPerQuery i128 | TariffPerGroundedPrompt i128

record gemini_tariff_prices =
  tg_input :: i128
  tg_audio_input :: i128
  tg_cached_input :: i128
  tg_cached_audio_input :: i128
  tg_output :: i128
  tg_image_output :: i128
  tg_long_context_threshold :: u64
  tg_long_input :: i128
  tg_long_audio_input :: i128
  tg_long_cached_input :: i128
  tg_long_cached_audio_input :: i128
  tg_long_output :: i128
  tg_search :: gemini_tariff_search_billing

record codex_tariff_prices =
  tx_input :: i128
  tx_cached_input :: i128
  tx_cache_write_input :: i128
  tx_output :: i128
  tx_api_fast_multiplier_basis_points :: i64
  tx_long_context_threshold :: u64
  tx_long_input_basis_points :: i64
  tx_long_output_basis_points :: i64

record codex_tariff_credit_rates =
  tc_input :: i128
  tc_cached_input :: i128
  tc_output :: i128

record glm_tariff_prices =
  tl_cached_input :: i128
  tl_input :: i128
  tl_cache_write :: i128
  tl_output :: i128

record glm_tariff_credit_rates =
  tm_input_tenths :: i128
  tm_cached_input_tenths :: i128
  tm_output_tenths :: i128

record kimi_tariff_prices =
  tk_cached_input :: i128
  tk_input :: i128
  tk_cache_write :: i128
  tk_output :: i128

record openai_image_tariff_prices =
  ti_fresh_text_input :: i128
  ti_cached_text_input :: i128
  ti_fresh_image_input :: i128
  ti_cached_image_input :: i128
  ti_image_output :: i128

datatype tariff_override_payload =
    PAnthropic anthropic_tariff_prices
  | PGemini gemini_tariff_prices
  | PCodex codex_tariff_prices
  | PCodexCredits codex_tariff_credit_rates
  | PGlm glm_tariff_prices
  | PGlmCredits glm_tariff_credit_rates
  | PKimi kimi_tariff_prices
  | POpenAiImage openai_image_tariff_prices

text \<open>The library and derived code: the codecs of the structs over JSON values \<open>'v\<close>, the text
  encoding of a value, and SHA-256 in lower-case hexadecimal.\<close>

record 'v tariff_env =
  is_object :: "'v \<Rightarrow> bool"
  dec_anthropic :: "'v \<Rightarrow> anthropic_tariff_prices option"
  dec_gemini :: "'v \<Rightarrow> gemini_tariff_prices option"
  dec_codex :: "'v \<Rightarrow> codex_tariff_prices option"
  dec_codex_credits :: "'v \<Rightarrow> codex_tariff_credit_rates option"
  dec_glm :: "'v \<Rightarrow> glm_tariff_prices option"
  dec_glm_credits :: "'v \<Rightarrow> glm_tariff_credit_rates option"
  dec_kimi :: "'v \<Rightarrow> kimi_tariff_prices option"
  dec_openai_image :: "'v \<Rightarrow> openai_image_tariff_prices option"
  enc_anthropic :: "anthropic_tariff_prices \<Rightarrow> 'v"
  enc_gemini :: "gemini_tariff_prices \<Rightarrow> 'v"
  enc_codex :: "codex_tariff_prices \<Rightarrow> 'v"
  enc_codex_credits :: "codex_tariff_credit_rates \<Rightarrow> 'v"
  enc_glm :: "glm_tariff_prices \<Rightarrow> 'v"
  enc_glm_credits :: "glm_tariff_credit_rates \<Rightarrow> 'v"
  enc_kimi :: "kimi_tariff_prices \<Rightarrow> 'v"
  enc_openai_image :: "openai_image_tariff_prices \<Rightarrow> 'v"
  value_text :: "'v \<Rightarrow> string"
  sha256_hex :: "string \<Rightarrow> string"

text \<open>What the sources rely on: a derived encoder produces an object that the derived decoder of the
  same struct reads back.\<close>

definition codec_ok :: "'v tariff_env \<Rightarrow> bool" where
  "codec_ok E \<longleftrightarrow>
     (\<forall>p. is_object E (enc_anthropic E p) \<and> dec_anthropic E (enc_anthropic E p) = Some p)
     \<and> (\<forall>p. is_object E (enc_gemini E p) \<and> dec_gemini E (enc_gemini E p) = Some p)
     \<and> (\<forall>p. is_object E (enc_codex E p) \<and> dec_codex E (enc_codex E p) = Some p)
     \<and> (\<forall>p. is_object E (enc_codex_credits E p) \<and> dec_codex_credits E (enc_codex_credits E p) = Some p)
     \<and> (\<forall>p. is_object E (enc_glm E p) \<and> dec_glm E (enc_glm E p) = Some p)
     \<and> (\<forall>p. is_object E (enc_glm_credits E p) \<and> dec_glm_credits E (enc_glm_credits E p) = Some p)
     \<and> (\<forall>p. is_object E (enc_kimi E p) \<and> dec_kimi E (enc_kimi E p) = Some p)
     \<and> (\<forall>p. is_object E (enc_openai_image E p) \<and> dec_openai_image E (enc_openai_image E p) = Some p)"

section \<open>Validation\<close>

datatype tariff_invalid =
    FamilyLength | FamilyFirstByte | FamilyBytes
  | VersionBelowTwo | NegativeEffectiveFrom | BadOperator | BadReason
  | PayloadNotObject | MissingModelSegment | PayloadSchema | NegativeLeg
  | NegativeSearchBilling | NegativeMultipliers | UnknownFamilySchema
  | EffectiveTooEarly | DatabaseCheck

definition is_ascii_lowercase :: "char \<Rightarrow> bool" where
  "is_ascii_lowercase c \<longleftrightarrow> 97 \<le> (of_char c :: nat) \<and> (of_char c :: nat) \<le> 122"

definition family_byte :: "char \<Rightarrow> bool" where
  "family_byte c \<longleftrightarrow> is_ascii_lowercase c \<or> is_ascii_digit c \<or> c \<in> set ''/_-.''"

definition validate_tariff_family :: "string \<Rightarrow> tariff_invalid + unit" where
  "validate_tariff_family family =
     (if family = [] \<or> length family > 128 then Inl FamilyLength
      else if \<not> is_ascii_lowercase (hd family) \<and> \<not> is_ascii_digit (hd family) then Inl FamilyFirstByte
      else if \<not> list_all family_byte family then Inl FamilyBytes
      else Inr ())"

definition require_family_segment :: "string \<Rightarrow> string \<Rightarrow> tariff_invalid + unit" where
  "require_family_segment family prefix =
     (if length family = length prefix then Inl MissingModelSegment else Inr ())"

definition require_non_negative :: "i128 list \<Rightarrow> tariff_invalid + unit" where
  "require_non_negative legs = (if list_ex (\<lambda>x. x < 0) legs then Inl NegativeLeg else Inr ())"

definition anthropic_tariff_validate :: "anthropic_tariff_prices \<Rightarrow> tariff_invalid + unit" where
  "anthropic_tariff_validate p = require_non_negative [ta_input p, ta_output p, ta_cache_read p,
     ta_cache_write_5m p, ta_cache_write_1h p]"

definition gemini_tariff_validate :: "gemini_tariff_prices \<Rightarrow> tariff_invalid + unit" where
  "gemini_tariff_validate p = require_non_negative [tg_input p, tg_audio_input p, tg_cached_input p,
     tg_cached_audio_input p, tg_output p, tg_image_output p, tg_long_input p, tg_long_audio_input p,
     tg_long_cached_input p, tg_long_cached_audio_input p, tg_long_output p]"

definition codex_tariff_validate :: "codex_tariff_prices \<Rightarrow> tariff_invalid + unit" where
  "codex_tariff_validate p = require_non_negative [tx_input p, tx_cached_input p,
     tx_cache_write_input p, tx_output p]"

definition codex_credit_validate :: "codex_tariff_credit_rates \<Rightarrow> tariff_invalid + unit" where
  "codex_credit_validate p = require_non_negative [tc_input p, tc_cached_input p, tc_output p]"

definition glm_tariff_validate :: "glm_tariff_prices \<Rightarrow> tariff_invalid + unit" where
  "glm_tariff_validate p =
     require_non_negative [tl_cached_input p, tl_input p, tl_cache_write p, tl_output p]"

definition glm_credit_validate :: "glm_tariff_credit_rates \<Rightarrow> tariff_invalid + unit" where
  "glm_credit_validate p =
     require_non_negative [tm_input_tenths p, tm_cached_input_tenths p, tm_output_tenths p]"

definition kimi_tariff_validate :: "kimi_tariff_prices \<Rightarrow> tariff_invalid + unit" where
  "kimi_tariff_validate p =
     require_non_negative [tk_cached_input p, tk_input p, tk_cache_write p, tk_output p]"

definition openai_image_tariff_validate :: "openai_image_tariff_prices \<Rightarrow> tariff_invalid + unit" where
  "openai_image_tariff_validate p = require_non_negative [ti_fresh_text_input p,
     ti_cached_text_input p, ti_fresh_image_input p, ti_cached_image_input p, ti_image_output p]"

definition search_nano :: "gemini_tariff_search_billing \<Rightarrow> i128" where
  "search_nano s = (case s of TariffPerQuery nano \<Rightarrow> nano | TariffPerGroundedPrompt nano \<Rightarrow> nano)"

definition parse_tariff_override_payload ::
    "'v tariff_env \<Rightarrow> string \<Rightarrow> 'v \<Rightarrow> tariff_invalid + tariff_override_payload" where
  "parse_tariff_override_payload E family payload =
     (if \<not> is_object E payload then Inl PayloadNotObject
      else if strip_prefix family ''anthropic/'' \<noteq> None then
        bind_res (require_family_segment family ''anthropic/'') (\<lambda>_.
        bind_res (ok_or PayloadSchema (dec_anthropic E payload)) (\<lambda>parsed.
        bind_res (anthropic_tariff_validate parsed) (\<lambda>_. Inr (PAnthropic parsed))))
      else if strip_prefix family ''google/gemini/'' \<noteq> None then
        bind_res (require_family_segment family ''google/gemini/'') (\<lambda>_.
        bind_res (ok_or PayloadSchema (dec_gemini E payload)) (\<lambda>parsed.
        bind_res (gemini_tariff_validate parsed) (\<lambda>_.
          if search_nano (tg_search parsed) < 0 then Inl NegativeSearchBilling
          else Inr (PGemini parsed))))
      else if strip_prefix family ''openai/codex/'' \<noteq> None then
        bind_res (require_family_segment family ''openai/codex/'') (\<lambda>_.
        bind_res (ok_or PayloadSchema (dec_codex E payload)) (\<lambda>parsed.
        bind_res (codex_tariff_validate parsed) (\<lambda>_.
          if tx_api_fast_multiplier_basis_points parsed < 0 \<or> tx_long_input_basis_points parsed < 0
             \<or> tx_long_output_basis_points parsed < 0
          then Inl NegativeMultipliers else Inr (PCodex parsed))))
      else if family = ''chatgpt/codex-credits''
          \<or> strip_prefix family ''chatgpt/codex-credits/'' \<noteq> None then
        bind_res (ok_or PayloadSchema (dec_codex_credits E payload)) (\<lambda>parsed.
        bind_res (codex_credit_validate parsed) (\<lambda>_. Inr (PCodexCredits parsed)))
      else if strip_prefix family ''zhipu/glm-credits/'' \<noteq> None then
        bind_res (require_family_segment family ''zhipu/glm-credits/'') (\<lambda>_.
        bind_res (ok_or PayloadSchema (dec_glm_credits E payload)) (\<lambda>parsed.
        bind_res (glm_credit_validate parsed) (\<lambda>_. Inr (PGlmCredits parsed))))
      else if strip_prefix family ''zhipu/glm/'' \<noteq> None then
        bind_res (require_family_segment family ''zhipu/glm/'') (\<lambda>_.
        bind_res (ok_or PayloadSchema (dec_glm E payload)) (\<lambda>parsed.
        bind_res (glm_tariff_validate parsed) (\<lambda>_. Inr (PGlm parsed))))
      else if strip_prefix family ''moonshot/kimi/'' \<noteq> None then
        bind_res (require_family_segment family ''moonshot/kimi/'') (\<lambda>_.
        bind_res (ok_or PayloadSchema (dec_kimi E payload)) (\<lambda>parsed.
        bind_res (kimi_tariff_validate parsed) (\<lambda>_. Inr (PKimi parsed))))
      else if family = ''openai/gpt-image-2'' then
        bind_res (ok_or PayloadSchema (dec_openai_image E payload)) (\<lambda>parsed.
        bind_res (openai_image_tariff_validate parsed) (\<lambda>_. Inr (POpenAiImage parsed)))
      else Inl UnknownFamilySchema)"

fun to_canonical_value :: "'v tariff_env \<Rightarrow> tariff_override_payload \<Rightarrow> 'v" where
  "to_canonical_value E (PAnthropic p) = enc_anthropic E p"
| "to_canonical_value E (PGemini p) = enc_gemini E p"
| "to_canonical_value E (PCodex p) = enc_codex E p"
| "to_canonical_value E (PCodexCredits p) = enc_codex_credits E p"
| "to_canonical_value E (PGlm p) = enc_glm E p"
| "to_canonical_value E (PGlmCredits p) = enc_glm_credits E p"
| "to_canonical_value E (PKimi p) = enc_kimi E p"
| "to_canonical_value E (POpenAiImage p) = enc_openai_image E p"

definition TARIFF_OVERRIDE_PAYLOAD_DIGEST_DOMAIN :: string where
  "TARIFF_OVERRIDE_PAYLOAD_DIGEST_DOMAIN =
     ''apitoken:pricing-tariff-override-payload:v2'' @ [CHR 0x00]"

definition tariff_override_payload_value_digest :: "'v tariff_env \<Rightarrow> 'v \<Rightarrow> string" where
  "tariff_override_payload_value_digest E value =
     ''sha256:v2:'' @ sha256_hex E (TARIFF_OVERRIDE_PAYLOAD_DIGEST_DOMAIN @ value_text E value)"

definition tariff_override_payload_digest :: "'v tariff_env \<Rightarrow> tariff_override_payload \<Rightarrow> string" where
  "tariff_override_payload_digest E payload =
     tariff_override_payload_value_digest E (to_canonical_value E payload)"

section \<open>Rows and requests\<close>

record 'v tariff_override =
  ov_tariff_family :: string
  ov_version :: i64
  ov_effective_from :: i64
  ov_payload :: 'v
  ov_payload_digest :: string
  ov_created_ts :: i64
  ov_created_by :: string
  ov_reason :: string

record 'v tariff_override_insert =
  in_tariff_family :: string
  in_version :: i64
  in_effective_from :: i64
  in_payload :: 'v
  in_created_by :: string
  in_reason :: string

datatype tariff_override_rejection =
    Invalid tariff_invalid
  | Conflict (existing_digest: string) (existing_effective_from: i64)
  | SequenceViolation (expected_next: i64)

datatype 'v tariff_override_insert_outcome =
    Inserted "'v tariff_override"
  | Unchanged "'v tariff_override"
  | Rejected tariff_override_rejection

datatype tariff_store_error = DigestMismatch | VersionOverflow

definition TARIFF_OVERRIDE_CLOCK_SKEW_GRACE_SECS :: i64 where
  "TARIFF_OVERRIDE_CLOCK_SKEW_GRACE_SECS = 60"

definition require_id :: "tariff_invalid \<Rightarrow> string \<Rightarrow> tariff_invalid + unit" where
  "require_id label value = (if value = [] \<or> trim value \<noteq> value then Inl label else Inr ())"

definition validate_tariff_override_insert :: "'v tariff_override_insert \<Rightarrow> tariff_invalid + unit" where
  "validate_tariff_override_insert ins =
     bind_res (validate_tariff_family (in_tariff_family ins)) (\<lambda>_.
     if in_version ins < 2 then Inl VersionBelowTwo
     else if in_effective_from ins < 0 then Inl NegativeEffectiveFrom
     else
       bind_res (require_id BadOperator (in_created_by ins)) (\<lambda>_.
       bind_res (require_id BadReason (in_reason ins)) (\<lambda>_. Inr ())))"

text \<open>\<open>max_by_key\<close> keeps the last of several maxima.\<close>

definition max_version_row :: "'v tariff_override list \<Rightarrow> 'v tariff_override option" where
  "max_version_row rows =
     foldl (\<lambda>best row. case best of None \<Rightarrow> Some row
         | Some b \<Rightarrow> Some (if ov_version b \<le> ov_version row then row else b)) None rows"

definition resolve_tariff_override ::
    "'v tariff_override list \<Rightarrow> string \<Rightarrow> i64 \<Rightarrow> 'v tariff_override option" where
  "resolve_tariff_override rows family priced_ts =
     max_version_row
       (filter (\<lambda>row. ov_tariff_family row = family \<and> ov_effective_from row \<le> priced_ts) rows)"

section \<open>The table\<close>

definition tariff_override_from_row ::
    "'v tariff_env \<Rightarrow> 'v tariff_override \<Rightarrow> tariff_store_error + 'v tariff_override" where
  "tariff_override_from_row E row =
     (if tariff_override_payload_value_digest E (ov_payload row) \<noteq> ov_payload_digest row
      then Inl DigestMismatch else Inr row)"

fun collect_res :: "('a \<Rightarrow> 'e + 'b) \<Rightarrow> 'a list \<Rightarrow> 'e + 'b list" where
  "collect_res f [] = Inr []"
| "collect_res f (x # xs) = bind_res (f x) (\<lambda>y. bind_res (collect_res f xs) (\<lambda>ys. Inr (y # ys)))"

text \<open>\<open>ORDER BY tariff_family,version\<close>; \<open>collate\<close> is the rank of a family in the collation of the
  database.\<close>

definition postgres_list_tariff_overrides ::
    "'v tariff_env \<Rightarrow> (string \<Rightarrow> nat) \<Rightarrow> 'v tariff_override list
      \<Rightarrow> tariff_store_error + 'v tariff_override list" where
  "postgres_list_tariff_overrides E collate tbl =
     collect_res (tariff_override_from_row E)
       (sort_key (\<lambda>r. collate (ov_tariff_family r)) (sort_key ov_version tbl))"

definition family_head :: "'v tariff_override list \<Rightarrow> string \<Rightarrow> i64 option" where
  "family_head tbl family =
     (let vs = map ov_version (filter (\<lambda>r. ov_tariff_family r = family) tbl)
      in if vs = [] then None else Some (foldl max (hd vs) (tl vs)))"

text \<open>The constraints of the table: the checks of the columns (migrations 0036 and 0037), the
  primary key, and the sequence trigger.\<close>

definition hex_char :: "char \<Rightarrow> bool" where
  "hex_char c \<longleftrightarrow> is_ascii_digit c \<or> c \<in> set ''abcdef''"

definition row_checks :: "'v tariff_override \<Rightarrow> bool" where
  "row_checks r \<longleftrightarrow> 2 \<le> ov_version r \<and> 0 \<le> ov_effective_from r \<and> 0 \<le> ov_created_ts r
     \<and> ov_created_by r \<noteq> [] \<and> ov_reason r \<noteq> []
     \<and> starts_with (ov_payload_digest r) ''sha256:v2:'' \<and> length (ov_payload_digest r) = 74
     \<and> list_all hex_char (drop 10 (ov_payload_digest r))
     \<and> validate_tariff_family (ov_tariff_family r) = Inr ()"

definition insert_row ::
    "'v tariff_override list \<Rightarrow> 'v tariff_override \<Rightarrow> tariff_override_rejection + 'v tariff_override list"
where
  "insert_row tbl row =
     (let next = (case family_head tbl (ov_tariff_family row) of None \<Rightarrow> 1 | Some v \<Rightarrow> v) + 1
      in if ov_version row \<noteq> next then Inl (SequenceViolation next)
         else if \<not> row_checks row then Inl (Invalid DatabaseCheck)
         else Inr (tbl @ [row]))"

definition in_i32 :: "int \<Rightarrow> bool" where
  "in_i32 x \<longleftrightarrow> - (2 ^ 31) \<le> x \<and> x < 2 ^ 31"

definition postgres_insert_tariff_override ::
    "'v tariff_env \<Rightarrow> i64 \<Rightarrow> 'v tariff_override list \<Rightarrow> 'v tariff_override_insert
      \<Rightarrow> (tariff_store_error + 'v tariff_override_insert_outcome) \<times> 'v tariff_override list" where
  "postgres_insert_tariff_override E created_ts tbl ins =
     (case validate_tariff_override_insert ins of
        Inl e \<Rightarrow> (Inr (Rejected (Invalid e)), tbl)
      | Inr _ \<Rightarrow>
        (case parse_tariff_override_payload E (in_tariff_family ins) (in_payload ins) of
           Inl e \<Rightarrow> (Inr (Rejected (Invalid e)), tbl)
         | Inr payload \<Rightarrow>
           (let canonical = to_canonical_value E payload;
                digest = tariff_override_payload_value_digest E canonical
            in if 2 < in_version ins
                  \<and> in_effective_from ins < created_ts - TARIFF_OVERRIDE_CLOCK_SKEW_GRACE_SECS
               then (Inr (Rejected (Invalid EffectiveTooEarly)), tbl)
               else if \<not> in_i32 (in_version ins) then (Inl VersionOverflow, tbl)
               else
                 (case List.find (\<lambda>r. ov_tariff_family r = in_tariff_family ins
                         \<and> ov_version r = in_version ins) tbl of
                    Some row \<Rightarrow>
                      (case tariff_override_from_row E row of
                         Inl e \<Rightarrow> (Inl e, tbl)
                       | Inr existing \<Rightarrow>
                           if ov_payload_digest existing = digest
                              \<and> ov_effective_from existing = in_effective_from ins
                           then (Inr (Unchanged existing), tbl)
                           else (Inr (Rejected (Conflict (ov_payload_digest existing)
                             (ov_effective_from existing))), tbl))
                  | None \<Rightarrow>
                      (let expected =
                             (case family_head tbl (in_tariff_family ins) of None \<Rightarrow> 1 | Some v \<Rightarrow> v) + 1;
                           row = \<lparr>ov_tariff_family = in_tariff_family ins,
                             ov_version = in_version ins, ov_effective_from = in_effective_from ins,
                             ov_payload = canonical, ov_payload_digest = digest,
                             ov_created_ts = created_ts, ov_created_by = in_created_by ins,
                             ov_reason = in_reason ins\<rparr>
                       in if in_version ins \<noteq> expected
                          then (Inr (Rejected (SequenceViolation expected)), tbl)
                          else (case insert_row tbl row of
                                  Inl rejection \<Rightarrow> (Inr (Rejected rejection), tbl)
                                | Inr tbl' \<Rightarrow> (Inr (Inserted row), tbl')))))))"

end
