(* ===== verification/Tariff_Authority.thy ===== *)
theory Tariff_Authority
  imports Tariff_Store
begin

text \<open>
  What the override table guarantees to its readers: every family is a gapless sequence of versions
  from 2 on, rows are only appended, every stored row passes the verification of a read and parses
  under the schema of its family, and a publication cannot reprice the past of a family that has
  already been overridden.
\<close>

section \<open>Payloads\<close>

text \<open>The schema a family prices under; the prefixes are tried in the order of the source.\<close>

datatype family_schema =
    KAnthropic | KGemini | KCodex | KCodexCredits | KGlmCredits | KGlm | KKimi | KOpenAiImage

fun payload_kind :: "tariff_override_payload \<Rightarrow> family_schema" where
  "payload_kind (PAnthropic _) = KAnthropic"
| "payload_kind (PGemini _) = KGemini"
| "payload_kind (PCodex _) = KCodex"
| "payload_kind (PCodexCredits _) = KCodexCredits"
| "payload_kind (PGlmCredits _) = KGlmCredits"
| "payload_kind (PGlm _) = KGlm"
| "payload_kind (PKimi _) = KKimi"
| "payload_kind (POpenAiImage _) = KOpenAiImage"

fun parse_as :: "'v tariff_env \<Rightarrow> string \<Rightarrow> 'v \<Rightarrow> family_schema
    \<Rightarrow> tariff_invalid + tariff_override_payload" where
  "parse_as E family payload KAnthropic =
        bind_res (require_family_segment family ''anthropic/'') (\<lambda>_.
        bind_res (ok_or PayloadSchema (dec_anthropic E payload)) (\<lambda>parsed.
        bind_res (anthropic_tariff_validate parsed) (\<lambda>_. Inr (PAnthropic parsed))))"
| "parse_as E family payload KGemini =
        bind_res (require_family_segment family ''google/gemini/'') (\<lambda>_.
        bind_res (ok_or PayloadSchema (dec_gemini E payload)) (\<lambda>parsed.
        bind_res (gemini_tariff_validate parsed) (\<lambda>_.
          if search_nano (tg_search parsed) < 0 then Inl NegativeSearchBilling
          else Inr (PGemini parsed))))"
| "parse_as E family payload KCodex =
        bind_res (require_family_segment family ''openai/codex/'') (\<lambda>_.
        bind_res (ok_or PayloadSchema (dec_codex E payload)) (\<lambda>parsed.
        bind_res (codex_tariff_validate parsed) (\<lambda>_.
          if tx_api_fast_multiplier_basis_points parsed < 0 \<or> tx_long_input_basis_points parsed < 0
             \<or> tx_long_output_basis_points parsed < 0
          then Inl NegativeMultipliers else Inr (PCodex parsed))))"
| "parse_as E family payload KCodexCredits =
        bind_res (ok_or PayloadSchema (dec_codex_credits E payload)) (\<lambda>parsed.
        bind_res (codex_credit_validate parsed) (\<lambda>_. Inr (PCodexCredits parsed)))"
| "parse_as E family payload KGlmCredits =
        bind_res (require_family_segment family ''zhipu/glm-credits/'') (\<lambda>_.
        bind_res (ok_or PayloadSchema (dec_glm_credits E payload)) (\<lambda>parsed.
        bind_res (glm_credit_validate parsed) (\<lambda>_. Inr (PGlmCredits parsed))))"
| "parse_as E family payload KGlm =
        bind_res (require_family_segment family ''zhipu/glm/'') (\<lambda>_.
        bind_res (ok_or PayloadSchema (dec_glm E payload)) (\<lambda>parsed.
        bind_res (glm_tariff_validate parsed) (\<lambda>_. Inr (PGlm parsed))))"
| "parse_as E family payload KKimi =
        bind_res (require_family_segment family ''moonshot/kimi/'') (\<lambda>_.
        bind_res (ok_or PayloadSchema (dec_kimi E payload)) (\<lambda>parsed.
        bind_res (kimi_tariff_validate parsed) (\<lambda>_. Inr (PKimi parsed))))"
| "parse_as E family payload KOpenAiImage =
        bind_res (ok_or PayloadSchema (dec_openai_image E payload)) (\<lambda>parsed.
        bind_res (openai_image_tariff_validate parsed) (\<lambda>_. Inr (POpenAiImage parsed)))"

definition family_kind :: "string \<Rightarrow> family_schema option" where
  "family_kind family =
     (if strip_prefix family ''anthropic/'' \<noteq> None then Some KAnthropic
      else if strip_prefix family ''google/gemini/'' \<noteq> None then Some KGemini
      else if strip_prefix family ''openai/codex/'' \<noteq> None then Some KCodex
      else if family = ''chatgpt/codex-credits''
          \<or> strip_prefix family ''chatgpt/codex-credits/'' \<noteq> None then Some KCodexCredits
      else if strip_prefix family ''zhipu/glm-credits/'' \<noteq> None then Some KGlmCredits
      else if strip_prefix family ''zhipu/glm/'' \<noteq> None then Some KGlm
      else if strip_prefix family ''moonshot/kimi/'' \<noteq> None then Some KKimi
      else if family = ''openai/gpt-image-2'' then Some KOpenAiImage
      else None)"

lemma parse_by_kind:
  "parse_tariff_override_payload E family payload =
     (if \<not> is_object E payload then Inl PayloadNotObject
      else case family_kind family of None \<Rightarrow> Inl UnknownFamilySchema
        | Some k \<Rightarrow> parse_as E family payload k)"
  unfolding parse_tariff_override_payload_def family_kind_def
  by (simp only: if_distrib [where f = "case_option _ _"] option.case parse_as.simps cong: if_cong)

lemma is_object_canonical: "codec_ok E \<Longrightarrow> is_object E (to_canonical_value E p)"
  by (cases p) (simp_all add: codec_ok_def)

lemma codec_decodes:
  assumes "codec_ok E"
  shows "dec_anthropic E (enc_anthropic E a) = Some a" "dec_gemini E (enc_gemini E b) = Some b"
    "dec_codex E (enc_codex E c) = Some c" "dec_codex_credits E (enc_codex_credits E d) = Some d"
    "dec_glm_credits E (enc_glm_credits E e) = Some e" "dec_glm E (enc_glm E f) = Some f"
    "dec_kimi E (enc_kimi E g) = Some g" "dec_openai_image E (enc_openai_image E h) = Some h"
  using assms by (simp_all only: codec_ok_def)

lemma parse_as_canonical:
  assumes "codec_ok E" "parse_as E f v k = Inr p"
  shows "parse_as E f (to_canonical_value E p) k = Inr p \<and> payload_kind p = k"
  using assms(2) codec_decodes [OF assms(1)] by (cases k) (auto split: if_splits)

text \<open>The canonical projection of an accepted payload is accepted again, as the same payload.\<close>

lemma parse_canonical:
  assumes "codec_ok E" "parse_tariff_override_payload E f v = Inr p"
  shows "parse_tariff_override_payload E f (to_canonical_value E p) = Inr p"
  using assms parse_as_canonical [of E f v _ p] is_object_canonical [of E p]
  by (auto simp: parse_by_kind split: if_splits option.splits)

lemma parse_kind:
  assumes "codec_ok E" "parse_tariff_override_payload E f v = Inr p"
  shows "family_kind f = Some (payload_kind p)"
  using assms parse_as_canonical [of E f v _ p]
  by (auto simp: parse_by_kind split: if_splits option.splits)

section \<open>One insert\<close>

definition next_version :: "'v tariff_override list \<Rightarrow> string \<Rightarrow> i64" where
  "next_version tbl family = (case family_head tbl family of None \<Rightarrow> 1 | Some v \<Rightarrow> v) + 1"

definition published :: "'v tariff_env \<Rightarrow> i64 \<Rightarrow> 'v tariff_override list \<Rightarrow> 'v tariff_override \<Rightarrow> bool" where
  "published E now tbl row \<longleftrightarrow>
     (\<exists>v p. parse_tariff_override_payload E (ov_tariff_family row) v = Inr p
       \<and> ov_payload row = to_canonical_value E p)
     \<and> ov_payload_digest row = tariff_override_payload_value_digest E (ov_payload row)
     \<and> ov_created_ts row = now
     \<and> (2 < ov_version row \<longrightarrow> now - 60 \<le> ov_effective_from row)
     \<and> ov_version row = next_version tbl (ov_tariff_family row)"

lemma insert_outcomes:
  "snd (postgres_insert_tariff_override E now tbl ins) = tbl
   \<or> (\<exists>row. snd (postgres_insert_tariff_override E now tbl ins) = tbl @ [row] \<and> published E now tbl row)"
  unfolding postgres_insert_tariff_override_def published_def insert_row_def next_version_def
  by (auto simp: Let_def TARIFF_OVERRIDE_CLOCK_SKEW_GRACE_SECS_def
      split: sum.splits option.splits if_splits)

section \<open>The table as a sequence per family\<close>

definition family_rows :: "'v tariff_override list \<Rightarrow> string \<Rightarrow> 'v tariff_override list" where
  "family_rows tbl family = filter (\<lambda>r. ov_tariff_family r = family) tbl"

definition sound_row :: "'v tariff_env \<Rightarrow> 'v tariff_override \<Rightarrow> bool" where
  "sound_row E r \<longleftrightarrow> tariff_override_from_row E r = Inr r
     \<and> (\<exists>p. parse_tariff_override_payload E (ov_tariff_family r) (ov_payload r) = Inr p
         \<and> ov_payload r = to_canonical_value E p)
     \<and> (2 < ov_version r \<longrightarrow> ov_created_ts r - 60 \<le> ov_effective_from r)"

definition sequenced :: "'v tariff_env \<Rightarrow> 'v tariff_override list \<Rightarrow> bool" where
  "sequenced E tbl \<longleftrightarrow> (\<forall>r\<in>set tbl. sound_row E r)
     \<and> (\<forall>f. map ov_version (family_rows tbl f) = map (\<lambda>k. int k + 2) [0..<length (family_rows tbl f)])"

lemma sequenced_Nil: "sequenced E []"
  by (simp add: sequenced_def family_rows_def)

lemma foldl_max_Max: "foldl max (a :: int) xs = Max (set (a # xs))"
  unfolding Max.set_eq_fold foldl_conv_fold by (simp add: max.commute)

lemma Max_shifted_upt: "0 < n \<Longrightarrow> Max ((\<lambda>k. int k + 2) ` {0..<n}) = int n + 1"
  by (intro Max_eqI) (auto intro!: image_eqI [where x = "n - 1"])

lemma next_version_sequenced:
  assumes "sequenced E tbl"
  shows "next_version tbl f = int (length (family_rows tbl f)) + 2"
proof (cases "family_rows tbl f = []")
  case True
  thus ?thesis by (simp add: next_version_def family_head_def family_rows_def Let_def)
next
  case False
  let ?vs = "map ov_version (family_rows tbl f)" and ?n = "length (family_rows tbl f)"
  have vs: "?vs = map (\<lambda>k. int k + 2) [0..<?n]" using assms by (simp add: sequenced_def)
  have "foldl max (hd ?vs) (tl ?vs) = Max (set (hd ?vs # tl ?vs))" by (rule foldl_max_Max)
  also have "\<dots> = Max (set ?vs)" using False by (metis list.collapse map_is_Nil_conv)
  also have "\<dots> = Max ((\<lambda>k. int k + 2) ` {0..<?n})" by (subst vs) simp
  also have "\<dots> = int ?n + 1" using False by (intro Max_shifted_upt) simp
  finally have "family_head tbl f = Some (int ?n + 1)"
    using False unfolding family_head_def family_rows_def [symmetric] Let_def by simp
  thus ?thesis by (simp add: next_version_def)
qed

lemma family_rows_snoc:
  "family_rows (tbl @ [r]) f = family_rows tbl f @ (if ov_tariff_family r = f then [r] else [])"
  by (simp add: family_rows_def)

lemma published_sound:
  "codec_ok E \<Longrightarrow> published E now tbl row \<Longrightarrow> sound_row E row"
  using parse_canonical by (fastforce simp: published_def sound_row_def tariff_override_from_row_def)

lemma sequenced_insert:
  assumes "codec_ok E" "sequenced E tbl"
  shows "sequenced E (snd (postgres_insert_tariff_override E now tbl ins))"
  using insert_outcomes [of E now tbl ins]
proof (elim disjE exE conjE)
  fix row assume r: "snd (postgres_insert_tariff_override E now tbl ins) = tbl @ [row]"
    "published E now tbl row"
  have "ov_version row = int (length (family_rows tbl (ov_tariff_family row))) + 2"
    using r(2) next_version_sequenced [OF assms(2)] by (simp add: published_def)
  thus ?thesis
    using assms(2) published_sound [OF assms(1) r(2)]
    unfolding r(1) sequenced_def by (auto simp: family_rows_snoc)
qed (use assms in simp)

section \<open>Every history of publications\<close>

text \<open>A publication is an insert at the writer's clock; the outcome is the operator's, the table is
  what stays.\<close>

definition publish :: "'v tariff_env \<Rightarrow> i64 \<times> 'v tariff_override_insert
    \<Rightarrow> 'v tariff_override list \<Rightarrow> 'v tariff_override list" where
  "publish E c tbl = snd (postgres_insert_tariff_override E (fst c) tbl (snd c))"

interpretation publications: command_system "publish E" "\<lambda>tbl. codec_ok E \<longrightarrow> sequenced E tbl" "[]" for E
  by unfold_locales (simp_all add: sequenced_Nil publish_def sequenced_insert)

lemma publish_appends: "\<exists>rows. publish E c tbl = tbl @ rows"
  using insert_outcomes [of E "fst c" tbl "snd c"] by (auto simp: publish_def)

lemma publications_append: "\<exists>rows. fold (publish E) cs tbl = tbl @ rows"
proof (induction cs arbitrary: tbl)
  case (Cons c cs)
  obtain rows where "publish E c tbl = tbl @ rows" using publish_appends by blast
  thus ?case using Cons.IH [of "tbl @ rows"] by auto
qed simp

text \<open>Versions grow along a family, so the override in force is the last effective row.\<close>

lemma max_version_row_snoc:
  "\<forall>r\<in>set rows. ov_version r \<le> ov_version x \<Longrightarrow> max_version_row (rows @ [x]) = Some x"
proof -
  assume le: "\<forall>r\<in>set rows. ov_version r \<le> ov_version x"
  have "case max_version_row rows of None \<Rightarrow> True | Some b \<Rightarrow> b \<in> set rows"
    unfolding max_version_row_def by (induction rows rule: rev_induct) (auto split: option.splits)
  thus ?thesis using le by (auto simp: max_version_row_def split: option.splits)
qed

lemma max_version_row_sorted:
  assumes "sorted (map ov_version rows)"
  shows "max_version_row rows = (if rows = [] then None else Some (last rows))"
proof (cases rows rule: rev_cases)
  case (snoc ys y)
  thus ?thesis using assms max_version_row_snoc [of ys y] by (auto simp: sorted_append)
qed (simp add: max_version_row_def)

lemma sequenced_sorted: "sequenced E tbl \<Longrightarrow> sorted (map ov_version (family_rows tbl f))"
  by (simp add: sequenced_def sorted_iff_nth_mono)

lemma resolve_family:
  "resolve_tariff_override tbl f ts =
     max_version_row (filter (\<lambda>r. ov_effective_from r \<le> ts) (family_rows tbl f))"
  by (simp add: resolve_tariff_override_def family_rows_def conj_commute)

lemma published_version_above_two:
  assumes "sequenced E tbl" "family_rows tbl (ov_tariff_family row) \<noteq> []" "published E now tbl row"
  shows "now - 60 \<le> ov_effective_from row"
proof -
  have "2 < ov_version row"
    using assms next_version_sequenced [OF assms(1), of "ov_tariff_family row"]
    by (simp add: published_def)
  thus ?thesis using assms(3) by (simp add: published_def)
qed

lemma resolve_publish:
  assumes "sequenced E tbl" "family_rows tbl f \<noteq> []" "ts < now - 60"
  shows "resolve_tariff_override (publish E (now, ins) tbl) f ts = resolve_tariff_override tbl f ts"
  using insert_outcomes [of E now tbl ins] published_version_above_two [OF assms(1), of _ now] assms(2,3)
  by (fastforce simp: publish_def resolve_family family_rows_snoc)

text \<open>An override in force is kept by every later publication, at the instants that lie more than the
  clock-skew grace before it.\<close>

definition settled :: "'v tariff_env \<Rightarrow> string \<Rightarrow> i64 \<Rightarrow> 'v tariff_override option
    \<Rightarrow> 'v tariff_override list \<Rightarrow> bool" where
  "settled E f ts r tbl \<longleftrightarrow> codec_ok E \<and> sequenced E tbl \<and> family_rows tbl f \<noteq> []
     \<and> resolve_tariff_override tbl f ts = r"

interpretation late_publications: guarded_system "publish E" "\<lambda>c. ts < fst c - 60" "settled E f ts r" for E f ts r
proof
  fix c :: "i64 \<times> 'a tariff_override_insert" and tbl
  assume late: "ts < fst c - 60" and inv: "settled E f ts r tbl"
  have "family_rows (publish E c tbl) f \<noteq> []"
    using publish_appends [of E c tbl] inv by (auto simp: settled_def family_rows_def)
  thus "settled E f ts r (publish E c tbl)"
    using inv late resolve_publish [of E tbl f ts "fst c" "snd c"] publications.inv_exec [of E tbl c]
    by (simp add: settled_def)
qed

section \<open>An example table\<close>

text \<open>The codecs over the payloads themselves as values, for concrete tables.\<close>

definition payload_env :: "tariff_override_payload tariff_env" where
  "payload_env = \<lparr>is_object = (\<lambda>_. True),
     dec_anthropic = (\<lambda>v. case v of PAnthropic p \<Rightarrow> Some p | _ \<Rightarrow> None),
     dec_gemini = (\<lambda>v. case v of PGemini p \<Rightarrow> Some p | _ \<Rightarrow> None),
     dec_codex = (\<lambda>v. case v of PCodex p \<Rightarrow> Some p | _ \<Rightarrow> None),
     dec_codex_credits = (\<lambda>v. case v of PCodexCredits p \<Rightarrow> Some p | _ \<Rightarrow> None),
     dec_glm = (\<lambda>v. case v of PGlm p \<Rightarrow> Some p | _ \<Rightarrow> None),
     dec_glm_credits = (\<lambda>v. case v of PGlmCredits p \<Rightarrow> Some p | _ \<Rightarrow> None),
     dec_kimi = (\<lambda>v. case v of PKimi p \<Rightarrow> Some p | _ \<Rightarrow> None),
     dec_openai_image = (\<lambda>v. case v of POpenAiImage p \<Rightarrow> Some p | _ \<Rightarrow> None),
     enc_anthropic = PAnthropic, enc_gemini = PGemini, enc_codex = PCodex,
     enc_codex_credits = PCodexCredits, enc_glm = PGlm, enc_glm_credits = PGlmCredits,
     enc_kimi = PKimi, enc_openai_image = POpenAiImage,
     value_text = (\<lambda>v. ''{}''), sha256_hex = (\<lambda>_. replicate 64 CHR ''0'')\<rparr>"

lemma payload_env_codec: "codec_ok payload_env"
  by (simp add: codec_ok_def payload_env_def)

definition example_payload :: "i128 \<Rightarrow> tariff_override_payload" where
  "example_payload price =
     PKimi \<lparr>tk_cached_input = price, tk_input = price, tk_cache_write = price, tk_output = price\<rparr>"

definition example_request :: "i64 \<Rightarrow> i64 \<Rightarrow> i128 \<Rightarrow> tariff_override_payload tariff_override_insert" where
  "example_request version effective price =
     \<lparr>in_tariff_family = ''moonshot/kimi/k3'', in_version = version, in_effective_from = effective,
      in_payload = example_payload price, in_created_by = ''op'', in_reason = ''price''\<rparr>"

definition example_row :: "i64 \<Rightarrow> i64 \<Rightarrow> i64 \<Rightarrow> i128 \<Rightarrow> tariff_override_payload tariff_override" where
  "example_row now version effective price =
     \<lparr>ov_tariff_family = ''moonshot/kimi/k3'', ov_version = version, ov_effective_from = effective,
      ov_payload = example_payload price,
      ov_payload_digest = ''sha256:v2:'' @ replicate 64 CHR ''0'',
      ov_created_ts = now, ov_created_by = ''op'', ov_reason = ''price''\<rparr>"

text \<open>A first override, a refused gap, a second override, and a late conflicting one.\<close>

definition example_requests :: "(i64 \<times> tariff_override_payload tariff_override_insert) list" where
  "example_requests = [(100, example_request 2 100 5), (110, example_request 4 120 7),
     (200, example_request 3 150 6), (210, example_request 3 170 6)]"

definition example_rows :: "tariff_override_payload tariff_override list" where
  "example_rows = [example_row 100 2 100 5, example_row 200 3 150 6]"

lemma example_family_ok: "validate_tariff_family ''moonshot/kimi/k3'' = Inr ()"
  by (simp add: validate_tariff_family_def family_byte_def is_ascii_lowercase_def is_ascii_digit_def)

lemma example_ids: "require_id e ''op'' = Inr ()" "require_id e ''price'' = Inr ()"
  by (simp_all add: require_id_def trim_printable printable_def)

lemma example_parse:
  "0 \<le> price \<Longrightarrow> parse_tariff_override_payload payload_env ''moonshot/kimi/k3'' (example_payload price)
    = Inr (example_payload price)"
  by (simp add: parse_by_kind family_kind_def strip_prefix_def starts_with_def payload_env_def
      example_payload_def require_family_segment_def kimi_tariff_validate_def require_non_negative_def)

lemma example_digest:
  "tariff_override_payload_value_digest payload_env v = ''sha256:v2:'' @ replicate 64 CHR ''0''"
  by (simp add: tariff_override_payload_value_digest_def payload_env_def)

lemma example_canonical: "to_canonical_value payload_env (example_payload price) = example_payload price"
  by (simp add: example_payload_def payload_env_def)

lemma example_row_checks:
  "2 \<le> version \<Longrightarrow> 0 \<le> effective \<Longrightarrow> 0 \<le> now \<Longrightarrow> row_checks (example_row now version effective price)"
  by (simp add: row_checks_def example_row_def example_family_ok starts_with_def hex_char_def
      is_ascii_digit_def list_all_iff)

lemma example_publish:
  assumes "0 \<le> price" "2 \<le> version" "0 \<le> effective" "0 \<le> now" "version < 100"
  shows "publish payload_env (now, example_request version effective price) tbl =
    (if 2 < version \<and> effective < now - 60 then tbl
     else if version = next_version tbl ''moonshot/kimi/k3''
       \<and> List.find (\<lambda>r. ov_tariff_family r = ''moonshot/kimi/k3'' \<and> ov_version r = version) tbl = None
     then tbl @ [example_row now version effective price] else tbl)"
  using assms example_row_checks [of version effective now price]
  unfolding publish_def postgres_insert_tariff_override_def example_request_def example_row_def
    next_version_def insert_row_def validate_tariff_override_insert_def
  by (auto simp: example_family_ok example_ids example_parse example_digest example_canonical in_i32_def
      TARIFF_OVERRIDE_CLOCK_SKEW_GRACE_SECS_def Let_def split: option.splits sum.splits)

lemma example_table: "fold (publish payload_env) example_requests [] = example_rows"
  by (simp add: example_requests_def example_publish next_version_def family_head_def
      example_rows_def example_row_def)

text \<open>The determinism rule is tested before the lookup of an existing row, so the exact replay of a
  version above 2 is answered as invalid once the grace period has passed.\<close>

lemma late_replay_is_rejected:
  "postgres_insert_tariff_override payload_env 300 example_rows (example_request 3 150 6)
    = (Inr (Rejected (Invalid EffectiveTooEarly)), example_rows)"
  unfolding postgres_insert_tariff_override_def example_request_def validate_tariff_override_insert_def
  by (simp add: example_family_ok example_ids example_parse Let_def TARIFF_OVERRIDE_CLOCK_SKEW_GRACE_SECS_def)

section \<open>Properties\<close>

text \<open>C15: Whatever sequence of inserts reaches the override table, at whatever clocks, with whatever
  conflicting, malformed or out-of-order requests between them, the versions of a family are
  exactly 2, 3, 4 and so on in the order they were published: no gap, no duplicate and no reuse.\<close>

theorem override_versions_are_gapless:
  assumes "codec_ok E" "tbl = fold (publish E) requests []"
  shows "map ov_version (filter (\<lambda>r. ov_tariff_family r = family) tbl) =
    map (\<lambda>k. int k + 2) [0..<length (filter (\<lambda>r. ov_tariff_family r = family) tbl)]"
  using publications.inv_run [of E requests] assms by (simp add: sequenced_def family_rows_def)

theorem override_versions_are_gapless_witness:
  "codec_ok payload_env \<and>
   map ov_version (filter (\<lambda>r. ov_tariff_family r = ''moonshot/kimi/k3'')
     (fold (publish payload_env) example_requests [])) = [2, 3]"
  using override_versions_are_gapless [OF payload_env_codec refl, of "''moonshot/kimi/k3''" example_requests]
    payload_env_codec
  by (simp add: example_table example_rows_def example_row_def upt_rec)

text \<open>C12: Once a family has been overridden, its past cannot be repriced: after any later sequence of
  publications, an instant that lies more than the clock-skew grace of 60 seconds before all of
  them still resolves to the row it resolved to before.\<close>

theorem later_overrides_keep_the_past:
  assumes "codec_ok E" "tbl = fold (publish E) earlier []"
    and "filter (\<lambda>r. ov_tariff_family r = family) tbl \<noteq> []"
    and "list_all (\<lambda>c. priced_ts < fst c - TARIFF_OVERRIDE_CLOCK_SKEW_GRACE_SECS) later"
  shows "resolve_tariff_override (fold (publish E) later tbl) family priced_ts =
    resolve_tariff_override tbl family priced_ts"
  using late_publications.ok_fold [of priced_ts later E family "resolve_tariff_override tbl family priced_ts" tbl]
    publications.inv_run [of E earlier] assms
  by (simp add: settled_def family_rows_def TARIFF_OVERRIDE_CLOCK_SKEW_GRACE_SECS_def)

theorem later_overrides_keep_the_past_witness:
  "resolve_tariff_override (fold (publish payload_env) [(300, example_request 4 300 9)]
      (fold (publish payload_env) example_requests [])) ''moonshot/kimi/k3'' 149 =
   resolve_tariff_override (fold (publish payload_env) example_requests []) ''moonshot/kimi/k3'' 149"
  by (rule later_overrides_keep_the_past [OF payload_env_codec refl])
    (simp_all add: example_table example_rows_def example_row_def TARIFF_OVERRIDE_CLOCK_SKEW_GRACE_SECS_def)

end
