(* ===== verification/Tariff_Book.thy ===== *)
theory Tariff_Book
  imports Tariff_Authority
begin

text \<open>
  \<open>src/crates/forward/src/pricing/tariff_book.rs\<close>: the process-wide book of hot tariff overrides.
  A snapshot is one verified read of the override table with every payload parsed; the book holds
  the last good snapshot behind a kill switch; a reserve takes its base prices from the book and
  pins the version, and a settlement replays the pinned version.

  A read of the table and the swap that installs it are separate events, since other tasks run
  between them; the result of a read (\<open>AsyncBilling::list_tariff_overrides\<close>) is an argument, a
  failure included. The lock is never poisoned: its only writer assigns a value already built.
\<close>

section \<open>Snapshots\<close>

record 'v tariff_book_snapshot =
  sn_rows :: "'v tariff_override list"
  sn_payloads :: "string \<times> i64 \<rightharpoonup> tariff_override_payload"
  sn_fetched_at :: i64

record pinned_tariff =
  pt_family :: string
  pt_version :: i64
  pt_schedule_id :: string

definition snapshot_empty :: "'v tariff_book_snapshot" where
  "snapshot_empty = \<lparr>sn_rows = [], sn_payloads = Map.empty, sn_fetched_at = 0\<rparr>"

datatype book_error = TypedParsing string i64 tariff_invalid | StoreFailed

fun index_rows ::
    "'v tariff_env \<Rightarrow> (string \<times> i64 \<rightharpoonup> tariff_override_payload) \<Rightarrow> 'v tariff_override list
      \<Rightarrow> book_error + (string \<times> i64 \<rightharpoonup> tariff_override_payload)" where
  "index_rows E payloads [] = Inr payloads"
| "index_rows E payloads (row # rows) =
     (case parse_tariff_override_payload E (ov_tariff_family row) (ov_payload row) of
        Inl e \<Rightarrow> Inl (TypedParsing (ov_tariff_family row) (ov_version row) e)
      | Inr payload \<Rightarrow>
          index_rows E (payloads((ov_tariff_family row, ov_version row) \<mapsto> payload)) rows)"

definition from_rows ::
    "'v tariff_env \<Rightarrow> i64 \<Rightarrow> 'v tariff_override list \<Rightarrow> book_error + 'v tariff_book_snapshot" where
  "from_rows E now_unix rows =
     bind_res (index_rows E Map.empty rows) (\<lambda>payloads.
       Inr \<lparr>sn_rows = rows, sn_payloads = payloads, sn_fetched_at = now_unix\<rparr>)"

definition pinned_tariff_of :: "'v tariff_override \<Rightarrow> pinned_tariff" where
  "pinned_tariff_of row = \<lparr>pt_family = ov_tariff_family row, pt_version = ov_version row,
     pt_schedule_id = ov_tariff_family row @ ''/v'' @ int_to_string (ov_version row)\<rparr>"

definition snapshot_resolve ::
    "'v tariff_book_snapshot \<Rightarrow> string \<Rightarrow> i64 \<Rightarrow> (pinned_tariff \<times> tariff_override_payload) option" where
  "snapshot_resolve s family priced_ts =
     (case resolve_tariff_override (sn_rows s) family priced_ts of
        None \<Rightarrow> None
      | Some row \<Rightarrow>
          (case sn_payloads s (ov_tariff_family row, ov_version row) of
             None \<Rightarrow> None
           | Some payload \<Rightarrow> Some (pinned_tariff_of row, payload)))"

definition version_payload ::
    "'v tariff_book_snapshot \<Rightarrow> string \<Rightarrow> i64 \<Rightarrow> tariff_override_payload option" where
  "version_payload s family version = sn_payloads s (family, version)"

section \<open>The book\<close>

record 'v tariff_book =
  bk_enabled :: bool
  bk_current :: "'v tariff_book_snapshot"

definition tariff_book_new :: "bool \<Rightarrow> 'v tariff_book" where
  "tariff_book_new enabled = \<lparr>bk_enabled = enabled, bk_current = snapshot_empty\<rparr>"

definition install :: "bool \<Rightarrow> 'v tariff_book \<Rightarrow> 'v tariff_book" where
  "install enabled b = b\<lparr>bk_enabled := enabled\<rparr>"

definition book_snapshot :: "'v tariff_book \<Rightarrow> 'v tariff_book_snapshot" where
  "book_snapshot b = (if \<not> bk_enabled b then snapshot_empty else bk_current b)"

definition swap_rows ::
    "'v tariff_env \<Rightarrow> i64 \<Rightarrow> 'v tariff_override list \<Rightarrow> 'v tariff_book
      \<Rightarrow> (book_error + unit) \<times> 'v tariff_book" where
  "swap_rows E now_unix rows b =
     (case from_rows E now_unix rows of
        Inl e \<Rightarrow> (Inl e, b)
      | Inr snapshot \<Rightarrow> (Inr (), b\<lparr>bk_current := snapshot\<rparr>))"

text \<open>\<open>listed\<close> is the result of \<open>list_tariff_overrides\<close>.\<close>

definition refresh_once ::
    "'v tariff_env \<Rightarrow> i64 \<Rightarrow> tariff_store_error + 'v tariff_override list \<Rightarrow> 'v tariff_book
      \<Rightarrow> (book_error + unit) \<times> 'v tariff_book" where
  "refresh_once E now_unix listed b =
     (case listed of Inl _ \<Rightarrow> (Inl StoreFailed, b) | Inr rows \<Rightarrow> swap_rows E now_unix rows b)"

text \<open>The retry of an asynchronous settlement. It takes the lock of the book three times: for the first
  lookup, for the installation of its read and for the second lookup. \<open>fetched\<close> is what its own
  read returns if it makes one, \<open>awaited\<close> what other tasks do to the book before that read is
  installed, and \<open>installed\<close> what they do between the installation and the second lookup.\<close>

definition book_version_payload_refreshed ::
    "'v tariff_env \<Rightarrow> i64 \<Rightarrow> tariff_store_error + 'v tariff_override list
      \<Rightarrow> ('v tariff_book \<Rightarrow> 'v tariff_book) \<Rightarrow> ('v tariff_book \<Rightarrow> 'v tariff_book) \<Rightarrow> string \<Rightarrow> i64
      \<Rightarrow> 'v tariff_book \<Rightarrow> tariff_override_payload option \<times> 'v tariff_book" where
  "book_version_payload_refreshed E now_unix fetched awaited installed family version b =
     (case version_payload (book_snapshot b) family version of
        Some payload \<Rightarrow> (Some payload, b)
      | None \<Rightarrow>
          (let b1 = awaited b
           in case fetched of
                Inl _ \<Rightarrow> (None, b1)
              | Inr rows \<Rightarrow>
                  (case swap_rows E now_unix rows b1 of
                     (Inl _, b2) \<Rightarrow> (None, b2)
                   | (Inr _, b2) \<Rightarrow>
                       (let b3 = installed b2
                        in (version_payload (book_snapshot b3) family version, b3)))))"

definition version_payload_refreshed ::
    "'v tariff_env \<Rightarrow> i64 \<Rightarrow> tariff_store_error + 'v tariff_override list
      \<Rightarrow> ('v tariff_book \<Rightarrow> 'v tariff_book) \<Rightarrow> ('v tariff_book \<Rightarrow> 'v tariff_book) \<Rightarrow> string \<Rightarrow> i64
      \<Rightarrow> 'v tariff_book \<Rightarrow> tariff_override_payload option \<times> 'v tariff_book" where
  "version_payload_refreshed E now_unix fetched awaited installed family version b =
     (if \<not> bk_enabled b then (None, b)
      else book_version_payload_refreshed E now_unix fetched awaited installed family version b)"

text \<open>One round of \<open>refresher_loop\<close>: the \<open>failing\<close> flag only drives the log lines.\<close>

definition refresher_round ::
    "'v tariff_env \<Rightarrow> i64 \<Rightarrow> tariff_store_error + 'v tariff_override list \<Rightarrow> bool \<times> 'v tariff_book
      \<Rightarrow> bool \<times> 'v tariff_book" where
  "refresher_round E now_unix listed st =
     (case refresh_once E now_unix listed (snd st) of
        (Inr _, b) \<Rightarrow> (False, b)
      | (Inl _, b) \<Rightarrow> (True, b))"

section \<open>Reserve and charge decisions\<close>

record 'p reserve_base_t =
  rb_prices :: 'p
  rb_pin :: "pinned_tariff option"

definition reserve_base ::
    "'v tariff_book_snapshot \<Rightarrow> string \<Rightarrow> i64 \<Rightarrow> 'p \<Rightarrow> (tariff_override_payload \<Rightarrow> 'p option)
      \<Rightarrow> 'p reserve_base_t" where
  "reserve_base book family priced_ts compiled convert =
     (case snapshot_resolve book family priced_ts of
        Some (pin, payload) \<Rightarrow>
          (case convert payload of
             Some prices \<Rightarrow> \<lparr>rb_prices = prices, rb_pin = Some pin\<rparr>
           | None \<Rightarrow> \<lparr>rb_prices = compiled, rb_pin = None\<rparr>)
      | None \<Rightarrow> \<lparr>rb_prices = compiled, rb_pin = None\<rparr>)"

datatype 'p charge_base_t = Compiled 'p | Override 'p string | MissingPinned

definition charge_base ::
    "'v tariff_book_snapshot \<Rightarrow> pinned_tariff option \<Rightarrow> string option \<Rightarrow> i64 \<Rightarrow> 'p
      \<Rightarrow> (tariff_override_payload \<Rightarrow> 'p option) \<Rightarrow> 'p charge_base_t" where
  "charge_base book pinned served_family priced_ts compiled convert =
     (case served_family of
        None \<Rightarrow> Compiled compiled
      | Some family \<Rightarrow>
          (case (case pinned of Some pin \<Rightarrow> if pt_family pin = family then Some pin else None
                 | None \<Rightarrow> None) of
             Some pin \<Rightarrow>
               (case version_payload book (pt_family pin) (pt_version pin) of
                  Some payload \<Rightarrow>
                    (case convert payload of
                       Some prices \<Rightarrow> Override prices (pt_schedule_id pin)
                     | None \<Rightarrow> MissingPinned)
                | None \<Rightarrow> MissingPinned)
           | None \<Rightarrow>
               (case snapshot_resolve book family priced_ts of
                  Some (pin, payload) \<Rightarrow>
                    (case convert payload of
                       Some prices \<Rightarrow> Override prices (pt_schedule_id pin)
                     | None \<Rightarrow> Compiled compiled)
                | None \<Rightarrow> Compiled compiled)))"

section \<open>Reads of a sound table\<close>

lemma collect_res_id: "\<forall>x\<in>set xs. f x = Inr x \<Longrightarrow> collect_res f xs = Inr xs"
  by (induction xs) simp_all

lemma list_sequenced:
  assumes "sequenced E tbl"
  shows "postgres_list_tariff_overrides E collate tbl
    = Inr (sort_key (\<lambda>r. collate (ov_tariff_family r)) (sort_key ov_version tbl))"
  unfolding postgres_list_tariff_overrides_def using assms
  by (intro collect_res_id) (simp add: sequenced_def sound_row_def)

lemma sort_key_const: "\<forall>x\<in>set xs. k x = c \<Longrightarrow> sort_key k xs = xs"
  by (intro sort_key_id_if_sorted) (simp add: sorted_iff_nth_mono)

lemma listing_family_rows:
  assumes "sequenced E tbl"
  shows "family_rows (sort_key (\<lambda>r. collate (ov_tariff_family r)) (sort_key ov_version tbl)) f
    = family_rows tbl f"
proof -
  have "family_rows (sort_key ov_version tbl) f = family_rows tbl f"
    using sequenced_sorted [OF assms] by (simp add: family_rows_def filter_sort sort_key_id_if_sorted)
  then show ?thesis
    by (simp add: family_rows_def filter_sort sort_key_const [where c = "collate f"])
qed

text \<open>The payload index holds, under the key of a row, the parse of a row with that key.\<close>

definition row_key :: "'v tariff_override \<Rightarrow> string \<times> i64" where
  "row_key r = (ov_tariff_family r, ov_version r)"

definition row_parses :: "'v tariff_env \<Rightarrow> 'v tariff_override \<Rightarrow> tariff_override_payload \<Rightarrow> bool" where
  "row_parses E r p \<longleftrightarrow> parse_tariff_override_payload E (ov_tariff_family r) (ov_payload r) = Inr p"

lemma index_rows_sound:
  assumes "index_rows E m rows = Inr m'" "m' k = Some p"
  shows "m k = Some p \<or> (\<exists>r\<in>set rows. row_key r = k \<and> row_parses E r p)"
  using assms
proof (induction rows arbitrary: m)
  case (Cons r rows)
  then obtain q where q: "row_parses E r q" "index_rows E (m(row_key r \<mapsto> q)) rows = Inr m'"
    by (auto simp: row_parses_def row_key_def split: sum.splits)
  show ?case using Cons.IH [OF q(2) Cons.prems(2)] q(1) by (auto split: if_splits)
qed simp

lemma index_rows_complete:
  assumes "\<forall>r\<in>set rows. \<exists>p. row_parses E r p"
  shows "\<exists>m'. index_rows E m rows = Inr m' \<and> row_key ` set rows \<union> dom m \<subseteq> dom m'"
  using assms
proof (induction rows arbitrary: m)
  case (Cons r rows)
  then obtain q where q: "parse_tariff_override_payload E (ov_tariff_family r) (ov_payload r) = Inr q"
    by (auto simp: row_parses_def)
  obtain m' where "index_rows E (m(row_key r \<mapsto> q)) rows = Inr m'"
    "row_key ` set rows \<union> dom (m(row_key r \<mapsto> q)) \<subseteq> dom m'"
    using Cons.IH [of "m(row_key r \<mapsto> q)"] Cons.prems by (meson list.set_intros(2))
  then show ?case using q by (intro exI [of _ m']) (simp add: row_key_def)
qed simp

lemma row_unique:
  assumes "sequenced E tbl" "r \<in> set tbl" "r' \<in> set tbl" "row_key r = row_key r'"
  shows "r = r'"
proof -
  let ?rows = "family_rows tbl (ov_tariff_family r)"
  have "distinct (map ov_version ?rows)"
    using assms(1) by (simp add: sequenced_def distinct_map inj_on_def)
  moreover have "r \<in> set ?rows" "r' \<in> set ?rows" "ov_version r = ov_version r'"
    using assms by (auto simp: family_rows_def row_key_def)
  ultimately show ?thesis by (auto simp: distinct_map dest: inj_onD)
qed

text \<open>A snapshot is sound for a table when its rows are rows of the table and its index holds
  parses of them; the table may have grown since.\<close>

definition snapshot_sound :: "'v tariff_env \<Rightarrow> 'v tariff_override list \<Rightarrow> 'v tariff_book_snapshot \<Rightarrow> bool" where
  "snapshot_sound E tbl s \<longleftrightarrow> set (sn_rows s) \<subseteq> set tbl
     \<and> (\<forall>k p. sn_payloads s k = Some p \<longrightarrow> (\<exists>r\<in>set tbl. row_key r = k \<and> row_parses E r p))"

lemma snapshot_entry:
  "snapshot_sound E tbl s \<Longrightarrow> sn_payloads s k = Some p \<Longrightarrow> \<exists>r\<in>set tbl. row_key r = k \<and> row_parses E r p"
  unfolding snapshot_sound_def by blast

lemma snapshot_entry_unique:
  assumes "sequenced E tbl" "snapshot_sound E tbl s" "r \<in> set tbl" "row_parses E r p"
    and "sn_payloads s (row_key r) = Some q"
  shows "q = p"
proof -
  obtain r' where "r' \<in> set tbl" "row_key r' = row_key r" "row_parses E r' q"
    using snapshot_entry [OF assms(2,5)] by blast
  then show ?thesis using row_unique [OF assms(1), of r' r] assms(3,4) by (simp add: row_parses_def)
qed

lemma snapshot_sound_empty: "snapshot_sound E tbl snapshot_empty"
  by (simp add: snapshot_sound_def snapshot_empty_def)

lemma snapshot_sound_mono: "snapshot_sound E tbl s \<Longrightarrow> set tbl \<subseteq> set tbl' \<Longrightarrow> snapshot_sound E tbl' s"
  unfolding snapshot_sound_def by blast

lemma from_rows_sound:
  assumes "from_rows E now rows = Inr s" "set rows \<subseteq> set tbl"
  shows "snapshot_sound E tbl s"
  using assms index_rows_sound [of E Map.empty rows "sn_payloads s"]
  by (fastforce simp: from_rows_def snapshot_sound_def)

lemma from_rows_complete:
  assumes "\<forall>r\<in>set rows. \<exists>p. row_parses E r p"
  shows "\<exists>s. from_rows E now rows = Inr s \<and> sn_rows s = rows
    \<and> row_key ` set rows \<subseteq> dom (sn_payloads s)"
  using index_rows_complete [OF assms, of Map.empty] by (auto simp: from_rows_def)

lemma max_version_row_mem: "max_version_row rows = Some r \<Longrightarrow> r \<in> set rows"
  unfolding max_version_row_def
  by (induction rows arbitrary: r rule: rev_induct) (auto split: option.splits if_splits)

lemma resolve_mem:
  "resolve_tariff_override rows f ts = Some r \<Longrightarrow> r \<in> set rows \<and> ov_tariff_family r = f"
  unfolding resolve_tariff_override_def by (auto dest: max_version_row_mem)

lemma snapshot_resolve_sound:
  assumes "snapshot_sound E tbl s" "snapshot_resolve s f ts = Some (pin, p)"
  shows "pt_family pin = f \<and> (\<exists>r\<in>set tbl. row_key r = (f, pt_version pin) \<and> row_parses E r p)"
proof -
  obtain r where "resolve_tariff_override (sn_rows s) f ts = Some r" "sn_payloads s (row_key r) = Some p"
    "pin = pinned_tariff_of r"
    using assms(2) by (auto simp: snapshot_resolve_def row_key_def split: option.splits)
  then show ?thesis using assms(1) resolve_mem [of "sn_rows s" f ts r]
    by (auto simp: snapshot_sound_def pinned_tariff_of_def row_key_def)
qed

lemma listing_snapshot:
  assumes "sequenced E tbl" "postgres_list_tariff_overrides E collate tbl = Inr rows"
  shows "\<exists>s. from_rows E now rows = Inr s \<and> set (sn_rows s) = set tbl \<and> snapshot_sound E tbl s
    \<and> row_key ` set tbl \<subseteq> dom (sn_payloads s) \<and> (\<forall>f. family_rows (sn_rows s) f = family_rows tbl f)"
proof -
  have rows: "rows = sort_key (\<lambda>r. collate (ov_tariff_family r)) (sort_key ov_version tbl)"
    using assms by (simp add: list_sequenced)
  then have set: "set rows = set tbl" by simp
  have "\<forall>r\<in>set rows. \<exists>p. row_parses E r p"
    using assms(1) set by (auto simp: sequenced_def sound_row_def row_parses_def)
  then obtain s where s: "from_rows E now rows = Inr s" "sn_rows s = rows"
    "row_key ` set rows \<subseteq> dom (sn_payloads s)"
    using from_rows_complete [of rows E now] by blast
  then show ?thesis
    using set from_rows_sound [OF s(1), of tbl] listing_family_rows [OF assms(1)] rows by auto
qed

text \<open>The index of a full read under the key of a row: the parse of that very row.\<close>

lemma indexed_row:
  assumes "sequenced E tbl" "snapshot_sound E tbl s" "row_key ` set tbl \<subseteq> dom (sn_payloads s)" "r \<in> set tbl"
  shows "\<exists>p. sn_payloads s (row_key r) = Some p \<and> row_parses E r p"
proof -
  obtain p where p: "sn_payloads s (row_key r) = Some p" using assms(3,4) by blast
  then obtain r' where "r' \<in> set tbl" "row_key r' = row_key r" "row_parses E r' p"
    using snapshot_entry [OF assms(2)] by blast
  then show ?thesis using p row_unique [OF assms(1), of r' r] assms(4) by auto
qed

lemma snapshot_resolve_table:
  assumes "sequenced E tbl" "snapshot_sound E tbl s" "row_key ` set tbl \<subseteq> dom (sn_payloads s)"
    and "\<forall>f. family_rows (sn_rows s) f = family_rows tbl f"
  shows "map_option (map_prod (\<lambda>pin. pin) (to_canonical_value E)) (snapshot_resolve s f ts) =
    map_option (\<lambda>r. (pinned_tariff_of r, ov_payload r)) (resolve_tariff_override tbl f ts)"
proof (cases "resolve_tariff_override tbl f ts")
  case None
  then show ?thesis using assms(4) by (simp add: snapshot_resolve_def resolve_family)
next
  case (Some r)
  then have r: "r \<in> set tbl" using resolve_mem by blast
  obtain p where p: "sn_payloads s (ov_tariff_family r, ov_version r) = Some p" "row_parses E r p"
    using indexed_row [OF assms(1-3) r] by (auto simp: row_key_def)
  have "sound_row E r" using assms(1) r by (simp add: sequenced_def)
  then have "ov_payload r = to_canonical_value E p" using p(2) by (auto simp: sound_row_def row_parses_def)
  moreover have "resolve_tariff_override (sn_rows s) f ts = Some r"
    using Some assms(4) by (simp add: resolve_family)
  ultimately show ?thesis using Some p(1) by (simp add: snapshot_resolve_def)
qed

section \<open>The book beside the table\<close>

text \<open>The processes around one table and one book: operators publish, the refresher and the
  settlements read the table, and every read is installed later, in any order, or fails.\<close>

record 'v pricing_world =
  pw_table :: "'v tariff_override list"
  pw_reads :: "(tariff_store_error + 'v tariff_override list) list"
  pw_book :: "'v tariff_book"

datatype 'v pricing_event =
    Publish i64 "'v tariff_override_insert"
  | ReadTable
  | ReadFails tariff_store_error
  | InstallRead i64 nat

fun pricing_step :: "'v tariff_env \<Rightarrow> (string \<Rightarrow> nat) \<Rightarrow> 'v pricing_event \<Rightarrow> 'v pricing_world \<Rightarrow> 'v pricing_world"
where
  "pricing_step E collate (Publish now ins) w = w\<lparr>pw_table := publish E (now, ins) (pw_table w)\<rparr>"
| "pricing_step E collate ReadTable w =
     w\<lparr>pw_reads := pw_reads w @ [postgres_list_tariff_overrides E collate (pw_table w)]\<rparr>"
| "pricing_step E collate (ReadFails e) w = w\<lparr>pw_reads := pw_reads w @ [Inl e]\<rparr>"
| "pricing_step E collate (InstallRead now i) w =
     (if i < length (pw_reads w)
      then w\<lparr>pw_book := snd (refresh_once E now (pw_reads w ! i) (pw_book w))\<rparr> else w)"

definition world_init :: "bool \<Rightarrow> 'v pricing_world" where
  "world_init enabled = \<lparr>pw_table = [], pw_reads = [], pw_book = tariff_book_new enabled\<rparr>"

definition read_sound :: "'v tariff_override list \<Rightarrow> tariff_store_error + 'v tariff_override list \<Rightarrow> bool" where
  "read_sound tbl listed \<longleftrightarrow> (case listed of Inl _ \<Rightarrow> True | Inr rows \<Rightarrow> set rows \<subseteq> set tbl)"

definition world_sound :: "'v tariff_env \<Rightarrow> bool \<Rightarrow> 'v pricing_world \<Rightarrow> bool" where
  "world_sound E enabled w \<longleftrightarrow> sequenced E (pw_table w)
     \<and> (\<forall>x\<in>set (pw_reads w). read_sound (pw_table w) x)
     \<and> snapshot_sound E (pw_table w) (bk_current (pw_book w)) \<and> bk_enabled (pw_book w) = enabled"

lemma read_sound_mono: "read_sound tbl x \<Longrightarrow> set tbl \<subseteq> set tbl' \<Longrightarrow> read_sound tbl' x"
  by (auto simp: read_sound_def split: sum.splits)

lemma swap_rows_sound:
  assumes "snapshot_sound E tbl (bk_current b)" "set rows \<subseteq> set tbl"
  shows "snapshot_sound E tbl (bk_current (snd (swap_rows E now rows b)))
    \<and> bk_enabled (snd (swap_rows E now rows b)) = bk_enabled b"
  using assms from_rows_sound [of E now rows _ tbl] by (auto simp: swap_rows_def split: sum.splits)

lemma refresh_once_sound:
  assumes "snapshot_sound E tbl (bk_current b)" "read_sound tbl x"
  shows "snapshot_sound E tbl (bk_current (snd (refresh_once E now x b)))
    \<and> bk_enabled (snd (refresh_once E now x b)) = bk_enabled b"
  using assms swap_rows_sound [of E tbl b] by (auto simp: refresh_once_def read_sound_def split: sum.splits)

lemma set_publish: "set tbl \<subseteq> set (publish E c tbl)"
  using publish_appends [of E c tbl] by auto

lemma world_sound_step:
  assumes "codec_ok E" "world_sound E enabled w"
  shows "world_sound E enabled (pricing_step E collate ev w)"
proof (cases ev)
  case (Publish now ins)
  then show ?thesis
    using assms set_publish [of "pw_table w" E "(now, ins)"] sequenced_insert [OF assms(1), of "pw_table w" now ins]
    by (auto simp: world_sound_def publish_def [of E "(now, ins)"] intro: read_sound_mono snapshot_sound_mono)
next
  case ReadTable
  then show ?thesis using assms by (auto simp: world_sound_def read_sound_def list_sequenced)
next
  case (ReadFails e)
  then show ?thesis using assms by (auto simp: world_sound_def read_sound_def)
next
  case (InstallRead now i)
  then show ?thesis
    using assms refresh_once_sound [of E "pw_table w" "pw_book w" "pw_reads w ! i" now]
    by (auto simp: world_sound_def)
qed

interpretation pricing: command_system "pricing_step E collate" "\<lambda>w. codec_ok E \<longrightarrow> world_sound E enabled w"
  "world_init enabled" for E collate enabled
  by unfold_locales
    (simp_all add: world_init_def world_sound_def sequenced_Nil tariff_book_new_def snapshot_sound_empty
      world_sound_step [unfolded world_sound_def])

lemma pricing_table_grows: "set (pw_table w) \<subseteq> set (pw_table (fold (pricing_step E collate) evs w))"
proof (induction evs arbitrary: w)
  case (Cons ev evs)
  have "set (pw_table w) \<subseteq> set (pw_table (pricing_step E collate ev w))"
    by (cases ev) (simp_all add: set_publish)
  then show ?case using Cons.IH [of "pricing_step E collate ev w"] by simp
qed simp

lemma charge_pinned:
  assumes "snapshot_sound E tbl s" "sequenced E tbl" "r \<in> set tbl" "row_parses E r p"
    and "row_key r = (pt_family pin, pt_version pin)" "convert p = Some prices"
  shows "charge_base s (Some pin) (Some (pt_family pin)) ts compiled convert
    \<in> {Override prices (pt_schedule_id pin), MissingPinned}"
proof (cases "version_payload s (pt_family pin) (pt_version pin)")
  case (Some q)
  then have "q = p"
    using snapshot_entry_unique [OF assms(2,1,3,4)] assms(5) by (simp add: version_payload_def)
  then show ?thesis using Some assms(6) by (simp add: charge_base_def)
qed (simp add: charge_base_def)

text \<open>What a reserve that pinned something relied on: a row of the table and its parse.\<close>

lemma reserve_pinned:
  assumes "snapshot_sound E tbl s"
    and "reserve_base s family ts compiled convert = \<lparr>rb_prices = prices, rb_pin = Some pin\<rparr>"
  obtains r p where "r \<in> set tbl" "row_parses E r p" "row_key r = (pt_family pin, pt_version pin)"
    "convert p = Some prices" "pt_family pin = family"
  using assms snapshot_resolve_sound [of E tbl s family ts pin]
  by (auto simp: reserve_base_def split: option.splits prod.splits)

lemma book_snapshot_sound: "world_sound E enabled w \<Longrightarrow> snapshot_sound E (pw_table w) (book_snapshot (pw_book w))"
  by (simp add: world_sound_def book_snapshot_def snapshot_sound_empty)

text \<open>A row outlives the reads that were taken before it: the reads from number \<open>n\<close> on that succeeded
  contain it, and the book loses it only by installing an earlier one.\<close>

definition fresh_reads :: "nat \<Rightarrow> 'v tariff_override \<Rightarrow> 'v pricing_world \<Rightarrow> bool" where
  "fresh_reads n r w \<longleftrightarrow> r \<in> set (pw_table w) \<and> n \<le> length (pw_reads w)
     \<and> (\<forall>i<length (pw_reads w). n \<le> i \<longrightarrow> (case pw_reads w ! i of Inl _ \<Rightarrow> True | Inr rows \<Rightarrow> r \<in> set rows))"

fun installs_before :: "nat \<Rightarrow> 'v pricing_event \<Rightarrow> bool" where
  "installs_before n (InstallRead now i) \<longleftrightarrow> i < n"
| "installs_before n _ \<longleftrightarrow> False"

lemma fresh_reads_step:
  assumes "world_sound E enabled w" "fresh_reads n r w"
  shows "fresh_reads n r (pricing_step E collate ev w)"
proof (cases ev)
  case (Publish now ins)
  then show ?thesis using assms(2) set_publish [of "pw_table w" E "(now, ins)"] by (auto simp: fresh_reads_def)
next
  case ReadTable
  obtain rows where "postgres_list_tariff_overrides E collate (pw_table w) = Inr rows" "set rows = set (pw_table w)"
    using assms(1) list_sequenced [of E "pw_table w"] by (simp add: world_sound_def)
  then show ?thesis using assms(2) ReadTable by (auto simp: fresh_reads_def nth_append less_Suc_eq)
next
  case (ReadFails e)
  then show ?thesis using assms(2) by (auto simp: fresh_reads_def nth_append less_Suc_eq)
next
  case (InstallRead now i)
  then show ?thesis using assms(2) by (simp add: fresh_reads_def)
qed

lemma swap_rows_keeps:
  assumes "sequenced E tbl" "set rows \<subseteq> set tbl" "r \<in> set rows"
  shows "fst (swap_rows E now rows b) = Inr ()
    \<and> row_key r \<in> dom (sn_payloads (bk_current (snd (swap_rows E now rows b))))"
proof -
  have "\<forall>r\<in>set rows. \<exists>p. row_parses E r p"
    using assms(1,2) by (auto simp: sequenced_def sound_row_def row_parses_def)
  from from_rows_complete [OF this, of now] show ?thesis using assms(3) by (auto simp: swap_rows_def)
qed

lemma row_kept_step:
  assumes "world_sound E enabled w" "fresh_reads n r w" "\<not> installs_before n ev"
    and "row_key r \<in> dom (sn_payloads (bk_current (pw_book w)))"
  shows "row_key r \<in> dom (sn_payloads (bk_current (pw_book (pricing_step E collate ev w))))"
proof (cases "\<exists>now i. ev = InstallRead now i \<and> i < length (pw_reads w)")
  case True
  then obtain now i where ev: "ev = InstallRead now i" "i < length (pw_reads w)" by blast
  show ?thesis
  proof (cases "pw_reads w ! i")
    case (Inl e)
    then show ?thesis using assms(4) ev by (simp add: refresh_once_def)
  next
    case (Inr rows)
    have "read_sound (pw_table w) (pw_reads w ! i)" using assms(1) ev(2) by (simp add: world_sound_def)
    then have "set rows \<subseteq> set (pw_table w)" using Inr by (simp add: read_sound_def)
    moreover have "r \<in> set rows" using assms(2,3) ev Inr by (auto simp: fresh_reads_def)
    ultimately show ?thesis
      using swap_rows_keeps [of E "pw_table w" rows r now] assms(1) ev Inr
      by (simp add: world_sound_def refresh_once_def)
  qed
next
  case False
  then show ?thesis using assms(4) by (cases ev) simp_all
qed

lemma fresh_reads_fold:
  assumes "codec_ok E" "world_sound E enabled w" "fresh_reads n r w"
  shows "fresh_reads n r (fold (pricing_step E collate) evs w)
    \<and> world_sound E enabled (fold (pricing_step E collate) evs w)"
  using assms(2,3)
proof (induction evs arbitrary: w)
  case (Cons ev evs)
  show ?case
    using Cons.IH [OF world_sound_step [OF assms(1) Cons.prems(1)] fresh_reads_step [OF Cons.prems]] by simp
qed simp

lemma row_kept_fold:
  assumes "codec_ok E" "world_sound E enabled w" "fresh_reads n r w" "\<not> list_ex (installs_before n) evs"
    and "row_key r \<in> dom (sn_payloads (bk_current (pw_book w)))"
  shows "row_key r \<in> dom (sn_payloads (bk_current (pw_book (fold (pricing_step E collate) evs w))))"
  using assms(2-5)
proof (induction evs arbitrary: w)
  case (Cons ev evs)
  show ?case
    using Cons.IH [OF world_sound_step [OF assms(1) Cons.prems(1)] fresh_reads_step [OF Cons.prems(1,2)]]
      row_kept_step [OF Cons.prems(1,2) _ Cons.prems(4)] Cons.prems(3) by simp
qed simp

lemma world_sound_install:
  assumes "world_sound E enabled w" "set rows \<subseteq> set (pw_table w)"
  shows "world_sound E enabled (w\<lparr>pw_book := snd (swap_rows E now rows (pw_book w))\<rparr>)"
  using assms swap_rows_sound [of E "pw_table w" "pw_book w" rows now] by (simp add: world_sound_def)

text \<open>An example world: one override published and read.\<close>

definition example_events :: "tariff_override_payload pricing_event list" where
  "example_events = [Publish 100 (example_request 2 100 5), ReadTable, InstallRead 105 0]"

definition kimi_input_price :: "tariff_override_payload \<Rightarrow> i128 option" where
  "kimi_input_price payload = (case payload of PKimi p \<Rightarrow> Some (tk_input p) | _ \<Rightarrow> None)"

definition example_snapshot :: "tariff_override_payload tariff_book_snapshot" where
  "example_snapshot = \<lparr>sn_rows = [example_row 100 2 100 5],
     sn_payloads = [(''moonshot/kimi/k3'', 2) \<mapsto> example_payload 5], sn_fetched_at = 105\<rparr>"

lemma example_row_read: "tariff_override_from_row payload_env (example_row now v e p) = Inr (example_row now v e p)"
  by (simp add: tariff_override_from_row_def example_digest example_row_def)

lemma example_world:
  "fold (pricing_step payload_env length) example_events (world_init True) =
    \<lparr>pw_table = [example_row 100 2 100 5], pw_reads = [Inr [example_row 100 2 100 5]],
     pw_book = \<lparr>bk_enabled = True, bk_current = example_snapshot\<rparr>\<rparr>"
proof -
  have "publish payload_env (100, example_request 2 100 5) [] = [example_row 100 2 100 5]"
    by (simp add: example_publish next_version_def family_head_def)
  moreover have "from_rows payload_env 105 [example_row 100 2 100 5] = Inr example_snapshot"
    by (simp add: from_rows_def example_row_def example_parse example_snapshot_def)
  ultimately show ?thesis
    by (simp add: example_events_def world_init_def tariff_book_new_def postgres_list_tariff_overrides_def
        example_row_read refresh_once_def swap_rows_def)
qed

lemma example_reserve:
  "reserve_base (book_snapshot (pw_book (fold (pricing_step payload_env length) example_events (world_init True))))
    ''moonshot/kimi/k3'' 149 3 kimi_input_price =
   \<lparr>rb_prices = 5, rb_pin = Some (pinned_tariff_of (example_row 100 2 100 5))\<rparr>"
  by (simp add: example_world book_snapshot_def reserve_base_def snapshot_resolve_def example_snapshot_def
      resolve_tariff_override_def max_version_row_def example_row_def kimi_input_price_def example_payload_def)

text \<open>A turn that was admitted at the compiled prices, before the book had a row, carries no pin; when
  an override that is effective at its priced instant is installed before it settles, the override
  prices the charge, not the compiled constants the hold was computed with.\<close>

lemma unpinned_turn_is_charged_at_a_later_override:
  "rb_pin (reserve_base (book_snapshot (pw_book (world_init True))) ''moonshot/kimi/k3'' 149 3 kimi_input_price) = None
   \<and> charge_base (book_snapshot (pw_book (fold (pricing_step payload_env length) example_events (world_init True))))
       None (Some ''moonshot/kimi/k3'') 149 3 kimi_input_price
     = Override 5 (pt_schedule_id (pinned_tariff_of (example_row 100 2 100 5)))"
  unfolding example_world
  by (simp add: book_snapshot_def charge_base_def snapshot_resolve_def example_snapshot_def
      reserve_base_def world_init_def tariff_book_new_def snapshot_empty_def
      resolve_tariff_override_def max_version_row_def example_row_def kimi_input_price_def example_payload_def)

section \<open>Properties\<close>

text \<open>C13: Reading the table never fails after any history of publications, its rows always build a
  snapshot, and the snapshot resolves every family at every instant to the pin and the payload of
  the row the table itself resolves to.\<close>

theorem snapshot_refines_the_table:
  assumes "codec_ok E" "tbl = fold (publish E) requests []"
  shows "\<exists>rows s. postgres_list_tariff_overrides E collate tbl = Inr rows \<and> from_rows E now rows = Inr s
    \<and> (\<forall>family priced_ts.
        map_option (map_prod (\<lambda>pin. pin) (to_canonical_value E)) (snapshot_resolve s family priced_ts) =
        map_option (\<lambda>r. (pinned_tariff_of r, ov_payload r)) (resolve_tariff_override tbl family priced_ts))"
proof -
  have sq: "sequenced E tbl" using publications.inv_run [of E requests] assms by simp
  obtain rows where rows: "postgres_list_tariff_overrides E collate tbl = Inr rows"
    using list_sequenced [OF sq] by blast
  obtain s where "from_rows E now rows = Inr s" "snapshot_sound E tbl s"
    "row_key ` set tbl \<subseteq> dom (sn_payloads s)" "\<forall>f. family_rows (sn_rows s) f = family_rows tbl f"
    using listing_snapshot [OF sq rows, of now] by blast
  then show ?thesis using rows snapshot_resolve_table [OF sq] by (intro exI conjI allI) assumption+
qed

theorem snapshot_refines_the_table_witness:
  "\<exists>rows s. postgres_list_tariff_overrides payload_env length example_rows = Inr rows
    \<and> from_rows payload_env 500 rows = Inr s
    \<and> map_option fst (snapshot_resolve s ''moonshot/kimi/k3'' 149) = Some (pinned_tariff_of (example_row 100 2 100 5))"
proof -
  obtain rows s where "postgres_list_tariff_overrides payload_env length example_rows = Inr rows"
    "from_rows payload_env 500 rows = Inr s"
    and r: "map_option (map_prod (\<lambda>pin. pin) (to_canonical_value payload_env))
        (snapshot_resolve s ''moonshot/kimi/k3'' 149) =
      map_option (\<lambda>r. (pinned_tariff_of r, ov_payload r))
        (resolve_tariff_override example_rows ''moonshot/kimi/k3'' 149)"
    using snapshot_refines_the_table [OF payload_env_codec example_table [symmetric], of length 500] by blast
  moreover have "map_option fst (snapshot_resolve s ''moonshot/kimi/k3'' 149)
      = Some (pinned_tariff_of (example_row 100 2 100 5))"
    using arg_cong [OF r, of "map_option fst"]
    by (simp add: option.map_comp o_def map_prod_def case_prod_unfold resolve_tariff_override_def
        example_rows_def example_row_def max_version_row_def)
  ultimately show ?thesis by blast
qed

text \<open>C11: A turn that was held at an override is charged at exactly the held prices under the pinned
  schedule id, or reported as an integrity error: whatever is published after the reserve, whatever
  reads of the table are installed in whatever order or fail, a settlement of the pinned family
  never charges compiled prices and never another version.\<close>

theorem pinned_settlement_never_reprices:
  assumes "codec_ok E" "w = fold (pricing_step E collate) earlier (world_init enabled)"
    and "reserve_base (book_snapshot (pw_book w)) family priced_ts compiled convert
      = \<lparr>rb_prices = prices, rb_pin = Some pin\<rparr>"
    and "w' = fold (pricing_step E collate) later w"
  shows "charge_base (book_snapshot (pw_book w')) (Some pin) (Some family) charged_ts compiled' convert
    \<in> {Override prices (pt_schedule_id pin), MissingPinned}"
proof -
  have w: "world_sound E enabled w" using pricing.inv_run [of E enabled collate earlier] assms by simp
  have w': "world_sound E enabled w'" using pricing.inv_fold [of E enabled w collate later] w assms by simp
  obtain r p where r: "r \<in> set (pw_table w)" "row_parses E r p"
    "row_key r = (pt_family pin, pt_version pin)" "convert p = Some prices" "pt_family pin = family"
    using reserve_pinned [OF book_snapshot_sound [OF w] assms(3)] .
  have "r \<in> set (pw_table w')" using r(1) pricing_table_grows assms(4) by blast
  then show ?thesis
    using charge_pinned [OF book_snapshot_sound [OF w'], of r p pin convert prices] w' r
    by (simp add: world_sound_def)
qed

theorem pinned_settlement_never_reprices_witness:
  "charge_base (book_snapshot (pw_book (fold (pricing_step payload_env length)
      [Publish 200 (example_request 3 150 6), ReadTable, InstallRead 205 1]
      (fold (pricing_step payload_env length) example_events (world_init True)))))
    (Some (pinned_tariff_of (example_row 100 2 100 5))) (Some ''moonshot/kimi/k3'') 400 4 kimi_input_price
   \<in> {Override 5 (pt_schedule_id (pinned_tariff_of (example_row 100 2 100 5))), MissingPinned}"
  by (rule pinned_settlement_never_reprices [OF payload_env_codec refl example_reserve refl])

text \<open>C16: What an asynchronous settlement obtains for its pinned version, with the publications, reads
  and installations of all other tasks interleaved at every point where it does not hold the lock of
  the book. It never obtains another payload than the one its reserve converted. And it comes back
  without one only when its own read of the table failed, or when another task, between the
  installation of that read and the second lookup, installed a read it had taken before the
  reserve.\<close>

theorem pinned_version_is_refreshed:
  assumes "codec_ok E" "w = fold (pricing_step E collate) earlier (world_init True)"
    and "reserve_base (book_snapshot (pw_book w)) family priced_ts compiled convert
      = \<lparr>rb_prices = prices, rb_pin = Some pin\<rparr>"
    and "w1 = fold (pricing_step E collate) before_lookup w"
    and "w2 = fold (pricing_step E collate) before_read w1"
    and "fetched = postgres_list_tariff_overrides E collate' (pw_table w2) \<or> fetched = Inl failure"
    and "w3 = fold (pricing_step E collate) before_install w2"
    and "installed = (\<lambda>b. pw_book (fold (pricing_step E collate) after_install (w3\<lparr>pw_book := b\<rparr>)))"
    and "answer = fst (version_payload_refreshed E now fetched (\<lambda>_. pw_book w3) installed
        family (pt_version pin) (pw_book w1))"
  shows "(case answer of
      Some payload \<Rightarrow> convert payload = Some prices
    | None \<Rightarrow> fetched = Inl failure \<or> list_ex (installs_before (length (pw_reads w))) after_install)"
proof -
  let ?n = "length (pw_reads w)"
  have w: "world_sound E True w" using pricing.inv_run [of E True collate earlier] assms by simp
  obtain r p where r: "r \<in> set (pw_table w)" "row_parses E r p"
    "row_key r = (pt_family pin, pt_version pin)" "convert p = Some prices" "pt_family pin = family"
    using reserve_pinned [OF book_snapshot_sound [OF w] assms(3)] .
  have f: "fresh_reads ?n r w" using r(1) by (simp add: fresh_reads_def)
  note run = fresh_reads_fold [OF assms(1)]
  have w1: "fresh_reads ?n r w1" "world_sound E True w1" using run [OF w f] assms(4) by simp_all
  have w2: "fresh_reads ?n r w2" "world_sound E True w2" using run [OF w1(2,1)] assms(5) by simp_all
  have w3: "fresh_reads ?n r w3" "world_sound E True w3" using run [OF w2(2,1)] assms(7) by simp_all
  have right: "convert q = Some prices" if "world_sound E True v" "fresh_reads ?n r v"
      "version_payload (book_snapshot (pw_book v)) family (pt_version pin) = Some q" for v q
    using snapshot_entry_unique [of E "pw_table v" "bk_current (pw_book v)" r p q] that r
    by (simp add: world_sound_def fresh_reads_def version_payload_def book_snapshot_def)
  show ?thesis
  proof (cases "version_payload (book_snapshot (pw_book w1)) family (pt_version pin)")
    case (Some q)
    then have "answer = Some q"
      using assms(9) w1(2)
      by (simp add: version_payload_refreshed_def book_version_payload_refreshed_def world_sound_def)
    then show ?thesis using right [OF w1(2,1) Some] by simp
  next
    case None
    show ?thesis
    proof (cases fetched)
      case (Inl e)
      obtain rows where "postgres_list_tariff_overrides E collate' (pw_table w2) = Inr rows"
        using w2(2) list_sequenced [of E "pw_table w2"] by (simp add: world_sound_def)
      then have "fetched = Inl failure" using assms(6) Inl by auto
      moreover have "answer = None"
        using assms(9) w1(2) None Inl
        by (simp add: version_payload_refreshed_def book_version_payload_refreshed_def world_sound_def)
      ultimately show ?thesis by simp
    next
      case (Inr rows)
      let ?b = "snd (swap_rows E now rows (pw_book w3))"
      let ?v = "w3\<lparr>pw_book := ?b\<rparr>" and ?v' = "fold (pricing_step E collate) after_install (w3\<lparr>pw_book := ?b\<rparr>)"
      have rows: "set rows = set (pw_table w2)"
        using assms(6) Inr w2(2) list_sequenced [of E "pw_table w2"] by (auto simp: world_sound_def)
      have grows: "set (pw_table w2) \<subseteq> set (pw_table w3)" unfolding assms(7) by (rule pricing_table_grows)
      have v: "world_sound E True ?v" "fresh_reads ?n r ?v"
        using world_sound_install [OF w3(2)] rows grows w3(1) by (simp_all add: fresh_reads_def)
      have kept: "fst (swap_rows E now rows (pw_book w3)) = Inr ()"
          "row_key r \<in> dom (sn_payloads (bk_current ?b))"
        using swap_rows_keeps [of E "pw_table w3" rows r now "pw_book w3"] w3(2) rows grows w2(1)
        by (simp_all add: world_sound_def fresh_reads_def)
      have v': "world_sound E True ?v'" "fresh_reads ?n r ?v'" using run [OF v] by simp_all
      have answer: "answer = version_payload (book_snapshot (pw_book ?v')) family (pt_version pin)"
        using assms(8,9) w1(2) None Inr kept(1)
        by (simp add: version_payload_refreshed_def book_version_payload_refreshed_def world_sound_def Let_def
            split: prod.splits)
      show ?thesis
      proof (cases answer)
        case (Some q)
        then show ?thesis using right [OF v', of q] answer by simp
      next
        case None
        then have "row_key r \<notin> dom (sn_payloads (bk_current (pw_book ?v')))"
          using answer r(3,5) v'(1) by (auto simp: version_payload_def book_snapshot_def world_sound_def)
        then show ?thesis using row_kept_fold [OF assms(1) v] kept(2) None by auto
      qed
    qed
  qed
qed

definition example_priced :: "tariff_override_payload pricing_world" where
  "example_priced = fold (pricing_step payload_env length) example_events (world_init True)"

theorem pinned_version_is_refreshed_witness:
  "\<exists>payload. fst (version_payload_refreshed payload_env 300
      (postgres_list_tariff_overrides payload_env length (pw_table example_priced))
      (\<lambda>_. pw_book (pricing_step payload_env length ReadTable example_priced))
      (\<lambda>b. pw_book (pricing_step payload_env length (InstallRead 301 1)
        ((pricing_step payload_env length ReadTable example_priced)\<lparr>pw_book := b\<rparr>)))
      ''moonshot/kimi/k3'' 2 (pw_book example_priced)) = Some payload \<and> kimi_input_price payload = Some 5"
proof -
  have read: "postgres_list_tariff_overrides payload_env length (pw_table example_priced)
      = Inr [example_row 100 2 100 5]"
    by (simp add: example_priced_def example_world postgres_list_tariff_overrides_def example_row_read)
  have "length (pw_reads example_priced) = 1" by (simp add: example_priced_def example_world)
  then show ?thesis
    using pinned_version_is_refreshed [where before_lookup = "[]" and before_read = "[]"
        and before_install = "[ReadTable]" and after_install = "[InstallRead 301 1]" and now = 300
        and failure = DigestMismatch and collate' = length,
        OF payload_env_codec refl example_reserve refl refl disjI1 [OF refl] refl refl refl] read
    by (auto simp: example_priced_def [symmetric] pinned_tariff_of_def example_row_def split: option.splits)
qed

end
