(* ===== verification/Metering_Media.thy ===== *)
theory Metering_Media
  imports Rate_Catalog
begin

text \<open>
  The metering modules of the media providers: \<open>src/crates/metering/src/openai_image.rs\<close> (five
  disjoint token legs of one reviewed card), \<open>suno.rs\<close> (a credit schedule with a derived dollar
  link) and \<open>tripo3d.rs\<close> (a per-task credit card with option surcharges, version admission sets
  and a two-tier reserve).
\<close>

section \<open>GPT Image 2\<close>

record openai_image_prices =
  ip_fresh_text_input :: i128
  ip_cached_text_input :: i128
  ip_fresh_image_input :: i128
  ip_cached_image_input :: i128
  ip_image_output :: i128

record openai_image_usage =
  iu_total_text_input_tokens :: u64
  iu_cached_text_input_tokens :: u64
  iu_total_image_input_tokens :: u64
  iu_cached_image_input_tokens :: u64
  iu_image_output_tokens :: u64

record openai_image_tariff_identity =
  ii_canonical_model_id :: string
  ii_tariff_schedule_id :: string
  ii_schedule_effective_from :: i64
  ii_prices :: openai_image_prices

datatype openai_image_metering_error =
    ImageUnsupportedModelIdentity
  | CachedTextExceedsTotal
  | CachedImageExceedsTotal
  | ImageOverflow

definition OPENAI_IMAGE_TARIFF_SCHEDULE_ID :: string where
  "OPENAI_IMAGE_TARIFF_SCHEDULE_ID = ''openai/gpt-image-2/2026-04-21/v1''"

definition GPT_IMAGE_2_ALIAS :: string where
  "GPT_IMAGE_2_ALIAS = ''gpt-image-2''"

definition GPT_IMAGE_2_SNAPSHOT :: string where
  "GPT_IMAGE_2_SNAPSHOT = ''gpt-image-2-2026-04-21''"

definition OPENAI_IMAGE_TARIFF_FAMILY :: string where
  "OPENAI_IMAGE_TARIFF_FAMILY = ''openai/gpt-image-2''"

definition GPT_IMAGE_2_PRICES :: openai_image_prices where
  "GPT_IMAGE_2_PRICES = \<lparr>ip_fresh_text_input = 5000, ip_cached_text_input = 1250,
     ip_fresh_image_input = 8000, ip_cached_image_input = 2000, ip_image_output = 30000\<rparr>"

definition openai_image_compiled_tariff :: "string \<times> openai_image_prices" where
  "openai_image_compiled_tariff = (OPENAI_IMAGE_TARIFF_FAMILY, GPT_IMAGE_2_PRICES)"

definition openai_image_tariff ::
    "string \<Rightarrow> openai_image_metering_error + openai_image_tariff_identity" where
  "openai_image_tariff model_id =
     (if model_id \<noteq> GPT_IMAGE_2_ALIAS \<and> model_id \<noteq> GPT_IMAGE_2_SNAPSHOT
      then Inl ImageUnsupportedModelIdentity
      else Inr \<lparr>ii_canonical_model_id = GPT_IMAGE_2_SNAPSHOT,
        ii_tariff_schedule_id = OPENAI_IMAGE_TARIFF_SCHEDULE_ID, ii_schedule_effective_from = 0,
        ii_prices = GPT_IMAGE_2_PRICES\<rparr>)"

definition openai_image_validate :: "openai_image_usage \<Rightarrow> openai_image_metering_error + unit" where
  "openai_image_validate u =
     (if iu_total_text_input_tokens u < iu_cached_text_input_tokens u then Inl CachedTextExceedsTotal
      else if iu_total_image_input_tokens u < iu_cached_image_input_tokens u
      then Inl CachedImageExceedsTotal
      else Inr ())"

definition openai_image_cost_nanodollars ::
    "openai_image_usage \<Rightarrow> openai_image_prices \<Rightarrow> openai_image_metering_error + i128" where
  "openai_image_cost_nanodollars u p =
     bind_res (openai_image_validate u) (\<lambda>_.
     let fresh_text = iu_total_text_input_tokens u - iu_cached_text_input_tokens u;
         fresh_image = iu_total_image_input_tokens u - iu_cached_image_input_tokens u
     in
     bind_res (checked_leg ImageOverflow fresh_text (ip_fresh_text_input p)) (\<lambda>a.
     bind_res (checked_leg ImageOverflow (iu_cached_text_input_tokens u) (ip_cached_text_input p)) (\<lambda>b.
     bind_res (checked_leg ImageOverflow fresh_image (ip_fresh_image_input p)) (\<lambda>c.
     bind_res (checked_leg ImageOverflow (iu_cached_image_input_tokens u) (ip_cached_image_input p)) (\<lambda>d.
     bind_res (checked_leg ImageOverflow (iu_image_output_tokens u) (ip_image_output p)) (\<lambda>e.
       checked_sum ImageOverflow 0 [a, b, c, d, e]))))))"

section \<open>Suno\<close>

definition SUNO_NANOUSD_PER_CREDIT :: i128 where
  "SUNO_NANOUSD_PER_CREDIT = 4000000"

definition SUNO_CREDITS_PER_SONG :: i64 where
  "SUNO_CREDITS_PER_SONG = 5"

definition SUNO_PAID_MODELS :: "string list" where
  "SUNO_PAID_MODELS = [''v4'', ''v4.5'', ''v4.5+'', ''v5'', ''v5.5'']"

datatype suno_operation =
    Song | StemsAutoSplit | StemsSplitFromMix | StemsAdvancedSplit | MidiFromStem

datatype credit_metering_error = NegativeCredits | CreditOverflow

fun suno_operation_credits :: "suno_operation \<Rightarrow> i64 option" where
  "suno_operation_credits Song = Some SUNO_CREDITS_PER_SONG"
| "suno_operation_credits StemsAutoSplit = Some 50"
| "suno_operation_credits StemsSplitFromMix = Some 10"
| "suno_operation_credits StemsAdvancedSplit = None"
| "suno_operation_credits MidiFromStem = Some 10"

text \<open>A per-unit price: nothing for a zero count, otherwise the checked product.\<close>

definition per_unit_credits :: "i64 \<Rightarrow> u64 \<Rightarrow> i64 option" where
  "per_unit_credits rate count =
     (if count = 0 then None
      else Option.bind (i64_try_from (uint count)) (\<lambda>n. checked_mul_i64 rate n))"

definition suno_stems_advanced_split_credits :: "u64 \<Rightarrow> i64 option" where
  "suno_stems_advanced_split_credits stems = per_unit_credits 10 stems"

definition suno_paid_model :: "string \<Rightarrow> string option" where
  "suno_paid_model model = List.find (\<lambda>known. known = model) SUNO_PAID_MODELS"

definition suno_song_credits_for_model :: "string \<Rightarrow> i64 option" where
  "suno_song_credits_for_model model =
     Option.bind (suno_paid_model model) (\<lambda>_. Some SUNO_CREDITS_PER_SONG)"

definition suno_song_cost_nanodollars :: i128 where
  "suno_song_cost_nanodollars = mul_i128 SUNO_CREDITS_PER_SONG SUNO_NANOUSD_PER_CREDIT"

definition suno_cost_nanodollars :: "i128 \<Rightarrow> credit_metering_error + i128" where
  "suno_cost_nanodollars credits =
     (if credits < 0 then Inl NegativeCredits
      else ok_or CreditOverflow (checked_mul_i128 credits SUNO_NANOUSD_PER_CREDIT))"

section \<open>Tripo3D\<close>

definition TRIPO3D_NANOUSD_PER_CREDIT :: i128 where
  "TRIPO3D_NANOUSD_PER_CREDIT = 10000000"

datatype tripo3d_task_kind =
    TextToModel | ImageToModel | MultiviewToModel | TextureModel | MeshSegmentation
  | MeshCompletion | HighpolyToLowpoly | AnimatePrerigcheck | AnimateRig | AnimateRetarget
  | ConvertModel | ImportModel | TextToImage | GenerateImage | GenerateMultiviewImage
  | EditMultiviewImage | RefineModel

datatype tripo3d_texture_quality = TextureStandard | TextureDetailed | TextureExtreme

datatype tripo3d_geometry_quality = GeometryStandard | GeometryDetailed

record tripo3d_options =
  to_texture :: bool
  to_pbr :: bool
  to_smart_low_poly :: bool
  to_generate_parts :: bool
  to_quad :: bool
  to_style :: bool
  to_texture_quality :: tripo3d_texture_quality
  to_geometry_quality :: tripo3d_geometry_quality

definition tripo3d_options_default :: tripo3d_options where
  "tripo3d_options_default = \<lparr>to_texture = False, to_pbr = False, to_smart_low_poly = False,
     to_generate_parts = False, to_quad = False, to_style = False,
     to_texture_quality = TextureStandard, to_geometry_quality = GeometryStandard\<rparr>"

datatype tripo3d_convert_mode = ConvertBasic | ConvertAdvanced

definition VERSIONS_TO_MODEL :: "string list" where
  "VERSIONS_TO_MODEL = [''v3.1-20260211'', ''v3.0-20250812'', ''P1-20260311'', ''v2.5-20250123'',
     ''v2.0-20240919'', ''Turbo-v1.0-20250506'', ''v1.4-20240625'']"

definition VERSIONS_MULTIVIEW :: "string list" where
  "VERSIONS_MULTIVIEW = [''v3.1-20260211'', ''v3.0-20250812'', ''P1-20260311'', ''v2.5-20250123'',
     ''v2.0-20240919'']"

definition VERSIONS_TEXTURE_MODEL :: "string list" where
  "VERSIONS_TEXTURE_MODEL = [''v3.0-20250812'', ''v2.5-20250123'']"

definition VERSIONS_MESH_SEGMENTATION :: "string list" where
  "VERSIONS_MESH_SEGMENTATION = [''v1.0-20250506'']"

definition VERSIONS_MESH_COMPLETION :: "string list" where
  "VERSIONS_MESH_COMPLETION = [''v1.0-20250506'']"

definition VERSIONS_ANIMATE_PRERIGCHECK :: "string list" where
  "VERSIONS_ANIMATE_PRERIGCHECK = [''v2.0-20250506'', ''v1.0-20240301'']"

definition VERSIONS_ANIMATE_RIG :: "string list" where
  "VERSIONS_ANIMATE_RIG = [''v2.5-20260210'', ''v2.0-20250506'', ''v1.0-20240301'']"

definition VERSIONS_IMAGE :: "string list" where
  "VERSIONS_IMAGE = [''flux.1_kontext_pro'', ''flux.1_dev'', ''gpt_4o'', ''gpt_image_1.5'',
     ''gpt_image_2'', ''midjourney'', ''gemini_2.5_flash_image_preview'',
     ''gemini_3_pro_image_preview'', ''gemini_3.1_flash_image_preview'']"

lemmas tripo3d_versions = VERSIONS_TO_MODEL_def VERSIONS_MULTIVIEW_def VERSIONS_TEXTURE_MODEL_def
  VERSIONS_MESH_SEGMENTATION_def VERSIONS_MESH_COMPLETION_def VERSIONS_ANIMATE_PRERIGCHECK_def
  VERSIONS_ANIMATE_RIG_def VERSIONS_IMAGE_def

definition DEFAULT_GENERATION_VERSION :: string where
  "DEFAULT_GENERATION_VERSION = ''v2.5-20250123''"

definition DEFAULT_IMAGE_VERSION :: string where
  "DEFAULT_IMAGE_VERSION = ''flux.1_kontext_pro''"

datatype generation_tier = TierP1 | TierStandard | TierLegacyV14

definition generation_tier_of :: "string \<Rightarrow> generation_tier option" where
  "generation_tier_of version =
     (if version = ''P1-20260311'' then Some TierP1
      else if version = ''v1.4-20240625'' then Some TierLegacyV14
      else if version \<in> set [''v3.1-20260211'', ''v3.0-20250812'', ''v2.5-20250123'', ''v2.0-20240919'',
        ''Turbo-v1.0-20250506''] then Some TierStandard
      else None)"

fun texture_quality_surcharge :: "tripo3d_texture_quality \<Rightarrow> i64" where
  "texture_quality_surcharge TextureStandard = 10"
| "texture_quality_surcharge TextureDetailed = 20"
| "texture_quality_surcharge TextureExtreme = 30"

text \<open>\<open>None\<close> is the \<open>unreachable!\<close> arm: \<open>tripo3d_task_credits\<close> only asks for the three
  kinds below.\<close>

fun generation_base :: "tripo3d_task_kind \<Rightarrow> (i64 \<times> i64 \<times> i64 \<times> i64 \<times> i64 option) option" where
  "generation_base TextToModel = Some (30, 40, 10, 20, Some 20)"
| "generation_base ImageToModel = Some (40, 50, 20, 30, Some 30)"
| "generation_base MultiviewToModel = Some (40, 50, 20, 30, None)"
| "generation_base _ = None"

definition generation_credits ::
    "tripo3d_task_kind \<Rightarrow> generation_tier \<Rightarrow> tripo3d_options \<Rightarrow> i64 option" where
  "generation_credits kind tier opts =
     Option.bind (generation_base kind) (\<lambda>(p1_plain, p1_textured, std_plain, _, legacy).
     case tier of
       TierP1 \<Rightarrow>
         if to_smart_low_poly opts \<or> to_generate_parts opts \<or> to_quad opts \<or> to_style opts
            \<or> to_texture_quality opts \<noteq> TextureStandard \<or> to_geometry_quality opts \<noteq> GeometryStandard
         then None
         else Some (if to_texture opts then p1_textured else p1_plain)
     | TierStandard \<Rightarrow>
         Option.bind
           (if to_texture opts
            then Some (std_plain + texture_quality_surcharge (to_texture_quality opts))
            else if to_texture_quality opts \<noteq> TextureStandard then None else Some std_plain)
           (\<lambda>base. Some (base
              + (if to_smart_low_poly opts then 10 else 0)
              + (if to_generate_parts opts then 20 else 0)
              + (if to_quad opts then 5 else 0)
              + (if to_style opts then 5 else 0)
              + (if to_geometry_quality opts = GeometryDetailed then 20 else 0)))
     | TierLegacyV14 \<Rightarrow> if opts \<noteq> tripo3d_options_default then None else legacy)"

definition version_independent :: "string option \<Rightarrow> bool" where
  "version_independent model_version \<longleftrightarrow> model_version = None"

definition flat_version_ok :: "string option \<Rightarrow> string list \<Rightarrow> bool" where
  "flat_version_ok model_version admitted =
     (case model_version of Some version \<Rightarrow> version \<in> set admitted | None \<Rightarrow> True)"

definition version_or :: "string \<Rightarrow> string option \<Rightarrow> string" where
  "version_or dflt model_version = (case model_version of None \<Rightarrow> dflt | Some version \<Rightarrow> version)"

definition generation_task_credits ::
    "tripo3d_task_kind \<Rightarrow> string option \<Rightarrow> tripo3d_options \<Rightarrow> i64 option" where
  "generation_task_credits kind model_version opts =
     (let admitted = (if kind = MultiviewToModel then VERSIONS_MULTIVIEW else VERSIONS_TO_MODEL);
          version = version_or DEFAULT_GENERATION_VERSION model_version
      in if version \<notin> set admitted then None
         else Option.bind (generation_tier_of version) (\<lambda>tier. generation_credits kind tier opts))"

definition texture_model_credits :: "string option \<Rightarrow> tripo3d_options \<Rightarrow> i64 option" where
  "texture_model_credits model_version opts =
     (if version_or DEFAULT_GENERATION_VERSION model_version \<notin> set VERSIONS_TEXTURE_MODEL then None
      else if to_texture opts \<or> to_pbr opts \<or> to_smart_low_poly opts \<or> to_generate_parts opts
        \<or> to_quad opts \<or> to_geometry_quality opts \<noteq> GeometryStandard then None
      else Some ((case to_texture_quality opts of
            TextureStandard \<Rightarrow> 10 | TextureDetailed \<Rightarrow> 20 | TextureExtreme \<Rightarrow> 30)
          + (if to_style opts then 5 else 0)))"

text \<open>The arms that price one flat amount behind a version test and refuse every option.\<close>

definition flat_credits :: "bool \<Rightarrow> tripo3d_options \<Rightarrow> i64 \<Rightarrow> i64 option" where
  "flat_credits version_ok opts credits =
     (if \<not> version_ok \<or> opts \<noteq> tripo3d_options_default then None else Some credits)"

fun tripo3d_task_credits ::
    "tripo3d_task_kind \<Rightarrow> string option \<Rightarrow> tripo3d_options \<Rightarrow> i64 option" where
  "tripo3d_task_credits TextToModel v opts = generation_task_credits TextToModel v opts"
| "tripo3d_task_credits ImageToModel v opts = generation_task_credits ImageToModel v opts"
| "tripo3d_task_credits MultiviewToModel v opts = generation_task_credits MultiviewToModel v opts"
| "tripo3d_task_credits RefineModel v opts =
     flat_credits (version_or ''v1.4-20240625'' v = ''v1.4-20240625'') opts 30"
| "tripo3d_task_credits TextureModel v opts = texture_model_credits v opts"
| "tripo3d_task_credits MeshSegmentation v opts =
     flat_credits (flat_version_ok v VERSIONS_MESH_SEGMENTATION) opts 40"
| "tripo3d_task_credits MeshCompletion v opts =
     flat_credits (flat_version_ok v VERSIONS_MESH_COMPLETION) opts 50"
| "tripo3d_task_credits HighpolyToLowpoly v opts = None"
| "tripo3d_task_credits AnimatePrerigcheck v opts =
     flat_credits (flat_version_ok v VERSIONS_ANIMATE_PRERIGCHECK) opts 0"
| "tripo3d_task_credits AnimateRig v opts =
     flat_credits (flat_version_ok v VERSIONS_ANIMATE_RIG) opts 25"
| "tripo3d_task_credits AnimateRetarget v opts = None"
| "tripo3d_task_credits ConvertModel v opts = None"
| "tripo3d_task_credits EditMultiviewImage v opts = None"
| "tripo3d_task_credits ImportModel v opts = flat_credits (version_independent v) opts 0"
| "tripo3d_task_credits TextToImage v opts =
     flat_credits (version_or DEFAULT_IMAGE_VERSION v \<in> set VERSIONS_IMAGE) opts 5"
| "tripo3d_task_credits GenerateImage v opts =
     flat_credits (version_or DEFAULT_IMAGE_VERSION v \<in> set VERSIONS_IMAGE) opts 10"
| "tripo3d_task_credits GenerateMultiviewImage v opts = flat_credits (version_independent v) opts 10"

definition tripo3d_animate_retarget_credits :: "u64 \<Rightarrow> i64 option" where
  "tripo3d_animate_retarget_credits animations = per_unit_credits 10 animations"

definition tripo3d_edit_multiview_image_credits :: "u64 \<Rightarrow> i64 option" where
  "tripo3d_edit_multiview_image_credits edited_images = per_unit_credits 5 edited_images"

fun tripo3d_convert_model_credits :: "tripo3d_convert_mode \<Rightarrow> i64" where
  "tripo3d_convert_model_credits ConvertBasic = 5"
| "tripo3d_convert_model_credits ConvertAdvanced = 10"

fun as_wire :: "tripo3d_task_kind \<Rightarrow> string" where
  "as_wire TextToModel = ''text_to_model''"
| "as_wire ImageToModel = ''image_to_model''"
| "as_wire MultiviewToModel = ''multiview_to_model''"
| "as_wire TextureModel = ''texture_model''"
| "as_wire MeshSegmentation = ''mesh_segmentation''"
| "as_wire MeshCompletion = ''mesh_completion''"
| "as_wire HighpolyToLowpoly = ''highpoly_to_lowpoly''"
| "as_wire AnimatePrerigcheck = ''animate_prerigcheck''"
| "as_wire AnimateRig = ''animate_rig''"
| "as_wire AnimateRetarget = ''animate_retarget''"
| "as_wire ConvertModel = ''convert_model''"
| "as_wire ImportModel = ''import_model''"
| "as_wire TextToImage = ''text_to_image''"
| "as_wire GenerateImage = ''generate_image''"
| "as_wire GenerateMultiviewImage = ''generate_multiview_image''"
| "as_wire EditMultiviewImage = ''edit_multiview_image''"
| "as_wire RefineModel = ''refine_model''"

definition from_wire :: "string \<Rightarrow> tripo3d_task_kind option" where
  "from_wire wire = map_of
     [(''text_to_model'', TextToModel), (''image_to_model'', ImageToModel),
      (''multiview_to_model'', MultiviewToModel), (''texture_model'', TextureModel),
      (''mesh_segmentation'', MeshSegmentation), (''mesh_completion'', MeshCompletion),
      (''highpoly_to_lowpoly'', HighpolyToLowpoly), (''animate_prerigcheck'', AnimatePrerigcheck),
      (''animate_rig'', AnimateRig), (''animate_retarget'', AnimateRetarget),
      (''convert_model'', ConvertModel), (''import_model'', ImportModel),
      (''text_to_image'', TextToImage), (''generate_image'', GenerateImage),
      (''generate_multiview_image'', GenerateMultiviewImage),
      (''edit_multiview_image'', EditMultiviewImage), (''refine_model'', RefineModel)] wire"

definition is_per_unit :: "tripo3d_task_kind \<Rightarrow> bool" where
  "is_per_unit kind \<longleftrightarrow> kind \<in> {AnimateRetarget, ConvertModel, EditMultiviewImage}"

fun version_in_set :: "tripo3d_task_kind \<Rightarrow> string \<Rightarrow> bool" where
  "version_in_set TextToModel v \<longleftrightarrow> v \<in> set VERSIONS_TO_MODEL"
| "version_in_set ImageToModel v \<longleftrightarrow> v \<in> set VERSIONS_TO_MODEL"
| "version_in_set MultiviewToModel v \<longleftrightarrow> v \<in> set VERSIONS_MULTIVIEW"
| "version_in_set TextureModel v \<longleftrightarrow> v \<in> set VERSIONS_TEXTURE_MODEL"
| "version_in_set MeshSegmentation v \<longleftrightarrow> v \<in> set VERSIONS_MESH_SEGMENTATION"
| "version_in_set MeshCompletion v \<longleftrightarrow> v \<in> set VERSIONS_MESH_COMPLETION"
| "version_in_set AnimatePrerigcheck v \<longleftrightarrow> v \<in> set VERSIONS_ANIMATE_PRERIGCHECK"
| "version_in_set AnimateRig v \<longleftrightarrow> v \<in> set VERSIONS_ANIMATE_RIG"
| "version_in_set RefineModel v \<longleftrightarrow> v = ''v1.4-20240625''"
| "version_in_set TextToImage v \<longleftrightarrow> v \<in> set VERSIONS_IMAGE"
| "version_in_set GenerateImage v \<longleftrightarrow> v \<in> set VERSIONS_IMAGE"
| "version_in_set _ v \<longleftrightarrow> False"

definition version_admitted :: "tripo3d_task_kind \<Rightarrow> string option \<Rightarrow> bool" where
  "version_admitted kind model_version =
     (case model_version of None \<Rightarrow> True | Some version \<Rightarrow> version_in_set kind version)"

fun tripo3d_family_max_credits :: "tripo3d_task_kind \<Rightarrow> i64 option" where
  "tripo3d_family_max_credits TextToModel = Some 100"
| "tripo3d_family_max_credits ImageToModel = Some 110"
| "tripo3d_family_max_credits MultiviewToModel = Some 110"
| "tripo3d_family_max_credits TextureModel = Some 35"
| "tripo3d_family_max_credits MeshSegmentation = Some 40"
| "tripo3d_family_max_credits MeshCompletion = Some 50"
| "tripo3d_family_max_credits AnimatePrerigcheck = Some 0"
| "tripo3d_family_max_credits AnimateRig = Some 25"
| "tripo3d_family_max_credits ImportModel = Some 0"
| "tripo3d_family_max_credits TextToImage = Some 5"
| "tripo3d_family_max_credits GenerateImage = Some 10"
| "tripo3d_family_max_credits GenerateMultiviewImage = Some 10"
| "tripo3d_family_max_credits RefineModel = Some 30"
| "tripo3d_family_max_credits _ = None"

record tripo3d_reserve =
  tr_credits :: i64
  tr_conservative :: bool

definition tripo3d_reserve_credits ::
    "tripo3d_task_kind \<Rightarrow> string option \<Rightarrow> tripo3d_options \<Rightarrow> tripo3d_reserve option" where
  "tripo3d_reserve_credits kind model_version opts =
     (case tripo3d_task_credits kind model_version opts of
        Some credits \<Rightarrow> Some \<lparr>tr_credits = credits, tr_conservative = False\<rparr>
      | None \<Rightarrow>
          if is_per_unit kind \<or> kind = HighpolyToLowpoly then None
          else if \<not> version_admitted kind model_version then None
          else Option.bind (tripo3d_family_max_credits kind)
            (\<lambda>credits. Some \<lparr>tr_credits = credits, tr_conservative = True\<rparr>))"

definition tripo3d_cost_nanodollars :: "i128 \<Rightarrow> credit_metering_error + i128" where
  "tripo3d_cost_nanodollars credits =
     (if credits < 0 then Inl NegativeCredits
      else ok_or CreditOverflow (checked_mul_i128 credits TRIPO3D_NANOUSD_PER_CREDIT))"

section \<open>Exact image charges\<close>

definition openai_image_exact_cost :: "openai_image_usage \<Rightarrow> openai_image_prices \<Rightarrow> int" where
  "openai_image_exact_cost u p =
     (uint (iu_total_text_input_tokens u) - uint (iu_cached_text_input_tokens u)) * ip_fresh_text_input p
     + uint (iu_cached_text_input_tokens u) * ip_cached_text_input p
     + (uint (iu_total_image_input_tokens u) - uint (iu_cached_image_input_tokens u)) * ip_fresh_image_input p
     + uint (iu_cached_image_input_tokens u) * ip_cached_image_input p
     + uint (iu_image_output_tokens u) * ip_image_output p"

lemma openai_image_cost_exact:
  assumes "openai_image_tariff m = Inr a"
  shows "openai_image_cost_nanodollars u (ii_prices a) =
    (if iu_total_text_input_tokens u < iu_cached_text_input_tokens u then Inl CachedTextExceedsTotal
     else if iu_total_image_input_tokens u < iu_cached_image_input_tokens u
     then Inl CachedImageExceedsTotal
     else Inr (openai_image_exact_cost u (ii_prices a)))"
proof -
  let ?p = GPT_IMAGE_2_PRICES
  have p: "ii_prices a = ?p" using assms by (auto simp: openai_image_tariff_def split: if_splits)
  have ok: "rate_ok (ip_fresh_text_input ?p)" "rate_ok (ip_cached_text_input ?p)"
      "rate_ok (ip_fresh_image_input ?p)" "rate_ok (ip_cached_image_input ?p)"
      "rate_ok (ip_image_output ?p)"
    by (simp_all add: GPT_IMAGE_2_PRICES_def rate_ok_def)
  have "checked_sum ImageOverflow 0 [uint a * ip_fresh_text_input ?p, uint b * ip_cached_text_input ?p,
        uint c * ip_fresh_image_input ?p, uint d * ip_cached_image_input ?p, uint e * ip_image_output ?p]
      = Inr (uint a * ip_fresh_text_input ?p + uint b * ip_cached_text_input ?p
        + uint c * ip_fresh_image_input ?p + uint d * ip_cached_image_input ?p
        + uint e * ip_image_output ?p)" for a b c d e :: u64
    using rate_ok_product [OF ok(1), of a] rate_ok_product [OF ok(2), of b]
      rate_ok_product [OF ok(3), of c] rate_ok_product [OF ok(4), of d] rate_ok_product [OF ok(5), of e]
    by (subst checked_sum_exact) simp_all
  then show ?thesis
    by (simp add: p openai_image_cost_nanodollars_def openai_image_validate_def Let_def
        checked_leg_exact ok openai_image_exact_cost_def uint_sub_u64 [OF leI]
        del: checked_sum.simps)
qed

section \<open>Coherence of the Tripo3D card\<close>

lemma wire_roundtrip: "from_wire w = Some k \<longleftrightarrow> w = as_wire k"
  by (cases k) (auto simp: from_wire_def split: if_splits)

lemma version_or_cases: "version_or d v \<in> S \<longleftrightarrow> (case v of None \<Rightarrow> d \<in> S | Some w \<Rightarrow> w \<in> S)"
  by (cases v) (simp_all add: version_or_def)

lemma generation_credits_bounded:
  assumes "generation_credits kind tier opts = Some c"
  shows "0 \<le> c \<and> (\<exists>m. tripo3d_family_max_credits kind = Some m \<and> c \<le> m)"
proof -
  have s: "0 \<le> texture_quality_surcharge q" "texture_quality_surcharge q \<le> 30" for q
    by (cases q; simp)+
  show ?thesis
    using assms s [of "to_texture_quality opts"]
    by (cases kind; cases tier) (auto simp: generation_credits_def split: if_splits)
qed

lemma flat_credits_Some: "flat_credits ok opts n = Some c \<longleftrightarrow> ok \<and> opts = tripo3d_options_default \<and> c = n"
  by (auto simp: flat_credits_def)

lemma texture_model_bounded:
  assumes "texture_model_credits v opts = Some c"
  shows "0 \<le> c \<and> c \<le> 35 \<and> version_admitted TextureModel v"
  using assms
  by (auto simp: texture_model_credits_def version_admitted_def version_or_def
      split: if_splits option.splits tripo3d_texture_quality.splits)

lemma generation_task_bounded:
  assumes "generation_task_credits kind v opts = Some c"
    "kind \<in> {TextToModel, ImageToModel, MultiviewToModel}"
  shows "0 \<le> c \<and> (\<exists>m. tripo3d_family_max_credits kind = Some m \<and> c \<le> m) \<and> version_admitted kind v"
proof -
  obtain tier where "generation_credits kind tier opts = Some c"
    and "version_or DEFAULT_GENERATION_VERSION v
      \<in> set (if kind = MultiviewToModel then VERSIONS_MULTIVIEW else VERSIONS_TO_MODEL)"
    using assms(1) by (auto simp: generation_task_credits_def Let_def bind_eq_Some_conv split: if_splits)
  then show ?thesis
    using generation_credits_bounded assms(2)
    by (auto simp: version_admitted_def version_or_def split: option.splits)
qed

lemma tripo3d_task_bounded:
  assumes "tripo3d_task_credits kind v opts = Some c"
  shows "0 \<le> c \<and> (\<exists>m. tripo3d_family_max_credits kind = Some m \<and> c \<le> m)
    \<and> version_admitted kind v \<and> \<not> is_per_unit kind \<and> kind \<noteq> HighpolyToLowpoly"
proof (cases "kind \<in> {TextToModel, ImageToModel, MultiviewToModel}")
  case True
  then show ?thesis
    using assms generation_task_bounded [of kind v opts c] by (auto simp: is_per_unit_def)
next
  case False
  then show ?thesis
    using assms texture_model_bounded [of v opts c]
    by (cases kind) (auto simp: flat_credits_Some version_admitted_def flat_version_ok_def
        version_independent_def version_or_def is_per_unit_def split: option.splits)
qed

text \<open>The dearest published combination of each kind.\<close>

definition dearest_options :: "tripo3d_task_kind \<Rightarrow> tripo3d_options" where
  "dearest_options kind =
     (if kind \<in> {TextToModel, ImageToModel, MultiviewToModel} then
        \<lparr>to_texture = True, to_pbr = True, to_smart_low_poly = True, to_generate_parts = True,
         to_quad = True, to_style = True, to_texture_quality = TextureExtreme,
         to_geometry_quality = GeometryDetailed\<rparr>
      else if kind = TextureModel then
        tripo3d_options_default\<lparr>to_style := True, to_texture_quality := TextureExtreme\<rparr>
      else tripo3d_options_default)"

lemma tripo3d_max_attained:
  "tripo3d_family_max_credits kind = Some m \<Longrightarrow> tripo3d_task_credits kind None (dearest_options kind) = Some m"
  by (cases kind) (auto simp: dearest_options_def generation_task_credits_def Let_def version_or_def
      DEFAULT_GENERATION_VERSION_def DEFAULT_IMAGE_VERSION_def tripo3d_versions generation_tier_of_def
      generation_credits_def texture_model_credits_def flat_credits_Some flat_version_ok_def
      version_independent_def tripo3d_options_default_def)

text \<open>The Tripo3D reserve is exactly as wide as the published card. A request is refused exactly
  when its kind is priced per unit, is the conflicted \<open>highpoly_to_lowpoly\<close>, or carries a version
  outside the reviewed set of its kind. An exact reserve is the published price of the combination; a
  conservative one is the family maximum, which is at least every published price of the kind under
  any version and options and is itself the price of some combination. Wire names and kinds
  correspond one to one.\<close>

lemma tripo3d_reserve_is_tight:
  "(tripo3d_reserve_credits kind v opts = None
      \<longleftrightarrow> is_per_unit kind \<or> kind = HighpolyToLowpoly \<or> \<not> version_admitted kind v)
   \<and> (case tripo3d_reserve_credits kind v opts of
        None \<Rightarrow> tripo3d_task_credits kind v opts = None
      | Some r \<Rightarrow> 0 \<le> tr_credits r
          \<and> (if tr_conservative r
             then tripo3d_task_credits kind v opts = None
               \<and> (\<forall>v' opts' c. tripo3d_task_credits kind v' opts' = Some c \<longrightarrow> c \<le> tr_credits r)
               \<and> (\<exists>v' opts'. tripo3d_task_credits kind v' opts' = Some (tr_credits r))
             else tripo3d_task_credits kind v opts = Some (tr_credits r)))
   \<and> (from_wire w = Some kind \<longleftrightarrow> w = as_wire kind)"
proof (cases "tripo3d_task_credits kind v opts")
  case (Some c)
  then show ?thesis
    using tripo3d_task_bounded [OF Some] by (simp add: tripo3d_reserve_credits_def wire_roundtrip)
next
  case None
  show ?thesis
  proof (cases "is_per_unit kind \<or> kind = HighpolyToLowpoly \<or> \<not> version_admitted kind v")
    case True
    then show ?thesis using None by (auto simp: tripo3d_reserve_credits_def wire_roundtrip)
  next
    case False
    then obtain m where m: "tripo3d_family_max_credits kind = Some m"
      by (cases kind) (simp_all add: is_per_unit_def)
    have "c \<le> m" if "tripo3d_task_credits kind v' opts' = Some c" for v' opts' c
      using tripo3d_task_bounded [OF that] m by simp
    then show ?thesis
      using None False m tripo3d_max_attained [OF m] tripo3d_task_bounded [OF tripo3d_max_attained [OF m]]
      by (auto simp: tripo3d_reserve_credits_def wire_roundtrip)
  qed
qed

end
