(* ===== verification/Tariff_Admin.thy ===== *)
theory Tariff_Admin
  imports Tariff_Book Metering_Anthropic Metering_Codex Metering_Gemini Metering_Glm Metering_Kimi
    Metering_Media "HOL-Library.List_Lexorder" "HOL-Library.Char_ord"
begin

text \<open>
  \<open>src/crates/server/src/tariff_admin.rs\<close>, the tariff endpoints of \<open>src/crates/server/src/admin.rs\<close>,
  and the converters of \<open>src/crates/forward/src/pricing/tariff_book.rs\<close>: the compiled price
  constants of every provider as override payloads, the seeding of the override table from them,
  and the publication of an operator's override.

  The table may change between the steps of a handler: a read is the table of an earlier moment,
  and the publications of other processes that fall between two inserts are arguments.
\<close>

section \<open>Mirror structs to price structs\<close>

definition anthropic_prices :: "anthropic_tariff_prices \<Rightarrow> prices" where
  "anthropic_prices p = \<lparr>pr_input = ta_input p, pr_output = ta_output p, pr_cache_read = ta_cache_read p,
     pr_cache_write_5m = ta_cache_write_5m p, pr_cache_write_1h = ta_cache_write_1h p\<rparr>"

definition codex_prices_of_mirror :: "codex_tariff_prices \<Rightarrow> codex_prices" where
  "codex_prices_of_mirror p = \<lparr>xp_input = tx_input p, xp_cached_input = tx_cached_input p, xp_cache_write_input =
     tx_cache_write_input p, xp_output = tx_output p,
     xp_api_fast_multiplier_basis_points = tx_api_fast_multiplier_basis_points p,
     xp_long_context_threshold = tx_long_context_threshold p, xp_long_input_basis_points
     = tx_long_input_basis_points p, xp_long_output_basis_points =
     tx_long_output_basis_points p\<rparr>"

definition codex_credit_rates_of_mirror :: "codex_tariff_credit_rates \<Rightarrow> codex_credit_rates" where
  "codex_credit_rates_of_mirror p = \<lparr>xr_input = tc_input p, xr_cached_input = tc_cached_input p, xr_output = tc_output p\<rparr>"

definition gemini_prices_of_mirror :: "gemini_tariff_prices \<Rightarrow> gemini_prices" where
  "gemini_prices_of_mirror p = \<lparr>mp_input = tg_input p, mp_audio_input = tg_audio_input p, mp_cached_input =
     tg_cached_input p, mp_cached_audio_input = tg_cached_audio_input p, mp_output =
     tg_output p, mp_image_output = tg_image_output p, mp_long_context_threshold =
     tg_long_context_threshold p, mp_long_input = tg_long_input p, mp_long_audio_input =
     tg_long_audio_input p, mp_long_cached_input = tg_long_cached_input p,
     mp_long_cached_audio_input = tg_long_cached_audio_input p, mp_long_output =
     tg_long_output p, mp_search = (case tg_search p of TariffPerQuery nano
     \<Rightarrow> PerQuery nano | TariffPerGroundedPrompt nano \<Rightarrow>
     PerGroundedPrompt nano)\<rparr>"

definition glm_prices_of_mirror :: "glm_tariff_prices \<Rightarrow> glm_prices" where
  "glm_prices_of_mirror p = \<lparr>gp_cached_input = tl_cached_input p, gp_input = tl_input p, gp_cache_write =
     tl_cache_write p, gp_output = tl_output p\<rparr>"

definition glm_credit_rates_of_mirror :: "glm_tariff_credit_rates \<Rightarrow> glm_credit_rates" where
  "glm_credit_rates_of_mirror p = \<lparr>gr_input_tenths = tm_input_tenths p, gr_cached_input_tenths = tm_cached_input_tenths p,
     gr_output_tenths = tm_output_tenths p\<rparr>"

definition kimi_prices_of_mirror :: "kimi_tariff_prices \<Rightarrow> kimi_prices" where
  "kimi_prices_of_mirror p = \<lparr>kp_cached_input = tk_cached_input p, kp_input = tk_input p, kp_cache_write =
     tk_cache_write p, kp_output = tk_output p\<rparr>"

definition openai_image_prices_of_mirror :: "openai_image_tariff_prices \<Rightarrow> openai_image_prices" where
  "openai_image_prices_of_mirror p = \<lparr>ip_fresh_text_input = ti_fresh_text_input p, ip_cached_text_input = ti_cached_text_input
     p, ip_fresh_image_input = ti_fresh_image_input p, ip_cached_image_input =
     ti_cached_image_input p, ip_image_output = ti_image_output p\<rparr>"

fun as_anthropic :: "tariff_override_payload \<Rightarrow> prices option" where
  "as_anthropic (PAnthropic p) = Some (anthropic_prices p)"
| "as_anthropic _ = None"

fun as_codex :: "tariff_override_payload \<Rightarrow> codex_prices option" where
  "as_codex (PCodex p) = Some (codex_prices_of_mirror p)"
| "as_codex _ = None"

fun as_codex_credits :: "tariff_override_payload \<Rightarrow> codex_credit_rates option" where
  "as_codex_credits (PCodexCredits p) = Some (codex_credit_rates_of_mirror p)"
| "as_codex_credits _ = None"

fun as_gemini :: "tariff_override_payload \<Rightarrow> gemini_prices option" where
  "as_gemini (PGemini p) = Some (gemini_prices_of_mirror p)"
| "as_gemini _ = None"

fun as_glm :: "tariff_override_payload \<Rightarrow> glm_prices option" where
  "as_glm (PGlm p) = Some (glm_prices_of_mirror p)"
| "as_glm _ = None"

fun as_glm_credits :: "tariff_override_payload \<Rightarrow> glm_credit_rates option" where
  "as_glm_credits (PGlmCredits p) = Some (glm_credit_rates_of_mirror p)"
| "as_glm_credits _ = None"

fun as_kimi :: "tariff_override_payload \<Rightarrow> kimi_prices option" where
  "as_kimi (PKimi p) = Some (kimi_prices_of_mirror p)"
| "as_kimi _ = None"

fun as_openai_image :: "tariff_override_payload \<Rightarrow> openai_image_prices option" where
  "as_openai_image (POpenAiImage p) = Some (openai_image_prices_of_mirror p)"
| "as_openai_image _ = None"

section \<open>Compiled constants to mirror structs\<close>

definition anthropic_payload :: "prices \<Rightarrow> anthropic_tariff_prices" where
  "anthropic_payload p = \<lparr>ta_input = pr_input p, ta_output = pr_output p, ta_cache_read = pr_cache_read p,
     ta_cache_write_5m = pr_cache_write_5m p, ta_cache_write_1h = pr_cache_write_1h p\<rparr>"

definition codex_payload :: "codex_prices \<Rightarrow> codex_tariff_prices" where
  "codex_payload p = \<lparr>tx_input = xp_input p, tx_cached_input = xp_cached_input p, tx_cache_write_input =
     xp_cache_write_input p, tx_output = xp_output p,
     tx_api_fast_multiplier_basis_points = xp_api_fast_multiplier_basis_points p,
     tx_long_context_threshold = xp_long_context_threshold p, tx_long_input_basis_points
     = xp_long_input_basis_points p, tx_long_output_basis_points =
     xp_long_output_basis_points p\<rparr>"

definition codex_credit_payload :: "codex_credit_rates \<Rightarrow> codex_tariff_credit_rates" where
  "codex_credit_payload p = \<lparr>tc_input = xr_input p, tc_cached_input = xr_cached_input p, tc_output = xr_output p\<rparr>"

definition gemini_payload :: "gemini_prices \<Rightarrow> gemini_tariff_prices" where
  "gemini_payload p = \<lparr>tg_input = mp_input p, tg_audio_input = mp_audio_input p, tg_cached_input =
     mp_cached_input p, tg_cached_audio_input = mp_cached_audio_input p, tg_output =
     mp_output p, tg_image_output = mp_image_output p, tg_long_context_threshold =
     mp_long_context_threshold p, tg_long_input = mp_long_input p, tg_long_audio_input =
     mp_long_audio_input p, tg_long_cached_input = mp_long_cached_input p,
     tg_long_cached_audio_input = mp_long_cached_audio_input p, tg_long_output =
     mp_long_output p, tg_search = (case mp_search p of PerQuery nano \<Rightarrow>
     TariffPerQuery nano | PerGroundedPrompt nano \<Rightarrow> TariffPerGroundedPrompt
     nano)\<rparr>"

definition glm_payload :: "glm_prices \<Rightarrow> glm_tariff_prices" where
  "glm_payload p = \<lparr>tl_cached_input = gp_cached_input p, tl_input = gp_input p, tl_cache_write =
     gp_cache_write p, tl_output = gp_output p\<rparr>"

definition glm_credit_payload :: "glm_credit_rates \<Rightarrow> glm_tariff_credit_rates" where
  "glm_credit_payload p = \<lparr>tm_input_tenths = gr_input_tenths p, tm_cached_input_tenths = gr_cached_input_tenths p,
     tm_output_tenths = gr_output_tenths p\<rparr>"

definition kimi_payload :: "kimi_prices \<Rightarrow> kimi_tariff_prices" where
  "kimi_payload p = \<lparr>tk_cached_input = kp_cached_input p, tk_input = kp_input p, tk_cache_write =
     kp_cache_write p, tk_output = kp_output p\<rparr>"

definition openai_image_payload :: "openai_image_prices \<Rightarrow> openai_image_tariff_prices" where
  "openai_image_payload p = \<lparr>ti_fresh_text_input = ip_fresh_text_input p, ti_cached_text_input = ip_cached_text_input
     p, ti_fresh_image_input = ip_fresh_image_input p, ti_cached_image_input =
     ip_cached_image_input p, ti_image_output = ip_image_output p\<rparr>"

record 'v compiled_tariff_t =
  ct_tariff_family :: string
  ct_payload :: 'v
  ct_has_future_epoch :: bool
  ct_seed_safe :: bool

definition compiled_tariff :: "string \<Rightarrow> 'v \<Rightarrow> 'v compiled_tariff_t" where
  "compiled_tariff tariff_family payload = \<lparr>ct_tariff_family = tariff_family, ct_payload = payload,
     ct_has_future_epoch = False, ct_seed_safe = True\<rparr>"

text \<open>The catalogue before the final sort, in the order it is pushed.\<close>

definition compiled_tariffs_pushed :: "'v tariff_env \<Rightarrow> i64 \<Rightarrow> 'v compiled_tariff_t list" where
  "compiled_tariffs_pushed E now_unix =
     map (\<lambda>(family, prices). compiled_tariff family (enc_anthropic E (anthropic_payload prices)))
       (anthropic_compiled_tariffs_at now_unix)
     @ map (\<lambda>(family, prices). \<lparr>ct_tariff_family = family, ct_payload = enc_codex E (codex_payload prices),
         ct_has_future_epoch = codex_tariff_has_future_epoch_at family now_unix,
         ct_seed_safe = codex_tariff_seed_safe family\<rparr>)
       (codex_compiled_tariffs_at now_unix)
     @ map (\<lambda>(family, rates). compiled_tariff family (enc_codex_credits E (codex_credit_payload rates)))
       codex_compiled_credit_rates
     @ map (\<lambda>(family, prices). \<lparr>ct_tariff_family = family, ct_payload = enc_gemini E (gemini_payload prices),
         ct_has_future_epoch = gemini_tariff_has_future_epoch_at family now_unix,
         ct_seed_safe = gemini_tariff_seed_safe family\<rparr>)
       (gemini_compiled_tariffs_at now_unix)
     @ map (\<lambda>(family, prices). \<lparr>ct_tariff_family = family, ct_payload = enc_glm E (glm_payload prices),
         ct_has_future_epoch = glm_tariff_has_future_epoch_at family now_unix,
         ct_seed_safe = glm_tariff_seed_safe family\<rparr>)
       (glm_compiled_tariffs_at now_unix)
     @ map (\<lambda>(family, rates). compiled_tariff family (enc_glm_credits E (glm_credit_payload rates)))
       glm_compiled_credit_rates
     @ map (\<lambda>(family, prices). \<lparr>ct_tariff_family = family, ct_payload = enc_kimi E (kimi_payload prices),
         ct_has_future_epoch = kimi_tariff_has_future_epoch_at family now_unix,
         ct_seed_safe = kimi_tariff_seed_safe family\<rparr>)
       (kimi_compiled_tariffs_at now_unix)
     @ [compiled_tariff (fst openai_image_compiled_tariff)
          (enc_openai_image E (openai_image_payload (snd openai_image_compiled_tariff)))]"

definition compiled_tariff_catalog_at :: "'v tariff_env \<Rightarrow> i64 \<Rightarrow> 'v compiled_tariff_t list" where
  "compiled_tariff_catalog_at E now_unix = sort_key ct_tariff_family (compiled_tariffs_pushed E now_unix)"

definition ensure_seed_safe :: "'v compiled_tariff_t list \<Rightarrow> string list + unit" where
  "ensure_seed_safe targets =
     (let unsafe_families = map ct_tariff_family (filter (\<lambda>entry. \<not> ct_seed_safe entry) targets)
      in if unsafe_families = [] then Inr () else Inl unsafe_families)"

definition family_head_version :: "'v tariff_override list \<Rightarrow> string \<Rightarrow> i64" where
  "family_head_version rows family = (case family_head rows family of None \<Rightarrow> 1 | Some v \<Rightarrow> v)"

section \<open>The endpoints\<close>

datatype 'v seed_outcome =
    SeedRefused string i64
  | SeedInserted string "'v tariff_override"
  | SeedUnchanged string "'v tariff_override"
  | SeedRejected string tariff_override_rejection

datatype 'v admin_response =
    InvalidPricingRequest
  | BillingAbsent
  | AuthorityUnavailable
  | OverrideResponse nat "'v tariff_override_insert_outcome"
  | SeedResponse nat "'v seed_outcome list"

definition valid_attribution :: "string \<Rightarrow> bool" where
  "valid_attribution value \<longleftrightarrow> value \<noteq> [] \<and> trim value = value"

definition tariff_override_outcome_response :: "'v tariff_override_insert_outcome \<Rightarrow> 'v admin_response" where
  "tariff_override_outcome_response outcome =
     OverrideResponse
       (case outcome of
          Rejected (Invalid _) \<Rightarrow> 400 | Rejected (Conflict _ _) \<Rightarrow> 409
        | Rejected (SequenceViolation _) \<Rightarrow> 409 | _ \<Rightarrow> 200) outcome"

record 'v tariff_override_req =
  rq_tariff_family :: string
  rq_effective_from :: i64
  rq_payload :: 'v
  rq_created_by :: string
  rq_reason :: string

definition insert_of_req :: "'v tariff_override_req \<Rightarrow> i64 \<Rightarrow> 'v tariff_override_insert" where
  "insert_of_req req version = \<lparr>in_tariff_family = rq_tariff_family req, in_version = version,
     in_effective_from = rq_effective_from req, in_payload = rq_payload req,
     in_created_by = rq_created_by req, in_reason = rq_reason req\<rparr>"

text \<open>The two attempts: \<open>t1\<close> and \<open>t2\<close> are the writer's clock at the inserts, \<open>others\<close> what other
  processes publish between them.\<close>

definition publish_attempts ::
    "'v tariff_env \<Rightarrow> i64 \<Rightarrow> (i64 \<times> 'v tariff_override_insert) list \<Rightarrow> i64 \<Rightarrow> 'v tariff_override_req
      \<Rightarrow> i64 \<Rightarrow> 'v tariff_override list \<Rightarrow> 'v admin_response \<times> 'v tariff_override list" where
  "publish_attempts E t1 others t2 req version tbl =
     (case postgres_insert_tariff_override E t1 tbl (insert_of_req req version) of
        (Inr (Rejected (SequenceViolation next)), tbl1) \<Rightarrow>
          (case postgres_insert_tariff_override E t2 (fold (publish E) others tbl1)
                  (insert_of_req req next) of
             (Inr outcome, tbl2) \<Rightarrow> (tariff_override_outcome_response outcome, tbl2)
           | (Inl _, tbl2) \<Rightarrow> (AuthorityUnavailable, tbl2))
      | (Inr outcome, tbl1) \<Rightarrow> (tariff_override_outcome_response outcome, tbl1)
      | (Inl _, tbl1) \<Rightarrow> (AuthorityUnavailable, tbl1))"

definition publish_tariff_override ::
    "'v tariff_env \<Rightarrow> i64 \<Rightarrow> bool \<Rightarrow> tariff_store_error + 'v tariff_override list \<Rightarrow> i64
      \<Rightarrow> (i64 \<times> 'v tariff_override_insert) list \<Rightarrow> i64 \<Rightarrow> 'v tariff_override_req
      \<Rightarrow> 'v tariff_override list \<Rightarrow> 'v admin_response \<times> 'v tariff_override list" where
  "publish_tariff_override E now_unix billing listed t1 others t2 req tbl =
     (if validate_tariff_family (rq_tariff_family req) \<noteq> Inr () then (InvalidPricingRequest, tbl)
      else if \<not> valid_attribution (rq_created_by req) \<or> \<not> valid_attribution (rq_reason req)
      then (InvalidPricingRequest, tbl)
      else
        (case parse_tariff_override_payload E (rq_tariff_family req) (rq_payload req) of
           Inl _ \<Rightarrow> (InvalidPricingRequest, tbl)
         | Inr _ \<Rightarrow>
             if rq_effective_from req < now_unix - TARIFF_OVERRIDE_CLOCK_SKEW_GRACE_SECS
             then (InvalidPricingRequest, tbl)
             else if \<not> billing then (BillingAbsent, tbl)
             else
               (case listed of
                  Inl _ \<Rightarrow> (AuthorityUnavailable, tbl)
                | Inr rows \<Rightarrow>
                    publish_attempts E t1 others t2 req
                      (family_head_version rows (rq_tariff_family req) + 1) tbl)))"

record tariff_seed_req =
  sq_created_by :: string
  sq_reason :: string
  sq_tariff_family :: "string option"

text \<open>One pass over the targets: \<open>rows\<close> is the read before the loop, and before the insert of each
  target the publications of others and the writer's clock are taken from \<open>around\<close>.\<close>

fun seed_targets ::
    "'v tariff_env \<Rightarrow> 'v tariff_override list \<Rightarrow> (string \<Rightarrow> (i64 \<times> 'v tariff_override_insert) list \<times> i64)
      \<Rightarrow> tariff_seed_req \<Rightarrow> 'v compiled_tariff_t list \<Rightarrow> bool \<Rightarrow> 'v seed_outcome list
      \<Rightarrow> 'v tariff_override list \<Rightarrow> 'v admin_response \<times> 'v tariff_override list" where
  "seed_targets E rows around req [] conflict outcomes tbl =
     (SeedResponse (if conflict then 409 else 200) outcomes, tbl)"
| "seed_targets E rows around req (target # targets) conflict outcomes tbl =
     (let family = ct_tariff_family target; head = family_head_version rows family
      in if 2 < head
         then seed_targets E rows around req targets True (outcomes @ [SeedRefused family head]) tbl
         else
           (case postgres_insert_tariff_override E (snd (around family))
                   (fold (publish E) (fst (around family)) tbl)
                   \<lparr>in_tariff_family = family, in_version = 2, in_effective_from = 0,
                    in_payload = ct_payload target, in_created_by = sq_created_by req,
                    in_reason = sq_reason req\<rparr> of
              (Inr (Inserted row), tbl') \<Rightarrow>
                seed_targets E rows around req targets conflict (outcomes @ [SeedInserted family row]) tbl'
            | (Inr (Unchanged row), tbl') \<Rightarrow>
                seed_targets E rows around req targets conflict (outcomes @ [SeedUnchanged family row]) tbl'
            | (Inr (Rejected rejection), tbl') \<Rightarrow>
                seed_targets E rows around req targets True (outcomes @ [SeedRejected family rejection]) tbl'
            | (Inl _, tbl') \<Rightarrow> (AuthorityUnavailable, tbl')))"

definition seed_tariff_overrides ::
    "'v tariff_env \<Rightarrow> i64 \<Rightarrow> bool \<Rightarrow> tariff_store_error + 'v tariff_override list
      \<Rightarrow> (string \<Rightarrow> (i64 \<times> 'v tariff_override_insert) list \<times> i64) \<Rightarrow> tariff_seed_req
      \<Rightarrow> 'v tariff_override list \<Rightarrow> 'v admin_response \<times> 'v tariff_override list" where
  "seed_tariff_overrides E now_unix billing listed around req tbl =
     (if \<not> valid_attribution (sq_created_by req) \<or> \<not> valid_attribution (sq_reason req)
      then (InvalidPricingRequest, tbl)
      else
        (let catalog = compiled_tariff_catalog_at E now_unix;
             selected = (case sq_tariff_family req of
                 Some family \<Rightarrow> (case List.find (\<lambda>entry. ct_tariff_family entry = family) catalog of
                     Some entry \<Rightarrow> Some [entry] | None \<Rightarrow> None)
               | None \<Rightarrow> Some catalog)
         in case selected of
              None \<Rightarrow> (InvalidPricingRequest, tbl)
            | Some targets \<Rightarrow>
                (case ensure_seed_safe targets of
                   Inl _ \<Rightarrow> (InvalidPricingRequest, tbl)
                 | Inr _ \<Rightarrow>
                     if \<not> billing then (BillingAbsent, tbl)
                     else
                       (case listed of
                          Inl _ \<Rightarrow> (AuthorityUnavailable, tbl)
                        | Inr rows \<Rightarrow> seed_targets E rows around req targets False [] tbl))))"

section \<open>The converters\<close>

lemma converters_inverse:
  "anthropic_prices (anthropic_payload a) = a" "codex_prices_of_mirror (codex_payload x) = x"
  "codex_credit_rates_of_mirror (codex_credit_payload c) = c" "gemini_prices_of_mirror (gemini_payload m) = m"
  "glm_prices_of_mirror (glm_payload g) = g" "glm_credit_rates_of_mirror (glm_credit_payload l) = l"
  "kimi_prices_of_mirror (kimi_payload k) = k" "openai_image_prices_of_mirror (openai_image_payload i) = i"
  by (simp_all add: anthropic_prices_def anthropic_payload_def codex_prices_of_mirror_def codex_payload_def
      codex_credit_rates_of_mirror_def codex_credit_payload_def gemini_prices_of_mirror_def gemini_payload_def glm_prices_of_mirror_def
      glm_payload_def glm_credit_rates_of_mirror_def glm_credit_payload_def kimi_prices_of_mirror_def kimi_payload_def
      openai_image_prices_of_mirror_def openai_image_payload_def split: gemini_search_billing.split)

section \<open>The compiled catalogue\<close>

text \<open>The part of the catalogue that prices under one schema.\<close>

fun catalog_part :: "'v tariff_env \<Rightarrow> i64 \<Rightarrow> family_schema \<Rightarrow> (string \<times> tariff_override_payload \<times> bool) list" where
  "catalog_part E t KAnthropic =
     map (\<lambda>(f, p). (f, PAnthropic (anthropic_payload p), True)) (anthropic_compiled_tariffs_at t)"
| "catalog_part E t KCodex =
     map (\<lambda>(f, p). (f, PCodex (codex_payload p), codex_tariff_seed_safe f)) (codex_compiled_tariffs_at t)"
| "catalog_part E t KCodexCredits =
     map (\<lambda>(f, p). (f, PCodexCredits (codex_credit_payload p), True)) codex_compiled_credit_rates"
| "catalog_part E t KGemini =
     map (\<lambda>(f, p). (f, PGemini (gemini_payload p), gemini_tariff_seed_safe f)) (gemini_compiled_tariffs_at t)"
| "catalog_part E t KGlm =
     map (\<lambda>(f, p). (f, PGlm (glm_payload p), glm_tariff_seed_safe f)) (glm_compiled_tariffs_at t)"
| "catalog_part E t KGlmCredits =
     map (\<lambda>(f, p). (f, PGlmCredits (glm_credit_payload p), True)) glm_compiled_credit_rates"
| "catalog_part E t KKimi =
     map (\<lambda>(f, p). (f, PKimi (kimi_payload p), kimi_tariff_seed_safe f)) (kimi_compiled_tariffs_at t)"
| "catalog_part E t KOpenAiImage =
     [(fst openai_image_compiled_tariff, POpenAiImage (openai_image_payload (snd openai_image_compiled_tariff)), True)]"

lemma part_fits:
  assumes "entry \<in> set (map (\<lambda>(f, p). R f p) xs)"
    and "\<And>f p. ct_tariff_family (R f p) = f \<and> ct_payload (R f p) = to_canonical_value E (J p)
      \<and> ct_seed_safe (R f p) = s f"
  shows "\<exists>p. (ct_tariff_family entry, p, ct_seed_safe entry) \<in> set (map (\<lambda>(f, p). (f, J p, s f)) xs)
    \<and> ct_payload entry = to_canonical_value E p"
proof -
  obtain f p where "(f, p) \<in> set xs" "entry = R f p" using assms(1) by auto
  then show ?thesis using assms(2) [of f p] by (intro exI [of _ "J p"]) force
qed

lemma catalog_entry:
  assumes "entry \<in> set (compiled_tariff_catalog_at E t)"
  shows "\<exists>k p. (ct_tariff_family entry, p, ct_seed_safe entry) \<in> set (catalog_part E t k)
    \<and> ct_payload entry = to_canonical_value E p"
  using assms unfolding compiled_tariff_catalog_at_def compiled_tariffs_pushed_def set_sort set_append
  apply (elim UnE)
  subgoal by (rule exI [of _ KAnthropic], unfold catalog_part.simps, erule part_fits) (simp add: compiled_tariff_def)
  subgoal by (rule exI [of _ KCodex], unfold catalog_part.simps, erule part_fits) (simp add: compiled_tariff_def)
  subgoal by (rule exI [of _ KCodexCredits], unfold catalog_part.simps, erule part_fits) (simp add: compiled_tariff_def)
  subgoal by (rule exI [of _ KGemini], unfold catalog_part.simps, erule part_fits) (simp add: compiled_tariff_def)
  subgoal by (rule exI [of _ KGlm], unfold catalog_part.simps, erule part_fits) (simp add: compiled_tariff_def)
  subgoal by (rule exI [of _ KGlmCredits], unfold catalog_part.simps, erule part_fits) (simp add: compiled_tariff_def)
  subgoal by (rule exI [of _ KKimi], unfold catalog_part.simps, erule part_fits) (simp add: compiled_tariff_def)
  subgoal by (rule exI [of _ KOpenAiImage]) (simp add: compiled_tariff_def)
  done

lemmas kind_defs = family_kind_def strip_prefix_def starts_with_def require_family_segment_def

lemma anthropic_kinds:
  "\<forall>(f, p)\<in>set (anthropic_compiled_tariffs_at t). family_kind f = Some KAnthropic
     \<and> require_family_segment f ''anthropic/'' = Inr ()
     \<and> anthropic_tariff_validate (anthropic_payload p) = Inr ()"
  by (auto simp: anthropic_compiled_tariffs_at_def kind_defs anthropic_tariff_validate_def
      anthropic_payload_def require_non_negative_def price_tables split: if_splits)

lemma codex_kinds:
  "\<forall>e\<in>set CODEX_CATALOG. (family_kind (xc_tariff_family e) = Some KCodex
     \<and> require_family_segment (xc_tariff_family e) ''openai/codex/'' = Inr ())
     \<and> (\<forall>x\<in>set (xc_schedule e). codex_tariff_validate (codex_payload ((xe_prices \<circ> xi_epoch) x)) = Inr ()
        \<and> \<not> (tx_api_fast_multiplier_basis_points (codex_payload ((xe_prices \<circ> xi_epoch) x)) < 0
          \<or> tx_long_input_basis_points (codex_payload ((xe_prices \<circ> xi_epoch) x)) < 0
          \<or> tx_long_output_basis_points (codex_payload ((xe_prices \<circ> xi_epoch) x)) < 0))"
  by (simp add: codex_tables kind_defs codex_tariff_validate_def codex_payload_def require_non_negative_def)

lemma codex_credit_kinds:
  "\<forall>(f, p)\<in>set codex_compiled_credit_rates. family_kind f = Some KCodexCredits
     \<and> codex_credit_validate (codex_credit_payload p) = Inr ()"
  by (simp add: codex_compiled_credit_rates_def CODEX_CREDIT_FAMILY_def codex_tables push_new_family_def
      kind_defs codex_credit_validate_def codex_credit_payload_def require_non_negative_def)

lemma gemini_family_kinds:
  "\<forall>e\<in>set GEMINI_CATALOG. family_kind (mc_tariff_family e) = Some KGemini
     \<and> require_family_segment (mc_tariff_family e) ''google/gemini/'' = Inr ()"
  by (simp add: GEMINI_CATALOG_def gemini_row_def kind_defs)

lemma gemini_payload_valid:
  "gemini_prices_ok p \<Longrightarrow> gemini_tariff_validate (gemini_payload p) = Inr ()
     \<and> \<not> search_nano (tg_search (gemini_payload p)) < 0"
  by (simp add: gemini_prices_ok_def rate_ok_def gemini_tariff_validate_def gemini_payload_def
      require_non_negative_def search_nano_def split: gemini_search_billing.splits)

lemma gemini_kinds:
  "\<forall>e\<in>set GEMINI_CATALOG. (family_kind (mc_tariff_family e) = Some KGemini
     \<and> require_family_segment (mc_tariff_family e) ''google/gemini/'' = Inr ())
     \<and> (\<forall>x\<in>set (mc_schedule e). gemini_tariff_validate (gemini_payload (me_prices x)) = Inr ()
        \<and> \<not> search_nano (tg_search (gemini_payload (me_prices x))) < 0)"
  using gemini_family_kinds gemini_schedules_ok gemini_payload_valid by blast

lemma glm_kinds:
  "\<forall>e\<in>set GLM_CATALOG. (family_kind (gc_tariff_family e) = Some KGlm
     \<and> require_family_segment (gc_tariff_family e) ''zhipu/glm/'' = Inr ())
     \<and> (\<forall>x\<in>set (gc_schedule e). glm_tariff_validate (glm_payload (ge_prices x)) = Inr ())"
  by code_simp

lemma glm_credit_kinds:
  "\<forall>(f, p)\<in>set glm_compiled_credit_rates. family_kind f = Some KGlmCredits
     \<and> require_family_segment f ''zhipu/glm-credits/'' = Inr ()
     \<and> glm_credit_validate (glm_credit_payload p) = Inr ()"
  by code_simp

lemma kimi_kinds:
  "\<forall>e\<in>set KIMI_CATALOG. (family_kind (kc_tariff_family e) = Some KKimi
     \<and> require_family_segment (kc_tariff_family e) ''moonshot/kimi/'' = Inr ())
     \<and> (\<forall>x\<in>set (kc_schedule e). kimi_tariff_validate (kimi_payload (ke_prices x)) = Inr ())"
  by code_simp

lemma image_kind:
  "family_kind (fst openai_image_compiled_tariff) = Some KOpenAiImage
   \<and> openai_image_tariff_validate (openai_image_payload (snd openai_image_compiled_tariff)) = Inr ()"
  by code_simp

text \<open>Every entry parses as its own payload, under the schema of its part.\<close>

lemma catalog_part_accepted:
  assumes "codec_ok E" "(f, p, safe) \<in> set (catalog_part E t k)"
  shows "family_kind f = Some k \<and> parse_as E f (to_canonical_value E p) k = Inr p"
proof (cases k)
  case KAnthropic
  then show ?thesis using assms anthropic_kinds [of t] codec_decodes [OF assms(1)] by auto
next
  case KCodex
  then obtain x where x: "(f, x) \<in> set (codex_compiled_tariffs_at t)" "p = PCodex (codex_payload x)"
    using assms(2) by auto
  show ?thesis using codex.compiled_payload [OF x(1) codex_kinds] KCodex x(2) codec_decodes [OF assms(1)] by simp
next
  case KCodexCredits
  then show ?thesis using assms codex_credit_kinds codec_decodes [OF assms(1)] by auto
next
  case KGemini
  then obtain x where x: "(f, x) \<in> set (gemini_compiled_tariffs_at t)" "p = PGemini (gemini_payload x)"
    using assms(2) by auto
  show ?thesis using gemini.compiled_payload [OF x(1) gemini_kinds] KGemini x(2) codec_decodes [OF assms(1)] by simp
next
  case KGlm
  then obtain x where x: "(f, x) \<in> set (glm_compiled_tariffs_at t)" "p = PGlm (glm_payload x)"
    using assms(2) by auto
  show ?thesis using glm.compiled_payload [OF x(1) glm_kinds] KGlm x(2) codec_decodes [OF assms(1)] by simp
next
  case KGlmCredits
  then show ?thesis using assms glm_credit_kinds codec_decodes [OF assms(1)] by auto
next
  case KKimi
  then obtain x where x: "(f, x) \<in> set (kimi_compiled_tariffs_at t)" "p = PKimi (kimi_payload x)"
    using assms(2) by auto
  show ?thesis using kimi.compiled_payload [OF x(1) kimi_kinds] KKimi x(2) codec_decodes [OF assms(1)] by simp
next
  case KOpenAiImage
  then show ?thesis using assms image_kind codec_decodes [OF assms(1)] by auto
qed

text \<open>Every payload of the compiled catalogue, of every provider and at every instant, is accepted by
  the schema of its own family, and its canonical form is the payload itself.\<close>

lemma catalog_entry_accepted:
  assumes "codec_ok E" "entry \<in> set (compiled_tariff_catalog_at E t)"
  shows "\<exists>p. parse_tariff_override_payload E (ct_tariff_family entry) (ct_payload entry) = Inr p
    \<and> to_canonical_value E p = ct_payload entry"
  using catalog_entry [OF assms(2)] catalog_part_accepted [OF assms(1)] is_object_canonical [OF assms(1)]
  by (fastforce simp: parse_by_kind)

text \<open>A seed-safe entry has the same payload at every instant.\<close>

lemma fst_unique: "distinct (map fst xs) \<Longrightarrow> (f, p) \<in> set xs \<Longrightarrow> (f, p') \<in> set xs \<Longrightarrow> p = p'"
  by (metis eq_key_imp_eq_value)

lemma credit_families_distinct:
  "distinct (map fst codex_compiled_credit_rates)" "distinct (map fst glm_compiled_credit_rates)"
  by (simp add: codex_compiled_credit_rates_def codex_tables push_new_family_def) code_simp

lemma anthropic_family_price:
  "(f, p) \<in> set (anthropic_compiled_tariffs_at t) \<Longrightarrow> (f, p') \<in> set (anthropic_compiled_tariffs_at t') \<Longrightarrow> p = p'"
  by (auto simp: anthropic_compiled_tariffs_at_def split: if_splits)

lemma catalog_part_seed:
  assumes "(f, p, True) \<in> set (catalog_part E t k)" "(f, p', safe) \<in> set (catalog_part E t' k)"
  shows "p = p'"
proof (cases k)
  case KAnthropic
  then show ?thesis using assms by (auto dest: anthropic_family_price)
next
  case KCodexCredits
  then show ?thesis using assms by (auto dest: fst_unique [OF credit_families_distinct(1)])
next
  case KGlmCredits
  then show ?thesis using assms by (auto dest: fst_unique [OF credit_families_distinct(2)])
next
  case KCodex
  then show ?thesis using assms by (auto dest: codex.seed_unique)
next
  case KGemini
  then show ?thesis using assms by (auto dest: gemini.seed_unique)
next
  case KGlm
  then show ?thesis using assms by (auto dest: glm.seed_unique)
next
  case KKimi
  then show ?thesis using assms by (auto dest: kimi.seed_unique)
qed (use assms in simp)

lemma seed_safe_payload:
  assumes "codec_ok E" "entry \<in> set (compiled_tariff_catalog_at E t)" "ct_seed_safe entry"
    and "entry' \<in> set (compiled_tariff_catalog_at E t')" "ct_tariff_family entry' = ct_tariff_family entry"
  shows "ct_payload entry' = ct_payload entry"
proof -
  obtain k p where e: "(ct_tariff_family entry, p, True) \<in> set (catalog_part E t k)"
    "ct_payload entry = to_canonical_value E p" using catalog_entry [OF assms(2)] assms(3) by auto
  obtain k' p' where e': "(ct_tariff_family entry, p', ct_seed_safe entry') \<in> set (catalog_part E t' k')"
    "ct_payload entry' = to_canonical_value E p'" using catalog_entry [OF assms(4)] assms(5) by auto
  have "k' = k" using catalog_part_accepted [OF assms(1) e(1)] catalog_part_accepted [OF assms(1) e'(1)] by simp
  then show ?thesis using catalog_part_seed [OF e(1)] e' e(2) by auto
qed

section \<open>Seeding and publishing\<close>

lemma inserted_row:
  assumes "postgres_insert_tariff_override E now tbl ins = (Inr (Inserted row), tbl')"
  shows "tbl' = tbl @ [row] \<and> ov_tariff_family row = in_tariff_family ins
    \<and> ov_effective_from row = in_effective_from ins
    \<and> (\<exists>p. parse_tariff_override_payload E (in_tariff_family ins) (in_payload ins) = Inr p
        \<and> ov_payload row = to_canonical_value E p)"
  using assms unfolding postgres_insert_tariff_override_def insert_row_def Let_def
  by (auto split: sum.splits option.splits if_splits)

lemma unchanged_row:
  assumes "postgres_insert_tariff_override E now tbl ins = (Inr (Unchanged row), tbl')"
  shows "row \<in> set tbl \<and> ov_tariff_family row = in_tariff_family ins"
  using assms unfolding postgres_insert_tariff_override_def insert_row_def Let_def
  by (auto simp: tariff_override_from_row_def dest: find_Some_mem split: sum.splits option.splits if_splits)

text \<open>A version that is already in the table is never inserted and never a sequence violation.\<close>

lemma taken_version:
  assumes "List.find (\<lambda>r. ov_tariff_family r = in_tariff_family ins \<and> ov_version r = in_version ins) tbl = Some r"
  shows "case postgres_insert_tariff_override E now tbl ins of
      (Inr (Inserted _), _) \<Rightarrow> False | (Inr (Rejected (SequenceViolation _)), _) \<Rightarrow> False | _ \<Rightarrow> True"
  using assms unfolding postgres_insert_tariff_override_def Let_def
  by (auto split: sum.splits)

lemma family_head_version_next: "family_head_version rows f + 1 = next_version rows f"
  by (simp add: family_head_version_def next_version_def)

lemma family_head_listing:
  assumes "sequenced E tbl" "postgres_list_tariff_overrides E collate tbl = Inr rows"
  shows "family_head_version rows f + 1 = int (length (family_rows tbl f)) + 2"
proof -
  have "family_rows rows f = family_rows tbl f"
    using listing_family_rows [OF assms(1)] assms(2) list_sequenced [OF assms(1)] by auto
  then have "next_version rows f = next_version tbl f"
    by (simp add: next_version_def family_head_def family_rows_def)
  then show ?thesis using next_version_sequenced [OF assms(1)] by (simp add: family_head_version_next)
qed

lemma version_present:
  assumes "sequenced E tbl" "n < length (family_rows tbl f)"
  shows "\<exists>r. List.find (\<lambda>r. ov_tariff_family r = f \<and> ov_version r = int n + 2) tbl = Some r"
proof -
  let ?r = "family_rows tbl f ! n"
  have "map ov_version (family_rows tbl f) ! n = map (\<lambda>k. int k + 2) [0..<length (family_rows tbl f)] ! n"
    using assms(1) by (simp only: sequenced_def)
  then have "ov_version ?r = int n + 2" using assms(2) by simp
  moreover have "?r \<in> set (family_rows tbl f)" using assms(2) by (rule nth_mem)
  ultimately show ?thesis by (auto simp: family_rows_def find_None_iff intro: ccontr)
qed

lemma raced_attempt:
  assumes "List.find (\<lambda>r. ov_tariff_family r = rq_tariff_family req \<and> ov_version r = version) tbl = Some r"
    and "publish_attempts E t1 others t2 req version tbl = (OverrideResponse status outcome, tbl')"
  shows "outcome \<noteq> Inserted row"
  using taken_version [of "insert_of_req req version" tbl r E t1] assms
  by (auto simp: publish_attempts_def insert_of_req_def tariff_override_outcome_response_def
      split: prod.splits sum.splits tariff_override_insert_outcome.splits tariff_override_rejection.splits)

lemma seed_one:
  assumes "seed_targets E rows around req [entry] False [] tbl = (SeedResponse 200 outcomes, tbl')"
    and "fst (around (ct_tariff_family entry)) = []" "family_rows tbl (ct_tariff_family entry) = []"
  obtains row p where "tbl' = tbl @ [row]" "ov_tariff_family row = ct_tariff_family entry"
    "ov_effective_from row = 0"
    "parse_tariff_override_payload E (ct_tariff_family entry) (ct_payload entry) = Inr p"
    "ov_payload row = to_canonical_value E p"
proof -
  let ?ins = "\<lparr>in_tariff_family = ct_tariff_family entry, in_version = 2, in_effective_from = 0,
    in_payload = ct_payload entry, in_created_by = sq_created_by req, in_reason = sq_reason req\<rparr>"
  obtain res tbl1 where i: "postgres_insert_tariff_override E (snd (around (ct_tariff_family entry))) tbl ?ins
      = (res, tbl1)" by fastforce
  show thesis
  proof (cases "\<exists>row. res = Inr (Inserted row)")
    case True
    then obtain row where r: "res = Inr (Inserted row)" by blast
    then show thesis
      using inserted_row [OF i [unfolded r]] assms(1,2) i that by (auto simp: Let_def split: if_splits)
  next
    case False
    moreover have "res \<noteq> Inr (Unchanged row)" for row
      using unchanged_row [of E _ tbl ?ins row tbl1] i assms(3) by (auto simp: family_rows_def filter_empty_conv)
    ultimately show thesis
      using assms(1,2) i
      by (auto simp: Let_def split: if_splits sum.splits tariff_override_insert_outcome.splits)
  qed
qed

lemma seed_request_entry:
  assumes "seed_tariff_overrides E now billing listed around req tbl = (SeedResponse status outcomes, tbl')"
    and "sq_tariff_family req = Some family"
  obtains entry rows where "entry \<in> set (compiled_tariff_catalog_at E now)" "ct_tariff_family entry = family"
    "ct_seed_safe entry" "seed_targets E rows around req [entry] False [] tbl = (SeedResponse status outcomes, tbl')"
proof -
  have "\<exists>entry rows. List.find (\<lambda>entry. ct_tariff_family entry = family) (compiled_tariff_catalog_at E now) = Some entry
      \<and> ct_seed_safe entry \<and> seed_targets E rows around req [entry] False [] tbl = (SeedResponse status outcomes, tbl')"
    using assms unfolding seed_tariff_overrides_def ensure_seed_safe_def Let_def
    by (auto simp del: seed_targets.simps split: if_splits option.splits sum.splits)
  then show ?thesis using that by (blast dest: find_Some_mem)
qed

text \<open>Example requests: seeding the image family, and an operator whose read was overtaken.\<close>

definition image_entry :: "'v tariff_env \<Rightarrow> 'v compiled_tariff_t" where
  "image_entry E = compiled_tariff (fst openai_image_compiled_tariff)
     (enc_openai_image E (openai_image_payload (snd openai_image_compiled_tariff)))"

lemma image_entry_listed: "image_entry E \<in> set (compiled_tariff_catalog_at E t)"
  by (simp add: image_entry_def compiled_tariff_catalog_at_def compiled_tariffs_pushed_def)

lemma image_family: "fst openai_image_compiled_tariff = ''openai/gpt-image-2''"
  by (simp add: openai_image_compiled_tariff_def OPENAI_IMAGE_TARIFF_FAMILY_def)

definition example_seed :: tariff_seed_req where
  "example_seed = \<lparr>sq_created_by = ''op'', sq_reason = ''price'', sq_tariff_family = Some ''openai/gpt-image-2''\<rparr>"

lemma image_entry_found:
  assumes "codec_ok E"
  shows "\<exists>e. List.find (\<lambda>entry. ct_tariff_family entry = ''openai/gpt-image-2'') (compiled_tariff_catalog_at E t) = Some e
    \<and> ct_seed_safe e \<and> ct_tariff_family e = ''openai/gpt-image-2'' \<and> ct_payload e = ct_payload (image_entry E)"
proof -
  have fam: "ct_tariff_family (image_entry E) = ''openai/gpt-image-2''" "ct_seed_safe (image_entry E)"
    by (simp_all add: image_entry_def compiled_tariff_def image_family)
  then obtain e where f: "List.find (\<lambda>entry. ct_tariff_family entry = ''openai/gpt-image-2'') (compiled_tariff_catalog_at E t) = Some e"
    using image_entry_listed [of E t] by (fastforce simp: find_None_iff)
  then have e: "e \<in> set (compiled_tariff_catalog_at E t)" "ct_tariff_family e = ''openai/gpt-image-2''"
    using find_Some_mem by fastforce+
  obtain k p where k: "(ct_tariff_family e, p, ct_seed_safe e) \<in> set (catalog_part E t k)"
    using catalog_entry [OF e(1)] by blast
  have "k = KOpenAiImage"
    using catalog_part_accepted [OF assms k] image_kind e(2) image_family by simp
  then have "ct_seed_safe e" using k by simp
  then show ?thesis using f e fam seed_safe_payload [OF assms image_entry_listed fam(2) e(1)] by simp
qed

lemma example_image_insert:
  "postgres_insert_tariff_override payload_env 7 [] \<lparr>in_tariff_family = ''openai/gpt-image-2'', in_version = 2,
      in_effective_from = 0, in_payload = ct_payload (image_entry payload_env),
      in_created_by = ''op'', in_reason = ''price''\<rparr> = (Inr (Inserted row), [row])"
  if "row = \<lparr>ov_tariff_family = ''openai/gpt-image-2'', ov_version = 2, ov_effective_from = 0,
      ov_payload = ct_payload (image_entry payload_env),
      ov_payload_digest = ''sha256:v2:'' @ replicate 64 CHR ''0'', ov_created_ts = 7,
      ov_created_by = ''op'', ov_reason = ''price''\<rparr>"
proof -
  have fam: "validate_tariff_family ''openai/gpt-image-2'' = Inr ()"
    by (simp add: validate_tariff_family_def family_byte_def is_ascii_lowercase_def is_ascii_digit_def)
  obtain p where p: "parse_tariff_override_payload payload_env ''openai/gpt-image-2'' (ct_payload (image_entry payload_env)) = Inr p"
    "to_canonical_value payload_env p = ct_payload (image_entry payload_env)"
    using catalog_entry_accepted [OF payload_env_codec image_entry_listed]
    by (auto simp: image_entry_def compiled_tariff_def image_family)
  have "row_checks row"
    unfolding that by (simp add: row_checks_def fam starts_with_def hex_char_def is_ascii_digit_def list_all_iff)
  then show ?thesis
    using that p
    by (simp add: postgres_insert_tariff_override_def validate_tariff_override_insert_def fam example_ids
        example_digest insert_row_def family_head_def Let_def in_i32_def)
qed

lemma example_seeding:
  "\<exists>outcomes tbl'. seed_tariff_overrides payload_env 5 True (Inr []) (\<lambda>_. ([], 7)) example_seed []
    = (SeedResponse 200 outcomes, tbl')"
proof -
  obtain e where e: "List.find (\<lambda>entry. ct_tariff_family entry = ''openai/gpt-image-2'')
      (compiled_tariff_catalog_at payload_env 5) = Some e" "ct_seed_safe e"
    "ct_tariff_family e = ''openai/gpt-image-2''" "ct_payload e = ct_payload (image_entry payload_env)"
    using image_entry_found [OF payload_env_codec] by blast
  have "valid_attribution ''op''" "valid_attribution ''price''"
    by (simp_all add: valid_attribution_def trim_printable printable_def)
  then show ?thesis
    by (simp add: seed_tariff_overrides_def example_seed_def e ensure_seed_safe_def family_head_version_def
        family_head_def example_image_insert [OF refl] Let_def)
qed

definition example_req :: "tariff_override_payload tariff_override_req" where
  "example_req = \<lparr>rq_tariff_family = ''moonshot/kimi/k3'', rq_effective_from = 120,
     rq_payload = example_payload 7, rq_created_by = ''op'', rq_reason = ''price''\<rparr>"

lemma example_race:
  "publish_tariff_override payload_env 120 True (Inr []) 120 [] 121 example_req [example_row 100 2 100 5]
    = (OverrideResponse 409 (Rejected (Conflict (''sha256:v2:'' @ replicate 64 CHR ''0'') 100)),
       [example_row 100 2 100 5])"
proof -
  have att: "valid_attribution ''op''" "valid_attribution ''price''"
    by (simp_all add: valid_attribution_def trim_printable printable_def)
  have "postgres_insert_tariff_override payload_env 120 [example_row 100 2 100 5] (insert_of_req example_req 2)
      = (Inr (Rejected (Conflict (''sha256:v2:'' @ replicate 64 CHR ''0'') 100)), [example_row 100 2 100 5])"
    unfolding postgres_insert_tariff_override_def insert_of_req_def example_req_def example_row_def
      validate_tariff_override_insert_def
    by (simp add: example_family_ok example_ids example_parse example_digest example_canonical in_i32_def
        tariff_override_from_row_def Let_def)
  then show ?thesis
    by (simp add: publish_tariff_override_def publish_attempts_def family_head_version_def family_head_def
        tariff_override_outcome_response_def TARIFF_OVERRIDE_CLOCK_SKEW_GRACE_SECS_def
        example_family_ok example_parse att example_req_def)
qed

section \<open>Properties\<close>

text \<open>C14: Seeding a family changes no price. When a family without rows is seeded successfully, the
  override that the table then resolves for it, at every later or earlier instant from 0 on, carries
  the compiled payload of that instant.\<close>

theorem seeding_is_price_neutral:
  assumes "codec_ok E" "filter (\<lambda>r. ov_tariff_family r = family) tbl = []"
    and "sq_tariff_family req = Some family" "fst (around family) = []"
    and "seed_tariff_overrides E now billing listed around req tbl = (SeedResponse 200 outcomes, tbl')"
    and "entry \<in> set (compiled_tariff_catalog_at E priced_ts)" "ct_tariff_family entry = family" "0 \<le> priced_ts"
  shows "map_option ov_payload (resolve_tariff_override tbl' family priced_ts) = Some (ct_payload entry)"
proof -
  obtain e0 rows where e0: "e0 \<in> set (compiled_tariff_catalog_at E now)" "ct_tariff_family e0 = family"
    "ct_seed_safe e0" "seed_targets E rows around req [e0] False [] tbl = (SeedResponse 200 outcomes, tbl')"
    using seed_request_entry [OF assms(5,3)] .
  obtain row p where row: "tbl' = tbl @ [row]" "ov_tariff_family row = family" "ov_effective_from row = 0"
    "parse_tariff_override_payload E family (ct_payload e0) = Inr p" "ov_payload row = to_canonical_value E p"
    using seed_one [OF e0(4)] assms(2,4) unfolding e0(2) family_rows_def by blast
  have "to_canonical_value E p = ct_payload e0"
    using catalog_entry_accepted [OF assms(1) e0(1)] row(4) e0(2) by auto
  also have "\<dots> = ct_payload entry"
    using seed_safe_payload [OF assms(1) e0(1,3) assms(6)] assms(7) e0(2) by simp
  finally have "ov_payload row = ct_payload entry" using row(5) by simp
  then show ?thesis
    using row(1-3) assms(2,8) by (simp add: resolve_family family_rows_def max_version_row_def)
qed

theorem seeding_is_price_neutral_witness:
  "\<exists>outcomes tbl'. seed_tariff_overrides payload_env 5 True (Inr []) (\<lambda>_. ([], 7)) example_seed []
      = (SeedResponse 200 outcomes, tbl')
    \<and> map_option ov_payload (resolve_tariff_override tbl' ''openai/gpt-image-2'' 9)
      = Some (ct_payload (image_entry payload_env))"
proof -
  obtain outcomes tbl' where s: "seed_tariff_overrides payload_env 5 True (Inr []) (\<lambda>_. ([], 7)) example_seed []
      = (SeedResponse 200 outcomes, tbl')" using example_seeding by blast
  have "map_option ov_payload (resolve_tariff_override tbl' ''openai/gpt-image-2'' 9)
      = Some (ct_payload (image_entry payload_env))"
    by (rule seeding_is_price_neutral [OF payload_env_codec _ _ _ s image_entry_listed])
      (simp_all add: example_seed_def image_entry_def compiled_tariff_def image_family)
  then show ?thesis using s by blast
qed

text \<open>C17: A publication that lost a race is never retried into the table: when another publisher took
  the version that the handler computed from its read, the handler answers with the conflict (or the
  unchanged row), whatever happens between its attempts.\<close>

theorem raced_publication_is_not_retried:
  assumes "codec_ok E" "read = fold (publish E) earlier []" "tbl = fold (publish E) raced read"
    and "postgres_list_tariff_overrides E collate read = Inr rows"
    and "length (filter (\<lambda>r. ov_tariff_family r = rq_tariff_family req) read)
       < length (filter (\<lambda>r. ov_tariff_family r = rq_tariff_family req) tbl)"
    and "publish_tariff_override E now billing (Inr rows) t1 others t2 req tbl
       = (OverrideResponse status outcome, tbl')"
  shows "outcome \<noteq> Inserted row"
proof -
  have sq: "sequenced E read" "sequenced E tbl"
    using publications.inv_run [of E earlier] publications.inv_fold [of E read raced] assms(1-3) by simp_all
  have "publish_attempts E t1 others t2 req (family_head_version rows (rq_tariff_family req) + 1) tbl
      = (OverrideResponse status outcome, tbl')"
    using assms(6) by (auto simp: publish_tariff_override_def split: if_splits sum.splits)
  then show ?thesis
    using version_present [OF sq(2)] assms(5) raced_attempt
    unfolding family_head_listing [OF sq(1) assms(4)] family_rows_def by blast
qed

theorem raced_publication_is_not_retried_witness:
  "\<exists>outcome. fst (publish_tariff_override payload_env 120 True (Inr []) 120 [] 121 example_req
      [example_row 100 2 100 5]) = OverrideResponse 409 outcome \<and> outcome \<noteq> Inserted (example_row 120 3 120 7)"
proof (intro exI conjI)
  show "fst (publish_tariff_override payload_env 120 True (Inr []) 120 [] 121 example_req [example_row 100 2 100 5])
      = OverrideResponse 409 (Rejected (Conflict (''sha256:v2:'' @ replicate 64 CHR ''0'') 100))"
    by (simp only: example_race fst_conv)
  show "Rejected (Conflict (''sha256:v2:'' @ replicate 64 CHR ''0'') 100) \<noteq> Inserted (example_row 120 3 120 7)"
  proof (rule raced_publication_is_not_retried [OF payload_env_codec _ _ _ _ example_race])
    show "[] = fold (publish payload_env) [] []" by simp
    show "[example_row 100 2 100 5] = fold (publish payload_env) [(100, example_request 2 100 5)] []"
      by (simp add: example_publish next_version_def family_head_def)
    show "postgres_list_tariff_overrides payload_env length [] = Inr []"
      by (simp add: postgres_list_tariff_overrides_def)
  qed (simp add: example_req_def example_row_def)
qed

end
