(* ===== verification/Ledger.thy ===== *)
theory Ledger
  imports Engine_Prelude
begin

text \<open>
  The money authority of \<open>src/crates/registry/src/lib.rs\<close>: accounts with one shared balance, the
  keys that spend it, the append-only ledger, and the durable request lifecycle
  (reserve, deliver, settle or cancel, reconcile) with its settlement outbox and the
  one-winner-per-execution-group rule.

  The SQLite tables are the fields of the record \<open>db\<close>: a table with a primary key is a map, the
  append-only tables are lists in insertion order, and the unique index on account handles is the
  map \<open>idx_handle\<close>. The triggers installed by \<open>install_sqlite_settlement_guards\<close> and
  \<open>install_sqlite_attribution_guards\<close> and the unique indexes are checks of the write operations
  \<open>put_*\<close> and \<open>insert_*\<close>. The wall clock is the argument \<open>now\<close> of the operations that read
  it. A transaction that fails leaves the database as it was: an operation that runs in one returns
  \<open>ledger_error + db \<times> 'a\<close>; the outer operations, which can fail and still write, return
  \<open>db \<times> (ledger_error + 'a)\<close>. Integer columns are integers; where Rust converts with a checked
  operation, the check is written out.
\<close>

section \<open>Tables\<close>

datatype ledger_error =
    EmptyIdentifier
  | MultiplierRange
  | UnknownProvider
  | UnknownAccount
  | KeyOwnedByOther
  | ConstraintViolation
  | InvalidEvidence
  | EmptyReference
  | ColumnRange
  | IdempotencyConflict
  | ProviderMismatch
  | AccountAggregateInvariant
  | KeyAggregateInvariant
  | SettlementOverflow
  | InvalidParameters
  | ReusedRequest
  | AlreadyTerminal
  | InvalidLease
  | InvalidDisposition
  | NoReservation
  | ParameterMismatch
  | IncompletePricing
  | InconsistentEvidence
  | OutboxMissing
  | StoredDiffers
  | AccountGone
  | CheckpointInvalid

record account_row =
  ac_handle :: "string option"
  ac_balance :: i64
  ac_spent :: i64
  ac_reserved :: i64
  ac_uncollected :: i64
  ac_mult_bp :: i64
  ac_status :: string

record key_row =
  k_key_id :: string
  k_account :: "string option"
  k_label :: "string option"
  k_spent :: i64
  k_reserved :: i64
  k_spend_limit :: "i64 option"
  k_expires :: "i64 option"
  k_status :: string

record usage_event_input =
  ue_model :: string
  ue_provider :: string
  ue_input_tokens :: i64
  ue_output_tokens :: i64
  ue_cache_read_tokens :: i64
  ue_cache_write_5m_tokens :: i64
  ue_cache_write_1h_tokens :: i64
  ue_web_search_requests :: i64
  ue_real_nano :: i64
  ue_charge_basis_nano :: i64
  ue_speed :: string
  ue_inference_geo :: string
  ue_input_nano :: i64
  ue_output_nano :: i64
  ue_cache_read_nano :: i64
  ue_cache_write_5m_nano :: i64
  ue_cache_write_1h_nano :: i64
  ue_web_search_nano :: i64
  ue_priced_ts :: i64

record ledger_row =
  l_account :: string
  l_key :: "string option"
  l_kind :: string
  l_request :: "string option"
  l_amount :: i64
  l_ref :: "string option"
  l_balance_after :: "i64 option"
  l_ts :: i64
  l_model :: "string option"
  l_provider :: "string option"
  l_official :: "i64 option"
  l_mult_bp :: "i64 option"
  l_uncollected :: i64

record usage_row =
  u_request :: "string option"
  u_account :: string
  u_key :: "string option"
  u_usage :: usage_event_input
  u_charge :: i64
  u_ref :: "string option"
  u_ts :: i64
  u_provider :: string
  u_mult_bp :: "i64 option"
  u_uncollected :: i64

datatype reservation_state = Reserved | Delivering | Settled | Canceled

record reservation_pricing =
  rp_provider :: string
  rp_payable_multiplier_bp :: i64

record execution_attempt =
  ex_group_id :: "string option"
  ex_attempt :: int

record reservation =
  r_account :: string
  r_key :: string
  r_hold :: i64
  r_group :: "string option"
  r_attempt :: int
  r_state :: reservation_state
  r_balance_after_reserve :: i64
  r_actual :: "i64 option"
  r_collected :: "i64 option"
  r_uncollected :: "i64 option"
  r_provider :: "string option"
  r_mult_bp :: "i64 option"
  r_balance_after_settle :: "i64 option"
  r_reference :: "string option"
  r_lease_until :: i64
  r_created_ts :: i64
  r_updated_ts :: i64
  r_settled_ts :: "i64 option"

datatype outbox_state = Pending | Done

record outbox_row =
  o_actual :: i64
  o_reference :: "string option"
  o_usage :: "usage_event_input option"
  o_charge_basis :: "i64 option"
  o_disposition :: string
  o_state :: outbox_state
  o_attempts :: int
  o_next_attempt_ts :: i64
  o_last_error :: "ledger_error option"
  o_created_ts :: i64
  o_updated_ts :: i64
  o_committed_ts :: "i64 option"

record db =
  accounts :: "string \<rightharpoonup> account_row"
  idx_handle :: "string \<rightharpoonup> string"
  api_keys :: "string \<rightharpoonup> key_row"
  discounts :: "string \<times> string \<rightharpoonup> i64"
  ledger :: "ledger_row list"
  usage_events :: "usage_row list"
  reservations :: "string \<rightharpoonup> reservation"
  outbox :: "string \<rightharpoonup> outbox_row"
  winners :: "string \<rightharpoonup> string"

definition empty_db :: db where
  "empty_db = \<lparr>accounts = Map.empty, idx_handle = Map.empty, api_keys = Map.empty,
     discounts = Map.empty, ledger = [], usage_events = [], reservations = Map.empty,
     outbox = Map.empty, winners = Map.empty\<rparr>"

text \<open>A transaction commits its result or leaves the database unchanged.\<close>

definition in_tx :: "(db \<Rightarrow> ledger_error + db \<times> 'a) \<Rightarrow> db \<Rightarrow> db \<times> (ledger_error + 'a)" where
  "in_tx f d = (case f d of Inl e \<Rightarrow> (d, Inl e) | Inr (d', a) \<Rightarrow> (d', Inr a))"

subsection \<open>Guarded writes\<close>

definition put_account :: "string \<Rightarrow> account_row \<Rightarrow> db \<Rightarrow> ledger_error + db" where
  "put_account aid a d =
     (if ac_uncollected a < 0 then Inl InvalidEvidence
      else Inr (d\<lparr>accounts := (accounts d)(aid \<mapsto> a)\<rparr>))"

definition PROVIDER_IDS :: "string list" where
  "PROVIDER_IDS = [''anthropic'', ''openai'', ''google'', ''kimi'', ''glm'', ''tripo3d'', ''suno'']"

definition terminal :: "reservation_state \<Rightarrow> bool" where
  "terminal s \<longleftrightarrow> s = Settled \<or> s = Canceled"

definition reservation_guard_ok :: "reservation \<Rightarrow> bool" where
  "reservation_guard_ok r \<longleftrightarrow>
     (r_collected r = None \<longleftrightarrow> r_uncollected r = None)
     \<and> (case (r_collected r, r_uncollected r) of
          (Some c, Some u) \<Rightarrow> 0 \<le> c \<and> 0 \<le> u \<and> r_actual r = Some (c + u)
        | _ \<Rightarrow> True)
     \<and> (r_provider r = None \<longleftrightarrow> r_mult_bp r = None)
     \<and> (case r_provider r of None \<Rightarrow> True | Some p \<Rightarrow> p \<in> set PROVIDER_IDS)
     \<and> (case r_mult_bp r of None \<Rightarrow> True | Some m \<Rightarrow> 0 \<le> m \<and> m \<le> 10000)
     \<and> (terminal (r_state r) \<and> r_provider r \<noteq> None \<longrightarrow> r_collected r \<noteq> None \<and> r_uncollected r \<noteq> None)"

definition put_reservation :: "string \<Rightarrow> reservation \<Rightarrow> db \<Rightarrow> ledger_error + db" where
  "put_reservation rid r d =
     (if reservation_guard_ok r then Inr (d\<lparr>reservations := (reservations d)(rid \<mapsto> r)\<rparr>)
      else Inl InvalidEvidence)"

definition money_kind :: "string \<Rightarrow> bool" where
  "money_kind k \<longleftrightarrow> k = ''topup'' \<or> k = ''adjust''"

definition ledger_unique_ok :: "ledger_row \<Rightarrow> ledger_row list \<Rightarrow> bool" where
  "ledger_unique_ok l ls \<longleftrightarrow>
     (money_kind (l_kind l) \<and> l_ref l \<noteq> None \<longrightarrow>
        (\<forall>x\<in>set ls. \<not> (money_kind (l_kind x) \<and> l_ref x = l_ref l)))
     \<and> (l_request l \<noteq> None \<longrightarrow> (\<forall>x\<in>set ls. \<not> (l_kind x = l_kind l \<and> l_request x = l_request l)))"

definition mult_guard_ok :: "i64 option \<Rightarrow> bool" where
  "mult_guard_ok m \<longleftrightarrow> (case m of None \<Rightarrow> True | Some b \<Rightarrow> 0 \<le> b \<and> b \<le> 10000)"

definition insert_ledger :: "ledger_row \<Rightarrow> db \<Rightarrow> ledger_error + db" where
  "insert_ledger l d =
     (if l_uncollected l < 0 \<or> (case l_official l of None \<Rightarrow> False | Some n \<Rightarrow> n < 0)
         \<or> \<not> mult_guard_ok (l_mult_bp l) then Inl InvalidEvidence
      else if \<not> ledger_unique_ok l (ledger d) then Inl ConstraintViolation
      else Inr (d\<lparr>ledger := ledger d @ [l]\<rparr>))"

definition insert_usage :: "usage_row \<Rightarrow> db \<Rightarrow> ledger_error + db" where
  "insert_usage u d =
     (if u_uncollected u < 0 \<or> u_charge u < u_uncollected u \<or> ue_charge_basis_nano (u_usage u) < 0
         \<or> \<not> mult_guard_ok (u_mult_bp u) then Inl InvalidEvidence
      else if u_request u \<noteq> None \<and> (\<exists>x\<in>set (usage_events d). u_request x = u_request u)
        then Inl ConstraintViolation
      else Inr (d\<lparr>usage_events := usage_events d @ [u]\<rparr>))"

definition put_outbox :: "string \<Rightarrow> outbox_row \<Rightarrow> db \<Rightarrow> ledger_error + db" where
  "put_outbox rid ob d =
     (if (case o_charge_basis ob of None \<Rightarrow> False | Some n \<Rightarrow> n < 0) then Inl InvalidEvidence
      else Inr (d\<lparr>outbox := (outbox d)(rid \<mapsto> ob)\<rparr>))"

section \<open>Accounts, discounts and keys\<close>

definition ensure_valid_provider_discount :: "string \<Rightarrow> i64 \<Rightarrow> ledger_error + unit" where
  "ensure_valid_provider_discount provider_id mult_bp =
     (if provider_id \<notin> set PROVIDER_IDS then Inl UnknownProvider
      else if \<not> (0 \<le> mult_bp \<and> mult_bp \<le> 10000) then Inl MultiplierRange
      else Inr ())"

definition account_create :: "string \<Rightarrow> string option \<Rightarrow> i64 \<Rightarrow> db \<Rightarrow> ledger_error + db \<times> unit" where
  "account_create aid handle mult_bp d =
     (if trim aid = [] \<or> (case handle of None \<Rightarrow> False | Some h \<Rightarrow> trim h = []) then Inl EmptyIdentifier
      else if \<not> (0 \<le> mult_bp \<and> mult_bp \<le> 10000) then Inl MultiplierRange
      else if accounts d aid \<noteq> None \<or> (case handle of None \<Rightarrow> False | Some h \<Rightarrow> idx_handle d h \<noteq> None)
        then Inl ConstraintViolation
      else Inr (d\<lparr>accounts := (accounts d)(aid \<mapsto> \<lparr>ac_handle = handle, ac_balance = 0, ac_spent = 0,
               ac_reserved = 0, ac_uncollected = 0, ac_mult_bp = mult_bp, ac_status = ''active''\<rparr>),
             idx_handle := (case handle of None \<Rightarrow> idx_handle d | Some h \<Rightarrow> (idx_handle d)(h \<mapsto> aid))\<rparr>,
           ()))"

definition account_get :: "string \<Rightarrow> db \<Rightarrow> account_row option" where
  "account_get aid d = accounts d aid"

definition account_by_handle :: "string \<Rightarrow> db \<Rightarrow> account_row option" where
  "account_by_handle h d = Option.bind (idx_handle d h) (accounts d)"

definition account_set_status :: "string \<Rightarrow> string \<Rightarrow> db \<Rightarrow> ledger_error + db \<times> nat" where
  "account_set_status aid status d =
     (case accounts d aid of None \<Rightarrow> Inr (d, 0)
      | Some a \<Rightarrow> bind_res (put_account aid (a\<lparr>ac_status := status\<rparr>) d) (\<lambda>d'. Inr (d', 1)))"

definition account_set_mult_bp :: "string \<Rightarrow> i64 \<Rightarrow> db \<Rightarrow> ledger_error + db \<times> nat" where
  "account_set_mult_bp aid mult_bp d =
     (if \<not> (0 \<le> mult_bp \<and> mult_bp \<le> 10000) then Inl MultiplierRange
      else case accounts d aid of None \<Rightarrow> Inr (d, 0)
        | Some a \<Rightarrow> bind_res (put_account aid (a\<lparr>ac_mult_bp := mult_bp\<rparr>) d) (\<lambda>d'. Inr (d', 1)))"

definition account_remove :: "string \<Rightarrow> db \<Rightarrow> ledger_error + db \<times> nat" where
  "account_remove aid d =
     (case accounts d aid of None \<Rightarrow> Inr (d, 0)
      | Some a \<Rightarrow> if ac_status a = ''deleted'' then Inr (d, 0)
          else bind_res (put_account aid (a\<lparr>ac_status := ''deleted''\<rparr>) d) (\<lambda>d'. Inr (d', 1)))"

definition set_account_provider_discount ::
    "string \<Rightarrow> string \<Rightarrow> i64 \<Rightarrow> db \<Rightarrow> ledger_error + db \<times> unit" where
  "set_account_provider_discount account_id provider_id mult_bp d =
     bind_res (ensure_valid_provider_discount provider_id mult_bp) (\<lambda>_.
       if accounts d account_id = None then Inl UnknownAccount
       else Inr (d\<lparr>discounts := (discounts d)((account_id, provider_id) \<mapsto> mult_bp)\<rparr>, ()))"

definition clear_account_provider_discount :: "string \<Rightarrow> string \<Rightarrow> db \<Rightarrow> db \<times> bool" where
  "clear_account_provider_discount account_id provider_id d =
     (d\<lparr>discounts := (discounts d)((account_id, provider_id) := None)\<rparr>,
      discounts d (account_id, provider_id) \<noteq> None)"

text \<open>The provider ids in the order \<open>ORDER BY provider_id\<close> lists them; the column's CHECK admits
  no other id.\<close>

definition sorted_provider_ids :: "string list" where
  "sorted_provider_ids =
     [''anthropic'', ''glm'', ''google'', ''kimi'', ''openai'', ''suno'', ''tripo3d'']"

definition account_provider_discounts :: "string \<Rightarrow> db \<Rightarrow> (string \<times> i64) list" where
  "account_provider_discounts account_id d =
     List.map_filter (\<lambda>p. map_option (Pair p) (discounts d (account_id, p))) sorted_provider_ids"

record key_auth =
  ka_account_id :: string
  ka_key_id :: string
  ka_mult_bp :: i64
  ka_provider_mult_bp :: "(string \<times> i64) list"
  ka_balance :: i64
  ka_spent :: i64
  ka_reserved :: i64
  ka_spend_limit :: "i64 option"
  ka_expires :: "i64 option"
  ka_active :: bool

definition key_account :: "string \<Rightarrow> db \<Rightarrow> key_auth option" where
  "key_account key d =
     Option.bind (api_keys d key) (\<lambda>k. Option.bind (k_account k) (\<lambda>aid.
       map_option (\<lambda>a. \<lparr>ka_account_id = aid, ka_key_id = k_key_id k, ka_mult_bp = ac_mult_bp a,
           ka_provider_mult_bp = account_provider_discounts aid d,
           ka_balance = ac_balance a, ka_spent = k_spent k, ka_reserved = k_reserved k,
           ka_spend_limit = k_spend_limit k, ka_expires = k_expires k,
           ka_active = (k_status k = ''active'' \<and> ac_status a = ''active'')\<rparr>)
         (accounts d aid)))"

definition mult_for :: "key_auth \<Rightarrow> string \<Rightarrow> i64" where
  "mult_for ka provider_id =
     (case List.find (\<lambda>(provider, _). provider = provider_id) (ka_provider_mult_bp ka) of
        Some (_, mult_bp) \<Rightarrow> mult_bp | None \<Rightarrow> ka_mult_bp ka)"

definition active_at :: "key_auth \<Rightarrow> i64 \<Rightarrow> bool" where
  "active_at ka ts \<longleftrightarrow> ka_active ka \<and> (case ka_expires ka of None \<Rightarrow> True | Some e \<Rightarrow> ts < e)"

definition reservation_pricing_new :: "string \<Rightarrow> i64 \<Rightarrow> ledger_error + reservation_pricing" where
  "reservation_pricing_new provider payable_multiplier_bp =
     bind_res (ensure_valid_provider_discount provider payable_multiplier_bp)
       (\<lambda>_. Inr \<lparr>rp_provider = provider, rp_payable_multiplier_bp = payable_multiplier_bp\<rparr>)"

text \<open>The key id is drawn at random by SQLite; it is an argument here.\<close>

definition key_issue_with_policy ::
    "string \<Rightarrow> string \<Rightarrow> string \<Rightarrow> string option \<Rightarrow> i64 option \<Rightarrow> i64 option \<Rightarrow> db
      \<Rightarrow> ledger_error + db \<times> unit" where
  "key_issue_with_policy fresh_id key account_id label spend_limit expires d =
     (if trim key = [] \<or> trim account_id = [] then Inl EmptyIdentifier
      else case api_keys d key of
          None \<Rightarrow> Inr (d\<lparr>api_keys := (api_keys d)(key \<mapsto> \<lparr>k_key_id = fresh_id,
              k_account = Some account_id, k_label = label, k_spent = 0, k_reserved = 0,
              k_spend_limit = spend_limit, k_expires = expires, k_status = ''active''\<rparr>)\<rparr>, ())
        | Some k \<Rightarrow> if k_account k = Some account_id
            then Inr (d\<lparr>api_keys := (api_keys d)(key \<mapsto> k\<lparr>k_label := label,
              k_spend_limit := spend_limit, k_expires := expires\<rparr>)\<rparr>, ())
            else Inl KeyOwnedByOther)"

definition key_set_status :: "string \<Rightarrow> string \<Rightarrow> db \<Rightarrow> db \<times> nat" where
  "key_set_status key status d =
     (case api_keys d key of None \<Rightarrow> (d, 0)
      | Some k \<Rightarrow> (d\<lparr>api_keys := (api_keys d)(key \<mapsto> k\<lparr>k_status := status\<rparr>)\<rparr>, 1))"

definition key_remove :: "string \<Rightarrow> db \<Rightarrow> db \<times> nat" where
  "key_remove key d =
     (case api_keys d key of None \<Rightarrow> (d, 0)
      | Some _ \<Rightarrow> (d\<lparr>api_keys := (api_keys d)(key := None)\<rparr>, 1))"

section \<open>Top-ups\<close>

definition account_topup ::
    "i64 \<Rightarrow> string \<Rightarrow> i64 \<Rightarrow> string option \<Rightarrow> db \<Rightarrow> db \<times> (ledger_error + i64 option)" where
  "account_topup now aid amount_nano reference d =
     (if (case reference of Some r \<Rightarrow> trim r = [] | None \<Rightarrow> False) then (d, Inl EmptyReference)
      else case accounts d aid of None \<Rightarrow> (d, Inr None)
      | Some a \<Rightarrow>
          (let bal = ac_balance a + amount_nano;
               kind = (if 0 \<le> amount_nano then ''topup'' else ''adjust'');
               row = \<lparr>l_account = aid, l_key = None, l_kind = kind, l_request = None,
                  l_amount = amount_nano, l_ref = reference, l_balance_after = Some bal, l_ts = now,
                  l_model = None, l_provider = None, l_official = None, l_mult_bp = None,
                  l_uncollected = 0\<rparr>
           in if \<not> in_i64 bal then (d, Inl ColumnRange)
              else case bind_res (put_account aid (a\<lparr>ac_balance := bal\<rparr>) d) (insert_ledger row) of
                Inr d' \<Rightarrow> (d', Inr (Some bal))
              | Inl ConstraintViolation \<Rightarrow>
                  (d, case reference of None \<Rightarrow> Inl ConstraintViolation
                     | Some _ \<Rightarrow>
                         (case List.find (\<lambda>l. l_ref l = reference \<and> money_kind (l_kind l)) (ledger d) of
                            None \<Rightarrow> Inl ConstraintViolation
                          | Some l \<Rightarrow>
                              (case l_balance_after l of
                                 Some original \<Rightarrow>
                                   if l_account l = aid \<and> l_kind l = kind \<and> l_amount l = amount_nano
                                   then Inr (Some original) else Inl IdempotencyConflict
                               | None \<Rightarrow> Inl IdempotencyConflict)))
              | Inl e \<Rightarrow> (d, Inl e)))"


section \<open>Holds and settlements of one account\<close>

definition ACCOUNT_OVERDRAFT_NANO :: i64 where
  "ACCOUNT_OVERDRAFT_NANO = 1000000000"

definition paid_admission_requires_positive_balance :: "i64 option \<Rightarrow> bool" where
  "paid_admission_requires_positive_balance payable_multiplier_bp \<longleftrightarrow>
     0 < (case payable_multiplier_bp of None \<Rightarrow> 1 | Some m \<Rightarrow> m)"

definition account_reserve :: "string \<Rightarrow> i64 \<Rightarrow> db \<Rightarrow> ledger_error + db \<times> i64 option" where
  "account_reserve aid hold_nano d =
     (let hold = max hold_nano 0 in
      case accounts d aid of None \<Rightarrow> Inr (d, None)
      | Some a \<Rightarrow>
          if ac_status a \<noteq> ''active'' then Inr (d, None)
          else if hold = 0 then Inr (d, Some (ac_balance a))
          else if hold - ACCOUNT_OVERDRAFT_NANO \<le> ac_balance a then
            bind_res (put_account aid (a\<lparr>ac_balance := ac_balance a - hold,
                ac_reserved := ac_reserved a + hold\<rparr>) d)
              (\<lambda>d'. Inr (d', Some (ac_balance a - hold)))
          else Inr (d, None))"

definition key_policy_ok :: "i64 \<Rightarrow> string \<Rightarrow> i64 \<Rightarrow> key_row \<Rightarrow> bool" where
  "key_policy_ok now aid hold k \<longleftrightarrow>
     k_account k = Some aid \<and> k_status k = ''active''
     \<and> (case k_expires k of None \<Rightarrow> True | Some e \<Rightarrow> now < e)
     \<and> (case k_spend_limit k of None \<Rightarrow> True | Some lim \<Rightarrow> k_spent k + k_reserved k + hold \<le> lim)"

definition account_reserve_for_key ::
    "i64 \<Rightarrow> string \<Rightarrow> string \<Rightarrow> i64 \<Rightarrow> db \<Rightarrow> ledger_error + db \<times> i64 option" where
  "account_reserve_for_key now aid key hold_nano d =
     (let hold = max hold_nano 0 in
      bind_res (account_reserve aid hold d) (\<lambda>(d1, admitted).
        case admitted of None \<Rightarrow> Inr (d, None)
        | Some balance \<Rightarrow>
            (case api_keys d1 key of None \<Rightarrow> Inr (d, None)
             | Some k \<Rightarrow>
                 if \<not> key_policy_ok now aid hold k then Inr (d, None)
                 else if hold = 0 then Inr (d1, Some balance)
                 else Inr (d1\<lparr>api_keys := (api_keys d1)(key \<mapsto> k\<lparr>k_reserved := k_reserved k + hold\<rparr>)\<rparr>,
                           Some balance))))"

text \<open>The collection rule the two settlement routines share: a positive hold collects at most down
  to the shared floor (or to the balance itself, if that is already lower).\<close>

definition collect :: "i64 \<Rightarrow> i64 \<Rightarrow> i64 \<Rightarrow> ledger_error + (i64 \<times> i64 \<times> i64)" where
  "collect balance_before released actual =
     (let collection_floor = min balance_before (- ACCOUNT_OVERDRAFT_NANO);
          collectable = min (max (balance_before + released - collection_floor) 0) actual
      in bind_res (ok_or SettlementOverflow (i64_try_from collectable)) (\<lambda>collected.
         bind_res (ok_or SettlementOverflow (checked_sub_i64 actual collected)) (\<lambda>uncollected.
         bind_res (ok_or SettlementOverflow (i64_try_from (balance_before + released - collectable)))
           (\<lambda>balance. Inr (collected, uncollected, balance)))))"

definition debit :: "i64 \<Rightarrow> i64 \<Rightarrow> ledger_error + (i64 \<times> i64 \<times> i64)" where
  "debit balance_before actual =
     bind_res (ok_or SettlementOverflow (i64_try_from (balance_before - actual)))
       (\<lambda>balance. Inr (actual, 0, balance))"

definition usage_model :: "usage_event_input option \<Rightarrow> string option" where
  "usage_model usage =
     Option.bind usage (\<lambda>u. if ue_model u = [] then None else Some (ue_model u))"

definition ledger_add_settlement ::
    "i64 \<Rightarrow> string \<Rightarrow> string option \<Rightarrow> i64 \<Rightarrow> i64 \<Rightarrow> string option \<Rightarrow> i64 \<Rightarrow> string option \<Rightarrow> db
      \<Rightarrow> ledger_error + db" where
  "ledger_add_settlement now aid key actual uncollected reference balance_after model d =
     insert_ledger \<lparr>l_account = aid, l_key = key, l_kind = ''charge'', l_request = None,
       l_amount = actual, l_ref = reference, l_balance_after = Some balance_after, l_ts = now,
       l_model = model, l_provider = None, l_official = None, l_mult_bp = None,
       l_uncollected = uncollected\<rparr> d"

definition usage_event_add_settlement ::
    "i64 \<Rightarrow> string \<Rightarrow> string option \<Rightarrow> usage_event_input \<Rightarrow> i64 \<Rightarrow> i64 \<Rightarrow> string option \<Rightarrow> db
      \<Rightarrow> ledger_error + db" where
  "usage_event_add_settlement now aid key u charge uncollected reference d =
     insert_usage \<lparr>u_request = None, u_account = aid, u_key = key, u_usage = u, u_charge = charge,
       u_ref = reference, u_ts = now, u_provider = ue_provider u, u_mult_bp = None,
       u_uncollected = uncollected\<rparr> d"

text \<open>The key attribution, ledger row and best-effort usage row of a settlement without request
  identity.\<close>

definition settle_records ::
    "i64 \<Rightarrow> string \<Rightarrow> string \<Rightarrow> i64 \<Rightarrow> i64 \<Rightarrow> i64 \<Rightarrow> i64 \<Rightarrow> string option
      \<Rightarrow> usage_event_input option \<Rightarrow> db \<Rightarrow> ledger_error + db" where
  "settle_records now aid key released actual uncollected balance reference usage d1 =
     (let d2 = (case api_keys d1 key of None \<Rightarrow> d1
            | Some k \<Rightarrow> d1\<lparr>api_keys := (api_keys d1)(key \<mapsto> k\<lparr>k_spent := k_spent k + actual,
                k_reserved := max 0 (k_reserved k - released)\<rparr>)\<rparr>)
      in if actual \<le> 0 then Inr d2
         else bind_res (ledger_add_settlement now aid (Some key) actual uncollected reference
             balance (usage_model usage) d2)
           (\<lambda>d3. Inr (case usage of None \<Rightarrow> d3
              | Some u \<Rightarrow> (case usage_event_add_settlement now aid (Some key) u actual
                    uncollected reference d3 of Inl _ \<Rightarrow> d3 | Inr d4 \<Rightarrow> d4))))"

definition account_settle_in ::
    "i64 \<Rightarrow> string \<Rightarrow> string \<Rightarrow> i64 \<Rightarrow> i64 \<Rightarrow> string option \<Rightarrow> usage_event_input option \<Rightarrow> db
      \<Rightarrow> ledger_error + db \<times> i64 option" where
  "account_settle_in now aid key hold_nano actual_nano reference usage d =
     (let hold = max hold_nano 0; actual = max actual_nano 0 in
      case accounts d aid of None \<Rightarrow> Inr (d, None)
      | Some a \<Rightarrow>
          (let released = (if hold = 0 then 0 else min hold (ac_reserved a)) in
           bind_res (if hold = 0 then debit (ac_balance a) actual
                     else collect (ac_balance a) released actual)
             (\<lambda>(collected, uncollected, balance).
           bind_res (ok_or SettlementOverflow (i64_try_from (ac_spent a + actual))) (\<lambda>spent.
           bind_res (ok_or SettlementOverflow (i64_try_from (ac_uncollected a + uncollected)))
             (\<lambda>account_uncollected.
           bind_res (put_account aid (a\<lparr>ac_balance := balance, ac_spent := spent,
               ac_reserved := ac_reserved a - released, ac_uncollected := account_uncollected\<rparr>) d)
             (\<lambda>d1.
           bind_res (settle_records now aid key released actual uncollected balance reference usage d1)
             (\<lambda>d2. Inr (d2, Some balance))))))))"

definition account_settle ::
    "i64 \<Rightarrow> string \<Rightarrow> string \<Rightarrow> i64 \<Rightarrow> i64 \<Rightarrow> string option \<Rightarrow> usage_event_input option \<Rightarrow> db
      \<Rightarrow> db \<times> (ledger_error + i64 option)" where
  "account_settle now aid key hold actual reference usage =
     in_tx (account_settle_in now aid key hold actual reference usage)"

datatype hot_op =
    HotReserve string string i64
  | HotSettle string string i64 i64 "string option" "usage_event_input option"

definition apply_hot_op :: "i64 \<Rightarrow> hot_op \<Rightarrow> db \<Rightarrow> db \<times> i64 option" where
  "apply_hot_op now op d =
     (case in_tx (case op of
          HotReserve aid key hold \<Rightarrow> account_reserve_for_key now aid key hold
        | HotSettle aid key hold actual reference usage \<Rightarrow>
            account_settle_in now aid key hold actual reference usage) d of
        (d', Inl _) \<Rightarrow> (d', None) | (d', Inr r) \<Rightarrow> (d', r))"

fun apply_hot_batch :: "i64 \<Rightarrow> hot_op list \<Rightarrow> db \<Rightarrow> db \<times> i64 option list" where
  "apply_hot_batch now [] d = (d, [])"
| "apply_hot_batch now (op # ops) d =
     (let (d1, r) = apply_hot_op now op d; (d2, rs) = apply_hot_batch now ops d1 in (d2, r # rs))"

text \<open>Request-scoped settlement.\<close>

definition settle_key ::
    "string \<Rightarrow> string \<Rightarrow> i64 \<Rightarrow> i64 \<Rightarrow> db \<Rightarrow> ledger_error + db" where
  "settle_key aid key hold actual d =
     (case api_keys d key of None \<Rightarrow> Inr d
      | Some k \<Rightarrow>
          (case k_account k of None \<Rightarrow> Inl ColumnRange
           | Some key_account_id \<Rightarrow>
               if key_account_id \<noteq> aid \<or> k_reserved k < hold then Inl KeyAggregateInvariant
               else bind_res (ok_or SettlementOverflow (i64_try_from (k_spent k + actual))) (\<lambda>key_spent.
                 Inr (d\<lparr>api_keys := (api_keys d)(key \<mapsto> k\<lparr>k_spent := key_spent,
                   k_reserved := k_reserved k - hold\<rparr>)\<rparr>))))"

definition record_charge ::
    "i64 \<Rightarrow> string \<Rightarrow> string \<Rightarrow> string \<Rightarrow> i64 \<Rightarrow> i64 \<Rightarrow> i64 \<Rightarrow> string option
      \<Rightarrow> usage_event_input option \<Rightarrow> reservation_pricing option \<Rightarrow> db \<Rightarrow> ledger_error + db" where
  "record_charge now request_id aid key actual uncollected balance reference usage pricing d =
     (let ledger_provider = (case pricing of Some p \<Rightarrow> Some (rp_provider p)
            | None \<Rightarrow> Option.bind usage (\<lambda>u. if ue_provider u = [] then None else Some (ue_provider u)));
          mult = map_option rp_payable_multiplier_bp pricing
      in bind_res
           (if 0 < actual then insert_ledger \<lparr>l_account = aid, l_key = Some key, l_kind = ''charge'',
              l_request = Some request_id, l_amount = actual, l_ref = reference,
              l_balance_after = Some balance, l_ts = now, l_model = usage_model usage,
              l_provider = ledger_provider, l_official = map_option ue_charge_basis_nano usage,
              l_mult_bp = mult, l_uncollected = uncollected\<rparr> d
            else Inr d)
           (\<lambda>d1. case usage of None \<Rightarrow> Inr d1
             | Some u \<Rightarrow> insert_usage \<lparr>u_request = Some request_id, u_account = aid, u_key = Some key,
                 u_usage = u, u_charge = actual, u_ref = reference, u_ts = now,
                 u_provider = (case pricing of Some p \<Rightarrow> rp_provider p | None \<Rightarrow> ue_provider u),
                 u_mult_bp = mult, u_uncollected = uncollected\<rparr> d1))"

definition check_pricing ::
    "usage_event_input option \<Rightarrow> reservation_pricing option \<Rightarrow> ledger_error + unit" where
  "check_pricing usage pricing =
     (case pricing of None \<Rightarrow> Inr ()
      | Some p \<Rightarrow>
          bind_res (ensure_valid_provider_discount (rp_provider p) (rp_payable_multiplier_bp p)) (\<lambda>_.
            case usage of None \<Rightarrow> Inr ()
            | Some u \<Rightarrow> if ue_provider u \<noteq> rp_provider p then Inl ProviderMismatch else Inr ()))"

definition account_settle_request_in ::
    "i64 \<Rightarrow> string \<Rightarrow> string \<Rightarrow> string \<Rightarrow> i64 \<Rightarrow> i64 \<Rightarrow> string option \<Rightarrow> usage_event_input option
      \<Rightarrow> reservation_pricing option \<Rightarrow> db \<Rightarrow> ledger_error + db \<times> (i64 \<times> i64 \<times> i64) option" where
  "account_settle_request_in now request_id aid key hold_nano actual_nano reference usage pricing d =
     (let hold = max hold_nano 0; actual = max actual_nano 0 in
      bind_res (check_pricing usage pricing) (\<lambda>_.
      case accounts d aid of None \<Rightarrow> Inr (d, None)
      | Some a \<Rightarrow>
          if 0 < hold \<and> ac_reserved a < hold then Inl AccountAggregateInvariant
          else
            bind_res (if hold = 0 then debit (ac_balance a) actual
                      else collect (ac_balance a) hold actual)
              (\<lambda>(collected, uncollected, balance).
            bind_res (ok_or SettlementOverflow (i64_try_from (ac_spent a + actual))) (\<lambda>spent.
            bind_res (ok_or SettlementOverflow (i64_try_from (ac_uncollected a + uncollected)))
              (\<lambda>account_uncollected.
            bind_res (put_account aid (a\<lparr>ac_balance := balance, ac_spent := spent,
                ac_reserved := ac_reserved a - hold, ac_uncollected := account_uncollected\<rparr>) d)
              (\<lambda>d1.
            bind_res (settle_key aid key hold actual d1) (\<lambda>d2.
            bind_res (record_charge now request_id aid key actual uncollected balance reference
                usage pricing d2)
              (\<lambda>d3. Inr (d3, Some (balance, collected, uncollected))))))))))"


section \<open>The durable request lifecycle\<close>

definition execution_direct :: execution_attempt where
  "execution_direct = \<lparr>ex_group_id = None, ex_attempt = 1\<rparr>"

definition effective_group :: "string \<Rightarrow> reservation \<Rightarrow> string" where
  "effective_group request_id r = (case r_group r of Some g \<Rightarrow> g | None \<Rightarrow> request_id)"

definition open_state :: "reservation_state \<Rightarrow> bool" where
  "open_state s \<longleftrightarrow> s = Reserved \<or> s = Delivering"

definition new_reservation ::
    "i64 \<Rightarrow> string \<Rightarrow> string \<Rightarrow> i64 \<Rightarrow> i64 \<Rightarrow> execution_attempt \<Rightarrow> reservation_pricing option
      \<Rightarrow> i64 \<Rightarrow> reservation" where
  "new_reservation now account_id key hold_nano lease_secs execution pricing balance = \<lparr>
     r_account = account_id, r_key = key, r_hold = hold_nano, r_group = ex_group_id execution,
     r_attempt = ex_attempt execution, r_state = Reserved, r_balance_after_reserve = balance,
     r_actual = None, r_collected = None, r_uncollected = None,
     r_provider = map_option rp_provider pricing,
     r_mult_bp = map_option rp_payable_multiplier_bp pricing,
     r_balance_after_settle = None, r_reference = None,
     r_lease_until = sat_add_i64 now lease_secs, r_created_ts = now, r_updated_ts = now,
     r_settled_ts = None\<rparr>"

definition sqlite_reserve_request_for_execution_with_pricing ::
    "i64 \<Rightarrow> string \<Rightarrow> string \<Rightarrow> string \<Rightarrow> i64 \<Rightarrow> i64 \<Rightarrow> execution_attempt
      \<Rightarrow> reservation_pricing option \<Rightarrow> db \<Rightarrow> ledger_error + db \<times> i64 option" where
  "sqlite_reserve_request_for_execution_with_pricing now request_id account_id key hold_nano lease_secs
      execution pricing d =
     (if trim request_id = [] \<or> trim account_id = [] \<or> trim key = [] \<or> hold_nano < 0 \<or> lease_secs \<le> 0
      then Inl InvalidParameters
      else case reservations d request_id of
        Some r \<Rightarrow>
          if r_account r \<noteq> account_id \<or> r_key r \<noteq> key \<or> r_hold r \<noteq> hold_nano
             \<or> r_group r \<noteq> ex_group_id execution \<or> r_attempt r \<noteq> ex_attempt execution
             \<or> r_provider r \<noteq> map_option rp_provider pricing
             \<or> r_mult_bp r \<noteq> map_option rp_payable_multiplier_bp pricing
          then Inl ReusedRequest
          else if open_state (r_state r) then Inr (d, Some (r_balance_after_reserve r))
          else Inl AlreadyTerminal
      | None \<Rightarrow>
          bind_res (account_reserve_for_key now account_id key hold_nano d) (\<lambda>(d1, admitted).
            case admitted of None \<Rightarrow> Inr (d, None)
            | Some balance \<Rightarrow>
                if hold_nano = 0
                   \<and> paid_admission_requires_positive_balance (map_option rp_payable_multiplier_bp pricing)
                   \<and> balance \<le> 0
                then Inr (d, None)
                else bind_res (put_reservation request_id (new_reservation now account_id key hold_nano
                    lease_secs execution pricing balance) d1)
                  (\<lambda>d2. Inr (d2, Some balance))))"

definition sqlite_reserve_request_for_execution ::
    "i64 \<Rightarrow> string \<Rightarrow> string \<Rightarrow> string \<Rightarrow> i64 \<Rightarrow> i64 \<Rightarrow> execution_attempt \<Rightarrow> db
      \<Rightarrow> ledger_error + db \<times> i64 option" where
  "sqlite_reserve_request_for_execution now request_id account_id key hold lease_secs execution =
     sqlite_reserve_request_for_execution_with_pricing now request_id account_id key hold lease_secs
       execution None"

definition sqlite_reserve_request ::
    "i64 \<Rightarrow> string \<Rightarrow> string \<Rightarrow> string \<Rightarrow> i64 \<Rightarrow> i64 \<Rightarrow> db \<Rightarrow> ledger_error + db \<times> i64 option" where
  "sqlite_reserve_request now request_id account_id key hold lease_secs =
     sqlite_reserve_request_for_execution now request_id account_id key hold lease_secs execution_direct"

definition sqlite_reserve_priced_request_for_execution ::
    "i64 \<Rightarrow> string \<Rightarrow> string \<Rightarrow> string \<Rightarrow> i64 \<Rightarrow> i64 \<Rightarrow> execution_attempt \<Rightarrow> reservation_pricing
      \<Rightarrow> db \<Rightarrow> ledger_error + db \<times> i64 option" where
  "sqlite_reserve_priced_request_for_execution now request_id account_id key hold lease_secs execution
      pricing d =
     bind_res (ensure_valid_provider_discount (rp_provider pricing) (rp_payable_multiplier_bp pricing))
       (\<lambda>_. sqlite_reserve_request_for_execution_with_pricing now request_id account_id key hold
          lease_secs execution (Some pricing) d)"

definition sqlite_mark_delivering ::
    "i64 \<Rightarrow> string \<Rightarrow> i64 \<Rightarrow> db \<Rightarrow> ledger_error + db \<times> bool" where
  "sqlite_mark_delivering now request_id lease_secs d =
     (if lease_secs \<le> 0 then Inl InvalidLease
      else case reservations d request_id of None \<Rightarrow> Inr (d, False)
        | Some r \<Rightarrow> if open_state (r_state r)
            then bind_res (put_reservation request_id (r\<lparr>r_state := Delivering,
                r_lease_until := sat_add_i64 now lease_secs, r_updated_ts := now\<rparr>) d)
              (\<lambda>d'. Inr (d', True))
            else Inr (d, False))"

definition sqlite_renew_reservation_lease ::
    "i64 \<Rightarrow> string \<Rightarrow> i64 \<Rightarrow> db \<Rightarrow> ledger_error + db \<times> bool" where
  "sqlite_renew_reservation_lease now request_id lease_secs d =
     (if lease_secs \<le> 0 then Inl InvalidLease
      else case reservations d request_id of None \<Rightarrow> Inr (d, False)
        | Some r \<Rightarrow> if open_state (r_state r)
            then bind_res (put_reservation request_id (r\<lparr>r_lease_until := sat_add_i64 now lease_secs,
                r_updated_ts := now\<rparr>) d)
              (\<lambda>d'. Inr (d', True))
            else Inr (d, False))"

definition sqlite_terminal_expected_actual ::
    "string \<Rightarrow> i64 \<Rightarrow> db \<Rightarrow> ledger_error + i64" where
  "sqlite_terminal_expected_actual request_id original_actual d =
     (if original_actual \<le> 0 then Inr (max original_actual 0)
      else case reservations d request_id of None \<Rightarrow> Inl NoReservation
        | Some r \<Rightarrow> Inr (case winners d (effective_group request_id r) of
              None \<Rightarrow> original_actual
            | Some w \<Rightarrow> if w \<noteq> request_id then 0 else original_actual))"

definition stored_pricing :: "reservation \<Rightarrow> ledger_error + reservation_pricing option" where
  "stored_pricing r =
     (case (r_provider r, r_mult_bp r) of
        (None, None) \<Rightarrow> Inr None
      | (Some provider, Some mult) \<Rightarrow>
          bind_res (reservation_pricing_new provider mult) (\<lambda>p. Inr (Some p))
      | _ \<Rightarrow> Inl IncompletePricing)"

definition collection_exact :: "reservation \<Rightarrow> bool \<Rightarrow> i64 \<Rightarrow> bool" where
  "collection_exact r priced expected_actual =
     (case (r_collected r, r_uncollected r) of
        (None, None) \<Rightarrow> \<not> priced
      | (Some c, Some u) \<Rightarrow> 0 \<le> c \<and> 0 \<le> u \<and> checked_add_i64 c u = Some expected_actual
      | _ \<Rightarrow> False)"

definition sqlite_enqueue_settlement ::
    "i64 \<Rightarrow> string \<Rightarrow> string \<Rightarrow> string \<Rightarrow> i64 \<Rightarrow> i64 \<Rightarrow> string option \<Rightarrow> usage_event_input option
      \<Rightarrow> string \<Rightarrow> db \<Rightarrow> ledger_error + db \<times> i64 option" where
  "sqlite_enqueue_settlement now request_id account_id key hold_nano actual_nano reference usage
      disposition d =
     (if disposition \<notin> set [''settle'', ''cancel'', ''reconcile_full_hold''] then Inl InvalidDisposition
      else case reservations d request_id of None \<Rightarrow> Inl NoReservation
      | Some r \<Rightarrow>
          if r_account r \<noteq> account_id \<or> r_key r \<noteq> key \<or> r_hold r \<noteq> hold_nano then Inl ParameterMismatch
          else let actual = max actual_nano 0 in
            bind_res
              (if r_state r = Settled then
                 bind_res (sqlite_terminal_expected_actual request_id actual d) (\<lambda>expected.
                 if r_actual r \<noteq> Some expected \<or> r_reference r \<noteq> reference then Inl ReusedRequest
                 else bind_res (stored_pricing r) (\<lambda>pricing.
                   if \<not> collection_exact r (pricing \<noteq> None) expected then Inl InconsistentEvidence
                   else Inr ()))
               else Inr ())
              (\<lambda>_. let charge_basis = map_option ue_charge_basis_nano usage in
                case outbox d request_id of
                  None \<Rightarrow> bind_res (put_outbox request_id \<lparr>o_actual = actual, o_reference = reference,
                      o_usage = usage, o_charge_basis = charge_basis, o_disposition = disposition,
                      o_state = Pending, o_attempts = 0, o_next_attempt_ts = 0, o_last_error = None,
                      o_created_ts = now, o_updated_ts = now, o_committed_ts = None\<rparr> d)
                    (\<lambda>d'. Inr (d', None))
                | Some ob \<Rightarrow>
                    if o_actual ob = actual \<and> o_reference ob = reference \<and> o_usage ob = usage
                       \<and> o_charge_basis ob = charge_basis \<and> o_disposition ob = disposition
                    then Inr (d, None) else Inl ReusedRequest))"

text \<open>The group winner is decided by the first attempt with a positive charge.\<close>

definition decide_winner :: "string \<Rightarrow> string \<Rightarrow> db \<Rightarrow> db \<times> string" where
  "decide_winner grp request_id d =
     (case winners d grp of
        Some w \<Rightarrow> (d, w)
      | None \<Rightarrow> (d\<lparr>winners := (winners d)(grp \<mapsto> request_id)\<rparr>, request_id))"

definition finish_settlement ::
    "i64 \<Rightarrow> string \<Rightarrow> outbox_row \<Rightarrow> reservation \<Rightarrow> db \<Rightarrow> ledger_error + db \<times> i64 option" where
  "finish_settlement now request_id ob r d =
     (let (d1, losing) = (if 0 < o_actual ob
            then let (d', w) = decide_winner (effective_group request_id r) request_id d
                 in (d', w \<noteq> request_id)
            else (d, False));
          effective_actual = (if 0 < o_actual ob \<and> \<not> losing then o_actual ob else 0);
          effective_usage = (if losing then None else o_usage ob);
          effective_disposition = (if losing then ''cancel'' else o_disposition ob)
      in bind_res (stored_pricing r) (\<lambda>pricing.
         bind_res (account_settle_request_in now request_id (r_account r) (r_key r) (r_hold r)
             effective_actual (o_reference ob) effective_usage pricing d1)
           (\<lambda>(d2, settled).
              case settled of None \<Rightarrow> Inl AccountGone
              | Some (balance, collected, uncollected) \<Rightarrow>
                  bind_res (put_reservation request_id (r\<lparr>
                      r_state := (if effective_disposition = ''cancel'' then Canceled else Settled),
                      r_actual := Some effective_actual, r_collected := Some collected,
                      r_uncollected := Some uncollected, r_balance_after_settle := Some balance,
                      r_reference := o_reference ob, r_updated_ts := now, r_settled_ts := Some now\<rparr>) d2)
                    (\<lambda>d3. bind_res (put_outbox request_id (ob\<lparr>o_state := Done,
                        o_attempts := o_attempts ob + 1, o_updated_ts := now,
                        o_committed_ts := Some now, o_last_error := None\<rparr>) d3)
                      (\<lambda>d4. Inr (d4, Some balance))))))"

definition sqlite_process_settlement ::
    "i64 \<Rightarrow> string \<Rightarrow> db \<Rightarrow> ledger_error + db \<times> i64 option" where
  "sqlite_process_settlement now request_id d =
     (case outbox d request_id of None \<Rightarrow> Inl OutboxMissing
      | Some ob \<Rightarrow>
        (case reservations d request_id of None \<Rightarrow> Inl NoReservation
         | Some r \<Rightarrow>
            if terminal (r_state r) \<or> o_state ob = Done then
              bind_res (sqlite_terminal_expected_actual request_id (o_actual ob) d) (\<lambda>expected.
              if r_actual r \<noteq> Some expected then Inl StoredDiffers
              else bind_res (stored_pricing r) (\<lambda>pricing.
                if \<not> collection_exact r (pricing \<noteq> None) expected then Inl InconsistentEvidence
                else bind_res (put_outbox request_id (ob\<lparr>o_state := Done,
                    o_committed_ts := (case o_committed_ts ob of None \<Rightarrow> Some now | Some t \<Rightarrow> Some t),
                    o_updated_ts := now, o_last_error := None\<rparr>) d)
                  (\<lambda>d'. Inr (d', r_balance_after_settle r))))
            else finish_settlement now request_id ob r d))"

definition note_failure :: "i64 \<Rightarrow> string \<Rightarrow> ledger_error \<Rightarrow> db \<Rightarrow> db" where
  "note_failure now request_id e d =
     (case outbox d request_id of None \<Rightarrow> d
      | Some ob \<Rightarrow>
          (case put_outbox request_id (ob\<lparr>o_attempts := o_attempts ob + 1, o_last_error := Some e,
               o_updated_ts := now,
               o_next_attempt_ts := now + min 60 (max 1 (o_attempts ob + 1))\<rparr>) d of
             Inl _ \<Rightarrow> d | Inr d' \<Rightarrow> d'))"

definition enqueue_and_process ::
    "i64 \<Rightarrow> string \<Rightarrow> string \<Rightarrow> string \<Rightarrow> i64 \<Rightarrow> i64 \<Rightarrow> string option \<Rightarrow> usage_event_input option
      \<Rightarrow> string \<Rightarrow> db \<Rightarrow> db \<times> (ledger_error + i64 option)" where
  "enqueue_and_process now request_id account_id key hold actual reference usage disposition d =
     (case in_tx (sqlite_enqueue_settlement now request_id account_id key hold actual reference usage
          disposition) d of
        (d1, Inl e) \<Rightarrow> (d1, Inl e)
      | (d1, Inr (Some balance)) \<Rightarrow> (d1, Inr (Some balance))
      | (d1, Inr None) \<Rightarrow> in_tx (sqlite_process_settlement now request_id) d1)"

definition sqlite_settle_request ::
    "i64 \<Rightarrow> string \<Rightarrow> string \<Rightarrow> string \<Rightarrow> i64 \<Rightarrow> i64 \<Rightarrow> string option \<Rightarrow> usage_event_input option
      \<Rightarrow> db \<Rightarrow> db \<times> (ledger_error + i64 option)" where
  "sqlite_settle_request now request_id account_id key hold actual reference usage d =
     (case in_tx (sqlite_enqueue_settlement now request_id account_id key hold actual reference usage
          ''settle'') d of
        (d1, Inl e) \<Rightarrow> (d1, Inl e)
      | (d1, Inr (Some balance)) \<Rightarrow> (d1, Inr (Some balance))
      | (d1, Inr None) \<Rightarrow>
          (case in_tx (sqlite_process_settlement now request_id) d1 of
             (d2, Inr result) \<Rightarrow> (d2, Inr result)
           | (d2, Inl e) \<Rightarrow> (note_failure now request_id e d2, Inl e)))"

definition sqlite_cancel_request ::
    "i64 \<Rightarrow> string \<Rightarrow> string \<Rightarrow> string \<Rightarrow> i64 \<Rightarrow> db \<Rightarrow> db \<times> (ledger_error + i64 option)" where
  "sqlite_cancel_request now request_id account_id key hold d =
     (case in_tx (sqlite_enqueue_settlement now request_id account_id key hold 0 None None
          ''cancel'') d of
        (d1, Inl e) \<Rightarrow> (d1, Inl e)
      | (d1, Inr (Some balance)) \<Rightarrow> (d1, Inr (Some balance))
      | (d1, Inr None) \<Rightarrow>
          (case in_tx (sqlite_process_settlement now request_id) d1 of
             (d2, Inr result) \<Rightarrow> (d2, Inr result)
           | (d2, Inl e) \<Rightarrow> (note_failure now request_id e d2, Inl e)))"

subsection \<open>Reconciliation\<close>

text \<open>The rows the two recovery queries return, in the order SQLite returns them, are the
  arguments \<open>pending\<close> and \<open>expired\<close>: the first is the answer on the initial database, the second
  a function of the database after the retries and of the remaining limit.\<close>

record reconcile_report =
  rr_processed_outbox :: nat
  rr_canceled_before_delivery :: nat
  rr_charged_after_delivery :: nat

fun retry_pending :: "i64 \<Rightarrow> string list \<Rightarrow> db \<times> nat \<Rightarrow> db \<times> nat" where
  "retry_pending now [] acc = acc"
| "retry_pending now (rid # rest) (d, n) =
     (case in_tx (sqlite_process_settlement now rid) d of
        (d', Inr _) \<Rightarrow> retry_pending now rest (d', n + 1)
      | (d', Inl _) \<Rightarrow> retry_pending now rest (d', n))"

definition recover_one ::
    "i64 \<Rightarrow> bool \<Rightarrow> string \<times> string \<times> string \<times> i64 \<times> reservation_state \<Rightarrow> db
      \<Rightarrow> db \<times> (ledger_error + i64 option)" where
  "recover_one now charge_hold_on_unknown_usage row d =
     (case row of (request_id, account_id, key, hold, state) \<Rightarrow>
        let delivering = (state = Delivering);
            actual = (if delivering \<and> charge_hold_on_unknown_usage then hold else 0)
        in enqueue_and_process now request_id account_id key hold actual
             (Some (if delivering then ''lease-expired-delivering'' else ''lease-expired-reserved''))
             None (if delivering then ''reconcile_full_hold'' else ''cancel'') d)"

fun recover_expired ::
    "i64 \<Rightarrow> bool \<Rightarrow> (string \<times> string \<times> string \<times> i64 \<times> reservation_state) list
      \<Rightarrow> db \<times> reconcile_report \<Rightarrow> db \<times> reconcile_report" where
  "recover_expired now charge [] acc = acc"
| "recover_expired now charge (row # rest) (d, rep) =
     (case recover_one now charge row d of
        (d', Inr _) \<Rightarrow> recover_expired now charge rest (d',
          if snd (snd (snd (snd row))) = Delivering
          then rep\<lparr>rr_charged_after_delivery := rr_charged_after_delivery rep + 1\<rparr>
          else rep\<lparr>rr_canceled_before_delivery := rr_canceled_before_delivery rep + 1\<rparr>)
      | (d', Inl _) \<Rightarrow> recover_expired now charge rest (d', rep))"

definition sqlite_reconcile_expired ::
    "i64 \<Rightarrow> (db \<Rightarrow> nat \<Rightarrow> string list)
      \<Rightarrow> (db \<Rightarrow> nat \<Rightarrow> (string \<times> string \<times> string \<times> i64 \<times> reservation_state) list)
      \<Rightarrow> nat \<Rightarrow> bool \<Rightarrow> db \<Rightarrow> db \<times> reconcile_report" where
  "sqlite_reconcile_expired now select_pending select_expired limit_arg charge d =
     (let limit = max 1 (min 10000 limit_arg);
          (d1, processed) = retry_pending now (select_pending d limit) (d, 0);
          remaining = limit - processed;
          report = \<lparr>rr_processed_outbox = processed, rr_canceled_before_delivery = 0,
            rr_charged_after_delivery = 0\<rparr>
      in if remaining = 0 then (d1, report)
         else recover_expired now charge (select_expired d1 remaining) (d1, report))"

end
