(* ===== verification/Ledger_Invariants.thy ===== *)
theory Ledger_Invariants
  imports Ledger
begin

text \<open>
  What the ledger operations do to money: exact effect lemmas for the two settlement routines, the
  invariant that the ledger explains every balance, the one-winner invariant of execution groups,
  and the replay, rollback and recovery properties of the request lifecycle. Invariants are proved
  once per operation and lifted to every command sequence by the locale \<open>command_system\<close>.
\<close>

section \<open>Effects\<close>

lemma put_account_eq_Inr [simp]:
  "put_account aid a d = Inr d' \<longleftrightarrow> 0 \<le> ac_uncollected a \<and> d' = d\<lparr>accounts := (accounts d)(aid \<mapsto> a)\<rparr>"
  by (auto simp: put_account_def)

lemma put_reservation_eq_Inr [simp]:
  "put_reservation rid r d = Inr d' \<longleftrightarrow>
     reservation_guard_ok r \<and> d' = d\<lparr>reservations := (reservations d)(rid \<mapsto> r)\<rparr>"
  by (auto simp: put_reservation_def)

lemma put_outbox_eq_Inr [simp]:
  "put_outbox rid ob d = Inr d' \<longleftrightarrow>
     (case o_charge_basis ob of None \<Rightarrow> True | Some n \<Rightarrow> 0 \<le> n)
     \<and> d' = d\<lparr>outbox := (outbox d)(rid \<mapsto> ob)\<rparr>"
  by (auto simp: put_outbox_def split: option.splits)

lemma insert_ledger_eq_InrD:
  "insert_ledger l d = Inr d' \<Longrightarrow> ledger_unique_ok l (ledger d) \<and> d' = d\<lparr>ledger := ledger d @ [l]\<rparr>"
  by (auto simp: insert_ledger_def split: if_splits)

lemma insert_usage_eq_InrD:
  "insert_usage u d = Inr d' \<Longrightarrow> d' = d\<lparr>usage_events := usage_events d @ [u]\<rparr>"
  by (auto simp: insert_usage_def split: if_splits)

lemma debit_eq_Inr [simp]:
  "debit b act = Inr (c, u, bal) \<longleftrightarrow> in_i64 (b - act) \<and> c = act \<and> u = 0 \<and> bal = b - act"
  by (auto simp: debit_def bind_res_eq_Inr)

lemma collect_split:
  assumes "collect b rel act = Inr (c, u, bal)" "0 \<le> act"
  shows "c + u = act" "0 \<le> c" "0 \<le> u" "bal = b + rel - c"
  using assms by (auto simp: collect_def Let_def checked_sub_i64_def)

lemma collect_floor:
  assumes "collect b rel act = Inr (c, u, bal)" "0 \<le> rel" "0 \<le> act"
  shows "min b (- ACCOUNT_OVERDRAFT_NANO) \<le> bal"
    "c < act \<Longrightarrow> bal = min b (- ACCOUNT_OVERDRAFT_NANO)"
  using assms by (auto simp: collect_def Let_def checked_sub_i64_def)

lemmas collect_effect = collect_split collect_floor

text \<open>What a settlement of one account does, whichever rule collected the money.\<close>

definition settled_account :: "i64 \<Rightarrow> i64 \<Rightarrow> i64 \<Rightarrow> account_row \<Rightarrow> account_row" where
  "settled_account released collected actual a = a\<lparr>
     ac_balance := ac_balance a + released - collected,
     ac_spent := ac_spent a + actual,
     ac_reserved := ac_reserved a - released,
     ac_uncollected := ac_uncollected a + (actual - collected)\<rparr>"

definition is_charge_row :: "string \<Rightarrow> string option \<Rightarrow> i64 \<Rightarrow> i64 \<Rightarrow> ledger_row \<Rightarrow> bool" where
  "is_charge_row aid req actual uncollected l \<longleftrightarrow>
     l_account l = aid \<and> l_kind l = ''charge'' \<and> l_request l = req \<and> l_amount l = actual
     \<and> l_uncollected l = uncollected"

lemma record_charge_effect:
  assumes "record_charge now rid aid key act unc bal reference usage pricing d = Inr d'"
  shows "accounts d' = accounts d" "idx_handle d' = idx_handle d" "api_keys d' = api_keys d"
    "reservations d' = reservations d" "outbox d' = outbox d" "winners d' = winners d"
    "act \<le> 0 \<Longrightarrow> ledger d' = ledger d"
    "0 < act \<Longrightarrow> \<exists>l. ledger d' = ledger d @ [l] \<and> is_charge_row aid (Some rid) act unc l
       \<and> ledger_unique_ok l (ledger d)"
  using assms unfolding record_charge_def Let_def
  by (auto simp: bind_res_eq_Inr is_charge_row_def dest!: insert_ledger_eq_InrD insert_usage_eq_InrD
      split: option.splits if_splits)

lemma settle_key_effect:
  assumes "settle_key aid key hold act d = Inr d'"
  shows "accounts d' = accounts d" "idx_handle d' = idx_handle d" "reservations d' = reservations d"
    "outbox d' = outbox d" "winners d' = winners d" "ledger d' = ledger d"
    "usage_events d' = usage_events d"
  using assms by (auto simp: settle_key_def bind_res_eq_Inr split: option.splits if_splits)

lemma settle_request_effect:
  assumes "account_settle_request_in now rid aid key hold_nano actual_nano reference usage pricing d
      = Inr (d', Some (bal, c, u))"
  shows "\<exists>a. accounts d aid = Some a
    \<and> accounts d' = (accounts d)(aid \<mapsto> settled_account (max hold_nano 0) c (max actual_nano 0) a)
    \<and> bal = ac_balance a + max hold_nano 0 - c
    \<and> c + u = max actual_nano 0 \<and> 0 \<le> c \<and> 0 \<le> u
    \<and> (max hold_nano 0 = 0 \<longrightarrow> u = 0)
    \<and> (0 < hold_nano \<longrightarrow> min (ac_balance a) (- ACCOUNT_OVERDRAFT_NANO) \<le> bal)
    \<and> max hold_nano 0 \<le> max (ac_reserved a) 0"
    "idx_handle d' = idx_handle d" "reservations d' = reservations d" "outbox d' = outbox d" "winners d' = winners d"
    "actual_nano \<le> 0 \<Longrightarrow> ledger d' = ledger d"
    "0 < actual_nano \<Longrightarrow> \<exists>l. ledger d' = ledger d @ [l] \<and> is_charge_row aid (Some rid) actual_nano u l
       \<and> ledger_unique_ok l (ledger d)"
proof -
  define hold act where h: "hold = max hold_nano 0" and act: "act = max actual_nano 0"
  then have nn: "0 \<le> hold" "0 \<le> act" "0 < hold_nano \<longleftrightarrow> hold \<noteq> 0" by auto
  obtain a d1 d2 where a: "accounts d aid = Some a"
    and res: "\<not> (0 < hold \<and> ac_reserved a < hold)"
    and col: "(if hold = 0 then debit (ac_balance a) act else collect (ac_balance a) hold act)
        = Inr (c, u, bal)"
    and d1: "d1 = d\<lparr>accounts := (accounts d)(aid \<mapsto> a\<lparr>ac_balance := bal, ac_spent := ac_spent a + act,
        ac_reserved := ac_reserved a - hold, ac_uncollected := ac_uncollected a + u\<rparr>)\<rparr>"
    and d2: "settle_key aid key hold act d1 = Inr d2"
    and d3: "record_charge now rid aid key act u bal reference usage pricing d2 = Inr d'"
    using assms unfolding account_settle_request_in_def Let_def h [symmetric] act [symmetric]
    by (auto simp: bind_res_eq_Inr split: option.splits if_splits prod.splits)
  have eff: "c + u = act" "0 \<le> c" "0 \<le> u" "bal = ac_balance a + hold - c" "hold = 0 \<longrightarrow> u = 0"
    "0 < hold_nano \<longrightarrow> min (ac_balance a) (- ACCOUNT_OVERDRAFT_NANO) \<le> bal"
    using col nn collect_effect [of "ac_balance a" hold act c u bal] by (auto split: if_splits)
  then have "a\<lparr>ac_balance := bal, ac_spent := ac_spent a + act,
        ac_reserved := ac_reserved a - hold, ac_uncollected := ac_uncollected a + u\<rparr>
      = settled_account hold c act a"
    by (simp add: settled_account_def)
  then have acc: "accounts d' = (accounts d)(aid \<mapsto> settled_account hold c act a)"
    using record_charge_effect(1) [OF d3] settle_key_effect(1) [OF d2] d1 by simp
  show "\<exists>a. accounts d aid = Some a
    \<and> accounts d' = (accounts d)(aid \<mapsto> settled_account (max hold_nano 0) c (max actual_nano 0) a)
    \<and> bal = ac_balance a + max hold_nano 0 - c
    \<and> c + u = max actual_nano 0 \<and> 0 \<le> c \<and> 0 \<le> u
    \<and> (max hold_nano 0 = 0 \<longrightarrow> u = 0)
    \<and> (0 < hold_nano \<longrightarrow> min (ac_balance a) (- ACCOUNT_OVERDRAFT_NANO) \<le> bal)
    \<and> max hold_nano 0 \<le> max (ac_reserved a) 0"
    unfolding h [symmetric] act [symmetric] using a acc eff res by auto
  show "idx_handle d' = idx_handle d" "reservations d' = reservations d" "outbox d' = outbox d" "winners d' = winners d"
    using record_charge_effect(2,4,5,6) [OF d3] settle_key_effect(2,3,4,5) [OF d2] d1 by simp_all
  show "actual_nano \<le> 0 \<Longrightarrow> ledger d' = ledger d"
    using record_charge_effect(7) [OF d3] settle_key_effect(6) [OF d2] d1 act by simp
  show "0 < actual_nano \<Longrightarrow> \<exists>l. ledger d' = ledger d @ [l] \<and> is_charge_row aid (Some rid) actual_nano u l
       \<and> ledger_unique_ok l (ledger d)"
    using record_charge_effect(8) [OF d3] settle_key_effect(6) [OF d2] d1 act by simp
qed


section \<open>The ledger explains every balance\<close>

definition topups_of :: "string \<Rightarrow> ledger_row list \<Rightarrow> int" where
  "topups_of aid ls = (\<Sum>l\<leftarrow>ls. if l_account l = aid \<and> money_kind (l_kind l) then l_amount l else 0)"

definition charges_of :: "string \<Rightarrow> ledger_row list \<Rightarrow> int" where
  "charges_of aid ls = (\<Sum>l\<leftarrow>ls. if l_account l = aid \<and> l_kind l = ''charge'' then l_amount l else 0)"

definition uncollected_of :: "string \<Rightarrow> ledger_row list \<Rightarrow> int" where
  "uncollected_of aid ls =
     (\<Sum>l\<leftarrow>ls. if l_account l = aid \<and> l_kind l = ''charge'' then l_uncollected l else 0)"

definition explained_by :: "string \<Rightarrow> account_row option \<Rightarrow> ledger_row list \<Rightarrow> bool" where
  "explained_by aid x ls \<longleftrightarrow> (case x of
      None \<Rightarrow> \<forall>l\<in>set ls. l_account l \<noteq> aid
    | Some a \<Rightarrow> ac_balance a + ac_reserved a
          = topups_of aid ls - charges_of aid ls + uncollected_of aid ls
        \<and> ac_spent a = charges_of aid ls \<and> ac_uncollected a = uncollected_of aid ls)"

definition explained :: "db \<Rightarrow> bool" where
  "explained d \<longleftrightarrow> (\<forall>aid. explained_by aid (accounts d aid) (ledger d))"

lemma sums_append [simp]:
  "topups_of aid (xs @ ys) = topups_of aid xs + topups_of aid ys"
  "charges_of aid (xs @ ys) = charges_of aid xs + charges_of aid ys"
  "uncollected_of aid (xs @ ys) = uncollected_of aid xs + uncollected_of aid ys"
  by (simp_all add: topups_of_def charges_of_def uncollected_of_def)

lemma sums_other:
  assumes "\<forall>l\<in>set ls. l_account l \<noteq> aid"
  shows "topups_of aid ls = 0" "charges_of aid ls = 0" "uncollected_of aid ls = 0"
proof -
  have z: "(\<Sum>l\<leftarrow>ls. f l) = 0" if "\<forall>l\<in>set ls. f l = (0 :: int)" for f
    using that by (induction ls) auto
  show "topups_of aid ls = 0" "charges_of aid ls = 0" "uncollected_of aid ls = 0"
    unfolding topups_of_def charges_of_def uncollected_of_def using assms by (auto intro!: z)
qed

lemma sums_charge_row:
  assumes "is_charge_row aid req act unc l"
  shows "topups_of aid [l] = 0" "charges_of aid [l] = act" "uncollected_of aid [l] = unc"
  using assms
  by (simp_all add: topups_of_def charges_of_def uncollected_of_def is_charge_row_def money_kind_def)

lemma explained_by_other_row:
  "explained_by x v ls \<Longrightarrow> l_account l \<noteq> x \<Longrightarrow> explained_by x v (ls @ [l])"
  by (auto simp: explained_by_def sums_other split: option.splits)

lemma explained_same_account:
  assumes "explained d" "accounts d aid = Some a" "ledger d' = ledger d"
    "accounts d' = (accounts d)(aid \<mapsto> a')"
    "ac_balance a' + ac_reserved a' = ac_balance a + ac_reserved a"
    "ac_spent a' = ac_spent a" "ac_uncollected a' = ac_uncollected a"
  shows "explained d'"
proof -
  have "explained_by aid (Some a) (ledger d)" using assms(1,2) by (metis explained_def)
  then show ?thesis using assms by (auto simp: explained_def explained_by_def)
qed

lemma explained_settled:
  assumes "explained d" "accounts d aid = Some a"
    "accounts d' = (accounts d)(aid \<mapsto> settled_account rel c act a)"
    "c + u = act" "0 \<le> c" "0 \<le> u"
    "act = 0 \<longrightarrow> ledger d' = ledger d"
    "0 < act \<longrightarrow> (\<exists>l. ledger d' = ledger d @ [l] \<and> is_charge_row aid req act u l)"
  shows "explained d'"
proof -
  have e: "explained_by aid (Some a) (ledger d)" using assms(1,2) by (metis explained_def)
  have o: "explained_by x (accounts d x) (ledger d)" for x using assms(1) by (simp add: explained_def)
  show ?thesis
  proof (cases "act = 0")
    case True
    then have "c = 0" "ledger d' = ledger d" using assms by auto
    then show ?thesis
      using e o assms(3) True by (auto simp: explained_def explained_by_def settled_account_def)
  next
    case False
    then obtain l where l: "ledger d' = ledger d @ [l]" "is_charge_row aid req act u l"
      using assms by fastforce
    have "l_account l = aid" using l(2) by (simp add: is_charge_row_def)
    then show ?thesis
      using e o assms(3,4) l(1) sums_charge_row [OF l(2)]
      by (auto simp: explained_def explained_by_other_row)
        (auto simp: explained_by_def settled_account_def)
  qed
qed

lemma explained_cong: "accounts d' = accounts d \<Longrightarrow> ledger d' = ledger d \<Longrightarrow> explained d' = explained d"
  by (simp add: explained_def)

subsection \<open>Every operation preserves it\<close>

lemma explained_create:
  assumes "explained d" "account_create aid handle m d = Inr (d', x)"
  shows "explained d'"
proof -
  obtain a where new: "accounts d aid = None" "accounts d' = (accounts d)(aid \<mapsto> a)"
      "ledger d' = ledger d" "ac_balance a = 0" "ac_reserved a = 0" "ac_spent a = 0" "ac_uncollected a = 0"
    using assms(2) by (auto simp: account_create_def split: if_splits)
  have "explained_by aid None (ledger d)" using assms(1) new(1) by (metis explained_def)
  then have "explained_by aid (Some a) (ledger d)" using new by (simp add: explained_by_def sums_other)
  then show ?thesis using assms(1) new by (simp add: explained_def)
qed

lemma explained_account_update:
  assumes "explained d"
  shows "account_set_status aid st d = Inr (d', n) \<Longrightarrow> explained d'"
    "account_set_mult_bp aid m d = Inr (d', n) \<Longrightarrow> explained d'"
    "account_remove aid d = Inr (d', n) \<Longrightarrow> explained d'"
  using assms
  by (auto simp: account_set_status_def account_set_mult_bp_def account_remove_def bind_res_eq_Inr
      split: option.splits if_splits intro: explained_same_account)

lemma explained_topup: "explained d \<Longrightarrow> explained (fst (account_topup now aid amt ref d))"
proof -
  assume e: "explained d"
  show ?thesis
  proof (cases "accounts d aid")
    case None
    then show ?thesis using e by (simp add: account_topup_def split: option.splits)
  next
    case (Some a)
    define kind where "kind = (if 0 \<le> amt then ''topup'' else ''adjust'')"
    let ?l = "\<lparr>l_account = aid, l_key = None, l_kind = kind, l_request = None,
      l_amount = amt, l_ref = ref, l_balance_after = Some (ac_balance a + amt), l_ts = now,
      l_model = None, l_provider = None, l_official = None, l_mult_bp = None, l_uncollected = 0\<rparr>"
    let ?d = "d\<lparr>accounts := (accounts d)(aid \<mapsto> a\<lparr>ac_balance := ac_balance a + amt\<rparr>),
      ledger := ledger d @ [?l]\<rparr>"
    have "fst (account_topup now aid amt ref d) = d \<or> fst (account_topup now aid amt ref d) = ?d"
      using Some unfolding account_topup_def Let_def kind_def [symmetric]
      by (auto simp: bind_res_def put_account_def insert_ledger_def
          split: option.splits sum.splits if_splits ledger_error.splits)
    moreover have "explained ?d"
    proof -
      have k: "money_kind kind" "kind \<noteq> ''charge''" by (auto simp: kind_def money_kind_def)
      have "explained_by aid (Some a) (ledger d)" using e Some by (metis explained_def)
      moreover have "explained_by x (accounts d x) (ledger d)" for x
        using e by (simp add: explained_def)
      ultimately show ?thesis using k
        by (auto simp: explained_def explained_by_other_row)
          (auto simp: explained_by_def topups_of_def charges_of_def uncollected_of_def)
    qed
    ultimately show ?thesis using e by auto
  qed
qed

definition held_account :: "i64 \<Rightarrow> account_row \<Rightarrow> account_row" where
  "held_account hold a = a\<lparr>ac_balance := ac_balance a - hold, ac_reserved := ac_reserved a + hold\<rparr>"

lemma account_reserve_effect:
  assumes "account_reserve aid hold d = Inr (d', res)"
  shows "res = None \<Longrightarrow> d' = d"
    "res = Some b \<Longrightarrow> \<exists>a. accounts d aid = Some a \<and> ac_status a = ''active''
      \<and> b = ac_balance a - max hold 0
      \<and> (if 0 < hold then hold - ACCOUNT_OVERDRAFT_NANO \<le> ac_balance a
            \<and> d' = d\<lparr>accounts := (accounts d)(aid \<mapsto> held_account hold a)\<rparr>
         else d' = d)"
  using assms
  by (auto simp: account_reserve_def held_account_def Let_def max_def split: option.splits if_splits)

lemma account_reserve_max: "account_reserve aid (max hold 0) d = account_reserve aid hold d"
  by (simp add: account_reserve_def)

lemma reserve_for_key_effect:
  assumes "account_reserve_for_key now aid key hold d = Inr (d', res)"
  shows "res = None \<Longrightarrow> d' = d"
    "res = Some b \<Longrightarrow> \<exists>a k. accounts d aid = Some a \<and> ac_status a = ''active''
      \<and> api_keys d key = Some k \<and> key_policy_ok now aid (max hold 0) k
      \<and> b = ac_balance a - max hold 0
      \<and> (if 0 < hold then hold - ACCOUNT_OVERDRAFT_NANO \<le> ac_balance a
            \<and> d' = d\<lparr>accounts := (accounts d)(aid \<mapsto> held_account hold a),
                api_keys := (api_keys d)(key \<mapsto> k\<lparr>k_reserved := k_reserved k + hold\<rparr>)\<rparr>
         else d' = d)"
proof -
  obtain d1 admitted where r: "account_reserve aid hold d = Inr (d1, admitted)"
    and rest: "(case admitted of None \<Rightarrow> Inr (d, None)
        | Some balance \<Rightarrow> (case api_keys d1 key of None \<Rightarrow> Inr (d, None)
           | Some k \<Rightarrow> if \<not> key_policy_ok now aid (max hold 0) k then Inr (d, None)
               else if max hold 0 = 0 then Inr (d1, Some balance)
               else Inr (d1\<lparr>api_keys := (api_keys d1)(key \<mapsto>
                   k\<lparr>k_reserved := k_reserved k + max hold 0\<rparr>)\<rparr>, Some balance)))
      = (Inr (d', res) :: ledger_error + db \<times> i64 option)"
    using assms unfolding account_reserve_for_key_def Let_def account_reserve_max by auto
  show "res = None \<Longrightarrow> d' = d" using rest by (auto split: option.splits if_splits)
  assume res: "res = Some b"
  then obtain k where adm: "admitted = Some b" "api_keys d1 key = Some k"
      "key_policy_ok now aid (max hold 0) k"
      "d' = (if 0 < hold then d1\<lparr>api_keys := (api_keys d1)(key \<mapsto>
                   k\<lparr>k_reserved := k_reserved k + hold\<rparr>)\<rparr> else d1)"
    using rest by (auto split: option.splits if_splits simp: max_def)
  from account_reserve_effect(2) [OF r adm(1)] adm show "\<exists>a k. accounts d aid = Some a \<and> ac_status a = ''active''
      \<and> api_keys d key = Some k \<and> key_policy_ok now aid (max hold 0) k
      \<and> b = ac_balance a - max hold 0
      \<and> (if 0 < hold then hold - ACCOUNT_OVERDRAFT_NANO \<le> ac_balance a
            \<and> d' = d\<lparr>accounts := (accounts d)(aid \<mapsto> held_account hold a),
                api_keys := (api_keys d)(key \<mapsto> k\<lparr>k_reserved := k_reserved k + hold\<rparr>)\<rparr>
         else d' = d)"
    by (auto split: if_splits)
qed

lemma explained_reserve_for_key:
  assumes "explained d" "account_reserve_for_key now aid key hold d = Inr (d', res)"
  shows "explained d'"
proof (cases res)
  case None
  then show ?thesis using assms reserve_for_key_effect(1) by blast
next
  case (Some b)
  from reserve_for_key_effect(2) [OF assms(2) Some] show ?thesis using assms(1)
    by (auto intro: explained_same_account simp: held_account_def split: if_splits)
qed

lemma settle_records_effect:
  assumes "settle_records now aid key rel act unc bal reference usage d = Inr d'"
  shows "accounts d' = accounts d" "reservations d' = reservations d" "outbox d' = outbox d"
    "winners d' = winners d" "act \<le> 0 \<Longrightarrow> ledger d' = ledger d"
    "0 < act \<Longrightarrow> \<exists>l. ledger d' = ledger d @ [l] \<and> is_charge_row aid None act unc l"
  using assms unfolding settle_records_def Let_def ledger_add_settlement_def usage_event_add_settlement_def
  by (auto simp: is_charge_row_def split: option.splits if_splits sum.splits
      dest!: insert_ledger_eq_InrD insert_usage_eq_InrD)

lemma account_settle_in_effect:
  assumes "account_settle_in now aid key hold_nano actual_nano reference usage d = Inr (d', Some bal)"
  shows "\<exists>a rel c. accounts d aid = Some a \<and> 0 \<le> c \<and> c \<le> max actual_nano 0
    \<and> accounts d' = (accounts d)(aid \<mapsto> settled_account rel c (max actual_nano 0) a)
    \<and> (actual_nano \<le> 0 \<longrightarrow> ledger d' = ledger d)
    \<and> (0 < actual_nano \<longrightarrow>
         (\<exists>l. ledger d' = ledger d @ [l] \<and> is_charge_row aid None actual_nano (actual_nano - c) l))"
    "reservations d' = reservations d" "outbox d' = outbox d" "winners d' = winners d"
proof -
  define hold act where h: "hold = max hold_nano 0" and act: "act = max actual_nano 0"
  obtain a rel c u d1 where a: "accounts d aid = Some a"
    and col: "(if hold = 0 then debit (ac_balance a) act else collect (ac_balance a) rel act) = Inr (c, u, bal)"
    and rel: "rel = (if hold = 0 then 0 else min hold (ac_reserved a))"
    and d1: "d1 = d\<lparr>accounts := (accounts d)(aid \<mapsto> a\<lparr>ac_balance := bal, ac_spent := ac_spent a + act,
        ac_reserved := ac_reserved a - rel, ac_uncollected := ac_uncollected a + u\<rparr>)\<rparr>"
    and d': "settle_records now aid key rel act u bal reference usage d1 = Inr d'"
    using assms unfolding account_settle_in_def Let_def h [symmetric] act [symmetric]
    by (auto split: option.splits if_splits)
  note fin = settle_records_effect [OF d']
  have nn: "0 \<le> act" by (simp add: act)
  have eff: "c + u = act" "0 \<le> c" "0 \<le> u" "bal = ac_balance a + rel - c"
    using col rel nn collect_split [of "ac_balance a" rel act c u bal] by (auto split: if_splits)
  then have upd: "a\<lparr>ac_balance := bal, ac_spent := ac_spent a + act,
        ac_reserved := ac_reserved a - rel, ac_uncollected := ac_uncollected a + u\<rparr>
      = settled_account rel c act a" and u: "u = act - c"
    by (simp_all add: settled_account_def)
  have "accounts d' = (accounts d)(aid \<mapsto> settled_account rel c act a)"
    using fin d1 upd by simp
  then show "\<exists>a rel c. accounts d aid = Some a \<and> 0 \<le> c \<and> c \<le> max actual_nano 0
    \<and> accounts d' = (accounts d)(aid \<mapsto> settled_account rel c (max actual_nano 0) a)
    \<and> (actual_nano \<le> 0 \<longrightarrow> ledger d' = ledger d)
    \<and> (0 < actual_nano \<longrightarrow>
         (\<exists>l. ledger d' = ledger d @ [l] \<and> is_charge_row aid None actual_nano (actual_nano - c) l))"
    by (rule_tac x = a in exI, rule_tac x = rel in exI, rule_tac x = c in exI)
      (use a eff fin u act d1 in \<open>auto simp: max_def split: if_splits\<close>)
  show "reservations d' = reservations d" "outbox d' = outbox d" "winners d' = winners d"
    using fin d1 by simp_all
qed

lemma explained_settle_in:
  assumes "explained d" "account_settle_in now aid key hold act reference usage d = Inr (d', res)"
  shows "explained d'"
proof (cases res)
  case None
  then show ?thesis using assms unfolding account_settle_in_def Let_def
    by (auto split: option.splits prod.splits if_splits)
next
  case (Some bal)
  from account_settle_in_effect(1) [OF assms(2) [unfolded Some]]
  obtain a rel c where e: "accounts d aid = Some a" "0 \<le> c" "c \<le> max act 0"
      "accounts d' = (accounts d)(aid \<mapsto> settled_account rel c (max act 0) a)"
      "act \<le> 0 \<longrightarrow> ledger d' = ledger d"
      "0 < act \<longrightarrow> (\<exists>l. ledger d' = ledger d @ [l] \<and> is_charge_row aid None act (act - c) l)"
    by blast
  show ?thesis
    by (rule explained_settled [OF assms(1) e(1,4), where u = "max act 0 - c" and req = None])
      (use e in \<open>auto simp: max_def split: if_splits\<close>)
qed


subsection \<open>The effect of a first settlement\<close>

definition loses :: "string \<Rightarrow> outbox_row \<Rightarrow> reservation \<Rightarrow> db \<Rightarrow> bool" where
  "loses rid ob r d \<longleftrightarrow> 0 < o_actual ob \<and>
     (case winners d (effective_group rid r) of None \<Rightarrow> False | Some w \<Rightarrow> w \<noteq> rid)"

definition effective_actual :: "string \<Rightarrow> outbox_row \<Rightarrow> reservation \<Rightarrow> db \<Rightarrow> i64" where
  "effective_actual rid ob r d = (if 0 < o_actual ob \<and> \<not> loses rid ob r d then o_actual ob else 0)"

definition closed_reservation ::
    "i64 \<Rightarrow> outbox_row \<Rightarrow> bool \<Rightarrow> i64 \<Rightarrow> i64 \<Rightarrow> i64 \<Rightarrow> i64 \<Rightarrow> reservation \<Rightarrow> reservation" where
  "closed_reservation now ob losing act c u bal r = r\<lparr>
     r_state := (if losing \<or> o_disposition ob = ''cancel'' then Canceled else Settled),
     r_actual := Some act, r_collected := Some c, r_uncollected := Some u,
     r_balance_after_settle := Some bal, r_reference := o_reference ob, r_updated_ts := now,
     r_settled_ts := Some now\<rparr>"

definition done_outbox :: "i64 \<Rightarrow> outbox_row \<Rightarrow> outbox_row" where
  "done_outbox now ob = ob\<lparr>o_state := Done, o_attempts := o_attempts ob + 1, o_updated_ts := now,
     o_committed_ts := Some now, o_last_error := None\<rparr>"

definition decided :: "string \<Rightarrow> outbox_row \<Rightarrow> reservation \<Rightarrow> db \<Rightarrow> db" where
  "decided rid ob r d = (if 0 < o_actual ob then fst (decide_winner (effective_group rid r) rid d) else d)"

lemma decided_simps [simp]:
  "accounts (decided rid ob r d) = accounts d" "ledger (decided rid ob r d) = ledger d"
  "reservations (decided rid ob r d) = reservations d" "outbox (decided rid ob r d) = outbox d"
  "idx_handle (decided rid ob r d) = idx_handle d"
  "usage_events (decided rid ob r d) = usage_events d" "api_keys (decided rid ob r d) = api_keys d"
  by (auto simp: decided_def decide_winner_def split: option.splits)

lemma decided_winners:
  "winners (decided rid ob r d) =
     (if 0 < o_actual ob \<and> winners d (effective_group rid r) = None
      then (winners d)(effective_group rid r \<mapsto> rid) else winners d)"
  by (auto simp: decided_def decide_winner_def split: option.splits)

lemma finish_settlement_unfold:
  "finish_settlement now rid ob r d =
     bind_res (stored_pricing r) (\<lambda>pricing.
     bind_res (account_settle_request_in now rid (r_account r) (r_key r) (r_hold r)
         (effective_actual rid ob r d) (o_reference ob)
         (if loses rid ob r d then None else o_usage ob) pricing (decided rid ob r d))
       (\<lambda>(d2, settled). case settled of None \<Rightarrow> Inl AccountGone
          | Some (bal, c, u) \<Rightarrow>
              bind_res (put_reservation rid (closed_reservation now ob (loses rid ob r d)
                  (effective_actual rid ob r d) c u bal r) d2)
                (\<lambda>d3. bind_res (put_outbox rid (done_outbox now ob) d3) (\<lambda>d4. Inr (d4, Some bal)))))"
proof -
  have "(if 0 < o_actual ob then let (d', w) = decide_winner (effective_group rid r) rid d
                 in (d', w \<noteq> rid) else (d, False)) = (decided rid ob r d, loses rid ob r d)"
    by (auto simp: decided_def loses_def decide_winner_def split: option.splits)
  then show ?thesis
    by (cases "loses rid ob r d"; cases "o_disposition ob = ''cancel''")
      (simp_all add: finish_settlement_def effective_actual_def closed_reservation_def
        done_outbox_def Let_def)
qed

definition finish_post ::
    "i64 \<Rightarrow> string \<Rightarrow> outbox_row \<Rightarrow> reservation \<Rightarrow> db \<Rightarrow> db \<Rightarrow> account_row \<Rightarrow> i64 \<Rightarrow> i64 \<Rightarrow> i64 \<Rightarrow> bool" where
  "finish_post now rid ob r d d' a c u bal \<longleftrightarrow>
     accounts d (r_account r) = Some a
     \<and> accounts d' = (accounts d)(r_account r \<mapsto>
         settled_account (max (r_hold r) 0) c (effective_actual rid ob r d) a)
     \<and> bal = ac_balance a + max (r_hold r) 0 - c
     \<and> c + u = effective_actual rid ob r d \<and> 0 \<le> c \<and> 0 \<le> u
     \<and> (max (r_hold r) 0 = 0 \<longrightarrow> u = 0)
     \<and> (0 < r_hold r \<longrightarrow> min (ac_balance a) (- ACCOUNT_OVERDRAFT_NANO) \<le> bal)
     \<and> reservations d' = (reservations d)(rid \<mapsto> closed_reservation now ob (loses rid ob r d)
         (effective_actual rid ob r d) c u bal r)
     \<and> outbox d' = (outbox d)(rid \<mapsto> done_outbox now ob)
     \<and> winners d' = winners (decided rid ob r d)
     \<and> (effective_actual rid ob r d = 0 \<longrightarrow> ledger d' = ledger d)
     \<and> (0 < effective_actual rid ob r d \<longrightarrow> (\<exists>l. ledger d' = ledger d @ [l]
         \<and> is_charge_row (r_account r) (Some rid) (effective_actual rid ob r d) u l
         \<and> ledger_unique_ok l (ledger d)))"

lemma finish_effect:
  assumes "finish_settlement now rid ob r d = Inr (d', res)"
  shows "\<exists>a c u bal. res = Some bal \<and> finish_post now rid ob r d d' a c u bal"
    "\<exists>p. stored_pricing r = Inr p"
proof -
  have nn: "max (effective_actual rid ob r d) 0 = effective_actual rid ob r d"
    by (simp add: effective_actual_def)
  obtain p d2 bal c u where p: "stored_pricing r = Inr p" and res: "res = Some bal"
    and s: "account_settle_request_in now rid (r_account r) (r_key r) (r_hold r)
         (effective_actual rid ob r d) (o_reference ob)
         (if loses rid ob r d then None else o_usage ob) p (decided rid ob r d)
         = Inr (d2, Some (bal, c, u))"
    and d': "d' = d2\<lparr>reservations := (reservations d2)(rid \<mapsto> closed_reservation now ob
         (loses rid ob r d) (effective_actual rid ob r d) c u bal r),
       outbox := (outbox d2)(rid \<mapsto> done_outbox now ob)\<rparr>"
    using assms unfolding finish_settlement_unfold by (auto split: option.splits)
  note e = settle_request_effect [OF s, unfolded nn decided_simps]
  from e(1) obtain a where "finish_post now rid ob r d d' a c u bal"
    unfolding finish_post_def using e(3-7) d' by auto
  then show "\<exists>a c u bal. res = Some bal \<and> finish_post now rid ob r d d' a c u bal"
    using res by blast
  show "\<exists>p. stored_pricing r = Inr p" using p by blast
qed

definition replayed_outbox :: "i64 \<Rightarrow> outbox_row \<Rightarrow> outbox_row" where
  "replayed_outbox now ob = ob\<lparr>o_state := Done,
     o_committed_ts := (case o_committed_ts ob of None \<Rightarrow> Some now | Some t \<Rightarrow> Some t),
     o_updated_ts := now, o_last_error := None\<rparr>"

lemma process_cases:
  assumes "sqlite_process_settlement now rid d = Inr (d', res)"
  shows "\<exists>ob r. outbox d rid = Some ob \<and> reservations d rid = Some r
    \<and> ((terminal (r_state r) \<or> o_state ob = Done) \<and> res = r_balance_after_settle r
         \<and> d' = d\<lparr>outbox := (outbox d)(rid \<mapsto> replayed_outbox now ob)\<rparr>
       \<or> \<not> terminal (r_state r) \<and> finish_settlement now rid ob r d = Inr (d', res))"
proof -
  obtain ob r where o: "outbox d rid = Some ob" "reservations d rid = Some r"
    using assms by (auto simp: sqlite_process_settlement_def split: option.splits)
  show ?thesis using assms
    by (auto simp: o sqlite_process_settlement_def replayed_outbox_def [symmetric] split: if_splits)
qed

lemma outbox_self [simp]: "\<exists>ob. d = d\<lparr>outbox := ob\<rparr>"
  by (rule exI [of _ "outbox d"]) simp

lemma enqueue_cases:
  assumes "sqlite_enqueue_settlement now rid aid key hold act ref usage disp d = Inr (d', res)"
  shows "res = None" "\<exists>ob. d' = d\<lparr>outbox := ob\<rparr>"
    "\<exists>r. reservations d rid = Some r \<and> r_account r = aid \<and> r_key r = key \<and> r_hold r = hold"
    "\<exists>ob. outbox d' rid = Some ob \<and> o_actual ob = max act 0 \<and> o_reference ob = ref \<and> o_usage ob = usage
       \<and> o_charge_basis ob = map_option ue_charge_basis_nano usage \<and> o_disposition ob = disp"
  using assms unfolding sqlite_enqueue_settlement_def Let_def
  by (auto split: option.splits if_splits)

lemma note_failure_cases: "\<exists>ob. note_failure now rid e d = d\<lparr>outbox := ob\<rparr>"
  by (auto simp: note_failure_def put_outbox_def split: option.splits)

section \<open>Commands\<close>

datatype ledger_cmd =
    CCreate string "string option" i64
  | CSetStatus string string
  | CSetMult string i64
  | CRemove string
  | CSetDiscount string string i64
  | CClearDiscount string string
  | CKeyIssue string string string "string option" "i64 option" "i64 option"
  | CKeyStatus string string
  | CKeyRemove string
  | CTopup i64 string i64 "string option"
  | CHotBatch i64 "hot_op list"
  | CReserve i64 string string string i64 i64 execution_attempt
  | CReservePriced i64 string string string i64 i64 execution_attempt reservation_pricing
  | CDeliver i64 string i64
  | CRenew i64 string i64
  | CSettle i64 string string string i64 i64 "string option" "usage_event_input option"
  | CCancel i64 string string string i64
  | CReconcile i64 "db \<Rightarrow> nat \<Rightarrow> string list"
      "db \<Rightarrow> nat \<Rightarrow> (string \<times> string \<times> string \<times> i64 \<times> reservation_state) list" nat bool

fun exec_cmd :: "ledger_cmd \<Rightarrow> db \<Rightarrow> db" where
  "exec_cmd (CCreate aid h m) d = fst (in_tx (account_create aid h m) d)"
| "exec_cmd (CSetStatus aid st) d = fst (in_tx (account_set_status aid st) d)"
| "exec_cmd (CSetMult aid m) d = fst (in_tx (account_set_mult_bp aid m) d)"
| "exec_cmd (CRemove aid) d = fst (in_tx (account_remove aid) d)"
| "exec_cmd (CSetDiscount aid p m) d = fst (in_tx (set_account_provider_discount aid p m) d)"
| "exec_cmd (CClearDiscount aid p) d = fst (clear_account_provider_discount aid p d)"
| "exec_cmd (CKeyIssue fid key aid label lim ex) d =
     fst (in_tx (key_issue_with_policy fid key aid label lim ex) d)"
| "exec_cmd (CKeyStatus key st) d = fst (key_set_status key st d)"
| "exec_cmd (CKeyRemove key) d = fst (key_remove key d)"
| "exec_cmd (CTopup now aid amt ref) d = fst (account_topup now aid amt ref d)"
| "exec_cmd (CHotBatch now ops) d = fst (apply_hot_batch now ops d)"
| "exec_cmd (CReserve now rid aid key hold lease ex) d =
     fst (in_tx (sqlite_reserve_request_for_execution now rid aid key hold lease ex) d)"
| "exec_cmd (CReservePriced now rid aid key hold lease ex pricing) d =
     fst (in_tx (sqlite_reserve_priced_request_for_execution now rid aid key hold lease ex pricing) d)"
| "exec_cmd (CDeliver now rid lease) d = fst (in_tx (sqlite_mark_delivering now rid lease) d)"
| "exec_cmd (CRenew now rid lease) d = fst (in_tx (sqlite_renew_reservation_lease now rid lease) d)"
| "exec_cmd (CSettle now rid aid key hold act ref usage) d =
     fst (sqlite_settle_request now rid aid key hold act ref usage d)"
| "exec_cmd (CCancel now rid aid key hold) d = fst (sqlite_cancel_request now rid aid key hold d)"
| "exec_cmd (CReconcile now sp se limit charge) d =
     fst (sqlite_reconcile_expired now sp se limit charge d)"

text \<open>
  Invariants of the whole authority are proved from the transactions: a predicate on databases is
  kept by every command when the transactions below keep it.
\<close>

locale tx_invariant =
  fixes I :: "db \<Rightarrow> bool"
  assumes account_cmd: "I d \<Longrightarrow> account_create aid h m d = Inr (d', n) \<Longrightarrow> I d'"
    and status_cmd: "I d \<Longrightarrow> account_set_status aid st d = Inr (d', k) \<Longrightarrow> I d'"
    and mult_cmd: "I d \<Longrightarrow> account_set_mult_bp aid m d = Inr (d', k) \<Longrightarrow> I d'"
    and remove_cmd: "I d \<Longrightarrow> account_remove aid d = Inr (d', k) \<Longrightarrow> I d'"
    and policy_cmd: "I d \<Longrightarrow> I (d\<lparr>discounts := ds, api_keys := ks\<rparr>)"
    and topup_cmd: "I d \<Longrightarrow> I (fst (account_topup now aid amt ref d))"
    and hold_cmd: "I d \<Longrightarrow> account_reserve_for_key now aid key hold d = Inr (d', res) \<Longrightarrow> I d'"
    and settle_in_cmd: "I d \<Longrightarrow> account_settle_in now aid key hold act ref usage d = Inr (d', res) \<Longrightarrow> I d'"
    and open_cmd: "I d \<Longrightarrow> account_reserve_for_key now aid key hold d = Inr (d1, Some b) \<Longrightarrow>
        reservations d rid = None \<Longrightarrow> \<not> terminal (r_state r) \<Longrightarrow> r_actual r = None \<Longrightarrow>
        r_account r = aid \<Longrightarrow> r_key r = key \<Longrightarrow> r_hold r = hold \<Longrightarrow>
        I (d1\<lparr>reservations := (reservations d1)(rid \<mapsto> r)\<rparr>)"
    and lease_cmd: "I d \<Longrightarrow> reservations d rid = Some r \<Longrightarrow> \<not> terminal (r_state r) \<Longrightarrow>
        \<not> terminal rst \<Longrightarrow>
        I (d\<lparr>reservations := (reservations d)(rid \<mapsto> r\<lparr>r_state := rst, r_lease_until := t,
            r_updated_ts := t'\<rparr>)\<rparr>)"
    and outbox_cmd: "I d \<Longrightarrow> I (d\<lparr>outbox := ob\<rparr>)"
    and finish_cmd: "I d \<Longrightarrow> reservations d rid = Some r \<Longrightarrow> \<not> terminal (r_state r) \<Longrightarrow>
        finish_settlement now rid ob1 r d = Inr (d', res) \<Longrightarrow> I d'"
begin

lemma tx: "I d \<Longrightarrow> (\<And>d' a. f d = Inr (d', a) \<Longrightarrow> I d') \<Longrightarrow> I (fst (in_tx f d))"
  by (auto simp: in_tx_def split: sum.splits)

lemma keys_only: "I d \<Longrightarrow> I (d\<lparr>api_keys := ks\<rparr>)" "I d \<Longrightarrow> I (d\<lparr>discounts := ds\<rparr>)"
  using policy_cmd [where ds = "discounts d"] policy_cmd [where ks = "api_keys d"] by fastforce+

lemma hot: "I d \<Longrightarrow> I (fst (apply_hot_op now op d))"
  by (auto simp: apply_hot_op_def in_tx_def split: hot_op.splits sum.splits
      intro: hold_cmd settle_in_cmd)

lemma hot_batch: "I d \<Longrightarrow> I (fst (apply_hot_batch now ops d))"
proof (induction ops arbitrary: d)
  case (Cons op ops)
  have "I (fst (apply_hot_batch now ops (fst (apply_hot_op now op d))))"
    by (rule Cons.IH) (rule hot [OF Cons.prems])
  then show ?case by (simp add: case_prod_beta)
qed simp

lemma process: "I d \<Longrightarrow> sqlite_process_settlement now rid d = Inr (d', res) \<Longrightarrow> I d'"
  using process_cases [of now rid d d' res] by (auto intro: outbox_cmd finish_cmd)

lemma enqueue: "I d \<Longrightarrow> sqlite_enqueue_settlement now rid aid key hold act ref usage disp d = Inr (d', res) \<Longrightarrow> I d'"
  using enqueue_cases(2) [of now rid aid key hold act ref usage disp d d' res] by (auto intro: outbox_cmd)

lemma failure: "I d \<Longrightarrow> I (note_failure now rid e d)"
  using note_failure_cases [of now rid e d] by (auto intro: outbox_cmd)

lemma enqueue_process: "I d \<Longrightarrow> I (fst (enqueue_and_process now rid aid key hold act ref usage disp d))"
  by (auto simp: enqueue_and_process_def in_tx_def split: sum.splits option.splits
      intro: process enqueue)

lemma settle: "I d \<Longrightarrow> I (fst (sqlite_settle_request now rid aid key hold act ref usage d))"
  by (auto simp: sqlite_settle_request_def in_tx_def split: sum.splits option.splits
      intro: process enqueue failure)

lemma cancel: "I d \<Longrightarrow> I (fst (sqlite_cancel_request now rid aid key hold d))"
  by (auto simp: sqlite_cancel_request_def in_tx_def split: sum.splits option.splits
      intro: process enqueue failure)

lemma retry: "I (fst acc) \<Longrightarrow> I (fst (retry_pending now rids acc))"
proof (induction now rids acc rule: retry_pending.induct)
  case (2 now rid rest d n)
  have d: "I d" using 2(3) by simp
  have "I (fst (in_tx (sqlite_process_settlement now rid) d))"
    by (rule tx [OF d]) (rule process [OF d])
  with 2 show ?case by (auto split: sum.splits prod.splits)
qed simp

lemma recover: "I (fst acc) \<Longrightarrow> I (fst (recover_expired now charge rows acc))"
proof (induction now charge rows acc rule: recover_expired.induct)
  case (2 now charge row rest d rep)
  have "I (fst (recover_one now charge row d))"
    using 2(3) by (auto simp: recover_one_def Let_def enqueue_process split: prod.splits)
  with 2 show ?case by (auto split: sum.splits prod.splits)
qed simp

lemma reconcile: "I d \<Longrightarrow> I (fst (sqlite_reconcile_expired now sp se limit charge d))"
  using retry [of "(d, 0)" now "sp d (max 1 (min 10000 limit))"]
  by (auto simp: sqlite_reconcile_expired_def Let_def recover split: prod.splits)

lemma reserve:
  assumes "I d" "sqlite_reserve_request_for_execution_with_pricing now rid aid key hold lease ex pricing d
      = Inr (d', res)"
  shows "I d'"
proof (cases "reservations d rid")
  case (Some r)
  then show ?thesis using assms
    by (auto simp: sqlite_reserve_request_for_execution_with_pricing_def split: if_splits)
next
  case None
  have t: "\<not> terminal Reserved" by (simp add: terminal_def)
  have new: "I (d1\<lparr>reservations := (reservations d1)(rid \<mapsto>
      new_reservation now aid key hold lease ex pricing b)\<rparr>)"
    if "account_reserve_for_key now aid key hold d = Inr (d1, Some b)" for d1 b
    by (rule open_cmd [OF assms(1) that None]) (simp_all add: new_reservation_def t)
  from assms None show ?thesis
    by (auto simp: sqlite_reserve_request_for_execution_with_pricing_def
        split: if_splits option.splits) (rule new, assumption)+
qed

lemma lease:
  assumes "I d"
  shows "sqlite_mark_delivering now rid lease_secs d = Inr (d', res) \<Longrightarrow> I d'"
    "sqlite_renew_reservation_lease now rid lease_secs d = Inr (d', res) \<Longrightarrow> I d'"
proof -
  have "\<not> terminal st" if "open_state st" for st using that by (auto simp: open_state_def terminal_def)
  then have up: "I (d\<lparr>reservations := (reservations d)(rid \<mapsto> r\<lparr>r_state := st, r_lease_until := t,
      r_updated_ts := t'\<rparr>)\<rparr>)" if "reservations d rid = Some r" "open_state (r_state r)" "open_state st" for r st t t'
    using that assms by (intro lease_cmd) auto
  show "sqlite_mark_delivering now rid lease_secs d = Inr (d', res) \<Longrightarrow> I d'"
    using assms up [of _ Delivering]
    by (auto simp: sqlite_mark_delivering_def open_state_def split: if_splits option.splits)
  show "sqlite_renew_reservation_lease now rid lease_secs d = Inr (d', res) \<Longrightarrow> I d'"
  proof -
    assume r: "sqlite_renew_reservation_lease now rid lease_secs d = Inr (d', res)"
    have "I (d\<lparr>reservations := (reservations d)(rid \<mapsto> r\<lparr>r_lease_until := t, r_updated_ts := t'\<rparr>)\<rparr>)"
      if "reservations d rid = Some r" "open_state (r_state r)" for r t t'
      using up [OF that that(2)] by simp
    then show ?thesis using r assms
      by (auto simp: sqlite_renew_reservation_lease_def split: if_splits option.splits)
  qed
qed

lemma keys:
  assumes "I d"
  shows "key_issue_with_policy fid key aid label lim expires d = Inr (d', k) \<Longrightarrow> I d'"
    "I (fst (key_set_status key status d))" "I (fst (key_remove key d))"
    "set_account_provider_discount aid p m d = Inr (d', k) \<Longrightarrow> I d'"
    "I (fst (clear_account_provider_discount aid p d))"
  using assms
  by (auto simp: key_issue_with_policy_def key_set_status_def key_remove_def
      set_account_provider_discount_def clear_account_provider_discount_def
      split: if_splits option.splits intro: keys_only)

lemma reserve_public:
  assumes "I d"
  shows "sqlite_reserve_request_for_execution now rid aid key hold lease_secs ex d = Inr (d', res) \<Longrightarrow> I d'"
    "sqlite_reserve_priced_request_for_execution now rid aid key hold lease_secs ex p d = Inr (d', res) \<Longrightarrow> I d'"
  using reserve [OF assms]
  by (auto simp: sqlite_reserve_request_for_execution_def sqlite_reserve_priced_request_for_execution_def)

lemma exec:
  assumes "I d"
  shows "I (exec_cmd c d)"
proof -
  have new: "I (fst (in_tx (account_create aid h m) d))" for aid h m
    by (rule tx [OF assms]) (rule account_cmd [OF assms])
  have key: "I (fst (in_tx (key_issue_with_policy fid key aid label lim expires) d))"
    for fid key aid label lim expires
    by (rule tx [OF assms]) (rule keys(1) [OF assms])
  have discount: "I (fst (in_tx (set_account_provider_discount aid p m) d))" for aid p m
    by (rule tx [OF assms]) (rule keys(4) [OF assms])
  note txs = new key discount tx [OF assms status_cmd [OF assms]]
    tx [OF assms mult_cmd [OF assms]] tx [OF assms remove_cmd [OF assms]]
    tx [OF assms reserve_public(1) [OF assms]] tx [OF assms reserve_public(2) [OF assms]]
    tx [OF assms lease(1) [OF assms]] tx [OF assms lease(2) [OF assms]]
    keys(2,3,5) [OF assms] topup_cmd [OF assms] hot_batch [OF assms] settle [OF assms]
    cancel [OF assms] reconcile [OF assms]
  show ?thesis by (cases c) (simp_all add: txs)
qed

end


locale ledger_invariant = tx_invariant +
  assumes empty: "I empty_db"

sublocale ledger_invariant \<subseteq> cmds: command_system exec_cmd I empty_db
  by unfold_locales (rule empty, rule exec)

lemma explained_finish:
  assumes "explained d" "finish_settlement now rid ob r d = Inr (d', res)"
  shows "explained d'"
proof -
  from finish_effect(1) [OF assms(2)] obtain a c u bal
    where post: "finish_post now rid ob r d d' a c u bal" by blast
  show ?thesis
    by (rule explained_settled [OF assms(1), where aid = "r_account r" and a = a and c = c and u = u
          and rel = "max (r_hold r) 0" and act = "effective_actual rid ob r d" and req = "Some rid"])
      (use post in \<open>auto simp: finish_post_def\<close>)
qed

interpretation money: ledger_invariant explained
proof unfold_locales
  show "explained empty_db"
    by (simp add: explained_def explained_by_def empty_db_def)
  show "explained (d\<lparr>discounts := ds, api_keys := ks\<rparr>)" "explained (d\<lparr>outbox := ob\<rparr>)"
    if "explained d" for d ds ks ob
    using that by (simp_all add: explained_def)
  show "explained (d1\<lparr>reservations := (reservations d1)(rid \<mapsto> r)\<rparr>)"
    if "explained d" "account_reserve_for_key now aid key hold d = Inr (d1, Some b)"
    for d now aid key hold d1 b rid r
    using explained_reserve_for_key [OF that] by (simp add: explained_def)
  show "explained (d\<lparr>reservations := (reservations d)(rid \<mapsto> x)\<rparr>)" if "explained d" for d rid x
    using that by (simp add: explained_def)
qed (auto intro: explained_create explained_account_update explained_topup
    explained_reserve_for_key explained_settle_in explained_finish)

section \<open>One winner per execution group\<close>

definition requests_once :: "ledger_row list \<Rightarrow> bool" where
  "requests_once ls \<longleftrightarrow>
     distinct (map (\<lambda>l. (l_kind l, l_request l)) (filter (\<lambda>l. l_request l \<noteq> None) ls))"

definition charge_evidence :: "db \<Rightarrow> ledger_row \<Rightarrow> bool" where
  "charge_evidence d l \<longleftrightarrow> (\<forall>rid. l_request l = Some rid \<longrightarrow> l_kind l = ''charge'' \<and>
     (\<exists>r. reservations d rid = Some r \<and> terminal (r_state r)
        \<and> winners d (effective_group rid r) = Some rid
        \<and> r_account r = l_account l \<and> r_actual r = Some (l_amount l)
        \<and> r_uncollected r = Some (l_uncollected l)))"

definition closed_evidence :: "reservation \<Rightarrow> bool" where
  "closed_evidence r \<longleftrightarrow> (if terminal (r_state r)
     then \<exists>c u. r_collected r = Some c \<and> r_uncollected r = Some u \<and> 0 \<le> c \<and> 0 \<le> u
       \<and> r_actual r = Some (c + u) \<and> r_balance_after_settle r \<noteq> None
     else r_actual r = None)"

definition request_inv :: "db \<Rightarrow> bool" where
  "request_inv d \<longleftrightarrow> requests_once (ledger d)
     \<and> (\<forall>l\<in>set (ledger d). charge_evidence d l)
     \<and> (\<forall>rid r. reservations d rid = Some r \<longrightarrow> closed_evidence r)"

lemma requests_once_append:
  "requests_once ls \<Longrightarrow> ledger_unique_ok l ls \<Longrightarrow> requests_once (ls @ [l])"
  by (auto simp: requests_once_def ledger_unique_ok_def)

lemma requests_once_anonymous: "l_request l = None \<Longrightarrow> requests_once (ls @ [l]) = requests_once ls"
  by (simp add: requests_once_def)

text \<open>Money operations without a request identity keep the request invariant.\<close>

lemma request_inv_cong:
  assumes "request_inv d" "reservations d' = reservations d" "winners d' = winners d"
    "ledger d' = ledger d \<or> (\<exists>l. ledger d' = ledger d @ [l] \<and> l_request l = None)"
  shows "request_inv d'"
  using assms requests_once_anonymous
  by (auto simp: request_inv_def charge_evidence_def)

lemma request_inv_open:
  assumes "request_inv d" "\<not> terminal (r_state r)" "r_actual r = None"
    "reservations d rid = None \<or> (\<exists>r0. reservations d rid = Some r0 \<and> \<not> terminal (r_state r0))"
  shows "request_inv (d\<lparr>reservations := (reservations d)(rid \<mapsto> r)\<rparr>)"
proof -
  have "l_request l \<noteq> Some rid" if "l \<in> set (ledger d)" for l
    using assms(1,4) that by (fastforce simp: request_inv_def charge_evidence_def)
  moreover have "charge_evidence d l" if "l \<in> set (ledger d)" for l
    using assms(1) that by (simp add: request_inv_def)
  moreover have "closed_evidence r" using assms(2,3) by (simp add: closed_evidence_def)
  ultimately show ?thesis using assms(1) by (auto simp: request_inv_def charge_evidence_def)
qed


lemma request_inv_finish:
  assumes inv: "request_inv d" and r: "reservations d rid = Some r" "\<not> terminal (r_state r)"
    and fin: "finish_settlement now rid ob r d = Inr (d', res)"
  shows "request_inv d'"
proof -
  let ?g = "effective_group rid r" and ?act = "effective_actual rid ob r d"
  from finish_effect(1) [OF fin] obtain a c u bal
    where post: "finish_post now rid ob r d d' a c u bal" by blast
  have cu: "c + u = ?act" "0 \<le> c" "0 \<le> u"
    and res: "reservations d' = (reservations d)(rid \<mapsto>
        closed_reservation now ob (loses rid ob r d) ?act c u bal r)"
    and win: "winners d' = winners (decided rid ob r d)"
    and led: "?act = 0 \<longrightarrow> ledger d' = ledger d"
      "0 < ?act \<longrightarrow> (\<exists>l. ledger d' = ledger d @ [l] \<and> is_charge_row (r_account r) (Some rid) ?act u l
         \<and> ledger_unique_ok l (ledger d))"
    using post by (simp_all add: finish_post_def)
  let ?r = "closed_reservation now ob (loses rid ob r d) ?act c u bal r"
  have t: "terminal (r_state ?r)" "closed_evidence ?r" "effective_group rid ?r = ?g"
      "r_account ?r = r_account r" "r_actual ?r = Some ?act" "r_uncollected ?r = Some u"
    using cu by (auto simp: closed_reservation_def terminal_def closed_evidence_def effective_group_def)
  have none: "l_request l \<noteq> Some rid" if "l \<in> set (ledger d)" for l
    using inv r that by (fastforce simp: request_inv_def charge_evidence_def)
  have mono: "winners d' g = Some w" if "winners d g = Some w" for g w
    using that by (auto simp: win decided_winners)
  have old: "charge_evidence d' l" if "l \<in> set (ledger d)" for l
    unfolding charge_evidence_def
  proof (intro allI impI)
    fix rid' assume q: "l_request l = Some rid'"
    then have "rid' \<noteq> rid" using none that by blast
    with inv q that res mono show "l_kind l = ''charge'' \<and> (\<exists>r. reservations d' rid' = Some r \<and> terminal (r_state r)
        \<and> winners d' (effective_group rid' r) = Some rid' \<and> r_account r = l_account l
        \<and> r_actual r = Some (l_amount l) \<and> r_uncollected r = Some (l_uncollected l))"
      by (fastforce simp: request_inv_def charge_evidence_def)
  qed
  have new: "charge_evidence d' l" if "is_charge_row (r_account r) (Some rid) ?act u l" "0 < ?act" for l
  proof -
    have "winners d' ?g = Some rid"
      using that(2) by (auto simp: win decided_winners effective_actual_def loses_def
          split: if_splits option.splits)
    then show ?thesis using that t res by (auto simp: charge_evidence_def is_charge_row_def)
  qed
  have "0 \<le> ?act" by (simp add: effective_actual_def)
  then have "requests_once (ledger d') \<and> (\<forall>l\<in>set (ledger d'). charge_evidence d' l)"
    using led inv old new by (cases "?act = 0") (auto simp: request_inv_def intro: requests_once_append)
  then show ?thesis using inv res t by (auto simp: request_inv_def)
qed

lemma topup_frame:
  "reservations (fst (account_topup now aid amt ref d)) = reservations d"
  "winners (fst (account_topup now aid amt ref d)) = winners d"
  "ledger (fst (account_topup now aid amt ref d)) = ledger d
    \<or> (\<exists>l. ledger (fst (account_topup now aid amt ref d)) = ledger d @ [l] \<and> l_request l = None)"
  by (auto simp: account_topup_def Let_def bind_res_def put_account_def insert_ledger_def
      split: option.splits sum.splits if_splits ledger_error.splits)

lemma reserve_frame:
  assumes "account_reserve_for_key now aid key hold d = Inr (d', res)"
  shows "reservations d' = reservations d" "winners d' = winners d" "ledger d' = ledger d"
    "outbox d' = outbox d"
  using reserve_for_key_effect [OF assms] by (cases res; force split: if_splits)+

lemma settle_in_frame:
  assumes "account_settle_in now aid key hold act ref usage d = Inr (d', res)"
  shows "reservations d' = reservations d" "winners d' = winners d"
    "ledger d' = ledger d \<or> (\<exists>l. ledger d' = ledger d @ [l] \<and> l_request l = None)"
proof -
  have "d' = d" if "res = None"
    using assms that unfolding account_settle_in_def Let_def by (auto split: option.splits if_splits)
  moreover have "reservations d' = reservations d" "winners d' = winners d"
    "ledger d' = ledger d \<or> (\<exists>l. ledger d' = ledger d @ [l] \<and> l_request l = None)" if "res = Some b" for b
    using account_settle_in_effect [OF assms [unfolded that]]
    by (auto simp: is_charge_row_def)
  ultimately show "reservations d' = reservations d" "winners d' = winners d"
    "ledger d' = ledger d \<or> (\<exists>l. ledger d' = ledger d @ [l] \<and> l_request l = None)"
    by (cases res; blast)+
qed

lemma account_frame:
  "account_create aid h m d = Inr (d', u) \<Longrightarrow>
     reservations d' = reservations d \<and> winners d' = winners d \<and> ledger d' = ledger d"
  "account_set_status aid st d = Inr (d', n) \<Longrightarrow>
     reservations d' = reservations d \<and> winners d' = winners d \<and> ledger d' = ledger d"
  "account_set_mult_bp aid m d = Inr (d', n) \<Longrightarrow>
     reservations d' = reservations d \<and> winners d' = winners d \<and> ledger d' = ledger d"
  "account_remove aid d = Inr (d', n) \<Longrightarrow>
     reservations d' = reservations d \<and> winners d' = winners d \<and> ledger d' = ledger d"
  by (auto simp: account_create_def account_set_status_def account_set_mult_bp_def account_remove_def
      split: if_splits option.splits)

interpretation requests: ledger_invariant request_inv
proof unfold_locales
  show "request_inv empty_db"
    by (simp add: request_inv_def requests_once_def empty_db_def)
  show "request_inv (d\<lparr>discounts := ds, api_keys := ks\<rparr>)" "request_inv (d\<lparr>outbox := ob\<rparr>)"
    if "request_inv d" for d ds ks ob
    using that by (auto intro: request_inv_cong)
  show "request_inv (d1\<lparr>reservations := (reservations d1)(rid \<mapsto> r)\<rparr>)"
    if "request_inv d" "account_reserve_for_key now aid key hold d = Inr (d1, Some b)"
      "reservations d rid = None" "\<not> terminal (r_state r)" "r_actual r = None"
    for d now aid key hold d1 b rid r
  proof (rule request_inv_open)
    show "request_inv d1" using reserve_frame [OF that(2)] by (intro request_inv_cong [OF that(1)]) auto
    show "reservations d1 rid = None \<or> (\<exists>r0. reservations d1 rid = Some r0 \<and> \<not> terminal (r_state r0))"
      using reserve_frame(1) [OF that(2)] that(3) by simp
  qed (use that in auto)
  show "request_inv (d\<lparr>reservations := (reservations d)(rid \<mapsto> r\<lparr>r_state := st, r_lease_until := t,
      r_updated_ts := t'\<rparr>)\<rparr>)"
    if "request_inv d" "reservations d rid = Some r" "\<not> terminal (r_state r)" "\<not> terminal st"
    for d rid r st t t'
  proof (rule request_inv_open [OF that(1)])
    show "r_actual (r\<lparr>r_state := st, r_lease_until := t, r_updated_ts := t'\<rparr>) = None"
      using that by (fastforce simp: request_inv_def closed_evidence_def)
  qed (use that in auto)
  show "request_inv d'" if "request_inv d" "account_reserve_for_key now aid key hold d = Inr (d', res)"
    for d now aid key hold d' res
    using reserve_frame [OF that(2)] by (intro request_inv_cong [OF that(1)]) auto
  show "request_inv d'" if "request_inv d" "account_settle_in now aid key hold act ref usage d = Inr (d', res)"
    for d now aid key hold act ref usage d' res
    using settle_in_frame [OF that(2)] by (intro request_inv_cong [OF that(1)]) auto
  show "request_inv (fst (account_topup now aid amt ref d))" if "request_inv d" for now aid amt ref d
    by (rule request_inv_cong [OF that]) (simp_all add: topup_frame)
qed (auto intro: request_inv_finish request_inv_cong dest: account_frame)

end
