(* ===== verification/Ledger_Properties.thy ===== *)
theory Ledger_Properties
  imports Ledger_Invariants
begin

text \<open>
  The properties of the money authority: what every reachable database satisfies, what admission,
  settlement, cancellation and recovery do, and that replays change nothing. A small concrete
  history is evaluated for the examples.
\<close>

section \<open>A concrete history\<close>

definition demo_cmds :: "ledger_cmd list" where
  "demo_cmds =
     [CCreate ''a'' None 10000,
      CKeyIssue ''kid'' ''k'' ''a'' None None None,
      CTopup 1 ''a'' 5000 (Some ''t''),
      CReserve 2 ''r'' ''a'' ''k'' 0 60 execution_direct]"

definition demo_db :: db where
  "demo_db = fold exec_cmd demo_cmds empty_db"

lemma trim_char [simp]: "printable c \<Longrightarrow> trim [c] = [c]"
  by (rule trim_printable) simp_all

definition demo_account :: account_row where
  "demo_account = \<lparr>ac_handle = None, ac_balance = 5000, ac_spent = 0, ac_reserved = 0,
     ac_uncollected = 0, ac_mult_bp = 10000, ac_status = ''active''\<rparr>"

definition demo_key :: key_row where
  "demo_key = \<lparr>k_key_id = ''kid'', k_account = Some ''a'', k_label = None, k_spent = 0, k_reserved = 0,
     k_spend_limit = None, k_expires = None, k_status = ''active''\<rparr>"

definition demo_row :: ledger_row where
  "demo_row = \<lparr>l_account = ''a'', l_key = None, l_kind = ''topup'', l_request = None,
     l_amount = 5000, l_ref = Some ''t'', l_balance_after = Some 5000, l_ts = 1, l_model = None,
     l_provider = None, l_official = None, l_mult_bp = None, l_uncollected = 0\<rparr>"

definition demo_reservation :: reservation where
  "demo_reservation = new_reservation 2 ''a'' ''k'' 0 60 execution_direct None 5000"

lemma demo_db_eq:
  "demo_db = \<lparr>accounts = [''a'' \<mapsto> demo_account], idx_handle = Map.empty,
     api_keys = [''k'' \<mapsto> demo_key], discounts = Map.empty, ledger = [demo_row], usage_events = [],
     reservations = [''r'' \<mapsto> demo_reservation], outbox = Map.empty, winners = Map.empty\<rparr>"
proof -
  let ?d1 = "empty_db\<lparr>accounts := [''a'' \<mapsto> demo_account\<lparr>ac_balance := 0\<rparr>]\<rparr>"
  have 1: "exec_cmd (CCreate ''a'' None 10000) empty_db = ?d1"
    by (simp add: in_tx_def account_create_def printable_def empty_db_def demo_account_def)
  have 2: "exec_cmd (CKeyIssue ''kid'' ''k'' ''a'' None None None) ?d1 = ?d1\<lparr>api_keys := [''k'' \<mapsto> demo_key]\<rparr>"
    by (simp add: in_tx_def key_issue_with_policy_def printable_def empty_db_def demo_key_def)
  let ?d3 = "empty_db\<lparr>accounts := [''a'' \<mapsto> demo_account], api_keys := [''k'' \<mapsto> demo_key],
    ledger := [demo_row]\<rparr>"
  have 3: "exec_cmd (CTopup 1 ''a'' 5000 (Some ''t'')) (?d1\<lparr>api_keys := [''k'' \<mapsto> demo_key]\<rparr>) = ?d3"
    by (simp add: account_topup_def printable_def empty_db_def demo_account_def put_account_def
        insert_ledger_def ledger_unique_ok_def mult_guard_ok_def in_i64_def demo_row_def)
  have 4: "exec_cmd (CReserve 2 ''r'' ''a'' ''k'' 0 60 execution_direct) ?d3
      = ?d3\<lparr>reservations := [''r'' \<mapsto> demo_reservation]\<rparr>"
    by (simp add: in_tx_def sqlite_reserve_request_for_execution_def
        sqlite_reserve_request_for_execution_with_pricing_def printable_def empty_db_def
        account_reserve_for_key_def account_reserve_def demo_account_def demo_key_def key_policy_ok_def
        put_reservation_def reservation_guard_ok_def demo_reservation_def new_reservation_def
        terminal_def paid_admission_requires_positive_balance_def execution_direct_def)
  show ?thesis
    unfolding demo_db_def demo_cmds_def by (simp only: fold.simps 1 2 3 4 comp_def) (simp add: empty_db_def)
qed


definition demo_charge :: ledger_row where
  "demo_charge = \<lparr>l_account = ''a'', l_key = Some ''k'', l_kind = ''charge'', l_request = Some ''r'',
     l_amount = 700, l_ref = None, l_balance_after = Some 4300, l_ts = 3, l_model = None,
     l_provider = None, l_official = None, l_mult_bp = None, l_uncollected = 0\<rparr>"

definition demo_outbox :: outbox_row where
  "demo_outbox = \<lparr>o_actual = 700, o_reference = None, o_usage = None, o_charge_basis = None,
     o_disposition = ''settle'', o_state = Pending, o_attempts = 0, o_next_attempt_ts = 0,
     o_last_error = None, o_created_ts = 3, o_updated_ts = 3, o_committed_ts = None\<rparr>"

definition demo_settled :: db where
  "demo_settled = \<lparr>accounts = [''a'' \<mapsto> settled_account 0 700 700 demo_account], idx_handle = Map.empty,
     api_keys = [''k'' \<mapsto> demo_key\<lparr>k_spent := 700\<rparr>], discounts = Map.empty,
     ledger = [demo_row, demo_charge], usage_events = [],
     reservations = [''r'' \<mapsto> closed_reservation 3 demo_outbox False 700 700 0 4300 demo_reservation],
     outbox = [''r'' \<mapsto> done_outbox 3 demo_outbox], winners = [''r'' \<mapsto> ''r'']\<rparr>"

lemma demo_process:
  "in_tx (sqlite_process_settlement 3 ''r'') (demo_db\<lparr>outbox := [''r'' \<mapsto> demo_outbox]\<rparr>)
      = (demo_settled, Inr (Some 4300))"
    by (simp add: in_tx_def sqlite_process_settlement_def demo_db_eq demo_reservation_def
        new_reservation_def demo_outbox_def terminal_def finish_settlement_def decide_winner_def
        effective_group_def stored_pricing_def account_settle_request_in_def check_pricing_def
        debit_def i64_try_from_def in_i64_def demo_account_def put_account_def settle_key_def
        demo_key_def record_charge_def insert_ledger_def mult_guard_ok_def ledger_unique_ok_def
        demo_row_def usage_model_def put_reservation_def reservation_guard_ok_def put_outbox_def
        demo_settled_def settled_account_def demo_charge_def closed_reservation_def done_outbox_def
        execution_direct_def)

lemma demo_settle:
  "sqlite_settle_request 3 ''r'' ''a'' ''k'' 0 700 None None demo_db = (demo_settled, Inr (Some 4300))"
proof -
  have e: "in_tx (sqlite_enqueue_settlement 3 ''r'' ''a'' ''k'' 0 700 None None ''settle'') demo_db
      = (demo_db\<lparr>outbox := [''r'' \<mapsto> demo_outbox]\<rparr>, Inr None)"
    by (simp add: in_tx_def sqlite_enqueue_settlement_def demo_db_eq demo_reservation_def
        new_reservation_def put_outbox_def demo_outbox_def)
  show ?thesis by (simp add: sqlite_settle_request_def e demo_process)
qed

definition demo_history :: "ledger_cmd list" where
  "demo_history = demo_cmds @ [CSettle 3 ''r'' ''a'' ''k'' 0 700 None None]"

lemma demo_history_db: "fold exec_cmd demo_history empty_db = demo_settled"
  by (simp add: demo_history_def demo_db_def [symmetric] demo_settle)

section \<open>Replays\<close>

definition replay_ok :: "string \<Rightarrow> i64 \<Rightarrow> reservation \<Rightarrow> db \<Rightarrow> bool" where
  "replay_ok rid act r d \<longleftrightarrow> (\<exists>expected p. sqlite_terminal_expected_actual rid act d = Inr expected
     \<and> r_actual r = Some expected \<and> stored_pricing r = Inr p \<and> collection_exact r (p \<noteq> None) expected)"

definition basis_ok :: "outbox_row \<Rightarrow> bool" where
  "basis_ok ob \<longleftrightarrow> (case o_charge_basis ob of None \<Rightarrow> True | Some n \<Rightarrow> 0 \<le> n)"

lemma process_replay:
  assumes "outbox d rid = Some ob" "reservations d rid = Some r" "terminal (r_state r) \<or> o_state ob = Done"
  shows "sqlite_process_settlement now rid d = Inr (d', res) \<longleftrightarrow>
    replay_ok rid (o_actual ob) r d \<and> basis_ok ob \<and> res = r_balance_after_settle r
    \<and> d' = d\<lparr>outbox := (outbox d)(rid \<mapsto> replayed_outbox now ob)\<rparr>"
  using assms
  by (auto simp: sqlite_process_settlement_def replay_ok_def replayed_outbox_def [symmetric]
      split: if_splits)
    (auto simp: replayed_outbox_def basis_ok_def bind_res_eq_Inr)

lemma enqueue_settled:
  assumes "sqlite_enqueue_settlement now rid aid key hold act ref usage disp d = Inr (d', res)"
    "reservations d rid = Some r" "r_state r = Settled"
  shows "r_reference r = ref"
  using assms by (auto simp: sqlite_enqueue_settlement_def Let_def split: if_splits)

lemma enqueue_basis:
  assumes "sqlite_enqueue_settlement now rid aid key hold act ref usage disp d = Inr (d', res)"
  shows "disp \<in> set [''settle'', ''cancel'', ''reconcile_full_hold'']"
  using assms by (auto simp: sqlite_enqueue_settlement_def Let_def split: if_splits)

lemma enqueue_replay:
  assumes "reservations d rid = Some r" "r_account r = aid" "r_key r = key" "r_hold r = hold"
    "disp \<in> set [''settle'', ''cancel'', ''reconcile_full_hold'']"
    "outbox d rid = Some ob" "o_actual ob = max act 0" "o_reference ob = ref" "o_usage ob = usage"
    "o_charge_basis ob = map_option ue_charge_basis_nano usage" "o_disposition ob = disp"
    "r_state r = Settled \<Longrightarrow> r_reference r = ref \<and> replay_ok rid (max act 0) r d"
  shows "sqlite_enqueue_settlement now rid aid key hold act ref usage disp d = Inr (d, None)"
proof (cases "r_state r = Settled")
  case True
  then obtain expected p where "sqlite_terminal_expected_actual rid (max act 0) d = Inr expected"
      "r_actual r = Some expected" "stored_pricing r = Inr p" "collection_exact r (p \<noteq> None) expected"
      "r_reference r = ref"
    using assms(12) by (auto simp: replay_ok_def)
  then show ?thesis using assms(1-11) True by (simp add: sqlite_enqueue_settlement_def)
next
  case False
  then show ?thesis using assms by (simp add: sqlite_enqueue_settlement_def)
qed

lemma finish_basis: "finish_settlement now rid ob r d = Inr (d', res) \<Longrightarrow> basis_ok ob"
  unfolding finish_settlement_unfold
  by (auto simp: basis_ok_def done_outbox_def split: option.splits)

lemma closed_group [simp]:
  "effective_group rid (closed_reservation now ob l act c u bal r) = effective_group rid r"
  "stored_pricing (closed_reservation now ob l act c u bal r) = stored_pricing r"
  by (simp_all add: closed_reservation_def effective_group_def stored_pricing_def)

lemma finish_replay_ok:
  assumes "finish_settlement now rid ob r d = Inr (d', res)" "reservations d rid = Some r"
    "in_i64 (o_actual ob)"
  shows "\<exists>r'. reservations d' rid = Some r' \<and> terminal (r_state r') \<and> replay_ok rid (o_actual ob) r' d'
    \<and> r_balance_after_settle r' = res \<and> r_reference r' = o_reference ob \<and> r_account r' = r_account r
    \<and> r_key r' = r_key r \<and> r_hold r' = r_hold r \<and> outbox d' rid = Some (done_outbox now ob)"
proof -
  from finish_effect [OF assms(1)] obtain a c u bal p where res: "res = Some bal"
    and post: "finish_post now rid ob r d d' a c u bal" and p: "stored_pricing r = Inr p" by blast
  let ?act = "effective_actual rid ob r d"
  let ?r = "closed_reservation now ob (loses rid ob r d) ?act c u bal r"
  have f: "reservations d' rid = Some ?r" "c + u = ?act" "0 \<le> c" "0 \<le> u"
      "winners d' = winners (decided rid ob r d)" "outbox d' rid = Some (done_outbox now ob)"
    using post by (simp_all add: finish_post_def)
  have exp: "sqlite_terminal_expected_actual rid (o_actual ob) d' = Inr ?act"
    using f(1,5)
    by (auto simp: sqlite_terminal_expected_actual_def effective_actual_def loses_def decided_winners
        split: option.splits if_splits)
  have "in_i64 ?act" using assms(3) by (simp add: effective_actual_def in_i64_def)
  then have "collection_exact ?r (p \<noteq> None) ?act"
    using f by (simp add: collection_exact_def closed_reservation_def checked_add_i64_def i64_try_from_def)
  then have "replay_ok rid (o_actual ob) ?r d'"
    using exp p by (auto simp: replay_ok_def) (auto simp: closed_reservation_def)
  then show ?thesis using f res
    by (intro exI [of _ ?r]) (simp add: closed_reservation_def terminal_def)
qed

section \<open>Admission and cancellation\<close>

lemma admission_effect:
  assumes "sqlite_reserve_request_for_execution_with_pricing now rid aid key hold lease ex pricing d
      = Inr (d', res)"
    and "reservations d rid = None"
  shows "case res of None \<Rightarrow> d' = d
    | Some b \<Rightarrow> \<exists>a k. accounts d aid = Some a \<and> ac_status a = ''active''
        \<and> api_keys d key = Some k \<and> key_policy_ok now aid hold k
        \<and> b = ac_balance a - hold \<and> 0 \<le> hold
        \<and> (hold = 0 \<longrightarrow> 0 < b
             \<or> \<not> paid_admission_requires_positive_balance (map_option rp_payable_multiplier_bp pricing))
        \<and> (0 < hold \<longrightarrow> - ACCOUNT_OVERDRAFT_NANO \<le> b)
        \<and> d' = d\<lparr>accounts := (accounts d)(aid \<mapsto> held_account hold a),
             api_keys := (api_keys d)(key \<mapsto> k\<lparr>k_reserved := k_reserved k + hold\<rparr>),
             reservations := (reservations d)(rid \<mapsto>
               new_reservation now aid key hold lease ex pricing b)\<rparr>"
proof -
  obtain d1 admitted where hold: "0 \<le> hold"
    and h: "account_reserve_for_key now aid key hold d = Inr (d1, admitted)"
    and rest: "(case admitted of None \<Rightarrow> Inr (d, None)
        | Some balance \<Rightarrow> if hold = 0
              \<and> paid_admission_requires_positive_balance (map_option rp_payable_multiplier_bp pricing)
              \<and> balance \<le> 0 then Inr (d, None)
            else bind_res (put_reservation rid (new_reservation now aid key hold lease ex pricing balance) d1)
              (\<lambda>d2. Inr (d2, Some balance))) = (Inr (d', res) :: ledger_error + db \<times> i64 option)"
    using assms by (auto simp: sqlite_reserve_request_for_execution_with_pricing_def split: if_splits)
  show ?thesis
  proof (cases res)
    case None
    then show ?thesis using rest by (auto split: option.splits if_splits)
  next
    case (Some b)
    then have adm: "admitted = Some b"
      and pos: "hold = 0 \<longrightarrow> \<not> paid_admission_requires_positive_balance
          (map_option rp_payable_multiplier_bp pricing) \<or> 0 < b"
      and d': "d' = d1\<lparr>reservations := (reservations d1)(rid \<mapsto>
          new_reservation now aid key hold lease ex pricing b)\<rparr>"
      using rest by (auto split: option.splits if_splits)
    from reserve_for_key_effect(2) [OF h adm] hold obtain a k where
      "accounts d aid = Some a" "ac_status a = ''active''" "api_keys d key = Some k"
      "key_policy_ok now aid hold k" "b = ac_balance a - hold"
      "0 < hold \<longrightarrow> hold - ACCOUNT_OVERDRAFT_NANO \<le> ac_balance a"
      "d1 = d\<lparr>accounts := (accounts d)(aid \<mapsto> held_account hold a),
         api_keys := (api_keys d)(key \<mapsto> k\<lparr>k_reserved := k_reserved k + hold\<rparr>)\<rparr>"
      by (fastforce simp: held_account_def fun_upd_idem max_def split: if_splits)
    then show ?thesis using Some pos d' hold by auto
  qed
qed

definition account_fits :: "account_row \<Rightarrow> bool" where
  "account_fits a \<longleftrightarrow> in_i64 (ac_balance a) \<and> in_i64 (ac_spent a) \<and> in_i64 (ac_uncollected a)
     \<and> 0 \<le> ac_uncollected a \<and> 0 \<le> ac_reserved a"

lemma collect_zero:
  "in_i64 (b + hold) \<Longrightarrow> collect b hold 0 = Inr (0, 0, b + hold)"
  by (simp add: collect_def Let_def checked_sub_i64_def i64_try_from_def in_i64_def)

text \<open>Settling an untouched hold with a zero amount undoes it.\<close>

lemma release_untouched_hold:
  assumes "accounts d aid = Some (held_account hold a)" "account_fits a" "0 \<le> hold"
    and "api_keys d key = Some (k\<lparr>k_reserved := k_reserved k + hold\<rparr>)" "k_account k = Some aid"
    and "0 \<le> k_reserved k" "in_i64 (k_spent k)" "check_pricing None pricing = Inr ()"
  shows "account_settle_request_in now rid aid key hold 0 ref None pricing d =
    Inr (d\<lparr>accounts := (accounts d)(aid \<mapsto> a), api_keys := (api_keys d)(key \<mapsto> k)\<rparr>,
      Some (ac_balance a, 0, 0))"
proof -
  have c: "debit (ac_balance a) 0 = Inr (0, 0, ac_balance a)"
    "collect (ac_balance a - hold) hold 0 = Inr (0, 0, ac_balance a)"
    using assms(2) collect_zero [of "ac_balance a - hold" hold]
    by (auto simp: debit_def account_fits_def i64_try_from_def)
  have "k\<lparr>k_reserved := k_reserved k, k_spent := k_spent k\<rparr> = k" by simp
  then show ?thesis
    using assms c
    by (cases "hold = 0")
      (simp_all add: account_settle_request_in_def held_account_def account_fits_def
        i64_try_from_def put_account_def settle_key_def record_charge_def max_def debit_def)
qed

lemma new_reservation_pricing:
  assumes "reservation_guard_ok (new_reservation now aid key hold lease ex pricing b)"
  shows "stored_pricing (new_reservation now aid key hold lease ex pricing b) = Inr pricing"
    "check_pricing None pricing = Inr ()"
  using assms
  by (auto simp: reservation_guard_ok_def new_reservation_def stored_pricing_def check_pricing_def
      reservation_pricing_new_def ensure_valid_provider_discount_def split: option.splits)

section \<open>Recovery\<close>

text \<open>What a client can see of spending: charges, uncollected charges, and balance plus holds.\<close>

definition spend_view :: "db \<Rightarrow> string \<Rightarrow> (i64 \<times> i64 \<times> i64) option" where
  "spend_view d aid = map_option (\<lambda>a. (ac_spent a, ac_uncollected a, ac_balance a + ac_reserved a))
     (accounts d aid)"

lemma process_free:
  assumes "sqlite_process_settlement now rid d = Inr (d', res)" "outbox d rid = Some ob" "o_actual ob \<le> 0"
  shows "ledger d' = ledger d \<and> spend_view d' = spend_view d"
proof -
  from process_cases [OF assms(1)] assms(2) obtain r where
    "d' = d\<lparr>outbox := (outbox d)(rid \<mapsto> replayed_outbox now ob)\<rparr>
     \<or> finish_settlement now rid ob r d = Inr (d', res)"
    by auto
  then show ?thesis
  proof
    assume f: "finish_settlement now rid ob r d = Inr (d', res)"
    have z: "effective_actual rid ob r d = 0" using assms(3) by (simp add: effective_actual_def)
    from finish_effect(1) [OF f] obtain a c u bal where "finish_post now rid ob r d d' a c u bal" by blast
    then have p: "ledger d' = ledger d" "c + u = 0" "0 \<le> c" "0 \<le> u" "accounts d (r_account r) = Some a"
        "accounts d' = (accounts d)(r_account r \<mapsto> settled_account (max (r_hold r) 0) c 0 a)"
      by (simp_all add: finish_post_def z)
    then have "c = 0" by simp
    then show ?thesis using p by (auto simp: spend_view_def settled_account_def fun_eq_iff)
  qed (simp add: spend_view_def fun_eq_iff)
qed

lemma recover_one_free:
  "ledger (fst (recover_one now False row d)) = ledger d
   \<and> spend_view (fst (recover_one now False row d)) = spend_view d"
proof -
  obtain rid aid key hold st where row: "row = (rid, aid, key, hold, st)" by (cases row)
  let ?ref = "Some (if st = Delivering then ''lease-expired-delivering'' else ''lease-expired-reserved'')"
  let ?disp = "if st = Delivering then ''reconcile_full_hold'' else ''cancel''"
  have e: "recover_one now False row d = enqueue_and_process now rid aid key hold 0 ?ref None ?disp d"
    by (simp add: recover_one_def row Let_def)
  show ?thesis
  proof (cases "sqlite_enqueue_settlement now rid aid key hold 0 ?ref None ?disp d")
    case (Inl x)
    then show ?thesis by (simp add: e enqueue_and_process_def in_tx_def)
  next
    case (Inr p)
    obtain d1 r1 where p: "p = (d1, r1)" by (cases p)
    note enq = Inr [unfolded p]
    from enqueue_cases(1,2,4) [OF enq] obtain ob0 ob where
      d1: "r1 = None" "d1 = d\<lparr>outbox := ob0\<rparr>" "outbox d1 rid = Some ob" "o_actual ob = 0" by auto
    show ?thesis
    proof (cases "sqlite_process_settlement now rid d1")
      case (Inl x)
      then show ?thesis using enq d1 by (simp add: e enqueue_and_process_def in_tx_def spend_view_def fun_eq_iff)
    next
      case (Inr q)
      obtain d2 r2 where q: "q = (d2, r2)" by (cases q)
      have "ledger d2 = ledger d1 \<and> spend_view d2 = spend_view d1"
        using process_free [OF Inr [unfolded q] d1(3)] d1(4) by simp
      moreover have "fst (recover_one now False row d) = d2"
        using enq Inr d1(1) q by (simp add: e enqueue_and_process_def in_tx_def)
      ultimately show ?thesis using d1(2) by (simp add: spend_view_def fun_eq_iff)
    qed
  qed
qed

section \<open>Top-up references\<close>

definition topup_kind :: "i64 \<Rightarrow> string" where
  "topup_kind amt = (if 0 \<le> amt then ''topup'' else ''adjust'')"

definition topup_row :: "i64 \<Rightarrow> string \<Rightarrow> i64 \<Rightarrow> string option \<Rightarrow> i64 \<Rightarrow> ledger_row" where
  "topup_row now aid amt ref bal = \<lparr>l_account = aid, l_key = None, l_kind = topup_kind amt, l_request = None,
     l_amount = amt, l_ref = ref, l_balance_after = Some bal, l_ts = now, l_model = None,
     l_provider = None, l_official = None, l_mult_bp = None, l_uncollected = 0\<rparr>"

definition same_topup :: "string \<Rightarrow> i64 \<Rightarrow> ledger_row \<Rightarrow> i64 option" where
  "same_topup aid amt l =
     (if l_account l = aid \<and> l_kind l = topup_kind amt \<and> l_amount l = amt then l_balance_after l else None)"

lemma topup_kind_money [simp]: "money_kind (topup_kind amt)"
  by (simp add: topup_kind_def money_kind_def)

lemma insert_topup_row:
  "insert_ledger (topup_row now aid amt ref bal) d =
     (if ledger_unique_ok (topup_row now aid amt ref bal) (ledger d)
      then Inr (d\<lparr>ledger := ledger d @ [topup_row now aid amt ref bal]\<rparr>) else Inl ConstraintViolation)"
  by (simp add: insert_ledger_def topup_row_def mult_guard_ok_def)

lemma topup_unique:
  "ledger_unique_ok (topup_row now aid amt (Some ref) bal) ls \<longleftrightarrow>
     List.find (\<lambda>l. l_ref l = Some ref \<and> money_kind (l_kind l)) ls = None"
  by (auto simp: ledger_unique_ok_def topup_row_def find_None_iff)

text \<open>A top-up with a usable reference, in terms of the stored row with that reference.\<close>

lemma topup_with_reference:
  assumes "trim ref \<noteq> []" "accounts d aid = Some a" "in_i64 (ac_balance a + amt)" "0 \<le> ac_uncollected a"
  shows "account_topup now aid amt (Some ref) d =
     (case List.find (\<lambda>l. l_ref l = Some ref \<and> money_kind (l_kind l)) (ledger d) of
        None \<Rightarrow> (d\<lparr>accounts := (accounts d)(aid \<mapsto> a\<lparr>ac_balance := ac_balance a + amt\<rparr>),
            ledger := ledger d @ [topup_row now aid amt (Some ref) (ac_balance a + amt)]\<rparr>,
          Inr (Some (ac_balance a + amt)))
      | Some l \<Rightarrow> (d, case same_topup aid amt l of None \<Rightarrow> Inl IdempotencyConflict | Some b \<Rightarrow> Inr (Some b)))"
  using assms topup_unique [of now aid amt ref "ac_balance a + amt" "ledger d"]
  by (simp add: account_topup_def Let_def topup_kind_def [symmetric] topup_row_def [symmetric]
      put_account_def insert_topup_row same_topup_def split: option.splits)

lemma topup_stored:
  assumes "account_topup now aid amt (Some ref) d = (d1, Inr (Some bal))"
  shows "trim ref \<noteq> []" "\<exists>l. List.find (\<lambda>l. l_ref l = Some ref \<and> money_kind (l_kind l)) (ledger d1) = Some l
    \<and> l_account l = aid \<and> l_kind l = topup_kind amt \<and> l_amount l = amt \<and> l_balance_after l = Some bal"
proof -
  show ref: "trim ref \<noteq> []" using assms by (auto simp: account_topup_def split: if_splits)
  obtain a where a: "accounts d aid = Some a" "in_i64 (ac_balance a + amt)" "0 \<le> ac_uncollected a"
    using assms ref
    by (auto simp: account_topup_def Let_def put_account_def split: option.splits if_splits)
  from assms [unfolded topup_with_reference [OF ref a]]
  show "\<exists>l. List.find (\<lambda>l. l_ref l = Some ref \<and> money_kind (l_kind l)) (ledger d1) = Some l
    \<and> l_account l = aid \<and> l_kind l = topup_kind amt \<and> l_amount l = amt \<and> l_balance_after l = Some bal"
    by (auto simp: same_topup_def find_append topup_row_def split: option.splits if_splits)
qed

section \<open>Discounts\<close>

lemma find_map_filter_pair:
  "List.find (\<lambda>(x, _). x = q) (List.map_filter (\<lambda>x. map_option (Pair x) (f x)) xs)
     = (if q \<in> set xs then map_option (Pair q) (f q) else None)"
proof (induction xs)
  case (Cons x xs)
  then show ?case by (cases "f x") (auto simp: map_filter_simps)
qed (simp add: map_filter_simps)

lemma mult_for_key_account:
  assumes "key_account key d = Some ka" "q \<in> set PROVIDER_IDS"
  shows "mult_for ka q = (case discounts d (ka_account_id ka, q) of None \<Rightarrow> ka_mult_bp ka | Some m \<Rightarrow> m)"
proof -
  have "set sorted_provider_ids = set PROVIDER_IDS" by (auto simp: sorted_provider_ids_def PROVIDER_IDS_def)
  then have "List.find (\<lambda>(x, _). x = q) (account_provider_discounts (ka_account_id ka) d)
      = map_option (Pair q) (discounts d (ka_account_id ka, q))"
    using assms(2) by (simp add: account_provider_discounts_def find_map_filter_pair)
  moreover have "ka_provider_mult_bp ka = account_provider_discounts (ka_account_id ka) d"
    using assms(1) by (auto simp: key_account_def split: bind_splits)
  ultimately show ?thesis by (auto simp: mult_for_def split: option.splits)
qed

lemma key_account_discounts:
  "key_account key (d\<lparr>discounts := ds\<rparr>) = map_option
     (\<lambda>ka. ka\<lparr>ka_provider_mult_bp := account_provider_discounts (ka_account_id ka) (d\<lparr>discounts := ds\<rparr>)\<rparr>)
     (key_account key d)"
  by (auto simp: key_account_def split: bind_splits) (auto simp: option.map_comp comp_def)

section \<open>Properties\<close>

text \<open>C1: After any sequence of commands (account and key administration, top-ups, hot batches of
  legacy holds and settlements, reservations, deliveries, settlements, cancellations and recovery)
  the ledger explains every account: balance plus holds is top-ups minus charges plus the
  uncollected part of the charges, spend is the sum of the charges, and the uncollected aggregate
  is the sum of their uncollected parts.\<close>

theorem ledger_explains_every_balance: "explained (fold exec_cmd cs empty_db)"
  by (rule money.cmds.inv_run)

text \<open>C2: In every reachable database an execution group pays at most once: two request charges
  whose reservations belong to one group are the same ledger row, and that row's amount and
  uncollected part are the terminal evidence of its reservation.\<close>

theorem one_charge_per_execution_group:
  assumes "l1 \<in> set (ledger (fold exec_cmd cs empty_db))" "l2 \<in> set (ledger (fold exec_cmd cs empty_db))"
    and "l_request l1 = Some q1" "reservations (fold exec_cmd cs empty_db) q1 = Some r1"
    and "l_request l2 = Some q2" "reservations (fold exec_cmd cs empty_db) q2 = Some r2"
    and "effective_group q1 r1 = effective_group q2 r2"
  shows "l1 = l2 \<and> terminal (r_state r1) \<and> r_actual r1 = Some (l_amount l1)
    \<and> r_uncollected r1 = Some (l_uncollected l1)"
proof -
  let ?d = "fold exec_cmd cs empty_db"
  have inv: "request_inv ?d" by (rule requests.cmds.inv_run)
  have ev: "l_kind l = ''charge'' \<and> terminal (r_state r) \<and> winners ?d (effective_group q r) = Some q
      \<and> r_actual r = Some (l_amount l) \<and> r_uncollected r = Some (l_uncollected l)"
    if "l \<in> set (ledger ?d)" "l_request l = Some q" "reservations ?d q = Some r" for l q r
    using inv that by (fastforce simp: request_inv_def charge_evidence_def)
  note e1 = ev [OF assms(1,3,4)] and e2 = ev [OF assms(2,5,6)]
  have "q1 = q2" using e1 e2 assms(7) by simp
  moreover have "inj_on (\<lambda>l. (l_kind l, l_request l)) (set (filter (\<lambda>l. l_request l \<noteq> None) (ledger ?d)))"
    using inv by (simp add: request_inv_def requests_once_def distinct_map)
  ultimately have "l1 = l2" using assms e1 e2 by (auto simp: inj_on_def)
  with e1 show ?thesis by simp
qed

theorem one_charge_per_execution_group_witness:
  "demo_charge = demo_charge
   \<and> terminal (r_state (closed_reservation 3 demo_outbox False 700 700 0 4300 demo_reservation))
   \<and> r_actual (closed_reservation 3 demo_outbox False 700 700 0 4300 demo_reservation)
       = Some (l_amount demo_charge)
   \<and> r_uncollected (closed_reservation 3 demo_outbox False 700 700 0 4300 demo_reservation)
       = Some (l_uncollected demo_charge)"
  by (rule one_charge_per_execution_group [of demo_charge demo_history demo_charge "''r''" _ "''r''"
        "closed_reservation 3 demo_outbox False 700 700 0 4300 demo_reservation"])
    (simp_all add: demo_history_db demo_settled_def demo_charge_def)

text \<open>C3: Settling is idempotent: after a settlement has succeeded, repeating the same call at any
  time returns the same balance and changes nothing but the bookkeeping columns of the request's
  outbox row, so accounts, keys, ledger, usage, reservations and winners are untouched.\<close>

theorem settlement_replay_changes_nothing:
  assumes "sqlite_settle_request now rid aid key hold act ref usage d = (d', Inr res)"
    and "in_i64 act"
  shows "\<exists>ob. sqlite_settle_request later rid aid key hold act ref usage d'
      = (d'\<lparr>outbox := (outbox d')(rid \<mapsto> ob)\<rparr>, Inr res)"
proof -
  obtain d1 where enq: "sqlite_enqueue_settlement now rid aid key hold act ref usage ''settle'' d = Inr (d1, None)"
    and proc: "sqlite_process_settlement now rid d1 = Inr (d', res)"
    using assms(1)
    by (auto simp: sqlite_settle_request_def in_tx_def split: sum.splits option.splits
        dest: enqueue_cases(1))
  obtain ob r where ob: "outbox d1 rid = Some ob" "o_actual ob = max act 0" "o_reference ob = ref"
      "o_usage ob = usage" "o_charge_basis ob = map_option ue_charge_basis_nano usage"
      "o_disposition ob = ''settle''"
    and r: "reservations d1 rid = Some r" "r_account r = aid" "r_key r = key" "r_hold r = hold"
      "r_state r = Settled \<longrightarrow> r_reference r = ref"
    using enqueue_cases(2-4) [OF enq] enqueue_settled [OF enq] by auto
  have act: "in_i64 (o_actual ob)" using assms(2) ob(2) by (auto simp: in_i64_def)
  obtain ob' r' where fin: "outbox d' rid = Some ob'" "reservations d' rid = Some r'"
      "o_actual ob' = max act 0" "o_reference ob' = ref" "o_usage ob' = usage" "basis_ok ob'"
      "o_charge_basis ob' = map_option ue_charge_basis_nano usage" "o_disposition ob' = ''settle''"
      "terminal (r_state r') \<or> o_state ob' = Done" "replay_ok rid (o_actual ob') r' d'"
      "r_account r' = aid" "r_key r' = key" "r_hold r' = hold" "r_state r' = Settled \<longrightarrow> r_reference r' = ref"
      "r_balance_after_settle r' = res"
  proof (cases "terminal (r_state r) \<or> o_state ob = Done")
    case True
    from proc [unfolded process_replay [OF ob(1) r(1) True]] show thesis
      using ob r by (intro that [of "replayed_outbox now ob" r])
        (auto simp: replayed_outbox_def basis_ok_def replay_ok_def sqlite_terminal_expected_actual_def)
  next
    case False
    then have "finish_settlement now rid ob r d1 = Inr (d', res)"
      using proc ob(1) r(1) by (simp add: sqlite_process_settlement_def)
    from finish_replay_ok [OF this r(1) act] finish_basis [OF this] show thesis
      using ob r by (elim exE conjE, intro that [of "done_outbox now ob"])
        (auto simp: done_outbox_def basis_ok_def)
  qed
  have "sqlite_enqueue_settlement later rid aid key hold act ref usage ''settle'' d' = Inr (d', None)"
    using fin by (intro enqueue_replay [of d' rid r']) auto
  moreover have "sqlite_process_settlement later rid d'
      = Inr (d'\<lparr>outbox := (outbox d')(rid \<mapsto> replayed_outbox later ob')\<rparr>, res)"
    using fin by (simp add: process_replay)
  ultimately show ?thesis by (auto simp: sqlite_settle_request_def in_tx_def)
qed

theorem settlement_replay_changes_nothing_witness:
  "\<exists>ob. sqlite_settle_request 99 ''r'' ''a'' ''k'' 0 700 None None demo_settled
      = (demo_settled\<lparr>outbox := (outbox demo_settled)(''r'' \<mapsto> ob)\<rparr>, Inr (Some 4300))"
  by (rule settlement_replay_changes_nothing [OF demo_settle]) (simp add: in_i64_def)


text \<open>C4: Admission: a request that was unknown is admitted only on an active account, with a key
  of that account that is active, unexpired and within its spending limit counting the hold, and
  either it is free (zero multiplier), or the balance is strictly positive, or a positive hold fits
  above the overdraft floor; the database gains exactly the reservation and moves exactly the hold
  from the balance to the reserved aggregates. A request that is not admitted changes nothing.\<close>

theorem admission_is_guarded:
  assumes "sqlite_reserve_request_for_execution_with_pricing now rid aid key hold lease ex pricing d
      = Inr (d', res)"
    and "reservations d rid = None"
  shows "case res of None \<Rightarrow> d' = d
    | Some b \<Rightarrow> \<exists>a k. accounts d aid = Some a \<and> ac_status a = ''active''
        \<and> api_keys d key = Some k \<and> key_policy_ok now aid hold k
        \<and> b = ac_balance a - hold \<and> 0 \<le> hold
        \<and> (hold = 0 \<longrightarrow> 0 < b
             \<or> \<not> paid_admission_requires_positive_balance (map_option rp_payable_multiplier_bp pricing))
        \<and> (0 < hold \<longrightarrow> - ACCOUNT_OVERDRAFT_NANO \<le> b)
        \<and> d' = d\<lparr>accounts := (accounts d)(aid \<mapsto> held_account hold a),
             api_keys := (api_keys d)(key \<mapsto> k\<lparr>k_reserved := k_reserved k + hold\<rparr>),
             reservations := (reservations d)(rid \<mapsto>
               new_reservation now aid key hold lease ex pricing b)\<rparr>"
  using assms by (rule admission_effect)

theorem admission_is_guarded_witness:
  "case sqlite_reserve_request_for_execution_with_pricing 9 ''q'' ''a'' ''k'' 0 60 execution_direct None
       demo_db of Inl e \<Rightarrow> False
   | Inr (d', res) \<Rightarrow> res = Some 5000 \<and> (\<exists>a. accounts demo_db ''a'' = Some a \<and> ac_status a = ''active''
       \<and> 0 < ac_balance a)"
proof -
  have run: "sqlite_reserve_request_for_execution_with_pricing 9 ''q'' ''a'' ''k'' 0 60 execution_direct
      None demo_db = Inr (demo_db\<lparr>reservations := (reservations demo_db)(''q'' \<mapsto>
        new_reservation 9 ''a'' ''k'' 0 60 execution_direct None 5000)\<rparr>, Some 5000)"
    by (simp add: demo_db_eq sqlite_reserve_request_for_execution_with_pricing_def printable_def
        account_reserve_for_key_def account_reserve_def demo_account_def demo_key_def key_policy_ok_def
        put_reservation_def reservation_guard_ok_def new_reservation_def terminal_def
        paid_admission_requires_positive_balance_def execution_direct_def)
  have "reservations demo_db ''q'' = None" by (simp add: demo_db_eq)
  from admission_is_guarded [OF run this] show ?thesis by (auto simp: run)
qed

text \<open>C5: The first settlement of an open reservation releases the hold, charges the outbox amount
  (or zero for a losing attempt of its group), splits the charge into a collected and an
  uncollected part, collects everything when there was no hold, and otherwise never collects below
  the overdraft floor; it closes the reservation with that evidence.\<close>

theorem first_settlement_effect:
  assumes "sqlite_process_settlement now rid d = Inr (d', res)"
    and "outbox d rid = Some ob" "o_state ob = Pending"
    and "reservations d rid = Some r" "open_state (r_state r)"
  shows "\<exists>a c u bal. res = Some bal \<and> accounts d (r_account r) = Some a
    \<and> accounts d' = (accounts d)(r_account r \<mapsto>
         settled_account (max (r_hold r) 0) c (effective_actual rid ob r d) a)
    \<and> c + u = effective_actual rid ob r d \<and> 0 \<le> c \<and> 0 \<le> u
    \<and> bal = ac_balance a + max (r_hold r) 0 - c
    \<and> (r_hold r \<le> 0 \<longrightarrow> u = 0)
    \<and> (0 < r_hold r \<longrightarrow> min (ac_balance a) (- ACCOUNT_OVERDRAFT_NANO) \<le> bal)
    \<and> reservations d' rid = Some (closed_reservation now ob (loses rid ob r d)
         (effective_actual rid ob r d) c u bal r)"
proof -
  have "\<not> terminal (r_state r)" using assms(5) by (auto simp: open_state_def terminal_def)
  then have "finish_settlement now rid ob r d = Inr (d', res)"
    using assms by (simp add: sqlite_process_settlement_def)
  from finish_effect(1) [OF this] obtain a c u bal where "res = Some bal"
    "finish_post now rid ob r d d' a c u bal" by blast
  then show ?thesis
    by - (rule exI [of _ a], rule exI [of _ c], rule exI [of _ u], rule exI [of _ bal],
        auto simp: finish_post_def)
qed

theorem first_settlement_effect_witness:
  "\<exists>c u bal. c + u = 700 \<and> 0 \<le> c \<and> u = 0 \<and> bal = 5000 - c
     \<and> accounts demo_settled ''a'' = Some (settled_account 0 c 700 demo_account)"
proof -
  let ?d = "demo_db\<lparr>outbox := [''r'' \<mapsto> demo_outbox]\<rparr>"
  have fields: "outbox ?d ''r'' = Some demo_outbox" "o_state demo_outbox = Pending"
      "reservations ?d ''r'' = Some demo_reservation" "open_state (r_state demo_reservation)"
      "r_account demo_reservation = ''a''" "r_hold demo_reservation = 0"
      "accounts ?d ''a'' = Some demo_account" "effective_actual ''r'' demo_outbox demo_reservation ?d = 700"
    by (simp_all add: demo_db_eq demo_outbox_def demo_reservation_def new_reservation_def open_state_def
        effective_actual_def loses_def)
  have run: "sqlite_process_settlement 3 ''r'' ?d = Inr (demo_settled, Some 4300)"
    using demo_process by (auto simp: in_tx_def split: sum.splits)
  from first_settlement_effect [OF run fields(1-4)] show ?thesis
    by (simp only: fields option.inject) (auto simp: demo_account_def)
qed


text \<open>C6: Cancelling a fresh reservation restores the money exactly: on an account and key whose
  columns fit, a reserve followed by a cancel succeeds, gives back the same accounts and keys,
  writes no ledger or usage row, and leaves the reservation canceled.\<close>

theorem cancel_restores_money:
  assumes "sqlite_reserve_request_for_execution_with_pricing now rid aid key hold lease ex pricing d
      = Inr (d1, Some b)"
    and "reservations d rid = None" "outbox d rid = None"
    and "accounts d aid = Some a" "account_fits a"
    and "api_keys d key = Some k" "0 \<le> k_reserved k" "in_i64 (k_spent k)"
  shows "\<exists>d2 r. sqlite_cancel_request later rid aid key hold d1 = (d2, Inr (Some (ac_balance a)))
    \<and> accounts d2 = accounts d \<and> api_keys d2 = api_keys d \<and> ledger d2 = ledger d
    \<and> usage_events d2 = usage_events d \<and> reservations d2 rid = Some r \<and> r_state r = Canceled"
proof -
  let ?r = "new_reservation now aid key hold lease ex pricing b"
  have adm: "key_policy_ok now aid hold k" "0 \<le> hold"
    "d1 = d\<lparr>accounts := (accounts d)(aid \<mapsto> held_account hold a),
       api_keys := (api_keys d)(key \<mapsto> k\<lparr>k_reserved := k_reserved k + hold\<rparr>),
       reservations := (reservations d)(rid \<mapsto> ?r)\<rparr>"
    using admission_effect [OF assms(1,2)] assms(4,6) by auto
  have guard: "reservation_guard_ok ?r"
    using assms(1,2) by (auto simp: sqlite_reserve_request_for_execution_with_pricing_def
        split: if_splits option.splits)
  note pricing = new_reservation_pricing [OF guard]
  define ob where "ob = \<lparr>o_actual = 0, o_reference = None, o_usage = None, o_charge_basis = None,
    o_disposition = ''cancel'', o_state = Pending, o_attempts = 0, o_next_attempt_ts = 0,
    o_last_error = None, o_created_ts = later, o_updated_ts = later, o_committed_ts = None\<rparr>"
  let ?d1 = "d1\<lparr>outbox := (outbox d1)(rid \<mapsto> ob)\<rparr>"
  have enq: "sqlite_enqueue_settlement later rid aid key hold 0 None None ''cancel'' d1 = Inr (?d1, None)"
    using assms(3) by (simp add: sqlite_enqueue_settlement_def adm(3) new_reservation_def ob_def put_outbox_def)
  have rel: "account_settle_request_in later rid aid key hold 0 None None pricing ?d1 =
    Inr (?d1\<lparr>accounts := (accounts ?d1)(aid \<mapsto> a), api_keys := (api_keys ?d1)(key \<mapsto> k)\<rparr>,
      Some (ac_balance a, 0, 0))"
    using adm assms pricing(2) by (intro release_untouched_hold) (simp_all add: key_policy_ok_def)
  let ?rc = "closed_reservation later ob False 0 0 0 (ac_balance a) ?r"
  have guard': "reservation_guard_ok ?rc"
    using guard by (auto simp: reservation_guard_ok_def closed_reservation_def new_reservation_def)
  have "finish_settlement later rid ob ?r ?d1 =
     Inr (?d1\<lparr>accounts := (accounts ?d1)(aid \<mapsto> a), api_keys := (api_keys ?d1)(key \<mapsto> k),
        reservations := (reservations ?d1)(rid \<mapsto> ?rc), outbox := (outbox ?d1)(rid \<mapsto> done_outbox later ob)\<rparr>,
       Some (ac_balance a))"
  proof -
    have f: "r_account ?r = aid" "r_key ?r = key" "r_hold ?r = hold" by (simp_all add: new_reservation_def)
    have z: "effective_actual rid ob ?r ?d1 = 0" "loses rid ob ?r ?d1 = False" "decided rid ob ?r ?d1 = ?d1"
        "o_reference ob = None" "o_usage ob = None"
      by (simp_all add: effective_actual_def loses_def decided_def ob_def)
    show ?thesis
      unfolding finish_settlement_unfold pricing f z
      using guard' by (simp add: rel put_reservation_def put_outbox_def) (simp add: done_outbox_def ob_def)
  qed
  then have proc: "sqlite_process_settlement later rid ?d1 =
     Inr (?d1\<lparr>accounts := (accounts ?d1)(aid \<mapsto> a), api_keys := (api_keys ?d1)(key \<mapsto> k),
        reservations := (reservations ?d1)(rid \<mapsto> ?rc), outbox := (outbox ?d1)(rid \<mapsto> done_outbox later ob)\<rparr>,
       Some (ac_balance a))"
    by (simp add: sqlite_process_settlement_def adm(3) new_reservation_def terminal_def ob_def)
  have "sqlite_cancel_request later rid aid key hold d1 =
     (?d1\<lparr>accounts := (accounts ?d1)(aid \<mapsto> a), api_keys := (api_keys ?d1)(key \<mapsto> k),
        reservations := (reservations ?d1)(rid \<mapsto> ?rc), outbox := (outbox ?d1)(rid \<mapsto> done_outbox later ob)\<rparr>,
       Inr (Some (ac_balance a)))"
    by (simp add: sqlite_cancel_request_def in_tx_def enq proc)
  moreover have "r_state ?rc = Canceled" by (simp add: closed_reservation_def ob_def)
  ultimately show ?thesis using assms(4,6) by (simp add: adm(3) fun_upd_idem)
qed


theorem cancel_restores_money_witness:
  "\<exists>d1 d2 r. sqlite_reserve_request_for_execution_with_pricing 9 ''q'' ''a'' ''k'' 1000 60 execution_direct
       None demo_db = Inr (d1, Some 4000)
     \<and> sqlite_cancel_request 10 ''q'' ''a'' ''k'' 1000 d1 = (d2, Inr (Some 5000))
     \<and> accounts d2 = accounts demo_db \<and> reservations d2 ''q'' = Some r \<and> r_state r = Canceled"
proof -
  obtain d1 where run: "sqlite_reserve_request_for_execution_with_pricing 9 ''q'' ''a'' ''k'' 1000 60
      execution_direct None demo_db = Inr (d1, Some 4000)"
    by (simp add: demo_db_eq sqlite_reserve_request_for_execution_with_pricing_def printable_def
        account_reserve_for_key_def account_reserve_def demo_account_def demo_key_def key_policy_ok_def
        ACCOUNT_OVERDRAFT_NANO_def put_account_def
        put_reservation_def reservation_guard_ok_def new_reservation_def terminal_def
        paid_admission_requires_positive_balance_def execution_direct_def)
  have "\<exists>d2 r. sqlite_cancel_request 10 ''q'' ''a'' ''k'' 1000 d1 = (d2, Inr (Some (ac_balance demo_account)))
    \<and> accounts d2 = accounts demo_db \<and> api_keys d2 = api_keys demo_db \<and> ledger d2 = ledger demo_db
    \<and> usage_events d2 = usage_events demo_db \<and> reservations d2 ''q'' = Some r \<and> r_state r = Canceled"
    by (rule cancel_restores_money [OF run, where k = demo_key])
      (simp_all add: demo_db_eq account_fits_def in_i64_def demo_account_def demo_key_def)
  then show ?thesis using run by (auto simp: demo_account_def)
qed

text \<open>C7: When the policy is not to charge unknown usage, recovering expired reservations is free:
  whatever rows the recovery query returns, no ledger row is written, and no account's spend,
  uncollected aggregate, or balance plus holds changes.\<close>

theorem recovery_without_usage_is_free:
  "ledger (fst (recover_expired now False rows (d, rep))) = ledger d
   \<and> spend_view (fst (recover_expired now False rows (d, rep))) = spend_view d"
proof (induction rows arbitrary: d rep)
  case (Cons row rows)
  obtain d1 x where one: "recover_one now False row d = (d1, x)" by fastforce
  have "ledger d1 = ledger d \<and> spend_view d1 = spend_view d" using recover_one_free [of now row d] one by simp
  then show ?case using Cons.IH one by (auto split: sum.splits)
qed simp

text \<open>C8: Top-ups are idempotent in their reference: after a successful top-up, repeating it with the
  same account, amount and reference returns the balance of the first one and changes nothing, and
  using the reference for another account or amount is refused, also changing nothing (while the
  addition itself stays in range).\<close>

theorem topup_reference_is_idempotent:
  assumes "account_topup now aid amt (Some ref) d = (d1, Inr (Some bal))"
    and "accounts d1 aid2 = Some a2" "in_i64 (ac_balance a2 + amt2)" "0 \<le> ac_uncollected a2"
  shows "account_topup later aid2 amt2 (Some ref) d1
      = (d1, if aid2 = aid \<and> amt2 = amt then Inr (Some bal) else Inl IdempotencyConflict)"
proof -
  from topup_stored [OF assms(1)] obtain l where ref: "trim ref \<noteq> []"
    and l: "List.find (\<lambda>l. l_ref l = Some ref \<and> money_kind (l_kind l)) (ledger d1) = Some l"
      "l_account l = aid" "l_kind l = topup_kind amt" "l_amount l = amt" "l_balance_after l = Some bal"
    by blast
  show ?thesis
    unfolding topup_with_reference [OF ref assms(2-4)] l(1) using l by (simp add: same_topup_def)
qed

theorem topup_reference_is_idempotent_witness:
  "account_topup 8 ''a'' 5000 (Some ''t'') (fst (account_topup 1 ''a'' 5000 (Some ''t'') demo_db))
     = (fst (account_topup 1 ''a'' 5000 (Some ''t'') demo_db), Inr (Some 5000))
   \<and> account_topup 8 ''a'' 6000 (Some ''t'') (fst (account_topup 1 ''a'' 5000 (Some ''t'') demo_db))
     = (fst (account_topup 1 ''a'' 5000 (Some ''t'') demo_db), Inl IdempotencyConflict)"
proof -
  have first: "account_topup 1 ''a'' 5000 (Some ''t'') demo_db = (demo_db, Inr (Some 5000))"
    by (subst topup_with_reference [where a = demo_account])
      (simp_all add: printable_def demo_db_eq demo_account_def in_i64_def demo_row_def money_kind_def
        same_topup_def topup_kind_def)
  have a: "accounts demo_db ''a'' = Some demo_account" "0 \<le> ac_uncollected demo_account"
      "in_i64 (ac_balance demo_account + 5000)" "in_i64 (ac_balance demo_account + 6000)"
    by (simp_all add: demo_db_eq demo_account_def in_i64_def)
  show ?thesis
    using topup_reference_is_idempotent [OF first a(1) a(3) a(2), of 8]
      topup_reference_is_idempotent [OF first a(1) a(4) a(2), of 8]
    by (simp add: first)
qed

text \<open>Discounts resolve per provider: after a discount is set, every key of the account prices
  that provider with the new multiplier and every other provider as before; after it is cleared,
  the provider falls back to the account's default multiplier.\<close>

lemma discount_resolution:
  assumes "set_account_provider_discount aid p m d = Inr (d', ())"
    and "key_account key d = Some ka" "ka_account_id ka = aid" "q \<in> set PROVIDER_IDS"
  shows "\<exists>ka1 ka2. key_account key d' = Some ka1
    \<and> key_account key (fst (clear_account_provider_discount aid p d')) = Some ka2
    \<and> mult_for ka1 q = (if q = p then m else mult_for ka q)
    \<and> mult_for ka2 q = (if q = p then ka_mult_bp ka else mult_for ka q)"
proof -
  have d': "d' = d\<lparr>discounts := (discounts d)((aid, p) \<mapsto> m)\<rparr>"
    using assms(1) by (auto simp: set_account_provider_discount_def split: if_splits)
  let ?c = "fst (clear_account_provider_discount aid p d')"
  have c: "?c = d\<lparr>discounts := (discounts d)((aid, p) := None)\<rparr>"
    by (simp add: clear_account_provider_discount_def d')
  obtain ka1 where ka1: "key_account key d' = Some ka1" "ka_account_id ka1 = aid"
      "ka_mult_bp ka1 = ka_mult_bp ka"
    using assms(2,3) by (simp add: d' key_account_discounts)
  obtain ka2 where ka2: "key_account key ?c = Some ka2" "ka_account_id ka2 = aid"
      "ka_mult_bp ka2 = ka_mult_bp ka"
    using assms(2,3) by (simp only: c key_account_discounts) simp
  have m: "mult_for ka1 q = (if q = p then m else mult_for ka q)"
    "mult_for ka2 q = (if q = p then ka_mult_bp ka else mult_for ka q)"
    using mult_for_key_account [OF ka1(1) assms(4)] mult_for_key_account [OF ka2(1) assms(4)]
      mult_for_key_account [OF assms(2,4)] ka1(2,3) ka2(2,3) assms(3)
    by (simp_all add: d' clear_account_provider_discount_def split: option.splits)
  with ka1(1) ka2(1) show ?thesis by blast
qed

end
