(* ===== verification/Pool.thy ===== *)
theory Pool
  imports Complex_Main Engine_Prelude
begin

text \<open>
  The subscription pool (\<open>crates/pool/src/lib.rs\<close>): the in-memory scheduler that chooses, for
  each request, the upstream subscription that serves it, keeps sessions on their home while its
  prompt cache is warm, cools and retires subscriptions and estimates their capacity.

  The state behind the pool's lock is the record \<open>inner\<close>; every public method is a function on
  it. The clock is an argument (\<open>now\<close>), as are the in-flight threshold, the reserve and the
  capacity priors (record \<open>pool_cfg\<close>). BLAKE3, from a third-party crate, enters as the two
  functions of \<open>pool_cfg\<close> the pool derives from it, \<open>stable_hash64\<close> and
  \<open>token_fp\<close>.

  \<open>f64\<close> quantities (utilizations, dollars) are exact rationals: rounding is not modelled, and
  neither are NaN and the infinities, so \<open>is_finite\<close> holds of every value and
  \<open>partial_cmp\<close> is total. All divisions of the pool have a nonzero divisor. \<open>i64\<close>
  arithmetic wraps where the source uses the plain operators. Hash maps that the pool only looks up
  are maps; the binding table, which it also counts and evicts from, is an association list in
  iteration order.
\<close>

section \<open>Standard library\<close>

definition add_i64 :: "i64 \<Rightarrow> i64 \<Rightarrow> i64" where
  "add_i64 a b = wrap_i64 (a + b)"

definition sub_i64 :: "i64 \<Rightarrow> i64 \<Rightarrow> i64" where
  "sub_i64 a b = wrap_i64 (a - b)"

datatype ordering = Ord_Less | Ord_Equal | Ord_Greater

definition ord_cmp :: "'a::linorder \<Rightarrow> 'a \<Rightarrow> ordering" where
  "ord_cmp a b = (if a < b then Ord_Less else if a = b then Ord_Equal else Ord_Greater)"

definition ord_then :: "ordering \<Rightarrow> ordering \<Rightarrow> ordering" where
  "ord_then o1 o2 = (case o1 of Ord_Equal \<Rightarrow> o2 | _ \<Rightarrow> o1)"

text \<open>\<open>Iterator::min_by\<close> returns the first of several equal minima, \<open>max_by\<close> the last of
  several equal maxima.\<close>

definition min_by :: "('a \<Rightarrow> 'a \<Rightarrow> ordering) \<Rightarrow> 'a list \<Rightarrow> 'a option" where
  "min_by cmp xs =
     (case xs of [] \<Rightarrow> None
      | x # r \<Rightarrow> Some (fold (\<lambda>y acc. if cmp acc y = Ord_Greater then y else acc) r x))"

definition max_by :: "('a \<Rightarrow> 'a \<Rightarrow> ordering) \<Rightarrow> 'a list \<Rightarrow> 'a option" where
  "max_by cmp xs =
     (case xs of [] \<Rightarrow> None
      | x # r \<Rightarrow> Some (fold (\<lambda>y acc. if cmp acc y = Ord_Greater then acc else y) r x))"

definition clamp_q :: "rat \<Rightarrow> rat \<Rightarrow> rat \<Rightarrow> rat" where
  "clamp_q lo hi x = (if x < lo then lo else if hi < x then hi else x)"

section \<open>Data\<close>

record reserve =
  base5h :: rat
  base7d :: rat
  jitter :: rat

definition reserve_default :: reserve where
  "reserve_default = \<lparr>base5h = 1 / 10, base7d = 3 / 100, jitter = 2 / 100\<rparr>"

definition reserve_full :: reserve where
  "reserve_full = \<lparr>base5h = 0, base7d = 0, jitter = 0\<rparr>"

record sub =
  sub_email :: string
  sub_token :: string
  sub_proxy :: string
  sub_fleet :: string
  sub_plan :: string

datatype auth_state_t = Healthy | Suspect | Dead

definition auth_as_str :: "auth_state_t \<Rightarrow> string" where
  "auth_as_str a = (case a of Healthy \<Rightarrow> ''healthy'' | Suspect \<Rightarrow> ''suspect'' | Dead \<Rightarrow> ''dead'')"

definition auth_from_persisted :: "string \<Rightarrow> auth_state_t" where
  "auth_from_persisted s =
     (if s = ''dead'' then Dead else if s = ''suspect'' then Suspect else Healthy)"

record quota_snapshot =
  used_fraction_units :: i64
  measurement_resolution_fraction_units :: i64
  observed_at :: i64
  resets_at :: "i64 option"

record live =
  util5h :: rat
  util7d :: rat
  status :: string
  cooling_until :: i64
  last_used :: i64
  polled_ts :: i64
  last_probe_req :: i64
  auth_state :: auth_state_t
  auth_fail_streak :: i64
  first_auth_fail_ts :: i64
  last_auth_fail_ts :: i64
  last_auth_http :: i64
  dead_since_ts :: i64
  dead_reason :: string
  auth_token_fp :: string
  reset5h :: i64
  reset7d :: i64
  quota5h :: "quota_snapshot option"
  quota7d :: "quota_snapshot option"
  inflight :: i64
  cap5h_usd :: rat
  cap7d_usd :: rat
  spent_total_usd :: rat
  unpersisted_spend_usd :: rat
  spent_at_header_usd :: rat
  util5_anchor :: rat
  spent5_anchor_usd :: rat
  util7_anchor :: rat
  spent7_anchor_usd :: rat
  seed5 :: bool
  seed7 :: bool
  calib_n :: "32 word"
  persist_version :: i64

definition live_default :: live where
  "live_default = \<lparr>util5h = 0, util7d = 0, status = [], cooling_until = 0, last_used = 0,
     polled_ts = 0, last_probe_req = 0, auth_state = Healthy, auth_fail_streak = 0,
     first_auth_fail_ts = 0, last_auth_fail_ts = 0, last_auth_http = 0, dead_since_ts = 0,
     dead_reason = [], auth_token_fp = [], reset5h = 0, reset7d = 0, quota5h = None,
     quota7d = None, inflight = 0, cap5h_usd = 0, cap7d_usd = 0, spent_total_usd = 0,
     unpersisted_spend_usd = 0, spent_at_header_usd = 0, util5_anchor = 0, spent5_anchor_usd = 0,
     util7_anchor = 0, spent7_anchor_usd = 0, seed5 = False, seed7 = False, calib_n = 0,
     persist_version = 0\<rparr>"

record binding =
  bind_email :: string
  last_seen :: i64

record inner =
  subs :: "sub list"
  live_map :: "string \<Rightarrow> live option"
  bindings :: "(u64 \<times> binding) list"
  route_pin :: u64
  route_rebind :: u64
  route_spill :: u64
  route_place :: u64

record sub_health =
  sh_email :: string
  sh_auth_state :: string
  sh_auth_fail_streak :: i64
  sh_first_auth_fail_ts :: i64
  sh_last_auth_fail_ts :: i64
  sh_last_auth_http :: i64
  sh_dead_since_ts :: i64
  sh_dead_reason :: string
  sh_auth_token_fp :: string

record pool_state_row =
  ps_email :: string
  ps_cooling_until :: i64
  ps_cap5h_usd :: rat
  ps_cap7d_usd :: rat
  ps_spent_total_usd :: rat
  ps_spent_delta_usd :: rat
  ps_util5h :: rat
  ps_util7d :: rat
  ps_reset5h :: i64
  ps_reset7d :: i64
  ps_calib_n :: i64
  ps_version :: i64

datatype affinity_disposition = Placed | Pinned | Spilled | Rebound

datatype affinity_route = Selected sub affinity_disposition | Exhausted

text \<open>The fixed parameters of a pool: the values \<open>Pool::new\<close> stores, the in-flight cell of
  \<open>set_max_inflight\<close>, and the two hashes.\<close>

record pool_cfg =
  pc_reserve :: reserve
  prior5h_usd :: rat
  prior7d_usd :: rat
  max_inflight :: i64
  stable_hash64 :: "string \<Rightarrow> u64"
  token_fp :: "string \<Rightarrow> string"

definition AFFINITY_TTL :: i64 where "AFFINITY_TTL = 3600"
definition REBIND_AFTER :: i64 where "REBIND_AFTER = 60"
definition BINDINGS_CAP :: nat where "BINDINGS_CAP = 100000"
definition WIN5_SECS :: i64 where "WIN5_SECS = 5 * 3600"
definition WIN7_SECS :: i64 where "WIN7_SECS = 7 * 86400"
definition PRIOR_CAP5H_USD :: rat where "PRIOR_CAP5H_USD = 50"
definition PRIOR_CAP7D_USD :: rat where "PRIOR_CAP7D_USD = 1500"
definition DEAD_STREAK :: i64 where "DEAD_STREAK = 2"
definition DEAD_MIN_SECS :: i64 where "DEAD_MIN_SECS = 300"

definition set_max_inflight :: "i64 \<Rightarrow> pool_cfg \<Rightarrow> pool_cfg" where
  "set_max_inflight v C = C\<lparr>max_inflight := max v 1\<rparr>"

definition pool_new :: "sub list \<Rightarrow> inner" where
  "pool_new ss = \<lparr>subs = ss, live_map = (\<lambda>_. None), bindings = [], route_pin = 0,
     route_rebind = 0, route_spill = 0, route_place = 0\<rparr>"

definition pool_new_cfg ::
  "reserve \<Rightarrow> rat \<Rightarrow> rat \<Rightarrow> i64 \<Rightarrow> (string \<Rightarrow> u64) \<Rightarrow> (string \<Rightarrow> string) \<Rightarrow> pool_cfg" where
  "pool_new_cfg rsv prior5h prior7d mi h fp = \<lparr>pc_reserve = rsv,
     prior5h_usd = (if 0 < prior5h then prior5h else PRIOR_CAP5H_USD),
     prior7d_usd = (if 0 < prior7d then prior7d else PRIOR_CAP7D_USD),
     max_inflight = mi, stable_hash64 = h, token_fp = fp\<rparr>"

text \<open>\<open>entry(..).or_default()\<close> and \<open>get_mut\<close>.\<close>

definition live_at :: "inner \<Rightarrow> string \<Rightarrow> live" where
  "live_at g e = (case live_map g e of Some l \<Rightarrow> l | None \<Rightarrow> live_default)"

definition upd_live :: "string \<Rightarrow> (live \<Rightarrow> live) \<Rightarrow> inner \<Rightarrow> inner" where
  "upd_live e f g = g\<lparr>live_map := (live_map g)(e \<mapsto> f (live_at g e))\<rparr>"

definition upd_existing :: "string \<Rightarrow> (live \<Rightarrow> live) \<Rightarrow> inner \<Rightarrow> inner" where
  "upd_existing e f g = (if live_map g e = None then g else upd_live e f g)"

section \<open>Tariffs, reserves and utilization\<close>

definition plan_scale :: "string \<Rightarrow> rat" where
  "plan_scale plan =
     (if plan = ''max20'' then 1 else if plan = ''max5'' then 1 / 4
      else if plan = ''pro'' then 1 / 20 else 1 / 4)"

definition reserve_jit :: "pool_cfg \<Rightarrow> reserve \<Rightarrow> string \<Rightarrow> nat \<Rightarrow> rat" where
  "reserve_jit C r email salt =
     (if jitter r \<le> 0 then 0
      else (of_int (uint (stable_hash64 C (email @ [char_of salt])) mod 2001) / 1000 - 1) * jitter r)"

definition reserve_caps :: "pool_cfg \<Rightarrow> reserve \<Rightarrow> string \<Rightarrow> rat \<times> rat" where
  "reserve_caps C r email =
     (clamp_q (1 / 2) 1 (1 - (base5h r + reserve_jit C r email 5)),
      clamp_q (1 / 2) 1 (1 - (base7d r + reserve_jit C r email 7)))"

definition is_cooling :: "inner \<Rightarrow> string \<Rightarrow> i64 \<Rightarrow> bool" where
  "is_cooling g e now =
     (case live_map g e of Some l \<Rightarrow> now < cooling_until l | None \<Rightarrow> False)"

definition is_dead :: "inner \<Rightarrow> string \<Rightarrow> bool" where
  "is_dead g e = (case live_map g e of Some l \<Rightarrow> auth_state l = Dead | None \<Rightarrow> False)"

definition live_util :: "pool_cfg \<Rightarrow> inner \<Rightarrow> string \<Rightarrow> rat \<Rightarrow> nat \<Rightarrow> i64 \<Rightarrow> rat" where
  "live_util C g e scale w now =
     (case live_map g e of
        None \<Rightarrow> 0
      | Some l \<Rightarrow>
          let (util, reset, measured_cap, prior_cap) =
                (if w = 7 then (util7d l, reset7d l, cap7d_usd l, prior7d_usd C)
                 else (util5h l, reset5h l, cap5h_usd l, prior5h_usd C))
          in if reset \<noteq> 0 \<and> reset \<le> now then 0
             else let cap = (if 0 < measured_cap then measured_cap else prior_cap * scale);
                      since_header = max (spent_total_usd l - spent_at_header_usd l) 0
                  in clamp_q 0 1 (util + since_header / cap))"

definition inflight_of :: "inner \<Rightarrow> string \<Rightarrow> i64" where
  "inflight_of g e = (case live_map g e of Some l \<Rightarrow> inflight l | None \<Rightarrow> 0)"

definition warn_of :: "inner \<Rightarrow> string \<Rightarrow> bool" where
  "warn_of g e =
     (case live_map g e of Some l \<Rightarrow> str_contains (status l) ''warning'' | None \<Rightarrow> False)"

definition lru_of :: "inner \<Rightarrow> string \<Rightarrow> i64" where
  "lru_of g e = (case live_map g e of Some l \<Rightarrow> last_used l | None \<Rightarrow> 0)"

definition util_of :: "pool_cfg \<Rightarrow> inner \<Rightarrow> i64 \<Rightarrow> nat \<Rightarrow> sub \<Rightarrow> rat" where
  "util_of C g now w s = live_util C g (sub_email s) (plan_scale (sub_plan s)) w now"

section \<open>Rotation\<close>

definition over_cap :: "pool_cfg \<Rightarrow> inner \<Rightarrow> i64 \<Rightarrow> reserve \<Rightarrow> sub \<Rightarrow> bool" where
  "over_cap C g now rsv s =
     (let (c5, c7) = reserve_caps C rsv (sub_email s)
      in \<not> (util_of C g now 7 s < c7 \<and> util_of C g now 5 s < c5))"

definition over_envelope :: "pool_cfg \<Rightarrow> inner \<Rightarrow> sub \<Rightarrow> bool" where
  "over_envelope C g s \<longleftrightarrow> max_inflight C \<le> inflight_of g (sub_email s)"

definition select_order :: "pool_cfg \<Rightarrow> inner \<Rightarrow> i64 \<Rightarrow> reserve \<Rightarrow> sub \<Rightarrow> sub \<Rightarrow> ordering" where
  "select_order C g now rsv a b =
     (let ea = sub_email a; eb = sub_email b;
          cooling_order = ord_cmp (is_cooling g ea now) (is_cooling g eb now)
      in if cooling_order \<noteq> Ord_Equal then cooling_order
      else let a_over = over_envelope C g a; b_over = over_envelope C g b;
               envelope_order = ord_cmp a_over b_over
      in if envelope_order \<noteq> Ord_Equal then envelope_order
      else if a_over \<and> b_over then
        ord_then (ord_cmp (inflight_of g ea) (inflight_of g eb))
        (ord_then (ord_cmp (over_cap C g now rsv a) (over_cap C g now rsv b))
        (ord_then (ord_cmp (util_of C g now 7 a) (util_of C g now 7 b))
        (ord_then (ord_cmp (util_of C g now 5 a) (util_of C g now 5 b))
        (ord_then (ord_cmp (warn_of g ea) (warn_of g eb))
          (ord_cmp (lru_of g ea) (lru_of g eb))))))
      else
        ord_then (ord_cmp (over_cap C g now rsv a) (over_cap C g now rsv b))
        (ord_then (ord_cmp (util_of C g now 7 a) (util_of C g now 7 b))
        (ord_then (ord_cmp (util_of C g now 5 a) (util_of C g now 5 b))
        (ord_then (ord_cmp (warn_of g ea) (warn_of g eb))
        (ord_then (ord_cmp (inflight_of g ea) (inflight_of g eb))
          (ord_cmp (lru_of g ea) (lru_of g eb)))))))"

definition select_candidate :: "inner \<Rightarrow> string list \<Rightarrow> i64 \<Rightarrow> bool \<Rightarrow> sub \<Rightarrow> bool" where
  "select_candidate g exclude now allow_cooling_fallback s \<longleftrightarrow>
     sub_email s \<notin> set exclude \<and> \<not> is_dead g (sub_email s)
     \<and> (allow_cooling_fallback \<or> \<not> is_cooling g (sub_email s) now)"

definition select_best_with_policy ::
  "pool_cfg \<Rightarrow> inner \<Rightarrow> string list \<Rightarrow> i64 \<Rightarrow> reserve \<Rightarrow> bool \<Rightarrow> sub option" where
  "select_best_with_policy C g exclude now rsv allow_cooling_fallback =
     min_by (select_order C g now rsv)
       (filter (select_candidate g exclude now allow_cooling_fallback) (subs g))"

definition select_best ::
  "pool_cfg \<Rightarrow> inner \<Rightarrow> string list \<Rightarrow> i64 \<Rightarrow> reserve \<Rightarrow> sub option" where
  "select_best C g exclude now rsv = select_best_with_policy C g exclude now rsv True"

definition select_best_non_cooling ::
  "pool_cfg \<Rightarrow> inner \<Rightarrow> string list \<Rightarrow> i64 \<Rightarrow> reserve \<Rightarrow> sub option" where
  "select_best_non_cooling C g exclude now rsv = select_best_with_policy C g exclude now rsv False"

section \<open>Placement of new sessions\<close>

definition PLACEMENT_UTIL7_PENALTY :: rat where "PLACEMENT_UTIL7_PENALTY = 1 / 2"

definition effective_cap :: "rat \<Rightarrow> rat \<Rightarrow> rat" where
  "effective_cap measured prior = (if 0 < measured then measured else prior)"

definition free_norm :: "rat \<Rightarrow> rat \<Rightarrow> rat" where
  "free_norm cap util = (if 0 < cap then clamp_q 0 1 (cap * (1 - util) / cap) else 0)"

definition placement_score :: "pool_cfg \<Rightarrow> inner \<Rightarrow> i64 \<Rightarrow> sub \<Rightarrow> rat" where
  "placement_score C g now s =
     (let l = live_map g (sub_email s); sc = plan_scale (sub_plan s);
          cap5 = (case l of Some l \<Rightarrow> effective_cap (cap5h_usd l) (prior5h_usd C * sc)
                  | None \<Rightarrow> prior5h_usd C * sc);
          cap7 = (case l of Some l \<Rightarrow> effective_cap (cap7d_usd l) (prior7d_usd C * sc)
                  | None \<Rightarrow> prior7d_usd C * sc);
          util5 = util_of C g now 5 s; util7 = util_of C g now 7 s
      in min (free_norm cap5 util5) (free_norm cap7 util7)
         - PLACEMENT_UTIL7_PENALTY * clamp_q 0 1 util7)"

definition placement_eligible ::
  "pool_cfg \<Rightarrow> inner \<Rightarrow> string list \<Rightarrow> i64 \<Rightarrow> reserve \<Rightarrow> sub \<Rightarrow> bool" where
  "placement_eligible C g exclude now rsv s =
     (let (c5, c7) = reserve_caps C rsv (sub_email s)
      in sub_email s \<notin> set exclude \<and> \<not> is_cooling g (sub_email s) now
         \<and> \<not> is_dead g (sub_email s) \<and> util_of C g now 7 s < c7 \<and> util_of C g now 5 s < c5
         \<and> inflight_of g (sub_email s) < max_inflight C)"

definition place_order :: "pool_cfg \<Rightarrow> inner \<Rightarrow> i64 \<Rightarrow> sub \<Rightarrow> sub \<Rightarrow> ordering" where
  "place_order C g now a b =
     ord_then (ord_then (ord_cmp (placement_score C g now a) (placement_score C g now b))
        (ord_cmp (inflight_of g (sub_email b)) (inflight_of g (sub_email a))))
        (ord_cmp (lru_of g (sub_email b)) (lru_of g (sub_email a)))"

definition place_best ::
  "pool_cfg \<Rightarrow> inner \<Rightarrow> string list \<Rightarrow> i64 \<Rightarrow> reserve \<Rightarrow> sub option" where
  "place_best C g exclude now rsv =
     (case max_by (place_order C g now) (filter (placement_eligible C g exclude now rsv) (subs g)) of
        Some s \<Rightarrow> Some s
      | None \<Rightarrow> select_best C g exclude now reserve_full)"


section \<open>Slots and read-only placement\<close>

definition acquire :: "i64 \<Rightarrow> live \<Rightarrow> live" where
  "acquire now l = l\<lparr>last_used := now, inflight := sat_add_i64 (inflight l) 1\<rparr>"

definition acquire_selected :: "i64 \<Rightarrow> sub option \<Rightarrow> inner \<Rightarrow> inner" where
  "acquire_selected now selected g =
     (case selected of None \<Rightarrow> g | Some s \<Rightarrow> upd_live (sub_email s) (acquire now) g)"

text \<open>\<open>pick\<close> reads the clock twice: for the choice and for \<open>last_used\<close>.\<close>

definition pick ::
  "pool_cfg \<Rightarrow> string list \<Rightarrow> bool \<Rightarrow> i64 \<Rightarrow> i64 \<Rightarrow> inner \<Rightarrow> sub option \<times> inner" where
  "pick C exclude allow_full now now' g =
     (let rsv = (if allow_full then reserve_full else pc_reserve C);
          selected = select_best C g exclude now rsv
      in (selected, acquire_selected now' selected g))"

definition peek_affinity_home :: "pool_cfg \<Rightarrow> i64 \<Rightarrow> inner \<Rightarrow> sub option" where
  "peek_affinity_home C now g = place_best C g [] now (pc_reserve C)"

definition warm_order :: "pool_cfg \<Rightarrow> inner \<Rightarrow> i64 \<Rightarrow> sub \<Rightarrow> sub \<Rightarrow> ordering" where
  "warm_order C g now a b =
     ord_then (ord_cmp (placement_score C g now a) (placement_score C g now b))
       (ord_cmp (inflight_of g (sub_email b)) (inflight_of g (sub_email a)))"

definition peek_affinity_home_with_warm ::
  "pool_cfg \<Rightarrow> string list \<Rightarrow> nat \<Rightarrow> rat \<Rightarrow> (string \<Rightarrow> string) \<Rightarrow> i64 \<Rightarrow> inner \<Rightarrow> sub option" where
  "peek_affinity_home_with_warm C warm_homes min_warm_replicas min_capacity_ratio identify now g =
     (case place_best C g [] now (pc_reserve C) of
        None \<Rightarrow> None
      | Some global \<Rightarrow>
          if warm_homes = [] then Some global
          else
            let is_warm = (\<lambda>s. identify (sub_email s) \<in> set warm_homes);
                eligible = filter (placement_eligible C g [] now (pc_reserve C)) (subs g);
                warm_count = length (filter is_warm eligible);
                ratio = clamp_q 0 1 min_capacity_ratio;
                global_score = max (placement_score C g now global) 0;
                good = (\<lambda>s. global_score * ratio \<le> placement_score C g now s);
                unwarmed = max_by (warm_order C g now) (filter (\<lambda>s. \<not> is_warm s) eligible);
                warm = max_by (warm_order C g now) (filter is_warm eligible);
                from_warm = (case warm of Some w \<Rightarrow> if good w then Some w else Some global
                             | None \<Rightarrow> Some global)
            in if warm_count < min_warm_replicas then
                 (case unwarmed of Some u \<Rightarrow> if good u then Some u else from_warm
                  | None \<Rightarrow> from_warm)
               else from_warm)"

definition route_operator_target ::
  "pool_cfg \<Rightarrow> string \<Rightarrow> (string \<Rightarrow> string) \<Rightarrow> i64 \<Rightarrow> inner \<Rightarrow> sub option \<times> inner" where
  "route_operator_target C target identify now g =
     (case filter (\<lambda>s. identify (sub_email s) = target) (subs g) of
        [s] \<Rightarrow>
          let home = sub_email s
          in if is_dead g home \<or> is_cooling g home now \<or> 1 \<le> util_of C g now 5 s
                \<or> 1 \<le> util_of C g now 7 s
             then (None, g)
             else (Some s, upd_live home (acquire now) g)
      | _ \<Rightarrow> (None, g))"

section \<open>Affinity routing\<close>

text \<open>The home stays with the lineage: a placement when it was newly claimed, a pin otherwise.\<close>

definition stay_home :: "i64 \<Rightarrow> bool \<Rightarrow> sub \<Rightarrow> inner \<Rightarrow> affinity_route \<times> inner" where
  "stay_home now newly_claimed home_sub g =
     (Selected home_sub (if newly_claimed then Placed else Pinned),
      upd_live (sub_email home_sub) (acquire now)
        (if newly_claimed then g\<lparr>route_place := route_place g + 1\<rparr>
         else g\<lparr>route_pin := route_pin g + 1\<rparr>))"

definition place_elsewhere :: "pool_cfg \<Rightarrow> i64 \<Rightarrow> string list \<Rightarrow> inner \<Rightarrow> affinity_route \<times> inner" where
  "place_elsewhere C now exclude g =
     (case place_best C g exclude now (pc_reserve C) of
        Some s \<Rightarrow> (Selected s Rebound,
                    upd_live (sub_email s) (acquire now) (g\<lparr>route_place := route_place g + 1\<rparr>))
      | None \<Rightarrow> (Exhausted, g))"

definition route_affinity ::
  "pool_cfg \<Rightarrow> string \<Rightarrow> bool \<Rightarrow> (string \<Rightarrow> string) \<Rightarrow> i64 \<Rightarrow> inner \<Rightarrow> affinity_route \<times> inner" where
  "route_affinity C preferred_home newly_claimed identify now g =
     (case List.find (\<lambda>s. identify (sub_email s) = preferred_home) (subs g) of
        None \<Rightarrow> place_elsewhere C now [] g
      | Some home_sub \<Rightarrow>
          let home = sub_email home_sub;
              cooling_for = sat_sub_i64 (cooling_until (live_at g home)) now;
              (cap5, cap7) = (if newly_claimed then reserve_caps C (pc_reserve C) home else (1, 1));
              over = (cap5 \<le> util_of C g now 5 home_sub \<or> cap7 \<le> util_of C g now 7 home_sub);
              permanently_unavailable = (is_dead g home \<or> over \<or> REBIND_AFTER \<le> cooling_for)
          in if permanently_unavailable then place_elsewhere C now [home] g
             else if \<not> (0 < cooling_for \<or> max_inflight C \<le> inflight_of g home) then
               stay_home now newly_claimed home_sub g
             else (case select_best_non_cooling C g [home] now (pc_reserve C) of
                 Some s \<Rightarrow> (Selected s Spilled,
                    upd_live (sub_email s) (acquire now) (g\<lparr>route_spill := route_spill g + 1\<rparr>))
               | None \<Rightarrow> if cooling_for \<le> 0 then stay_home now newly_claimed home_sub g
                         else (Exhausted, g)))"

section \<open>Session routing\<close>

definition touch_binding :: "u64 \<Rightarrow> i64 \<Rightarrow> (u64 \<times> binding) list \<Rightarrow> (u64 \<times> binding) list" where
  "touch_binding session now bs =
     map (\<lambda>(k, b). if k = session then (k, b\<lparr>last_seen := now\<rparr>) else (k, b)) bs"

text \<open>
  \<open>HashMap::insert\<close>: an existing key keeps its place and gets the new value.
\<close>

fun insert_binding :: "u64 \<Rightarrow> binding \<Rightarrow> (u64 \<times> binding) list \<Rightarrow> (u64 \<times> binding) list" where
  "insert_binding k b [] = [(k, b)]"
| "insert_binding k b ((k', b') # bs) =
     (if k = k' then (k, b) # bs else (k', b') # insert_binding k b bs)"

text \<open>
  Eviction when the table is full: expired bindings first; if it is still full, the older half.
  \<open>select_nth_unstable_by_key\<close> leaves at the front as many entries as its index, none younger
  than the rest; which of several equally old ones is unspecified, and sorting by age is one
  admissible choice.
\<close>

definition oldest :: "nat \<Rightarrow> (u64 \<times> binding) list \<Rightarrow> u64 list" where
  "oldest n bs = map fst (take n (sort_key (\<lambda>(k, b). last_seen b) bs))"

definition evict_bindings :: "i64 \<Rightarrow> (u64 \<times> binding) list \<Rightarrow> (u64 \<times> binding) list" where
  "evict_bindings now bs =
     (if BINDINGS_CAP \<le> length bs then
        let cutoff = sub_i64 now AFFINITY_TTL;
            live_bs = filter (\<lambda>(k, b). cutoff \<le> last_seen b) bs
        in if BINDINGS_CAP \<le> length live_bs then
             let victims = oldest (BINDINGS_CAP div 2) live_bs
             in filter (\<lambda>(k, b). k \<notin> set victims) live_bs
           else live_bs
      else bs)"

definition route_new :: "pool_cfg \<Rightarrow> u64 \<Rightarrow> i64 \<Rightarrow> bool \<Rightarrow> inner \<Rightarrow> sub option \<times> inner" where
  "route_new C session now forced_rebind g =
     (case place_best C g [] now (pc_reserve C) of
        None \<Rightarrow> (None, g)
      | Some chosen \<Rightarrow>
          let g1 = g\<lparr>route_place := route_place g + 1\<rparr>;
              g2 = (if forced_rebind then g1\<lparr>route_rebind := route_rebind g1 + 1\<rparr> else g1);
              g3 = g2\<lparr>bindings := insert_binding session
                     \<lparr>bind_email = sub_email chosen, last_seen = now\<rparr> (evict_bindings now (bindings g2))\<rparr>
          in (Some chosen, upd_live (sub_email chosen) (acquire now) g3))"

definition route_home :: "pool_cfg \<Rightarrow> u64 \<Rightarrow> string \<Rightarrow> i64 \<Rightarrow> inner \<Rightarrow> sub option \<times> inner" where
  "route_home C session home now g =
     (let home_sub = List.find (\<lambda>s. sub_email s = home) (subs g);
          g1 = g\<lparr>bindings := touch_binding session now (bindings g)\<rparr>;
          cooling = cooling_until (live_at g home);
          busy = (now < cooling \<or> max_inflight C \<le> inflight_of g1 home)
      in if \<not> busy then
           let g2 = g1\<lparr>route_pin := route_pin g1 + 1\<rparr>
           in (home_sub, acquire_selected now home_sub g2)
         else
           let g2 = g1\<lparr>route_spill := route_spill g1 + 1\<rparr>;
               selected = (case select_best_non_cooling C g2 [home] now (pc_reserve C) of
                             Some s \<Rightarrow> Some s | None \<Rightarrow> home_sub)
           in (selected, acquire_selected now selected g2))"

definition home_available :: "pool_cfg \<Rightarrow> string \<Rightarrow> i64 \<Rightarrow> inner \<Rightarrow> bool" where
  "home_available C home now g =
     (let cooling = cooling_until (live_at g home);
          scale = (case List.find (\<lambda>s. sub_email s = home) (subs g) of
                     Some s \<Rightarrow> plan_scale (sub_plan s) | None \<Rightarrow> plan_scale []);
          e5 = live_util C g home scale 5 now; e7 = live_util C g home scale 7 now;
          deep_cooling = (now < cooling \<and> REBIND_AFTER \<le> sub_i64 cooling now);
          (c5, c7) = reserve_caps C (pc_reserve C) home
      in \<not> deep_cooling \<and> \<not> (c5 \<le> e5 \<or> c7 \<le> e7) \<and> \<not> is_dead g home)"

definition route :: "pool_cfg \<Rightarrow> u64 \<Rightarrow> i64 \<Rightarrow> inner \<Rightarrow> sub option \<times> inner" where
  "route C session now g =
     (case map_of (bindings g) session of
        None \<Rightarrow> route_new C session now False g
      | Some b \<Rightarrow>
          if sub_i64 now (last_seen b) < AFFINITY_TTL
             \<and> (\<exists>s\<in>set (subs g). sub_email s = bind_email b)
          then if home_available C (bind_email b) now g
               then route_home C session (bind_email b) now g
               else route_new C session now True g
          else route_new C session now False g)"

section \<open>Slot release, cooling and probes on demand\<close>

definition mark_used :: "string \<Rightarrow> i64 \<Rightarrow> inner \<Rightarrow> inner" where
  "mark_used e now g = upd_live e (acquire now) g"

definition end_stream :: "string \<Rightarrow> i64 \<Rightarrow> inner \<Rightarrow> inner" where
  "end_stream e now g =
     upd_live e (\<lambda>l. l\<lparr>inflight := max (sub_i64 (inflight l) 1) 0, last_used := now\<rparr>) g"

definition mark_done :: "string \<Rightarrow> inner \<Rightarrow> inner" where
  "mark_done e g = upd_live e (\<lambda>l. l\<lparr>inflight := max (sub_i64 (inflight l) 1) 0\<rparr>) g"

definition mark_cooling :: "string \<Rightarrow> i64 \<Rightarrow> i64 \<Rightarrow> inner \<Rightarrow> inner" where
  "mark_cooling e secs now g =
     (let deadline = sat_add_i64 now (max secs 1)
      in upd_live e (\<lambda>l. l\<lparr>cooling_until := max (cooling_until l) deadline\<rparr>) g)"

definition cool :: "string \<Rightarrow> i64 \<Rightarrow> i64 \<Rightarrow> inner \<Rightarrow> inner" where
  "cool e secs now g =
     (let deadline = sat_add_i64 now (max secs 1)
      in upd_live e (\<lambda>l. l\<lparr>cooling_until := max (cooling_until l) deadline\<rparr>) g)"

definition request_probe :: "string \<Rightarrow> i64 \<Rightarrow> inner \<Rightarrow> inner" where
  "request_probe e now g =
     upd_existing e (\<lambda>l. if sub_i64 now 15 \<le> last_probe_req l then l
                         else l\<lparr>last_probe_req := now, polled_ts := 0\<rparr>) g"

definition soonest_ready :: "i64 \<Rightarrow> inner \<Rightarrow> i64 option" where
  "soonest_ready now g =
     (let ds = filter (\<lambda>d. 0 < d)
                 (map (\<lambda>l. sub_i64 (cooling_until l) now)
                   (List.map_filter (\<lambda>s. live_map g (sub_email s)) (subs g)))
      in case ds of [] \<Rightarrow> None | _ \<Rightarrow> Some (Min (set ds)))"

section \<open>Authentication health\<close>

definition reset_auth_healthy :: "live \<Rightarrow> live" where
  "reset_auth_healthy l = l\<lparr>auth_state := Healthy, auth_fail_streak := 0, first_auth_fail_ts := 0,
     last_auth_fail_ts := 0, last_auth_http := 0, dead_since_ts := 0, dead_reason := []\<rparr>"

definition auth_failure :: "i64 \<Rightarrow> i64 \<Rightarrow> live \<Rightarrow> live" where
  "auth_failure http now l =
     (let l1 = l\<lparr>auth_fail_streak := add_i64 (auth_fail_streak l) 1\<rparr>;
          l2 = (if first_auth_fail_ts l1 = 0 then l1\<lparr>first_auth_fail_ts := now\<rparr> else l1);
          l3 = l2\<lparr>last_auth_fail_ts := now, last_auth_http := http\<rparr>;
          reason = (if http = 403 then ''permission_error'' else ''authentication_error'');
          l4 = (if auth_state l3 = Healthy then l3\<lparr>auth_state := Suspect\<rparr> else l3)
      in if DEAD_STREAK \<le> auth_fail_streak l4
            \<and> DEAD_MIN_SECS \<le> sub_i64 now (first_auth_fail_ts l4)
         then let l5 = l4\<lparr>auth_state := Dead\<rparr>;
                  l6 = (if dead_since_ts l5 = 0 then l5\<lparr>dead_since_ts := now\<rparr> else l5)
              in l6\<lparr>dead_reason := reason\<rparr>
         else l4)"

text \<open>\<open>fp\<close> is the fingerprint of the probed token; \<open>http\<close> the status of the probe.\<close>

definition apply_probe :: "i64 \<Rightarrow> string \<Rightarrow> i64 \<Rightarrow> live \<Rightarrow> live" where
  "apply_probe http fp now l =
     (let l1 = l\<lparr>polled_ts := now\<rparr>;
          l2 = (if fp \<noteq> [] \<and> auth_token_fp l1 \<noteq> fp
                then reset_auth_healthy (l1\<lparr>auth_token_fp := fp\<rparr>) else l1)
      in if http = 401 \<or> http = 403 then auth_failure http now l2
         else if 200 \<le> http \<and> http < 300 then reset_auth_healthy l2
         else l2)"

definition health_row :: "string \<Rightarrow> live \<Rightarrow> sub_health" where
  "health_row e l = \<lparr>sh_email = e, sh_auth_state = auth_as_str (auth_state l),
     sh_auth_fail_streak = auth_fail_streak l, sh_first_auth_fail_ts = first_auth_fail_ts l,
     sh_last_auth_fail_ts = last_auth_fail_ts l, sh_last_auth_http = last_auth_http l,
     sh_dead_since_ts = dead_since_ts l, sh_dead_reason = dead_reason l,
     sh_auth_token_fp = auth_token_fp l\<rparr>"

definition record_probe ::
  "string \<Rightarrow> i64 \<Rightarrow> string \<Rightarrow> i64 \<Rightarrow> inner \<Rightarrow> sub_health option \<times> inner" where
  "record_probe e http fp now g =
     (let before = health_row e (live_at g e);
          g' = upd_live e (apply_probe http fp now) g;
          after = health_row e (live_at g' e)
      in (if before \<noteq> after then Some after else None, g'))"

text \<open>\<open>mark_healthy\<close> reads the clock twice.\<close>

definition mark_healthy :: "string \<Rightarrow> i64 \<Rightarrow> i64 \<Rightarrow> inner \<Rightarrow> inner" where
  "mark_healthy e now now' g =
     upd_live e (\<lambda>l.
       let l1 = (if cooling_until l \<le> now then l\<lparr>cooling_until := 0\<rparr> else l)
       in reset_auth_healthy (l1\<lparr>last_used := now'\<rparr>)) g"

text \<open>Collecting pairs into a hash map keeps the last value of a repeated key.\<close>

definition collect_map :: "('k \<times> 'v) list \<Rightarrow> 'k \<Rightarrow> 'v option" where
  "collect_map kvs = map_of (rev kvs)"

definition import_health_row :: "pool_cfg \<Rightarrow> sub_health \<Rightarrow> inner \<Rightarrow> inner" where
  "import_health_row C r g =
     (if sh_email r \<notin> sub_email ` set (subs g) then g
      else
        let current = (case collect_map (map (\<lambda>s. (sub_email s, token_fp C (sub_token s))) (subs g))
                              (sh_email r) of Some f \<Rightarrow> f | None \<Rightarrow> [])
        in upd_live (sh_email r) (\<lambda>l.
             if sh_auth_token_fp r \<noteq> [] \<and> sh_auth_token_fp r \<noteq> current
             then (reset_auth_healthy l)\<lparr>auth_token_fp := current\<rparr>
             else l\<lparr>auth_state := auth_from_persisted (sh_auth_state r),
                    auth_fail_streak := max (sh_auth_fail_streak r) 0,
                    first_auth_fail_ts := sh_first_auth_fail_ts r,
                    last_auth_fail_ts := sh_last_auth_fail_ts r,
                    last_auth_http := sh_last_auth_http r,
                    dead_since_ts := sh_dead_since_ts r,
                    dead_reason := sh_dead_reason r,
                    auth_token_fp := sh_auth_token_fp r\<rparr>) g)"

definition import_health :: "pool_cfg \<Rightarrow> sub_health list \<Rightarrow> inner \<Rightarrow> inner" where
  "import_health C rows g = fold (import_health_row C) rows g"

definition revive :: "string \<Rightarrow> inner \<Rightarrow> sub_health option \<times> inner" where
  "revive e g =
     (if e \<notin> sub_email ` set (subs g) then (None, g)
      else let g' = upd_live e reset_auth_healthy g in (Some (health_row e (live_at g' e)), g'))"

definition kill :: "string \<Rightarrow> string \<Rightarrow> i64 \<Rightarrow> inner \<Rightarrow> sub_health option \<times> inner" where
  "kill e reason now g =
     (if e \<notin> sub_email ` set (subs g) then (None, g)
      else
        let g' = upd_live e (\<lambda>l.
              let l1 = l\<lparr>auth_state := Dead\<rparr>;
                  l2 = (if dead_since_ts l1 = 0 then l1\<lparr>dead_since_ts := now\<rparr> else l1)
              in l2\<lparr>dead_reason := (if reason = [] then ''operator'' else reason)\<rparr>) g
        in (Some (health_row e (live_at g' e)), g'))"

definition is_auth_dead :: "string \<Rightarrow> inner \<Rightarrow> bool" where
  "is_auth_dead e g = is_dead g e"


section \<open>The roster\<close>

definition roster_changed :: "sub list \<Rightarrow> sub list \<Rightarrow> bool" where
  "roster_changed old new \<longleftrightarrow>
     length old \<noteq> length new
     \<or> (\<exists>(l, r)\<in>set (zip old new).
          sub_email l \<noteq> sub_email r \<or> sub_token l \<noteq> sub_token r \<or> sub_proxy l \<noteq> sub_proxy r
          \<or> sub_fleet l \<noteq> sub_fleet r \<or> sub_plan l \<noteq> sub_plan r)"

definition check_token :: "pool_cfg \<Rightarrow> sub \<Rightarrow> inner \<Rightarrow> inner" where
  "check_token C s g =
     upd_existing (sub_email s) (\<lambda>l.
       let fp = token_fp C (sub_token s)
       in if auth_token_fp l \<noteq> [] \<and> auth_token_fp l \<noteq> fp
          then (reset_auth_healthy l)\<lparr>auth_token_fp := fp, quota5h := None, quota7d := None\<rparr>
          else l) g"

definition replace_subs :: "pool_cfg \<Rightarrow> sub list \<Rightarrow> i64 \<Rightarrow> inner \<Rightarrow> bool \<times> inner" where
  "replace_subs C new now g =
     (let changed = roster_changed (subs g) new;
          keep = sub_email ` set new;
          g1 = g\<lparr>live_map := (\<lambda>k. case live_map g k of None \<Rightarrow> None
                  | Some v \<Rightarrow> if k \<in> keep \<or> now < cooling_until v then Some v else None)\<rparr>;
          g2 = fold (check_token C) new g1
      in (changed, g2\<lparr>subs := new\<rparr>))"

fun set_first_plan :: "string \<Rightarrow> string \<Rightarrow> sub list \<Rightarrow> sub list option" where
  "set_first_plan e plan [] = None"
| "set_first_plan e plan (s # ss) =
     (if sub_email s = e then Some (s\<lparr>sub_plan := plan\<rparr> # ss)
      else map_option (\<lambda>r. s # r) (set_first_plan e plan ss))"

definition set_plan :: "string \<Rightarrow> string \<Rightarrow> inner \<Rightarrow> bool \<times> inner" where
  "set_plan e plan g =
     (if plan = [] then (False, g)
      else case set_first_plan e plan (subs g) of
             None \<Rightarrow> (False, g)
           | Some ss \<Rightarrow> (True, g\<lparr>subs := ss\<rparr>))"

fun consensus_loop :: "string option \<Rightarrow> string list \<Rightarrow> string option" where
  "consensus_loop consensus [] = consensus"
| "consensus_loop consensus (plan # plans) =
     (if plan \<notin> {''pro'', ''max5'', ''max20''} then None
      else case consensus of
             None \<Rightarrow> consensus_loop (Some plan) plans
           | Some current \<Rightarrow> if current = plan then consensus_loop consensus plans else None)"

definition consensus_paid_plan :: "inner \<Rightarrow> string option" where
  "consensus_paid_plan g =
     consensus_loop None (filter (\<lambda>p. p \<noteq> []) (map (\<lambda>s. trim (sub_plan s)) (subs g)))"

section \<open>Capacity calibration\<close>

definition CALIB_ALPHA :: rat where "CALIB_ALPHA = 3 / 10"
definition CALIB_MIN_DELTA :: rat where "CALIB_MIN_DELTA = 3 / 100"
definition CALIB_MIN_PRIOR_FACTOR :: rat where "CALIB_MIN_PRIOR_FACTOR = 1 / 4"
definition CALIB_MAX_PRIOR_FACTOR :: rat where "CALIB_MAX_PRIOR_FACTOR = 4"
definition CALIB_MAX_JUMP :: rat where "CALIB_MAX_JUMP = 4"
definition CALIB_MIN_SHARE :: rat where "CALIB_MIN_SHARE = 1 / 2"

definition plausible_cap :: "rat \<Rightarrow> rat \<Rightarrow> bool" where
  "plausible_cap cap prior_cap \<longleftrightarrow>
     0 < prior_cap \<and> prior_cap * CALIB_MIN_PRIOR_FACTOR \<le> cap
     \<and> cap \<le> prior_cap * CALIB_MAX_PRIOR_FACTOR"

definition validated_cap :: "rat \<Rightarrow> rat \<Rightarrow> rat" where
  "validated_cap cap prior_cap = (if 0 < cap \<and> plausible_cap cap prior_cap then cap else 0)"

record calib_sample =
  cs_util :: rat
  cs_spent_total :: rat
  cs_prior_cap :: rat
  cs_safe :: bool

text \<open>The five mutable references of \<open>calib_window\<close>.\<close>

record calib_state =
  cw_seeded :: bool
  cw_anchor :: rat
  cw_spent_anchor :: rat
  cw_cap :: rat
  cw_n :: "32 word"

definition calib_window :: "calib_sample \<Rightarrow> calib_state \<Rightarrow> calib_state" where
  "calib_window smp w =
     (let new_util = cs_util smp; spent_total = cs_spent_total smp; prior_cap = cs_prior_cap smp;
          re_anchor = (\<lambda>w. w\<lparr>cw_anchor := new_util, cw_spent_anchor := spent_total\<rparr>)
      in if \<not> cw_seeded w then re_anchor (w\<lparr>cw_seeded := True\<rparr>)
         else if new_util + 1 / 10 ^ 9 < cw_anchor w then re_anchor w
         else let d = new_util - cw_anchor w
         in if d < CALIB_MIN_DELTA then w
         else let du = spent_total - cw_spent_anchor w;
                  baseline = (if plausible_cap (cw_cap w) prior_cap then cw_cap w else prior_cap);
                  obs = du / d;
                  ours_explains = (d * baseline * CALIB_MIN_SHARE \<le> du);
                  w1 = (if cs_safe smp \<and> 0 < du \<and> ours_explains \<and> plausible_cap obs prior_cap
                        then let obs' = clamp_q (baseline / CALIB_MAX_JUMP) (baseline * CALIB_MAX_JUMP) obs
                             in w\<lparr>cw_cap := baseline * (1 - CALIB_ALPHA) + obs' * CALIB_ALPHA,
                                  cw_n := cw_n w + 1\<rparr>
                        else w)
              in re_anchor w1)"

definition plan_scale_of :: "string \<Rightarrow> inner \<Rightarrow> rat" where
  "plan_scale_of e g =
     (case List.find (\<lambda>s. sub_email s = e) (subs g) of
        Some s \<Rightarrow> plan_scale (sub_plan s) | None \<Rightarrow> plan_scale [])"

definition calib5 :: "calib_sample \<Rightarrow> live \<Rightarrow> live" where
  "calib5 smp l =
     (let w = calib_window smp \<lparr>cw_seeded = seed5 l, cw_anchor = util5_anchor l,
                cw_spent_anchor = spent5_anchor_usd l, cw_cap = cap5h_usd l, cw_n = calib_n l\<rparr>
      in l\<lparr>seed5 := cw_seeded w, util5_anchor := cw_anchor w,
           spent5_anchor_usd := cw_spent_anchor w, cap5h_usd := cw_cap w, calib_n := cw_n w\<rparr>)"

definition calib7 :: "calib_sample \<Rightarrow> live \<Rightarrow> live" where
  "calib7 smp l =
     (let w = calib_window smp \<lparr>cw_seeded = seed7 l, cw_anchor = util7_anchor l,
                cw_spent_anchor = spent7_anchor_usd l, cw_cap = cap7d_usd l, cw_n = 0\<rparr>
      in l\<lparr>seed7 := cw_seeded w, util7_anchor := cw_anchor w,
           spent7_anchor_usd := cw_spent_anchor w, cap7d_usd := cw_cap w\<rparr>)"

definition when_some :: "'a option \<Rightarrow> ('a \<Rightarrow> 's \<Rightarrow> 's) \<Rightarrow> 's \<Rightarrow> 's" where
  "when_some x f s = (case x of None \<Rightarrow> s | Some v \<Rightarrow> f v s)"

definition set_util ::
  "pool_cfg \<Rightarrow> string \<Rightarrow> rat option \<Rightarrow> rat option \<Rightarrow> string option \<Rightarrow> i64 option \<Rightarrow> i64 option
     \<Rightarrow> i64 \<Rightarrow> inner \<Rightarrow> inner" where
  "set_util C e u5 u7 st r5 r7 now g =
     (let scale = plan_scale_of e g;
          prior5 = prior5h_usd C * scale; prior7 = prior7d_usd C * scale
      in upd_live e (\<lambda>l.
           let safe = (inflight l \<le> 1); spent_total = spent_total_usd l;
               smp = (\<lambda>n prior. \<lparr>cs_util = n, cs_spent_total = spent_total, cs_prior_cap = prior,
                                  cs_safe = safe\<rparr>);
               l1 = when_some u5 (\<lambda>n5. calib5 (smp n5 prior5)) l;
               l2 = when_some u7 (\<lambda>n7. calib7 (smp n7 prior7)) l1;
               l3 = l2\<lparr>spent_at_header_usd := spent_total\<rparr>;
               l4 = when_some u5 (\<lambda>v l. l\<lparr>util5h := v\<rparr>) l3;
               l5 = when_some u7 (\<lambda>v l. l\<lparr>util7d := v\<rparr>) l4;
               l6 = when_some st (\<lambda>v l. l\<lparr>status := v\<rparr>) l5;
               l7 = when_some r5 (\<lambda>v l. l\<lparr>reset5h := v\<rparr>) l6;
               l8 = when_some r7 (\<lambda>v l. l\<lparr>reset7d := v\<rparr>) l7
           in l8\<lparr>polled_ts := now\<rparr>) g)"

definition set_quota_snapshots ::
  "string \<Rightarrow> quota_snapshot option \<Rightarrow> quota_snapshot option \<Rightarrow> inner \<Rightarrow> inner" where
  "set_quota_snapshots e q5 q7 g =
     (if q5 = None \<and> q7 = None then g
      else upd_live e (\<lambda>l. when_some q7 (\<lambda>q l. l\<lparr>quota7d := Some q\<rparr>)
                             (when_some q5 (\<lambda>q l. l\<lparr>quota5h := Some q\<rparr>) l)) g)"

section \<open>Spend and its persistence\<close>

definition record_spend :: "string \<Rightarrow> i128 \<Rightarrow> inner \<Rightarrow> inner" where
  "record_spend e real_nano g =
     upd_live e (\<lambda>l. l\<lparr>spent_total_usd := spent_total_usd l + of_int real_nano / 10 ^ 9,
                      unpersisted_spend_usd := unpersisted_spend_usd l + of_int real_nano / 10 ^ 9\<rparr>) g"

text \<open>The rows of \<open>export_state\<close>, one per entry of the live map.\<close>

definition export_row :: "string \<Rightarrow> live \<Rightarrow> pool_state_row" where
  "export_row e l = \<lparr>ps_email = e, ps_cooling_until = cooling_until l, ps_cap5h_usd = cap5h_usd l,
     ps_cap7d_usd = cap7d_usd l, ps_spent_total_usd = spent_total_usd l,
     ps_spent_delta_usd = unpersisted_spend_usd l, ps_util5h = util5h l, ps_util7d = util7d l,
     ps_reset5h = reset5h l, ps_reset7d = reset7d l, ps_calib_n = uint (calib_n l),
     ps_version = persist_version l\<rparr>"

definition export_state :: "inner \<Rightarrow> string \<Rightarrow> pool_state_row option" where
  "export_state g = (\<lambda>e. map_option (export_row e) (live_map g e))"

definition scale_lookup :: "string \<Rightarrow> inner \<Rightarrow> rat" where
  "scale_lookup e g =
     (case collect_map (map (\<lambda>s. (sub_email s, plan_scale (sub_plan s))) (subs g)) e of
        Some x \<Rightarrow> x | None \<Rightarrow> plan_scale [])"

definition import_live :: "pool_cfg \<Rightarrow> pool_state_row \<Rightarrow> rat \<Rightarrow> i64 \<Rightarrow> live \<Rightarrow> bool \<times> live" where
  "import_live C r scale now l =
     (let l1 = (if now < ps_cooling_until r then l\<lparr>cooling_until := ps_cooling_until r\<rparr> else l);
          cap5 = validated_cap (ps_cap5h_usd r) (prior5h_usd C * scale);
          cap7 = validated_cap (ps_cap7d_usd r) (prior7d_usd C * scale);
          bad5 = ((0 < ps_calib_n r \<or> ps_cap5h_usd r \<noteq> 0) \<and> cap5 = 0);
          bad7 = (ps_cap7d_usd r \<noteq> 0 \<and> cap7 = 0)
      in (bad5 \<or> bad7,
          l1\<lparr>cap5h_usd := cap5, cap7d_usd := cap7, spent_total_usd := ps_spent_total_usd r,
             unpersisted_spend_usd := 0, spent_at_header_usd := ps_spent_total_usd r,
             util5h := ps_util5h r, util7d := ps_util7d r, reset5h := ps_reset5h r,
             reset7d := ps_reset7d r,
             calib_n := (if bad5 then 0 else word_of_int (max (ps_calib_n r) 0)),
             persist_version := max (ps_version r) 0, seed5 := True, util5_anchor := ps_util5h r,
             spent5_anchor_usd := ps_spent_total_usd r, seed7 := True, util7_anchor := ps_util7d r,
             spent7_anchor_usd := ps_spent_total_usd r,
             polled_ts := sub_i64 now (uint (stable_hash64 C (ps_email r)) mod 240),
             last_used := now\<rparr>))"

definition import_state_row :: "pool_cfg \<Rightarrow> i64 \<Rightarrow> pool_state_row \<Rightarrow> nat \<times> inner \<Rightarrow> nat \<times> inner" where
  "import_state_row C now r acc =
     (let (repaired, g) = acc
      in if ps_email r \<notin> sub_email ` set (subs g) \<and> ps_cooling_until r \<le> now then (repaired, g)
         else let (bad, l) = import_live C r (scale_lookup (ps_email r) g) now (live_at g (ps_email r))
              in (if bad then repaired + 1 else repaired, upd_live (ps_email r) (\<lambda>_. l) g))"

definition import_state :: "pool_cfg \<Rightarrow> pool_state_row list \<Rightarrow> i64 \<Rightarrow> inner \<Rightarrow> nat \<times> inner" where
  "import_state C rows now g = fold (import_state_row C now) rows (0, g)"

definition accept_live :: "i64 \<Rightarrow> rat \<Rightarrow> live \<Rightarrow> live" where
  "accept_live version spent_delta l =
     l\<lparr>persist_version := max (persist_version l) version,
       unpersisted_spend_usd := max (unpersisted_spend_usd l - max spent_delta 0) 0\<rparr>"

definition accept_persist_versions :: "(string \<times> i64 \<times> rat) list \<Rightarrow> inner \<Rightarrow> inner" where
  "accept_persist_versions acknowledged g =
     fold (\<lambda>(e, version, spent_delta). upd_existing e (accept_live version spent_delta)) acknowledged g"

definition conservative_cap :: "rat \<Rightarrow> rat \<Rightarrow> rat" where
  "conservative_cap local remote =
     (if 0 < local \<and> 0 < remote then min local remote
      else if \<not> 0 < local \<and> 0 < remote then remote else local)"

definition merge_window :: "rat \<Rightarrow> i64 \<Rightarrow> rat \<Rightarrow> i64 \<Rightarrow> rat \<times> i64" where
  "merge_window local_util local_reset remote_util remote_reset =
     (if local_reset < remote_reset then (remote_util, remote_reset)
      else if remote_reset = local_reset then (max local_util remote_util, local_reset)
      else (local_util, local_reset))"

definition merge_live :: "pool_cfg \<Rightarrow> rat \<Rightarrow> pool_state_row \<Rightarrow> live \<Rightarrow> live" where
  "merge_live C scale row l =
     (let prior5 = prior5h_usd C * scale; prior7 = prior7d_usd C * scale;
          remote5 = validated_cap (ps_cap5h_usd row) prior5;
          remote7 = validated_cap (ps_cap7d_usd row) prior7;
          remote5_bad = ((0 < ps_calib_n row \<or> ps_cap5h_usd row \<noteq> 0) \<and> remote5 = 0);
          persisted_local = max (spent_total_usd l - unpersisted_spend_usd l) 0;
          cap5 = conservative_cap (validated_cap (cap5h_usd l) prior5) remote5;
          cap7 = conservative_cap (validated_cap (cap7d_usd l) prior7) remote7;
          (u5, r5) = merge_window (util5h l) (reset5h l) (ps_util5h row) (ps_reset5h row);
          (u7, r7) = merge_window (util7d l) (reset7d l) (ps_util7d row) (ps_reset7d row)
      in l\<lparr>cooling_until := max (cooling_until l) (ps_cooling_until row),
           spent_total_usd := max persisted_local (ps_spent_total_usd row) + unpersisted_spend_usd l,
           cap5h_usd := cap5, cap7d_usd := cap7,
           calib_n := (if cap5 = 0 \<or> remote5_bad then 0
                       else max (calib_n l) (word_of_int (max (ps_calib_n row) 0))),
           util5h := u5, reset5h := r5, util7d := u7, reset7d := r7,
           persist_version := max (persist_version l) (max (ps_version row) 0)\<rparr>)"

definition merge_persisted_state :: "pool_cfg \<Rightarrow> pool_state_row list \<Rightarrow> inner \<Rightarrow> inner" where
  "merge_persisted_state C rows g =
     fold (\<lambda>row g. upd_live (ps_email row) (merge_live C (scale_lookup (ps_email row) g) row) g) rows g"

section \<open>Capacity report\<close>

record cap_report =
  cap_email :: string
  cap_plan :: string
  calibrated :: bool
  cap_util5h :: rat
  cap_util7d :: rat
  cap_quota5h :: "quota_snapshot option"
  cap_quota7d :: "quota_snapshot option"
  reset5h_in :: i64
  reset7d_in :: i64
  cap_cap5h_usd :: rat
  cap_cap7d_usd :: rat
  rem5h_usd :: rat
  rem7d_usd :: rat
  avail_1h_usd :: rat
  avail_5h_usd :: rat
  avail_1d_usd :: rat
  avail_7d_usd :: rat
  cap_status :: string
  cap_cooling :: bool
  routable :: bool
  cap_auth_dead :: bool
  cap_auth_state :: string
  cap_dead_reason :: string
  cap_dead_since_ts :: i64

text \<open>The number of window resets in \<open>(now, now + h]\<close>.\<close>

definition resets :: "i64 \<Rightarrow> i64 \<Rightarrow> i64 \<Rightarrow> i64 \<Rightarrow> i64" where
  "resets now reset win h =
     (let nxt = (if now < reset then reset
                 else add_i64 reset (wrap_i64 (add_i64 (trunc_div (sub_i64 now reset) win) 1 * win)))
      in if add_i64 now h < nxt then 0
         else add_i64 1 (trunc_div (sub_i64 (add_i64 now h) nxt) win))"

text \<open>\<open>avail\<close> over the figures of one subscription: its state, the effective capacities, the
  live utilizations and the effective reset instants.\<close>

definition avail ::
  "live \<Rightarrow> i64 \<Rightarrow> rat \<Rightarrow> rat \<Rightarrow> rat \<Rightarrow> rat \<Rightarrow> i64 \<Rightarrow> i64 \<Rightarrow> i64 \<Rightarrow> rat" where
  "avail l now cap5 cap7 rem5 rem7 er5 er7 h =
     (if auth_state l = Dead then 0
      else
        let a5 = rem5 + of_int (resets now er5 WIN5_SECS h) * cap5;
            a7 = rem7 + of_int (resets now er7 WIN7_SECS h) * cap7;
            quota = min a5 a7;
            unavailable = max 0 (min h (sat_sub_i64 (cooling_until l) now))
        in quota * of_int (h - unavailable) / of_int h)"

definition capacity_of :: "pool_cfg \<Rightarrow> i64 \<Rightarrow> inner \<Rightarrow> sub \<Rightarrow> cap_report" where
  "capacity_of C now g s =
     (let l = live_at g (sub_email s); sc = plan_scale (sub_plan s);
          cap5 = effective_cap (cap5h_usd l) (prior5h_usd C * sc);
          cap7 = effective_cap (cap7d_usd l) (prior7d_usd C * sc);
          er5 = (if 0 < reset5h l then reset5h l else add_i64 now WIN5_SECS);
          er7 = (if 0 < reset7d l then reset7d l else add_i64 now WIN7_SECS);
          u5 = util_of C g now 5 s; u7 = util_of C g now 7 s;
          rem5 = cap5 * (1 - u5); rem7 = cap7 * (1 - u7);
          dead = (auth_state l = Dead); cooling = (now < cooling_until l);
          av = avail l now cap5 cap7 rem5 rem7 er5 er7
      in \<lparr>cap_email = sub_email s, cap_plan = sub_plan s, calibrated = (0 < calib_n l),
          cap_util5h = u5, cap_util7d = u7, cap_quota5h = quota5h l, cap_quota7d = quota7d l,
          reset5h_in = max (sub_i64 er5 now) 0, reset7d_in = max (sub_i64 er7 now) 0,
          cap_cap5h_usd = cap5, cap_cap7d_usd = cap7, rem5h_usd = rem5, rem7d_usd = rem7,
          avail_1h_usd = av 3600, avail_5h_usd = av 18000, avail_1d_usd = av 86400,
          avail_7d_usd = av 604800, cap_status = status l, cap_cooling = cooling,
          routable = (\<not> dead \<and> \<not> cooling), cap_auth_dead = dead,
          cap_auth_state = auth_as_str (auth_state l), cap_dead_reason = dead_reason l,
          cap_dead_since_ts = dead_since_ts l\<rparr>)"

definition capacity :: "pool_cfg \<Rightarrow> i64 \<Rightarrow> inner \<Rightarrow> cap_report list" where
  "capacity C now g = map (capacity_of C now g) (subs g)"

definition snapshot :: "inner \<Rightarrow> (sub \<times> live) list" where
  "snapshot g = map (\<lambda>s. (s, live_at g (sub_email s))) (subs g)"

end
