(* ===== verification/Pool_Properties.thy ===== *)
theory Pool_Properties
  imports Pool "HOL-Library.Product_Lexorder"
begin

text \<open>
  Properties of the subscription pool: the choice functions are the first minimum, or the last
  maximum, of a lexicographic key; routing serves a live subscription whenever there is one and
  keeps sessions at their home; a subscription dies only on corroborated evidence and an active
  cooldown is never shortened; calibration, merging and the capacity report stay within their
  bounds.
\<close>

section \<open>Rankings\<close>

text \<open>The reference definitions of a choice by key.\<close>

definition first_minimum :: "('a \<Rightarrow> 'k::linorder) \<Rightarrow> 'a list \<Rightarrow> 'a option" where
  "first_minimum key xs = List.find (\<lambda>x. \<forall>y\<in>set xs. key x \<le> key y) xs"

definition last_maximum :: "('a \<Rightarrow> 'k::linorder) \<Rightarrow> 'a list \<Rightarrow> 'a option" where
  "last_maximum key xs = List.find (\<lambda>x. \<forall>y\<in>set xs. key y \<le> key x) (rev xs)"

lemma ord_cmp_simps [simp]:
  "ord_cmp a b = Ord_Greater \<longleftrightarrow> b < a"
  "ord_cmp a b = Ord_Less \<longleftrightarrow> a < b"
  "ord_cmp a b = Ord_Equal \<longleftrightarrow> a = b"
  by (auto simp: ord_cmp_def)

lemma ord_then_pair: "ord_then (ord_cmp a b) (ord_cmp c d) = ord_cmp (a, c) (b, d)"
  by (auto simp: ord_then_def ord_cmp_def)

lemma ord_cmp_flip: "ord_cmp (b :: int) a = ord_cmp (- a) (- b)"
  by (auto simp: ord_cmp_def)

lemma ord_then_assoc: "ord_then (ord_then a b) c = ord_then a (ord_then b c)"
  by (auto simp: ord_then_def split: ordering.splits)

locale ranking =
  fixes cmp :: "'a \<Rightarrow> 'a \<Rightarrow> ordering"
    and key :: "'a \<Rightarrow> 'k::linorder"
  assumes cmp_key: "cmp a b = ord_cmp (key a) (key b)"
begin

lemma fold_first_minimum:
  "List.find (\<lambda>x. \<forall>y\<in>set (z # xs). key x \<le> key y) (z # xs)
     = Some (fold (\<lambda>y acc. if cmp acc y = Ord_Greater then y else acc) xs z)"
proof (induction xs arbitrary: z)
  case Nil
  then show ?case by simp
next
  case (Cons y ys)
  show ?case
  proof (cases "key y < key z")
    case True
    have "(\<forall>w\<in>set (z # y # ys). key x \<le> key w) = (\<forall>w\<in>set (y # ys). key x \<le> key w)" for x
      using True by auto
    moreover have "\<not> key z \<le> key y" using True by simp
    ultimately show ?thesis using Cons.IH [of y] True by (simp add: cmp_key)
  next
    case False
    let ?m = "\<lambda>zs x. \<forall>w\<in>set zs. key x \<le> key w"
    have all: "?m (z # y # ys) = ?m (z # ys)" using False by force
    have drop_y: "List.find P (z # y # ys) = List.find P (z # ys)" if "P y \<Longrightarrow> P z" for P
      using that by simp
    have "?m (z # ys) y \<Longrightarrow> ?m (z # ys) z" using False by force
    then show ?thesis using Cons.IH [of z] False unfolding all
      by (subst drop_y) (simp_all add: cmp_key)
  qed
qed

lemma min_by_first_minimum: "min_by cmp xs = first_minimum key xs"
  unfolding min_by_def first_minimum_def
  by (cases xs) (simp, simp only: list.case fold_first_minimum)

lemma fold_max_last:
  "fold (\<lambda>y acc. if cmp acc y = Ord_Greater then acc else y) xs z
     = fold (\<lambda>y acc. if key y < key acc then acc else y) xs z"
  by (simp add: cmp_key)

lemma fold_last_maximum:
  "List.find (\<lambda>x. \<forall>y\<in>set (z # xs). key y \<le> key x) (rev (z # xs))
     = Some (fold (\<lambda>y acc. if key y < key acc then acc else y) xs z)"
proof (induction xs arbitrary: z)
  case Nil
  then show ?case by simp
next
  case (Cons y ys)
  let ?m = "\<lambda>zs x. \<forall>w\<in>set zs. key w \<le> key x"
  show ?case
  proof (cases "key y < key z")
    case True
    have all: "?m (z # y # ys) = ?m (z # ys)" using True by force
    have drop_y: "List.find P (rev (z # y # ys)) = List.find P (rev (z # ys))" if "\<not> P y" for P
      using that by (simp add: find_append split: option.split)
    have "\<not> ?m (z # ys) y" using True by force
    from drop_y [of "?m (z # ys)", OF this] show ?thesis
      using Cons.IH [of z] True unfolding all by simp
  next
    case False
    have all: "?m (z # y # ys) = ?m (y # ys)" using False by force
    have keep: "List.find P (rev (z # y # ys)) = Some r" if "List.find P (rev (y # ys)) = Some r"
      for P r using that by (simp add: find_append split: option.splits if_splits)
    from keep [OF Cons.IH [of y]] show ?thesis unfolding all using False by simp
  qed
qed

lemma max_by_last_maximum: "max_by cmp xs = last_maximum key xs"
  unfolding max_by_def last_maximum_def
  by (cases xs) (simp, simp only: list.case fold_last_maximum fold_max_last)

end

lemma first_minimum_mem:
  "first_minimum key xs = Some x \<Longrightarrow> x \<in> set xs \<and> (\<forall>y\<in>set xs. key x \<le> key y)"
  unfolding first_minimum_def by (drule find_Some_mem) auto

lemma last_maximum_mem:
  "last_maximum key xs = Some x \<Longrightarrow> x \<in> set xs \<and> (\<forall>y\<in>set xs. key y \<le> key x)"
  unfolding last_maximum_def by (drule find_Some_mem) auto

lemma min_by_None [simp]: "min_by cmp xs = None \<longleftrightarrow> xs = []"
  by (cases xs) (simp_all add: min_by_def)

lemma max_by_None [simp]: "max_by cmp xs = None \<longleftrightarrow> xs = []"
  by (cases xs) (simp_all add: max_by_def)

subsection \<open>The two rankings of the pool\<close>

text \<open>Rotation prefers, in this order: not cooling; below the in-flight threshold; above the
  threshold the fewest in flight; below its reserve; the least used week; the least used five
  hours; no upstream warning; the fewest in flight; the least recently used.\<close>

definition select_key where
  "select_key C g now rsv s =
     (is_cooling g (sub_email s) now, over_envelope C g s,
      (if over_envelope C g s then inflight_of g (sub_email s) else 0),
      over_cap C g now rsv s, util_of C g now 7 s, util_of C g now 5 s,
      warn_of g (sub_email s),
      (if over_envelope C g s then 0 else inflight_of g (sub_email s)), lru_of g (sub_email s))"

definition place_key where
  "place_key C g now s =
     (placement_score C g now s, - inflight_of g (sub_email s), - lru_of g (sub_email s))"

lemma select_order_key:
  "select_order C g now rsv a b = ord_cmp (select_key C g now rsv a) (select_key C g now rsv b)"
  unfolding select_order_def select_key_def Let_def ord_then_pair
  by (auto simp: ord_cmp_def)

interpretation rotation: ranking "select_order C g now rsv" "select_key C g now rsv" for C g now rsv
  by unfold_locales (rule select_order_key)

lemma place_order_key:
  "place_order C g now a b = ord_cmp (place_key C g now a) (place_key C g now b)"
  unfolding place_order_def ord_then_assoc
  unfolding place_key_def ord_cmp_flip [of "inflight_of g (sub_email b)"] ord_cmp_flip [of "lru_of g (sub_email b)"]
    ord_then_pair ..

interpretation placement: ranking "place_order C g now" "place_key C g now" for C g now
  by unfold_locales (rule place_order_key)


text \<open>C31: Rotation returns the first candidate with the smallest key, placement the last eligible
  subscription with the largest key, and rotation over the unreserved windows when none is
  eligible.\<close>

theorem selection_is_lexicographic:
  "select_best_with_policy C g exclude now rsv allow
     = first_minimum (select_key C g now rsv) (filter (select_candidate g exclude now allow) (subs g))
   \<and> place_best C g exclude now rsv
     = (case last_maximum (place_key C g now)
               (filter (placement_eligible C g exclude now rsv) (subs g)) of
          Some s \<Rightarrow> Some s
        | None \<Rightarrow> first_minimum (select_key C g now reserve_full)
                    (filter (select_candidate g exclude now True) (subs g)))"
  unfolding select_best_with_policy_def select_best_def place_best_def
    rotation.min_by_first_minimum placement.max_by_last_maximum by simp

section \<open>What a choice guarantees\<close>

lemma select_best_with_policy_Some:
  assumes "select_best_with_policy C g exclude now rsv allow = Some s"
  shows "s \<in> set (subs g)" "select_candidate g exclude now allow s"
    "is_cooling g (sub_email s) now \<Longrightarrow> t \<in> set (subs g) \<Longrightarrow> select_candidate g exclude now allow t
       \<Longrightarrow> is_cooling g (sub_email t) now"
proof -
  have "first_minimum (select_key C g now rsv) (filter (select_candidate g exclude now allow) (subs g)) = Some s"
    using assms by (simp add: select_best_with_policy_def rotation.min_by_first_minimum)
  note m = first_minimum_mem [OF this]
  then show "s \<in> set (subs g)" "select_candidate g exclude now allow s" by auto
  assume "is_cooling g (sub_email s) now" "t \<in> set (subs g)" "select_candidate g exclude now allow t"
  with m have "is_cooling g (sub_email s) now" "select_key C g now rsv s \<le> select_key C g now rsv t"
    by auto
  then show "is_cooling g (sub_email t) now" by (auto simp: select_key_def)
qed

lemma select_best_with_policy_None:
  "select_best_with_policy C g exclude now rsv allow = None
     \<longleftrightarrow> (\<forall>s\<in>set (subs g). \<not> select_candidate g exclude now allow s)"
  by (simp add: select_best_with_policy_def filter_empty_conv)

lemma placement_eligible_candidate:
  "placement_eligible C g exclude now rsv s \<Longrightarrow> select_candidate g exclude now allow s"
  by (auto simp: placement_eligible_def select_candidate_def Let_def split: prod.splits)

lemma place_best_Some:
  assumes "place_best C g exclude now rsv = Some s"
  shows "s \<in> set (subs g)" "select_candidate g exclude now True s"
proof -
  have "s \<in> set (subs g) \<and> select_candidate g exclude now True s"
  proof (cases "max_by (place_order C g now) (filter (placement_eligible C g exclude now rsv) (subs g))")
    case None
    then have "select_best_with_policy C g exclude now reserve_full True = Some s"
      using assms unfolding place_best_def select_best_def by (simp only: option.case)
    then show ?thesis using select_best_with_policy_Some by blast
  next
    case (Some t)
    then have "last_maximum (place_key C g now) (filter (placement_eligible C g exclude now rsv) (subs g)) = Some s"
      using assms by (simp add: place_best_def placement.max_by_last_maximum)
    from last_maximum_mem [OF this] show ?thesis by (auto intro: placement_eligible_candidate)
  qed
  then show "s \<in> set (subs g)" "select_candidate g exclude now True s" by simp_all
qed

lemma place_best_None:
  "place_best C g exclude now rsv = None
     \<longleftrightarrow> (\<forall>s\<in>set (subs g). \<not> select_candidate g exclude now True s)"
proof (cases "max_by (place_order C g now) (filter (placement_eligible C g exclude now rsv) (subs g))")
  case None
  then show ?thesis
    by (simp add: place_best_def select_best_def select_best_with_policy_None del: max_by_None)
next
  case (Some t)
  then have "filter (placement_eligible C g exclude now rsv) (subs g) \<noteq> []"
    by (metis max_by_None option.distinct(1))
  then obtain s where "s \<in> set (subs g)" "placement_eligible C g exclude now rsv s"
    by (auto simp: filter_empty_conv)
  then have "\<exists>s\<in>set (subs g). select_candidate g exclude now True s"
    using placement_eligible_candidate by blast
  then show ?thesis using Some by (auto simp: place_best_def)
qed

lemma select_candidate_True:
  "select_candidate g exclude now True s \<longleftrightarrow> sub_email s \<notin> set exclude \<and> \<not> is_dead g (sub_email s)"
  by (simp add: select_candidate_def)

lemma select_candidate_False:
  "select_candidate g exclude now False s \<longleftrightarrow>
     sub_email s \<notin> set exclude \<and> \<not> is_dead g (sub_email s) \<and> \<not> is_cooling g (sub_email s) now"
  by (simp add: select_candidate_def)

section \<open>Effects on the live map\<close>

lemma live_map_upd_live [simp]:
  "live_map (upd_live e f g) = (live_map g)(e \<mapsto> f (live_at g e))"
  by (simp add: upd_live_def)

lemma upd_live_frame [simp]:
  "subs (upd_live e f g) = subs g" "bindings (upd_live e f g) = bindings g"
  "route_pin (upd_live e f g) = route_pin g" "route_spill (upd_live e f g) = route_spill g"
  "route_place (upd_live e f g) = route_place g" "route_rebind (upd_live e f g) = route_rebind g"
  by (simp_all add: upd_live_def)

lemma upd_existing_frame [simp]:
  "subs (upd_existing e f g) = subs g" "bindings (upd_existing e f g) = bindings g"
  by (simp_all add: upd_existing_def)

lemma live_map_upd_existing:
  "live_map (upd_existing e f g) k
     = (if k = e then map_option f (live_map g e) else live_map g k)"
  by (auto simp: upd_existing_def live_at_def)

lemma live_at_upd_live [simp]:
  "live_at (upd_live e f g) k = (if k = e then f (live_at g e) else live_at g k)"
  by (simp add: live_at_def)

lemma live_at_cong [simp]:
  "live_at (g\<lparr>bindings := bs\<rparr>) e = live_at g e" "live_at (g\<lparr>route_pin := n\<rparr>) e = live_at g e"
  "live_at (g\<lparr>route_spill := n\<rparr>) e = live_at g e" "live_at (g\<lparr>route_place := n\<rparr>) e = live_at g e"
  "live_at (g\<lparr>route_rebind := n\<rparr>) e = live_at g e"
  by (simp_all add: live_at_def)

text \<open>A request occupies exactly one slot: that of the chosen subscription.\<close>

definition slot_taken :: "i64 \<Rightarrow> sub \<Rightarrow> inner \<Rightarrow> inner \<Rightarrow> bool" where
  "slot_taken now s g g' \<longleftrightarrow>
     subs g' = subs g
     \<and> live_map g' = (live_map g)(sub_email s \<mapsto>
          (live_at g (sub_email s))\<lparr>last_used := now,
             inflight := sat_add_i64 (inflight (live_at g (sub_email s))) 1\<rparr>)"

lemma slot_takenI: "subs g' = subs g \<Longrightarrow> live_map g' = live_map g \<Longrightarrow>
    slot_taken now s g (upd_live (sub_email s) (acquire now) g')"
  by (simp add: slot_taken_def acquire_def live_at_def)

text \<open>The bookkeeping fields of \<open>inner\<close> do not matter to a choice.\<close>

definition same_fleet :: "inner \<Rightarrow> inner \<Rightarrow> bool" where
  "same_fleet g g' \<longleftrightarrow> subs g = subs g' \<and> live_map g = live_map g'"

lemma same_fleet_reads:
  assumes "same_fleet g g'"
  shows "is_cooling g = is_cooling g'" "is_dead g = is_dead g'" "inflight_of g = inflight_of g'"
    "live_util C g = live_util C g'"
  using assms by (simp_all add: same_fleet_def is_cooling_def is_dead_def inflight_of_def
      live_util_def fun_eq_iff)

lemma same_fleet_ranks:
  assumes "same_fleet g g'"
  shows "warn_of g = warn_of g'" "lru_of g = lru_of g'" "over_envelope C g = over_envelope C g'"
    "util_of C g = util_of C g'" "over_cap C g = over_cap C g'"
proof -
  note r = same_fleet_reads [OF assms]
  show "warn_of g = warn_of g'" "lru_of g = lru_of g'"
    using assms by (simp_all add: same_fleet_def warn_of_def lru_of_def fun_eq_iff)
  show "over_envelope C g = over_envelope C g'" by (simp add: fun_eq_iff over_envelope_def r)
  show u: "util_of C g = util_of C g'" by (simp add: fun_eq_iff util_of_def r)
  show "over_cap C g = over_cap C g'" by (simp add: fun_eq_iff over_cap_def u)
qed

section \<open>The retry path\<close>

text \<open>\<open>pick\<close> fails only when every subscription is excluded or dead; otherwise it returns a
  subscription that is neither, cooling only if every such subscription is cooling, and takes
  exactly one slot of it.\<close>

lemma pick_contract:
  assumes "pick C exclude allow_full now now' g = (r, g')"
  shows "case r of
      None \<Rightarrow> g' = g \<and> (\<forall>s\<in>set (subs g). sub_email s \<in> set exclude \<or> is_dead g (sub_email s))
    | Some s \<Rightarrow> s \<in> set (subs g) \<and> sub_email s \<notin> set exclude \<and> \<not> is_dead g (sub_email s)
        \<and> slot_taken now' s g g'
        \<and> (is_cooling g (sub_email s) now \<longrightarrow>
             (\<forall>t\<in>set (subs g). sub_email t \<in> set exclude \<or> is_dead g (sub_email t)
                \<or> is_cooling g (sub_email t) now))"
proof -
  let ?rsv = "if allow_full then reserve_full else pc_reserve C"
  have r: "r = select_best_with_policy C g exclude now ?rsv True"
    and g': "g' = acquire_selected now' r g"
    using assms by (auto simp: pick_def select_best_def Let_def)
  show ?thesis
  proof (cases r)
    case None
    then show ?thesis using r g' select_best_with_policy_None [of C g exclude now ?rsv True]
      by (auto simp: acquire_selected_def select_candidate_True)
  next
    case (Some s)
    note sel = select_best_with_policy_Some [OF Some [unfolded r]]
    show ?thesis using sel Some
      by (auto simp: select_candidate_True g' acquire_selected_def slot_takenI)
  qed
qed


section \<open>Session routing\<close>

text \<open>The home a session keeps at \<open>now\<close>: its binding is fresh, the home is on the roster and
  available. A kept home is busy when it is cooling briefly or at the in-flight threshold.\<close>

definition kept_home :: "pool_cfg \<Rightarrow> u64 \<Rightarrow> i64 \<Rightarrow> inner \<Rightarrow> string option" where
  "kept_home C session now g =
     (case map_of (bindings g) session of
        None \<Rightarrow> None
      | Some b \<Rightarrow>
          if sub_i64 now (last_seen b) < AFFINITY_TTL \<and> bind_email b \<in> sub_email ` set (subs g)
             \<and> home_available C (bind_email b) now g
          then Some (bind_email b) else None)"

definition home_busy :: "pool_cfg \<Rightarrow> string \<Rightarrow> i64 \<Rightarrow> inner \<Rightarrow> bool" where
  "home_busy C home now g \<longleftrightarrow> is_cooling g home now \<or> max_inflight C \<le> inflight_of g home"

lemma kept_homeD:
  assumes "kept_home C session now g = Some h"
  shows "\<exists>b. map_of (bindings g) session = Some b \<and> bind_email b = h
      \<and> sub_i64 now (last_seen b) < AFFINITY_TTL" "h \<in> sub_email ` set (subs g)"
    "\<not> is_dead g h" "home_available C h now g"
  using assms by (auto simp: kept_home_def home_available_def Let_def split: option.splits if_splits prod.splits)

lemma route_split:
  "route C session now g =
     (case kept_home C session now g of
        Some h \<Rightarrow> route_home C session h now g
      | None \<Rightarrow> route_new C session now
                  (\<exists>b. map_of (bindings g) session = Some b \<and> sub_i64 now (last_seen b) < AFFINITY_TTL
                     \<and> bind_email b \<in> sub_email ` set (subs g)) g)"
proof (cases "map_of (bindings g) session")
  case None
  then show ?thesis by (simp add: route_def kept_home_def)
next
  case (Some b)
  have "(\<exists>s\<in>set (subs g). sub_email s = bind_email b) \<longleftrightarrow> bind_email b \<in> sub_email ` set (subs g)"
    by (auto simp: image_iff) metis+
  then show ?thesis using Some
    by (cases "sub_i64 now (last_seen b) < AFFINITY_TTL \<and> bind_email b \<in> sub_email ` set (subs g)")
      (auto simp: route_def kept_home_def)
qed

lemma map_of_touch_binding:
  "map_of (touch_binding session now bs) k
     = map_option (\<lambda>b. if k = session then b\<lparr>last_seen := now\<rparr> else b) (map_of bs k)"
  by (induction bs) (auto simp: touch_binding_def)

lemma map_of_insert_binding: "map_of (insert_binding k b bs) = (map_of bs)(k \<mapsto> b)"
  by (induction k b bs rule: insert_binding.induct) auto

lemma cooling_live_at: "0 \<le> now \<Longrightarrow> now < cooling_until (live_at g h) \<longleftrightarrow> is_cooling g h now"
  by (auto simp: is_cooling_def live_at_def live_default_def split: option.splits)

lemma roster_find:
  assumes "h \<in> sub_email ` set (subs g)"
  obtains s where "List.find (\<lambda>s. sub_email s = h) (subs g) = Some s" "s \<in> set (subs g)" "sub_email s = h"
proof (cases "List.find (\<lambda>s. sub_email s = h) (subs g)")
  case None
  then show thesis using assms by (auto simp: find_None_iff)
next
  case (Some s)
  from find_Some_mem [OF this] that [OF Some] show thesis by blast
qed

lemma select_nc_same_fleet:
  assumes "same_fleet g g'"
  shows "select_best_non_cooling C g ex now rsv = select_best_non_cooling C g' ex now rsv"
proof -
  have "select_candidate g = select_candidate g'"
    by (simp add: select_candidate_def same_fleet_reads [OF assms] fun_eq_iff)
  moreover have "select_order C g now rsv = select_order C g' now rsv"
    by (intro ext) (simp only: select_order_def same_fleet_reads [OF assms] same_fleet_ranks [OF assms])
  ultimately show ?thesis using assms
    by (simp add: select_best_non_cooling_def select_best_with_policy_def same_fleet_def)
qed

lemma route_home_effect:
  assumes "kept_home C session now g = Some h" "0 \<le> now"
    and "route_home C session h now g = (r, g')"
  shows "\<exists>s. r = Some s \<and> s \<in> set (subs g) \<and> \<not> is_dead g (sub_email s) \<and> slot_taken now s g g'
      \<and> map_of (bindings g') session = Some \<lparr>bind_email = h, last_seen = now\<rparr>
      \<and> (if home_busy C h now g then
           (if \<exists>t\<in>set (subs g). select_candidate g [h] now False t
            then select_candidate g [h] now False s else sub_email s = h)
         else sub_email s = h)"
proof -
  note k = kept_homeD [OF assms(1)]
  obtain b where b: "map_of (bindings g) session = Some b" "bind_email b = h" using k(1) by blast
  obtain hs where hs: "List.find (\<lambda>s. sub_email s = h) (subs g) = Some hs" "hs \<in> set (subs g)"
    "sub_email hs = h" using roster_find [OF k(2)] by blast
  let ?g1 = "g\<lparr>bindings := touch_binding session now (bindings g)\<rparr>"
  have mb: "map_of (touch_binding session now (bindings g)) session = Some \<lparr>bind_email = h, last_seen = now\<rparr>"
    using b by (simp add: map_of_touch_binding)
  have busy: "(now < cooling_until (live_at g h) \<or> max_inflight C \<le> inflight_of ?g1 h) = home_busy C h now g"
    using assms(2) by (simp add: home_busy_def cooling_live_at inflight_of_def)
  show ?thesis
  proof (cases "home_busy C h now g")
    case False
    then have "r = Some hs" "g' = upd_live h (acquire now) (?g1\<lparr>route_pin := route_pin g + 1\<rparr>)"
      using assms(3) hs busy by (auto simp: route_home_def Let_def acquire_selected_def)
    then show ?thesis using hs k(3) False mb slot_takenI [of "?g1\<lparr>route_pin := route_pin g + 1\<rparr>" g now hs]
      by auto
  next
    case True
    let ?g2 = "?g1\<lparr>route_spill := route_spill g + 1\<rparr>"
    let ?sel = "select_best_non_cooling C g [h] now (pc_reserve C)"
    have "select_best_non_cooling C ?g2 [h] now (pc_reserve C) = ?sel"
      by (rule select_nc_same_fleet) (simp add: same_fleet_def)
    then obtain s where s: "s = (case ?sel of Some s \<Rightarrow> s | None \<Rightarrow> hs)" "r = Some s"
      "g' = upd_live (sub_email s) (acquire now) ?g2"
      using assms(3) hs busy True
      by (cases ?sel) (auto simp: route_home_def Let_def acquire_selected_def)
    have slot: "slot_taken now s g g'" unfolding s(3) by (rule slot_takenI) simp_all
    have b': "map_of (bindings g') session = Some \<lparr>bind_email = h, last_seen = now\<rparr>"
      using mb s(3) by simp
    show ?thesis
    proof (cases ?sel)
      case None
      then have "\<not> (\<exists>t\<in>set (subs g). select_candidate g [h] now False t)"
        by (simp add: select_best_non_cooling_def select_best_with_policy_None)
      then show ?thesis using None s(1,2) slot b' True hs k(3) by auto
    next
      case (Some t)
      then have "s = t" using s(1) by simp
      with Some have "s \<in> set (subs g)" "select_candidate g [h] now False s"
        using select_best_with_policy_Some by (auto simp: select_best_non_cooling_def)
      then show ?thesis using s(2) slot b' True by (auto simp: select_candidate_False)
    qed
  qed
qed

lemma route_new_effect:
  assumes "route_new C session now forced g = (r, g')"
  shows "case r of None \<Rightarrow> g' = g \<and> (\<forall>s\<in>set (subs g). is_dead g (sub_email s))
    | Some s \<Rightarrow> s \<in> set (subs g) \<and> \<not> is_dead g (sub_email s) \<and> slot_taken now s g g'
        \<and> place_best C g [] now (pc_reserve C) = Some s
        \<and> map_of (bindings g') session = Some \<lparr>bind_email = sub_email s, last_seen = now\<rparr>
        \<and> route_place g' = route_place g + 1
        \<and> route_rebind g' = route_rebind g + (if forced then 1 else 0)"
proof (cases "place_best C g [] now (pc_reserve C)")
  case None
  then have "\<forall>s\<in>set (subs g). is_dead g (sub_email s)"
    by (simp add: place_best_None select_candidate_True)
  then show ?thesis using assms None by (auto simp: route_new_def)
next
  case (Some s)
  have "slot_taken now s g (upd_live (sub_email s) (acquire now) g1)"
    if "subs g1 = subs g" "live_map g1 = live_map g" for g1
    using that by (rule slot_takenI)
  moreover from assms Some have "r = Some s" by (auto simp: route_new_def Let_def)
  ultimately show ?thesis using assms Some place_best_Some [OF Some]
    by (auto simp: route_new_def Let_def select_candidate_True map_of_insert_binding)
qed

text \<open>C9: Session routing. It fails only when every subscription is dead. Otherwise it returns a
  subscription that is not dead and takes exactly one slot of it. A session that keeps its home
  stays bound to it: an idle home serves the request, a busy one hands this request to another
  subscription that is not cooling, if there is one. A session without a kept home is bound to the
  subscription placement chose.\<close>

theorem route_contract:
  assumes "route C session now g = (r, g')" "0 \<le> now"
  shows "case r of
      None \<Rightarrow> g' = g \<and> (\<forall>s\<in>set (subs g). is_dead g (sub_email s))
    | Some s \<Rightarrow> s \<in> set (subs g) \<and> \<not> is_dead g (sub_email s) \<and> slot_taken now s g g'
        \<and> (case kept_home C session now g of
             Some h \<Rightarrow> map_of (bindings g') session = Some \<lparr>bind_email = h, last_seen = now\<rparr>
               \<and> (if home_busy C h now g then
                    (if \<exists>t\<in>set (subs g). select_candidate g [h] now False t
                     then select_candidate g [h] now False s else sub_email s = h)
                  else sub_email s = h)
           | None \<Rightarrow> map_of (bindings g') session = Some \<lparr>bind_email = sub_email s, last_seen = now\<rparr>
               \<and> place_best C g [] now (pc_reserve C) = Some s)"
proof (cases "kept_home C session now g")
  case None
  then show ?thesis using route_new_effect [of C session now _ g r g'] assms(1)
    by (auto simp: route_split split: option.splits)
next
  case (Some h)
  then show ?thesis using route_home_effect [OF Some assms(2)] assms(1)
    by (auto simp: route_split)
qed


section \<open>Affinity routing\<close>

lemma place_elsewhere_effect:
  assumes "place_elsewhere C now exclude g = (r, g')"
  shows "case r of
      Exhausted \<Rightarrow> g' = g \<and> (\<forall>s\<in>set (subs g). sub_email s \<in> set exclude \<or> is_dead g (sub_email s))
    | Selected s d \<Rightarrow> d = Rebound \<and> s \<in> set (subs g) \<and> sub_email s \<notin> set exclude
        \<and> \<not> is_dead g (sub_email s) \<and> slot_taken now s g g'"
proof (cases "place_best C g exclude now (pc_reserve C)")
  case None
  then have "\<forall>s\<in>set (subs g). sub_email s \<in> set exclude \<or> is_dead g (sub_email s)"
    by (auto simp: place_best_None select_candidate_True)
  then show ?thesis using assms None by (auto simp: place_elsewhere_def)
next
  case (Some s)
  then show ?thesis using assms place_best_Some [OF Some]
    by (auto simp: place_elsewhere_def select_candidate_True slot_takenI)
qed

lemma stay_home_effect:
  "stay_home now newly s g = (r, g') \<Longrightarrow> r = Selected s (if newly then Placed else Pinned) \<and> slot_taken now s g g'"
  by (auto simp: stay_home_def slot_takenI)

text \<open>What an outcome of affinity routing means for the shared home. A home that is gone is one
  whose identity no roster entry has.\<close>

definition affinity_ok :: "pool_cfg \<Rightarrow> string \<Rightarrow> bool \<Rightarrow> (string \<Rightarrow> string) \<Rightarrow> i64 \<Rightarrow> inner \<Rightarrow> sub
    \<Rightarrow> affinity_disposition \<Rightarrow> bool" where
  "affinity_ok C preferred newly identify now g s d =
     (let at_home = (identify (sub_email s) = preferred)
      in case d of
           Placed \<Rightarrow> newly \<and> at_home \<and> \<not> is_cooling g (sub_email s) now
         | Pinned \<Rightarrow> \<not> newly \<and> at_home \<and> \<not> is_cooling g (sub_email s) now
         | Spilled \<Rightarrow> \<not> is_cooling g (sub_email s) now
              \<and> (\<exists>h\<in>set (subs g). identify (sub_email h) = preferred \<and> sub_email h \<noteq> sub_email s
                   \<and> home_busy C (sub_email h) now g)
         | Rebound \<Rightarrow> \<forall>h. List.find (\<lambda>t. identify (sub_email t) = preferred) (subs g) = Some h
              \<longrightarrow> sub_email h \<noteq> sub_email s)"

lemma sat_sub_cooling:
  assumes "0 \<le> now" "in_i64 now" "in_i64 (cooling_until (live_at g h))"
  shows "0 < sat_sub_i64 (cooling_until (live_at g h)) now \<longleftrightarrow> is_cooling g h now"
  using assms cooling_live_at [of now g h]
  by (auto simp: sat_sub_i64_def clamp_i64_def in_i64_def)

text \<open>Affinity routing: a served request goes to a subscription that is not dead and occupies
  exactly one slot; it stays at the preferred home only while that is not cooling, spills only from
  a busy home to a subscription that is not cooling, and is rebound away from an unavailable home.
  It is refused, without any change, only when every other subscription is dead, or cooling while
  the home itself is cooling briefly.\<close>

lemma route_affinity_contract:
  assumes "route_affinity C preferred newly identify now g = (r, g')"
    and "0 \<le> now" "in_i64 now" "\<And>e. in_i64 (cooling_until (live_at g e))"
  shows "case r of
      Selected s d \<Rightarrow> s \<in> set (subs g) \<and> \<not> is_dead g (sub_email s) \<and> slot_taken now s g g'
        \<and> affinity_ok C preferred newly identify now g s d
    | Exhausted \<Rightarrow> g' = g \<and> (\<forall>t\<in>set (subs g). is_dead g (sub_email t) \<or> is_cooling g (sub_email t) now
          \<or> identify (sub_email t) = preferred)"
proof (cases "List.find (\<lambda>s. identify (sub_email s) = preferred) (subs g)")
  case None
  then show ?thesis using assms(1) place_elsewhere_effect [of C now "[]" g r g']
    by (auto simp: route_affinity_def affinity_ok_def split: affinity_route.splits)
next
  case (Some h)
  let ?h = "sub_email h"
  let ?cf = "sat_sub_i64 (cooling_until (live_at g ?h)) now"
  have h: "h \<in> set (subs g)" "identify ?h = preferred" using find_Some_mem [OF Some] by auto
  have cool: "0 < ?cf \<longleftrightarrow> is_cooling g ?h now" using assms(2,3,4) by (rule sat_sub_cooling)
  obtain c5 c7 where caps: "(if newly then reserve_caps C (pc_reserve C) ?h else (1, 1)) = (c5, c7)"
    by fastforce
  let ?pu = "is_dead g ?h \<or> (c5 \<le> util_of C g now 5 h \<or> c7 \<le> util_of C g now 7 h) \<or> REBIND_AFTER \<le> ?cf"
  consider (gone) "?pu" | (idle) "\<not> ?pu" "\<not> home_busy C ?h now g"
    | (busy) "\<not> ?pu" "home_busy C ?h now g" by blast
  then show ?thesis
  proof cases
    case gone
    then have "place_elsewhere C now [?h] g = (r, g')"
      using assms(1) Some caps by (auto simp: route_affinity_def Let_def split: if_splits)
    from place_elsewhere_effect [OF this] show ?thesis using Some h
      by (auto simp: affinity_ok_def split: affinity_route.splits)
  next
    case idle
    then have "stay_home now newly h g = (r, g')"
      using assms(1) Some caps cool by (auto simp: route_affinity_def Let_def home_busy_def split: if_splits)
    from stay_home_effect [OF this] show ?thesis using idle h
      by (auto simp: affinity_ok_def home_busy_def)
  next
    case busy
    let ?sel = "select_best_non_cooling C g [?h] now (pc_reserve C)"
    have run: "(r, g') = (case ?sel of
        Some s \<Rightarrow> (Selected s Spilled, upd_live (sub_email s) (acquire now) (g\<lparr>route_spill := route_spill g + 1\<rparr>))
      | None \<Rightarrow> if ?cf \<le> 0 then stay_home now newly h g else (Exhausted, g))"
      using assms(1) Some caps cool busy
      by (auto simp: route_affinity_def Let_def home_busy_def split: if_splits)
    show ?thesis
    proof (cases ?sel)
      case None
      then have "\<forall>s\<in>set (subs g). \<not> select_candidate g [?h] now False s"
        by (simp add: select_best_non_cooling_def select_best_with_policy_None)
      then show ?thesis using run None h busy(1) cool
        by (auto simp: select_candidate_False affinity_ok_def not_le stay_home_def slot_takenI split: if_splits)
    next
      case (Some s)
      then have "s \<in> set (subs g)" "select_candidate g [?h] now False s"
        using select_best_with_policy_Some by (auto simp: select_best_non_cooling_def)
      then show ?thesis using run Some h busy(2)
        by (auto simp: select_candidate_False affinity_ok_def slot_takenI)
    qed
  qed
qed


section \<open>The binding table\<close>

lemma distinct_insert_binding:
  "distinct (map fst bs) \<Longrightarrow> distinct (map fst (insert_binding k b bs))"
proof (induction k b bs rule: insert_binding.induct)
  case (2 k b k' b' bs)
  have "set (map fst (insert_binding k b bs)) \<subseteq> insert k (set (map fst bs))"
    by (induction k b bs rule: insert_binding.induct) auto
  then show ?case using 2 by auto
qed simp

lemma length_insert_binding: "length (insert_binding k b bs) \<le> Suc (length bs)"
  by (induction k b bs rule: insert_binding.induct) auto

lemma map_fst_touch_binding [simp]: "map fst (touch_binding session now bs) = map fst bs"
  by (simp add: touch_binding_def) (induction bs; auto)

lemma sorted_take_drop:
  assumes "sorted (map f xs)" "x \<in> set (take n xs)" "y \<in> set (drop n xs)"
  shows "f x \<le> f y"
proof -
  have "sorted (map f (take n xs) @ map f (drop n xs))"
    using assms(1) by (metis append_take_drop_id map_append)
  then show ?thesis using assms(2,3) by (auto simp: sorted_append)
qed

lemma set_take_drop_sort: "set xs = set (take n (sort_key f xs)) \<union> set (drop n (sort_key f xs))"
  by (metis append_take_drop_id set_append set_sort)

lemma card_drop_sort: "card (set (drop n (sort_key f xs))) \<le> length xs - n"
  using card_length [of "drop n (sort_key f xs)"] by simp

text \<open>Removing the keys of the first \<open>n\<close> entries in age order keeps the others.\<close>

lemma remove_oldest:
  assumes "distinct (map fst bs)"
  shows "set (filter (\<lambda>(k, b). k \<notin> set (oldest n bs)) bs)
      = set (drop n (sort_key (\<lambda>(k, b). last_seen b) bs))"
proof -
  let ?s = "sort_key (\<lambda>(k, b). last_seen b) bs"
  have d: "distinct (map fst ?s)"
    using assms by (metis distinct_map distinct_sort set_sort)
  have "set bs = set (take n ?s) \<union> set (drop n ?s)"
    by (rule set_take_drop_sort)
  moreover have "fst x \<noteq> fst y" if "x \<in> set (take n ?s)" "y \<in> set (drop n ?s)" for x y
  proof -
    have "distinct (map fst (take n ?s) @ map fst (drop n ?s))"
      using d by (metis append_take_drop_id map_append)
    then show ?thesis using that by auto
  qed
  ultimately have "k \<notin> set (oldest n bs) \<longleftrightarrow> (k, b) \<in> set (drop n ?s)" if "(k, b) \<in> set bs" for k b
    using that unfolding oldest_def by (metis (no_types, lifting) UnE fst_conv image_eqI image_iff list.set_map)
  then have "x \<in> set (filter (\<lambda>(k, b). k \<notin> set (oldest n bs)) bs) \<longleftrightarrow> x \<in> set bs \<and> x \<in> set (drop n ?s)" for x
    by (cases x) auto
  moreover have "set (drop n ?s) \<subseteq> set bs" using set_drop_subset [of n ?s] by simp
  ultimately show ?thesis by blast
qed

lemma evict_bindings_subset: "set (evict_bindings now bs) \<subseteq> set bs"
  by (auto simp: evict_bindings_def Let_def)

lemma distinct_evict_bindings: "distinct (map fst bs) \<Longrightarrow> distinct (map fst (evict_bindings now bs))"
  by (simp add: evict_bindings_def Let_def distinct_map_filter)

lemma length_evict_bindings:
  assumes "distinct (map fst bs)" "length bs \<le> BINDINGS_CAP"
  shows "length (evict_bindings now bs) < BINDINGS_CAP"
proof -
  let ?l = "filter (\<lambda>(k, b). sub_i64 now AFFINITY_TTL \<le> last_seen b) bs"
  have dl: "distinct (map fst ?l)" using assms(1) by (rule distinct_map_filter)
  have "length ?l \<le> BINDINGS_CAP" using assms(2) length_filter_le le_trans by blast
  have len: "length xs = card (set xs)" if "distinct (map fst xs)" for xs :: "(u64 \<times> binding) list"
    using that by (simp add: distinct_map distinct_card)
  let ?e = "filter (\<lambda>(k, b). k \<notin> set (oldest (BINDINGS_CAP div 2) ?l)) ?l"
  have "length ?e = card (set (drop (BINDINGS_CAP div 2) (sort_key (\<lambda>(k, b). last_seen b) ?l)))"
    using len [OF distinct_map_filter [OF dl]] remove_oldest [OF dl] by simp
  also have "\<dots> \<le> length ?l - BINDINGS_CAP div 2"
    by (rule card_drop_sort)
  also have "\<dots> < BINDINGS_CAP" using \<open>length ?l \<le> BINDINGS_CAP\<close> by (simp add: BINDINGS_CAP_def)
  finally show ?thesis by (auto simp: evict_bindings_def Let_def)
qed

text \<open>Eviction: bindings are dropped only when the table is full, and a dropped binding had
  expired or is no younger than any binding that is kept.\<close>

lemma eviction_is_oldest_first:
  assumes "distinct (map fst bs)" "(k, b) \<in> set bs" "(k, b) \<notin> set (evict_bindings now bs)"
  shows "BINDINGS_CAP \<le> length bs
    \<and> (last_seen b < sub_i64 now AFFINITY_TTL
       \<or> (\<forall>(k', b')\<in>set (evict_bindings now bs). last_seen b \<le> last_seen b'))"
proof -
  let ?l = "filter (\<lambda>(k, b). sub_i64 now AFFINITY_TTL \<le> last_seen b) bs"
  let ?s = "sort_key (\<lambda>(k, b). last_seen b) ?l"
  let ?n = "BINDINGS_CAP div 2"
  have full: "BINDINGS_CAP \<le> length bs" using assms(2,3) by (auto simp: evict_bindings_def split: if_splits)
  show ?thesis
  proof (cases "(k, b) \<in> set ?l")
    case False
    then show ?thesis using full assms(2) by auto
  next
    case True
    have dl: "distinct (map fst ?l)" using assms(1) by (rule distinct_map_filter)
    have "BINDINGS_CAP \<le> length ?l"
    proof (rule ccontr)
      assume "\<not> BINDINGS_CAP \<le> length ?l"
      then have "evict_bindings now bs = ?l" using full by (simp add: evict_bindings_def)
      then show False using True assms(3) by simp
    qed
    then have e: "set (evict_bindings now bs) = set (drop ?n ?s)"
      using full remove_oldest [OF dl, of ?n] by (simp add: evict_bindings_def Let_def)
    have "set ?l = set (take ?n ?s) \<union> set (drop ?n ?s)"
      by (rule set_take_drop_sort)
    then have take: "(k, b) \<in> set (take ?n ?s)" using True assms(3) e by auto
    have sorted: "sorted (map (\<lambda>(k, b). last_seen b) ?s)" by simp
    have "last_seen b \<le> last_seen b'" if "(k', b') \<in> set (drop ?n ?s)" for k' b'
      using sorted_take_drop [OF sorted take that] by simp
    then show ?thesis using full e by auto
  qed
qed

section \<open>The pool as a command system\<close>

text \<open>Every method that changes the pool, with the readings of the clock it makes.\<close>

datatype pool_cmd =
    Pick "string list" bool i64 i64
  | Route_Operator string "string \<Rightarrow> string" i64
  | Route_Affinity string bool "string \<Rightarrow> string" i64
  | Route u64 i64
  | Mark_Used string i64
  | Mark_Healthy string i64 i64
  | Record_Probe string i64 string i64
  | Import_Health "sub_health list"
  | Revive string
  | Kill string string i64
  | Request_Probe string i64
  | End_Stream string i64
  | Mark_Cooling string i64 i64
  | Cool string i64 i64
  | Mark_Done string
  | Record_Spend string i128
  | Set_Util string "rat option" "rat option" "string option" "i64 option" "i64 option" i64
  | Set_Quota string "quota_snapshot option" "quota_snapshot option"
  | Replace_Subs "sub list" i64
  | Set_Plan string string
  | Import_State "pool_state_row list" i64
  | Accept_Versions "(string \<times> i64 \<times> rat) list"
  | Merge_State "pool_state_row list"

fun exec_pool :: "pool_cfg \<Rightarrow> pool_cmd \<Rightarrow> inner \<Rightarrow> inner" where
  "exec_pool C (Pick ex full now now') g = snd (pick C ex full now now' g)"
| "exec_pool C (Route_Operator target idf now) g = snd (route_operator_target C target idf now g)"
| "exec_pool C (Route_Affinity home newly idf now) g = snd (route_affinity C home newly idf now g)"
| "exec_pool C (Route session now) g = snd (route C session now g)"
| "exec_pool C (Mark_Used e now) g = mark_used e now g"
| "exec_pool C (Mark_Healthy e now now') g = mark_healthy e now now' g"
| "exec_pool C (Record_Probe e http fp now) g = snd (record_probe e http fp now g)"
| "exec_pool C (Import_Health rows) g = import_health C rows g"
| "exec_pool C (Revive e) g = snd (revive e g)"
| "exec_pool C (Kill e reason now) g = snd (kill e reason now g)"
| "exec_pool C (Request_Probe e now) g = request_probe e now g"
| "exec_pool C (End_Stream e now) g = end_stream e now g"
| "exec_pool C (Mark_Cooling e secs now) g = mark_cooling e secs now g"
| "exec_pool C (Cool e secs now) g = cool e secs now g"
| "exec_pool C (Mark_Done e) g = mark_done e g"
| "exec_pool C (Record_Spend e nano) g = record_spend e nano g"
| "exec_pool C (Set_Util e u5 u7 st r5 r7 now) g = set_util C e u5 u7 st r5 r7 now g"
| "exec_pool C (Set_Quota e q5 q7) g = set_quota_snapshots e q5 q7 g"
| "exec_pool C (Replace_Subs new now) g = snd (replace_subs C new now g)"
| "exec_pool C (Set_Plan e plan) g = snd (set_plan e plan g)"
| "exec_pool C (Import_State rows now) g = snd (import_state C rows now g)"
| "exec_pool C (Accept_Versions acks) g = accept_persist_versions acks g"
| "exec_pool C (Merge_State rows) g = merge_persisted_state C rows g"

text \<open>The commands that may discard an expired cooldown, with the instant they judge it at.\<close>

fun expiry_clock :: "pool_cmd \<Rightarrow> i64 option" where
  "expiry_clock (Mark_Healthy e now now') = Some now"
| "expiry_clock (Replace_Subs new now) = Some now"
| "expiry_clock _ = None"

subsection \<open>Pointwise invariants of the live map\<close>

text \<open>How a command may change one subscription's slots and cooldown, and what it does to the other
  fields, which most commands leave to \<open>live_step\<close>.\<close>

definition live_step :: "live \<Rightarrow> live \<Rightarrow> bool" where
  "live_step l l' \<longleftrightarrow> (0 \<le> inflight l \<longrightarrow> 0 \<le> inflight l') \<and> cooling_until l \<le> cooling_until l'"

lemma live_step_refl [simp]: "live_step l l" by (simp add: live_step_def)

lemma reset_auth_frame [simp]:
  "inflight (reset_auth_healthy l) = inflight l" "cooling_until (reset_auth_healthy l) = cooling_until l"
  by (simp_all add: reset_auth_healthy_def)

lemma apply_probe_frame [simp]:
  "inflight (apply_probe http fp now l) = inflight l"
  "cooling_until (apply_probe http fp now l) = cooling_until l"
  by (simp_all add: apply_probe_def auth_failure_def Let_def)

lemma calib_frame [simp]:
  "inflight (calib5 smp l) = inflight l" "cooling_until (calib5 smp l) = cooling_until l"
  "inflight (calib7 smp l) = inflight l" "cooling_until (calib7 smp l) = cooling_until l"
  by (simp_all add: calib5_def calib7_def Let_def)

lemma live_step_acquire [simp]: "live_step l (acquire now l)"
  by (simp add: live_step_def acquire_def sat_add_i64_def clamp_i64_def)

lemma live_step_merge [simp]: "live_step l (merge_live C scale row l)"
  by (simp add: live_step_def merge_live_def Let_def split: prod.split)

lemma live_step_accept [simp]: "live_step l (accept_live v d l)"
  by (simp add: live_step_def accept_live_def)

lemma when_some_cases: "when_some x f s = s \<or> (\<exists>v. x = Some v \<and> when_some x f s = f v s)"
  by (cases x) (simp_all add: when_some_def)

lemma when_some_frame:
  "(\<And>v l. inflight (f v l) = inflight l) \<Longrightarrow> inflight (when_some x f l) = inflight l"
  "(\<And>v l. cooling_until (f v l) = cooling_until l) \<Longrightarrow> cooling_until (when_some x f l) = cooling_until l"
  by (cases x; simp add: when_some_def)+

locale live_invariant =
  fixes ok :: "pool_cmd \<Rightarrow> bool"
    and P :: "string \<Rightarrow> live \<Rightarrow> bool"
  assumes step: "P e l \<Longrightarrow> live_step l l' \<Longrightarrow> P e l'"
    and expired: "ok c \<Longrightarrow> expiry_clock c = Some n \<Longrightarrow> cooling_until l \<le> n
        \<Longrightarrow> 0 \<le> inflight l \<longrightarrow> 0 \<le> inflight l' \<Longrightarrow> P e l \<Longrightarrow> P e l'"
    and restored: "ok (Import_State rows n) \<Longrightarrow> r \<in> set rows \<Longrightarrow> ps_email r = e \<Longrightarrow> inflight l' = inflight l
        \<Longrightarrow> cooling_until l' = (if n < ps_cooling_until r then ps_cooling_until r else cooling_until l)
        \<Longrightarrow> P e l \<Longrightarrow> P e l'"
begin

definition holds :: "inner \<Rightarrow> bool" where
  "holds g \<longleftrightarrow> (\<forall>e. P e (live_at g e))"

lemma holds_upd: "holds g \<Longrightarrow> live_step (live_at g e) (f (live_at g e)) \<Longrightarrow> holds (upd_live e f g)"
  by (auto simp: holds_def intro: step)

lemma holds_existing: "holds g \<Longrightarrow> (\<And>l. live_step l (f l)) \<Longrightarrow> holds (upd_existing e f g)"
  by (simp add: upd_existing_def holds_upd)

lemma holds_same_live: "live_map g' = live_map g \<Longrightarrow> holds g' = holds g"
  by (simp add: holds_def live_at_def)

lemma holds_fields [simp]:
  "holds (g\<lparr>bindings := bs\<rparr>) = holds g" "holds (g\<lparr>route_pin := n\<rparr>) = holds g"
  "holds (g\<lparr>route_spill := n\<rparr>) = holds g" "holds (g\<lparr>route_place := n\<rparr>) = holds g"
  "holds (g\<lparr>route_rebind := n\<rparr>) = holds g" "holds (g\<lparr>subs := ss\<rparr>) = holds g"
  by (rule holds_same_live, simp)+

lemma holds_acquire: "holds g \<Longrightarrow> holds (upd_live e (acquire now) g)"
  by (simp add: holds_upd)

lemma holds_acquire_selected: "holds g \<Longrightarrow> holds (acquire_selected now r g)"
  by (cases r) (simp_all add: acquire_selected_def holds_acquire)

lemma holds_route: "holds g \<Longrightarrow> holds (snd (route C session now g))"
  by (simp add: route_def route_new_def route_home_def Let_def holds_acquire holds_acquire_selected
      split: option.split)

lemma holds_route_affinity: "holds g \<Longrightarrow> holds (snd (route_affinity C home newly idf now g))"
  by (simp add: route_affinity_def place_elsewhere_def stay_home_def Let_def holds_acquire
      split: option.split prod.split)

lemma holds_route_operator: "holds g \<Longrightarrow> holds (snd (route_operator_target C target idf now g))"
  by (simp add: route_operator_target_def Let_def holds_acquire split: list.split)

lemma holds_set_util: "holds g \<Longrightarrow> holds (set_util C e u5 u7 st r5 r7 now g)"
  unfolding set_util_def Let_def
  by (rule holds_upd) (simp_all add: live_step_def when_some_frame)

lemma holds_set_quota: "holds g \<Longrightarrow> holds (set_quota_snapshots e q5 q7 g)"
  by (simp add: set_quota_snapshots_def holds_upd live_step_def when_some_frame)

lemma holds_import_health: "holds g \<Longrightarrow> holds (import_health C rows g)"
  unfolding import_health_def
  by (rule fold_invariant [where Q = "\<lambda>_. True"])
    (auto simp: import_health_row_def Let_def holds_upd live_step_def)

lemma holds_accept: "holds g \<Longrightarrow> holds (accept_persist_versions acks g)"
  unfolding accept_persist_versions_def
  by (rule fold_invariant [where Q = "\<lambda>_. True"]) (auto simp: holds_existing)

lemma holds_merge: "holds g \<Longrightarrow> holds (merge_persisted_state C rows g)"
  unfolding merge_persisted_state_def
  by (rule fold_invariant [where Q = "\<lambda>_. True"]) (auto simp: holds_upd)

lemma holds_import_state:
  assumes "ok (Import_State rows now)" "holds g"
  shows "holds (snd (import_state C rows now g))"
  unfolding import_state_def
proof (rule fold_invariant [where Q = "\<lambda>r. r \<in> set rows"])
  show "holds (snd (0 :: nat, g))" using assms(2) by simp
  fix r and acc :: "nat \<times> inner"
  assume r: "r \<in> set rows" and acc: "holds (snd acc)"
  have same: "inflight (snd (import_live C r scale now l)) = inflight l"
    "cooling_until (snd (import_live C r scale now l))
      = (if now < ps_cooling_until r then ps_cooling_until r else cooling_until l)" for scale l
    by (simp_all add: import_live_def Let_def)
  obtain n g where acc': "acc = (n, g)" by (cases acc)
  let ?l = "snd (import_live C r (scale_lookup (ps_email r) g) now (live_at g (ps_email r)))"
  have "P (ps_email r) (live_at g (ps_email r))" using acc acc' by (simp add: holds_def)
  then have "P (ps_email r) ?l" by (rule restored [OF assms(1) r refl same])
  then have "holds (upd_live (ps_email r) (\<lambda>_. ?l) g)" using acc acc' by (simp add: holds_def)
  then show "holds (snd (import_state_row C now r acc))"
    using acc acc' by (simp add: import_state_row_def Let_def split_beta)
qed simp_all

lemma holds_mark_healthy:
  assumes "ok (Mark_Healthy e now now')" "holds g"
  shows "holds (mark_healthy e now now' g)"
proof (cases "cooling_until (live_at g e) \<le> now")
  case True
  then show ?thesis using assms(2) expired [OF assms(1)]
    by (auto simp: mark_healthy_def Let_def holds_def)
next
  case False
  then show ?thesis using assms(2) by (simp add: mark_healthy_def Let_def holds_upd live_step_def)
qed

lemma holds_replace_subs:
  assumes "ok (Replace_Subs new now)" "holds g"
  shows "holds (snd (replace_subs C new now g))"
proof -
  let ?g1 = "g\<lparr>live_map := (\<lambda>k. case live_map g k of None \<Rightarrow> None
       | Some v \<Rightarrow> if k \<in> sub_email ` set new \<or> now < cooling_until v then Some v else None)\<rparr>"
  have "P e (live_at ?g1 e)" for e
  proof (cases "live_map g e")
    case None
    then show ?thesis using assms(2) by (simp add: holds_def live_at_def) (metis None option.case(1))
  next
    case (Some v)
    then have v: "P e v" using assms(2) by (auto simp: holds_def live_at_def split: option.splits)
    show ?thesis
    proof (cases "e \<in> sub_email ` set new \<or> now < cooling_until v")
      case True
      then show ?thesis using Some v by (simp add: live_at_def)
    next
      case False
      then have c: "cooling_until v \<le> now" by simp
      have "P e live_default"
        by (rule expired [OF assms(1) _ c _ v]) (simp_all add: live_default_def)
      then show ?thesis using Some False by (simp add: live_at_def)
    qed
  qed
  then have "holds ?g1" by (simp add: holds_def)
  then have "holds (fold (check_token C) new ?g1)"
    by (rule fold_invariant [where Q = "\<lambda>_. True", rotated])
      (simp_all add: check_token_def holds_existing live_step_def Let_def)
  then show ?thesis by (simp add: replace_subs_def Let_def)
qed

lemma holds_local:
  assumes "holds g"
  shows "holds (mark_used e now g)" "holds (snd (record_probe e http fp now g))"
    "holds (snd (revive e g))" "holds (snd (kill e reason now g))" "holds (request_probe e now g)"
    "holds (end_stream e now g)" "holds (mark_cooling e secs now g)" "holds (cool e secs now g)"
    "holds (mark_done e g)" "holds (record_spend e nano g)" "holds (snd (set_plan e plan g))"
    "holds (snd (pick C ex full now now' g))"
  using assms
  by (simp_all add: mark_used_def record_probe_def revive_def kill_def request_probe_def end_stream_def
      mark_cooling_def cool_def mark_done_def record_spend_def set_plan_def pick_def Let_def
      holds_upd holds_existing holds_acquire holds_acquire_selected live_step_def split: option.split)

sublocale commands: guarded_system "exec_pool C" ok holds
proof
  fix c g
  assume "ok c" "holds g"
  then show "holds (exec_pool C c g)"
    by (cases c) (simp_all add: holds_local holds_route holds_route_affinity holds_route_operator
        holds_set_util holds_set_quota holds_import_health holds_accept holds_merge
        holds_import_state holds_mark_healthy holds_replace_subs)
qed

end

interpretation slots: live_invariant "\<lambda>_. True" "\<lambda>_ l. 0 \<le> inflight l"
  by unfold_locales (simp_all add: live_step_def)

text \<open>The commands of a period that ends at \<open>t\<close>: none judges a cooldown expired later than \<open>t\<close>. The
  rows a command restores for a subscription, as far as they replace its cooldown.\<close>

definition until :: "i64 \<Rightarrow> pool_cmd \<Rightarrow> bool" where
  "until t c \<longleftrightarrow> (case expiry_clock c of None \<Rightarrow> True | Some n \<Rightarrow> n \<le> t)"

fun restored_cooldowns :: "string \<Rightarrow> pool_cmd \<Rightarrow> i64 list" where
  "restored_cooldowns e (Import_State rows now) =
     filter (\<lambda>k. now < k) (map ps_cooling_until (filter (\<lambda>r. ps_email r = e) rows))"
| "restored_cooldowns e _ = []"

interpretation cooldown: live_invariant "\<lambda>c. until t c \<and> (\<forall>k'\<in>set (restored_cooldowns e c). k \<le> k')"
  "\<lambda>e' l. e' = e \<and> t < k \<longrightarrow> k \<le> cooling_until l"
  for t k e
  by unfold_locales (auto simp: live_step_def until_def)

text \<open>C32: A cooldown is never shortened while it lasts, except by a start-up import. Whatever the pool
  does up to an instant \<open>t\<close>, a subscription that cools until \<open>k\<close> or later, with \<open>k\<close> after \<open>t\<close>,
  still cools until \<open>k\<close> at least, also when it left the roster in between, provided that no imported
  row of that subscription puts an end of the cooldown that is still ahead before \<open>k\<close>: an import
  replaces the cooldown by the imported one.\<close>

theorem cooldown_survives:
  assumes "list_all (until t) cs" "t < k" "k \<le> cooling_until (live_at g e)"
    and "\<forall>c\<in>set cs. \<forall>k'\<in>set (restored_cooldowns e c). k \<le> k'"
  shows "k \<le> cooling_until (live_at (fold (exec_pool C) cs g) e)"
proof -
  let ?P = "\<lambda>e' l. e' = e \<and> t < k \<longrightarrow> k \<le> cooling_until l"
  have "live_invariant.holds ?P g" using assms(3) by (simp add: cooldown.holds_def)
  moreover have "list_all (\<lambda>c. until t c \<and> (\<forall>k'\<in>set (restored_cooldowns e c). k \<le> k')) cs"
    using assms(1,4) by (simp add: list_all_iff)
  ultimately have "live_invariant.holds ?P (fold (exec_pool C) cs g)" using cooldown.commands.ok_fold by blast
  then show ?thesis using assms(2) unfolding cooldown.holds_def by blast
qed

subsection \<open>The invariant of a running pool\<close>

definition table_ok :: "inner \<Rightarrow> bool" where
  "table_ok g \<longleftrightarrow> distinct (map fst (bindings g)) \<and> length (bindings g) \<le> BINDINGS_CAP"

lemma table_ok_insert:
  assumes "table_ok g" "bindings g' = insert_binding k b (evict_bindings now (bindings g))"
  shows "table_ok g'"
proof -
  have "length (bindings g') \<le> Suc (length (evict_bindings now (bindings g)))"
    unfolding assms(2) by (rule length_insert_binding)
  also have "\<dots> \<le> BINDINGS_CAP"
    using length_evict_bindings assms(1) by (auto simp: table_ok_def Suc_le_eq)
  finally show ?thesis
    using assms by (simp add: table_ok_def distinct_insert_binding distinct_evict_bindings)
qed

lemma acquire_selected_bindings [simp]: "bindings (acquire_selected now r g) = bindings g"
  by (cases r) (simp_all add: acquire_selected_def)

lemma table_ok_touch:
  assumes "table_ok g" "bindings g' = touch_binding session now (bindings g)"
  shows "table_ok g'"
proof -
  have "map fst (bindings g') = map fst (bindings g)" by (simp only: assms(2) map_fst_touch_binding)
  moreover from this have "length (bindings g') = length (bindings g)" by (metis length_map)
  ultimately show ?thesis using assms(1) by (simp add: table_ok_def)
qed

lemma table_ok_route:
  assumes "table_ok g"
  shows "table_ok (snd (route C session now g))"
proof -
  have new: "table_ok (snd (route_new C session now forced g))" for forced
    using assms
    by (auto simp: route_new_def Let_def split: option.split intro!: table_ok_insert [OF assms])
  have home: "table_ok (snd (route_home C session h now g))" for h
    using assms by (auto simp: route_home_def Let_def intro: table_ok_touch)
  show ?thesis by (simp add: route_split new home split: option.split)
qed

lemma import_health_bindings: "bindings (import_health C rows g) = bindings g"
  unfolding import_health_def
  by (rule fold_invariant [where Q = "\<lambda>_. True"]) (auto simp: import_health_row_def Let_def)

lemma accept_bindings: "bindings (accept_persist_versions acks g) = bindings g"
  unfolding accept_persist_versions_def
  by (rule fold_invariant [where Q = "\<lambda>_. True"]) auto

lemma merge_bindings: "bindings (merge_persisted_state C rows g) = bindings g"
  unfolding merge_persisted_state_def by (rule fold_invariant [where Q = "\<lambda>_. True"]) auto

lemma import_state_bindings: "bindings (snd (import_state C rows now g)) = bindings g"
  unfolding import_state_def
  by (rule fold_invariant [where Q = "\<lambda>_. True"])
    (auto simp: import_state_row_def Let_def split: prod.splits)

lemma replace_subs_bindings: "bindings (snd (replace_subs C new now g)) = bindings g"
proof -
  have "bindings (fold (check_token C) new g1) = bindings g1" for g1
    by (rule fold_invariant [where Q = "\<lambda>_. True"]) (auto simp: check_token_def)
  then show ?thesis by (simp add: replace_subs_def Let_def)
qed

lemma affinity_bindings: "bindings (snd (route_affinity C home newly idf now g)) = bindings g"
  by (simp add: route_affinity_def place_elsewhere_def stay_home_def Let_def split: option.split prod.split)

lemma operator_bindings: "bindings (snd (route_operator_target C target idf now g)) = bindings g"
  by (simp add: route_operator_target_def Let_def split: list.split)

lemmas local_defs = mark_used_def record_probe_def revive_def kill_def request_probe_def end_stream_def
  mark_cooling_def cool_def mark_done_def record_spend_def set_plan_def pick_def mark_healthy_def
  set_util_def set_quota_snapshots_def

lemma local_bindings:
  "bindings (mark_used e now g) = bindings g" "bindings (snd (record_probe e http fp now g)) = bindings g"
  "bindings (snd (revive e g)) = bindings g" "bindings (snd (kill e reason now g)) = bindings g"
  "bindings (request_probe e now g) = bindings g" "bindings (end_stream e now g) = bindings g"
  "bindings (mark_cooling e secs now g) = bindings g" "bindings (cool e secs now g) = bindings g"
  "bindings (mark_done e g) = bindings g" "bindings (record_spend e nano g) = bindings g"
  "bindings (snd (set_plan e plan g)) = bindings g" "bindings (snd (pick C ex full now now' g)) = bindings g"
  "bindings (mark_healthy e now now' g) = bindings g"
  "bindings (set_util C e u5 u7 st r5 r7 now g) = bindings g"
  "bindings (set_quota_snapshots e q5 q7 g) = bindings g"
  by (simp_all add: local_defs Let_def split: option.split)

interpretation table: command_system "exec_pool C" table_ok "pool_new ss" for C ss
proof
  show "table_ok (pool_new ss)" by (simp add: table_ok_def pool_new_def)
  fix g c
  assume "table_ok g"
  then show "table_ok (exec_pool C c g)"
    by (cases c) (simp_all add: table_ok_route, simp_all add: table_ok_def local_bindings
        import_health_bindings accept_bindings merge_bindings import_state_bindings
        replace_subs_bindings affinity_bindings operator_bindings)
qed

text \<open>C33: The invariant of a running pool, after any sequence of method calls: no in-flight counter
  is negative, no session has two bindings, and the binding table never exceeds its capacity.\<close>

theorem pool_invariant:
  "(\<forall>e. 0 \<le> inflight (live_at (fold (exec_pool C) cs (pool_new ss)) e))
   \<and> distinct (map fst (bindings (fold (exec_pool C) cs (pool_new ss))))
   \<and> length (bindings (fold (exec_pool C) cs (pool_new ss))) \<le> BINDINGS_CAP"
proof -
  have "slots.holds (pool_new ss)" by (simp add: slots.holds_def live_at_def pool_new_def live_default_def)
  then have "slots.holds (fold (exec_pool C) cs (pool_new ss))"
    by (intro slots.commands.ok_fold) (simp add: list_all_iff)
  moreover have "table_ok (fold (exec_pool C) cs (pool_new ss))" by (rule table.inv_run)
  ultimately show ?thesis by (simp add: slots.holds_def table_ok_def)
qed


section \<open>Examples\<close>

text \<open>A fleet of two fresh subscriptions, and the same fleet with a session whose home cools
  briefly.\<close>

definition demo_sub :: "string \<Rightarrow> sub" where
  "demo_sub e = \<lparr>sub_email = e, sub_token = ''t'', sub_proxy = [], sub_fleet = ''prod'', sub_plan = ''max20''\<rparr>"

definition demo_cfg :: pool_cfg where
  "demo_cfg = pool_new_cfg \<lparr>base5h = 1 / 20, base7d = 1 / 20, jitter = 0\<rparr> 50 1500 6 (\<lambda>_. 0) (\<lambda>t. t)"

definition demo_fleet :: inner where
  "demo_fleet = pool_new [demo_sub ''a'', demo_sub ''b'']"

lemma demo_pick: "fst (pick demo_cfg [] False 100 100 demo_fleet) = Some (demo_sub ''a'')"
  by code_simp

lemma demo_place: "place_best demo_cfg demo_fleet [] 100 (pc_reserve demo_cfg) = Some (demo_sub ''b'')"
  by code_simp

lemma demo_route: "fst (route demo_cfg 7 100 demo_fleet) = Some (demo_sub ''b'')"
  using demo_place by (simp add: route_def route_new_def Let_def demo_fleet_def pool_new_def)

definition demo_bound :: inner where
  "demo_bound = mark_cooling ''b'' 5 108 (demo_fleet\<lparr>bindings := [(7, \<lparr>bind_email = ''b'', last_seen = 100\<rparr>)]\<rparr>)"

lemma demo_kept: "kept_home demo_cfg 7 110 demo_bound = Some ''b''"
  by code_simp

lemma demo_route2: "fst (route demo_cfg 7 110 demo_bound) = Some (demo_sub ''a'')"
  unfolding route_split demo_kept option.case by code_simp

theorem route_contract_witness:
  "select_candidate demo_bound [''b''] 110 False (demo_sub ''a'')
   \<and> map_of (bindings (snd (route demo_cfg 7 110 demo_bound))) 7
       = Some \<lparr>bind_email = ''b'', last_seen = 110\<rparr>
   \<and> slot_taken 110 (demo_sub ''a'') demo_bound (snd (route demo_cfg 7 110 demo_bound))"
proof -
  have cand: "\<exists>t\<in>set (subs demo_bound). select_candidate demo_bound [''b''] 110 False t"
    by code_simp
  have busy: "home_busy demo_cfg ''b'' 110 demo_bound" by code_simp
  show ?thesis
    using route_contract [of demo_cfg 7 110 demo_bound "Some (demo_sub ''a'')" "snd (route demo_cfg 7 110 demo_bound)"]
      demo_route2 demo_kept cand busy
    by (simp add: prod_eq_iff)
qed

lemma demo_aff: "fst (route_affinity demo_cfg ''a'' False (\<lambda>e. e) 110 (mark_cooling ''a'' 5 108 demo_fleet)) = Selected (demo_sub ''b'') Spilled"
  by code_simp

definition demo_state_row :: "string \<Rightarrow> i64 \<Rightarrow> pool_state_row" where
  "demo_state_row e k = \<lparr>ps_email = e, ps_cooling_until = k, ps_cap5h_usd = 0, ps_cap7d_usd = 0,
     ps_spent_total_usd = 0, ps_spent_delta_usd = 0, ps_util5h = 0, ps_util7d = 0, ps_reset5h = 0,
     ps_reset7d = 0, ps_calib_n = 0, ps_version = 0\<rparr>"

theorem cooldown_survives_witness:
  "113 \<le> cooling_until (live_at (fold (exec_pool demo_cfg)
       [Import_State [demo_state_row ''a'' 120, demo_state_row ''b'' 111] 109, Replace_Subs [] 110,
        Mark_Healthy ''a'' 111 111, Replace_Subs [demo_sub ''a''] 112]
       (mark_cooling ''a'' 5 108 demo_fleet)) ''a'')"
  by (rule cooldown_survives [where t = 112])
    (simp_all add: until_def demo_state_row_def mark_cooling_def demo_fleet_def pool_new_def live_at_def live_default_def
      sat_add_i64_def clamp_i64_def)

end
