(* ===== verification/Pool_Accounting.thy ===== *)
theory Pool_Accounting
  imports Pool_Properties
begin

text \<open>
  Properties of what the pool knows about each subscription: the authentication verdict, the
  calibrated capacities, the spend that is still to be persisted, the merge with persisted rows and
  the capacity report.
\<close>

section \<open>Machine arithmetic in range\<close>

lemma add_i64_exact [exact]: "in_i64 (a + b) \<Longrightarrow> add_i64 a b = a + b"
  by (simp add: add_i64_def wrap_i64_exact)

lemma sub_i64_exact [exact]: "in_i64 (a - b) \<Longrightarrow> sub_i64 a b = a - b"
  by (simp add: sub_i64_def wrap_i64_exact)

section \<open>Authentication verdicts\<close>

text \<open>The abstract view of the probes of one subscription: the token under observation and the
  instants of its authentication failures since the last success. The verdict is a function of these
  instants alone.\<close>

type_synonym probe = "i64 \<times> string \<times> i64"

definition series_step :: "probe \<Rightarrow> string \<times> i64 list \<Rightarrow> string \<times> i64 list" where
  "series_step = (\<lambda>(http, fp, now) (tok, ts).
     let tok' = (if fp = [] then tok else fp); ts' = (if tok' = tok then ts else [])
     in (tok', if http = 401 \<or> http = 403 then ts' @ [now]
               else if 200 \<le> http \<and> http < 300 then [] else ts'))"

definition corroborates :: "i64 list \<Rightarrow> i64 \<Rightarrow> bool" where
  "corroborates ts t \<longleftrightarrow> DEAD_MIN_SECS \<le> t - hd ts"

definition verdict :: "i64 list \<Rightarrow> auth_state_t" where
  "verdict ts = (if ts = [] then Healthy else if list_ex (corroborates ts) ts then Dead else Suspect)"

definition died_at :: "i64 list \<Rightarrow> i64" where
  "died_at ts = (case List.find (corroborates ts) ts of None \<Rightarrow> 0 | Some t \<Rightarrow> t)"

definition run_probes :: "probe list \<Rightarrow> live \<Rightarrow> live" where
  "run_probes ps l = fold (\<lambda>(http, fp, now). apply_probe http fp now) ps l"

text \<open>The live fields that represent a series.\<close>

definition represents :: "live \<Rightarrow> string \<times> i64 list \<Rightarrow> bool" where
  "represents l s \<longleftrightarrow> (case s of (tok, ts) \<Rightarrow>
     auth_token_fp l = tok \<and> auth_state l = verdict ts \<and> auth_fail_streak l = int (length ts)
     \<and> first_auth_fail_ts l = (if ts = [] then 0 else hd ts)
     \<and> last_auth_fail_ts l = (if ts = [] then 0 else last ts)
     \<and> dead_since_ts l = died_at ts)"

definition probe_time_ok :: "probe \<Rightarrow> bool" where
  "probe_time_ok = (\<lambda>(http, fp, now). 0 < now \<and> now < 2 ^ 62)"

lemma corroborates_hd [simp]: "\<not> corroborates ts (hd ts)"
  by (simp add: corroborates_def DEAD_MIN_SECS_def)

lemma corroborates_snoc: "ts \<noteq> [] \<Longrightarrow> corroborates (ts @ [t]) = corroborates ts"
  by (simp add: corroborates_def fun_eq_iff)

lemma verdict_snoc:
  "ts \<noteq> [] \<Longrightarrow> verdict (ts @ [t]) = (if corroborates ts t then Dead else verdict ts)"
  by (auto simp: verdict_def corroborates_snoc)

lemma died_at_snoc:
  "ts \<noteq> [] \<Longrightarrow> died_at (ts @ [t]) =
     (if list_ex (corroborates ts) ts then died_at ts else if corroborates ts t then t else 0)"
  by (auto simp: died_at_def corroborates_snoc find_append find_None_iff list_ex_iff
      split: option.splits dest: find_Some_mem)

lemma died_at_zero:
  assumes "\<forall>t\<in>set ts. 0 < t"
  shows "died_at ts = 0 \<longleftrightarrow> \<not> list_ex (corroborates ts) ts"
proof (cases "List.find (corroborates ts) ts")
  case None
  then have "\<not> list_ex (corroborates ts) ts" by (simp add: find_None_iff list_ex_iff)
  then show ?thesis using None by (simp add: died_at_def)
next
  case (Some t)
  from find_Some_mem [OF this] have "t \<in> set ts" "corroborates ts t" by simp_all
  then show ?thesis using assms Some by (auto simp: died_at_def list_ex_iff)
qed

lemma represents_reset: "represents (reset_auth_healthy l) (auth_token_fp l, [])"
  by (simp add: represents_def reset_auth_healthy_def verdict_def died_at_def)

lemma represents_failure:
  assumes r: "represents l (tok, ts)" and pos: "\<forall>t\<in>set ts. 0 < t \<and> t < 2 ^ 62"
    and now: "0 < now" "now < 2 ^ 62" and len: "int (length ts) < 2 ^ 62"
  shows "represents (auth_failure http now l) (tok, ts @ [now])"
proof -
  have streak: "add_i64 (auth_fail_streak l) 1 = int (length ts) + 1"
    using r len by (simp add: represents_def exact in_i64_def)
  show ?thesis
  proof (cases "ts = []")
    case True
    have "sub_i64 now now = 0" by (simp add: exact in_i64_def)
    then show ?thesis using True r streak now
      by (auto simp: represents_def auth_failure_def Let_def verdict_def died_at_def DEAD_STREAK_def
          DEAD_MIN_SECS_def corroborates_def)
  next
    case False
    then have h: "0 < hd ts" "hd ts < 2 ^ 62" using pos by auto
    then have sub: "sub_i64 now (hd ts) = now - hd ts"
      using now by (intro exact) (simp add: in_i64_def)
    have len1: "2 \<le> int (length ts) + 1" using False by (cases ts) auto
    have nz: "died_at ts = 0 \<longleftrightarrow> \<not> list_ex (corroborates ts) ts"
      using pos by (intro died_at_zero) auto
    have dead: "verdict ts \<noteq> Healthy" "verdict ts = Dead \<longleftrightarrow> list_ex (corroborates ts) ts"
      using False by (auto simp: verdict_def)
    show ?thesis using False r streak h sub len1 nz dead
      by (auto simp: represents_def auth_failure_def Let_def verdict_snoc died_at_snoc
          DEAD_STREAK_def corroborates_def)
  qed
qed

lemma represents_frame:
  assumes "represents l s" "auth_token_fp l' = auth_token_fp l" "auth_state l' = auth_state l"
    "auth_fail_streak l' = auth_fail_streak l" "first_auth_fail_ts l' = first_auth_fail_ts l"
    "last_auth_fail_ts l' = last_auth_fail_ts l" "dead_since_ts l' = dead_since_ts l"
  shows "represents l' s"
  using assms by (simp add: represents_def split: prod.splits)

lemma represents_probe:
  assumes "represents l s" "\<forall>t\<in>set (snd s). 0 < t \<and> t < 2 ^ 62" "int (length (snd s)) < 2 ^ 62"
    and "probe_time_ok (http, fp, now)"
  shows "represents (apply_probe http fp now l) (series_step (http, fp, now) s)"
proof -
  obtain tok ts where s: "s = (tok, ts)" by (cases s)
  define tok' where "tok' = (if fp = [] then tok else fp)"
  define ts' where "ts' = (if tok' = tok then ts else [])"
  define l2 where "l2 = (if fp \<noteq> [] \<and> auth_token_fp l \<noteq> fp
      then reset_auth_healthy (l\<lparr>polled_ts := now, auth_token_fp := fp\<rparr>) else l\<lparr>polled_ts := now\<rparr>)"
  have tok: "auth_token_fp l = tok" using assms(1) s by (simp add: represents_def)
  have l2: "represents l2 (tok', ts')"
  proof (cases "fp \<noteq> [] \<and> tok \<noteq> fp")
    case True
    then show ?thesis using tok represents_reset [of "l\<lparr>polled_ts := now, auth_token_fp := fp\<rparr>"]
      by (auto simp: l2_def tok'_def ts'_def)
  next
    case False
    then have "tok' = tok" "ts' = ts" by (auto simp: tok'_def ts'_def)
    then show ?thesis using False assms(1) s tok
      by (auto simp: l2_def intro: represents_frame)
  qed
  have fail: "represents (auth_failure http now l2) (tok', ts' @ [now])"
    using assms(2-4) s by (intro represents_failure [OF l2]) (auto simp: ts'_def probe_time_ok_def)
  have reset: "represents (reset_auth_healthy l2) (tok', [])"
    using represents_reset [of l2] l2 by (simp add: represents_def)
  have "apply_probe http fp now l = (if http = 401 \<or> http = 403 then auth_failure http now l2
         else if 200 \<le> http \<and> http < 300 then reset_auth_healthy l2 else l2)"
    by (simp add: apply_probe_def l2_def Let_def)
  moreover have "series_step (http, fp, now) s = (tok', if http = 401 \<or> http = 403 then ts' @ [now]
         else if 200 \<le> http \<and> http < 300 then [] else ts')"
    by (simp add: series_step_def s tok'_def ts'_def Let_def)
  ultimately show ?thesis using l2 fail reset by simp
qed

lemma series_bounds:
  assumes "list_all probe_time_ok ps"
  shows "(\<forall>t\<in>set (snd (fold series_step ps s)). 0 < t \<and> t < 2 ^ 62 \<or> t \<in> set (snd s))
    \<and> length (snd (fold series_step ps s)) \<le> length (snd s) + length ps"
  using assms
proof (induction ps arbitrary: s)
  case (Cons p ps)
  obtain http fp now tok ts where p: "p = (http, fp, now)" and s: "s = (tok, ts)"
    by (cases p, cases s) auto
  have "set (snd (series_step p s)) \<subseteq> insert now (set (snd s))" "length (snd (series_step p s)) \<le> Suc (length (snd s))"
    by (auto simp: series_step_def p s Let_def)
  moreover have "0 < now \<and> now < 2 ^ 62" using Cons.prems p by (simp add: probe_time_ok_def)
  ultimately show ?case using Cons.IH [of "series_step p s"] Cons.prems by fastforce
qed simp

text \<open>C10: The authentication machine refines its abstract view: after any sequence of probes the
  recorded verdict, streak and instants are exactly those of the failures of the current token since
  its last success. A subscription is dead precisely when one of these failures came at least five
  minutes after the first, and is revived by one success or a new token.\<close>

theorem probe_verdict_refines_series:
  assumes "list_all probe_time_ok ps" "int (length ps) < 2 ^ 62"
  shows "represents (run_probes ps live_default) (fold series_step ps ([], []))"
  using assms
proof (induction ps rule: rev_induct)
  case Nil
  then show ?case by (simp add: run_probes_def represents_def live_default_def verdict_def died_at_def)
next
  case (snoc p ps)
  obtain http fp now where p: "p = (http, fp, now)" by (cases p)
  let ?s = "fold series_step ps ([], [])"
  have "\<forall>t\<in>set (snd ?s). 0 < t \<and> t < 2 ^ 62" "length (snd ?s) \<le> length ps"
    using series_bounds [of ps "([], [])"] snoc.prems by auto
  then have "represents (apply_probe http fp now (run_probes ps live_default)) (series_step (http, fp, now) ?s)"
    using snoc p by (intro represents_probe) auto
  then show ?case using p by (simp add: run_probes_def)
qed

theorem probe_verdict_refines_series_witness:
  "represents (run_probes [(401, ''f'', 100), (500, ''f'', 200), (403, ''f'', 400)] live_default)
     (''f'', [100, 400])
   \<and> verdict [100, 400] = Dead"
  using probe_verdict_refines_series [of "[(401, ''f'', 100), (500, ''f'', 200), (403, ''f'', 400)]"]
  by (simp add: probe_time_ok_def series_step_def verdict_def corroborates_def DEAD_MIN_SECS_def)


section \<open>Calibration\<close>

definition calib_baseline :: "calib_sample \<Rightarrow> calib_state \<Rightarrow> rat" where
  "calib_baseline smp w =
     (if plausible_cap (cw_cap w) (cs_prior_cap smp) then cw_cap w else cs_prior_cap smp)"

lemma plausible_convex:
  assumes "plausible_cap a p" "plausible_cap b p"
  shows "plausible_cap (a * (1 - CALIB_ALPHA) + b * CALIB_ALPHA) p"
  using assms
  by (auto simp: plausible_cap_def CALIB_ALPHA_def CALIB_MIN_PRIOR_FACTOR_def CALIB_MAX_PRIOR_FACTOR_def)

lemma clamp_plausible:
  assumes "plausible_cap b p" "plausible_cap obs p"
  shows "plausible_cap (clamp_q (b / CALIB_MAX_JUMP) (b * CALIB_MAX_JUMP) obs) p"
  using assms
  by (auto simp: plausible_cap_def clamp_q_def CALIB_MAX_JUMP_def CALIB_MIN_PRIOR_FACTOR_def
      CALIB_MAX_PRIOR_FACTOR_def)

lemma clamp_bounds: "0 < b \<Longrightarrow> b / 4 \<le> clamp_q (b / 4) (b * 4) x \<and> clamp_q (b / 4) (b * 4) x \<le> b * 4"
  by (auto simp: clamp_q_def)

text \<open>A calibration step changes the capacity only on a safe sample with positive spend, always
  to a value within a quarter and four times the plan's prior, and it moves it from the trusted
  baseline by at most the factors 0.775 and 1.9.\<close>

lemma calibration_stays_plausible:
  assumes "0 < cs_prior_cap smp" "cw_cap (calib_window smp w) \<noteq> cw_cap w"
  shows "cs_safe smp \<and> cw_spent_anchor w < cs_spent_total smp
    \<and> plausible_cap (cw_cap (calib_window smp w)) (cs_prior_cap smp)
    \<and> calib_baseline smp w * (775 / 1000) \<le> cw_cap (calib_window smp w)
    \<and> cw_cap (calib_window smp w) \<le> calib_baseline smp w * (19 / 10)"
proof -
  let ?b = "calib_baseline smp w"
  let ?obs = "(cs_spent_total smp - cw_spent_anchor w) / (cs_util smp - cw_anchor w)"
  let ?c = "clamp_q (?b / CALIB_MAX_JUMP) (?b * CALIB_MAX_JUMP) ?obs"
  have b: "plausible_cap ?b (cs_prior_cap smp)"
    using assms(1) by (auto simp: calib_baseline_def plausible_cap_def CALIB_MIN_PRIOR_FACTOR_def
        CALIB_MAX_PRIOR_FACTOR_def)
  then have pos: "0 < ?b" using assms(1) by (auto simp: plausible_cap_def CALIB_MIN_PRIOR_FACTOR_def)
  have cw: "cw_cap (calib_window smp w) = ?b * (1 - CALIB_ALPHA) + ?c * CALIB_ALPHA"
    and safe: "cs_safe smp" "cw_spent_anchor w < cs_spent_total smp"
    and obs: "plausible_cap ?obs (cs_prior_cap smp)"
    using assms(2) unfolding calib_window_def calib_baseline_def Let_def by (auto split: if_splits)
  have "plausible_cap ?c (cs_prior_cap smp)" by (rule clamp_plausible [OF b obs])
  from plausible_convex [OF b this] have "plausible_cap (cw_cap (calib_window smp w)) (cs_prior_cap smp)"
    by (simp add: cw)
  moreover have "?b / 4 \<le> ?c" "?c \<le> ?b * 4"
    using clamp_bounds [OF pos, of ?obs] by (simp_all add: CALIB_MAX_JUMP_def)
  then have "?b * (775 / 1000) \<le> cw_cap (calib_window smp w)" "cw_cap (calib_window smp w) \<le> ?b * (19 / 10)"
    unfolding cw CALIB_ALPHA_def by (simp_all add: field_simps)
  ultimately show ?thesis using safe by simp
qed

section \<open>Persistence\<close>

lemma record_spend_fold:
  "spent_total_usd (live_at (fold (record_spend e) ns g) e)
     = spent_total_usd (live_at g e) + of_int (sum_list ns) / 10 ^ 9"
  "unpersisted_spend_usd (live_at (fold (record_spend e) ns g) e)
     = unpersisted_spend_usd (live_at g e) + of_int (sum_list ns) / 10 ^ 9"
  by (induction ns arbitrary: g) (simp_all add: record_spend_def add_divide_distrib)

lemma live_at_existing:
  "live_map g e \<noteq> None \<Longrightarrow> live_at (upd_existing e f g) e = f (live_at g e)"
  by (auto simp: upd_existing_def)

text \<open>No spend is lost or counted twice between an export and its acknowledgement: whatever is
  recorded while the write is in flight is exactly what remains to be persisted afterwards, and the
  total is the exported total plus that tail.\<close>

lemma spend_acknowledgement_keeps_tail:
  assumes "export_state g e = Some row" "0 \<le> unpersisted_spend_usd (live_at g e)"
    and "list_all (\<lambda>n. 0 \<le> n) ns"
  shows "unpersisted_spend_usd (live_at
       (accept_persist_versions [(e, v, ps_spent_delta_usd row)] (fold (record_spend e) ns g)) e)
     = of_int (sum_list ns) / 10 ^ 9
   \<and> spent_total_usd (live_at
       (accept_persist_versions [(e, v, ps_spent_delta_usd row)] (fold (record_spend e) ns g)) e)
     = ps_spent_total_usd row + of_int (sum_list ns) / 10 ^ 9"
proof -
  let ?g = "fold (record_spend e) ns g"
  have mapped: "live_map (fold (record_spend e) ns g) e \<noteq> None" if "live_map g e \<noteq> None" for g
    using that by (induction ns arbitrary: g) (simp_all add: record_spend_def)
  obtain l where l: "live_map g e = Some l" "row = export_row e l"
    using assms(1) by (auto simp: export_state_def)
  then have lat: "live_at g e = l" by (simp add: live_at_def)
  have "0 \<le> sum_list ns" using assms(3) by (induction ns) auto
  then have nonneg: "0 \<le> (of_int (sum_list ns) :: rat)" by simp
  have acc: "live_at (accept_persist_versions [(e, v, ps_spent_delta_usd row)] ?g) e
      = accept_live v (ps_spent_delta_usd row) (live_at ?g e)"
    using mapped [of g] l by (simp add: accept_persist_versions_def live_at_existing)
  show ?thesis unfolding acc using record_spend_fold [where e = e and ns = ns and g = g] lat l assms(2) nonneg
    by (simp add: accept_live_def export_row_def)
qed

lemma validated_cap_nonneg [simp]: "0 \<le> validated_cap c p"
  by (simp add: validated_cap_def)

lemma conservative_cap_le:
  "0 < a \<Longrightarrow> conservative_cap a b \<le> a" "0 < b \<Longrightarrow> conservative_cap a b \<le> b"
  by (auto simp: conservative_cap_def)

text \<open>Rebasing on a persisted row is conservative: the cooldown and the version are the later of
  both, the total covers the persisted total plus the local spend that is not persisted yet, a
  capacity never exceeds either trusted one, the reset instant of a window is the later one with,
  at equal resets, the higher utilization, and slots and authentication are untouched.\<close>

lemma merge_is_conservative:
  assumes "l' = live_at (merge_persisted_state C [row] g) (ps_email row)"
    and "l = live_at g (ps_email row)" and "s = scale_lookup (ps_email row) g"
  shows "cooling_until l' = max (cooling_until l) (ps_cooling_until row)
    \<and> persist_version l' = max (persist_version l) (max (ps_version row) 0)
    \<and> ps_spent_total_usd row + unpersisted_spend_usd l \<le> spent_total_usd l'
    \<and> spent_total_usd l \<le> spent_total_usd l'
    \<and> (\<forall>c\<in>{validated_cap (cap5h_usd l) (prior5h_usd C * s), validated_cap (ps_cap5h_usd row) (prior5h_usd C * s)}.
         0 < c \<longrightarrow> cap5h_usd l' \<le> c)
    \<and> (\<forall>c\<in>{validated_cap (cap7d_usd l) (prior7d_usd C * s), validated_cap (ps_cap7d_usd row) (prior7d_usd C * s)}.
         0 < c \<longrightarrow> cap7d_usd l' \<le> c)
    \<and> reset5h l' = max (reset5h l) (ps_reset5h row) \<and> reset7d l' = max (reset7d l) (ps_reset7d row)
    \<and> (reset5h l = ps_reset5h row \<longrightarrow> util5h l' = max (util5h l) (ps_util5h row))
    \<and> (reset7d l = ps_reset7d row \<longrightarrow> util7d l' = max (util7d l) (ps_util7d row))
    \<and> inflight l' = inflight l \<and> auth_state l' = auth_state l"
proof -
  have l': "l' = merge_live C s row l"
    using assms by (simp add: merge_persisted_state_def)
  have w5: "merge_window (util5h l) (reset5h l) (ps_util5h row) (ps_reset5h row) = (util5h l', reset5h l')"
    and w7: "merge_window (util7d l) (reset7d l) (ps_util7d row) (ps_reset7d row) = (util7d l', reset7d l')"
    by (simp_all add: l' merge_live_def Let_def split_beta)
  have win: "reset5h l' = max (reset5h l) (ps_reset5h row)" "reset7d l' = max (reset7d l) (ps_reset7d row)"
    "reset5h l = ps_reset5h row \<longrightarrow> util5h l' = max (util5h l) (ps_util5h row)"
    "reset7d l = ps_reset7d row \<longrightarrow> util7d l' = max (util7d l) (ps_util7d row)"
    using w5 w7 by (auto simp: merge_window_def split: if_splits)
  have caps: "cap5h_usd l' = conservative_cap (validated_cap (cap5h_usd l) (prior5h_usd C * s))
        (validated_cap (ps_cap5h_usd row) (prior5h_usd C * s))"
    "cap7d_usd l' = conservative_cap (validated_cap (cap7d_usd l) (prior7d_usd C * s))
        (validated_cap (ps_cap7d_usd row) (prior7d_usd C * s))"
    by (simp_all add: l' merge_live_def Let_def split_beta)
  have rest: "cooling_until l' = max (cooling_until l) (ps_cooling_until row)"
    "persist_version l' = max (persist_version l) (max (ps_version row) 0)"
    "spent_total_usd l' = max (max (spent_total_usd l - unpersisted_spend_usd l) 0) (ps_spent_total_usd row)
        + unpersisted_spend_usd l"
    "inflight l' = inflight l" "auth_state l' = auth_state l"
    by (simp_all add: l' merge_live_def Let_def split_beta)
  show ?thesis using win caps rest by (auto simp: conservative_cap_le)
qed

section \<open>The capacity report\<close>

lemma le_div_iff_mult_le: "0 < (w :: int) \<Longrightarrow> x \<le> b div w \<longleftrightarrow> x * w \<le> b"
proof
  assume "0 < w" "x \<le> b div w"
  then have "x * w \<le> b div w * w" by (intro mult_right_mono) auto
  also have "\<dots> \<le> b" using div_mult_mod_eq [of b w] pos_mod_sign [OF \<open>0 < w\<close>, of b] by linarith
  finally show "x * w \<le> b" .
next
  assume "0 < w" "x * w \<le> b"
  then have "x * w div w \<le> b div w" by (intro zdiv_mono1) auto
  then show "x \<le> b div w" using \<open>0 < w\<close> by simp
qed

lemma card_progression:
  assumes "0 < w"
  shows "int (card {j :: nat. a + int j * w \<le> b}) = (if b < a then 0 else 1 + (b - a) div w)"
proof (cases "b < a")
  case True
  have "\<not> a + int j * w \<le> b" for j using True assms by (smt (verit) mult_nonneg_nonneg of_nat_0_le_iff)
  then show ?thesis using True by simp
next
  case False
  have "{j :: nat. a + int j * w \<le> b} = {.. nat ((b - a) div w)}"
  proof -
    have "a + int j * w \<le> b \<longleftrightarrow> j \<le> nat ((b - a) div w)" for j
    proof -
      have "a + int j * w \<le> b \<longleftrightarrow> int j * w \<le> b - a" by linarith
      also have "\<dots> \<longleftrightarrow> int j \<le> (b - a) div w" by (simp add: le_div_iff_mult_le [OF assms])
      also have "\<dots> \<longleftrightarrow> j \<le> nat ((b - a) div w)" using False assms by (simp add: nat_le_iff le_nat_iff pos_imp_zdiv_nonneg_iff)
      finally show ?thesis .
    qed
    then show ?thesis by auto
  qed
  moreover have "0 \<le> (b - a) div w" using False assms by (simp add: pos_imp_zdiv_nonneg_iff)
  ultimately show ?thesis using False by simp
qed


text \<open>The first reset after \<open>now\<close> of a window that resets at \<open>reset\<close> and every \<open>win\<close> seconds
  from then on.\<close>

lemma div_le_dividend_pos: "0 < (w :: int) \<Longrightarrow> 0 \<le> b \<Longrightarrow> b div w \<le> b"
  using zdiv_mono2 [of b 1 w] by simp

lemma in_i64_between: "0 \<le> x \<Longrightarrow> 0 \<le> r \<Longrightarrow> r + x \<le> n + w \<Longrightarrow> n < 2 ^ 60 \<Longrightarrow> w < 2 ^ 60
    \<Longrightarrow> in_i64 x \<and> in_i64 (r + x)"
  by (simp add: in_i64_def)

lemma next_reset:
  fixes win :: int
  assumes "0 < win" "reset \<le> now"
  shows "now < reset + ((now - reset) div win + 1) * win" "reset + ((now - reset) div win) * win \<le> now"
proof -
  have "(now - reset) div win * win + (now - reset) mod win = now - reset" by (rule div_mult_mod_eq)
  moreover have "(now - reset) mod win < win" "0 \<le> (now - reset) mod win" using assms(1) by simp_all
  moreover have "((now - reset) div win + 1) * win = (now - reset) div win * win + win"
    by (simp add: algebra_simps)
  ultimately show "now < reset + ((now - reset) div win + 1) * win"
    "reset + ((now - reset) div win) * win \<le> now" by linarith+
qed

lemma instants_shift:
  assumes "0 < win" "reset \<le> now"
  shows "{k :: nat. now < reset + int k * win \<and> reset + int k * win \<le> b}
      = (+) (nat ((now - reset) div win) + 1)
          ` {j :: nat. reset + ((now - reset) div win + 1) * win + int j * win \<le> b}"
    (is "?L = (+) ?k ` ?R")
proof -
  have q: "0 \<le> (now - reset) div win" using assms by (simp add: pos_imp_zdiv_nonneg_iff)
  then have k: "int ?k = (now - reset) div win + 1" by simp
  have "?k \<le> i \<longleftrightarrow> now < reset + int i * win" for i
  proof
    assume "?k \<le> i"
    then have "int ?k * win \<le> int i * win" using assms(1) by (intro mult_right_mono) auto
    then show "now < reset + int i * win" using next_reset(1) [OF assms] unfolding k by linarith
  next
    assume i: "now < reset + int i * win"
    show "?k \<le> i"
    proof (rule ccontr)
      assume "\<not> ?k \<le> i"
      then have "int i \<le> (now - reset) div win" using k by linarith
      then have "int i * win \<le> (now - reset) div win * win" using assms(1) by (intro mult_right_mono) auto
      then show False using next_reset(2) [OF assms] i by linarith
    qed
  qed
  then have L: "?L = {i. ?k \<le> i \<and> reset + int i * win \<le> b}" by blast
  have "reset + int (?k + j) * win = reset + ((now - reset) div win + 1) * win + int j * win" for j
    using k by (simp add: algebra_simps del: of_nat_add) (simp add: of_nat_add algebra_simps)
  then show ?thesis unfolding L by (auto simp: image_iff le_iff_add)
qed

lemma count_instants:
  assumes "0 < win" "0 \<le> h"
  shows "int (card {k :: nat. now < reset + int k * win \<and> reset + int k * win \<le> now + h})
     = (let nxt = (if now < reset then reset else reset + ((now - reset) div win + 1) * win)
        in if now + h < nxt then 0 else 1 + (now + h - nxt) div win)"
proof (cases "now < reset")
  case True
  have "now < reset + int k * win" for k using True assms(1) by (smt (verit) mult_nonneg_nonneg of_nat_0_le_iff)
  then have "{k :: nat. now < reset + int k * win \<and> reset + int k * win \<le> now + h}
      = {k :: nat. reset + int k * win \<le> now + h}" by auto
  then show ?thesis using True card_progression [OF assms(1), of reset "now + h"] by simp
next
  case False
  then have "card {k :: nat. now < reset + int k * win \<and> reset + int k * win \<le> now + h}
      = card {j :: nat. reset + ((now - reset) div win + 1) * win + int j * win \<le> now + h}"
    using instants_shift [OF assms(1), of reset now "now + h"] by (simp only: card_image inj_on_add)
  then show ?thesis using False card_progression [OF assms(1)] by simp
qed

text \<open>The horizon arithmetic of the capacity report counts exactly the future resets: with a
  known reset instant, \<open>resets\<close> is the number of instants \<open>reset + k * win\<close> after \<open>now\<close> and
  not later than \<open>now + h\<close>; the reset at \<open>now\<close> itself is not counted again.\<close>

lemma resets_counts_instants:
  assumes "0 < reset" "reset < 2 ^ 60" "0 \<le> now" "now < 2 ^ 60" "0 < win" "win < 2 ^ 60"
    and "0 \<le> h" "h < 2 ^ 60"
  shows "resets now reset win h
     = int (card {k :: nat. now < reset + int k * win \<and> reset + int k * win \<le> now + h})"
proof -
  let ?q = "(now - reset) div win"
  have nh: "add_i64 now h = now + h" using assms by (intro exact) (simp add: in_i64_def)
  define nxt where "nxt = (if now < reset then reset else reset + (?q + 1) * win)"
  have nxt: "(if now < reset then reset
      else add_i64 reset (wrap_i64 (add_i64 (trunc_div (sub_i64 now reset) win) 1 * win))) = nxt"
    "0 < nxt" "nxt \<le> 2 ^ 61"
  proof -
    have up: "reset + (?q + 1) * win \<le> now + win \<and> 0 \<le> ?q" if "\<not> now < reset"
      using next_reset(2) [OF assms(5), of reset now] that assms(5)
      by (simp add: algebra_simps pos_imp_zdiv_nonneg_iff)
    have q: "?q \<le> now - reset" if "\<not> now < reset"
      using that assms(5) by (intro div_le_dividend_pos) auto
    show "0 < nxt" using up assms by (auto simp: nxt_def intro: add_pos_nonneg)
    show "nxt \<le> 2 ^ 61" using up assms by (auto simp: nxt_def)
    show "(if now < reset then reset
      else add_i64 reset (wrap_i64 (add_i64 (trunc_div (sub_i64 now reset) win) 1 * win))) = nxt"
    proof (cases "now < reset")
      case False
      have s: "sub_i64 now reset = now - reset" using assms by (intro exact) (simp add: in_i64_def)
      have d: "trunc_div (now - reset) win = ?q" using False by (simp add: trunc_div_def)
      have a: "add_i64 ?q 1 = ?q + 1"
        using q [OF False] up [OF False] assms by (intro exact) (simp add: in_i64_def)
      have "0 \<le> (?q + 1) * win" using up [OF False] assms(5) by simp
      then have range: "in_i64 ((?q + 1) * win)" "in_i64 (reset + (?q + 1) * win)"
        using in_i64_between [of "(?q + 1) * win" reset now win] conjunct1 [OF up [OF False]] assms(1,4,6)
        by simp_all
      have m: "wrap_i64 ((?q + 1) * win) = (?q + 1) * win" by (rule wrap_i64_exact [OF range(1)])
      have "add_i64 reset ((?q + 1) * win) = reset + (?q + 1) * win" by (rule add_i64_exact [OF range(2)])
      then show ?thesis using False by (simp add: nxt_def s d a m)
    qed (simp add: nxt_def)
  qed
  have sub: "sub_i64 (now + h) nxt = now + h - nxt"
    using assms nxt(2,3) by (intro exact) (simp add: in_i64_def)
  have tail: "add_i64 1 (trunc_div (now + h - nxt) win) = 1 + (now + h - nxt) div win" if "\<not> now + h < nxt"
  proof -
    have "0 \<le> (now + h - nxt) div win" using that assms(5) by (simp add: pos_imp_zdiv_nonneg_iff)
    moreover have "(now + h - nxt) div win \<le> now + h - nxt"
      using that assms(5) by (intro div_le_dividend_pos) auto
    ultimately have "in_i64 (1 + (now + h - nxt) div win)"
      using assms nxt(2) by (simp add: in_i64_def)
    then show ?thesis using that by (simp add: trunc_div_def exact)
  qed
  show ?thesis unfolding resets_def count_instants [OF assms(5,7)] nxt(1) nh Let_def sub
    using tail by (simp add: nxt_def)
qed

end
