(* ===== verification/Breaker.thy ===== *)
theory Breaker
  imports Engine_Prelude
begin

text \<open>
  The global circuit breaker of the upstream (\<open>crates/forward/src/breaker.rs\<close>) and the charge
  policy for unmeasured turns (\<open>crates/forward/src/settlement_policy.rs\<close>). The breaker opens when a
  strict majority of the fleet fails within the window; the property states, over the recorded calls
  alone, what must have happened for it to be open and what must open it.

  The mutex makes every method atomic, so a run is a sequence of method calls. \<open>usize\<close> and the
  clock are unbounded here: the source subtracts and adds timestamps near the present.
\<close>

section \<open>The breaker\<close>

definition WINDOW :: i64 where "WINDOW = 10"
definition COOLDOWN :: i64 where "COOLDOWN = 15"

record breaker =
  fails :: "(i64 \<times> string) list"
  open_until :: i64
  fleet_size :: nat

definition distinct_threshold :: "nat \<Rightarrow> nat" where
  "distinct_threshold n = max n 1 div 2 + 1"

definition breaker_new :: "nat \<Rightarrow> breaker" where
  "breaker_new n = \<lparr>fails = [], open_until = 0, fleet_size = n\<rparr>"

definition set_fleet_size :: "nat \<Rightarrow> breaker \<Rightarrow> breaker" where
  "set_fleet_size n g = (if fleet_size g \<noteq> n then g\<lparr>fleet_size := n, fails := []\<rparr> else g)"

definition record_fail :: "i64 \<Rightarrow> string \<Rightarrow> breaker \<Rightarrow> breaker" where
  "record_fail now email g =
     (let recent = filter (\<lambda>(t, _). now - t < WINDOW) (fails g) @ [(now, email)]
      in if distinct_threshold (fleet_size g) \<le> card (set (map snd recent))
         then g\<lparr>open_until := now + COOLDOWN, fails := []\<rparr>
         else g\<lparr>fails := recent\<rparr>)"

definition record_ok :: "i64 \<Rightarrow> breaker \<Rightarrow> breaker" where
  "record_ok now g = (if open_until g \<le> now \<and> fails g \<noteq> [] then g\<lparr>fails := []\<rparr> else g)"

definition open_for :: "i64 \<Rightarrow> breaker \<Rightarrow> i64 option" where
  "open_for now g = (if now < open_until g then Some (max (open_until g - now) 1) else None)"

section \<open>Runs\<close>

datatype breaker_event = Fail i64 string | Ok_Response i64 | Fleet nat

fun exec_breaker :: "breaker_event \<Rightarrow> breaker \<Rightarrow> breaker" where
  "exec_breaker (Fail now e) g = record_fail now e g"
| "exec_breaker (Ok_Response now) g = record_ok now g"
| "exec_breaker (Fleet n) g = set_fleet_size n g"

text \<open>The specification speaks about the recorded calls only. The fleet size in force after a
  history is the one its last reload set; the instants of its failures are in the order of the
  calls; the subscriptions that failed at \<open>t\<close> are those with a failure in the ten seconds up to
  \<open>t\<close>.\<close>

fun fleet_after :: "nat \<Rightarrow> breaker_event list \<Rightarrow> nat" where
  "fleet_after n0 [] = n0"
| "fleet_after n0 (Fleet n # evs) = fleet_after n evs"
| "fleet_after n0 (_ # evs) = fleet_after n0 evs"

fun fail_times :: "breaker_event list \<Rightarrow> i64 list" where
  "fail_times [] = []"
| "fail_times (Fail t e # evs) = t # fail_times evs"
| "fail_times (_ # evs) = fail_times evs"

definition failed :: "i64 \<Rightarrow> breaker_event list \<Rightarrow> string set" where
  "failed t evs = {e. \<exists>t'. Fail t' e \<in> set evs \<and> t - WINDOW < t' \<and> t' \<le> t}"

text \<open>A strict majority of a fleet of \<open>n\<close> (an empty fleet counts as one).\<close>

definition majority :: "nat \<Rightarrow> string set \<Rightarrow> bool" where
  "majority n es \<longleftrightarrow> max n 1 < 2 * card es"

text \<open>A stretch of the history in which every reload kept the size \<open>n\<close>.\<close>

definition size_kept :: "nat \<Rightarrow> breaker_event list \<Rightarrow> bool" where
  "size_kept n evs \<longleftrightarrow> (\<forall>m. Fleet m \<in> set evs \<longrightarrow> m = n)"

text \<open>The outage that opened the breaker at \<open>t\<close> in a history: it ends with a failure at \<open>t\<close>, and in a
  stretch that ends there, recorded under one fleet size, a strict majority of the fleet failed less
  than a window before \<open>t\<close>.\<close>

definition outage :: "nat \<Rightarrow> breaker_event list \<Rightarrow> i64 \<Rightarrow> bool" where
  "outage n0 h t \<longleftrightarrow> (\<exists>pre recent e. h = pre @ recent @ [Fail t e]
     \<and> size_kept (fleet_after n0 pre) recent
     \<and> majority (fleet_after n0 pre) (failed t (recent @ [Fail t e])))"

lemma threshold_majority: "distinct_threshold n \<le> card es \<longleftrightarrow> majority n es"
  by (auto simp: distinct_threshold_def majority_def)

lemma fleet_after_append: "fleet_after n0 (xs @ ys) = fleet_after (fleet_after n0 xs) ys"
  by (induction xs arbitrary: n0 rule: fleet_after.induct) simp_all

lemma finite_failed [simp]: "finite (failed t evs)"
proof -
  have "failed t evs \<subseteq> (\<lambda>ev. case ev of Fail _ e \<Rightarrow> e | _ \<Rightarrow> []) ` set evs"
    by (force simp: failed_def)
  then show ?thesis by (rule finite_subset) simp
qed

lemma majority_mono: "majority n es \<Longrightarrow> es \<subseteq> es' \<Longrightarrow> finite es' \<Longrightarrow> majority n es'"
  using card_mono [of es' es] by (simp add: majority_def)

lemma fail_times_append: "fail_times (xs @ ys) = fail_times xs @ fail_times ys"
  by (induction xs rule: fail_times.induct) simp_all

lemma fail_times_mem: "Fail t e \<in> set evs \<Longrightarrow> t \<in> set (fail_times evs)"
  by (induction evs rule: fail_times.induct) auto

text \<open>What the breaker keeps of its history: the size in force, failures of a stretch recorded under
  that size, and, if it ever opened, an outage in a prefix of the history.\<close>

definition justified :: "nat \<Rightarrow> breaker_event list \<Rightarrow> breaker \<Rightarrow> bool" where
  "justified n0 h g \<longleftrightarrow> fleet_size g = fleet_after n0 h
     \<and> (\<exists>pre recent. h = pre @ recent \<and> fleet_after n0 pre = fleet_size g \<and> size_kept (fleet_size g) recent
          \<and> (\<forall>(t, e)\<in>set (fails g). Fail t e \<in> set recent))
     \<and> (open_until g \<noteq> 0 \<longrightarrow> (\<exists>h' post. h = h' @ post \<and> outage n0 h' (open_until g - COOLDOWN)))"

lemma failed_recent:
  assumes "\<forall>(t, e)\<in>set fs. Fail t e \<in> set recent" "\<forall>t\<in>set (fail_times recent). t \<le> now"
  shows "snd ` set (filter (\<lambda>(t, _). now - t < WINDOW) fs @ [(now, email)]) \<subseteq> failed now (recent @ [Fail now email])"
proof
  fix e
  assume "e \<in> snd ` set (filter (\<lambda>(t, _). now - t < WINDOW) fs @ [(now, email)])"
  then obtain t where "(t, e) \<in> set fs \<and> now - t < WINDOW \<or> t = now \<and> e = email" by force
  then have "Fail t e \<in> set (recent @ [Fail now email]) \<and> now - WINDOW < t \<and> t \<le> now"
    using assms fail_times_mem [of t e recent] by (auto simp: WINDOW_def)
  then show "e \<in> failed now (recent @ [Fail now email])" unfolding failed_def by blast
qed

lemma justified_step:
  assumes "justified n0 h g" "sorted (fail_times (h @ [ev]))"
  shows "justified n0 (h @ [ev]) (exec_breaker ev g)"
proof -
  from assms(1) obtain pre recent where h: "h = pre @ recent" "fleet_after n0 pre = fleet_size g"
      "size_kept (fleet_size g) recent" "\<forall>(t, e)\<in>set (fails g). Fail t e \<in> set recent"
      "fleet_size g = fleet_after n0 h"
    and past: "open_until g \<noteq> 0 \<longrightarrow> (\<exists>h' post. h = h' @ post \<and> outage n0 h' (open_until g - COOLDOWN))"
    unfolding justified_def by (elim conjE exE) metis
  have past': "open_until g \<noteq> 0 \<longrightarrow> (\<exists>h' post. h @ [ev] = h' @ post \<and> outage n0 h' (open_until g - COOLDOWN))"
    using past by (metis append.assoc)
  have same: "\<exists>pre recent. h @ [ev] = pre @ recent \<and> fleet_after n0 pre = fleet_size g
      \<and> size_kept (fleet_size g) recent \<and> (\<forall>(t, e)\<in>set fs. Fail t e \<in> set recent)"
    if "size_kept (fleet_size g) [ev]" "\<forall>(t, e)\<in>set fs. Fail t e \<in> set (recent @ [ev])" for fs
    using that h by (intro exI [of _ pre] exI [of _ "recent @ [ev]"]) (auto simp: size_kept_def)
  show ?thesis
  proof (cases ev)
    case (Fail now email)
    let ?recent = "filter (\<lambda>(t, _). now - t < WINDOW) (fails g) @ [(now, email)]"
    have "outage n0 (h @ [ev]) now" if "distinct_threshold (fleet_size g) \<le> card (snd ` set ?recent)"
      unfolding outage_def
    proof (intro exI conjI)
      show "h @ [ev] = pre @ recent @ [Fail now email]" using h(1) Fail by simp
      show "size_kept (fleet_after n0 pre) recent" using h(2,3) by simp
      have "majority (fleet_size g) (snd ` set ?recent)" using that threshold_majority by simp
      moreover have "\<forall>t\<in>set (fail_times recent). t \<le> now"
        using assms(2) h(1) Fail by (simp add: fail_times_append sorted_append)
      ultimately show "majority (fleet_after n0 pre) (failed now (recent @ [Fail now email]))"
        using majority_mono [OF _ failed_recent [OF h(4), of now email]] h(2) by simp
    qed
    then have "open_until (record_fail now email g) \<noteq> 0 \<longrightarrow>
        (\<exists>h' post. h @ [ev] = h' @ post \<and> outage n0 h' (open_until (record_fail now email g) - COOLDOWN))"
      using past' by (auto simp: record_fail_def Let_def intro: exI [of _ "h @ [ev]"])
    moreover have "\<forall>(t, e)\<in>set (fails (record_fail now email g)). Fail t e \<in> set (recent @ [ev])"
      using h(4) Fail by (auto simp: record_fail_def Let_def)
    moreover have "fleet_size (record_fail now email g) = fleet_size g" by (simp add: record_fail_def Let_def)
    ultimately show ?thesis
      using same [of "fails (record_fail now email g)"] h(5) Fail
      by (simp add: justified_def fleet_after_append size_kept_def)
  next
    case (Ok_Response now)
    then show ?thesis
      using same [of "fails (record_ok now g)"] h(4,5) past'
      by (auto simp: justified_def fleet_after_append size_kept_def record_ok_def)
  next
    case (Fleet n)
    show ?thesis
    proof (cases "fleet_size g = n")
      case True
      then show ?thesis using same [of "fails g"] h(4,5) past' Fleet
        by (auto simp: justified_def fleet_after_append size_kept_def set_fleet_size_def)
    next
      case False
      have "\<exists>pre recent. h @ [ev] = pre @ recent \<and> fleet_after n0 pre = n \<and> size_kept n recent"
        using Fleet by (intro exI [of _ "h @ [ev]"] exI [of _ "[]"]) (simp add: fleet_after_append size_kept_def)
      then show ?thesis using False h(5) past' Fleet
        by (simp add: justified_def fleet_after_append set_fleet_size_def)
    qed
  qed
qed

lemma fleet_size_run: "fleet_size (fold exec_breaker evs (breaker_new n0)) = fleet_after n0 evs"
proof (induction evs rule: rev_induct)
  case (snoc ev evs)
  then show ?case
    by (cases ev) (auto simp: fleet_after_append record_fail_def record_ok_def set_fleet_size_def Let_def)
qed (simp add: breaker_new_def)

lemma justified_run:
  "sorted (fail_times evs) \<Longrightarrow> justified n0 evs (fold exec_breaker evs (breaker_new n0))"
proof (induction evs rule: rev_induct)
  case Nil
  show ?case by (simp add: justified_def breaker_new_def size_kept_def)
next
  case (snoc ev evs)
  then show ?case using justified_step [of n0 evs _ ev] by (simp add: fail_times_append sorted_append)
qed

text \<open>The other direction. While only failures of the last window are recorded, either none of them
  opened the breaker, and it keeps them all without a majority among them, or it is open at the end
  of the window.\<close>

definition window_failures :: "i64 \<Rightarrow> breaker_event list \<Rightarrow> bool" where
  "window_failures now evs \<longleftrightarrow> list_all (\<lambda>ev. \<exists>t e. ev = Fail t e \<and> now - WINDOW < t \<and> t \<le> now) evs"

lemma record_fail_opens:
  assumes "now - WINDOW < t" "now < open_until g \<or> majority (fleet_size g)
      (snd ` set (filter (\<lambda>(t', _). t - t' < WINDOW) (fails g) @ [(t, e)]))"
  shows "now < open_until (record_fail t e g)"
  using assms by (auto simp: record_fail_def Let_def WINDOW_def COOLDOWN_def simp flip: threshold_majority)

lemma window_run:
  fixes g :: breaker
  assumes "window_failures now seg"
  defines "g' \<equiv> \<lambda>seg. fold exec_breaker seg g"
  shows "fleet_size (g' seg) = fleet_size g \<and> (now < open_until (g' seg)
    \<or> (\<forall>t e. Fail t e \<in> set seg \<longrightarrow> (t, e) \<in> set (fails (g' seg)))
      \<and> (seg \<noteq> [] \<longrightarrow> \<not> majority (fleet_size g) (snd ` set (fails (g' seg)))))"
  using assms(1)
proof (induction seg rule: rev_induct)
  case (snoc ev seg)
  then obtain t e where ev: "ev = Fail t e" "now - WINDOW < t" "t \<le> now" and w: "window_failures now seg"
    by (auto simp: window_failures_def)
  let ?g = "g' seg" and ?kept = "filter (\<lambda>(t', _). t - t' < WINDOW) (fails (g' seg)) @ [(t, e)]"
  have g': "g' (seg @ [ev]) = record_fail t e ?g" by (simp add: g'_def ev)
  have size: "fleet_size ?g = fleet_size g" using snoc.IH w by simp
  show ?case
  proof (cases "now < open_until ?g \<or> majority (fleet_size g) (snd ` set ?kept)")
    case True
    then have "now < open_until (g' (seg @ [ev]))" using record_fail_opens [OF ev(2), of ?g e] size g' by simp
    then show ?thesis using size by (simp add: g' record_fail_def Let_def)
  next
    case False
    then have all: "\<forall>t e. Fail t e \<in> set seg \<longrightarrow> (t, e) \<in> set (fails ?g)" using snoc.IH w by blast
    have "fails (g' (seg @ [ev])) = ?kept \<and> fleet_size (g' (seg @ [ev])) = fleet_size g"
      using False size by (simp add: g' record_fail_def Let_def flip: threshold_majority)
    moreover have "(t', e') \<in> set ?kept" if "Fail t' e' \<in> set (seg @ [ev])" for t' e'
      using that all w ev by (fastforce simp: window_failures_def list_all_iff)
    ultimately show ?thesis using False by auto
  qed
qed (simp add: g'_def)

text \<open>C40: The breaker opens on an outage of the majority, and only then. Whenever it is open after
  calls whose failures carry nondecreasing instants, some prefix of the calls ends with the failure
  that opened it: in the ten seconds up to that failure, under the one fleet size that was in force
  then, more than half of that fleet failed, as distinct subscriptions; it answers with the seconds
  until the cooldown of that failure ends, at least one. And when, after any calls, more than half of
  the fleet then in force fails within ten seconds with no other call between, it is open.\<close>

theorem breaker_opens_on_majority:
  "(sorted (fail_times evs) \<and> open_for now (fold exec_breaker evs (breaker_new n0)) = Some secs \<and> 0 \<le> now \<longrightarrow>
      1 \<le> secs \<and> (\<exists>h post t. evs = h @ post \<and> now = t + COOLDOWN - secs \<and> outage n0 h t))
   \<and> (window_failures now seg \<and> majority (fleet_after n0 pre) (failed now seg) \<longrightarrow>
      (\<exists>secs. open_for now (fold exec_breaker (pre @ seg) (breaker_new n0)) = Some secs))"
proof (intro conjI [where Q = "_ \<longrightarrow> (\<exists>secs. _ secs)"] impI)
  let ?g = "fold exec_breaker evs (breaker_new n0)"
  assume a: "sorted (fail_times evs) \<and> open_for now ?g = Some secs \<and> 0 \<le> now"
  then have j: "justified n0 evs ?g" using justified_run by blast
  have o: "now < open_until ?g" "secs = open_until ?g - now"
    using a by (auto simp: open_for_def split: if_splits)
  then obtain h post where "evs = h @ post" "outage n0 h (open_until ?g - COOLDOWN)"
    using j a unfolding justified_def by (metis less_le_not_le order.strict_trans1)
  then show "1 \<le> secs \<and> (\<exists>h post t. evs = h @ post \<and> now = t + COOLDOWN - secs \<and> outage n0 h t)"
    using o by (intro conjI exI [of _ h] exI [of _ post] exI [of _ "open_until ?g - COOLDOWN"]) auto
next
  assume a: "window_failures now seg \<and> majority (fleet_after n0 pre) (failed now seg)"
  let ?g = "fold exec_breaker pre (breaker_new n0)" and ?g' = "fold exec_breaker (pre @ seg) (breaker_new n0)"
  have size: "fleet_size ?g = fleet_after n0 pre" by (rule fleet_size_run)
  have "now < open_until ?g'"
  proof (rule ccontr)
    assume "\<not> now < open_until ?g'"
    then have all: "\<forall>t e. Fail t e \<in> set seg \<longrightarrow> (t, e) \<in> set (fails ?g')"
      and none: "seg \<noteq> [] \<longrightarrow> \<not> majority (fleet_after n0 pre) (snd ` set (fails ?g'))"
      using window_run [of now seg ?g] a size by auto
    have "failed now seg \<subseteq> snd ` set (fails ?g')" using all by (force simp: failed_def)
    then have "majority (fleet_after n0 pre) (snd ` set (fails ?g'))" using a by (auto intro: majority_mono)
    moreover have "seg \<noteq> []" using a by (auto simp: majority_def failed_def)
    ultimately show False using none by simp
  qed
  then show "\<exists>secs. open_for now ?g' = Some secs" by (simp add: open_for_def)
qed

theorem breaker_opens_on_majority_witness:
  "(\<exists>h post t. [Fleet 3, Fail 100 ''a'', Fail 105 ''b''] = h @ post \<and> 110 = t + COOLDOWN - 10 \<and> outage 1 h t)
   \<and> (\<exists>secs. open_for 106 (fold exec_breaker ([Fleet 3] @ [Fail 100 ''a'', Fail 105 ''b'']) (breaker_new 1)) = Some secs)"
proof -
  let ?evs = "[Fleet 3, Fail 100 ''a'', Fail 105 ''b'']"
  have "open_for 110 (fold exec_breaker ?evs (breaker_new 1)) = Some 10"
    by (simp add: open_for_def record_fail_def set_fleet_size_def breaker_new_def distinct_threshold_def
        WINDOW_def COOLDOWN_def Let_def)
  then have 1: "\<exists>h post t. ?evs = h @ post \<and> 110 = t + COOLDOWN - 10 \<and> outage 1 h t"
    using breaker_opens_on_majority [of ?evs 110 1 10] by simp
  have "failed 106 [Fail 100 ''a'', Fail 105 ''b''] = {''a'', ''b''}"
    by (auto simp: failed_def WINDOW_def)
  then have "majority (fleet_after 1 [Fleet 3]) (failed 106 [Fail 100 ''a'', Fail 105 ''b''])"
    by (simp add: majority_def)
  then show ?thesis
    using 1 breaker_opens_on_majority [of _ 106 1 _ "[Fail 100 ''a'', Fail 105 ''b'']" "[Fleet 3]"]
    by (simp add: window_failures_def WINDOW_def)
qed

section \<open>Unmeasured turns\<close>

text \<open>The process-wide switch is an argument.\<close>

definition unknown_usage_charge :: "bool \<Rightarrow> i64 \<Rightarrow> i64" where
  "unknown_usage_charge charge_hold_on_unknown_usage hold =
     (if charge_hold_on_unknown_usage then max hold 0 else 0)"

end
