(* ===== verification/Body_Budget.thy ===== *)
theory Body_Budget
  imports Engine_Prelude
begin

text \<open>
  The shared memory budget of request bodies (\<open>crates/bounded-body/src/budget.rs\<close>): a counter of
  used units behind an atomic, and reservations that own part of it and return it when dropped.

  Each method performs at most one atomic operation on the counter, so an interleaving of concurrent
  owners is a sequence of method calls on one state: the budget and the units of every reservation
  created so far (a dropped or moved-from reservation keeps its place and owns zero units). All
  quantities are \<open>u64\<close> words; \<open>fetch_sub\<close> wraps.
\<close>

section \<open>The budget\<close>

record budget =
  capacity_units :: u64
  unit_bytes :: u64
  used_units :: u64

datatype budget_config_error = ZeroCapacity | ZeroUnit | ConfigOverflow

datatype capacity_error = ArithmeticOverflow | CapacityExhausted

datatype reservation_error = CannotGrowWithShrink

definition budget_new :: "u64 \<Rightarrow> u64 \<Rightarrow> budget_config_error + budget" where
  "budget_new cap unit =
     (if cap = 0 then Inl ZeroCapacity
      else if unit = 0 then Inl ZeroUnit
      else let n = cap div unit
           in if n = 0 then Inl ZeroCapacity
              else Inr \<lparr>capacity_units = n, unit_bytes = unit, used_units = 0\<rparr>)"

definition units_for_capacity :: "u64 \<Rightarrow> u64 \<Rightarrow> capacity_error + u64" where
  "units_for_capacity n unit =
     (if n = 0 then Inr 0
      else bind_res (ok_or ArithmeticOverflow (checked_add_u64 n (unit - 1)))
             (\<lambda>rounded. Inr (rounded div unit)))"

definition budget_acquire :: "u64 \<Rightarrow> budget \<Rightarrow> capacity_error + budget" where
  "budget_acquire units b =
     (if units = 0 then Inr b
      else case checked_add_u64 (used_units b) units of
             None \<Rightarrow> Inl CapacityExhausted
           | Some nxt \<Rightarrow> if nxt \<le> capacity_units b then Inr (b\<lparr>used_units := nxt\<rparr>)
                         else Inl CapacityExhausted)"

definition budget_release :: "u64 \<Rightarrow> budget \<Rightarrow> budget" where
  "budget_release units b = (if units = 0 then b else b\<lparr>used_units := used_units b - units\<rparr>)"

section \<open>Reservations\<close>

definition try_reserve :: "u64 \<Rightarrow> budget \<Rightarrow> capacity_error + budget \<times> u64" where
  "try_reserve weight b =
     bind_res (units_for_capacity weight (unit_bytes b)) (\<lambda>units.
     bind_res (budget_acquire units b) (\<lambda>b'. Inr (b', units)))"

definition try_grow_to :: "u64 \<Rightarrow> budget \<Rightarrow> u64 \<Rightarrow> capacity_error + budget \<times> u64" where
  "try_grow_to weight b units =
     bind_res (units_for_capacity weight (unit_bytes b)) (\<lambda>target.
       if target \<le> units then Inr (b, units)
       else bind_res (budget_acquire (target - units) b) (\<lambda>b'. Inr (b', target)))"

definition shrink_to :: "u64 \<Rightarrow> budget \<Rightarrow> u64 \<Rightarrow> reservation_error + budget \<times> u64" where
  "shrink_to weight b units =
     (case units_for_capacity weight (unit_bytes b) of
        Inl _ \<Rightarrow> Inl CannotGrowWithShrink
      | Inr target \<Rightarrow> if units < target then Inl CannotGrowWithShrink
                      else Inr (budget_release (units - target) b, target))"

definition try_replace :: "u64 \<Rightarrow> budget \<Rightarrow> u64 \<Rightarrow> capacity_error + budget \<times> u64" where
  "try_replace weight b units =
     bind_res (units_for_capacity weight (unit_bytes b)) (\<lambda>target.
       if units < target
       then bind_res (budget_acquire (target - units) b) (\<lambda>b'. Inr (b', target))
       else Inr (budget_release (units - target) b, target))"

definition drop_reservation :: "budget \<Rightarrow> u64 \<Rightarrow> budget \<times> u64" where
  "drop_reservation b units = (budget_release units b, 0)"

text \<open>\<open>take\<close> moves the units to a new reservation and leaves none behind.\<close>

definition take_reservation :: "u64 \<Rightarrow> u64 \<times> u64" where
  "take_reservation units = (units, 0)"

section \<open>Interleavings\<close>

datatype budget_cmd =
    Reserve u64
  | Grow nat u64
  | Shrink nat u64
  | Replace nat u64
  | Take nat
  | Drop nat

type_synonym budget_state = "budget \<times> u64 list"

text \<open>A failed call leaves the budget and the reservation as they were.\<close>

fun exec_budget :: "budget_cmd \<Rightarrow> budget_state \<Rightarrow> budget_state" where
  "exec_budget (Reserve w) (b, rs) =
     (case try_reserve w b of Inl _ \<Rightarrow> (b, rs) | Inr (b', u) \<Rightarrow> (b', rs @ [u]))"
| "exec_budget (Grow i w) (b, rs) =
     (if length rs \<le> i then (b, rs)
      else case try_grow_to w b (rs ! i) of Inl _ \<Rightarrow> (b, rs) | Inr (b', u) \<Rightarrow> (b', rs[i := u]))"
| "exec_budget (Shrink i w) (b, rs) =
     (if length rs \<le> i then (b, rs)
      else case shrink_to w b (rs ! i) of Inl _ \<Rightarrow> (b, rs) | Inr (b', u) \<Rightarrow> (b', rs[i := u]))"
| "exec_budget (Replace i w) (b, rs) =
     (if length rs \<le> i then (b, rs)
      else case try_replace w b (rs ! i) of Inl _ \<Rightarrow> (b, rs) | Inr (b', u) \<Rightarrow> (b', rs[i := u]))"
| "exec_budget (Take i) (b, rs) =
     (if length rs \<le> i then (b, rs)
      else let (moved, left) = take_reservation (rs ! i) in (b, rs[i := left] @ [moved]))"
| "exec_budget (Drop i) (b, rs) =
     (if length rs \<le> i then (b, rs)
      else let (b', u) = drop_reservation b (rs ! i) in (b', rs[i := u]))"

definition owned :: "u64 list \<Rightarrow> int" where
  "owned rs = sum_list (map uint rs)"

definition budget_inv :: "u64 \<Rightarrow> u64 \<Rightarrow> budget_state \<Rightarrow> bool" where
  "budget_inv cap unit s \<longleftrightarrow>
     (case s of (b, rs) \<Rightarrow>
        capacity_units b = cap \<and> unit_bytes b = unit \<and> uint (used_units b) = owned rs
        \<and> owned rs \<le> uint cap)"

lemma owned_append [simp]: "owned (xs @ ys) = owned xs + owned ys"
  by (simp add: owned_def)

lemma owned_simps [simp]: "owned [] = 0" "owned (x # xs) = uint x + owned xs"
  by (simp_all add: owned_def)

lemma owned_nonneg [simp]: "0 \<le> owned xs"
  by (induction xs) simp_all

lemma owned_update: "i < length rs \<Longrightarrow> owned (rs[i := u]) = owned rs - uint (rs ! i) + uint u"
  by (induction rs arbitrary: i) (auto split: nat.splits)

lemma owned_nth: "i < length rs \<Longrightarrow> uint (rs ! i) \<le> owned rs"
proof (induction rs arbitrary: i)
  case (Cons r rs)
  then show ?case by (cases i) (auto intro: order_trans [OF Cons.IH])
qed simp

lemma acquire_inv:
  assumes "budget_acquire units b = Inr b'"
  shows "capacity_units b' = capacity_units b" "unit_bytes b' = unit_bytes b"
    "uint (used_units b') = uint (used_units b) + uint units"
    "units = 0 \<or> uint (used_units b') \<le> uint (capacity_units b)"
  using assms
  by (auto simp: budget_acquire_def checked_add_u64_def uint_add_u64 word_le_def split: if_splits)

lemma release_inv:
  assumes "uint units \<le> uint (used_units b)"
  shows "capacity_units (budget_release units b) = capacity_units b"
    "unit_bytes (budget_release units b) = unit_bytes b"
    "uint (used_units (budget_release units b)) = uint (used_units b) - uint units"
  using assms by (auto simp: budget_release_def uint_sub_u64 word_le_def)

text \<open>A call that moves one reservation from \<open>u\<close> to \<open>u'\<close> units: the counter moves by the
  difference and stays within the capacity.\<close>

definition moves :: "budget \<Rightarrow> u64 \<Rightarrow> budget \<Rightarrow> u64 \<Rightarrow> bool" where
  "moves b u b' u' \<longleftrightarrow> capacity_units b' = capacity_units b \<and> unit_bytes b' = unit_bytes b
     \<and> uint (used_units b') = uint (used_units b) - uint u + uint u'
     \<and> uint (used_units b') \<le> uint (capacity_units b)"

lemma moves_acquire:
  assumes "u < u'" "budget_acquire (u' - u) b = Inr b'"
  shows "moves b u b' u'"
proof -
  have "uint (u' - u) = uint u' - uint u" "u' - u \<noteq> 0" using assms(1) by (auto intro!: uint_sub_u64)
  with acquire_inv [OF assms(2)] show ?thesis by (simp add: moves_def)
qed

lemma moves_release:
  assumes "u' \<le> u" "uint u \<le> uint (used_units b)" "uint (used_units b) \<le> uint (capacity_units b)"
  shows "moves b u (budget_release (u - u') b) u'"
proof -
  have d: "uint (u - u') = uint u - uint u'" using assms(1) by (rule uint_sub_u64)
  moreover have "uint u' \<le> uint u" using assms(1) by (simp add: word_le_def)
  moreover have "uint (u - u') \<le> uint (used_units b)"
    using d assms(2) uint_u64_bounds(1) [of u'] by linarith
  ultimately show ?thesis using release_inv [of "u - u'" b] assms(3) by (simp add: moves_def)
qed

lemma moves_refl: "uint (used_units b) \<le> uint (capacity_units b) \<Longrightarrow> moves b u b u"
  by (simp add: moves_def)

lemma reservation_moves:
  assumes "uint u \<le> uint (used_units b)" "uint (used_units b) \<le> uint (capacity_units b)"
  shows "try_grow_to w b u = Inr (b', u') \<Longrightarrow> moves b u b' u'"
    "shrink_to w b u = Inr (b', u') \<Longrightarrow> moves b u b' u'"
    "try_replace w b u = Inr (b', u') \<Longrightarrow> moves b u b' u'"
    "drop_reservation b u = (b', u') \<Longrightarrow> moves b u b' u'"
  using assms
  by (auto simp: try_grow_to_def shrink_to_def try_replace_def drop_reservation_def not_le not_less
      moves_refl intro: moves_acquire moves_release moves_release [of 0, simplified]
      split: if_splits sum.splits)

lemma budget_inv_move:
  assumes "budget_inv cap unit (b, rs)" "i < length rs" "moves b (rs ! i) b' u'"
  shows "budget_inv cap unit (b', rs[i := u'])"
  using assms by (auto simp: budget_inv_def moves_def owned_update)

lemma budget_inv_reserve:
  assumes "budget_inv cap unit (b, rs)" "try_reserve w b = Inr (b', u)"
  shows "budget_inv cap unit (b', rs @ [u])"
proof -
  have "budget_acquire u b = Inr b'" using assms(2) by (auto simp: try_reserve_def)
  from acquire_inv [OF this] assms(1) show ?thesis by (auto simp: budget_inv_def)
qed

lemma budget_inv_exec:
  assumes "budget_inv cap unit s"
  shows "budget_inv cap unit (exec_budget c s)"
proof -
  obtain b rs where s: "s = (b, rs)" by (cases s)
  have le: "uint (rs ! i) \<le> uint (used_units b)" if "i < length rs" for i
    using assms s owned_nth [OF that] by (simp add: budget_inv_def)
  have cap: "uint (used_units b) \<le> uint (capacity_units b)" using assms s by (auto simp: budget_inv_def)
  show ?thesis
  proof (cases c)
    case (Reserve w)
    then show ?thesis using assms s by (auto intro: budget_inv_reserve split: sum.splits)
  next
    case (Grow i w)
    then show ?thesis using assms s reservation_moves(1) [OF le cap]
      by (auto intro!: budget_inv_move split: sum.splits)
  next
    case (Shrink i w)
    then show ?thesis using assms s reservation_moves(2) [OF le cap]
      by (auto intro!: budget_inv_move split: sum.splits)
  next
    case (Replace i w)
    then show ?thesis using assms s reservation_moves(3) [OF le cap]
      by (auto intro!: budget_inv_move split: sum.splits)
  next
    case (Take i)
    then show ?thesis using assms s by (auto simp: budget_inv_def owned_update take_reservation_def)
  next
    case (Drop i)
    then show ?thesis using assms s reservation_moves(4) [OF le cap]
      by (auto intro!: budget_inv_move split: prod.splits)
  qed
qed

interpretation budget: command_system exec_budget "budget_inv cap unit"
    "(\<lparr>capacity_units = cap, unit_bytes = unit, used_units = 0\<rparr>, [])" for cap unit
  by unfold_locales (simp add: budget_inv_def, rule budget_inv_exec)

text \<open>C36: The budget accounts exactly, whatever concurrent owners do: after any interleaving of
  reserving, growing, shrinking, replacing, moving and dropping reservations, the counter is the sum
  of what the reservations own and never exceeds the capacity, so no release underflows; once every
  reservation has been dropped the counter is zero.\<close>

theorem budget_accounts_exactly:
  assumes "budget_new cap unit = Inr b0" "(b, rs) = fold exec_budget cs (b0, [])"
  shows "uint (used_units b) = owned rs \<and> used_units b \<le> capacity_units b
    \<and> capacity_units b = cap div unit
    \<and> used_units (fst (fold exec_budget (map Drop [0..<length rs]) (b, rs))) = 0"
proof -
  have b0: "b0 = \<lparr>capacity_units = cap div unit, unit_bytes = unit, used_units = 0\<rparr>"
    using assms(1) by (auto simp: budget_new_def Let_def split: if_splits)
  have inv: "budget_inv (cap div unit) unit (b, rs)"
    unfolding assms(2) b0 by (rule budget.inv_run)
  have drops: "snd (fold exec_budget (map Drop [0..<n]) (b, rs)) = replicate n 0 @ drop n rs"
    if "n \<le> length rs" for n
    using that
  proof (induction n)
    case (Suc n)
    obtain b' where b': "fold exec_budget (map Drop [0..<n]) (b, rs) = (b', replicate n 0 @ drop n rs)"
      using Suc by (metis Suc_leD prod.collapse)
    have d: "drop n rs = rs ! n # drop (Suc n) rs" using Suc.prems by (simp add: Cons_nth_drop_Suc)
    have "replicate n 0 @ 0 # drop (Suc n) rs = replicate (Suc n) 0 @ drop (Suc n) rs"
      by (metis append.assoc append_Cons append_Nil replicate_Suc replicate_append_same)
    moreover have "\<not> Suc (length rs - Suc 0) \<le> n" using Suc.prems by arith
    ultimately show ?case using Suc.prems by (simp add: b' d drop_reservation_def list_update_append)
  qed simp
  let ?s = "fold exec_budget (map Drop [0..<length rs]) (b, rs)"
  have "budget_inv (cap div unit) unit ?s" by (rule budget.inv_fold [OF inv])
  moreover have "owned (snd ?s) = 0"
    unfolding drops [OF order_refl] by (simp add: owned_def sum_list_replicate)
  ultimately have "used_units (fst ?s) = 0"
    by (auto simp: budget_inv_def u64_eq_iff split: prod.splits)
  then show ?thesis using inv by (simp add: budget_inv_def word_le_def)
qed

theorem budget_accounts_exactly_witness:
  "\<exists>b rs. (b, rs) = fold exec_budget [Reserve 5000, Reserve 9000, Drop 0] (\<lparr>capacity_units = 4, unit_bytes = 4096, used_units = 0\<rparr>, [])
     \<and> uint (used_units b) = owned rs \<and> used_units b \<le> capacity_units b"
proof -
  have n: "budget_new 16384 4096 = Inr \<lparr>capacity_units = 4, unit_bytes = 4096, used_units = 0\<rparr>"
    by (simp add: budget_new_def)
  obtain b rs where e: "(b, rs) = fold exec_budget [Reserve 5000, Reserve 9000, Drop 0]
      (\<lparr>capacity_units = 4, unit_bytes = 4096, used_units = 0\<rparr>, [])"
    by (metis prod.collapse)
  from budget_accounts_exactly [OF n e] e show ?thesis by blast
qed

end
