(* ===== verification/Api_Limits.thy ===== *)
theory Api_Limits
  imports Decimal
begin

text \<open>
  The payload limits shared by the router and the provider planes
  (\<open>crates/api-limits/src/lib.rs\<close>): byte limits, admission units, the decimal settings they are
  read from, and the validation of a set of limits.
\<close>

section \<open>Byte limits and admission units\<close>

type_synonym byte_limit = u64

definition MIB :: u64 where
  "MIB = 1024 * 1024"

definition checked_mul_u64 :: "u64 \<Rightarrow> u64 \<Rightarrow> u64 option" where
  "checked_mul_u64 a b = (if uint a * uint b < 2 ^ 64 then Some (a * b) else None)"

definition from_mib :: "u64 \<Rightarrow> byte_limit option" where
  "from_mib mib = checked_mul_u64 mib MIB"

datatype limit_error =
    ZeroLimit
  | InvalidDecimal
  | LimitOverflow
  | PlatformOverflow
  | RequestExceedsHardCeiling
  | RequestExceedsSpool
  | SpoolExceedsHardCeiling
  | MemoryBudgetExceedsHardCeiling
  | MemoryThresholdExceedsRequest
  | ResponseExceedsHardCeiling
  | ResponseExceedsProcessBudget
  | FrameEnvelopeTooSmall

text \<open>The width of \<open>usize\<close> is the platform's.\<close>

definition as_usize :: "nat \<Rightarrow> byte_limit \<Rightarrow> limit_error + nat" where
  "as_usize platform_bits n = (if unat n < 2 ^ platform_bits then Inr (unat n) else Inl PlatformOverflow)"

definition byte_limit_display :: "byte_limit \<Rightarrow> string" where
  "byte_limit_display n =
     (if n mod MIB = 0 then digits_of (unat (n div MIB)) @ '' MiB'' else digits_of (unat n) @ '' bytes'')"

definition admission_units_new :: "32 word \<Rightarrow> 32 word option" where
  "admission_units_new units = (if units = 0 then None else Some units)"

definition admission_units_for_bytes :: "byte_limit \<Rightarrow> byte_limit \<Rightarrow> limit_error + 32 word" where
  "admission_units_for_bytes n unit =
     (if unit = 0 then Inl ZeroLimit
      else bind_res (ok_or LimitOverflow (checked_add_u64 n (unit - 1))) (\<lambda>summed.
           let rounded = summed div unit in
           bind_res (if uint rounded < 2 ^ 32 then Inr (ucast rounded) else Inl LimitOverflow) (\<lambda>units.
           ok_or ZeroLimit (admission_units_new units))))"

section \<open>Decimal settings\<close>

definition parse_decimal_mib :: "string \<Rightarrow> limit_error + byte_limit" where
  "parse_decimal_mib v =
     (if v = [] \<or> \<not> list_all is_ascii_digit v then Inl InvalidDecimal
      else bind_res (ok_or LimitOverflow (parse_u64 v)) (\<lambda>mib.
           if mib = 0 then Inl ZeroLimit else ok_or LimitOverflow (from_mib mib)))"

definition parse_decimal_seconds :: "string \<Rightarrow> limit_error + u64" where
  "parse_decimal_seconds v =
     (if v = [] \<or> \<not> list_all is_ascii_digit v then Inl InvalidDecimal
      else bind_res (ok_or LimitOverflow (parse_u64 v)) (\<lambda>seconds.
           if seconds = 0 then Inl ZeroLimit else Inr seconds))"

section \<open>Sets of limits\<close>

record body_limits =
  request_limit :: byte_limit
  memory_budget :: byte_limit
  spool_budget :: byte_limit
  memory_threshold :: byte_limit
  response_limit :: byte_limit

definition hard_REQUEST :: byte_limit where
  "hard_REQUEST = 256 * MIB"

definition hard_RESPONSE :: byte_limit where
  "hard_RESPONSE = 256 * MIB"

definition hard_SPOOL :: byte_limit where
  "hard_SPOOL = 16 * 1024 * MIB"

definition hard_MEMORY_BUDGET :: byte_limit where
  "hard_MEMORY_BUDGET = 8 * 1024 * MIB"

definition body_limits_validate :: "body_limits \<Rightarrow> byte_limit \<Rightarrow> limit_error + body_limits" where
  "body_limits_validate l spool_hard_ceiling =
     (if request_limit l = 0 \<or> memory_budget l = 0 \<or> spool_budget l = 0 \<or> memory_threshold l = 0
        \<or> response_limit l = 0 then Inl ZeroLimit
      else if hard_REQUEST < request_limit l then Inl RequestExceedsHardCeiling
      else if spool_budget l < request_limit l then Inl RequestExceedsSpool
      else if spool_hard_ceiling < spool_budget l then Inl SpoolExceedsHardCeiling
      else if hard_MEMORY_BUDGET < memory_budget l then Inl MemoryBudgetExceedsHardCeiling
      else if request_limit l < memory_threshold l then Inl MemoryThresholdExceedsRequest
      else if hard_RESPONSE < response_limit l then Inl ResponseExceedsHardCeiling
      else if memory_budget l < response_limit l then Inl ResponseExceedsProcessBudget
      else Inr l)"

definition validate_frame_envelope :: "byte_limit \<Rightarrow> byte_limit \<Rightarrow> byte_limit \<Rightarrow> limit_error + unit" where
  "validate_frame_envelope body framing_overhead envelope =
     bind_res (ok_or LimitOverflow (checked_add_u64 body framing_overhead)) (\<lambda>required.
       if envelope < required then Inl FrameEnvelopeTooSmall else Inr ())"

definition current_ROUTER :: body_limits where
  "current_ROUTER =
     \<lparr>request_limit = 256 * MIB, memory_budget = 4 * 1024 * MIB, spool_budget = 16 * 1024 * MIB,
      memory_threshold = 8 * MIB, response_limit = 32 * MIB\<rparr>"

definition current_PROVIDER :: body_limits where
  "current_PROVIDER =
     \<lparr>request_limit = 32 * MIB, memory_budget = 4 * 1024 * MIB, spool_budget = 16 * 1024 * MIB,
      memory_threshold = 8 * MIB, response_limit = 256 * MIB\<rparr>"

section \<open>What the limits guarantee\<close>

lemma uint_MIB: "uint MIB = 1048576"
  by (simp add: MIB_def)

lemma MIB_pos: "0 < uint MIB"
  by (simp add: uint_MIB)

lemma uint_mul_u64: "uint a * uint b < 2 ^ 64 \<Longrightarrow> uint (a * b :: u64) = uint a * uint b"
  by (simp add: uint_word_ariths)

lemma parse_u64_digits:
  assumes "v \<noteq> []" "list_all is_ascii_digit v"
  shows "parse_u64 v = (if digits_value v < 2 ^ 64 then Some (of_nat (digits_value v)) else None)"
proof -
  obtain c r where v: "v = c # r" using assms(1) by (cases v) auto
  have "c \<noteq> CHR ''+''" using assms(2) v by (auto simp: is_ascii_digit_def)
  then show ?thesis using assms v by (simp add: parse_u64_def parse_digits_def)
qed

text \<open>A setting is accepted exactly when it is a decimal number of mebibytes, at least one, whose bytes
  fit; the limit is then that many mebibytes.\<close>

lemma parse_decimal_mib_iff:
  "parse_decimal_mib v = Inr n \<longleftrightarrow>
     v \<noteq> [] \<and> list_all is_ascii_digit v \<and> 0 < digits_value v
     \<and> digits_value v * 1048576 < 2 ^ 64 \<and> unat n = digits_value v * 1048576"
proof (cases "v \<noteq> [] \<and> list_all is_ascii_digit v \<and> digits_value v < 2 ^ 64")
  case True
  let ?d = "digits_value v"
  have d: "uint (of_nat ?d :: u64) = int ?d"
    using True by (simp add: uint_word_of_int_eq take_bit_int_eq_self unsigned_of_nat take_bit_nat_eq_self)
  have zero: "(of_nat ?d :: u64) = 0 \<longleftrightarrow> ?d = 0" by (metis d of_nat_0 of_nat_eq_0_iff uint_0_iff)
  have m: "from_mib (of_nat ?d) = Some n \<longleftrightarrow> int ?d * 1048576 < 2 ^ 64 \<and> n = of_nat ?d * MIB" for n
    by (auto simp: from_mib_def checked_mul_u64_def uint_MIB d)
  have u: "unat n = ?d * 1048576 \<longleftrightarrow> n = of_nat ?d * MIB" if b: "int ?d * 1048576 < 2 ^ 64"
  proof -
    have "uint (of_nat ?d * MIB) = int ?d * 1048576" using b d uint_MIB by (subst uint_mul_u64) simp_all
    then have "unat (of_nat ?d * MIB :: u64) = ?d * 1048576" by (simp add: unat_eq_nat_uint nat_mult_distrib)
    then show ?thesis by (metis word_unat_eq_iff)
  qed
  show ?thesis using True zero m u by (auto simp: parse_decimal_mib_def parse_u64_digits)
next
  case False
  then show ?thesis by (auto simp: parse_decimal_mib_def parse_u64_digits)
qed

lemma parse_decimal_mib_digits:
  assumes "0 < n" "n * 1048576 < 2 ^ 64"
  shows "parse_decimal_mib (digits_of n) = Inr (of_nat (n * 1048576))"
proof -
  have "unat (of_nat (n * 1048576) :: u64) = n * 1048576"
    using assms(2) by (subst unsigned_of_nat) (simp add: take_bit_nat_eq_self)
  then show ?thesis using assms digits_of_ok [of n] by (simp add: parse_decimal_mib_iff)
qed

text \<open>Admission units are the bytes over the unit, rounded up, and never zero.\<close>

lemma admission_units_ceiling:
  assumes "admission_units_for_bytes n unit = Inr u"
  shows "0 < uint u \<and> (uint u - 1) * uint unit < uint n \<and> uint n \<le> uint u * uint unit"
proof -
  have pos: "0 < uint unit" using assms by (auto simp: admission_units_for_bytes_def word_neq_0_conv word_less_def split: if_splits)
  obtain s where s: "checked_add_u64 n (unit - 1) = Some s" "uint (s div unit) < 2 ^ 32"
    "u = ucast (s div unit)" "u \<noteq> 0"
    using assms by (auto simp: admission_units_for_bytes_def admission_units_new_def Let_def bind_res_eq_Inr split: if_splits)
  have "uint (unit - 1) = uint unit - 1" using pos by (simp add: uint_sub_u64 word_le_def)
  then have us: "uint s = uint n + uint unit - 1"
    using s(1) uint_add_u64 [of n "unit - 1"] by (auto simp: checked_add_u64_def split: if_splits)
  have "take_bit 32 (uint s div uint unit) = uint s div uint unit"
    using s(2) pos by (intro take_bit_int_eq_self) (simp_all add: uint_div pos_imp_zdiv_nonneg_iff)
  then have uu: "uint u = uint s div uint unit" using s(3) by (simp add: uint_div unsigned_ucast_eq)
  have "uint s = uint u * uint unit + uint s mod uint unit" by (simp add: uu)
  moreover have "0 \<le> uint s mod uint unit" "uint s mod uint unit < uint unit" using pos by simp_all
  moreover have "0 < uint u" using s(4) by (metis uint_0_iff unsigned_greater_eq order_le_less)
  ultimately show ?thesis using us by (simp add: left_diff_distrib)
qed

lemma body_limits_validate_iff:
  "body_limits_validate l c = Inr l' \<longleftrightarrow>
     l' = l \<and> 0 < request_limit l \<and> 0 < spool_budget l \<and> 0 < memory_threshold l \<and> 0 < response_limit l
     \<and> memory_threshold l \<le> request_limit l \<and> request_limit l \<le> spool_budget l \<and> spool_budget l \<le> c
     \<and> request_limit l \<le> hard_REQUEST \<and> response_limit l \<le> hard_RESPONSE
     \<and> response_limit l \<le> memory_budget l \<and> memory_budget l \<le> hard_MEMORY_BUDGET"
  by (auto simp: body_limits_validate_def word_neq_0_conv not_less)

lemma current_limits_valid:
  "body_limits_validate current_ROUTER hard_SPOOL = Inr current_ROUTER"
  "body_limits_validate current_PROVIDER hard_SPOOL = Inr current_PROVIDER"
  by (simp_all add: body_limits_validate_iff current_ROUTER_def current_PROVIDER_def hard_SPOOL_def
      hard_REQUEST_def hard_RESPONSE_def hard_MEMORY_BUDGET_def MIB_def)

end
