(* ===== verification/Body_Storage.thy ===== *)
theory Body_Storage
  imports Body_Budget Api_Limits
begin

text \<open>
  Storage of request bodies (\<open>crates/bounded-body/src/storage.rs\<close>): chunks are kept in memory up to
  a threshold and in an unlinked private file beyond it, under a reservation of the storage budget
  for every stored byte and a reservation of the memory budget for the bytes held in memory.

  A body owns its two reservations; the budgets and the counter of live files are shared and form
  the world. What the operating system answers is an argument of the operation: \<open>spool_io\<close> for
  creating, writing and reading a file. A file is the bytes written to it.
\<close>

section \<open>Configuration and errors\<close>

record storage_config =
  sc_request_limit :: byte_limit
  sc_memory_threshold :: byte_limit

datatype storage_error =
    InvalidConfig
  | TooLarge
  | StorageOverflow
  | StorageExhausted
  | MemoryExhausted
  | PrivateSpoolUnavailable
  | StorageIo

definition storage_config_validate :: "nat \<Rightarrow> storage_config \<Rightarrow> storage_error + storage_config" where
  "storage_config_validate platform_bits c =
     (if sc_request_limit c = 0 then Inl InvalidConfig
      else if sc_request_limit c < sc_memory_threshold c then Inl InvalidConfig
      else case as_usize platform_bits (sc_request_limit c) of Inl _ \<Rightarrow> Inl InvalidConfig | Inr _ \<Rightarrow> Inr c)"

fun storage_capacity :: "capacity_error \<Rightarrow> storage_error" where
  "storage_capacity ArithmeticOverflow = StorageOverflow"
| "storage_capacity CapacityExhausted = StorageExhausted"

fun memory_capacity :: "capacity_error \<Rightarrow> storage_error" where
  "memory_capacity ArithmeticOverflow = StorageOverflow"
| "memory_capacity CapacityExhausted = MemoryExhausted"

section \<open>The private spool\<close>

text \<open>What the system answers: the outcome of each attempt to create a file (created, with whether its
  name was unlinked), the two writes and the flush of a spill, the write of a chunk, and for reading
  back the allocation, the seek and the bytes read.\<close>

datatype open_result = Opened bool | NameExists | OpenFailed

record spool_io =
  io_open :: "nat \<Rightarrow> open_result"
  io_write_prefix :: bool
  io_write :: bool
  io_flush :: bool
  io_alloc :: bool
  io_seek :: bool
  io_read :: "string \<Rightarrow> string option"

fun spool_create :: "open_result list \<Rightarrow> storage_error + unit" where
  "spool_create [] = Inl PrivateSpoolUnavailable"
| "spool_create (answer # answers) =
     (case answer of
        Opened unlinked \<Rightarrow> if unlinked then Inr () else Inl PrivateSpoolUnavailable
      | NameExists \<Rightarrow> spool_create answers
      | OpenFailed \<Rightarrow> Inl PrivateSpoolUnavailable)"

section \<open>A body being stored\<close>

datatype store_state = InMemory string | Spooled string | Poisoned

record body_store =
  bs_config :: storage_config
  bs_storage :: u64
  bs_memory :: u64
  bs_state :: store_state
  bs_len :: u64

record body_world =
  storage_units :: budget
  memory_units :: budget
  live_spool_files :: u64

text \<open>\<open>belongs_to\<close> and the identity of the two budgets compare pointers: the three tests of \<open>start\<close> are
  arguments.\<close>

definition store_start ::
    "nat \<Rightarrow> storage_config \<Rightarrow> bool \<Rightarrow> bool \<Rightarrow> bool \<Rightarrow> u64 \<Rightarrow> u64 \<Rightarrow> storage_error + body_store" where
  "store_start platform_bits config storage_belongs memory_belongs same_budget storage memory =
     bind_res (storage_config_validate platform_bits config) (\<lambda>c.
       if \<not> storage_belongs \<or> \<not> memory_belongs \<or> same_budget then Inl InvalidConfig
       else Inr \<lparr>bs_config = c, bs_storage = storage, bs_memory = memory, bs_state = InMemory [], bs_len = 0\<rparr>)"

definition set_storage :: "budget \<times> u64 \<Rightarrow> body_world \<times> body_store \<Rightarrow> body_world \<times> body_store" where
  "set_storage r ws = ((fst ws)\<lparr>storage_units := fst r\<rparr>, (snd ws)\<lparr>bs_storage := snd r\<rparr>)"

definition set_memory :: "budget \<times> u64 \<Rightarrow> body_world \<times> body_store \<Rightarrow> body_world \<times> body_store" where
  "set_memory r ws = ((fst ws)\<lparr>memory_units := fst r\<rparr>, (snd ws)\<lparr>bs_memory := snd r\<rparr>)"

definition grow_storage :: "u64 \<Rightarrow> body_world \<times> body_store \<Rightarrow> capacity_error + body_world \<times> body_store" where
  "grow_storage n ws =
     bind_res (try_grow_to n (storage_units (fst ws)) (bs_storage (snd ws))) (\<lambda>r. Inr (set_storage r ws))"

definition grow_memory :: "u64 \<Rightarrow> body_world \<times> body_store \<Rightarrow> capacity_error + body_world \<times> body_store" where
  "grow_memory n ws =
     bind_res (try_grow_to n (memory_units (fst ws)) (bs_memory (snd ws))) (\<lambda>r. Inr (set_memory r ws))"

definition shrink_storage :: "u64 \<Rightarrow> body_world \<times> body_store \<Rightarrow> reservation_error + body_world \<times> body_store" where
  "shrink_storage n ws =
     bind_res (shrink_to n (storage_units (fst ws)) (bs_storage (snd ws))) (\<lambda>r. Inr (set_storage r ws))"

definition shrink_memory :: "u64 \<Rightarrow> body_world \<times> body_store \<Rightarrow> reservation_error + body_world \<times> body_store" where
  "shrink_memory n ws =
     bind_res (shrink_to n (memory_units (fst ws)) (bs_memory (snd ws))) (\<lambda>r. Inr (set_memory r ws))"

text \<open>\<open>let _ = self.storage.shrink_to(..)\<close>: a refused shrink leaves everything as it was.\<close>

definition undo_storage :: "body_world \<times> body_store \<Rightarrow> body_world \<times> body_store" where
  "undo_storage ws = (case shrink_storage (bs_len (snd ws)) ws of Inl _ \<Rightarrow> ws | Inr ws' \<Rightarrow> ws')"

definition append_bytes :: "store_state \<Rightarrow> u64 \<Rightarrow> body_world \<times> body_store \<Rightarrow> body_world \<times> body_store" where
  "append_bytes st next_len ws = (fst ws, (snd ws)\<lparr>bs_state := st, bs_len := next_len\<rparr>)"

type_synonym push_result = "(storage_error + unit) \<times> body_world \<times> body_store"

definition push_memory :: "string \<Rightarrow> u64 \<Rightarrow> string \<Rightarrow> body_world \<times> body_store \<Rightarrow> push_result" where
  "push_memory chunk next_len chunks ws =
     (case grow_storage next_len ws of
        Inl e \<Rightarrow> (Inl (storage_capacity e), ws)
      | Inr ws1 \<Rightarrow>
          (case grow_memory next_len ws1 of
             Inl e \<Rightarrow> (Inl (memory_capacity e), undo_storage ws1)
           | Inr ws2 \<Rightarrow> (Inr (), append_bytes (InMemory (chunks @ chunk)) next_len ws2)))"

definition spill_file :: "spool_io \<Rightarrow> storage_error + unit" where
  "spill_file io =
     bind_res (spool_create (map (io_open io) [0..<32])) (\<lambda>_.
       if io_write_prefix io \<and> io_write io \<and> io_flush io then Inr () else Inl StorageIo)"

definition spill_and_push ::
    "spool_io \<Rightarrow> string \<Rightarrow> u64 \<Rightarrow> string \<Rightarrow> body_world \<times> body_store \<Rightarrow> push_result" where
  "spill_and_push io chunk next_len chunks ws =
     (case checked_add_u64 (bs_len (snd ws)) next_len of
        None \<Rightarrow> (Inl StorageOverflow, ws)
      | Some transition \<Rightarrow>
          (case grow_storage transition ws of
             Inl e \<Rightarrow> (Inl (storage_capacity e), ws)
           | Inr ws1 \<Rightarrow>
               (case spill_file io of
                  Inl e \<Rightarrow> (Inl e, undo_storage ws1)
                | Inr _ \<Rightarrow>
                    let ws2 = ((fst ws1)\<lparr>live_spool_files := live_spool_files (fst ws1) + 1\<rparr>,
                               (snd ws1)\<lparr>bs_state := Spooled (chunks @ chunk)\<rparr>)
                    in case shrink_memory 0 ws2 of
                         Inl _ \<Rightarrow> (Inl InvalidConfig, ws2)
                       | Inr ws3 \<Rightarrow>
                           (case shrink_storage next_len ws3 of
                              Inl _ \<Rightarrow> (Inl InvalidConfig, ws3)
                            | Inr ws4 \<Rightarrow> (Inr (), append_bytes (Spooled (chunks @ chunk)) next_len ws4)))))"

definition poison :: "body_world \<times> body_store \<Rightarrow> body_world \<times> body_store" where
  "poison ws = ((fst ws)\<lparr>live_spool_files := live_spool_files (fst ws) - 1\<rparr>, (snd ws)\<lparr>bs_state := Poisoned\<rparr>)"

definition push_spool :: "spool_io \<Rightarrow> string \<Rightarrow> u64 \<Rightarrow> string \<Rightarrow> body_world \<times> body_store \<Rightarrow> push_result" where
  "push_spool io chunk next_len chunks ws =
     (case grow_storage next_len ws of
        Inl e \<Rightarrow> (Inl (storage_capacity e), ws)
      | Inr ws1 \<Rightarrow>
          if \<not> io_write io then (Inl StorageIo, poison (undo_storage ws1))
          else (Inr (), append_bytes (Spooled (chunks @ chunk)) next_len ws1))"

definition store_push :: "spool_io \<Rightarrow> string \<Rightarrow> body_world \<times> body_store \<Rightarrow> push_result" where
  "store_push io chunk ws =
     (let s = snd ws in
      if bs_state s = Poisoned then (Inl StorageIo, ws)
      else if \<not> length chunk < 2 ^ 64 then (Inl StorageOverflow, ws)
      else case checked_add_u64 (bs_len s) (of_nat (length chunk)) of
             None \<Rightarrow> (Inl StorageOverflow, ws)
           | Some next_len \<Rightarrow>
               if sc_request_limit (bs_config s) < next_len then (Inl TooLarge, ws)
               else case bs_state s of
                      InMemory chunks \<Rightarrow>
                        if next_len \<le> sc_memory_threshold (bs_config s) then push_memory chunk next_len chunks ws
                        else spill_and_push io chunk next_len chunks ws
                    | Spooled chunks \<Rightarrow> push_spool io chunk next_len chunks ws
                    | Poisoned \<Rightarrow> (Inl StorageIo, ws))"

section \<open>The stored body\<close>

datatype stored_body = MemoryBody string u64 u64 u64 | SpoolBody string u64 u64 u64

definition release_both :: "body_world \<Rightarrow> u64 \<Rightarrow> u64 \<Rightarrow> body_world" where
  "release_both w storage memory =
     w\<lparr>storage_units := fst (drop_reservation (storage_units w) storage),
       memory_units := fst (drop_reservation (memory_units w) memory)\<rparr>"

definition close_file :: "body_world \<Rightarrow> body_world" where
  "close_file w = w\<lparr>live_spool_files := live_spool_files w - 1\<rparr>"

text \<open>Dropping a store gives back both reservations and closes its file.\<close>

definition drop_store :: "body_world \<times> body_store \<Rightarrow> body_world" where
  "drop_store ws =
     (let w = release_both (fst ws) (bs_storage (snd ws)) (bs_memory (snd ws))
      in case bs_state (snd ws) of Spooled _ \<Rightarrow> close_file w | _ \<Rightarrow> w)"

definition finish_body :: "body_world \<times> body_store \<Rightarrow> bool \<Rightarrow> (storage_error + stored_body) \<times> body_world" where
  "finish_body ws flushed =
     (let s = snd ws in
      case bs_state s of
        InMemory chunks \<Rightarrow> (Inr (MemoryBody chunks (bs_len s) (bs_storage s) (bs_memory s)), fst ws)
      | Spooled chunks \<Rightarrow>
          if flushed then (Inr (SpoolBody chunks (bs_len s) (bs_storage s) (bs_memory s)), fst ws)
          else (Inl StorageIo, drop_store ws)
      | Poisoned \<Rightarrow> (Inl StorageIo, drop_store ws))"

definition store_finish :: "spool_io \<Rightarrow> body_world \<times> body_store \<Rightarrow> (storage_error + stored_body) \<times> body_world" where
  "store_finish io ws =
     (case shrink_storage (bs_len (snd ws)) ws of
        Inl _ \<Rightarrow> (Inl InvalidConfig, drop_store ws)
      | Inr ws1 \<Rightarrow>
          (case bs_state (snd ws1) of
             Poisoned \<Rightarrow> (Inl StorageIo, drop_store ws1)
           | InMemory _ \<Rightarrow>
               (case shrink_memory (bs_len (snd ws1)) ws1 of
                  Inl _ \<Rightarrow> (Inl InvalidConfig, drop_store ws1)
                | Inr ws2 \<Rightarrow> finish_body ws2 (io_flush io))
           | Spooled _ \<Rightarrow>
               (case shrink_memory 0 ws1 of
                  Inl _ \<Rightarrow> (Inl InvalidConfig, drop_store ws1)
                | Inr ws2 \<Rightarrow> finish_body ws2 (io_flush io))))"

text \<open>A lease is the pair of reservations that outlives the bytes.\<close>

definition into_memory :: "stored_body \<Rightarrow> stored_body + string \<times> u64 \<times> u64" where
  "into_memory body =
     (case body of
        MemoryBody chunks n storage memory \<Rightarrow> Inr (chunks, storage, memory)
      | SpoolBody chunks n storage memory \<Rightarrow> Inl body)"

definition into_bytes ::
    "nat \<Rightarrow> spool_io \<Rightarrow> stored_body \<Rightarrow> body_world \<Rightarrow> (storage_error + string \<times> u64 \<times> u64) \<times> body_world" where
  "into_bytes platform_bits io body w =
     (case body of
        MemoryBody chunks n storage memory \<Rightarrow> (Inr (chunks, storage, memory), w)
      | SpoolBody file n storage memory \<Rightarrow>
          (case try_grow_to n (memory_units w) memory of
             Inl e \<Rightarrow> (Inl (memory_capacity e), close_file (release_both w storage memory))
           | Inr (b, memory') \<Rightarrow>
               let w1 = w\<lparr>memory_units := b\<rparr>;
                   failed = close_file (release_both w1 storage memory')
               in case as_usize platform_bits n of
                    Inl _ \<Rightarrow> (Inl StorageOverflow, failed)
                  | Inr expected \<Rightarrow>
                      if \<not> io_alloc io then (Inl MemoryExhausted, failed)
                      else if \<not> io_seek io then (Inl StorageIo, failed)
                      else case io_read io file of
                             None \<Rightarrow> (Inl StorageIo, failed)
                           | Some contents \<Rightarrow>
                               if length contents \<noteq> expected then (Inl StorageIo, failed)
                               else (Inr (contents, storage, memory'), close_file w1)))"

text \<open>\<open>copy_to\<close>: the bytes that reach the writer.\<close>

definition copy_to :: "spool_io \<Rightarrow> stored_body \<Rightarrow> storage_error + string" where
  "copy_to io body =
     (case body of
        MemoryBody chunks n storage memory \<Rightarrow> if io_write io then Inr chunks else Inl StorageIo
      | SpoolBody file n storage memory \<Rightarrow>
          if \<not> io_seek io then Inl StorageIo
          else case io_read io file of
                 None \<Rightarrow> Inl StorageIo
               | Some contents \<Rightarrow> if io_write io then Inr contents else Inl StorageIo)"

section \<open>Reservations that cover bytes\<close>

lemma uint_pos_iff: "0 < uint (u :: u64) \<longleftrightarrow> u \<noteq> 0"
  using uint_u64_bounds(1) [of u] uint_0_iff [of u] by linarith

lemma uint_length_u64: "k < 2 ^ 64 \<Longrightarrow> uint (of_nat k :: u64) = int k"
  by (simp add: unsigned_of_nat take_bit_nat_eq_self uint_word_of_int_eq take_bit_int_eq_self)

definition covers :: "u64 \<Rightarrow> u64 \<Rightarrow> u64 \<Rightarrow> bool" where
  "covers unit u n \<longleftrightarrow> (case units_for_capacity n unit of Inl _ \<Rightarrow> False | Inr t \<Rightarrow> t \<le> u)"

lemma units_for_uint:
  assumes "units_for_capacity n unit = Inr t" "unit \<noteq> 0" "n \<noteq> 0"
  shows "uint t = (uint n + (uint unit - 1)) div uint unit \<and> uint n + (uint unit - 1) < 2 ^ 64"
proof -
  have u: "uint (unit - 1) = uint unit - 1"
    using assms(2) uint_pos_iff [of unit] by (simp add: uint_sub_u64 word_le_def)
  have "uint n + (uint unit - 1) < 2 ^ 64" "t = (n + (unit - 1)) div unit"
    using assms(1,3) u by (auto simp: units_for_capacity_def checked_add_u64_def bind_res_eq_Inr split: if_splits)
  then show ?thesis using uint_add_u64 [of n "unit - 1"] u by (simp add: uint_div)
qed

lemma units_for_mono:
  assumes "units_for_capacity n unit = Inr t" "unit \<noteq> 0" "m \<le> n"
  shows "\<exists>t'. units_for_capacity m unit = Inr t' \<and> t' \<le> t"
proof (cases "m = 0")
  case False
  have mn: "uint m \<le> uint n" using assms(3) by (simp add: word_le_def)
  have n: "n \<noteq> 0" using mn False uint_pos_iff [of m] uint_pos_iff [of n] by linarith
  have u: "uint (unit - 1) = uint unit - 1"
    using assms(2) uint_pos_iff [of unit] by (simp add: uint_sub_u64 word_le_def)
  note t = units_for_uint [OF assms(1,2) n]
  have "uint m + uint (unit - 1) < 2 ^ 64" using t mn u by linarith
  then obtain t' where t': "units_for_capacity m unit = Inr t'"
    using False by (simp add: units_for_capacity_def checked_add_u64_def)
  have "uint t' \<le> uint t"
    using units_for_uint [OF t' assms(2) False] t mn assms(2) uint_pos_iff [of unit] by (simp add: zdiv_mono1)
  then show ?thesis using t' by (simp add: word_le_def)
qed (simp add: units_for_capacity_def)

lemma covers_mono: "covers unit u n \<Longrightarrow> unit \<noteq> 0 \<Longrightarrow> m \<le> n \<Longrightarrow> u \<le> u' \<Longrightarrow> covers unit u' m"
  using units_for_mono [of n unit _ m] by (fastforce simp: covers_def split: sum.splits)

lemma covers_zero [simp]: "covers unit u 0"
  by (simp add: covers_def units_for_capacity_def)

lemma ceil_div_mult: "0 < b \<Longrightarrow> a \<le> (a + (b - 1)) div b * (b :: int)"
proof -
  assume "0 < b"
  then have "(a + (b - 1)) mod b < b" by simp
  moreover have "(a + (b - 1)) div b * b = a + (b - 1) - (a + (b - 1)) mod b" by (rule minus_mod_eq_div_mult [symmetric])
  ultimately show ?thesis by linarith
qed

text \<open>Units that cover a number of bytes hold them.\<close>

lemma covers_bytes:
  assumes "covers unit u n" "unit \<noteq> 0"
  shows "uint n \<le> uint u * uint unit"
proof (cases "n = 0")
  case False
  obtain t where t: "units_for_capacity n unit = Inr t" "t \<le> u"
    using assms(1) by (auto simp: covers_def split: sum.splits)
  have pos: "0 < uint unit" using assms(2) by (simp add: uint_pos_iff)
  have "uint n \<le> uint t * uint unit"
    using units_for_uint [OF t(1) assms(2) False] ceil_div_mult [OF pos, of "uint n"] by simp
  also have "\<dots> \<le> uint u * uint unit" using t(2) by (intro mult_right_mono) (simp_all add: word_le_def)
  finally show ?thesis .
qed simp

lemma grow_covers: "try_grow_to n b u = Inr (b', u') \<Longrightarrow> covers (unit_bytes b) u' n \<and> u \<le> u'"
  by (auto simp: try_grow_to_def covers_def bind_res_eq_Inr split: if_splits sum.splits)

lemma shrink_covers:
  "covers (unit_bytes b) u n \<Longrightarrow> \<exists>b' u'. shrink_to n b u = Inr (b', u') \<and> covers (unit_bytes b) u' n"
  by (auto simp: shrink_to_def covers_def split: sum.splits)

text \<open>A budget of which one reservation owns \<open>u\<close> units, besides what others own of it in \<open>b0\<close>.\<close>

definition balance :: "budget \<Rightarrow> u64 \<Rightarrow> budget \<Rightarrow> bool" where
  "balance b0 u b \<longleftrightarrow> capacity_units b = capacity_units b0 \<and> unit_bytes b = unit_bytes b0
     \<and> uint (used_units b) = uint (used_units b0) + uint u \<and> uint (used_units b) \<le> uint (capacity_units b)"

lemma balance_moves: "balance b0 u b \<Longrightarrow> moves b u b' u' \<Longrightarrow> balance b0 u' b'"
  by (auto simp: balance_def moves_def)

lemma balance_grow:
  assumes "balance b0 u b" "try_grow_to n b u = Inr (b', u')"
  shows "balance b0 u' b' \<and> covers (unit_bytes b0) u' n \<and> u \<le> u'"
proof -
  have "uint u \<le> uint (used_units b)" "uint (used_units b) \<le> uint (capacity_units b)"
    using assms(1) by (auto simp: balance_def)
  from reservation_moves(1) [OF this assms(2)] have "balance b0 u' b'"
    using assms(1) by (rule balance_moves [rotated])
  moreover have "unit_bytes b = unit_bytes b0" using assms(1) by (simp add: balance_def)
  ultimately show ?thesis using grow_covers [OF assms(2)] by simp
qed

lemma balance_shrink:
  assumes "balance b0 u b" "shrink_to n b u = Inr (b', u')"
  shows "balance b0 u' b'"
proof -
  have "uint u \<le> uint (used_units b)" "uint (used_units b) \<le> uint (capacity_units b)"
    using assms(1) by (auto simp: balance_def)
  from reservation_moves(2) [OF this assms(2)] show ?thesis using assms(1) by (rule balance_moves [rotated])
qed

lemma balance_drop:
  assumes "balance b0 u b"
  shows "fst (drop_reservation b u) = b0"
proof -
  have le: "uint u \<le> uint (used_units b)" using assms by (simp add: balance_def)
  show ?thesis
    using assms release_inv [OF le] by (auto simp: balance_def drop_reservation_def u64_eq_iff intro: budget.equality)
qed

lemma balance_grow_succeeds:
  assumes "balance b0 u b" "units_for_capacity n (unit_bytes b0) = Inr t"
    and "uint (used_units b0) + uint t \<le> uint (capacity_units b0)"
  shows "\<exists>r. try_grow_to n b u = Inr r"
proof (cases "t \<le> u")
  case False
  then have ut: "uint (t - u) = uint t - uint u" by (intro uint_sub_u64) simp
  have sum: "uint (used_units b) + uint (t - u) = uint (used_units b0) + uint t" using assms(1) ut by (simp add: balance_def)
  have "uint (used_units b) + uint (t - u) < 2 ^ 64"
    using sum assms(3) uint_u64_lt [of "capacity_units b0"] by linarith
  then have "checked_add_u64 (used_units b) (t - u) = Some (used_units b + (t - u))"
    "uint (used_units b + (t - u)) \<le> uint (capacity_units b)"
    using sum assms(1,3) by (simp_all add: checked_add_u64_def uint_add_u64 balance_def)
  then show ?thesis using assms(1,2) False
    by (simp add: try_grow_to_def budget_acquire_def balance_def word_le_def)
qed (use assms in \<open>simp add: try_grow_to_def balance_def\<close>)

section \<open>The invariant of a body\<close>

text \<open>The world besides the body is \<open>w0\<close>: the body owns what the budgets and the file counter have
  above it, and its reservations cover its bytes.\<close>

definition held :: "u64 \<Rightarrow> u64 \<Rightarrow> body_store \<Rightarrow> bool" where
  "held storage_unit memory_unit s \<longleftrightarrow> bs_len s \<le> sc_request_limit (bs_config s) \<and>
     (case bs_state s of
        InMemory chunks \<Rightarrow> uint (bs_len s) = int (length chunks)
          \<and> covers storage_unit (bs_storage s) (bs_len s) \<and> covers memory_unit (bs_memory s) (bs_len s)
      | Spooled chunks \<Rightarrow> uint (bs_len s) = int (length chunks) \<and> covers storage_unit (bs_storage s) (bs_len s)
      | Poisoned \<Rightarrow> True)"

definition is_spooled :: "body_store \<Rightarrow> bool" where
  "is_spooled s \<longleftrightarrow> (case bs_state s of Spooled _ \<Rightarrow> True | _ \<Rightarrow> False)"

definition store_inv :: "body_world \<Rightarrow> body_world \<times> body_store \<Rightarrow> bool" where
  "store_inv w0 ws \<longleftrightarrow>
     balance (storage_units w0) (bs_storage (snd ws)) (storage_units (fst ws))
     \<and> balance (memory_units w0) (bs_memory (snd ws)) (memory_units (fst ws))
     \<and> live_spool_files (fst ws) = live_spool_files w0 + (if is_spooled (snd ws) then 1 else 0)
     \<and> held (unit_bytes (storage_units w0)) (unit_bytes (memory_units w0)) (snd ws)"

text \<open>Dropping the body leaves the world as it would be without it.\<close>

lemma drop_store_restores: "store_inv w0 ws \<Longrightarrow> drop_store ws = w0"
  by (auto simp: store_inv_def drop_store_def release_both_def close_file_def is_spooled_def balance_drop Let_def
      split: store_state.splits intro!: body_world.equality)

lemma storage_step_simps [simp]:
  "bs_config (snd (set_storage r ws)) = bs_config (snd ws)" "bs_memory (snd (set_storage r ws)) = bs_memory (snd ws)"
  "bs_state (snd (set_storage r ws)) = bs_state (snd ws)" "bs_len (snd (set_storage r ws)) = bs_len (snd ws)"
  "memory_units (fst (set_storage r ws)) = memory_units (fst ws)" "bs_storage (snd (set_storage r ws)) = snd r"
  "live_spool_files (fst (set_storage r ws)) = live_spool_files (fst ws)" "storage_units (fst (set_storage r ws)) = fst r"
  by (simp_all add: set_storage_def)

lemma memory_step_simps [simp]:
  "bs_config (snd (set_memory r ws)) = bs_config (snd ws)" "bs_storage (snd (set_memory r ws)) = bs_storage (snd ws)"
  "bs_state (snd (set_memory r ws)) = bs_state (snd ws)" "bs_len (snd (set_memory r ws)) = bs_len (snd ws)"
  "storage_units (fst (set_memory r ws)) = storage_units (fst ws)" "bs_memory (snd (set_memory r ws)) = snd r"
  "live_spool_files (fst (set_memory r ws)) = live_spool_files (fst ws)" "memory_units (fst (set_memory r ws)) = fst r"
  by (simp_all add: set_memory_def)

text \<open>What a step on the reservations keeps: the balances, the state and everything else of the body.\<close>

definition reserves_only :: "body_world \<Rightarrow> body_world \<times> body_store \<Rightarrow> body_world \<times> body_store \<Rightarrow> bool" where
  "reserves_only w0 ws ws' \<longleftrightarrow>
     (balance (storage_units w0) (bs_storage (snd ws)) (storage_units (fst ws)) \<longrightarrow>
        balance (storage_units w0) (bs_storage (snd ws')) (storage_units (fst ws')))
     \<and> (balance (memory_units w0) (bs_memory (snd ws)) (memory_units (fst ws)) \<longrightarrow>
        balance (memory_units w0) (bs_memory (snd ws')) (memory_units (fst ws')))
     \<and> live_spool_files (fst ws') = live_spool_files (fst ws) \<and> bs_state (snd ws') = bs_state (snd ws)
     \<and> bs_config (snd ws') = bs_config (snd ws) \<and> bs_len (snd ws') = bs_len (snd ws)"

lemma grow_storage_settled:
  assumes "grow_storage n ws = Inr ws'" "balance (storage_units w0) (bs_storage (snd ws)) (storage_units (fst ws))"
  shows "reserves_only w0 ws ws' \<and> covers (unit_bytes (storage_units w0)) (bs_storage (snd ws')) n
    \<and> bs_storage (snd ws) \<le> bs_storage (snd ws') \<and> bs_memory (snd ws') = bs_memory (snd ws)"
  using assms balance_grow [OF assms(2)] by (fastforce simp: grow_storage_def reserves_only_def)

lemma grow_memory_settled:
  assumes "grow_memory n ws = Inr ws'" "balance (memory_units w0) (bs_memory (snd ws)) (memory_units (fst ws))"
  shows "reserves_only w0 ws ws' \<and> covers (unit_bytes (memory_units w0)) (bs_memory (snd ws')) n
    \<and> bs_memory (snd ws) \<le> bs_memory (snd ws') \<and> bs_storage (snd ws') = bs_storage (snd ws)"
  using assms balance_grow [OF assms(2)] by (fastforce simp: grow_memory_def reserves_only_def)

lemma shrink_storage_settled:
  assumes "balance (storage_units w0) (bs_storage (snd ws)) (storage_units (fst ws))"
    and "covers (unit_bytes (storage_units w0)) (bs_storage (snd ws)) n"
  shows "\<exists>ws'. shrink_storage n ws = Inr ws' \<and> reserves_only w0 ws ws'
    \<and> covers (unit_bytes (storage_units w0)) (bs_storage (snd ws')) n \<and> bs_memory (snd ws') = bs_memory (snd ws)"
proof -
  have u: "unit_bytes (storage_units (fst ws)) = unit_bytes (storage_units w0)" using assms(1) by (simp add: balance_def)
  obtain b u where r: "shrink_to n (storage_units (fst ws)) (bs_storage (snd ws)) = Inr (b, u)"
    "covers (unit_bytes (storage_units w0)) u n"
    using shrink_covers [of "storage_units (fst ws)" "bs_storage (snd ws)" n] assms(2) u by auto
  then show ?thesis using balance_shrink [OF assms(1) r(1)] by (auto simp: shrink_storage_def reserves_only_def)
qed

lemma shrink_memory_settled:
  assumes "balance (memory_units w0) (bs_memory (snd ws)) (memory_units (fst ws))"
    and "covers (unit_bytes (memory_units w0)) (bs_memory (snd ws)) n"
  shows "\<exists>ws'. shrink_memory n ws = Inr ws' \<and> reserves_only w0 ws ws'
    \<and> covers (unit_bytes (memory_units w0)) (bs_memory (snd ws')) n \<and> bs_storage (snd ws') = bs_storage (snd ws)"
proof -
  have u: "unit_bytes (memory_units (fst ws)) = unit_bytes (memory_units w0)" using assms(1) by (simp add: balance_def)
  obtain b u where r: "shrink_to n (memory_units (fst ws)) (bs_memory (snd ws)) = Inr (b, u)"
    "covers (unit_bytes (memory_units w0)) u n"
    using shrink_covers [of "memory_units (fst ws)" "bs_memory (snd ws)" n] assms(2) u by auto
  then show ?thesis using balance_shrink [OF assms(1) r(1)] by (auto simp: shrink_memory_def reserves_only_def)
qed

lemma covers_more: "covers unit u n \<Longrightarrow> u \<le> u' \<Longrightarrow> covers unit u' n"
  by (auto simp: covers_def split: sum.splits)

lemma settled_inv:
  assumes "store_inv w0 ws" "reserves_only w0 ws ws'"
    and "held (unit_bytes (storage_units w0)) (unit_bytes (memory_units w0)) (snd ws')"
  shows "store_inv w0 ws'"
  using assms by (auto simp: store_inv_def reserves_only_def is_spooled_def)

lemma shrink_storage_any:
  assumes "shrink_storage n ws = Inr ws'" "balance (storage_units w0) (bs_storage (snd ws)) (storage_units (fst ws))"
  shows "reserves_only w0 ws ws' \<and> covers (unit_bytes (storage_units w0)) (bs_storage (snd ws')) n
    \<and> bs_memory (snd ws') = bs_memory (snd ws)"
proof -
  have u: "unit_bytes (storage_units (fst ws)) = unit_bytes (storage_units w0)" using assms(2) by (simp add: balance_def)
  have "covers (unit_bytes (storage_units w0)) (bs_storage (snd ws)) n"
    using assms(1) u by (auto simp: shrink_storage_def shrink_to_def covers_def split: sum.splits if_splits)
  from shrink_storage_settled [OF assms(2) this] show ?thesis using assms(1) by auto
qed

lemma undo_storage_inv:
  assumes "store_inv w0 ws"
  shows "store_inv w0 (undo_storage ws) \<and> bs_state (snd (undo_storage ws)) = bs_state (snd ws)"
proof (cases "shrink_storage (bs_len (snd ws)) ws")
  case (Inr ws')
  have "balance (storage_units w0) (bs_storage (snd ws)) (storage_units (fst ws))"
    using assms by (simp add: store_inv_def)
  note s = shrink_storage_any [OF Inr this]
  then have "held (unit_bytes (storage_units w0)) (unit_bytes (memory_units w0)) (snd ws')"
    using assms by (auto simp: store_inv_def held_def reserves_only_def split: store_state.splits)
  then have "store_inv w0 ws'" using settled_inv [OF assms] s by blast
  moreover have "bs_state (snd ws') = bs_state (snd ws)" using s by (simp add: reserves_only_def)
  ultimately show ?thesis using Inr by (simp add: undo_storage_def)
qed (simp add: undo_storage_def assms)

lemma grow_storage_inv:
  assumes "store_inv w0 ws" "grow_storage n ws = Inr ws'"
  shows "store_inv w0 ws' \<and> reserves_only w0 ws ws' \<and> covers (unit_bytes (storage_units w0)) (bs_storage (snd ws')) n"
proof -
  have "balance (storage_units w0) (bs_storage (snd ws)) (storage_units (fst ws))"
    using assms(1) by (simp add: store_inv_def)
  note s = grow_storage_settled [OF assms(2) this]
  then have "held (unit_bytes (storage_units w0)) (unit_bytes (memory_units w0)) (snd ws')"
    using assms(1) by (auto simp: store_inv_def held_def reserves_only_def intro: covers_more split: store_state.splits)
  then show ?thesis using settled_inv [OF assms(1)] s by blast
qed

lemma push_memory_inv:
  assumes inv: "store_inv w0 ws" and st: "bs_state (snd ws) = InMemory chunks"
    and len: "uint next_len = int (length (chunks @ chunk))" "next_len \<le> sc_request_limit (bs_config (snd ws))"
  shows "store_inv w0 (snd (push_memory chunk next_len chunks ws))"
proof (cases "grow_storage next_len ws")
  case (Inr ws1)
  note g = grow_storage_inv [OF inv Inr]
  show ?thesis
  proof (cases "grow_memory next_len ws1")
    case (Inl e)
    then show ?thesis using Inr g undo_storage_inv by (simp add: push_memory_def)
  next
    case (Inr ws2)
    have "balance (memory_units w0) (bs_memory (snd ws1)) (memory_units (fst ws1))"
      using g by (simp add: store_inv_def)
    note m = grow_memory_settled [OF Inr this]
    have "store_inv w0 (append_bytes (InMemory (chunks @ chunk)) next_len ws2)"
      using g m len st by (auto simp: store_inv_def held_def reserves_only_def append_bytes_def is_spooled_def)
    then show ?thesis using \<open>grow_storage next_len ws = Inr ws1\<close> Inr by (simp add: push_memory_def)
  qed
qed (simp add: push_memory_def inv)

lemma push_spool_inv:
  assumes inv: "store_inv w0 ws" and st: "bs_state (snd ws) = Spooled chunks"
    and len: "uint next_len = int (length (chunks @ chunk))" "next_len \<le> sc_request_limit (bs_config (snd ws))"
  shows "store_inv w0 (snd (push_spool io chunk next_len chunks ws))"
proof (cases "grow_storage next_len ws")
  case (Inr ws1)
  note g = grow_storage_inv [OF inv Inr]
  have st1: "bs_state (snd ws1) = Spooled chunks" using g st by (simp add: reserves_only_def)
  have u: "store_inv w0 (undo_storage ws1)" "bs_state (snd (undo_storage ws1)) = Spooled chunks"
    using undo_storage_inv [of w0 ws1] g st1 by auto
  have "store_inv w0 (poison (undo_storage ws1))"
    using u by (auto simp: store_inv_def held_def poison_def is_spooled_def)
  moreover have "store_inv w0 (append_bytes (Spooled (chunks @ chunk)) next_len ws1)"
    using g len st1 by (auto simp: store_inv_def held_def reserves_only_def append_bytes_def is_spooled_def)
  ultimately show ?thesis using Inr by (simp add: push_spool_def)
qed (simp add: push_spool_def inv)

text \<open>A spill that gets its file leaves nothing in memory and covers the whole body in storage.\<close>

lemma spill_succeeds:
  assumes inv: "store_inv w0 ws1" and unit: "unit_bytes (storage_units w0) \<noteq> 0"
    and st: "bs_state (snd ws1) = InMemory chunks"
    and cov: "covers (unit_bytes (storage_units w0)) (bs_storage (snd ws1)) transition" "next_len \<le> transition"
    and len: "uint next_len = int (length (chunks @ chunk))" "next_len \<le> sc_request_limit (bs_config (snd ws1))"
  defines "ws2 \<equiv> ((fst ws1)\<lparr>live_spool_files := live_spool_files (fst ws1) + 1\<rparr>,
                   (snd ws1)\<lparr>bs_state := Spooled (chunks @ chunk)\<rparr>)"
  shows "\<exists>ws3 ws4. shrink_memory 0 ws2 = Inr ws3 \<and> shrink_storage next_len ws3 = Inr ws4
    \<and> store_inv w0 (append_bytes (Spooled (chunks @ chunk)) next_len ws4)
    \<and> bs_config (snd ws4) = bs_config (snd ws1)"
proof -
  let ?us = "unit_bytes (storage_units w0)"
  have bal: "balance (storage_units w0) (bs_storage (snd ws2)) (storage_units (fst ws2))"
    "balance (memory_units w0) (bs_memory (snd ws2)) (memory_units (fst ws2))"
    and live: "live_spool_files (fst ws2) = live_spool_files w0 + 1"
    using inv st by (auto simp: ws2_def store_inv_def is_spooled_def)
  obtain ws3 where m: "shrink_memory 0 ws2 = Inr ws3" "reserves_only w0 ws2 ws3" "bs_storage (snd ws3) = bs_storage (snd ws2)"
    using shrink_memory_settled [OF bal(2), of 0] by auto
  have "covers ?us (bs_storage (snd ws3)) next_len"
    using cov m(3) unit by (auto simp: ws2_def intro: covers_mono)
  moreover have "balance (storage_units w0) (bs_storage (snd ws3)) (storage_units (fst ws3))"
    using m(2) bal(1) by (simp add: reserves_only_def)
  ultimately obtain ws4 where s: "shrink_storage next_len ws3 = Inr ws4" "reserves_only w0 ws3 ws4"
      "covers ?us (bs_storage (snd ws4)) next_len"
    using shrink_storage_settled [of w0 ws3 next_len] by blast
  have c: "bs_config (snd ws4) = bs_config (snd ws1)" using m(2) s(2) by (simp add: reserves_only_def ws2_def)
  have "store_inv w0 (append_bytes (Spooled (chunks @ chunk)) next_len ws4)"
    using bal live m(2) s(2,3) len c by (auto simp: store_inv_def held_def reserves_only_def append_bytes_def is_spooled_def)
  then show ?thesis using m(1) s(1) c by blast
qed

lemma spill_inv:
  assumes inv: "store_inv w0 ws" and unit: "unit_bytes (storage_units w0) \<noteq> 0"
    and st: "bs_state (snd ws) = InMemory chunks"
    and len: "uint next_len = int (length (chunks @ chunk))" "next_len \<le> sc_request_limit (bs_config (snd ws))"
  shows "store_inv w0 (snd (spill_and_push io chunk next_len chunks ws))"
proof (cases "checked_add_u64 (bs_len (snd ws)) next_len")
  case (Some transition)
  have le: "next_len \<le> transition"
    using Some by (auto simp: checked_add_u64_def word_le_def uint_add_u64 split: if_splits)
  show ?thesis
  proof (cases "grow_storage transition ws")
    case (Inr ws1)
    note g = grow_storage_inv [OF inv Inr]
    have st1: "bs_state (snd ws1) = InMemory chunks" "bs_config (snd ws1) = bs_config (snd ws)"
      using g st by (simp_all add: reserves_only_def)
    note sp = spill_succeeds [of w0 ws1 chunks transition next_len chunk]
    show ?thesis
      using sp g st1 le unit len Inr Some undo_storage_inv [of w0 ws1]
      by (auto simp: spill_and_push_def Let_def split: sum.splits)
  qed (simp add: spill_and_push_def Some inv)
qed (simp add: spill_and_push_def inv)

text \<open>Every push keeps the invariant, whatever the system answers.\<close>

lemma store_push_inv:
  assumes inv: "store_inv w0 ws" and unit: "unit_bytes (storage_units w0) \<noteq> 0"
  shows "store_inv w0 (snd (store_push io chunk ws))"
proof -
  let ?s = "snd ws"
  have next_len: "uint next_len = int (length (chunks @ chunk))"
    if "checked_add_u64 (bs_len ?s) (of_nat (length chunk)) = Some next_len" "length chunk < 2 ^ 64"
      "uint (bs_len ?s) = int (length chunks)" for next_len chunks
  proof -
    have "uint (of_nat (length chunk) :: u64) = int (length chunk)"
      using that(2) by (rule uint_length_u64)
    then show ?thesis using that(1,3) by (auto simp: checked_add_u64_def uint_add_u64 split: if_splits)
  qed
  have held: "uint (bs_len ?s) = int (length chunks)" if "bs_state ?s = InMemory chunks \<or> bs_state ?s = Spooled chunks" for chunks
    using inv that by (auto simp: store_inv_def held_def)
  show ?thesis
    using inv next_len held push_memory_inv [OF inv] push_spool_inv [OF inv] spill_inv [OF inv unit]
    by (auto simp: store_push_def Let_def not_less split: option.splits store_state.splits)
qed

interpretation stored_bytes: guarded_system "\<lambda>(io, chunk) ws. snd (store_push io chunk ws)" "\<lambda>_. True"
    "\<lambda>ws. unit_bytes (storage_units w0) \<noteq> 0 \<and> store_inv w0 ws" for w0
  by unfold_locales (auto intro: store_push_inv)

section \<open>Success\<close>

fun push_all :: "(spool_io \<times> string) list \<Rightarrow> body_world \<times> body_store \<Rightarrow> push_result" where
  "push_all [] ws = (Inr (), ws)"
| "push_all ((io, chunk) # pieces) ws =
     (case store_push io chunk ws of
        (Inr _, ws') \<Rightarrow> push_all pieces ws'
      | (Inl e, ws') \<Rightarrow> (Inl e, ws'))"

fun contents :: "store_state \<Rightarrow> string" where
  "contents (InMemory chunks) = chunks"
| "contents (Spooled chunks) = chunks"
| "contents Poisoned = []"

definition good_io :: "spool_io \<Rightarrow> bool" where
  "good_io io \<longleftrightarrow> io_open io 0 = Opened True \<and> io_write_prefix io \<and> io_write io \<and> io_flush io
     \<and> io_alloc io \<and> io_seek io \<and> io_read io = Some"

definition has_room :: "budget \<Rightarrow> u64 \<Rightarrow> bool" where
  "has_room b n \<longleftrightarrow> (case units_for_capacity n (unit_bytes b) of Inl _ \<Rightarrow> False
     | Inr t \<Rightarrow> uint (used_units b) + uint t \<le> uint (capacity_units b))"

lemma has_room_mono: "has_room b n \<Longrightarrow> unit_bytes b \<noteq> 0 \<Longrightarrow> m \<le> n \<Longrightarrow> has_room b m"
  using units_for_mono [of n "unit_bytes b" _ m] by (fastforce simp: has_room_def word_le_def split: sum.splits)

lemma room_grows: "balance b0 u b \<Longrightarrow> has_room b0 n \<Longrightarrow> \<exists>r. try_grow_to n b u = Inr r"
  using balance_grow_succeeds by (auto simp: has_room_def split: sum.splits)

lemma grow_storage_room:
  "store_inv w0 ws \<Longrightarrow> has_room (storage_units w0) n \<Longrightarrow> \<exists>ws'. grow_storage n ws = Inr ws'"
  using room_grows [of "storage_units w0"] by (fastforce simp: store_inv_def grow_storage_def)

lemma grow_memory_room:
  "store_inv w0 ws \<Longrightarrow> has_room (memory_units w0) n \<Longrightarrow> \<exists>ws'. grow_memory n ws = Inr ws'"
  using room_grows [of "memory_units w0"] by (fastforce simp: store_inv_def grow_memory_def)

lemma spill_file_good: "good_io io \<Longrightarrow> spill_file io = Inr ()"
  by (simp add: spill_file_def good_io_def upt_rec [of 0])

lemma settled_store: "reserves_only w0 ws ws' \<Longrightarrow> bs_state (snd ws') = bs_state (snd ws) \<and> bs_config (snd ws') = bs_config (snd ws)"
  by (simp add: reserves_only_def)

text \<open>Within the limit, with room in the budgets and a working file system, a push appends its chunk.\<close>

lemma store_push_succeeds:
  assumes inv: "store_inv w0 ws" and unit: "unit_bytes (storage_units w0) \<noteq> 0" "unit_bytes (memory_units w0) \<noteq> 0"
    and live: "bs_state (snd ws) \<noteq> Poisoned" and io: "good_io io"
    and n: "uint n = int (length (contents (bs_state (snd ws)) @ chunk))" "n \<le> sc_request_limit (bs_config (snd ws))"
    and room: "has_room (storage_units w0) m" "2 * uint n \<le> uint m" "has_room (memory_units w0) n"
  shows "\<exists>ws'. store_push io chunk ws = (Inr (), ws') \<and> bs_state (snd ws') \<noteq> Poisoned
    \<and> contents (bs_state (snd ws')) = contents (bs_state (snd ws)) @ chunk
    \<and> bs_config (snd ws') = bs_config (snd ws)"
proof -
  let ?s = "snd ws" and ?c = "contents (bs_state (snd ws))"
  have len: "uint (bs_len ?s) = int (length ?c)"
    using inv live by (cases "bs_state ?s") (auto simp: store_inv_def held_def)
  have small: "length chunk < 2 ^ 64" using n(1) uint_u64_lt [of n] by simp
  then have "uint (of_nat (length chunk) :: u64) = int (length chunk)"
    by (rule uint_length_u64)
  then have sum: "uint (bs_len ?s) + uint (of_nat (length chunk) :: u64) = uint n" using len n(1) by simp
  then have "bs_len ?s + of_nat (length chunk) = n"
    using uint_add_u64 [of "bs_len ?s" "of_nat (length chunk)"] uint_u64_lt [of n] by (simp add: u64_eq_iff)
  then have add: "checked_add_u64 (bs_len ?s) (of_nat (length chunk)) = Some n"
    using sum uint_u64_lt [of n] by (simp add: checked_add_u64_def)
  have nm: "has_room (storage_units w0) n"
    using has_room_mono [OF room(1) unit(1)] room(2) by (simp add: word_le_def) (smt (verit) uint_u64_bounds(1))
  obtain ws1 where g: "grow_storage n ws = Inr ws1" using grow_storage_room [OF inv nm] by blast
  note g' = grow_storage_inv [OF inv g] and st1 = settled_store [of w0 ws ws1]
  have prefix: "store_push io chunk ws =
      (case bs_state ?s of
         InMemory chunks \<Rightarrow> if n \<le> sc_memory_threshold (bs_config ?s) then push_memory chunk n chunks ws
           else spill_and_push io chunk n chunks ws
       | Spooled chunks \<Rightarrow> push_spool io chunk n chunks ws
       | Poisoned \<Rightarrow> (Inl StorageIo, ws))"
    using small leD [OF n(2)] live add by (simp add: store_push_def Let_def)
  show ?thesis
  proof (cases "bs_state ?s")
    case (InMemory chunks)
    show ?thesis
    proof (cases "n \<le> sc_memory_threshold (bs_config ?s)")
      case True
      obtain ws2 where m: "grow_memory n ws1 = Inr ws2" using grow_memory_room g' room(3) by blast
      have "bs_config (snd ws2) = bs_config (snd ws1)" using m by (auto simp: grow_memory_def)
      then show ?thesis using True InMemory g m st1 g' by (auto simp: prefix push_memory_def append_bytes_def)
    next
      case False
      have "uint (bs_len ?s) \<le> uint n" using len n(1) by simp
      then have t: "uint (bs_len ?s) + uint n \<le> uint m" using room(2) by linarith
      then have "uint (bs_len ?s) + uint n < 2 ^ 64" using uint_u64_lt [of m] by linarith
      then have tr: "checked_add_u64 (bs_len ?s) n = Some (bs_len ?s + n)" "uint (bs_len ?s + n) = uint (bs_len ?s) + uint n"
        using uint_add_u64 [of "bs_len ?s" n] by (simp_all add: checked_add_u64_def)
      have "has_room (storage_units w0) (bs_len ?s + n)"
        using has_room_mono [OF room(1) unit(1)] t tr(2) by (simp add: word_le_def)
      then obtain ws1 where g: "grow_storage (bs_len ?s + n) ws = Inr ws1" using grow_storage_room [OF inv] by blast
      note g' = grow_storage_inv [OF inv g]
      have st1: "bs_state (snd ws1) = InMemory chunks" "bs_config (snd ws1) = bs_config ?s"
        using g' InMemory by (simp_all add: reserves_only_def)
      have "n \<le> bs_len ?s + n" using tr(2) by (simp add: word_le_def)
      then obtain ws3 ws4 where s: "shrink_memory 0 ((fst ws1)\<lparr>live_spool_files := live_spool_files (fst ws1) + 1\<rparr>,
            (snd ws1)\<lparr>bs_state := Spooled (chunks @ chunk)\<rparr>) = Inr ws3"
          "shrink_storage n ws3 = Inr ws4" "bs_config (snd ws4) = bs_config (snd ws1)"
        using spill_succeeds [of w0 ws1 chunks "bs_len ?s + n" n chunk] g' st1 unit(1) n InMemory by auto
      show ?thesis
        using False InMemory tr(1) g s st1 spill_file_good [OF io]
        by (auto simp: prefix spill_and_push_def append_bytes_def)
    qed
  next
    case (Spooled chunks)
    then show ?thesis using g g' st1 io by (auto simp: prefix push_spool_def append_bytes_def good_io_def)
  qed (use live in simp)
qed

lemma push_all_succeeds:
  assumes "store_inv w0 ws" "unit_bytes (storage_units w0) \<noteq> 0" "unit_bytes (memory_units w0) \<noteq> 0"
    and "bs_state (snd ws) \<noteq> Poisoned" "list_all (\<lambda>(io, _). good_io io) pieces"
    and "uint n = int (length (contents (bs_state (snd ws)) @ concat (map snd pieces)))"
    and "n \<le> sc_request_limit (bs_config (snd ws))"
    and "has_room (storage_units w0) m" "2 * uint n \<le> uint m" "has_room (memory_units w0) n"
  shows "\<exists>ws'. push_all pieces ws = (Inr (), ws') \<and> store_inv w0 ws' \<and> bs_state (snd ws') \<noteq> Poisoned
    \<and> contents (bs_state (snd ws')) = contents (bs_state (snd ws)) @ concat (map snd pieces)
    \<and> bs_config (snd ws') = bs_config (snd ws)"
  using assms
proof (induction pieces arbitrary: ws)
  case (Cons p pieces)
  obtain io chunk where p: "p = (io, chunk)" by (cases p)
  define k :: u64 where "k = of_nat (length (contents (bs_state (snd ws)) @ chunk))"
  have le: "int (length (contents (bs_state (snd ws)) @ chunk)) \<le> uint n" using Cons.prems(6) p by simp
  have "int (length (contents (bs_state (snd ws)) @ chunk)) < 2 ^ 64" using le uint_u64_lt [of n] by linarith
  then have "length (contents (bs_state (snd ws)) @ chunk) < 2 ^ 64" by (simp only: of_nat_less_numeral_power_cancel_iff)
  then have k: "uint k = int (length (contents (bs_state (snd ws)) @ chunk))"
    unfolding k_def by (rule uint_length_u64)
  then have kn: "k \<le> n" "uint k \<le> uint n" using le by (simp_all add: word_le_def)
  have room: "2 * uint k \<le> uint m" "has_room (memory_units w0) k" "k \<le> sc_request_limit (bs_config (snd ws))"
    using kn Cons.prems(7,9) has_room_mono [OF Cons.prems(10,3) kn(1)] by simp_all
  have io: "good_io io" "list_all (\<lambda>(io, _). good_io io) pieces" using Cons.prems(5) p by simp_all
  obtain ws1 where s: "store_push io chunk ws = (Inr (), ws1)" "bs_state (snd ws1) \<noteq> Poisoned"
      "contents (bs_state (snd ws1)) = contents (bs_state (snd ws)) @ chunk" "bs_config (snd ws1) = bs_config (snd ws)"
    using store_push_succeeds [OF Cons.prems(1-4) io(1) k room(3) Cons.prems(8) room(1,2)] by blast
  have inv: "store_inv w0 ws1" using store_push_inv [OF Cons.prems(1,2), of io chunk] s(1) by simp
  have "uint n = int (length (contents (bs_state (snd ws1)) @ concat (map snd pieces)))"
    using Cons.prems(6) s(3) p by simp
  then obtain ws' where "push_all pieces ws1 = (Inr (), ws')" "store_inv w0 ws'" "bs_state (snd ws') \<noteq> Poisoned"
      "contents (bs_state (snd ws')) = contents (bs_state (snd ws1)) @ concat (map snd pieces)"
      "bs_config (snd ws') = bs_config (snd ws1)"
    using Cons.IH [OF inv Cons.prems(2,3) s(2) io(2) _ _ Cons.prems(8-10)] Cons.prems(7) s(4) by auto
  then show ?case using s p by simp
qed simp

text \<open>Finishing keeps the bytes; reading them back gives them with a lease of the two reservations.\<close>

lemma finish_reads_back:
  assumes inv: "store_inv w0 ws" and live: "bs_state (snd ws) \<noteq> Poisoned" and io: "good_io io" "good_io io'"
    and room: "has_room (memory_units w0) (bs_len (snd ws))" and fits: "unat (bs_len (snd ws)) < 2 ^ bits"
  shows "\<exists>body w1 storage memory w2. store_finish io ws = (Inr body, w1)
    \<and> into_bytes bits io' body w1 = (Inr (contents (bs_state (snd ws)), storage, memory), w2)
    \<and> release_both w2 storage memory = w0"
proof -
  let ?us = "unit_bytes (storage_units w0)" and ?um = "unit_bytes (memory_units w0)"
  have bal: "balance (storage_units w0) (bs_storage (snd ws)) (storage_units (fst ws))"
    and cov: "covers ?us (bs_storage (snd ws)) (bs_len (snd ws))"
    using inv live by (auto simp: store_inv_def held_def split: store_state.splits)
  obtain ws1 where s: "shrink_storage (bs_len (snd ws)) ws = Inr ws1" "reserves_only w0 ws ws1"
      "bs_memory (snd ws1) = bs_memory (snd ws)"
    using shrink_storage_settled [OF bal cov] by blast
  have same: "bs_state (snd ws1) = bs_state (snd ws)" "bs_len (snd ws1) = bs_len (snd ws)" using s(2) by (simp_all add: reserves_only_def)
  have balm: "balance (memory_units w0) (bs_memory (snd ws1)) (memory_units (fst ws1))"
    and bals: "balance (storage_units w0) (bs_storage (snd ws1)) (storage_units (fst ws1))"
    and files: "live_spool_files (fst ws1) = live_spool_files w0 + (if is_spooled (snd ws) then 1 else 0)"
    using inv s(2) by (auto simp: store_inv_def reserves_only_def)
  show ?thesis
  proof (cases "bs_state (snd ws)")
    case (InMemory chunks)
    have "covers ?um (bs_memory (snd ws1)) (bs_len (snd ws1))"
      using inv InMemory s(3) same by (auto simp: store_inv_def held_def)
    from shrink_memory_settled [OF balm this] obtain ws2
      where m: "shrink_memory (bs_len (snd ws1)) ws1 = Inr ws2" "reserves_only w0 ws1 ws2" by blast
    have r: "release_both (fst ws2) (bs_storage (snd ws2)) (bs_memory (snd ws2)) = w0"
      using m(2) balm bals files InMemory
      by (auto simp: reserves_only_def release_both_def balance_drop is_spooled_def intro!: body_world.equality)
    have "store_finish io ws = (Inr (MemoryBody chunks (bs_len (snd ws2)) (bs_storage (snd ws2)) (bs_memory (snd ws2))), fst ws2)"
      using s(1) m InMemory same by (simp add: store_finish_def finish_body_def reserves_only_def Let_def)
    then show ?thesis using r InMemory by (simp add: into_bytes_def)
  next
    case (Spooled stored)
    from shrink_memory_settled [OF balm covers_zero] obtain ws2
      where m: "shrink_memory 0 ws1 = Inr ws2" "reserves_only w0 ws1 ws2" by blast
    have f: "store_finish io ws = (Inr (SpoolBody stored (bs_len (snd ws2)) (bs_storage (snd ws2)) (bs_memory (snd ws2))), fst ws2)"
      using s(1) m Spooled same io(1) by (simp add: store_finish_def finish_body_def reserves_only_def good_io_def Let_def)
    have b2: "balance (memory_units w0) (bs_memory (snd ws2)) (memory_units (fst ws2))"
      "balance (storage_units w0) (bs_storage (snd ws2)) (storage_units (fst ws2))"
      and len2: "bs_len (snd ws2) = bs_len (snd ws)" using m(2) balm bals same by (auto simp: reserves_only_def)
    obtain b u where g: "try_grow_to (bs_len (snd ws)) (memory_units (fst ws2)) (bs_memory (snd ws2)) = Inr (b, u)"
      using room_grows [OF b2(1) room] by fastforce
    have r: "release_both (close_file ((fst ws2)\<lparr>memory_units := b\<rparr>)) (bs_storage (snd ws2)) u = w0"
      using m(2) balance_grow [OF b2(1) g] b2(2) files Spooled
      by (auto simp: reserves_only_def release_both_def close_file_def balance_drop is_spooled_def intro!: body_world.equality)
    have "int (length stored) = uint (bs_len (snd ws))" using inv Spooled by (auto simp: store_inv_def held_def)
    then have "length stored = unat (bs_len (snd ws))" by (metis nat_int unat_eq_nat_uint)
    then have "into_bytes bits io' (SpoolBody stored (bs_len (snd ws2)) (bs_storage (snd ws2)) (bs_memory (snd ws2))) (fst ws2)
        = (Inr (stored, bs_storage (snd ws2), u), close_file ((fst ws2)\<lparr>memory_units := b\<rparr>))"
      using g io(2) fits len2 by (simp add: into_bytes_def as_usize_def good_io_def Let_def)
    then show ?thesis using f r Spooled by auto
  qed (use live in simp)
qed

lemma reserve_balance:
  assumes "try_reserve weight b0 = Inr (b, u)" "uint (used_units b0) \<le> uint (capacity_units b0)"
  shows "balance b0 u b"
proof -
  have "budget_acquire u b0 = Inr b" using assms(1) by (auto simp: try_reserve_def)
  from acquire_inv [OF this] show ?thesis using assms(2) by (auto simp: balance_def)
qed

text \<open>A new body owns its two initial reservations and nothing else.\<close>

lemma store_start_inv:
  assumes "store_start bits config sb mb same storage memory = Inr s"
    and "balance (storage_units w0) storage bS" "balance (memory_units w0) memory bM"
  shows "store_inv w0 (w0\<lparr>storage_units := bS, memory_units := bM\<rparr>, s)"
  using assms by (auto simp: store_start_def store_inv_def held_def is_spooled_def bind_res_eq_Inr split: if_splits)

section \<open>Properties\<close>

text \<open>C37: A body comes back as it was sent, and leaves nothing behind. A body within the request limit,
  pushed in any number of chunks, whether it stays in memory or is spilled to a file on the way, is
  read back as the concatenation of its chunks, provided the budgets have room for it (twice its
  length in storage, while the memory copy and the file coexist) and the file system answers;
  releasing the lease then leaves budgets and file counter exactly as they were before the first
  reservation.\<close>

theorem body_round_trip:
  assumes "unit_bytes (storage_units w0) \<noteq> 0" "unit_bytes (memory_units w0) \<noteq> 0"
    and "uint (used_units (storage_units w0)) \<le> uint (capacity_units (storage_units w0))"
    and "uint (used_units (memory_units w0)) \<le> uint (capacity_units (memory_units w0))"
    and "try_reserve weight (storage_units w0) = Inr (bS, storage)"
    and "try_reserve weight (memory_units w0) = Inr (bM, memory)"
    and "store_start bits config True True False storage memory = Inr s"
    and "list_all (\<lambda>(io, _). good_io io) pieces" "good_io io" "good_io io'"
    and "uint n = int (length (concat (map snd pieces)))" "n \<le> sc_request_limit config"
    and "has_room (storage_units w0) m" "2 * uint n \<le> uint m" "has_room (memory_units w0) n"
  shows "\<exists>ws body w1 lease w2.
      push_all pieces (w0\<lparr>storage_units := bS, memory_units := bM\<rparr>, s) = (Inr (), ws)
    \<and> store_finish io ws = (Inr body, w1)
    \<and> into_bytes bits io' body w1 = (Inr (concat (map snd pieces), lease), w2)
    \<and> release_both w2 (fst lease) (snd lease) = w0"
proof -
  have s: "bs_config s = config" "bs_state s = InMemory []"
    and cfg: "unat (sc_request_limit config) < 2 ^ bits"
    using assms(7) by (auto simp: store_start_def storage_config_validate_def as_usize_def bind_res_eq_Inr split: if_splits sum.splits)
  have inv: "store_inv w0 (w0\<lparr>storage_units := bS, memory_units := bM\<rparr>, s)"
    using assms(7) reserve_balance [OF assms(5,3)] reserve_balance [OF assms(6,4)] by (rule store_start_inv)
  obtain ws where p: "push_all pieces (w0\<lparr>storage_units := bS, memory_units := bM\<rparr>, s) = (Inr (), ws)"
      "store_inv w0 ws" "bs_state (snd ws) \<noteq> Poisoned" "contents (bs_state (snd ws)) = concat (map snd pieces)"
    using push_all_succeeds [OF inv assms(1,2) _ assms(8) _ _ assms(13-15)] s assms(11,12) by auto
  have "uint (bs_len (snd ws)) = int (length (contents (bs_state (snd ws))))"
    using p(2,3) by (cases "bs_state (snd ws)") (auto simp: store_inv_def held_def)
  then have n: "bs_len (snd ws) = n" using p(4) assms(11) by (simp add: u64_eq_iff)
  have "unat n < 2 ^ bits" using cfg assms(12) by (simp add: word_le_nat_alt)
  then obtain body w1 storage memory w2 where "store_finish io ws = (Inr body, w1)"
      "into_bytes bits io' body w1 = (Inr (concat (map snd pieces), storage, memory), w2)" "release_both w2 storage memory = w0"
    using finish_reads_back [OF p(2,3) assms(9,10), of bits] assms(15) n p(4) by auto
  then show ?thesis using p(1) by (intro exI conjI) auto
qed

definition demo_io :: spool_io where
  "demo_io = \<lparr>io_open = (\<lambda>_. Opened True), io_write_prefix = True, io_write = True, io_flush = True,
     io_alloc = True, io_seek = True, io_read = Some\<rparr>"

definition demo_world :: body_world where
  "demo_world = \<lparr>storage_units = \<lparr>capacity_units = 8, unit_bytes = 4, used_units = 1\<rparr>,
     memory_units = \<lparr>capacity_units = 4, unit_bytes = 4, used_units = 0\<rparr>, live_spool_files = 0\<rparr>"

definition demo_config :: storage_config where
  "demo_config = \<lparr>sc_request_limit = 10, sc_memory_threshold = 5\<rparr>"

theorem body_round_trip_witness:
  "\<exists>ws body w1 lease w2.
      push_all [(demo_io, ''abc''), (demo_io, ''defgh'')]
        (demo_world\<lparr>storage_units := \<lparr>capacity_units = 8, unit_bytes = 4, used_units = 2\<rparr>,
           memory_units := \<lparr>capacity_units = 4, unit_bytes = 4, used_units = 1\<rparr>\<rparr>,
         \<lparr>bs_config = demo_config, bs_storage = 1, bs_memory = 1, bs_state = InMemory [], bs_len = 0\<rparr>) = (Inr (), ws)
    \<and> store_finish demo_io ws = (Inr body, w1)
    \<and> into_bytes 64 demo_io body w1 = (Inr (concat (map snd [(demo_io, ''abc''), (demo_io, ''defgh'')]), lease), w2)
    \<and> release_both w2 (fst lease) (snd lease) = demo_world"
  by (rule body_round_trip [where weight = 4 and bits = 64 and config = demo_config and storage = 1 and memory = 1
        and n = 8 and m = 16])
    (simp_all add: demo_world_def demo_config_def demo_io_def good_io_def try_reserve_def budget_acquire_def
      units_for_capacity_def checked_add_u64_def store_start_def storage_config_validate_def as_usize_def has_room_def)

text \<open>C38: Storing a body accounts for every byte, whatever fails. From the first reservations on, after any
  sequence of pushes with any answers of the file system, exhausted budgets and failed spills
  included, the bytes held are within the request limit and within what the body has reserved: all of
  them in the storage budget and those kept in memory in the memory budget; and dropping the body
  returns exactly what it took: budgets and file counter are again those of a world without it.\<close>

theorem body_storage_accounts:
  assumes "unit_bytes (storage_units w0) \<noteq> 0" "unit_bytes (memory_units w0) \<noteq> 0"
    and "uint (used_units (storage_units w0)) \<le> uint (capacity_units (storage_units w0))"
    and "uint (used_units (memory_units w0)) \<le> uint (capacity_units (memory_units w0))"
    and "try_reserve weight (storage_units w0) = Inr (bS, storage)"
    and "try_reserve weight (memory_units w0) = Inr (bM, memory)"
    and "store_start bits config True True False storage memory = Inr s0"
    and "(w, s) = fold (\<lambda>(io, chunk) ws. snd (store_push io chunk ws)) pieces
           (w0\<lparr>storage_units := bS, memory_units := bM\<rparr>, s0)"
  shows "drop_store (w, s) = w0
    \<and> (bs_state s = Poisoned
       \<or> int (length (contents (bs_state s))) \<le> uint (sc_request_limit (bs_config s))
         \<and> int (length (contents (bs_state s))) \<le> uint (bs_storage s) * uint (unit_bytes (storage_units w0))
         \<and> (is_spooled s
            \<or> int (length (contents (bs_state s))) \<le> uint (bs_memory s) * uint (unit_bytes (memory_units w0))))"
proof -
  have "store_inv w0 (w0\<lparr>storage_units := bS, memory_units := bM\<rparr>, s0)"
    using assms(7) reserve_balance [OF assms(5,3)] reserve_balance [OF assms(6,4)] by (rule store_start_inv)
  then have inv: "store_inv w0 (w, s)"
    using stored_bytes.ok_fold [of pieces w0 "(w0\<lparr>storage_units := bS, memory_units := bM\<rparr>, s0)"] assms(1,8)
    by (simp add: list_all_iff case_prod_unfold)
  then have h: "held (unit_bytes (storage_units w0)) (unit_bytes (memory_units w0)) s" by (simp add: store_inv_def)
  have "bs_state s = Poisoned \<or> int (length (contents (bs_state s))) \<le> uint (sc_request_limit (bs_config s))
      \<and> int (length (contents (bs_state s))) \<le> uint (bs_storage s) * uint (unit_bytes (storage_units w0))
      \<and> (is_spooled s \<or> int (length (contents (bs_state s))) \<le> uint (bs_memory s) * uint (unit_bytes (memory_units w0)))"
  proof (cases "bs_state s")
    case (InMemory chunks)
    then have c: "uint (bs_len s) = int (length chunks)" "bs_len s \<le> sc_request_limit (bs_config s)"
      "covers (unit_bytes (storage_units w0)) (bs_storage s) (bs_len s)"
      "covers (unit_bytes (memory_units w0)) (bs_memory s) (bs_len s)" using h by (simp_all add: held_def)
    show ?thesis
      using InMemory c(1,2) covers_bytes [OF c(3) assms(1)] covers_bytes [OF c(4) assms(2)] by (simp add: word_le_def)
  next
    case (Spooled chunks)
    then have c: "uint (bs_len s) = int (length chunks)" "bs_len s \<le> sc_request_limit (bs_config s)"
      "covers (unit_bytes (storage_units w0)) (bs_storage s) (bs_len s)" using h by (simp_all add: held_def)
    show ?thesis using Spooled c(1,2) covers_bytes [OF c(3) assms(1)] by (simp add: word_le_def is_spooled_def)
  qed simp
  then show ?thesis using drop_store_restores [OF inv] by blast
qed

theorem body_storage_accounts_witness:
  "\<exists>w s. (w, s) = fold (\<lambda>(io, chunk) ws. snd (store_push io chunk ws))
        [(demo_io, ''abc''), (demo_io\<lparr>io_write := False\<rparr>, ''defgh''), (demo_io, ''ij'')]
        (demo_world\<lparr>storage_units := \<lparr>capacity_units = 8, unit_bytes = 4, used_units = 2\<rparr>,
           memory_units := \<lparr>capacity_units = 4, unit_bytes = 4, used_units = 1\<rparr>\<rparr>,
         \<lparr>bs_config = demo_config, bs_storage = 1, bs_memory = 1, bs_state = InMemory [], bs_len = 0\<rparr>)
     \<and> drop_store (w, s) = demo_world"
proof -
  obtain w s where e: "(w, s) = fold (\<lambda>(io, chunk) ws. snd (store_push io chunk ws))
        [(demo_io, ''abc''), (demo_io\<lparr>io_write := False\<rparr>, ''defgh''), (demo_io, ''ij'')]
        (demo_world\<lparr>storage_units := \<lparr>capacity_units = 8, unit_bytes = 4, used_units = 2\<rparr>,
           memory_units := \<lparr>capacity_units = 4, unit_bytes = 4, used_units = 1\<rparr>\<rparr>,
         \<lparr>bs_config = demo_config, bs_storage = 1, bs_memory = 1, bs_state = InMemory [], bs_len = 0\<rparr>)"
    by (metis prod.collapse)
  have "drop_store (w, s) = demo_world"
    by (rule conjunct1 [OF body_storage_accounts [where weight = 4 and bits = 64 and config = demo_config
          and storage = 1 and memory = 1, OF _ _ _ _ _ _ _ e]])
      (simp_all add: demo_world_def demo_config_def try_reserve_def budget_acquire_def units_for_capacity_def
        checked_add_u64_def store_start_def storage_config_validate_def as_usize_def)
  then show ?thesis using e by blast
qed

end
