(* ===== verification/Turn_Queue.thy ===== *)
theory Turn_Queue
  imports Engine_Prelude
begin

text \<open>
  The bounded delivery queues between the stream finalizers and the calibration authority
  (\<open>crates/forward/src/glm/queue.rs\<close>; the KIMI, Suno and Tripo3D planes have the same machine over
  their own event types, here the type variable \<open>'e\<close>). The caller writes the head and reports the
  outcome. The properties: delivery is first in, first out; nothing but a reported outcome removes an
  event; a quota poll is allowed only when every accepted event has been resolved.
\<close>

section \<open>The queue\<close>

datatype write_outcome = Durable | Transient | Conflict

record 'e turn_queue =
  queue :: "'e list"
  capacity :: nat
  dropped :: u64
  healthy :: bool

record delivery_health =
  pending_events :: nat
  dropped_events :: u64
  persistence_ok :: bool

definition DEFAULT_QUEUE_CAPACITY :: nat where "DEFAULT_QUEUE_CAPACITY = 4096"

definition queue_new :: "nat \<Rightarrow> 'e turn_queue" where
  "queue_new c = \<lparr>queue = [], capacity = max c 1, dropped = 0, healthy = True\<rparr>"

definition push :: "'e \<Rightarrow> 'e turn_queue \<Rightarrow> bool \<times> 'e turn_queue" where
  "push event q =
     (if capacity q \<le> length (queue q)
      then (False, q\<lparr>dropped := sat_add_u64 (dropped q) 1, healthy := False\<rparr>)
      else (True, q\<lparr>queue := queue q @ [event]\<rparr>))"

definition head :: "'e turn_queue \<Rightarrow> 'e option" where
  "head q = (case queue q of [] \<Rightarrow> None | e # _ \<Rightarrow> Some e)"

definition pop_front :: "'e turn_queue \<Rightarrow> 'e turn_queue" where
  "pop_front q = q\<lparr>queue := tl (queue q)\<rparr>"

definition resolve_head :: "write_outcome \<Rightarrow> 'e turn_queue \<Rightarrow> 'e turn_queue" where
  "resolve_head outcome q =
     (case outcome of
        Durable \<Rightarrow> (let q1 = pop_front q in q1\<lparr>healthy := (queue q1 = [])\<rparr>)
      | Transient \<Rightarrow> q\<lparr>healthy := False\<rparr>
      | Conflict \<Rightarrow> (let q1 = pop_front q
                     in q1\<lparr>dropped := sat_add_u64 (dropped q1) 1, healthy := (queue q1 = [])\<rparr>))"

definition may_poll_quota :: "'e turn_queue \<Rightarrow> bool" where
  "may_poll_quota q \<longleftrightarrow> queue q = []"

definition health :: "'e turn_queue \<Rightarrow> delivery_health" where
  "health q = \<lparr>pending_events = length (queue q), dropped_events = dropped q,
     persistence_ok = (healthy q \<and> queue q = [])\<rparr>"

section \<open>The contract of a delivery queue\<close>

text \<open>What the planes rely on: accepted events are appended, a refused event leaves the pending
  events as they are, and a resolution removes at most the head, and only a final outcome does.\<close>

locale delivery_queue =
  fixes enq :: "'e \<Rightarrow> 'q \<Rightarrow> bool \<times> 'q"
    and resolve :: "write_outcome \<Rightarrow> 'q \<Rightarrow> 'q"
    and pending :: "'q \<Rightarrow> 'e list"
  assumes enq_accepted: "enq e q = (True, q') \<Longrightarrow> pending q' = pending q @ [e]"
    and enq_refused: "enq e q = (False, q') \<Longrightarrow> pending q' = pending q"
    and resolve_final: "w \<noteq> Transient \<Longrightarrow> pending (resolve w q) = tl (pending q)"
    and resolve_transient: "pending (resolve Transient q) = pending q"
begin

text \<open>A run over calls, with the accepted events, the events written durably and the quarantined
  events, each in the order in which it happened.\<close>

fun run :: "('e + write_outcome) list \<Rightarrow> 'q \<times> 'e list \<times> 'e list \<times> 'e list
    \<Rightarrow> 'q \<times> 'e list \<times> 'e list \<times> 'e list" where
  "run [] s = s"
| "run (Inl e # cs) (q, acc, dur, con) =
     (let (ok, q') = enq e q in run cs (q', if ok then acc @ [e] else acc, dur, con))"
| "run (Inr w # cs) (q, acc, dur, con) =
     run cs (resolve w q, acc,
             (if w = Durable then dur @ take 1 (pending q) else dur),
             (if w = Conflict then con @ take 1 (pending q) else con))"

text \<open>The resolved events in the order of their resolution.\<close>

fun resolved :: "('e + write_outcome) list \<Rightarrow> 'q \<Rightarrow> 'e list" where
  "resolved [] q = []"
| "resolved (Inl e # cs) q = resolved cs (snd (enq e q))"
| "resolved (Inr w # cs) q =
     (if w = Transient then [] else take 1 (pending q)) @ resolved cs (resolve w q)"

lemma run_fifo:
  assumes "run cs (q, acc, dur, con) = (q', acc', dur', con')" "acc = done @ pending q"
  shows "acc' = (done @ resolved cs q) @ pending q'"
  using assms
proof (induction cs "(q, acc, dur, con)" arbitrary: q acc dur con "done" rule: run.induct)
  case (2 e cs q acc dur con)
  obtain ok q1 where q1: "enq e q = (ok, q1)" by (cases "enq e q")
  have "(if ok then acc @ [e] else acc) = done @ pending q1"
    using q1 2(3) enq_accepted [of e q q1] enq_refused [of e q q1] by (cases ok) auto
  with 2(1) [OF q1 [symmetric] refl] 2(2) q1 show ?case by simp
next
  case (3 w cs q acc dur con)
  have "acc = (done @ (if w = Transient then [] else take 1 (pending q))) @ pending (resolve w q)"
    using 3(3) resolve_final [of w q] resolve_transient [of q]
    by (cases "pending q") (auto simp: take_Suc)
  with 3(1) 3(2) show ?case by (cases w) simp_all
qed simp

lemma resolved_partition:
  assumes "run cs (q, acc, dur, con) = (q', acc', dur', con')"
  shows "length dur' + length con' = length dur + length con + length (resolved cs q)
    \<and> set dur' \<union> set con' = set dur \<union> set con \<union> set (resolved cs q)"
  using assms
proof (induction cs "(q, acc, dur, con)" arbitrary: q acc dur con rule: run.induct)
  case (2 e cs q acc dur con)
  obtain ok q1 where q1: "enq e q = (ok, q1)" by (cases "enq e q")
  with 2(1) [OF q1 [symmetric] refl] 2(2) show ?case by simp
next
  case (3 w cs q acc dur con)
  from 3(1) 3(2) show ?case by (cases w) auto
qed simp

end

lemma push_queue:
  "push e q = (True, q') \<Longrightarrow> queue q' = queue q @ [e]"
  "push e q = (False, q') \<Longrightarrow> queue q' = queue q"
  by (auto simp: push_def split: if_splits)

lemma resolve_head_queue:
  "w \<noteq> Transient \<Longrightarrow> queue (resolve_head w q) = tl (queue q)"
  "queue (resolve_head Transient q) = queue q"
  by (cases w; simp add: resolve_head_def pop_front_def Let_def)+

interpretation turns: delivery_queue push resolve_head queue
  by unfold_locales (simp_all add: push_queue resolve_head_queue)

text \<open>C39: Delivery order: after any calls on a new queue, the accepted events are exactly the resolved
  ones, in the order of their resolution, followed by the pending ones; every resolved event was
  either stored durably or quarantined. So a poll of the quota is allowed only when every accepted
  turn has been resolved, in order.\<close>

theorem turn_queue_is_fifo:
  assumes "turns.run cs (queue_new c, [], [], []) = (q, acc, dur, con)"
  shows "acc = turns.resolved cs (queue_new c) @ queue q
    \<and> length (turns.resolved cs (queue_new c)) = length dur + length con
    \<and> set (turns.resolved cs (queue_new c)) = set dur \<union> set con
    \<and> (may_poll_quota q \<longleftrightarrow> acc = turns.resolved cs (queue_new c))"
proof -
  have "acc = ([] @ turns.resolved cs (queue_new c)) @ queue q"
    by (rule turns.run_fifo [OF assms]) (simp add: queue_new_def)
  moreover have "length dur + length con = length (turns.resolved cs (queue_new c))"
    "set dur \<union> set con = set (turns.resolved cs (queue_new c))"
    using turns.resolved_partition [OF assms] by simp_all
  ultimately show ?thesis by (auto simp: may_poll_quota_def)
qed

theorem turn_queue_is_fifo_witness:
  "\<exists>q. turns.run [Inl ''a'', Inl ''b'', Inr Transient, Inr Durable, Inr Conflict] (queue_new 2, [], [], [])
       = (q, [''a'', ''b''], [''a''], [''b''])
     \<and> turns.resolved [Inl ''a'', Inl ''b'', Inr Transient, Inr Durable, Inr Conflict] (queue_new 2) = [''a'', ''b'']
     \<and> may_poll_quota q"
proof -
  let ?cs = "[Inl ''a'', Inl ''b'', Inr Transient, Inr Durable, Inr Conflict]"
  obtain q where q: "turns.run ?cs (queue_new 2, [], [], []) = (q, [''a'', ''b''], [''a''], [''b''])"
    by (simp add: queue_new_def push_def resolve_head_def pop_front_def Let_def)
  have "turns.resolved ?cs (queue_new 2) = [''a'', ''b'']"
    by (simp add: queue_new_def push_def resolve_head_def pop_front_def Let_def)
  with turn_queue_is_fifo [OF q] q show ?thesis by auto
qed

end
