(* ===== verification/Calendar.thy ===== *)
theory Calendar
  imports Complex_Main Engine_Prelude
begin

text \<open>
  Subscription lifetimes (\<open>crates/forward/src/lifecycle.rs\<close>, with the plan list of
  \<open>crates/gemini-credential/src/lib.rs\<close>): the proleptic Gregorian calendar in UTC, expiry after a
  fixed number of days or of calendar months. The properties: the two conversions between day numbers
  and civil dates are inverse to each other, and adding months keeps the time of day and moves the
  date to the same day of the target month, clamped to its length.

  \<open>i128\<close> quantities are integers: the day numbers come from \<open>i64\<close> timestamps, so the plain
  operators stay far from the \<open>i128\<close> bounds; the checked ones are written as such.
  \<open>div_euclid\<close> and \<open>rem_euclid\<close> by a positive divisor are \<open>div\<close> and \<open>mod\<close>, and so is
  \<open>/\<close> on the nonnegative values it is applied to. The days left, an \<open>f64\<close>, are an exact
  rational.
\<close>

section \<open>The calendar\<close>

definition SECONDS_PER_DAY :: i64 where "SECONDS_PER_DAY = 86400"
definition UNIX_EPOCH_DAY_OFFSET :: i128 where "UNIX_EPOCH_DAY_OFFSET = 719468"

definition is_leap_year :: "i128 \<Rightarrow> bool" where
  "is_leap_year y \<longleftrightarrow> y mod 4 = 0 \<and> (y mod 100 \<noteq> 0 \<or> y mod 400 = 0)"

definition days_in_month :: "i128 \<Rightarrow> int \<Rightarrow> int" where
  "days_in_month y m =
     (if m \<in> {1, 3, 5, 7, 8, 10, 12} then 31
      else if m \<in> {4, 6, 9, 11} then 30
      else if m = 2 \<and> is_leap_year y then 29
      else if m = 2 then 28 else 0)"

definition days_from_civil :: "i128 \<Rightarrow> int \<Rightarrow> int \<Rightarrow> i128 option" where
  "days_from_civil year month day =
     (if \<not> (1 \<le> month \<and> month \<le> 12) \<or> day = 0 \<or> days_in_month year month < day then None
      else
        let adjusted_year = year - (if month \<le> 2 then 1 else 0);
            era = adjusted_year div 400;
            year_of_era = adjusted_year - era * 400;
            shifted_month = month + (if 2 < month then -3 else 9);
            day_of_year = (153 * shifted_month + 2) div 5 + day - 1;
            day_of_era = year_of_era * 365 + year_of_era div 4 - year_of_era div 100 + day_of_year
        in Option.bind (checked_mul_i128 era 146097) (\<lambda>a.
           Option.bind (checked_add_i128 a day_of_era) (\<lambda>b.
           checked_sub_i128 b UNIX_EPOCH_DAY_OFFSET)))"

definition civil_from_days :: "i128 \<Rightarrow> i128 \<times> int \<times> int" where
  "civil_from_days days =
     (let shifted = days + UNIX_EPOCH_DAY_OFFSET;
          era = shifted div 146097;
          day_of_era = shifted - era * 146097;
          year_of_era = (day_of_era - day_of_era div 1460 + day_of_era div 36524
                          - day_of_era div 146096) div 365;
          year = year_of_era + era * 400;
          day_of_year = day_of_era - (365 * year_of_era + year_of_era div 4 - year_of_era div 100);
          shifted_month = (5 * day_of_year + 2) div 153;
          day = day_of_year - (153 * shifted_month + 2) div 5 + 1;
          month = shifted_month + (if shifted_month < 10 then 3 else -9)
      in (year + (if month \<le> 2 then 1 else 0), month, day))"

definition add_utc_calendar_months :: "i64 \<Rightarrow> int \<Rightarrow> i64 option" where
  "add_utc_calendar_months timestamp months =
     (let days = timestamp div SECONDS_PER_DAY;
          seconds_of_day = timestamp mod SECONDS_PER_DAY;
          (year, month, day) = civil_from_days days
      in Option.bind (checked_mul_i128 year 12) (\<lambda>a.
         Option.bind (checked_add_i128 a (month - 1)) (\<lambda>b.
         Option.bind (checked_add_i128 b months) (\<lambda>month_index.
           let target_year = month_index div 12;
               target_month = month_index mod 12 + 1;
               target_day = min day (days_in_month target_year target_month)
           in Option.bind (days_from_civil target_year target_month target_day) (\<lambda>target_days.
              Option.bind (checked_mul_i128 target_days SECONDS_PER_DAY) (\<lambda>c.
              Option.bind (checked_add_i128 c seconds_of_day) i64_try_from))))))"

section \<open>Lifetimes\<close>

record subscription_lifecycle =
  acquired_at :: "i64 option"
  subscription_expires_at :: "i64 option"
  subscription_days_left :: "rat option"

definition lifecycle_empty :: subscription_lifecycle where
  "lifecycle_empty = \<lparr>acquired_at = None, subscription_expires_at = None,
     subscription_days_left = None\<rparr>"

definition from_expiry :: "i64 \<Rightarrow> i64 option \<Rightarrow> i64 \<Rightarrow> subscription_lifecycle" where
  "from_expiry acquired expires now =
     (if acquired \<le> 0 then lifecycle_empty
      else \<lparr>acquired_at = Some acquired, subscription_expires_at = expires,
            subscription_days_left =
              map_option (\<lambda>e. of_int (e - now) / of_int SECONDS_PER_DAY) expires\<rparr>)"

definition fixed_days :: "i64 \<Rightarrow> i64 \<Rightarrow> i64 \<Rightarrow> subscription_lifecycle" where
  "fixed_days acquired days now =
     (let expires_at = (if 0 < acquired
            then Option.bind (checked_mul_i64 days SECONDS_PER_DAY) (checked_add_i64 acquired)
            else None)
      in from_expiry acquired expires_at now)"

definition is_supported_paid_plan :: "string \<Rightarrow> bool" where
  "is_supported_paid_plan plan \<longleftrightarrow>
     plan \<in> {''google_ai_pro'', ''google_ai_ultra'', ''code_assist_standard'',
              ''code_assist_enterprise'', ''workspace_ai_ultra''}"

definition gemini_lifecycle :: "i64 \<Rightarrow> string \<Rightarrow> i64 \<Rightarrow> subscription_lifecycle" where
  "gemini_lifecycle acquired plan now =
     (if acquired \<le> 0 \<or> \<not> is_supported_paid_plan plan then lifecycle_empty
      else if plan = ''google_ai_pro''
      then from_expiry acquired (add_utc_calendar_months acquired 18) now
      else fixed_days acquired 30 now)"

section \<open>Years of an era\<close>

text \<open>Within a 400-year era that starts on 1 March, year \<open>y\<close> runs from day \<open>year_start y\<close> to
  day \<open>year_end y\<close>.\<close>

definition year_start :: "int \<Rightarrow> int" where
  "year_start y = 365 * y + y div 4 - y div 100"

definition year_end :: "int \<Rightarrow> int" where
  "year_end y = (if y = 399 then 146096 else year_start (y + 1) - 1)"

definition year_count :: "int \<Rightarrow> int" where
  "year_count d = d - d div 1460 + d div 36524 - d div 146096"

lemma year_ends_computed:
  "list_all (\<lambda>y. year_count (year_start y) div 365 = y \<and> year_count (year_end y) div 365 = y
     \<and> year_end y - year_start y = 364 + (if is_leap_year (y + 1) then 1 else 0)
     \<and> 0 \<le> year_start y \<and> year_end y < 146097) [0..399]"
  by code_simp

lemma year_ends:
  assumes "0 \<le> y" "y < 400"
  shows "year_count (year_start y) div 365 = y" "year_count (year_end y) div 365 = y"
    "year_end y - year_start y = 364 + (if is_leap_year (y + 1) then 1 else 0)"
    "0 \<le> year_start y" "year_end y < 146097"
  using year_ends_computed assms by (auto simp: list_all_iff)

lemma sub_div_mono: "a \<le> b \<Longrightarrow> 0 < k \<Longrightarrow> a - a div k \<le> b - (b :: int) div k"
proof -
  assume "a \<le> b" "0 < k"
  have "b div k \<le> (a + (b - a) * k) div k"
  proof (rule zdiv_mono1)
    have "b - a \<le> (b - a) * k" using \<open>a \<le> b\<close> \<open>0 < k\<close> mult_left_mono [of 1 k "b - a"] by simp
    then show "b \<le> a + (b - a) * k" by linarith
  qed (fact \<open>0 < k\<close>)
  also have "\<dots> = a div k + (b - a)" using \<open>0 < k\<close> by simp
  finally show ?thesis by linarith
qed

lemma year_count_mono:
  assumes "a \<le> b"
  shows "year_count a \<le> year_count b"
proof -
  have q: "d div 146096 = d div 36524 div 4" for d :: int
    using zdiv_zmult2_eq [of 4 d 36524] by simp
  have "a div 36524 \<le> b div 36524" using assms by (rule zdiv_mono1) simp
  then have "a div 36524 - a div 36524 div 4 \<le> b div 36524 - b div 36524 div 4"
    by (rule sub_div_mono) simp
  moreover have "a - a div 1460 \<le> b - b div 1460" using assms by (rule sub_div_mono) simp
  ultimately show ?thesis by (simp add: year_count_def q)
qed

lemma year_of_day:
  assumes "0 \<le> y" "y < 400" "year_start y \<le> d" "d \<le> year_end y"
  shows "year_count d div 365 = y"
proof -
  have "year_count (year_start y) div 365 \<le> year_count d div 365"
    "year_count d div 365 \<le> year_count (year_end y) div 365"
    using assms(3,4) by (auto intro!: zdiv_mono1 year_count_mono)
  then show ?thesis using year_ends [OF assms(1,2)] by simp
qed

lemma day_has_year:
  assumes "0 \<le> d" "d < 146097"
  obtains y where "0 \<le> y" "y < 400" "year_start y \<le> d" "d \<le> year_end y"
proof -
  have "\<exists>y. 0 \<le> y \<and> y < int n \<and> year_start y \<le> d \<and> d < year_start (y + 1)" if "d < year_start (int n)" for n
    using that
  proof (induction n)
    case 0
    then show ?case using assms(1) by (simp add: year_start_def)
  next
    case (Suc n)
    show ?case
    proof (cases "d < year_start (int n)")
      case True
      from Suc.IH [OF this] show ?thesis by auto
    next
      case False
      then show ?thesis using Suc.prems by (intro exI [of _ "int n"]) (auto simp: algebra_simps)
    qed
  qed
  from this [of 400] show thesis
  proof (cases "d < year_start 400")
    case True
    with \<open>d < year_start (int 400) \<Longrightarrow> _\<close> obtain y where
      "0 \<le> y" "y < 400" "year_start y \<le> d" "d < year_start (y + 1)" by auto
    then show thesis by (intro that [of y]) (auto simp: year_end_def year_start_def)
  next
    case False
    then have "d = 146096" using assms(2) by (simp add: year_start_def)
    then show thesis by (intro that [of 399]) (simp_all add: year_end_def year_start_def)
  qed
qed


section \<open>Months of a year\<close>

text \<open>Months are counted from March; \<open>month_start m\<close> is the first day of month \<open>m\<close> of such a
  year.\<close>

definition month_start :: "int \<Rightarrow> int" where
  "month_start m = (153 * m + 2) div 5"

definition month_len :: "int \<Rightarrow> int" where
  "month_len m = (if m \<in> {1, 3, 6, 8} then 30 else if m = 11 then 29 else 31)"

lemma months_computed:
  "list_all (\<lambda>d. let m = (5 * d + 2) div 153
       in 0 \<le> m \<and> m \<le> 11 \<and> 1 \<le> d - month_start m + 1 \<and> d - month_start m + 1 \<le> month_len m
          \<and> (d < 365 \<longrightarrow> m = 11 \<longrightarrow> d - month_start m + 1 \<le> 28)) [0..365]"
  "list_all (\<lambda>m. list_all (\<lambda>d. d \<le> month_len m \<longrightarrow>
       0 \<le> month_start m + d - 1 \<and> month_start m + d - 1 \<le> 365
       \<and> (5 * (month_start m + d - 1) + 2) div 153 = m
       \<and> ((m = 11 \<longrightarrow> d \<le> 28) \<longrightarrow> month_start m + d - 1 \<le> 364)) [1..31]) [0..11]"
  by code_simp+

lemma month_of_day:
  assumes "0 \<le> d" "d \<le> 365"
  shows "0 \<le> (5 * d + 2) div 153" "(5 * d + 2) div 153 \<le> 11"
    "1 \<le> d - month_start ((5 * d + 2) div 153) + 1"
    "d - month_start ((5 * d + 2) div 153) + 1 \<le> month_len ((5 * d + 2) div 153)"
    "d < 365 \<Longrightarrow> (5 * d + 2) div 153 = 11 \<Longrightarrow> d - month_start ((5 * d + 2) div 153) + 1 \<le> 28"
proof -
  have "d \<in> set [0..365]" using assms by simp
  with months_computed(1) show "0 \<le> (5 * d + 2) div 153" "(5 * d + 2) div 153 \<le> 11"
    "1 \<le> d - month_start ((5 * d + 2) div 153) + 1"
    "d - month_start ((5 * d + 2) div 153) + 1 \<le> month_len ((5 * d + 2) div 153)"
    "d < 365 \<Longrightarrow> (5 * d + 2) div 153 = 11 \<Longrightarrow> d - month_start ((5 * d + 2) div 153) + 1 \<le> 28"
    unfolding list_all_iff Let_def by blast+
qed

lemma day_of_month:
  assumes "0 \<le> m" "m \<le> 11" "1 \<le> d" "d \<le> month_len m"
  shows "0 \<le> month_start m + d - 1" "month_start m + d - 1 \<le> 365"
    "(5 * (month_start m + d - 1) + 2) div 153 = m"
    "(m = 11 \<Longrightarrow> d \<le> 28) \<Longrightarrow> month_start m + d - 1 \<le> 364"
proof -
  have "month_len m \<le> 31" by (simp add: month_len_def)
  then have "m \<in> set [0..11]" "d \<in> set [1..31]" using assms by simp_all
  with months_computed(2) assms(4) show "0 \<le> month_start m + d - 1" "month_start m + d - 1 \<le> 365"
    "(5 * (month_start m + d - 1) + 2) div 153 = m"
    "(m = 11 \<Longrightarrow> d \<le> 28) \<Longrightarrow> month_start m + d - 1 \<le> 364"
    unfolding list_all_iff by blast+
qed

text \<open>The month number of the civil year, and its length in the year it falls into.\<close>

definition civil_month :: "int \<Rightarrow> int" where
  "civil_month m = m + (if m < 10 then 3 else -9)"

lemma civil_month:
  assumes "0 \<le> m" "m \<le> 11"
  shows "1 \<le> civil_month m" "civil_month m \<le> 12" "civil_month m \<le> 2 \<longleftrightarrow> 10 \<le> m"
    "civil_month m + (if 2 < civil_month m then -3 else 9) = m"
  using assms by (auto simp: civil_month_def)

lemma twelve_cases:
  "0 \<le> m \<Longrightarrow> m \<le> 11 \<Longrightarrow> m = 0 \<or> m = 1 \<or> m = 2 \<or> m = 3 \<or> m = 4 \<or> m = 5 \<or> m = 6 \<or> m = 7 \<or> m = 8
     \<or> m = 9 \<or> m = 10 \<or> m = (11 :: int)"
  by presburger

lemma days_in_civil_month:
  assumes "0 \<le> m" "m \<le> 11"
  shows "days_in_month y (civil_month m) = (if m = 11 \<and> \<not> is_leap_year y then 28 else month_len m)"
  using twelve_cases [OF assms]
  by (elim disjE) (simp_all add: days_in_month_def civil_month_def month_len_def)

lemma civil_month_surj:
  assumes "1 \<le> m" "m \<le> 12"
  obtains k where "0 \<le> k" "k \<le> 11" "m = civil_month k"
  using that [of "m + (if 2 < m then -3 else 9)"] assms by (auto simp: civil_month_def split: if_splits)

lemma leap_year_era: "is_leap_year (y + era * 400) = is_leap_year y"
proof -
  have "(y + era * 400) mod 4 = y mod 4" "(y + era * 400) mod 100 = y mod 100"
    using mod_mult_self1 [of y "era * 100" 4] mod_mult_self1 [of y "era * 4" 100]
    by (simp_all only: mult.assoc) simp_all
  then show ?thesis by (simp add: is_leap_year_def)
qed

section \<open>The two conversions\<close>

text \<open>Day \<open>d\<close> of month \<open>m\<close>, both counted from March, of year \<open>y\<close> of an era: the same date as a
  day number and as a civil date.\<close>

definition era_day :: "int \<Rightarrow> int \<Rightarrow> int \<Rightarrow> int \<Rightarrow> int" where
  "era_day era y m d = era * 146097 + year_start y + month_start m + d - 1 - UNIX_EPOCH_DAY_OFFSET"

definition era_civil :: "int \<Rightarrow> int \<Rightarrow> int \<Rightarrow> int \<Rightarrow> int \<times> int \<times> int" where
  "era_civil era y m d = (y + era * 400 + (if civil_month m \<le> 2 then 1 else 0), civil_month m, d)"

definition era_date :: "int \<Rightarrow> int \<Rightarrow> int \<Rightarrow> bool" where
  "era_date y m d \<longleftrightarrow> 0 \<le> y \<and> y < 400 \<and> 0 \<le> m \<and> m \<le> 11 \<and> 1 \<le> d \<and> d \<le> month_len m
     \<and> (m = 11 \<longrightarrow> \<not> is_leap_year (y + 1) \<longrightarrow> d \<le> 28)"

lemma era_date_year:
  assumes "era_date y m d"
  shows "year_start y \<le> year_start y + month_start m + d - 1"
    "year_start y + month_start m + d - 1 \<le> year_end y"
    "0 \<le> year_start y + month_start m + d - 1" "year_start y + month_start m + d - 1 < 146097"
proof -
  note a = assms [unfolded era_date_def]
  have m: "0 \<le> month_start m + d - 1" "month_start m + d - 1 \<le> 365"
    "\<not> is_leap_year (y + 1) \<Longrightarrow> month_start m + d - 1 \<le> 364"
    using day_of_month [of m d] a by auto
  have y: "year_end y - year_start y = 364 + (if is_leap_year (y + 1) then 1 else 0)"
    "0 \<le> year_start y" "year_end y < 146097"
    using a year_ends [of y] by auto
  then show "year_start y \<le> year_start y + month_start m + d - 1"
    "year_start y + month_start m + d - 1 \<le> year_end y"
    "0 \<le> year_start y + month_start m + d - 1" "year_start y + month_start m + d - 1 < 146097"
    using m by (auto split: if_splits)
qed

lemma civil_from_era_day:
  assumes "era_date y m d"
  shows "civil_from_days (era_day era y m d) = era_civil era y m d"
proof -
  let ?doe = "year_start y + month_start m + d - 1"
  note b = era_date_year [OF assms]
  note a = assms [unfolded era_date_def]
  have sh: "era_day era y m d + UNIX_EPOCH_DAY_OFFSET = era * 146097 + ?doe" by (simp add: era_day_def)
  have era: "(era * 146097 + ?doe) div 146097 = era" using b(3,4) by simp
  have doe: "era * 146097 + ?doe - era * 146097 = ?doe" by simp
  have yoe: "(?doe - ?doe div 1460 + ?doe div 36524 - ?doe div 146096) div 365 = y"
    using year_of_day [of y ?doe] a b unfolding year_count_def by blast
  have doy: "?doe - (365 * y + y div 4 - y div 100) = month_start m + d - 1"
    by (simp add: year_start_def)
  have mon: "(5 * (month_start m + d - 1) + 2) div 153 = m" using day_of_month(3) [of m d] a by blast
  have day: "month_start m + d - 1 - (153 * m + 2) div 5 + 1 = d" by (simp add: month_start_def)
  show ?thesis
    unfolding civil_from_days_def Let_def sh era doe yoe doy mon day
    by (simp add: era_civil_def civil_month_def)
qed

lemma day_has_date:
  obtains era y m d where "n = era_day era y m d" "era_date y m d" "era = (n + UNIX_EPOCH_DAY_OFFSET) div 146097"
proof -
  let ?s = "n + UNIX_EPOCH_DAY_OFFSET"
  let ?doe = "?s mod 146097"
  obtain y where y: "0 \<le> y" "y < 400" "year_start y \<le> ?doe" "?doe \<le> year_end y"
    using day_has_year [of ?doe] by auto
  define doy where "doy = ?doe - year_start y"
  have len: "year_end y - year_start y = 364 + (if is_leap_year (y + 1) then 1 else 0)"
    using y by (intro year_ends)
  have doy: "0 \<le> doy" "doy \<le> 365" "\<not> is_leap_year (y + 1) \<Longrightarrow> doy < 365"
    using y len by (auto simp: doy_def split: if_splits)
  define m where "m = (5 * doy + 2) div 153"
  define d where "d = doy - month_start m + 1"
  have "era_date y m d"
    using y doy month_of_day [OF doy(1,2)] by (auto simp: era_date_def m_def d_def)
  moreover have "n = era_day (?s div 146097) y m d"
    using div_mult_mod_eq [of ?s 146097] by (simp add: era_day_def d_def doy_def)
  ultimately show thesis using that by blast
qed

lemma days_from_era_civil:
  assumes "era_date y m d" "in_i128 (era * 146097)" "in_i128 (era_day era y m d + UNIX_EPOCH_DAY_OFFSET)"
    "in_i128 (era_day era y m d)" "era_civil era y m d = (cy, cm, cd)"
  shows "days_from_civil cy cm cd = Some (era_day era y m d)"
proof -
  note a = assms(1) [unfolded era_date_def]
  have c: "cy = y + era * 400 + (if civil_month m \<le> 2 then 1 else 0)" "cm = civil_month m" "cd = d"
    using assms(5) by (auto simp: era_civil_def)
  have m: "1 \<le> cm" "cm \<le> 12" "cm \<le> 2 \<longleftrightarrow> 10 \<le> m" "cm + (if 2 < cm then -3 else 9) = m"
    using civil_month [of m] a c by auto
  have leap: "m = 11 \<Longrightarrow> is_leap_year cy = is_leap_year (y + 1)"
    using c m leap_year_era [of "y + 1" era] by (simp add: algebra_simps)
  have len: "\<not> days_in_month cy cm < cd"
    using a c(2,3) leap days_in_civil_month [of m cy] by auto
  have adj: "cy - (if cm \<le> 2 then 1 else 0) = y + era * 400" using c by simp
  have era: "(y + era * 400) div 400 = era" using a by simp
  have yoe: "y + era * 400 - era * 400 = y" by simp
  have day: "y * 365 + y div 4 - y div 100 + ((153 * m + 2) div 5 + cd - 1)
      = era_day era y m d + UNIX_EPOCH_DAY_OFFSET - era * 146097"
    by (simp add: era_day_def year_start_def month_start_def c)
  show ?thesis
    unfolding days_from_civil_def Let_def adj era yoe m(4) day
    using m a c len assms(2-4)
    by (simp add: checked_mul_i128_def checked_add_i128_def checked_sub_i128_def i128_try_from_def)
qed


lemma civil_has_date:
  assumes "1 \<le> m" "m \<le> 12" "1 \<le> d" "d \<le> days_in_month y m"
  obtains era yy k where "era_date yy k d" "era_civil era yy k d = (y, m, d)"
    "era = (y - (if m \<le> 2 then 1 else 0)) div 400"
proof -
  obtain k where k: "0 \<le> k" "k \<le> 11" "m = civil_month k" using civil_month_surj [OF assms(1,2)] .
  let ?adj = "y - (if m \<le> 2 then 1 else 0)"
  let ?era = "?adj div 400" and ?yy = "?adj mod 400"
  have adj: "?yy + ?era * 400 = ?adj" using div_mult_mod_eq [of ?adj 400] by linarith
  have civil: "era_civil ?era ?yy k d = (y, m, d)"
    unfolding era_civil_def k(3) [symmetric] adj by simp
  have leap: "is_leap_year y = is_leap_year (?yy + 1)" if "k = 11"
  proof -
    have "m \<le> 2" using that k(3) by (simp add: civil_month_def)
    then have "y = (?yy + 1) + ?era * 400" using adj by simp
    then show ?thesis by (metis leap_year_era)
  qed
  have "era_date ?yy k d"
    using assms(3,4) k leap days_in_civil_month [OF k(1,2), of y]
    by (auto simp: era_date_def month_len_def split: if_splits)
  with civil show thesis using that by blast
qed

lemma div_bounds:
  assumes "0 < (k :: int)" "- B \<le> x" "x \<le> B" "0 \<le> B"
  shows "- B \<le> x div k" "x div k \<le> B"
proof -
  have "B * 1 \<le> B * k" using assms(1,4) by (intro mult_left_mono) auto
  then have "- (B * k) \<le> x" "x \<le> B * k" using assms(2,3) by simp_all
  then have "(- B * k) div k \<le> x div k" "x div k \<le> (B * k) div k"
    using assms(1) zdiv_mono1 [of "- B * k" x k] zdiv_mono1 [of x "B * k" k] by (simp_all only: minus_mult_left)
  moreover have "(- B * k) div k = - B" "(B * k) div k = B"
    using assms(1) nonzero_mult_div_cancel_right [of k B] nonzero_mult_div_cancel_right [of k "- B"] by auto
  ultimately show "- B \<le> x div k" "x div k \<le> B" by metis+
qed

lemma era_day_bounds:
  assumes "era_date y m d"
  shows "era * 146097 - UNIX_EPOCH_DAY_OFFSET \<le> era_day era y m d"
    "era_day era y m d < era * 146097 + 146097 - UNIX_EPOCH_DAY_OFFSET"
  using era_date_year [OF assms] by (simp_all add: era_day_def)

lemma era_day_i128:
  assumes "era_date y m d" "- (2 ^ 100) \<le> era" "era \<le> 2 ^ 100"
  shows "in_i128 (era * 146097)" "in_i128 (era_day era y m d + UNIX_EPOCH_DAY_OFFSET)"
    "in_i128 (era_day era y m d)"
  using era_day_bounds [OF assms(1), of era] assms(2,3)
  by (simp_all add: in_i128_def UNIX_EPOCH_DAY_OFFSET_def)

lemma days_from_civil_date:
  assumes "days_from_civil y m d = Some n" "0 \<le> d"
  shows "\<exists>era yy k. era_date yy k d \<and> era_civil era yy k d = (y, m, d) \<and> n = era_day era yy k d"
proof -
  have v: "1 \<le> m" "m \<le> 12" "d \<noteq> 0" "d \<le> days_in_month y m"
    using assms(1) by (auto simp: days_from_civil_def split: if_splits)
  then have "1 \<le> d" using assms(2) by simp
  then obtain era yy k where e: "era_date yy k d" "era_civil era yy k d = (y, m, d)"
    "era = (y - (if m \<le> 2 then 1 else 0)) div 400"
    using civil_has_date [OF v(1,2) _ v(4)] by metis
  note a = e(1) [unfolded era_date_def]
  have c: "y = yy + era * 400 + (if m \<le> 2 then 1 else 0)" "m = civil_month k"
    using e(2) by (auto simp: era_civil_def)
  have k: "m + (if 2 < m then -3 else 9) = k" using civil_month [of k] a c(2) by auto
  have yoe: "y - (if m \<le> 2 then 1 else 0) - era * 400 = yy" using c(1) by simp
  have "n = era * 146097 + (yy * 365 + yy div 4 - yy div 100 + ((153 * k + 2) div 5 + d - 1))
      - UNIX_EPOCH_DAY_OFFSET"
    using assms(1) v unfolding days_from_civil_def Let_def e(3) [symmetric] yoe k
    by (auto simp: checked_mul_i128_def checked_add_i128_def checked_sub_i128_def bind_eq_Some_conv
        split: if_splits)
  then have "n = era_day era yy k d" by (simp add: era_day_def year_start_def month_start_def)
  with e show ?thesis by blast
qed

text \<open>The calendar conversions are inverse to each other: every day number that an \<open>i64\<close> timestamp
  can have is the day number of the civil date computed for it, and a civil date whose day number is
  defined is recovered from it, leap days and negative years included.\<close>

lemma civil_days_inverse:
  assumes "in_i64 n" "0 \<le> d"
  shows "(case civil_from_days n of (y, m, d) \<Rightarrow> days_from_civil y m d) = Some n
    \<and> (days_from_civil y m d = Some n \<longrightarrow> civil_from_days n = (y, m, d))"
proof
  obtain era yy k dd where e: "n = era_day era yy k dd" "era_date yy k dd"
    "era = (n + UNIX_EPOCH_DAY_OFFSET) div 146097" using day_has_date .
  have "- (2 ^ 100) \<le> era" "era \<le> 2 ^ 100"
    using assms(1) div_bounds [of 146097 "2 ^ 100" "n + UNIX_EPOCH_DAY_OFFSET"]
    unfolding e(3) by (simp_all add: in_i64_def UNIX_EPOCH_DAY_OFFSET_def)
  note b = era_day_i128 [OF e(2) this]
  show "(case civil_from_days n of (y, m, d) \<Rightarrow> days_from_civil y m d) = Some n"
    using civil_from_era_day [OF e(2), of era] days_from_era_civil [OF e(2) b] e(1)
    by (auto split: prod.splits)
  show "days_from_civil y m d = Some n \<longrightarrow> civil_from_days n = (y, m, d)"
    using days_from_civil_date [of y m d n] assms(2) civil_from_era_day by metis
qed

lemma days_in_month_pos:
  assumes "1 \<le> m" "m \<le> 12"
  shows "1 \<le> days_in_month y m"
proof -
  obtain k where "0 \<le> k" "k \<le> 11" "m = civil_month k" using civil_month_surj [OF assms] .
  then show ?thesis by (simp add: days_in_civil_month month_len_def)
qed

lemma day_seconds_i128:
  "- (2 ^ 110) \<le> n \<Longrightarrow> n \<le> 2 ^ 110 \<Longrightarrow> 0 \<le> s \<Longrightarrow> s < 86400 \<Longrightarrow> in_i128 (n * 86400) \<and> in_i128 (n * 86400 + s)"
  by (simp add: in_i128_def)

text \<open>Adding calendar months keeps the time of day and moves the date to the target month, at the
  same day or the last day of that month if it is shorter; the only failure is a result outside
  \<open>i64\<close>.\<close>

lemma calendar_months_are_added:
  assumes "in_i64 timestamp" "0 \<le> months" "months < 2 ^ 32"
    and "civil_from_days (timestamp div 86400) = (year, month, day)"
    and "month_index = year * 12 + (month - 1) + months"
  shows "\<exists>n. civil_from_days n = (month_index div 12, month_index mod 12 + 1,
        min day (days_in_month (month_index div 12) (month_index mod 12 + 1)))
     \<and> add_utc_calendar_months timestamp months
        = i64_try_from (n * 86400 + timestamp mod 86400)"
proof -
  let ?days = "timestamp div 86400"
  let ?y = "month_index div 12" and ?m = "month_index mod 12 + 1"
  let ?d = "min day (days_in_month ?y ?m)"
  obtain era yy k dd where e: "?days = era_day era yy k dd" "era_date yy k dd"
    "era = (?days + UNIX_EPOCH_DAY_OFFSET) div 146097" using day_has_date .
  note a = e(2) [unfolded era_date_def]
  have era: "- (2 ^ 70) \<le> era" "era \<le> 2 ^ 70"
    using assms(1) div_bounds [of 86400 "2 ^ 63" timestamp]
      div_bounds [of 146097 "2 ^ 70" "?days + UNIX_EPOCH_DAY_OFFSET"]
    unfolding e(3) by (simp_all add: in_i64_def UNIX_EPOCH_DAY_OFFSET_def)
  have c: "year = yy + era * 400 + (if civil_month k \<le> 2 then 1 else 0)" "month = civil_month k" "day = dd"
    using civil_from_era_day [OF e(2), of era] e(1) assms(4) by (auto simp: era_civil_def)
  have y: "- (2 ^ 80) \<le> year" "year \<le> 2 ^ 80" using c(1) a era by auto
  have m: "1 \<le> month" "month \<le> 12" using civil_month [of k] a c(2) by auto
  have idx: "- (2 ^ 90) \<le> month_index" "month_index \<le> 2 ^ 90" using y m assms(2,3,5) by auto
  have chk: "checked_mul_i128 year 12 = Some (year * 12)"
    "checked_add_i128 (year * 12) (month - 1) = Some (year * 12 + (month - 1))"
    "checked_add_i128 (year * 12 + (month - 1)) months = Some month_index"
    using y m idx assms(2,3,5) by (auto simp: checked_mul_i128_def checked_add_i128_def in_i128_def)
  have tm: "1 \<le> ?m" "?m \<le> 12" by (simp_all add: pos_mod_bound [of 12 month_index, simplified])
  have td: "1 \<le> ?d" "?d \<le> days_in_month ?y ?m" using a c(3) days_in_month_pos [OF tm, of ?y] by auto
  obtain era2 yy2 k2 where f: "era_date yy2 k2 ?d" "era_civil era2 yy2 k2 ?d = (?y, ?m, ?d)"
    "era2 = (?y - (if ?m \<le> 2 then 1 else 0)) div 400"
    using civil_has_date [OF tm td] .
  define n where "n = era_day era2 yy2 k2 ?d"
  have ty: "- (2 ^ 90) \<le> ?y" "?y \<le> 2 ^ 90" using idx div_bounds [of 12 "2 ^ 90" month_index] by simp_all
  have era2: "- (2 ^ 91) \<le> era2" "era2 \<le> 2 ^ 91"
    using ty div_bounds [of 400 "2 ^ 91" "?y - (if ?m \<le> 2 then 1 else 0)"]
    unfolding f(3) by (auto split: if_splits)
  have "- (2 ^ 100) \<le> era2" "era2 \<le> 2 ^ 100" using era2 by simp_all
  note b = era_day_i128 [OF f(1) this]
  have days: "days_from_civil ?y ?m ?d = Some n"
    unfolding n_def by (rule days_from_era_civil [OF f(1) b f(2)])
  have nb: "- (2 ^ 110) \<le> n" "n \<le> 2 ^ 110"
    using era_day_bounds [OF f(1), of era2] era2 by (simp_all add: n_def UNIX_EPOCH_DAY_OFFSET_def)
  have sec: "0 \<le> timestamp mod 86400" "timestamp mod 86400 < 86400" by simp_all
  have fin: "checked_mul_i128 n 86400 = Some (n * 86400)"
    "checked_add_i128 (n * 86400) (timestamp mod 86400) = Some (n * 86400 + timestamp mod 86400)"
    using day_seconds_i128 [OF nb sec] by (simp_all add: checked_mul_i128_def checked_add_i128_def)
  have "add_utc_calendar_months timestamp months = i64_try_from (n * 86400 + timestamp mod 86400)"
    unfolding add_utc_calendar_months_def Let_def SECONDS_PER_DAY_def
    by (simp add: assms(4) chk days fin)
  moreover have "civil_from_days n = (?y, ?m, ?d)"
    unfolding n_def using civil_from_era_day [OF f(1), of era2] f(2) by simp
  ultimately show ?thesis by blast
qed

end
