(* ===== verification/Plane_Core.thy ===== *)
theory Plane_Core
  imports Decimal "HOL-Library.Product_Lexorder" "HOL-Library.List_Lexorder" "HOL-Library.Char_ord"
begin

text \<open>
  What the subscription planes of the forward crate (\<open>glm\<close>, \<open>kimi\<close>, \<open>suno\<close>, \<open>tripo3d\<close>) have in
  common. Each plane picks a profile by an integer rank and lets a cursor rotate the ties, and each
  decides after an attempt whether the turn ends or moves to another profile, spending a bounded
  budget only on the faults of the upstream. The planes repeat this code over their own verdicts;
  the laws are stated here once.
\<close>

type_synonym u32 = "32 word"
type_synonym u16 = "16 word"

definition parse_u32 :: "string \<Rightarrow> u32 option" where
  "parse_u32 s = Option.bind (parse_u64 s) (\<lambda>n. if n < 2 ^ 32 then Some (ucast n) else None)"

definition parse_i64 :: "string \<Rightarrow> i64 option" where
  "parse_i64 s = Option.bind (parse_int s) (\<lambda>n. if - (2 ^ 63) \<le> n \<and> n < 2 ^ 63 then Some n else None)"

definition mul_i64 :: "i64 \<Rightarrow> i64 \<Rightarrow> i64" where
  "mul_i64 a b = wrap_i64 (a * b)"

text \<open>\<open>min_by_key\<close> keeps the first of several minima, \<open>max\<close> of an empty iterator is \<open>None\<close>.\<close>

definition min_by_key :: "('a \<Rightarrow> int) \<Rightarrow> 'a list \<Rightarrow> 'a option" where
  "min_by_key key xs =
     foldl (\<lambda>best x. case best of None \<Rightarrow> Some x
       | Some b \<Rightarrow> Some (if key x < key b then x else b)) None xs"

definition max_option :: "i64 list \<Rightarrow> i64 option" where
  "max_option xs = (if xs = [] then None else Some (foldl max (hd xs) (tl xs)))"

section \<open>Ranked choice with rotating ties\<close>

text \<open>The tail of every \<open>select\<close>: the candidates of the least rank, ordered by id, indexed by the
  cursor modulo their number.\<close>

definition least_rank :: "('c \<Rightarrow> 'k :: linorder) \<Rightarrow> 'c list \<Rightarrow> 'k" where
  "least_rank rank cs = foldl min (rank (hd cs)) (map rank (tl cs))"

definition tied_candidates :: "('c \<Rightarrow> 'k :: linorder) \<Rightarrow> ('c \<Rightarrow> string) \<Rightarrow> 'c list \<Rightarrow> 'c list" where
  "tied_candidates rank profile_id cs =
     sort_key profile_id (filter (\<lambda>c. rank c = least_rank rank cs) cs)"

definition pick_ranked :: "('c \<Rightarrow> 'k :: linorder) \<Rightarrow> ('c \<Rightarrow> string) \<Rightarrow> 'c list \<Rightarrow> u64 \<Rightarrow> 'c option" where
  "pick_ranked rank profile_id cs cursor =
     (if cs = [] then None
      else let tied = tied_candidates rank profile_id cs
           in Some (tied ! unat (cursor mod of_nat (length tied))))"

lemma least_rank_Min: "cs \<noteq> [] \<Longrightarrow> least_rank rank cs = Min (rank ` set cs)"
proof -
  assume "cs \<noteq> []"
  then have "rank ` set cs = set (rank (hd cs) # map rank (tl cs))" by (cases cs) auto
  moreover have "foldl min (rank (hd cs)) (map rank (tl cs)) = fold min (map rank (tl cs)) (rank (hd cs))"
    by (simp add: foldl_conv_fold min.commute)
  ultimately show ?thesis by (simp only: least_rank_def Min.set_eq_fold)
qed

lemma set_tied:
  "cs \<noteq> [] \<Longrightarrow> set (tied_candidates rank pid cs) = {c \<in> set cs. \<forall>d\<in>set cs. rank c \<le> rank d}"
  unfolding tied_candidates_def by (auto simp: least_rank_Min intro!: Min_eqI [symmetric])

lemma tied_nonempty:
  assumes "cs \<noteq> []"
  shows "tied_candidates rank pid cs \<noteq> []"
proof -
  have "Min (rank ` set cs) \<in> rank ` set cs" using assms by (intro Min_in) simp_all
  then obtain c where "c \<in> set cs" "rank c = Min (rank ` set cs)" by auto
  then have "c \<in> set (tied_candidates rank pid cs)"
    using assms by (simp add: tied_candidates_def least_rank_Min)
  then show ?thesis by auto
qed

lemma tied_length: "length (tied_candidates rank pid cs) \<le> length cs"
  by (simp add: tied_candidates_def)

lemma cursor_index:
  assumes "0 < n" "n < 2 ^ 64"
  shows "unat (cursor mod of_nat n :: u64) = unat cursor mod n"
  using assms by (simp add: unat_mod unsigned_of_nat take_bit_nat_eq_self)

lemma filter_short: "length xs < n \<Longrightarrow> length (filter P xs) < n"
  by (rule le_less_trans [OF length_filter_le])

lemma pick_ranked_minimal:
  assumes "pick_ranked rank pid cs cursor = Some c" "length cs < 2 ^ 64"
  shows "c \<in> set cs \<and> (\<forall>d\<in>set cs. rank c \<le> rank d)"
proof -
  let ?t = "tied_candidates rank pid cs"
  have ne: "cs \<noteq> []" using assms(1) by (auto simp: pick_ranked_def)
  have n: "0 < length ?t" "length ?t < 2 ^ 64"
    using tied_nonempty [OF ne] tied_length [of rank pid cs] assms(2) by auto
  have "c = ?t ! (unat cursor mod length ?t)"
    using assms(1) ne cursor_index [OF n] by (simp add: pick_ranked_def Let_def)
  then have "c \<in> set ?t" using n(1) by simp
  then show ?thesis using set_tied [OF ne] by blast
qed

lemma pick_ranked_None: "pick_ranked rank pid cs cursor = None \<longleftrightarrow> cs = []"
  by (simp add: pick_ranked_def Let_def)

text \<open>Consecutive cursor values walk through the tied candidates, each once per round.\<close>

lemma pick_ranked_round:
  assumes "cs \<noteq> []" "length cs < 2 ^ 64" "i < length (tied_candidates rank pid cs)"
    and "unat cursor mod length (tied_candidates rank pid cs) = i"
  shows "pick_ranked rank pid cs cursor = Some (tied_candidates rank pid cs ! i)"
proof -
  have "0 < length (tied_candidates rank pid cs)" "length (tied_candidates rank pid cs) < 2 ^ 64"
    using assms tied_length [of rank pid cs] by auto
  then show ?thesis using assms(1,4) cursor_index by (simp add: pick_ranked_def Let_def)
qed

section \<open>Attempts under a budget\<close>

definition sat_sub_u32 :: "u32 \<Rightarrow> u32 \<Rightarrow> u32" where
  "sat_sub_u32 a b = (if b \<le> a then a - b else 0)"

lemma spend_one:
  assumes "sat_sub_u32 b 1 \<noteq> 0"
  shows "unat b = Suc (unat (sat_sub_u32 b 1)) \<and> 0 < unat (sat_sub_u32 b 1)"
proof -
  have "1 \<le> b" using assms by (auto simp: sat_sub_u32_def split: if_splits)
  then have "unat (sat_sub_u32 b 1) = unat b - 1" by (simp add: sat_sub_u32_def unat_sub)
  moreover have "0 < unat (sat_sub_u32 b 1)" using assms by (simp add: unat_gt_0)
  ultimately show ?thesis by simp
qed

text \<open>A plane's decision after a failed attempt, seen by the loop around it: \<open>rotates\<close> is the policy
  of the next attempt when the turn moves on to another profile.\<close>

locale attempt_policy =
  fixes rotates :: "'v \<Rightarrow> 'd \<Rightarrow> 'p \<Rightarrow> nat \<Rightarrow> 'p option"
    and spends :: "'v \<Rightarrow> bool"
    and budget :: "'p \<Rightarrow> nat"
    and open_phase :: "'d \<Rightarrow> bool"
  assumes rotates_open: "rotates v d p n = Some p' \<Longrightarrow> open_phase d"
    and rotates_left: "rotates v d p n = Some p' \<Longrightarrow> 0 < n"
    and rotates_spend: "rotates v d p n = Some p' \<Longrightarrow> spends v \<Longrightarrow> budget p = Suc (budget p') \<and> 0 < budget p'"
    and rotates_keep: "rotates v d p n = Some p' \<Longrightarrow> \<not> spends v \<Longrightarrow> budget p' = budget p"
begin

fun rotations :: "('v \<times> 'd \<times> nat) list \<Rightarrow> 'p \<Rightarrow> 'p option" where
  "rotations [] p = Some p"
| "rotations ((v, d, n) # vs) p = (case rotates v d p n of None \<Rightarrow> None | Some p' \<Rightarrow> rotations vs p')"

lemma rotations_budget:
  assumes "rotations vs p = Some p'"
  shows "budget p = budget p' + length (filter (\<lambda>(v, d, n). spends v) vs)"
  using assms
proof (induction vs arbitrary: p)
  case (Cons x vs)
  obtain v d n where x: "x = (v, d, n)" by (cases x)
  with Cons.prems obtain q where q: "rotates v d p n = Some q" "rotations vs q = Some p'"
    by (auto split: option.splits)
  show ?case using Cons.IH [OF q(2)] rotates_spend [OF q(1)] rotates_keep [OF q(1)] x by auto
qed simp

lemma rotations_spent:
  assumes "rotations vs p = Some p'" "0 < budget p"
  shows "length (filter (\<lambda>(v, d, n). spends v) vs) < budget p"
proof -
  have "0 < budget p'"
    using assms
  proof (induction vs arbitrary: p)
    case (Cons x vs)
    obtain v d n where x: "x = (v, d, n)" by (cases x)
    with Cons.prems(1) obtain q where q: "rotates v d p n = Some q" "rotations vs q = Some p'"
      by (auto split: option.splits)
    have "0 < budget q"
      using Cons.prems(2) rotates_spend [OF q(1)] rotates_keep [OF q(1)] by (cases "spends v") auto
    then show ?case using Cons.IH [OF q(2)] by simp
  qed simp
  then show ?thesis using rotations_budget [OF assms(1)] by simp
qed

end

section \<open>The attempt loop\<close>

text \<open>The loop of a turn: a round ends it, or moves on with one more profile excluded and the policy of
  the next attempt. The rounds are what the loop meets, one after the other; with too few of them
  the turn is still open and has no outcome.\<close>

datatype ('o, 'p) loop_step = Stop 'o | Go string 'p

fun rotate_rounds ::
    "('r \<Rightarrow> string set \<Rightarrow> 'p \<Rightarrow> ('o, 'p) loop_step \<times> 'a list) \<Rightarrow> 'r list \<Rightarrow> string set \<Rightarrow> 'p
      \<Rightarrow> 'o option \<times> 'a list" where
  "rotate_rounds step [] excluded policy = (None, [])"
| "rotate_rounds step (r # rs) excluded policy =
     (case step r excluded policy of
        (Stop outcome, attempts) \<Rightarrow> (Some outcome, attempts)
      | (Go i policy', attempts) \<Rightarrow>
          (let (outcome, later) = rotate_rounds step rs (insert i excluded) policy'
           in (outcome, attempts @ later)))"

text \<open>What a plane owes the loop: its rounds choose profiles of the roster that were not tried yet,
  leave one attempt each, and pay for it from the budget, which a move never exhausts.\<close>

locale rotation_loop =
  fixes step :: "'r \<Rightarrow> string set \<Rightarrow> 'p \<Rightarrow> ('o, 'p) loop_step \<times> 'a list"
    and roster :: "string set"
    and round_ok :: "'r \<Rightarrow> bool"
    and profile_of :: "'a \<Rightarrow> string"
    and charge_of :: "'a \<Rightarrow> nat"
    and budget_of :: "'p \<Rightarrow> nat"
  assumes stops: "step r ex p = (Stop outcome, attempts) \<Longrightarrow> round_ok r \<Longrightarrow> 0 < budget_of p \<Longrightarrow>
      attempts = [] \<or> (\<exists>a. attempts = [a] \<and> profile_of a \<in> roster - ex \<and> charge_of a \<le> budget_of p)"
    and goes: "step r ex p = (Go i p', attempts) \<Longrightarrow> round_ok r \<Longrightarrow> 0 < budget_of p \<Longrightarrow>
      (\<exists>a. attempts = [a] \<and> profile_of a = i \<and> i \<in> roster - ex
        \<and> budget_of p = budget_of p' + charge_of a \<and> 0 < budget_of p')"
begin

definition bounded_run :: "string set \<Rightarrow> 'p \<Rightarrow> 'o option \<times> 'a list \<Rightarrow> bool" where
  "bounded_run ids p result \<longleftrightarrow>
     (\<exists>outcome attempts. result = (Some outcome, attempts) \<and> distinct (map profile_of attempts)
       \<and> profile_of ` set attempts \<subseteq> ids \<and> sum_list (map charge_of attempts) \<le> budget_of p)"

lemma bounded_go:
  assumes "bounded_run (ids - {profile_of a}) p' (outcome, later)" "profile_of a \<in> ids"
    and "budget_of p = budget_of p' + charge_of a"
  shows "bounded_run ids p (outcome, a # later)"
  using assms by (auto simp: bounded_run_def)

lemma loop_ends:
  assumes "finite roster" "list_all round_ok rounds" "card (roster - ex) < length rounds" "0 < budget_of p"
  shows "bounded_run (roster - ex) p (rotate_rounds step rounds ex p)"
  using assms(2-4)
proof (induction rounds arbitrary: ex p)
  case (Cons r rs)
  have ok: "round_ok r" "list_all round_ok rs" using Cons.prems(1) by simp_all
  obtain s attempts where s: "step r ex p = (s, attempts)" by fastforce
  show ?case
  proof (cases s)
    case (Stop outcome)
    then have "attempts = [] \<or> (\<exists>a. attempts = [a] \<and> profile_of a \<in> roster - ex \<and> charge_of a \<le> budget_of p)"
      using stops [of r ex p outcome attempts] s ok(1) Cons.prems(3) by simp
    then show ?thesis using s Stop by (auto simp: bounded_run_def)
  next
    case (Go i p')
    then obtain a where a: "attempts = [a]" "profile_of a = i" "i \<in> roster - ex"
      "budget_of p = budget_of p' + charge_of a" "0 < budget_of p'"
      using goes [of r ex p i p' attempts] s ok(1) Cons.prems(3) by auto
    obtain outcome later where l: "rotate_rounds step rs (insert i ex) p' = (outcome, later)" by fastforce
    have "card (roster - insert i ex) < card (roster - ex)"
      using a(3) assms(1) by (intro psubset_card_mono) auto
    then have "bounded_run (roster - insert i ex) p' (outcome, later)"
      using Cons.IH [OF ok(2) _ a(5), of "insert i ex"] Cons.prems(2) l by simp
    moreover have "roster - insert i ex = roster - ex - {profile_of a}" using a(2) by auto
    ultimately have "bounded_run (roster - ex) p (outcome, a # later)" using bounded_go a(2-4) by metis
    then show ?thesis using s Go l a(1) by simp
  qed
qed simp

end

text \<open>Where an attempt may create something at the provider, a move to another profile is allowed past
  some attempts only. Every attempt but the last was moved past, and the moves leave something of the
  budget.\<close>

locale creation_loop = rotation_loop step roster round_ok profile_of charge_of budget_of
  for step :: "'r \<Rightarrow> string set \<Rightarrow> 'p \<Rightarrow> ('o, 'p) loop_step \<times> 'a list"
    and roster round_ok profile_of charge_of budget_of +
  fixes passable :: "'a \<Rightarrow> bool"
  assumes goes_past: "step r ex p = (Go i p', attempts) \<Longrightarrow> list_all passable attempts"
    and stops_single: "step r ex p = (Stop outcome, attempts) \<Longrightarrow> length attempts \<le> 1"
begin

lemma moves_past: "list_all passable (butlast (snd (rotate_rounds step rounds ex p)))"
proof (induction rounds arbitrary: ex p)
  case (Cons r rs)
  obtain s attempts where s: "step r ex p = (s, attempts)" by fastforce
  show ?case
  proof (cases s)
    case (Stop outcome)
    then have "length attempts \<le> 1" using s stops_single by simp
    then have "butlast attempts = []" by (cases attempts) auto
    then show ?thesis using s Stop by simp
  next
    case (Go i p')
    obtain outcome later where l: "rotate_rounds step rs (insert i ex) p' = (outcome, later)" by fastforce
    have "list_all passable attempts" using s Go goes_past by simp
    moreover have "list_all passable (butlast later)" using Cons.IH [of "insert i ex" p'] l by simp
    ultimately show ?thesis
      using s Go l by (auto simp: butlast_append list_all_iff dest: in_set_butlastD)
  qed
qed simp

lemma moves_within_budget:
  assumes "list_all round_ok rounds" "0 < budget_of p"
  shows "sum_list (map charge_of (butlast (snd (rotate_rounds step rounds ex p)))) < budget_of p"
  using assms
proof (induction rounds arbitrary: ex p)
  case (Cons r rs)
  obtain s attempts where s: "step r ex p = (s, attempts)" by fastforce
  show ?case
  proof (cases s)
    case (Stop outcome)
    then have "length attempts \<le> 1" using s stops_single by simp
    then have "butlast attempts = []" by (cases attempts) auto
    then show ?thesis using s Stop Cons.prems by simp
  next
    case (Go i p')
    then obtain a where a: "attempts = [a]" "budget_of p = budget_of p' + charge_of a" "0 < budget_of p'"
      using goes [of r ex p i p' attempts] s Cons.prems by auto
    obtain outcome later where l: "rotate_rounds step rs (insert i ex) p' = (outcome, later)" by fastforce
    then have "sum_list (map charge_of (butlast later)) < budget_of p'"
      using Cons.IH [of p' "insert i ex"] Cons.prems a(3) by simp
    then show ?thesis using s Go l a by simp
  qed
qed simp

lemma moves_counted:
  assumes "list_all round_ok rounds" "0 < budget_of p" "\<And>a. passable a \<Longrightarrow> counted a \<Longrightarrow> 1 \<le> charge_of a"
  shows "length (filter counted (butlast (snd (rotate_rounds step rounds ex p)))) < budget_of p"
proof -
  have "length (filter counted as) \<le> sum_list (map charge_of as)" if "list_all passable as" for as
    using that
  proof (induction as)
    case (Cons a as)
    then show ?case using assms(3) [of a] by auto
  qed simp
  from this [OF moves_past] moves_within_budget [OF assms(1,2)] show ?thesis by (rule le_less_trans)
qed

end

end
