(* ===== verification/Plane_Glm.thy ===== *)
theory Plane_Glm
  imports Plane_Core
begin

text \<open>
  The GLM plane: the classification of an upstream answer (\<open>src/crates/forward/src/glm/transport.rs\<close>),
  the selection of a profile (\<open>selection.rs\<close>), the decision after an attempt (\<open>pool.rs\<close>), and of
  \<open>gateway.rs\<close> the health of a profile and the attempt loop of a turn.

  \<open>src/crates/forward/src/kimi/selection.rs\<close> repeats the selector over its own reasons; the
  candidate is therefore polymorphic in the reason. The identity and billing blocks of a request
  body are not modelled, they do not enter a decision.
\<close>

section \<open>Verdicts\<close>

datatype glm_verdict =
    GlmOk | GlmAccountDead | GlmAccountSuspect | GlmQuotaExhausted | GlmModelIneligible
  | GlmTransport | GlmClientError

definition glm_error_business_code :: "'v serde_json \<Rightarrow> 'v \<Rightarrow> u32 option" where
  "glm_error_business_code J payload =
     Option.bind (jget J payload ''error'') (\<lambda>error.
     Option.bind (jget J error ''code'') (\<lambda>code.
       case as_str J code of
         Some t \<Rightarrow> parse_u32 (trim t)
       | None \<Rightarrow> Option.bind (as_u64 J code) (\<lambda>n. if n < 2 ^ 32 then Some (ucast n) else None)))"

definition glm_classify_http_status :: "u16 \<Rightarrow> glm_verdict" where
  "glm_classify_http_status status =
     (if 200 \<le> status \<and> status \<le> 299 then GlmOk
      else if status = 401 then GlmAccountDead
      else if status = 403 then GlmAccountSuspect
      else if status \<in> {408, 409, 425, 429} then GlmTransport
      else if 500 \<le> status \<and> status \<le> 599 then GlmTransport
      else GlmClientError)"

definition glm_classify_status :: "u16 \<Rightarrow> u32 option \<Rightarrow> glm_verdict" where
  "glm_classify_status status business_code =
     (case business_code of
        Some code \<Rightarrow>
          if code \<in> {0, 200}
          then (if 200 \<le> status \<and> status < 300 then GlmOk else glm_classify_http_status status)
          else if 1000 \<le> code \<and> code \<le> 1005 then GlmAccountDead
          else if code = 401 then GlmAccountDead
          else if code = 1309 then GlmAccountDead
          else if code = 1113 \<or> code = 1313 \<or> (1316 \<le> code \<and> code \<le> 1321) then GlmAccountSuspect
          else if code = 1315 then GlmAccountSuspect
          else if code \<in> {1308, 1310} then GlmQuotaExhausted
          else if code = 1311 then GlmModelIneligible
          else if code \<in> {1302, 1305} then GlmTransport
          else if (1210 \<le> code \<and> code \<le> 1215) \<or> code = 1301 \<or> code = 1220 then GlmClientError
          else GlmAccountSuspect
      | None \<Rightarrow> glm_classify_http_status status)"

definition glm_may_rotate :: "glm_verdict \<Rightarrow> bool" where
  "glm_may_rotate verdict \<longleftrightarrow> \<not> (verdict = GlmOk \<or> verdict = GlmClientError)"

definition glm_spends_transport_budget :: "glm_verdict \<Rightarrow> bool" where
  "glm_spends_transport_budget verdict \<longleftrightarrow> verdict = GlmTransport"

section \<open>Selection\<close>

datatype glm_ineligible =
    GlmIneligibleQuotaWall | GlmIneligibleAccountDead | GlmIneligibleAccountSuspect
  | GlmIneligibleModel | GlmIneligibleTransportWedged

record window_evidence =
  we_used_fraction_units :: "i64 option"
  we_reset_in_secs :: "i64 option"

record 'r candidate =
  cd_profile_id :: string
  cd_ineligible :: "'r option"
  cd_window_5h :: "window_evidence option"
  cd_window_weekly :: "window_evidence option"
  cd_quota_age_secs :: "i64 option"
  cd_inflight :: u32

definition is_eligible :: "'r candidate \<Rightarrow> bool" where
  "is_eligible c \<longleftrightarrow> cd_ineligible c = None"

definition has_observation :: "'r candidate \<Rightarrow> bool" where
  "has_observation c \<longleftrightarrow> cd_window_5h c \<noteq> None \<or> cd_window_weekly c \<noteq> None"

definition FRACTION_SCALE :: i64 where
  "FRACTION_SCALE = 100000000"

definition STEERING_THRESHOLD :: i64 where
  "STEERING_THRESHOLD = trunc_div FRACTION_SCALE 2"

definition STALE_AFTER_SECS :: i64 where
  "STALE_AFTER_SECS = 300"

definition RESET_DISCOUNT_HORIZON_SECS :: i64 where
  "RESET_DISCOUNT_HORIZON_SECS = 3600"

definition WEEKLY_SOFT_RESERVE :: i64 where
  "WEEKLY_SOFT_RESERVE = trunc_div (95 * FRACTION_SCALE) 100"

definition discounted_5h :: "window_evidence \<Rightarrow> i64 option" where
  "discounted_5h window =
     Option.bind (we_used_fraction_units window) (\<lambda>used.
       let discount = (case we_reset_in_secs window of
             Some secs \<Rightarrow> max 0 (min secs RESET_DISCOUNT_HORIZON_SECS)
           | None \<Rightarrow> RESET_DISCOUNT_HORIZON_SECS)
       in Some (trunc_div (mul_i64 used discount) RESET_DISCOUNT_HORIZON_SECS))"

definition steering :: "i64 option \<Rightarrow> i64" where
  "steering used = (case used of Some u \<Rightarrow> if STEERING_THRESHOLD \<le> u then u else 0 | None \<Rightarrow> 0)"

definition rank :: "'r candidate \<Rightarrow> int \<times> u32 \<times> i64 \<times> i64" where
  "rank c =
     ((case cd_quota_age_secs c of
         Some age \<Rightarrow> if age \<le> STALE_AFTER_SECS then 0 else 2
       | None \<Rightarrow> 1),
      cd_inflight c,
      steering (Option.bind (cd_window_weekly c) we_used_fraction_units),
      steering (Option.bind (cd_window_5h c) discounted_5h))"

definition at_reserve :: "'r candidate \<Rightarrow> bool" where
  "at_reserve c \<longleftrightarrow>
     (case Option.bind (cd_window_weekly c) we_used_fraction_units of
        Some used \<Rightarrow> WEEKLY_SOFT_RESERVE \<le> used | None \<Rightarrow> False)"

definition placement_candidates :: "'r candidate list \<Rightarrow> 'r candidate list" where
  "placement_candidates eligible =
     (if list_ex (\<lambda>c. \<not> at_reserve c) (filter has_observation eligible)
      then filter (\<lambda>c. \<not> at_reserve c) eligible else eligible)"

definition select :: "'r candidate list \<Rightarrow> string option \<Rightarrow> u64 \<Rightarrow> 'r candidate option" where
  "select candidates sticky cursor =
     (case (case sticky of
              Some sticky_id \<Rightarrow>
                List.find (\<lambda>c. cd_profile_id c = sticky_id \<and> is_eligible c) candidates
            | None \<Rightarrow> None) of
        Some pinned \<Rightarrow> Some pinned
      | None \<Rightarrow>
          (let eligible = filter is_eligible candidates
           in if eligible = [] then None
              else pick_ranked rank cd_profile_id (placement_candidates eligible) cursor))"

definition ineligible_ids :: "'r candidate list \<Rightarrow> string set" where
  "ineligible_ids candidates = cd_profile_id ` set (filter (\<lambda>c. \<not> is_eligible c) candidates)"

section \<open>The decision after an attempt\<close>

datatype delivery = PreByte | Delivering

record glm_policy =
  gy_transport_budget :: u32

definition glm_policy_default :: glm_policy where
  "glm_policy_default = \<lparr>gy_transport_budget = 3\<rparr>"

datatype glm_next_step =
    GlmRotate | GlmSurfaceUpstreamError | GlmSurfaceCapacityExhausted | GlmDeliver

datatype glm_effect =
    GlmNoEffect | GlmCoolUntilReset | GlmEffectAccountDead | GlmEffectAccountSuspect
  | GlmEffectModelIneligible | GlmTransportFault

record glm_decision =
  gd_next :: glm_next_step
  gd_effect :: glm_effect
  gd_policy :: glm_policy

definition glm_effect_for :: "glm_verdict \<Rightarrow> glm_effect" where
  "glm_effect_for verdict =
     (case verdict of
        GlmQuotaExhausted \<Rightarrow> GlmCoolUntilReset
      | GlmAccountDead \<Rightarrow> GlmEffectAccountDead
      | GlmAccountSuspect \<Rightarrow> GlmEffectAccountSuspect
      | GlmModelIneligible \<Rightarrow> GlmEffectModelIneligible
      | GlmTransport \<Rightarrow> GlmTransportFault
      | GlmOk \<Rightarrow> GlmNoEffect
      | GlmClientError \<Rightarrow> GlmNoEffect)"

definition glm_decide :: "glm_verdict \<Rightarrow> delivery \<Rightarrow> glm_policy \<Rightarrow> nat \<Rightarrow> glm_decision" where
  "glm_decide verdict delivery policy eligible_profiles_left =
     (if verdict = GlmOk then \<lparr>gd_next = GlmDeliver, gd_effect = GlmNoEffect, gd_policy = policy\<rparr>
      else if delivery = Delivering
      then \<lparr>gd_next = GlmSurfaceUpstreamError, gd_effect = glm_effect_for verdict, gd_policy = policy\<rparr>
      else
        (let effect = glm_effect_for verdict
         in if verdict = GlmClientError
            then \<lparr>gd_next = GlmSurfaceUpstreamError, gd_effect = GlmNoEffect, gd_policy = policy\<rparr>
            else if \<not> glm_may_rotate verdict
            then \<lparr>gd_next = GlmSurfaceUpstreamError, gd_effect = effect, gd_policy = policy\<rparr>
            else
              (let spends = glm_spends_transport_budget verdict;
                   remaining = (if spends then sat_sub_u32 (gy_transport_budget policy) 1
                                else gy_transport_budget policy)
               in if spends \<and> remaining = 0
                  then \<lparr>gd_next = GlmSurfaceUpstreamError, gd_effect = effect,
                        gd_policy = \<lparr>gy_transport_budget = 0\<rparr>\<rparr>
                  else if eligible_profiles_left = 0
                  then \<lparr>gd_next = GlmSurfaceCapacityExhausted, gd_effect = effect,
                        gd_policy = \<lparr>gy_transport_budget = remaining\<rparr>\<rparr>
                  else \<lparr>gd_next = GlmRotate, gd_effect = effect,
                        gd_policy = \<lparr>gy_transport_budget = remaining\<rparr>\<rparr>)))"

section \<open>The health of a profile\<close>

definition TRANSPORT_COOL_SECS :: i64 where
  "TRANSPORT_COOL_SECS = 10"

definition QUOTA_WALL_FALLBACK_COOL_SECS :: i64 where
  "QUOTA_WALL_FALLBACK_COOL_SECS = 300"

definition GLM_FRACTION_SCALE :: i64 where
  "GLM_FRACTION_SCALE = 100000000"

definition GLM_5H_WINDOW_SECS :: i64 where
  "GLM_5H_WINDOW_SECS = 18000"

definition GLM_WEEKLY_WINDOW_SECS :: i64 where
  "GLM_WEEKLY_WINDOW_SECS = 604800"

record glm_quota_window_status =
  gw_duration_secs :: i64
  gw_used_units :: "i64 option"
  gw_limit_units :: "i64 option"
  gw_remaining_units :: "i64 option"
  gw_used_fraction_units :: "i64 option"
  gw_measurement_resolution_fraction_units :: "i64 option"
  gw_resets_at :: "i64 option"
  gw_observed_at :: i64

record glm_quota_snapshot =
  gq_window_duration_secs :: i64
  gq_resets_at :: "i64 option"
  gq_observed_at :: i64
  gq_native_used_units :: "i64 option"
  gq_native_limit_units :: "i64 option"
  gq_native_remaining_units :: "i64 option"
  gq_percentage_raw :: "i64 option"
  gq_used_fraction_units :: "i64 option"
  gq_measurement_resolution_fraction_units :: "i64 option"

record glm_profile_health =
  gh_authenticated :: bool
  gh_account_dead :: bool
  gh_account_suspect :: bool
  gh_transport_cool_until :: i64
  gh_quota_cool_until :: i64
  gh_model_ineligible :: "string set"
  gh_quota_used_fraction_units :: "i64 option"
  gh_quota_observed_at :: "i64 option"
  gh_quota_windows :: "glm_quota_window_status list"

definition glm_profile_health_default :: glm_profile_health where
  "glm_profile_health_default = \<lparr>gh_authenticated = False, gh_account_dead = False,
     gh_account_suspect = False, gh_transport_cool_until = 0, gh_quota_cool_until = 0,
     gh_model_ineligible = {}, gh_quota_used_fraction_units = None, gh_quota_observed_at = None,
     gh_quota_windows = []\<rparr>"

record glm_runtime_profile =
  gf_id :: string
  gf_health :: glm_profile_health
  gf_inflight :: u32

definition abs_i64 :: "i64 \<Rightarrow> i64" where
  "abs_i64 x = wrap_i64 (abs x)"

definition glm_window_evidence :: "glm_profile_health \<Rightarrow> i64 \<Rightarrow> i64 \<Rightarrow> window_evidence option" where
  "glm_window_evidence health duration_secs now =
     (let tolerance = trunc_div duration_secs 10;
          distance = (\<lambda>w. abs_i64 (wrap_i64 (gw_duration_secs w - duration_secs)))
      in map_option (\<lambda>window. \<lparr>we_used_fraction_units = gw_used_fraction_units window,
             we_reset_in_secs = map_option (\<lambda>reset. max (sat_sub_i64 reset now) 0) (gw_resets_at window)\<rparr>)
           (min_by_key distance (filter (\<lambda>w. distance w \<le> tolerance) (gh_quota_windows health))))"

definition glm_candidate :: "glm_runtime_profile \<Rightarrow> string \<Rightarrow> i64 \<Rightarrow> glm_ineligible candidate" where
  "glm_candidate p model now =
     (let health = gf_health p; model_key = to_ascii_lowercase model
      in \<lparr>cd_profile_id = gf_id p,
          cd_ineligible =
            (if model_key \<in> gh_model_ineligible health then Some GlmIneligibleModel
             else if gh_account_dead health then Some GlmIneligibleAccountDead
             else if gh_account_suspect health then Some GlmIneligibleAccountSuspect
             else if now < gh_quota_cool_until health then Some GlmIneligibleQuotaWall
             else if now < gh_transport_cool_until health then Some GlmIneligibleTransportWedged
             else None),
          cd_window_5h = glm_window_evidence health GLM_5H_WINDOW_SECS now,
          cd_window_weekly = glm_window_evidence health GLM_WEEKLY_WINDOW_SECS now,
          cd_quota_age_secs =
            map_option (\<lambda>observed. max (sat_sub_i64 now observed) 0) (gh_quota_observed_at health),
          cd_inflight = gf_inflight p\<rparr>)"

definition glm_apply_effect ::
    "glm_effect \<Rightarrow> i64 \<Rightarrow> string option \<Rightarrow> i64 option \<Rightarrow> glm_profile_health \<Rightarrow> glm_profile_health" where
  "glm_apply_effect effect now model quota_reset health =
     (case effect of
        GlmNoEffect \<Rightarrow> health
      | GlmCoolUntilReset \<Rightarrow>
          health\<lparr>gh_quota_cool_until :=
            (case quota_reset of
               Some reset \<Rightarrow> if now < reset then reset else sat_add_i64 now QUOTA_WALL_FALLBACK_COOL_SECS
             | None \<Rightarrow> sat_add_i64 now QUOTA_WALL_FALLBACK_COOL_SECS)\<rparr>
      | GlmEffectAccountDead \<Rightarrow> health\<lparr>gh_authenticated := False, gh_account_dead := True\<rparr>
      | GlmEffectAccountSuspect \<Rightarrow> health\<lparr>gh_account_suspect := True\<rparr>
      | GlmEffectModelIneligible \<Rightarrow>
          (case model of
             Some m \<Rightarrow> health\<lparr>gh_model_ineligible := insert (to_ascii_lowercase m) (gh_model_ineligible health)\<rparr>
           | None \<Rightarrow> health)
      | GlmTransportFault \<Rightarrow>
          health\<lparr>gh_transport_cool_until := sat_add_i64 now TRANSPORT_COOL_SECS\<rparr>)"

definition glm_mark_healthy :: "string \<Rightarrow> glm_profile_health \<Rightarrow> glm_profile_health" where
  "glm_mark_healthy model health =
     health\<lparr>gh_authenticated := True, gh_account_dead := False, gh_account_suspect := False,
       gh_transport_cool_until := 0,
       gh_model_ineligible := gh_model_ineligible health - {to_ascii_lowercase model}\<rparr>"

definition glm_publish_quota :: "glm_quota_snapshot list \<Rightarrow> i64 \<Rightarrow> glm_profile_health \<Rightarrow> glm_profile_health" where
  "glm_publish_quota snapshots observed_at health =
     (let used = max_option (List.map_filter gq_used_fraction_units snapshots);
          walled = filter (\<lambda>s. case gq_used_fraction_units s of
              Some fraction \<Rightarrow> GLM_FRACTION_SCALE \<le> fraction | None \<Rightarrow> False) snapshots;
          cool_until = (case max_option (List.map_filter gq_resets_at walled) of Some t \<Rightarrow> t | None \<Rightarrow> 0);
          windows = map (\<lambda>s. \<lparr>gw_duration_secs = gq_window_duration_secs s,
              gw_used_units = gq_native_used_units s, gw_limit_units = gq_native_limit_units s,
              gw_remaining_units = gq_native_remaining_units s,
              gw_used_fraction_units = gq_used_fraction_units s,
              gw_measurement_resolution_fraction_units = gq_measurement_resolution_fraction_units s,
              gw_resets_at = gq_resets_at s, gw_observed_at = gq_observed_at s\<rparr>) snapshots
      in health\<lparr>gh_authenticated := True, gh_account_dead := False, gh_account_suspect := False,
           gh_transport_cool_until := 0, gh_quota_cool_until := cool_until,
           gh_quota_used_fraction_units := used, gh_quota_observed_at := Some observed_at,
           gh_quota_windows := windows\<rparr>)"

definition active_cooling :: "i64 \<Rightarrow> i64 \<Rightarrow> i64 option" where
  "active_cooling until now = (if now < until then Some until else None)"

definition declared_plan :: "string \<Rightarrow> string option" where
  "declared_plan plan_name =
     (if plan_name \<in> {''lite'', ''Lite''} then Some ''Lite''
      else if plan_name \<in> {''pro'', ''Pro''} then Some ''Pro''
      else if plan_name \<in> {''max'', ''Max''} then Some ''Max''
      else None)"

definition glm_bounded_plan_label :: "string \<Rightarrow> string" where
  "glm_bounded_plan_label plan = (case declared_plan plan of Some p \<Rightarrow> p | None \<Rightarrow> ''unreviewed'')"

section \<open>The turn\<close>

definition glm_select_profile ::
    "glm_runtime_profile list \<Rightarrow> i64 \<Rightarrow> u64 \<Rightarrow> string \<Rightarrow> string set \<Rightarrow> string option
      \<Rightarrow> glm_runtime_profile option" where
  "glm_select_profile profiles now cursor model excluded sticky =
     (let candidates = map (\<lambda>p. glm_candidate p model now) (filter (\<lambda>p. gf_id p \<notin> excluded) profiles)
      in Option.bind (select candidates sticky cursor) (\<lambda>selected.
           List.find (\<lambda>p. gf_id p = cd_profile_id selected) profiles))"

definition glm_eligible_count ::
    "glm_runtime_profile list \<Rightarrow> i64 \<Rightarrow> string \<Rightarrow> string set \<Rightarrow> string \<Rightarrow> nat" where
  "glm_eligible_count profiles now model excluded current =
     length (filter (\<lambda>p. cd_ineligible (glm_candidate p model now) = None)
       (filter (\<lambda>p. gf_id p \<noteq> current \<and> gf_id p \<notin> excluded) profiles))"

text \<open>What one round of the loop meets: the profiles and clocks it reads, the value of the shared
  cursor, and the answer of the provider. An answer is a failed send, or a status with the business
  code and the reset of its body, or a status whose body could not be read.\<close>

datatype glm_answer =
    GlmSendFailed
  | GlmAnswered u16 "u32 option" "i64 option"
  | GlmBodyUnread u16

text \<open>What becomes of a success status: the public bytes follow, or the turn ends with an error, because
  the plane shuts down, the stream does not start or the body does not arrive, its first bytes are no
  event stream, or the delivery marker of the reservation cannot be set.\<close>

datatype glm_delivery =
    GlmBytes | GlmShutdown | GlmStartTransport | GlmStartProtocol | GlmMarkerUnavailable

record glm_round =
  rd_profiles :: "glm_runtime_profile list"
  rd_select_now :: i64
  rd_cursor :: u64
  rd_answer :: glm_answer
  rd_delivery :: glm_delivery
  rd_count_profiles :: "glm_runtime_profile list"
  rd_count_now :: i64
  rd_effect_now :: i64

text \<open>How the loop is left. A success status commits the turn to this profile: no later failure returns
  to the loop. What is then read from the body belongs to the accounting of the turn.\<close>

datatype glm_outcome =
    GlmDelivered string u16
  | GlmUndelivered string glm_delivery
  | GlmCapacity
  | GlmUpstream u16
  | GlmTransportFailure
  | GlmProtocol

text \<open>An attempt: the profile, and the effect applied to it with its clock and reset evidence.\<close>

type_synonym glm_attempt = "string \<times> glm_effect \<times> i64 \<times> i64 option"

definition glm_refusal :: "glm_answer \<Rightarrow> glm_verdict \<times> i64 option" where
  "glm_refusal answer =
     (case answer of
        GlmSendFailed \<Rightarrow> (GlmTransport, None)
      | GlmAnswered status code reset \<Rightarrow> (glm_classify_status status code, reset)
      | GlmBodyUnread status \<Rightarrow> (GlmTransport, None))"

definition glm_success :: "glm_answer \<Rightarrow> u16 option" where
  "glm_success answer =
     (case answer of
        GlmSendFailed \<Rightarrow> None
      | GlmAnswered status _ _ \<Rightarrow> if 200 \<le> status \<and> status < 300 then Some status else None
      | GlmBodyUnread status \<Rightarrow> if 200 \<le> status \<and> status < 300 then Some status else None)"

definition glm_end :: "glm_answer \<Rightarrow> glm_next_step \<Rightarrow> glm_outcome" where
  "glm_end answer next =
     (case answer of
        GlmSendFailed \<Rightarrow> GlmTransportFailure
      | GlmAnswered status _ _ \<Rightarrow>
          (case next of GlmSurfaceCapacityExhausted \<Rightarrow> GlmCapacity | GlmSurfaceUpstreamError \<Rightarrow> GlmUpstream status
           | _ \<Rightarrow> GlmProtocol)
      | GlmBodyUnread status \<Rightarrow>
          (case next of GlmSurfaceCapacityExhausted \<Rightarrow> GlmCapacity | GlmSurfaceUpstreamError \<Rightarrow> GlmUpstream status
           | _ \<Rightarrow> GlmProtocol))"

definition glm_step ::
    "string \<Rightarrow> string option \<Rightarrow> glm_round \<Rightarrow> string set \<Rightarrow> glm_policy
      \<Rightarrow> (glm_outcome, glm_policy) loop_step \<times> glm_attempt list" where
  "glm_step model sticky r excluded policy =
     (case glm_select_profile (rd_profiles r) (rd_select_now r) (rd_cursor r) model excluded sticky of
        None \<Rightarrow> (Stop GlmCapacity, [])
      | Some profile \<Rightarrow>
          (case glm_success (rd_answer r) of
             Some status \<Rightarrow>
               (Stop (if rd_delivery r = GlmBytes then GlmDelivered (gf_id profile) status
                      else GlmUndelivered (gf_id profile) (rd_delivery r)),
                [(gf_id profile, GlmNoEffect, rd_effect_now r, None)])
           | None \<Rightarrow>
               (let (verdict, reset) = glm_refusal (rd_answer r);
                    remaining = glm_eligible_count (rd_count_profiles r) (rd_count_now r) model excluded (gf_id profile);
                    decision = glm_decide verdict PreByte policy remaining;
                    attempt = (gf_id profile, gd_effect decision, rd_effect_now r, reset)
                in if gd_next decision = GlmRotate then (Go (gf_id profile) (gd_policy decision), [attempt])
                   else (Stop (glm_end (rd_answer r) (gd_next decision)), [attempt]))))"

definition glm_turn ::
    "string \<Rightarrow> string option \<Rightarrow> glm_round list \<Rightarrow> glm_outcome option \<times> glm_attempt list" where
  "glm_turn model sticky rounds = rotate_rounds (glm_step model sticky) rounds {} glm_policy_default"

section \<open>Laws of the selector\<close>

lemma placement_subset: "set (placement_candidates es) \<subseteq> set es"
  by (auto simp: placement_candidates_def)

lemma placement_nonempty: "es \<noteq> [] \<Longrightarrow> placement_candidates es \<noteq> []"
  by (auto simp: placement_candidates_def list_ex_iff filter_empty_conv)

lemma placement_length: "length (placement_candidates es) \<le> length es"
  by (simp add: placement_candidates_def)

lemma sticky_found:
  assumes "c \<in> set cs" "cd_profile_id c = i" "is_eligible c"
  shows "\<exists>d. select cs (Some i) cursor = Some d \<and> d \<in> set cs \<and> cd_profile_id d = i \<and> is_eligible d"
proof -
  obtain d where "List.find (\<lambda>c. cd_profile_id c = i \<and> is_eligible c) cs = Some d"
    using assms by (cases "List.find (\<lambda>c. cd_profile_id c = i \<and> is_eligible c) cs") (auto simp: find_None_iff)
  then show ?thesis using find_Some_mem [of _ cs d] by (auto simp: select_def)
qed

lemma unsticky_select:
  assumes "\<forall>i. sticky = Some i \<longrightarrow> (\<forall>c\<in>set cs. cd_profile_id c = i \<longrightarrow> \<not> is_eligible c)"
  shows "select cs sticky cursor = (if filter is_eligible cs = [] then None
    else pick_ranked rank cd_profile_id (placement_candidates (filter is_eligible cs)) cursor)"
proof -
  have "(case sticky of Some i \<Rightarrow> List.find (\<lambda>c. cd_profile_id c = i \<and> is_eligible c) cs | None \<Rightarrow> None) = None"
    using assms by (cases sticky) (auto simp: find_None_iff)
  then show ?thesis by (simp add: select_def Let_def)
qed

lemma select_mem:
  assumes "select cs sticky cursor = Some c" "length cs < 2 ^ 64"
  shows "c \<in> set cs \<and> is_eligible c"
proof (cases "\<exists>i. sticky = Some i \<and> (\<exists>d\<in>set cs. cd_profile_id d = i \<and> is_eligible d)")
  case True
  then obtain i d where "sticky = Some i" "d \<in> set cs" "cd_profile_id d = i" "is_eligible d" by blast
  then show ?thesis using sticky_found [of d cs i cursor] assms(1) by auto
next
  case False
  then have s: "pick_ranked rank cd_profile_id (placement_candidates (filter is_eligible cs)) cursor = Some c"
    using assms(1) unsticky_select [of sticky cs cursor] by (auto split: if_splits)
  have "length (placement_candidates (filter is_eligible cs)) < 2 ^ 64"
    by (rule le_less_trans [OF placement_length filter_short [OF assms(2)]])
  then have "c \<in> set (placement_candidates (filter is_eligible cs))" using pick_ranked_minimal [OF s] by blast
  then show ?thesis using placement_subset by fastforce
qed

lemma select_None: "select cs sticky cursor = None \<longleftrightarrow> filter is_eligible cs = []"
proof (cases "\<exists>i. sticky = Some i \<and> (\<exists>d\<in>set cs. cd_profile_id d = i \<and> is_eligible d)")
  case True
  then obtain i d where d: "sticky = Some i" "d \<in> set cs" "cd_profile_id d = i" "is_eligible d" by blast
  then have "filter is_eligible cs \<noteq> []" by (auto simp: filter_empty_conv)
  then show ?thesis using sticky_found [of d cs i cursor] d by auto
next
  case False
  then show ?thesis
    using unsticky_select [of sticky cs cursor] placement_nonempty by (auto simp: pick_ranked_None)
qed

section \<open>Laws of the turn\<close>

interpretation glm_attempts: attempt_policy
  "\<lambda>v d p n. if gd_next (glm_decide v d p n) = GlmRotate then Some (gd_policy (glm_decide v d p n)) else None"
  glm_spends_transport_budget "\<lambda>p. unat (gy_transport_budget p)" "\<lambda>d. d = PreByte"
proof
  fix v d p n p'
  assume r: "(if gd_next (glm_decide v d p n) = GlmRotate then Some (gd_policy (glm_decide v d p n)) else None) = Some p'"
  then show "d = PreByte" "0 < n"
    by (cases d; auto simp: glm_decide_def Let_def split: if_splits)+
  show "unat (gy_transport_budget p) = Suc (unat (gy_transport_budget p')) \<and> 0 < unat (gy_transport_budget p')"
    if "glm_spends_transport_budget v"
  proof -
    have b: "gy_transport_budget p' = sat_sub_u32 (gy_transport_budget p) 1" "gy_transport_budget p' \<noteq> 0"
      using r that by (auto simp: glm_decide_def Let_def split: if_splits)
    then show ?thesis using spend_one [of "gy_transport_budget p"] by simp
  qed
  show "unat (gy_transport_budget p') = unat (gy_transport_budget p)" if "\<not> glm_spends_transport_budget v"
    using r that by (auto simp: glm_decide_def Let_def split: if_splits)
qed

lemma glm_candidate_id [simp]: "cd_profile_id (glm_candidate x model now) = gf_id x"
  by (simp add: glm_candidate_def Let_def)

lemma glm_selected:
  assumes "glm_select_profile profiles now cursor model excluded sticky = Some p" "length profiles < 2 ^ 64"
  shows "p \<in> set profiles \<and> gf_id p \<notin> excluded
    \<and> (\<exists>q\<in>set profiles. gf_id q = gf_id p \<and> cd_ineligible (glm_candidate q model now) = None)"
proof -
  let ?cs = "map (\<lambda>p. glm_candidate p model now) (filter (\<lambda>p. gf_id p \<notin> excluded) profiles)"
  obtain c where c: "select ?cs sticky cursor = Some c"
    "List.find (\<lambda>p. gf_id p = cd_profile_id c) profiles = Some p"
    using assms(1) by (auto simp: glm_select_profile_def Let_def bind_eq_Some_conv)
  have "length ?cs < 2 ^ 64"
    using filter_short [OF assms(2)] by simp
  then have "c \<in> set ?cs" "is_eligible c" using select_mem [OF c(1)] by simp_all
  moreover have "p \<in> set profiles" "gf_id p = cd_profile_id c" using find_Some_mem [OF c(2)] by simp_all
  ultimately obtain x where x: "x \<in> set profiles" "gf_id x \<notin> excluded" "c = glm_candidate x model now"
      "is_eligible c" "p \<in> set profiles" "gf_id p = cd_profile_id c" by auto
  then have "gf_id x = gf_id p" "cd_ineligible (glm_candidate x model now) = None" by (simp_all add: is_eligible_def)
  then show ?thesis using x(1,2,5) by force
qed

lemma glm_rotate_budget:
  assumes "gd_next (glm_decide v PreByte p n) = GlmRotate" "0 < unat (gy_transport_budget p)"
  shows "unat (gy_transport_budget p) = unat (gy_transport_budget (gd_policy (glm_decide v PreByte p n)))
      + (if glm_spends_transport_budget v then 1 else 0)
    \<and> 0 < unat (gy_transport_budget (gd_policy (glm_decide v PreByte p n)))"
  using glm_attempts.rotates_spend [of v PreByte p n] glm_attempts.rotates_keep [of v PreByte p n] assms
  by (cases "glm_spends_transport_budget v") auto

lemma glm_effect_transport:
  "gd_effect (glm_decide v PreByte p n) = GlmTransportFault \<longleftrightarrow> glm_spends_transport_budget v"
  by (cases v) (simp_all add: glm_decide_def glm_effect_for_def glm_may_rotate_def
      glm_spends_transport_budget_def Let_def)

definition glm_charge :: "glm_attempt \<Rightarrow> nat" where
  "glm_charge a = (if fst (snd a) = GlmTransportFault then 1 else 0)"

definition glm_round_ok :: "string set \<Rightarrow> glm_round \<Rightarrow> bool" where
  "glm_round_ok roster r \<longleftrightarrow> gf_id ` set (rd_profiles r) \<subseteq> roster \<and> length (rd_profiles r) < 2 ^ 64"

lemma glm_step_cases:
  assumes "glm_step model sticky r ex p = (s, attempts)" "attempts \<noteq> []"
  obtains profile v n reset where
    "glm_select_profile (rd_profiles r) (rd_select_now r) (rd_cursor r) model ex sticky = Some profile"
    "attempts = [(gf_id profile, gd_effect (glm_decide v PreByte p n), rd_effect_now r, reset)]"
    "s = Go (gf_id profile) (gd_policy (glm_decide v PreByte p n)) \<and> gd_next (glm_decide v PreByte p n) = GlmRotate
      \<or> (\<exists>outcome. s = Stop outcome)"
proof -
  obtain profile where sel: "glm_select_profile (rd_profiles r) (rd_select_now r) (rd_cursor r) model ex sticky = Some profile"
    using assms by (auto simp: glm_step_def split: option.splits)
  define n where "n = glm_eligible_count (rd_count_profiles r) (rd_count_now r) model ex (gf_id profile)"
  obtain v reset where v: "glm_refusal (rd_answer r) = (v, reset)" by fastforce
  show ?thesis
  proof (cases "glm_success (rd_answer r)")
    case (Some status)
    have "attempts = [(gf_id profile, gd_effect (glm_decide GlmOk PreByte p 0), rd_effect_now r, None)]"
      "\<exists>outcome. s = Stop outcome"
      using assms(1) sel Some by (auto simp: glm_step_def glm_decide_def)
    then show ?thesis using that sel by blast
  next
    case None
    then show ?thesis
      using assms(1) sel v that [OF sel, of v n reset]
      by (auto simp: glm_step_def Let_def n_def [symmetric] split: if_splits)
  qed
qed

interpretation glm_loop: rotation_loop "glm_step model sticky" roster "glm_round_ok roster" fst glm_charge
    "\<lambda>p. unat (gy_transport_budget p)" for model sticky roster
proof
  fix r ex p s and outcome :: glm_outcome and attempts
  assume s: "glm_step model sticky r ex p = (Stop outcome, attempts)" and ok: "glm_round_ok roster r"
    and p: "0 < unat (gy_transport_budget p)"
  show "attempts = [] \<or> (\<exists>a. attempts = [a] \<and> fst a \<in> roster - ex \<and> glm_charge a \<le> unat (gy_transport_budget p))"
  proof (cases "attempts = []")
    case False
    from s False show ?thesis
    proof (rule glm_step_cases)
      fix profile v n reset
      assume "glm_select_profile (rd_profiles r) (rd_select_now r) (rd_cursor r) model ex sticky = Some profile"
        and a: "attempts = [(gf_id profile, gd_effect (glm_decide v PreByte p n), rd_effect_now r, reset)]"
      then have "gf_id profile \<in> roster - ex" using glm_selected ok by (fastforce simp: glm_round_ok_def)
      then show ?thesis using a p by (simp add: glm_charge_def)
    qed
  qed simp
next
  fix r ex p i p' attempts
  assume s: "glm_step model sticky r ex p = (Go i p', attempts)" and ok: "glm_round_ok roster r"
    and p: "0 < unat (gy_transport_budget p)"
  have "attempts \<noteq> []" using s by (auto simp: glm_step_def Let_def split: option.splits prod.splits if_splits)
  with s show "\<exists>a. attempts = [a] \<and> fst a = i \<and> i \<in> roster - ex
      \<and> unat (gy_transport_budget p) = unat (gy_transport_budget p') + glm_charge a \<and> 0 < unat (gy_transport_budget p')"
  proof (rule glm_step_cases)
    fix profile v n reset
    assume sel: "glm_select_profile (rd_profiles r) (rd_select_now r) (rd_cursor r) model ex sticky = Some profile"
      and a: "attempts = [(gf_id profile, gd_effect (glm_decide v PreByte p n), rd_effect_now r, reset)]"
      and g: "Go i p' = Go (gf_id profile) (gd_policy (glm_decide v PreByte p n)) \<and> gd_next (glm_decide v PreByte p n) = GlmRotate
        \<or> (\<exists>outcome. Go i p' = Stop outcome)"
    have "gf_id profile \<in> roster - ex" using glm_selected [OF sel] ok by (fastforce simp: glm_round_ok_def)
    moreover have "p' = gd_policy (glm_decide v PreByte p n)" "i = gf_id profile" "gd_next (glm_decide v PreByte p n) = GlmRotate"
      using g by auto
    ultimately show ?thesis using a glm_rotate_budget [OF _ p] by (simp add: glm_charge_def glm_effect_transport)
  qed
qed

section \<open>Properties\<close>

text \<open>C22: A GLM turn always ends. Whatever the provider answers, however the health, the load and the
  clocks of the profiles move between the rounds, after at most one round per profile of the roster
  and one more the turn has an outcome; it tried pairwise different profiles, and at most three of
  its attempts were charged to the transport budget.\<close>

theorem glm_turn_ends:
  assumes "finite roster" "card roster < length rounds"
    and "\<forall>r\<in>set rounds. gf_id ` set (rd_profiles r) \<subseteq> roster \<and> length (rd_profiles r) < 2 ^ 64"
  shows "\<exists>outcome attempts. glm_turn model sticky rounds = (Some outcome, attempts)
    \<and> distinct (map fst attempts) \<and> fst ` set attempts \<subseteq> roster
    \<and> sum_list (map glm_charge attempts) \<le> 3"
proof -
  have "list_all (glm_round_ok roster) rounds" using assms(3) by (simp add: list_all_iff glm_round_ok_def)
  then show ?thesis
    using glm_loop.loop_ends [of roster rounds "{}" glm_policy_default model sticky] assms(1,2)
    by (simp add: glm_loop.bounded_run_def glm_turn_def glm_policy_default_def)
qed

definition example_round :: "glm_answer \<Rightarrow> glm_round" where
  "example_round answer =
     (let profiles = [\<lparr>gf_id = ''glm-01'', gf_health = glm_profile_health_default, gf_inflight = 0\<rparr>,
            \<lparr>gf_id = ''glm-02'', gf_health = glm_profile_health_default, gf_inflight = 1\<rparr>]
      in \<lparr>rd_profiles = profiles, rd_select_now = 100, rd_cursor = 0, rd_answer = answer, rd_delivery = GlmBytes,
          rd_count_profiles = profiles, rd_count_now = 101, rd_effect_now = 102\<rparr>)"

theorem glm_turn_ends_witness:
  "\<exists>outcome attempts. glm_turn ''glm-5.2'' None
      [example_round (GlmAnswered 429 (Some 1308) None), example_round (GlmAnswered 200 None None), example_round GlmSendFailed]
      = (Some outcome, attempts)
    \<and> distinct (map fst attempts) \<and> fst ` set attempts \<subseteq> {''glm-01'', ''glm-02''}
    \<and> sum_list (map glm_charge attempts) \<le> 3"
  by (rule glm_turn_ends) (simp_all add: example_round_def Let_def)

text \<open>The choice of a profile refuses a request exactly when no profile is eligible, whatever the
  load. It returns an eligible candidate: the sticky profile while that one is eligible, and
  otherwise one of minimal rank among those outside the weekly reserve, or among all eligible ones
  when every observed one is on the reserve.\<close>

lemma selection_contract:
  assumes "length cs < 2 ^ 64"
  shows "case select cs sticky cursor of
      None \<Rightarrow> filter is_eligible cs = []
    | Some c \<Rightarrow> c \<in> set cs \<and> is_eligible c
        \<and> (if \<exists>i d. sticky = Some i \<and> d \<in> set cs \<and> cd_profile_id d = i \<and> is_eligible d
           then sticky = Some (cd_profile_id c)
           else c \<in> set (placement_candidates (filter is_eligible cs))
             \<and> list_all (\<lambda>d. rank c \<le> rank d) (placement_candidates (filter is_eligible cs)))"
proof (cases "select cs sticky cursor")
  case None
  then show ?thesis using select_None [of cs sticky cursor] by simp
next
  case (Some c)
  show ?thesis
  proof (cases "\<exists>i d. sticky = Some i \<and> d \<in> set cs \<and> cd_profile_id d = i \<and> is_eligible d")
    case True
    then obtain i d where "sticky = Some i" "d \<in> set cs" "cd_profile_id d = i" "is_eligible d" by blast
    then show ?thesis using Some sticky_found [of d cs i cursor] by auto
  next
    case False
    let ?pc = "placement_candidates (filter is_eligible cs)"
    have "pick_ranked rank cd_profile_id ?pc cursor = Some c"
      using False Some unsticky_select [of sticky cs cursor] by (auto split: if_splits)
    then have "c \<in> set ?pc \<and> (\<forall>d\<in>set ?pc. rank c \<le> rank d)"
      by (rule pick_ranked_minimal) (rule le_less_trans [OF placement_length filter_short [OF assms]])
    moreover have "c \<in> set cs \<and> is_eligible c" using select_mem [OF Some assms] by simp
    ultimately show ?thesis unfolding Some option.case if_not_P [OF False] list_all_iff by blast
  qed
qed

end
