(* ===== verification/Plane_Kimi.thy ===== *)
theory Plane_Kimi
  imports Plane_Glm "HOL-Library.AList"
begin

text \<open>
  The KIMI plane: the capabilities of a plan and the expiry and rotation of a credential
  (\<open>src/crates/kimi-credential/src/lib.rs\<close>), the classification of an upstream answer
  (\<open>src/crates/forward/src/kimi/transport.rs\<close>), the reasons of its selector (\<open>selection.rs\<close>, whose
  ranking is the one of the GLM plane), the decision after an attempt (\<open>pool.rs\<close>), and of
  \<open>gateway.rs\<close> the health of a profile, the access token, and the attempt loop of a turn with its
  waiting rounds and its retry on the same profile.
\<close>

section \<open>Plans\<close>

record kimi_plan_capabilities =
  kc_allows_k3 :: bool
  kc_allows_1m_context :: bool
  kc_allows_highspeed :: bool

record reviewed_plan =
  rv_plan_name :: string
  rv_capabilities :: kimi_plan_capabilities
  rv_reviewed_on :: string

definition KIMI_REVIEWED_PLANS :: "reviewed_plan list" where
  "KIMI_REVIEWED_PLANS =
     [\<lparr>rv_plan_name = ''Adagio'', rv_capabilities = \<lparr>kc_allows_k3 = False, kc_allows_1m_context = False,
         kc_allows_highspeed = False\<rparr>, rv_reviewed_on = ''2026-08-07''\<rparr>,
      \<lparr>rv_plan_name = ''Andante'', rv_capabilities = \<lparr>kc_allows_k3 = False, kc_allows_1m_context = False,
         kc_allows_highspeed = False\<rparr>, rv_reviewed_on = ''2026-08-07''\<rparr>,
      \<lparr>rv_plan_name = ''Moderato'', rv_capabilities = \<lparr>kc_allows_k3 = True, kc_allows_1m_context = False,
         kc_allows_highspeed = False\<rparr>, rv_reviewed_on = ''2026-08-07''\<rparr>,
      \<lparr>rv_plan_name = ''Allegretto'', rv_capabilities = \<lparr>kc_allows_k3 = True, kc_allows_1m_context = True,
         kc_allows_highspeed = True\<rparr>, rv_reviewed_on = ''2026-08-07''\<rparr>,
      \<lparr>rv_plan_name = ''Allegro'', rv_capabilities = \<lparr>kc_allows_k3 = True, kc_allows_1m_context = True,
         kc_allows_highspeed = True\<rparr>, rv_reviewed_on = ''2026-08-07''\<rparr>,
      \<lparr>rv_plan_name = ''Vivace'', rv_capabilities = \<lparr>kc_allows_k3 = True, kc_allows_1m_context = True,
         kc_allows_highspeed = True\<rparr>, rv_reviewed_on = ''2026-08-07''\<rparr>]"

definition reviewed_plan_name :: "string \<Rightarrow> string option" where
  "reviewed_plan_name plan_name =
     map_option rv_plan_name
       (List.find (\<lambda>entry. eq_ignore_ascii_case (rv_plan_name entry) (trim plan_name)) KIMI_REVIEWED_PLANS)"

definition reviewed_plan_capabilities :: "string \<Rightarrow> kimi_plan_capabilities option" where
  "reviewed_plan_capabilities plan_name =
     map_option rv_capabilities
       (List.find (\<lambda>entry. eq_ignore_ascii_case (rv_plan_name entry) (trim plan_name)) KIMI_REVIEWED_PLANS)"

definition capabilities_or_base :: "string \<Rightarrow> kimi_plan_capabilities" where
  "capabilities_or_base plan_name =
     (case reviewed_plan_capabilities plan_name of
        Some c \<Rightarrow> c
      | None \<Rightarrow> \<lparr>kc_allows_k3 = False, kc_allows_1m_context = False, kc_allows_highspeed = False\<rparr>)"

definition kimi_bounded_plan_label :: "string \<Rightarrow> string" where
  "kimi_bounded_plan_label plan = (case reviewed_plan_name plan of Some p \<Rightarrow> p | None \<Rightarrow> ''unreviewed'')"

section \<open>Credentials\<close>

datatype kimi_credential_kind = KimiOauth | KimiConsoleKey

record kimi_credential =
  ct_version :: nat
  ct_kind :: kimi_credential_kind
  ct_access_token :: string
  ct_refresh_token :: string
  ct_expires_at :: i64
  ct_scope :: string
  ct_subject_id :: string
  ct_plan_name :: string
  ct_plan_level :: i64
  ct_status :: string
  ct_region :: string
  ct_proxy_url :: string

definition MAX_TOKEN_LEN :: nat where
  "MAX_TOKEN_LEN = 8192"

definition MAX_FIELD_LEN :: nat where
  "MAX_FIELD_LEN = 512"

definition CREDENTIAL_VERSION :: nat where
  "CREDENTIAL_VERSION = 1"

definition KIMI_STATUS_NORMAL :: string where
  "KIMI_STATUS_NORMAL = ''USER_STATUS_NORMAL''"

text \<open>The syntax of a proxy URL is decided by the \<open>url\<close> crate: \<open>proxy_ok\<close>.\<close>

definition kimi_credential_validate :: "(string \<Rightarrow> bool) \<Rightarrow> kimi_credential \<Rightarrow> bool" where
  "kimi_credential_validate proxy_ok c \<longleftrightarrow>
     ct_version c = CREDENTIAL_VERSION
     \<and> \<not> (ct_access_token c = [] \<or> MAX_TOKEN_LEN < length (ct_access_token c))
     \<and> \<not> (ct_subject_id c = [] \<or> MAX_FIELD_LEN < length (ct_subject_id c))
     \<and> \<not> (ct_plan_name c = [] \<or> MAX_FIELD_LEN < length (ct_plan_name c))
     \<and> ct_status c = KIMI_STATUS_NORMAL
     \<and> \<not> MAX_FIELD_LEN < length (ct_region c)
     \<and> \<not> MAX_FIELD_LEN < length (ct_scope c)
     \<and> (case ct_kind c of
          KimiOauth \<Rightarrow> \<not> (ct_refresh_token c = [] \<or> MAX_TOKEN_LEN < length (ct_refresh_token c))
            \<and> \<not> ct_expires_at c \<le> 0
        | KimiConsoleKey \<Rightarrow> ct_refresh_token c = [] \<and> ct_expires_at c = 0)
     \<and> (ct_proxy_url c = [] \<or> proxy_ok (ct_proxy_url c))"

definition kimi_is_expired :: "kimi_credential \<Rightarrow> i64 \<Rightarrow> i64 \<Rightarrow> bool" where
  "kimi_is_expired c now_unix lead_secs =
     (case ct_kind c of
        KimiConsoleKey \<Rightarrow> False
      | KimiOauth \<Rightarrow> ct_expires_at c \<le> sat_add_i64 now_unix lead_secs)"

definition kimi_rotate ::
    "(string \<Rightarrow> bool) \<Rightarrow> kimi_credential \<Rightarrow> string \<Rightarrow> string \<Rightarrow> i64 \<Rightarrow> string \<Rightarrow> kimi_credential option" where
  "kimi_rotate proxy_ok c access_token refresh_token expires_at scope =
     (if ct_kind c \<noteq> KimiOauth then None
      else if refresh_token = [] then None
      else
        (let c' = c\<lparr>ct_access_token := access_token, ct_refresh_token := refresh_token,
               ct_expires_at := expires_at, ct_scope := scope\<rparr>
         in if kimi_credential_validate proxy_ok c' then Some c' else None))"

section \<open>Verdicts and decisions\<close>

datatype kimi_verdict =
    KimiOk | KimiAuth | KimiMembershipTemporary | KimiQuotaExhausted | KimiTransport | KimiClientError

definition kimi_classify_status :: "u16 \<Rightarrow> kimi_verdict" where
  "kimi_classify_status status =
     (if 200 \<le> status \<and> status \<le> 299 then KimiOk
      else if status = 401 then KimiAuth
      else if status = 402 then KimiMembershipTemporary
      else if status = 403 then KimiQuotaExhausted
      else if status \<in> {408, 409, 425, 429} then KimiTransport
      else if 500 \<le> status \<and> status \<le> 599 then KimiTransport
      else KimiClientError)"

definition kimi_spends_transport_budget :: "kimi_verdict \<Rightarrow> bool" where
  "kimi_spends_transport_budget verdict \<longleftrightarrow> verdict = KimiTransport \<or> verdict = KimiMembershipTemporary"

definition kimi_may_rotate :: "kimi_verdict \<Rightarrow> bool" where
  "kimi_may_rotate verdict \<longleftrightarrow> \<not> (verdict = KimiOk \<or> verdict = KimiClientError)"

definition kimi_needs_refresh :: "kimi_credential \<Rightarrow> i64 \<Rightarrow> i64 \<Rightarrow> bool" where
  "kimi_needs_refresh c now_unix refresh_lead = kimi_is_expired c now_unix refresh_lead"

record kimi_policy =
  kp_transport_budget :: u32
  kp_auth_retry_available :: bool

definition kimi_policy_default :: kimi_policy where
  "kimi_policy_default = \<lparr>kp_transport_budget = 3, kp_auth_retry_available = True\<rparr>"

datatype kimi_next_step =
    KimiRefreshAndRetry | KimiRotate | KimiSurfaceUpstreamError | KimiSurfaceCapacityExhausted | KimiDeliver

datatype kimi_effect = KimiNoEffect | KimiCoolUntilReset | KimiAuthQuarantine | KimiTransportFault

record kimi_decision =
  kd_next :: kimi_next_step
  kd_effect :: kimi_effect
  kd_policy :: kimi_policy

definition kimi_effect_for :: "kimi_verdict \<Rightarrow> kimi_effect" where
  "kimi_effect_for verdict =
     (case verdict of
        KimiQuotaExhausted \<Rightarrow> KimiCoolUntilReset
      | KimiAuth \<Rightarrow> KimiAuthQuarantine
      | KimiTransport \<Rightarrow> KimiTransportFault
      | KimiMembershipTemporary \<Rightarrow> KimiTransportFault
      | KimiOk \<Rightarrow> KimiNoEffect
      | KimiClientError \<Rightarrow> KimiNoEffect)"

definition kimi_decide :: "kimi_verdict \<Rightarrow> delivery \<Rightarrow> kimi_policy \<Rightarrow> nat \<Rightarrow> kimi_decision" where
  "kimi_decide verdict delivery policy eligible_profiles_left =
     (if verdict = KimiOk then \<lparr>kd_next = KimiDeliver, kd_effect = KimiNoEffect, kd_policy = policy\<rparr>
      else if delivery = Delivering
      then \<lparr>kd_next = KimiSurfaceUpstreamError, kd_effect = kimi_effect_for verdict, kd_policy = policy\<rparr>
      else
        (let effect = kimi_effect_for verdict
         in if verdict = KimiAuth \<and> kp_auth_retry_available policy
            then \<lparr>kd_next = KimiRefreshAndRetry, kd_effect = KimiNoEffect,
                  kd_policy = policy\<lparr>kp_auth_retry_available := False\<rparr>\<rparr>
            else if verdict = KimiClientError
            then \<lparr>kd_next = KimiSurfaceUpstreamError, kd_effect = KimiNoEffect, kd_policy = policy\<rparr>
            else if \<not> kimi_may_rotate verdict
            then \<lparr>kd_next = KimiSurfaceUpstreamError, kd_effect = effect, kd_policy = policy\<rparr>
            else
              (let spends = kimi_spends_transport_budget verdict;
                   remaining = (if spends then sat_sub_u32 (kp_transport_budget policy) 1
                                else kp_transport_budget policy)
               in if spends \<and> remaining = 0
                  then \<lparr>kd_next = KimiSurfaceUpstreamError, kd_effect = effect,
                        kd_policy = policy\<lparr>kp_transport_budget := 0\<rparr>\<rparr>
                  else if eligible_profiles_left = 0
                  then \<lparr>kd_next = KimiSurfaceCapacityExhausted, kd_effect = effect,
                        kd_policy = policy\<lparr>kp_transport_budget := remaining\<rparr>\<rparr>
                  else \<lparr>kd_next = KimiRotate, kd_effect = effect,
                        kd_policy = \<lparr>kp_transport_budget = remaining, kp_auth_retry_available = True\<rparr>\<rparr>)))"

section \<open>The health of a profile\<close>

datatype kimi_ineligible =
    KimiQuotaWall | KimiAuthQuarantined | KimiTransportWedged | KimiCapabilityNotInPlan | KimiModelCooling

definition is_environmental :: "kimi_ineligible \<Rightarrow> bool" where
  "is_environmental reason \<longleftrightarrow> reason = KimiAuthQuarantined \<or> reason = KimiTransportWedged"

definition AUTH_QUARANTINE_SECS :: i64 where
  "AUTH_QUARANTINE_SECS = 300"

definition KIMI_TRANSPORT_COOL_SECS :: i64 where
  "KIMI_TRANSPORT_COOL_SECS = 10"

definition MODEL_FAILURE_COOL_SECS :: i64 where
  "MODEL_FAILURE_COOL_SECS = 60"

definition KIMI_FRACTION_SCALE :: i64 where
  "KIMI_FRACTION_SCALE = 100000000"

definition KIMI_WEEKLY_WINDOW_SECS :: i64 where
  "KIMI_WEEKLY_WINDOW_SECS = 604800"

definition KIMI_ROLLING_WINDOW_SECS :: i64 where
  "KIMI_ROLLING_WINDOW_SECS = 18000"

record kimi_quota_window_status =
  kw_duration_secs :: i64
  kw_used_units :: i64
  kw_limit_units :: i64
  kw_used_fraction_units :: i64
  kw_measurement_resolution_fraction_units :: i64
  kw_resets_at :: i64
  kw_observed_at :: i64

record kimi_quota_snapshot =
  kq_window_duration_secs :: i64
  kq_window_name :: "string option"
  kq_resets_at :: i64
  kq_observed_at :: i64
  kq_native_used_units :: i64
  kq_native_limit_units :: i64
  kq_used_fraction_units :: i64
  kq_measurement_resolution_fraction_units :: i64

record model_failure =
  mf_streak :: u32
  mf_cool_until :: i64

text \<open>The failures of the models are a hash map: an association list with distinct keys.\<close>

record kimi_profile_health =
  kh_authenticated :: bool
  kh_auth_quarantined_until :: i64
  kh_transport_cool_until :: i64
  kh_quota_cool_until :: i64
  kh_quota_used_fraction_units :: "i64 option"
  kh_quota_observed_at :: "i64 option"
  kh_quota_windows :: "kimi_quota_window_status list"
  kh_model_failures :: "(string \<times> model_failure) list"

definition kimi_profile_health_default :: kimi_profile_health where
  "kimi_profile_health_default = \<lparr>kh_authenticated = False, kh_auth_quarantined_until = 0,
     kh_transport_cool_until = 0, kh_quota_cool_until = 0, kh_quota_used_fraction_units = None,
     kh_quota_observed_at = None, kh_quota_windows = [], kh_model_failures = []\<rparr>"

record kimi_runtime_profile =
  kf_id :: string
  kf_plan :: string
  kf_health :: kimi_profile_health
  kf_inflight :: u32

definition kimi_supports :: "kimi_runtime_profile \<Rightarrow> string \<Rightarrow> bool" where
  "kimi_supports p model =
     (let capabilities = capabilities_or_base (kf_plan p); m = to_ascii_lowercase model
      in if m = ''kimi-for-coding'' then True
         else if m = ''kimi-for-coding-highspeed'' then kc_allows_highspeed capabilities
         else if m = ''k3-256k'' then kc_allows_k3 capabilities
         else if m \<in> {''k3'', ''k3[1m]''}
         then kc_allows_k3 capabilities \<and> kc_allows_1m_context capabilities
         else False)"

definition kimi_window_evidence :: "kimi_profile_health \<Rightarrow> i64 \<Rightarrow> i64 \<Rightarrow> window_evidence option" where
  "kimi_window_evidence health duration_secs now =
     (let tolerance = trunc_div duration_secs 10;
          distance = (\<lambda>w. abs_i64 (wrap_i64 (kw_duration_secs w - duration_secs)))
      in map_option (\<lambda>window. \<lparr>we_used_fraction_units = Some (kw_used_fraction_units window),
             we_reset_in_secs = Some (max (sat_sub_i64 (kw_resets_at window) now) 0)\<rparr>)
           (min_by_key distance (filter (\<lambda>w. distance w \<le> tolerance) (kh_quota_windows health))))"

definition kimi_candidate :: "kimi_runtime_profile \<Rightarrow> string \<Rightarrow> i64 \<Rightarrow> kimi_ineligible candidate" where
  "kimi_candidate p model now =
     (let health = kf_health p
      in \<lparr>cd_profile_id = kf_id p,
          cd_ineligible =
            (if \<not> kimi_supports p model then Some KimiCapabilityNotInPlan
             else if now < kh_auth_quarantined_until health then Some KimiAuthQuarantined
             else if now < kh_quota_cool_until health then Some KimiQuotaWall
             else if now < kh_transport_cool_until health then Some KimiTransportWedged
             else if (case map_of (kh_model_failures health) model of
                        Some failure \<Rightarrow> now < mf_cool_until failure | None \<Rightarrow> False)
             then Some KimiModelCooling
             else None),
          cd_window_5h = kimi_window_evidence health KIMI_ROLLING_WINDOW_SECS now,
          cd_window_weekly = kimi_window_evidence health KIMI_WEEKLY_WINDOW_SECS now,
          cd_quota_age_secs =
            map_option (\<lambda>observed. max (sat_sub_i64 now observed) 0) (kh_quota_observed_at health),
          cd_inflight = kf_inflight p\<rparr>)"

definition kimi_apply_effect :: "kimi_effect \<Rightarrow> i64 \<Rightarrow> kimi_profile_health \<Rightarrow> kimi_profile_health" where
  "kimi_apply_effect effect now health =
     (case effect of
        KimiNoEffect \<Rightarrow> health
      | KimiCoolUntilReset \<Rightarrow> health\<lparr>kh_quota_cool_until := sat_add_i64 now AUTH_QUARANTINE_SECS\<rparr>
      | KimiAuthQuarantine \<Rightarrow> health\<lparr>kh_authenticated := False,
            kh_auth_quarantined_until := sat_add_i64 now AUTH_QUARANTINE_SECS\<rparr>
      | KimiTransportFault \<Rightarrow>
          health\<lparr>kh_transport_cool_until := sat_add_i64 now KIMI_TRANSPORT_COOL_SECS\<rparr>)"

definition kimi_apply_effect_with_hint ::
    "kimi_effect \<Rightarrow> i64 \<Rightarrow> i64 option \<Rightarrow> kimi_profile_health \<Rightarrow> kimi_profile_health" where
  "kimi_apply_effect_with_hint effect now retry_after_secs health =
     (case (effect, retry_after_secs) of
        (KimiCoolUntilReset, Some seconds) \<Rightarrow> health\<lparr>kh_quota_cool_until := sat_add_i64 now seconds\<rparr>
      | (KimiTransportFault, Some seconds) \<Rightarrow> health\<lparr>kh_transport_cool_until := sat_add_i64 now seconds\<rparr>
      | _ \<Rightarrow> kimi_apply_effect effect now health)"

definition kimi_mark_healthy :: "kimi_profile_health \<Rightarrow> kimi_profile_health" where
  "kimi_mark_healthy health =
     health\<lparr>kh_authenticated := True, kh_auth_quarantined_until := 0, kh_transport_cool_until := 0\<rparr>"

definition sat_add_u32 :: "u32 \<Rightarrow> u32 \<Rightarrow> u32" where
  "sat_add_u32 a b = (if unat a + unat b < 2 ^ 32 then a + b else - 1)"

definition mark_model_failure :: "string \<Rightarrow> i64 \<Rightarrow> kimi_profile_health \<Rightarrow> kimi_profile_health" where
  "mark_model_failure model now health =
     (let failure = (case map_of (kh_model_failures health) model of
            Some f \<Rightarrow> f | None \<Rightarrow> \<lparr>mf_streak = 0, mf_cool_until = 0\<rparr>);
          failure = failure\<lparr>mf_streak := sat_add_u32 (mf_streak failure) 1\<rparr>;
          failure = (if 2 \<le> mf_streak failure
            then failure\<lparr>mf_cool_until := sat_add_i64 now MODEL_FAILURE_COOL_SECS, mf_streak := 0\<rparr>
            else failure)
      in health\<lparr>kh_model_failures := AList.update model failure (kh_model_failures health)\<rparr>)"

definition mark_model_healthy :: "string \<Rightarrow> kimi_profile_health \<Rightarrow> kimi_profile_health" where
  "mark_model_healthy model health =
     health\<lparr>kh_model_failures := AList.delete model (kh_model_failures health)\<rparr>"

definition kimi_publish_quota :: "kimi_quota_snapshot list \<Rightarrow> i64 \<Rightarrow> kimi_profile_health \<Rightarrow> kimi_profile_health" where
  "kimi_publish_quota snapshots observed_at health =
     (let used = max_option (map kq_used_fraction_units snapshots);
          walled = filter (\<lambda>s. KIMI_FRACTION_SCALE \<le> kq_used_fraction_units s) snapshots;
          cool_until = (case max_option (map kq_resets_at walled) of Some t \<Rightarrow> t | None \<Rightarrow> 0);
          windows = map (\<lambda>s. \<lparr>kw_duration_secs = kq_window_duration_secs s,
              kw_used_units = kq_native_used_units s, kw_limit_units = kq_native_limit_units s,
              kw_used_fraction_units = kq_used_fraction_units s,
              kw_measurement_resolution_fraction_units = kq_measurement_resolution_fraction_units s,
              kw_resets_at = kq_resets_at s, kw_observed_at = kq_observed_at s\<rparr>) snapshots
      in health\<lparr>kh_authenticated := True, kh_auth_quarantined_until := 0, kh_transport_cool_until := 0,
           kh_quota_cool_until := cool_until, kh_quota_used_fraction_units := used,
           kh_quota_observed_at := Some observed_at, kh_quota_windows := windows\<rparr>)"

text \<open>The deadline shared with the sibling processes, when there is one to share.\<close>

definition kimi_cooling_deadline :: "i64 \<Rightarrow> kimi_profile_health \<Rightarrow> i64 option" where
  "kimi_cooling_deadline now health =
     (let profile_axes = max (max (kh_auth_quarantined_until health) (kh_transport_cool_until health))
            (kh_quota_cool_until health);
          model_axes = (case max_option (map (mf_cool_until \<circ> snd) (kh_model_failures health)) of
            Some t \<Rightarrow> t | None \<Rightarrow> 0);
          until = max profile_axes model_axes
      in if now < until then Some until else None)"

text \<open>The header's value, when it is text at all.\<close>

definition retry_after_seconds :: "string option \<Rightarrow> i64 option" where
  "retry_after_seconds header =
     Option.bind header (\<lambda>raw.
     Option.bind (parse_i64 (trim raw)) (\<lambda>seconds.
       if 0 < seconds \<and> seconds \<le> 3600 then Some seconds else None))"

section \<open>The access token\<close>

datatype kimi_failure =
    KimiFailAuth | KimiFailTransport | KimiFailProtocol | KimiFailCapacity | KimiFailLowBalance
  | KimiFailBadRequest string | KimiFailUnsupported string | KimiFailUnavailable string
  | KimiFailUpstream u16

definition kimi_failure_verdict :: "kimi_failure \<Rightarrow> kimi_verdict" where
  "kimi_failure_verdict failure =
     (case failure of
        KimiFailAuth \<Rightarrow> KimiAuth
      | KimiFailTransport \<Rightarrow> KimiTransport
      | KimiFailProtocol \<Rightarrow> KimiTransport
      | KimiFailUnavailable _ \<Rightarrow> KimiTransport
      | KimiFailUpstream status \<Rightarrow> kimi_classify_status status
      | KimiFailCapacity \<Rightarrow> KimiQuotaExhausted
      | KimiFailLowBalance \<Rightarrow> KimiClientError
      | KimiFailBadRequest _ \<Rightarrow> KimiClientError
      | KimiFailUnsupported _ \<Rightarrow> KimiClientError)"

definition kimi_from_verdict :: "kimi_verdict \<Rightarrow> u16 \<Rightarrow> kimi_failure" where
  "kimi_from_verdict verdict status =
     (case verdict of
        KimiAuth \<Rightarrow> KimiFailAuth
      | KimiQuotaExhausted \<Rightarrow> KimiFailCapacity
      | KimiTransport \<Rightarrow> KimiFailTransport
      | KimiMembershipTemporary \<Rightarrow> KimiFailTransport
      | KimiClientError \<Rightarrow> KimiFailUpstream status
      | KimiOk \<Rightarrow> KimiFailProtocol)"

text \<open>What the token endpoint answers to one refresh, and whether the rotated credential could be
  sealed again: a failed send, a refusing status, a body that gives no tokens, or new tokens.\<close>

datatype kimi_refresh_answer =
    RefreshSendFailed
  | RefreshRefused u16
  | RefreshBodyFailed kimi_failure
  | RefreshTokens string string i64 string "kimi_failure option"

definition kimi_refresh_once ::
    "(string \<Rightarrow> bool) \<Rightarrow> kimi_refresh_answer \<Rightarrow> kimi_credential \<Rightarrow> (kimi_failure + string) \<times> kimi_credential" where
  "kimi_refresh_once proxy_ok answer c =
     (if ct_kind c \<noteq> KimiOauth then (Inr (ct_access_token c), c)
      else
        (case answer of
           RefreshSendFailed \<Rightarrow> (Inl KimiFailTransport, c)
         | RefreshRefused status \<Rightarrow>
             (Inl (if status \<in> {400, 401} then KimiFailAuth else KimiFailTransport), c)
         | RefreshBodyFailed failure \<Rightarrow> (Inl failure, c)
         | RefreshTokens access refresh expires scope reseal \<Rightarrow>
             (case kimi_rotate proxy_ok c access refresh expires scope of
                None \<Rightarrow> (Inl KimiFailProtocol, c)
              | Some rotated \<Rightarrow>
                  (case reseal of
                     Some failure \<Rightarrow> (Inl failure, c)
                   | None \<Rightarrow> (Inr (ct_access_token rotated), rotated)))))"

text \<open>The roster on disk as the holder of the lock finds it after a refused refresh: a failed read, or
  the credential another generation may have rotated.\<close>

definition kimi_access_token ::
    "(string \<Rightarrow> bool) \<Rightarrow> i64 \<Rightarrow> i64 \<Rightarrow> kimi_refresh_answer \<Rightarrow> (kimi_failure + kimi_credential) \<Rightarrow> i64
      \<Rightarrow> kimi_refresh_answer \<Rightarrow> string option \<Rightarrow> kimi_credential \<Rightarrow> (kimi_failure + string) \<times> kimi_credential" where
  "kimi_access_token proxy_ok lead now answer disk later answer2 rejected_token c =
     (let can_reuse = (case rejected_token of None \<Rightarrow> True | Some rejected \<Rightarrow> ct_access_token c \<noteq> rejected)
      in if can_reuse \<and> \<not> kimi_needs_refresh c now lead then (Inr (ct_access_token c), c)
         else
           (case kimi_refresh_once proxy_ok answer c of
              (Inr token, c') \<Rightarrow> (Inr token, c')
            | (Inl failure, c') \<Rightarrow>
                if failure \<noteq> KimiFailAuth then (Inl failure, c')
                else
                  (case disk of
                     Inl read_failure \<Rightarrow> (Inl read_failure, c')
                   | Inr fresh \<Rightarrow>
                       if ct_refresh_token fresh = ct_refresh_token c' then (Inl KimiFailAuth, c')
                       else if \<not> kimi_needs_refresh fresh later lead then (Inr (ct_access_token fresh), fresh)
                       else kimi_refresh_once proxy_ok answer2 fresh)))"

section \<open>The turn\<close>

definition relax_environmental :: "kimi_ineligible candidate \<Rightarrow> kimi_ineligible candidate" where
  "relax_environmental c =
     (case cd_ineligible c of
        Some reason \<Rightarrow> if is_environmental reason then c\<lparr>cd_ineligible := None\<rparr> else c
      | None \<Rightarrow> c)"

definition kimi_select_profile ::
    "kimi_runtime_profile list \<Rightarrow> i64 \<Rightarrow> u64 \<Rightarrow> string \<Rightarrow> string set \<Rightarrow> string option
      \<Rightarrow> kimi_runtime_profile option" where
  "kimi_select_profile profiles now cursor model excluded sticky =
     (let candidates = map (\<lambda>p. kimi_candidate p model now) (filter (\<lambda>p. kf_id p \<notin> excluded) profiles)
      in Option.bind
           (case select candidates sticky cursor of
              Some c \<Rightarrow> Some c
            | None \<Rightarrow> select (map relax_environmental candidates) sticky cursor)
           (\<lambda>selected. List.find (\<lambda>p. kf_id p = cd_profile_id selected) profiles))"

definition kimi_eligible_count ::
    "kimi_runtime_profile list \<Rightarrow> i64 \<Rightarrow> string \<Rightarrow> string set \<Rightarrow> string \<Rightarrow> nat" where
  "kimi_eligible_count profiles now model excluded current =
     length (filter (\<lambda>p. cd_ineligible (kimi_candidate p model now) = None)
       (filter (\<lambda>p. kf_id p \<noteq> current \<and> kf_id p \<notin> excluded) profiles))"

text \<open>A step of the smooth wait, in milliseconds.\<close>

definition smooth_step :: "i64 \<Rightarrow> nat \<Rightarrow> nat option" where
  "smooth_step hint_secs remaining_ms =
     (if remaining_ms = 0 then None
      else let hint_ms = min (nat (max hint_secs 0) * 1000) (2 ^ 128 - 1)
           in Some (min (min (max hint_ms 250) 2000) remaining_ms))"

text \<open>One try on a profile: the failure to obtain a token, the failure to send, or an answer with its
  status, its retry hint and what its body gives. A body is read only after a success status:
  either its first byte arrives and the turn is committed to the profile, or reading it fails, or the
  turn ends with an error because the plane shuts down, the first bytes are no event stream or the
  delivery marker of the reservation cannot be set.\<close>

datatype kimi_body = KimiFirstByte | KimiBodyFailed kimi_failure | KimiUndelivered kimi_failure

datatype kimi_answer =
    KimiTokenFailed kimi_failure
  | KimiSendFailed kimi_failure
  | KimiAnswered u16 "i64 option" kimi_body

record kimi_try =
  tr_answer :: kimi_answer
  tr_count_profiles :: "kimi_runtime_profile list"
  tr_count_now :: i64
  tr_effect_now :: i64
  tr_late_profiles :: "kimi_runtime_profile list"
  tr_late_now :: i64

record kimi_round =
  kr_profiles :: "kimi_runtime_profile list"
  kr_select_now :: i64
  kr_cursor :: u64
  kr_remaining_ms :: nat
  kr_shutting_down :: bool
  kr_tries :: "kimi_try list"

datatype kimi_outcome = KimiServed string u16 | KimiError kimi_failure

text \<open>What a try does to the health of its profile.\<close>

datatype kimi_applied =
    KimiEffectApplied kimi_effect i64 "i64 option"
  | KimiModelFailed i64

type_synonym kimi_attempt = "string \<times> kimi_applied"

definition kimi_applied_health :: "string \<Rightarrow> kimi_applied \<Rightarrow> kimi_profile_health \<Rightarrow> kimi_profile_health" where
  "kimi_applied_health model applied health =
     (case applied of
        KimiEffectApplied effect now hint \<Rightarrow> kimi_apply_effect_with_hint effect now hint health
      | KimiModelFailed now \<Rightarrow> mark_model_failure model now health)"

datatype kimi_exit = KimiRotated kimi_policy | KimiEnded kimi_outcome | KimiOpen

definition rotate_or :: "kimi_decision \<Rightarrow> kimi_outcome \<Rightarrow> kimi_exit" where
  "rotate_or d outcome = (if kd_next d = KimiRotate then KimiRotated (kd_policy d) else KimiEnded outcome)"

fun kimi_tries ::
    "string \<Rightarrow> string set \<Rightarrow> string \<Rightarrow> kimi_try list \<Rightarrow> kimi_policy \<Rightarrow> kimi_exit \<times> kimi_attempt list" where
  "kimi_tries model excluded i [] policy = (KimiOpen, [])"
| "kimi_tries model excluded i (t # ts) policy =
     (let remaining = kimi_eligible_count (tr_count_profiles t) (tr_count_now t) model excluded i
      in case tr_answer t of
           KimiTokenFailed failure \<Rightarrow>
             (let d = kimi_decide (kimi_failure_verdict failure) PreByte policy remaining
              in (rotate_or d (KimiError failure), [(i, KimiEffectApplied (kd_effect d) (tr_effect_now t) None)]))
         | KimiSendFailed failure \<Rightarrow>
             (let d = kimi_decide KimiTransport PreByte policy remaining
              in (rotate_or d (KimiError failure), [(i, KimiEffectApplied (kd_effect d) (tr_effect_now t) None)]))
         | KimiAnswered status retry_after body \<Rightarrow>
             (let d = kimi_decide (kimi_classify_status status) PreByte policy remaining;
                  attempt = (i, KimiEffectApplied (kd_effect d) (tr_effect_now t) retry_after)
              in case kd_next d of
                   KimiRefreshAndRetry \<Rightarrow>
                     (let (exit, attempts) = kimi_tries model excluded i ts (kd_policy d)
                      in (exit, attempt # attempts))
                 | KimiRotate \<Rightarrow> (KimiRotated (kd_policy d), [attempt])
                 | KimiSurfaceCapacityExhausted \<Rightarrow> (KimiEnded (KimiError KimiFailCapacity), [attempt])
                 | KimiSurfaceUpstreamError \<Rightarrow> (KimiEnded (KimiError (KimiFailUpstream status)), [attempt])
                 | KimiDeliver \<Rightarrow>
                     (case body of
                        KimiFirstByte \<Rightarrow> (KimiEnded (KimiServed i status), [attempt])
                      | KimiUndelivered failure \<Rightarrow> (KimiEnded (KimiError failure), [attempt])
                      | KimiBodyFailed failure \<Rightarrow>
                          (let left = kimi_eligible_count (tr_late_profiles t) (tr_late_now t) model excluded i;
                               d' = kimi_decide KimiTransport PreByte (kd_policy d) left
                           in (if kd_next d' = KimiRotate then KimiRotated (kd_policy d')
                               else if kd_next d' = KimiSurfaceCapacityExhausted
                               then KimiEnded (KimiError KimiFailCapacity)
                               else KimiEnded (KimiError failure),
                               [(i, KimiModelFailed (tr_effect_now t))])))))"

definition kimi_choose ::
    "string \<Rightarrow> string option \<Rightarrow> string option \<Rightarrow> string set \<Rightarrow> kimi_round \<Rightarrow> kimi_runtime_profile option" where
  "kimi_choose model pinned placement excluded r =
     (case pinned of
        Some target \<Rightarrow>
          if excluded = {}
          then (case List.find (\<lambda>p. kf_id p = target) (kr_profiles r) of
                  Some p \<Rightarrow> if cd_ineligible (kimi_candidate p model (kr_select_now r)) = None then Some p else None
                | None \<Rightarrow> None)
          else None
      | None \<Rightarrow> kimi_select_profile (kr_profiles r) (kr_select_now r) (kr_cursor r) model excluded placement)"

fun kimi_turn ::
    "string \<Rightarrow> string option \<Rightarrow> string option \<Rightarrow> kimi_round list \<Rightarrow> string set \<Rightarrow> kimi_policy
      \<Rightarrow> kimi_outcome option \<times> kimi_attempt list" where
  "kimi_turn model pinned placement [] excluded policy = (None, [])"
| "kimi_turn model pinned placement (r # rs) excluded policy =
     (case kimi_choose model pinned placement excluded r of
        None \<Rightarrow>
          (if smooth_step 0 (if excluded = {} then kr_remaining_ms r else 0) \<noteq> None \<and> \<not> kr_shutting_down r
           then kimi_turn model pinned placement rs excluded policy
           else (Some (KimiError KimiFailCapacity), []))
      | Some p \<Rightarrow>
          (case kimi_tries model excluded (kf_id p) (kr_tries r) policy of
             (KimiEnded outcome, attempts) \<Rightarrow> (Some outcome, attempts)
           | (KimiRotated policy', attempts) \<Rightarrow>
               (let (outcome, later) = kimi_turn model pinned placement rs (insert (kf_id p) excluded) policy'
                in (outcome, attempts @ later))
           | (KimiOpen, attempts) \<Rightarrow> (None, attempts)))"

section \<open>Laws of the decision\<close>

interpretation kimi_attempts: attempt_policy
  "\<lambda>v d p n. if kd_next (kimi_decide v d p n) = KimiRotate then Some (kd_policy (kimi_decide v d p n)) else None"
  kimi_spends_transport_budget "\<lambda>p. unat (kp_transport_budget p)" "\<lambda>d. d = PreByte"
proof
  fix v d p n p'
  assume r: "(if kd_next (kimi_decide v d p n) = KimiRotate then Some (kd_policy (kimi_decide v d p n)) else None) = Some p'"
  then show "d = PreByte" "0 < n"
    by (cases d; auto simp: kimi_decide_def Let_def split: if_splits)+
  show "unat (kp_transport_budget p) = Suc (unat (kp_transport_budget p')) \<and> 0 < unat (kp_transport_budget p')"
    if "kimi_spends_transport_budget v"
  proof -
    have b: "kp_transport_budget p' = sat_sub_u32 (kp_transport_budget p) 1" "kp_transport_budget p' \<noteq> 0"
      using r that by (auto simp: kimi_decide_def Let_def split: if_splits)
    then show ?thesis using spend_one [of "kp_transport_budget p"] by simp
  qed
  show "unat (kp_transport_budget p') = unat (kp_transport_budget p)" if "\<not> kimi_spends_transport_budget v"
    using r that by (auto simp: kimi_decide_def Let_def split: if_splits)
qed

lemma kimi_rotate_budget:
  assumes "kd_next (kimi_decide v PreByte p n) = KimiRotate" "0 < unat (kp_transport_budget p)"
  shows "unat (kp_transport_budget p) = unat (kp_transport_budget (kd_policy (kimi_decide v PreByte p n)))
      + (if kimi_spends_transport_budget v then 1 else 0)
    \<and> 0 < unat (kp_transport_budget (kd_policy (kimi_decide v PreByte p n)))"
  using kimi_attempts.rotates_spend [of v PreByte p n] kimi_attempts.rotates_keep [of v PreByte p n] assms
  by (cases "kimi_spends_transport_budget v") auto

lemma kimi_effect_transport:
  "kd_effect (kimi_decide v PreByte p n) = KimiTransportFault \<longleftrightarrow> kimi_spends_transport_budget v"
  by (cases v) (simp_all add: kimi_decide_def kimi_effect_for_def kimi_may_rotate_def
      kimi_spends_transport_budget_def Let_def)

lemma kimi_retry_iff:
  "kd_next (kimi_decide v PreByte p n) = KimiRefreshAndRetry \<longleftrightarrow> v = KimiAuth \<and> kp_auth_retry_available p"
  by (cases v) (simp_all add: kimi_decide_def kimi_may_rotate_def
      kimi_spends_transport_budget_def Let_def)

lemma kimi_deliver_policy:
  "kd_next (kimi_decide v PreByte p n) = KimiDeliver \<Longrightarrow> kd_policy (kimi_decide v PreByte p n) = p"
  by (auto simp: kimi_decide_def Let_def split: if_splits)

section \<open>Laws of the turn\<close>

text \<open>The attempts charged to the transport budget.\<close>

definition charge :: "kimi_applied \<Rightarrow> nat" where
  "charge a = (case a of KimiModelFailed _ \<Rightarrow> 1
     | KimiEffectApplied effect _ _ \<Rightarrow> if effect = KimiTransportFault then 1 else 0)"

definition charges :: "kimi_attempt list \<Rightarrow> nat" where
  "charges attempts = sum_list (map (charge \<circ> snd) attempts)"

definition exit_within :: "kimi_policy \<Rightarrow> kimi_exit \<Rightarrow> nat \<Rightarrow> bool" where
  "exit_within p exit n =
     (case exit of
        KimiOpen \<Rightarrow> False
      | KimiEnded _ \<Rightarrow> n \<le> unat (kp_transport_budget p)
      | KimiRotated p' \<Rightarrow> unat (kp_transport_budget p) = unat (kp_transport_budget p') + n
          \<and> 0 < unat (kp_transport_budget p'))"

lemma exit_within_decision:
  assumes "0 < unat (kp_transport_budget p)" "n = (if kimi_spends_transport_budget v then 1 else 0)"
  shows "exit_within p (rotate_or (kimi_decide v PreByte p m) e) n"
  using assms kimi_rotate_budget [of v p m]
  by (simp add: exit_within_def rotate_or_def)

lemma kimi_single_try:
  assumes "0 < unat (kp_transport_budget p)"
    and "\<And>s h b. tr_answer t = KimiAnswered s h b \<Longrightarrow> \<not> (kimi_classify_status s = KimiAuth \<and> kp_auth_retry_available p)"
  shows "\<exists>exit a. kimi_tries model excluded i (t # ts) p = (exit, [(i, a)]) \<and> exit_within p exit (charge a)"
proof (cases "tr_answer t")
  case (KimiTokenFailed failure)
  then show ?thesis
    using exit_within_decision [OF assms(1), of "charge (KimiEffectApplied (kd_effect (kimi_decide
        (kimi_failure_verdict failure) PreByte p (kimi_eligible_count (tr_count_profiles t) (tr_count_now t) model excluded i)))
        (tr_effect_now t) None)" "kimi_failure_verdict failure"]
    by (simp add: Let_def charge_def kimi_effect_transport)
next
  case (KimiSendFailed failure)
  then show ?thesis
    using exit_within_decision [OF assms(1), of 1 KimiTransport]
    by (simp add: Let_def charge_def kimi_effect_transport kimi_spends_transport_budget_def)
next
  case (KimiAnswered status hint body)
  define n where "n = kimi_eligible_count (tr_count_profiles t) (tr_count_now t) model excluded i"
  define d where "d = kimi_decide (kimi_classify_status status) PreByte p n"
  define a where "a = KimiEffectApplied (kd_effect d) (tr_effect_now t) hint"
  have c: "charge a = (if kimi_spends_transport_budget (kimi_classify_status status) then 1 else 0)"
    by (simp add: a_def charge_def d_def kimi_effect_transport)
  have one: "charge a \<le> unat (kp_transport_budget p)" using assms(1) c by simp
  have retry: "kd_next d \<noteq> KimiRefreshAndRetry" using assms(2) [OF KimiAnswered] by (simp add: d_def kimi_retry_iff)
  show ?thesis
  proof (cases "kd_next d")
    case KimiRotate
    then have "exit_within p (KimiRotated (kd_policy d)) (charge a)"
      using kimi_rotate_budget [of "kimi_classify_status status" p n] assms(1) c
      by (simp add: exit_within_def d_def)
    then show ?thesis
      using KimiAnswered KimiRotate by (simp add: Let_def n_def [symmetric] d_def [symmetric] a_def [symmetric])
  next
    case KimiDeliver
    then have p: "kd_policy d = p" unfolding d_def by (rule kimi_deliver_policy)
    define m where "m = kimi_eligible_count (tr_late_profiles t) (tr_late_now t) model excluded i"
    show ?thesis
    proof (cases body)
      case KimiFirstByte
      then show ?thesis using KimiAnswered KimiDeliver one
        by (simp add: Let_def n_def [symmetric] d_def [symmetric] a_def [symmetric] exit_within_def)
    next
      case (KimiUndelivered failure)
      then show ?thesis using KimiAnswered KimiDeliver one
        by (simp add: Let_def n_def [symmetric] d_def [symmetric] a_def [symmetric] exit_within_def)
    next
      case (KimiBodyFailed failure)
      show ?thesis
        using KimiAnswered KimiDeliver KimiBodyFailed assms(1) kimi_rotate_budget [of KimiTransport p m]
        by (simp add: Let_def n_def [symmetric] d_def [symmetric] p m_def [symmetric] exit_within_def
            charge_def kimi_spends_transport_budget_def)
    qed
  qed (use KimiAnswered retry one in \<open>simp_all add: Let_def n_def [symmetric] d_def [symmetric] a_def [symmetric]
      exit_within_def\<close>)
qed

lemma kimi_profile_tries:
  assumes "0 < unat (kp_transport_budget p)" "2 \<le> length ts"
  shows "\<exists>exit attempts. kimi_tries model excluded i ts p = (exit, attempts) \<and> exit_within p exit (charges attempts)
    \<and> map fst attempts \<in> {[i], [i, i]}"
proof -
  obtain t u us where ts: "ts = t # u # us" using assms(2) by (cases ts rule: remdups_adj.cases) auto
  show ?thesis
  proof (cases "\<exists>s h b. tr_answer t = KimiAnswered s h b \<and> kimi_classify_status s = KimiAuth \<and> kp_auth_retry_available p")
    case False
    then obtain exit a where "kimi_tries model excluded i ts p = (exit, [(i, a)])" "exit_within p exit (charge a)"
      using kimi_single_try [OF assms(1), of t model excluded i "u # us"] unfolding ts by blast
    then show ?thesis by (simp add: charges_def)
  next
    case True
    then obtain s h b where a: "tr_answer t = KimiAnswered s h b" "kimi_classify_status s = KimiAuth"
      "kp_auth_retry_available p" by blast
    define q where "q = p\<lparr>kp_auth_retry_available := False\<rparr>"
    obtain exit b where q: "kimi_tries model excluded i (u # us) q = (exit, [(i, b)])" "exit_within q exit (charge b)"
      using kimi_single_try [of q u model excluded i us] assms(1) by (auto simp: q_def)
    have d: "kimi_decide KimiAuth PreByte p n
        = \<lparr>kd_next = KimiRefreshAndRetry, kd_effect = KimiNoEffect, kd_policy = q\<rparr>" for n
      using a(3) by (simp add: kimi_decide_def Let_def q_def)
    have "exit_within p exit (charge b)" using q(2) by (simp add: exit_within_def q_def split: kimi_exit.splits)
    then show ?thesis
      using q(1) a(1,2) d unfolding ts by (simp add: Let_def charges_def charge_def del: kimi_tries.simps(2))
        (simp add: kimi_tries.simps(2) [of model excluded i t] Let_def charges_def charge_def)
  qed
qed

lemma kimi_candidate_id [simp]: "cd_profile_id (kimi_candidate p model now) = kf_id p"
  by (simp add: kimi_candidate_def Let_def)

lemma relax_id [simp]: "cd_profile_id (relax_environmental c) = cd_profile_id c"
  by (simp add: relax_environmental_def split: option.splits)

lemma relax_eligible:
  "is_eligible (relax_environmental c) \<longleftrightarrow>
     is_eligible c \<or> (\<exists>reason. cd_ineligible c = Some reason \<and> is_environmental reason)"
  by (auto simp: relax_environmental_def is_eligible_def split: option.splits)

lemma kimi_selected:
  assumes "kimi_select_profile profiles now cursor model excluded sticky = Some p" "length profiles < 2 ^ 64"
  shows "\<exists>x. x \<in> set profiles \<and> kf_id x \<notin> excluded \<and> kf_id x = kf_id p \<and> p \<in> set profiles
    \<and> (is_eligible (kimi_candidate x model now)
      \<or> (\<exists>reason. cd_ineligible (kimi_candidate x model now) = Some reason \<and> is_environmental reason)
        \<and> (\<forall>y\<in>set profiles. kf_id y \<notin> excluded \<longrightarrow> \<not> is_eligible (kimi_candidate y model now)))"
proof -
  let ?cs = "map (\<lambda>p. kimi_candidate p model now) (filter (\<lambda>p. kf_id p \<notin> excluded) profiles)"
  have len: "length ?cs < 2 ^ 64" using filter_short [OF assms(2)] by simp
  obtain c where c: "(case select ?cs sticky cursor of Some c \<Rightarrow> Some c
      | None \<Rightarrow> select (map relax_environmental ?cs) sticky cursor) = Some c"
    "List.find (\<lambda>p. kf_id p = cd_profile_id c) profiles = Some p"
    using assms(1) by (auto simp: kimi_select_profile_def Let_def bind_eq_Some_conv)
  have p: "p \<in> set profiles" "kf_id p = cd_profile_id c" using find_Some_mem [OF c(2)] by simp_all
  show ?thesis
  proof (cases "select ?cs sticky cursor")
    case (Some d)
    then have "c \<in> set ?cs" "is_eligible c" using c(1) select_mem [OF Some len] by simp_all
    then obtain x where "x \<in> set profiles" "kf_id x \<notin> excluded" "c = kimi_candidate x model now" "is_eligible c" by auto
    then show ?thesis using p by auto
  next
    case None
    then have "filter is_eligible ?cs = []" by (simp only: select_None)
    then have none: "\<forall>y\<in>set profiles. kf_id y \<notin> excluded \<longrightarrow> \<not> is_eligible (kimi_candidate y model now)"
      by (auto simp: filter_empty_conv)
    have "select (map relax_environmental ?cs) sticky cursor = Some c" using c(1) None by simp
    then have "c \<in> set (map relax_environmental ?cs)" "is_eligible c"
      using select_mem [of "map relax_environmental ?cs" sticky cursor c] len by simp_all
    then obtain x where x: "x \<in> set profiles" "kf_id x \<notin> excluded"
      "c = relax_environmental (kimi_candidate x model now)" "is_eligible c" by auto
    then have "\<exists>reason. cd_ineligible (kimi_candidate x model now) = Some reason \<and> is_environmental reason"
      using none relax_eligible by blast
    then show ?thesis using p x none by (auto intro!: exI [of _ x])
  qed
qed

lemma kimi_unselected:
  assumes "kimi_select_profile profiles now cursor model excluded sticky = None" "length profiles < 2 ^ 64"
  shows "list_all (\<lambda>p. kf_id p \<in> excluded \<or> (case cd_ineligible (kimi_candidate p model now) of
          Some reason \<Rightarrow> \<not> is_environmental reason | None \<Rightarrow> False)) profiles"
proof -
  let ?cs = "map (\<lambda>p. kimi_candidate p model now) (filter (\<lambda>p. kf_id p \<notin> excluded) profiles)"
  have len: "length ?cs < 2 ^ 64" using filter_short [OF assms(2)] by simp
  have present: "List.find (\<lambda>p. kf_id p = cd_profile_id c) profiles \<noteq> None"
    if "cd_profile_id c \<in> kf_id ` set profiles" for c :: "kimi_ineligible candidate"
    using that by (auto simp: find_None_iff)
  have "select ?cs sticky cursor = None"
  proof (rule ccontr)
    assume "select ?cs sticky cursor \<noteq> None"
    then obtain c where c: "select ?cs sticky cursor = Some c" by blast
    then have "cd_profile_id c \<in> kf_id ` set profiles" using select_mem [OF c len] by auto
    then show False using assms(1) c present by (simp add: kimi_select_profile_def Let_def)
  qed
  moreover have "select (map relax_environmental ?cs) sticky cursor = None"
  proof (rule ccontr)
    assume "select (map relax_environmental ?cs) sticky cursor \<noteq> None"
    then obtain c where c: "select (map relax_environmental ?cs) sticky cursor = Some c" by blast
    then have "c \<in> set (map relax_environmental ?cs)" using select_mem [OF c] len by simp
    then have "cd_profile_id c \<in> kf_id ` set profiles" by auto
    from present [OF this] show False using assms(1) c calculation by (simp add: kimi_select_profile_def Let_def)
  qed
  ultimately have "filter is_eligible (map relax_environmental ?cs) = []" by (simp only: select_None)
  then have ne: "\<not> is_eligible (relax_environmental (kimi_candidate p model now))"
    if "p \<in> set profiles" "kf_id p \<notin> excluded" for p using that by (auto simp: filter_empty_conv)
  have "case cd_ineligible (kimi_candidate p model now) of
          Some reason \<Rightarrow> \<not> is_environmental reason | None \<Rightarrow> False"
    if "p \<in> set profiles" "kf_id p \<notin> excluded" for p
    using ne [OF that] relax_eligible [of "kimi_candidate p model now"] by (auto simp: is_eligible_def split: option.splits)
  then show ?thesis by (auto simp: list_all_iff)
qed

lemma kimi_chosen:
  assumes "kimi_choose model pinned placement excluded r = Some p" "length (kr_profiles r) < 2 ^ 64"
  shows "p \<in> set (kr_profiles r) \<and> kf_id p \<notin> excluded"
proof (cases pinned)
  case None
  then have "kimi_select_profile (kr_profiles r) (kr_select_now r) (kr_cursor r) model excluded placement = Some p"
    using assms(1) by (simp add: kimi_choose_def)
  then show ?thesis using kimi_selected [OF _ assms(2)] by metis
next
  case (Some target)
  then show ?thesis
    using assms(1) find_Some_mem [of "\<lambda>p. kf_id p = target" "kr_profiles r"]
    by (auto simp: kimi_choose_def split: if_splits option.splits)
qed

text \<open>A round that finds no profile sleeps a step before the next round reads the remaining time.\<close>

definition slept :: "string \<Rightarrow> string option \<Rightarrow> string option \<Rightarrow> kimi_round list \<Rightarrow> bool" where
  "slept model pinned placement rounds \<longleftrightarrow>
     successively (\<lambda>r r'. kimi_choose model pinned placement {} r = None
       \<longrightarrow> kr_remaining_ms r' + min 250 (kr_remaining_ms r) \<le> kr_remaining_ms r) rounds"

definition kimi_rounds_within :: "string set \<Rightarrow> kimi_round list \<Rightarrow> bool" where
  "kimi_rounds_within roster rounds \<longleftrightarrow>
     (\<forall>r\<in>set rounds. kf_id ` set (kr_profiles r) \<subseteq> roster \<and> length (kr_profiles r) < 2 ^ 64 \<and> 2 \<le> length (kr_tries r))"

definition waits :: "kimi_round list \<Rightarrow> nat" where
  "waits rounds = (if rounds = [] then 0 else (kr_remaining_ms (hd rounds) + 249) div 250)"

lemma waits_fall:
  assumes "slept model pinned placement (r # rs)" "rs \<noteq> []" "kimi_choose model pinned placement {} r = None"
    and "kr_remaining_ms r \<noteq> 0"
  shows "Suc (waits rs) \<le> waits (r # rs)"
proof -
  have "kr_remaining_ms (hd rs) + min 250 (kr_remaining_ms r) \<le> kr_remaining_ms r"
    using assms by (cases rs) (simp_all add: slept_def)
  then have "kr_remaining_ms (hd rs) + 249 + 250 \<le> kr_remaining_ms r + 249
      \<or> kr_remaining_ms (hd rs) = 0 \<and> 250 \<le> kr_remaining_ms r + 249"
    using assms(4) by (auto simp: min_def split: if_splits)
  then have "(kr_remaining_ms (hd rs) + 249) div 250 + 1 \<le> (kr_remaining_ms r + 249) div 250"
  proof
    assume "kr_remaining_ms (hd rs) + 249 + 250 \<le> kr_remaining_ms r + 249"
    then have "(kr_remaining_ms (hd rs) + 249 + 250) div 250 \<le> (kr_remaining_ms r + 249) div 250" by (rule div_le_mono)
    then show ?thesis by simp
  next
    assume "kr_remaining_ms (hd rs) = 0 \<and> 250 \<le> kr_remaining_ms r + 249"
    then have "(250::nat) div 250 \<le> (kr_remaining_ms r + 249) div 250" "kr_remaining_ms (hd rs) = 0"
      using div_le_mono by blast+
    then show ?thesis by simp
  qed
  then show ?thesis using assms(2) by (simp add: waits_def)
qed

lemma slept_tl: "slept model pinned placement (r # rs) \<Longrightarrow> slept model pinned placement rs"
  by (cases rs) (simp_all add: slept_def)

definition turn_within :: "string set \<Rightarrow> kimi_policy \<Rightarrow> kimi_outcome option \<times> kimi_attempt list \<Rightarrow> bool" where
  "turn_within ids policy result \<longleftrightarrow>
     (\<exists>outcome attempts. result = (Some outcome, attempts) \<and> fst ` set attempts \<subseteq> ids
       \<and> (\<forall>i. count_list (map fst attempts) i \<le> 2)
       \<and> charges attempts \<le> unat (kp_transport_budget policy))"

lemma turn_within_ended:
  assumes "map fst attempts \<in> {[i], [i, i]}" "i \<in> ids" "charges attempts \<le> unat (kp_transport_budget policy)"
  shows "turn_within ids policy (Some outcome, attempts)"
proof -
  have "fst ` set attempts = {i}" using assms(1) by (cases "map fst attempts = [i]") (auto simp flip: set_map)
  moreover have "count_list (map fst attempts) j \<le> 2" for j using assms(1) by auto
  ultimately show ?thesis using assms(2,3) by (simp add: turn_within_def)
qed

lemma turn_within_rotated:
  assumes "map fst attempts \<in> {[i], [i, i]}" "i \<in> ids"
    and "turn_within (ids - {i}) policy' (outcome, later)"
    and "unat (kp_transport_budget policy) = unat (kp_transport_budget policy') + charges attempts"
  shows "turn_within ids policy (outcome, attempts @ later)"
proof -
  obtain oc where o: "outcome = Some oc" "fst ` set later \<subseteq> ids - {i}"
    "\<forall>j. count_list (map fst later) j \<le> 2" "charges later \<le> unat (kp_transport_budget policy')"
    using assms(3) by (auto simp: turn_within_def)
  have i: "fst ` set attempts = {i}" using assms(1) by (cases "map fst attempts = [i]") (auto simp flip: set_map)
  have "i \<notin> set (map fst later)" using o(2) by auto
  then have "count_list (map fst later) i = 0" by (simp add: count_list_0_iff)
  then have "count_list (map fst (attempts @ later)) j \<le> 2" for j
    using assms(1) o(3) by (cases "j = i") auto
  moreover have "fst ` set (attempts @ later) \<subseteq> ids" using i o(2) assms(2) by (auto simp: image_Un)
  moreover have "charges (attempts @ later) \<le> unat (kp_transport_budget policy)"
    using o(4) assms(4) by (simp add: charges_def)
  ultimately show ?thesis using o(1) by (simp add: turn_within_def)
qed

lemma kimi_turn_bounded:
  assumes "finite roster" "kimi_rounds_within roster rounds" "slept model pinned placement rounds"
    and "card (roster - excluded) + (if excluded = {} then waits rounds else 0) < length rounds"
    and "0 < unat (kp_transport_budget policy)"
  shows "turn_within (roster - excluded) policy (kimi_turn model pinned placement rounds excluded policy)"
  using assms
proof (induction rounds arbitrary: excluded policy)
  case (Cons r rs)
  have rs: "kimi_rounds_within roster rs" "slept model pinned placement rs"
    using Cons.prems(2) slept_tl [OF Cons.prems(3)] by (simp_all add: kimi_rounds_within_def)
  have r: "kf_id ` set (kr_profiles r) \<subseteq> roster" "length (kr_profiles r) < 2 ^ 64" "2 \<le> length (kr_tries r)"
    using Cons.prems(2) by (simp_all add: kimi_rounds_within_def)
  show ?case
  proof (cases "kimi_choose model pinned placement excluded r")
    case None
    show ?thesis
    proof (cases "excluded = {} \<and> kr_remaining_ms r \<noteq> 0 \<and> \<not> kr_shutting_down r")
      case True
      have "rs \<noteq> []"
      proof
        assume "rs = []"
        moreover have "0 < waits (r # rs)" using True by (simp add: waits_def div_greater_zero_iff)
        ultimately show False using Cons.prems(4) True by simp
      qed
      then have "Suc (waits rs) \<le> waits (r # rs)" using waits_fall [OF Cons.prems(3)] None True by simp
      then have "card (roster - excluded) + (if excluded = {} then waits rs else 0) < length rs"
        using Cons.prems(4) True by simp
      then have "turn_within (roster - excluded) policy (kimi_turn model pinned placement rs excluded policy)"
        using Cons.IH rs Cons.prems(1,5) by blast
      then show ?thesis using None True by (simp add: smooth_step_def Let_def)
    next
      case False
      then show ?thesis using None by (auto simp: smooth_step_def turn_within_def charges_def)
    qed
  next
    case (Some p)
    have p: "kf_id p \<in> roster - excluded" using kimi_chosen [OF Some r(2)] r(1) by auto
    obtain exit attempts where t: "kimi_tries model excluded (kf_id p) (kr_tries r) policy = (exit, attempts)"
      "exit_within policy exit (charges attempts)" "map fst attempts \<in> {[kf_id p], [kf_id p, kf_id p]}"
      using kimi_profile_tries [OF Cons.prems(5) r(3), of model excluded "kf_id p"] by metis
    show ?thesis
    proof (cases exit)
      case (KimiRotated policy')
      obtain outcome later where u: "kimi_turn model pinned placement rs (insert (kf_id p) excluded) policy' = (outcome, later)"
        by fastforce
      have b: "unat (kp_transport_budget policy) = unat (kp_transport_budget policy') + charges attempts"
        "0 < unat (kp_transport_budget policy')" using t(2) KimiRotated by (simp_all add: exit_within_def)
      have "card (roster - insert (kf_id p) excluded) < card (roster - excluded)"
        using p Cons.prems(1) by (intro psubset_card_mono) auto
      then have "card (roster - insert (kf_id p) excluded)
          + (if insert (kf_id p) excluded = {} then waits rs else 0) < length rs"
        using Cons.prems(4) by (simp split: if_splits)
      then have "turn_within (roster - insert (kf_id p) excluded) policy' (outcome, later)"
        using Cons.IH [OF Cons.prems(1) rs _ b(2)] u by metis
      moreover have "roster - insert (kf_id p) excluded = roster - excluded - {kf_id p}" by auto
      ultimately have "turn_within (roster - excluded) policy (outcome, attempts @ later)"
        using turn_within_rotated [OF t(3) p _ b(1)] by simp
      then show ?thesis using Some t(1) KimiRotated u by simp
    next
      case (KimiEnded outcome)
      then have "charges attempts \<le> unat (kp_transport_budget policy)" using t(2) by (simp add: exit_within_def)
      then show ?thesis using turn_within_ended [OF t(3) p] Some t(1) KimiEnded by simp
    next
      case KimiOpen
      then show ?thesis using t(2) by (simp add: exit_within_def)
    qed
  qed
qed simp

section \<open>Properties\<close>

text \<open>C20: A KIMI turn always ends. Its loop waits while the pool is empty, retries a profile after a
  token refresh and moves from profile to profile; with a roster of finitely many profiles, and a
  sleep before every waiting round that takes its step off the time left, one round per profile, one
  per quarter of a second of the wait, and one more are enough for an outcome, whatever the provider
  answers. No profile was tried more than twice and at most three failures were charged to the
  transport budget.\<close>

theorem kimi_turn_ends:
  assumes "finite roster"
    and "card roster + (kr_remaining_ms (hd rounds) + 249) div 250 < length rounds"
    and "\<forall>r\<in>set rounds. kf_id ` set (kr_profiles r) \<subseteq> roster \<and> length (kr_profiles r) < 2 ^ 64
      \<and> 2 \<le> length (kr_tries r)"
    and "successively (\<lambda>r r'. kimi_choose model pinned placement {} r = None
       \<longrightarrow> kr_remaining_ms r' + min 250 (kr_remaining_ms r) \<le> kr_remaining_ms r) rounds"
  shows "\<exists>outcome attempts. kimi_turn model pinned placement rounds {} kimi_policy_default = (Some outcome, attempts)
    \<and> fst ` set attempts \<subseteq> roster \<and> (\<forall>i. count_list (map fst attempts) i \<le> 2)
    \<and> charges attempts \<le> 3"
proof -
  have "turn_within (roster - {}) kimi_policy_default (kimi_turn model pinned placement rounds {} kimi_policy_default)"
    by (rule kimi_turn_bounded) (use assms in \<open>auto simp: kimi_rounds_within_def slept_def waits_def kimi_policy_default_def\<close>)
  then show ?thesis by (simp add: turn_within_def kimi_policy_default_def)
qed

definition example_profile :: "string \<Rightarrow> kimi_runtime_profile" where
  "example_profile i = \<lparr>kf_id = i, kf_plan = ''Vivace'', kf_health = kimi_profile_health_default, kf_inflight = 0\<rparr>"

definition example_try :: "kimi_answer \<Rightarrow> kimi_try" where
  "example_try answer =
     \<lparr>tr_answer = answer, tr_count_profiles = [example_profile ''kimi-01'', example_profile ''kimi-02''],
      tr_count_now = 101, tr_effect_now = 102,
      tr_late_profiles = [example_profile ''kimi-01'', example_profile ''kimi-02''], tr_late_now = 103\<rparr>"

definition example_kimi_round :: "nat \<Rightarrow> kimi_answer \<Rightarrow> kimi_answer \<Rightarrow> kimi_round" where
  "example_kimi_round left first second =
     \<lparr>kr_profiles = [example_profile ''kimi-01'', example_profile ''kimi-02''], kr_select_now = 100,
      kr_cursor = 0, kr_remaining_ms = left, kr_shutting_down = False,
      kr_tries = [example_try first, example_try second]\<rparr>"

theorem kimi_turn_ends_witness:
  "\<exists>outcome attempts. kimi_turn ''k3'' None None
      [example_kimi_round 300 (KimiAnswered 401 None KimiFirstByte) (KimiTokenFailed KimiFailAuth),
       example_kimi_round 50 (KimiSendFailed KimiFailTransport) (KimiSendFailed KimiFailTransport),
       example_kimi_round 0 (KimiAnswered 200 None KimiFirstByte) (KimiSendFailed KimiFailTransport),
       example_kimi_round 0 (KimiAnswered 200 None KimiFirstByte) (KimiSendFailed KimiFailTransport),
       example_kimi_round 0 (KimiAnswered 200 None KimiFirstByte) (KimiSendFailed KimiFailTransport)]
      {} kimi_policy_default = (Some outcome, attempts)
    \<and> fst ` set attempts \<subseteq> {''kimi-01'', ''kimi-02''} \<and> (\<forall>i. count_list (map fst attempts) i \<le> 2)
    \<and> charges attempts \<le> 3"
  by (rule kimi_turn_ends) (simp_all add: example_kimi_round_def example_profile_def)

text \<open>The choice of a KIMI profile turns a request away only when a verdict of the provider holds
  every remaining profile: a quota wall, a capability outside the plan, a failing model. A profile
  held by the engine's own reading of its environment, an authentication quarantine or a wedged
  transport, is served exactly when no remaining profile is free of any reason.\<close>

lemma kimi_relaxes_only_the_environment:
  assumes "distinct (map kf_id profiles)" "length profiles < 2 ^ 64"
  shows "case kimi_select_profile profiles now cursor model excluded sticky of
      None \<Rightarrow> list_all (\<lambda>p. kf_id p \<in> excluded \<or> (case cd_ineligible (kimi_candidate p model now) of
          Some reason \<Rightarrow> \<not> is_environmental reason | None \<Rightarrow> False)) profiles
    | Some p \<Rightarrow> p \<in> set profiles \<and> kf_id p \<notin> excluded
        \<and> (case cd_ineligible (kimi_candidate p model now) of
             None \<Rightarrow> True
           | Some reason \<Rightarrow> is_environmental reason
               \<and> list_all (\<lambda>q. kf_id q \<in> excluded \<or> cd_ineligible (kimi_candidate q model now) \<noteq> None) profiles)"
proof (cases "kimi_select_profile profiles now cursor model excluded sticky")
  case None
  then show ?thesis using kimi_unselected [OF None assms(2)] by simp
next
  case (Some p)
  obtain x where x: "x \<in> set profiles" "kf_id x \<notin> excluded" "kf_id x = kf_id p" "p \<in> set profiles"
    "is_eligible (kimi_candidate x model now)
      \<or> (\<exists>reason. cd_ineligible (kimi_candidate x model now) = Some reason \<and> is_environmental reason)
        \<and> (\<forall>y\<in>set profiles. kf_id y \<notin> excluded \<longrightarrow> \<not> is_eligible (kimi_candidate y model now))"
    using kimi_selected [OF Some assms(2)] by blast
  have "x = p" using assms(1) x(1,3,4) by (meson distinct_map inj_on_eq_iff)
  then show ?thesis using Some x by (auto simp: is_eligible_def list_all_iff split: option.splits)
qed

text \<open>C21: A refresh refused on the first try of a profile ends the whole turn. The decision asks for a
  refresh and a retry of the same profile, the loop has no branch for it after a failed token and
  answers with the authentication error: the turn does not move on, however many profiles are
  eligible, and the health of the refused profile is left as it was, so the next turn selects it
  again.\<close>

theorem refused_refresh_ends_the_turn:
  assumes "kimi_choose model pinned placement {} r = Some p"
    and "kr_tries r = t # ts" "tr_answer t = KimiTokenFailed KimiFailAuth"
  shows "\<exists>applied. kimi_turn model pinned placement (r # rs) {} kimi_policy_default
      = (Some (KimiError KimiFailAuth), [(kf_id p, applied)]) \<and> kimi_applied_health model applied h = h"
  using assms by (simp add: Let_def kimi_failure_verdict_def kimi_decide_def kimi_policy_default_def rotate_or_def
      kimi_applied_health_def kimi_apply_effect_with_hint_def kimi_apply_effect_def)

theorem refused_refresh_ends_the_turn_witness:
  "\<exists>applied. kimi_turn ''k3'' None None
      [example_kimi_round 0 (KimiTokenFailed KimiFailAuth) (KimiSendFailed KimiFailTransport)] {} kimi_policy_default
      = (Some (KimiError KimiFailAuth), [(kf_id (example_profile ''kimi-01''), applied)])
    \<and> kimi_applied_health ''k3'' applied kimi_profile_health_default = kimi_profile_health_default"
proof (rule refused_refresh_ends_the_turn [where t = "example_try (KimiTokenFailed KimiFailAuth)"])
  show "kimi_choose ''k3'' None None {} (example_kimi_round 0 (KimiTokenFailed KimiFailAuth) (KimiSendFailed KimiFailTransport))
      = Some (example_profile ''kimi-01'')"
    by code_simp
qed (simp_all add: example_kimi_round_def example_try_def)

end
