(* ===== verification/Plane_Media.thy ===== *)
theory Plane_Media
  imports Plane_Core "HOL-Library.AList"
begin

text \<open>
  The media planes, Suno and Tripo3D (\<open>src/crates/forward/src/suno\<close> and \<open>tripo3d\<close>): the two-axis
  selector (\<open>selection.rs\<close>), the classification of an upstream answer (\<open>transport.rs\<close>), the decision
  after a creation attempt (\<open>pool.rs\<close>), and of \<open>gateway.rs\<close> the health of a profile and the loop
  that creates a generation.

  The two planes repeat the selector and the shape of the decision over their own verdicts: the
  candidate is polymorphic in the reasons of its axes, and phase, policy and next step are shared.
\<close>

section \<open>Two-axis selection\<close>

record ('h, 's) axis_candidate =
  mc_profile_id :: string
  mc_hard :: "'h option"
  mc_soft :: "'s option"
  mc_inflight :: u32

definition axis_is_eligible :: "('h, 's) axis_candidate \<Rightarrow> bool" where
  "axis_is_eligible c \<longleftrightarrow> mc_hard c = None \<and> mc_soft c = None"

definition axis_is_hard_eligible :: "('h, 's) axis_candidate \<Rightarrow> bool" where
  "axis_is_hard_eligible c \<longleftrightarrow> mc_hard c = None"

definition axis_pick :: "('h, 's) axis_candidate list \<Rightarrow> u64 \<Rightarrow> ('h, 's) axis_candidate option" where
  "axis_pick eligible cursor = pick_ranked mc_inflight mc_profile_id eligible cursor"

definition axis_select :: "('h, 's) axis_candidate list \<Rightarrow> u64 \<Rightarrow> ('h, 's) axis_candidate option" where
  "axis_select candidates cursor = axis_pick (filter axis_is_eligible candidates) cursor"

definition axis_select_ignoring_soft :: "('h, 's) axis_candidate list \<Rightarrow> u64 \<Rightarrow> ('h, 's) axis_candidate option" where
  "axis_select_ignoring_soft candidates cursor = axis_pick (filter axis_is_hard_eligible candidates) cursor"

definition axis_ineligible_ids :: "('h, 's) axis_candidate list \<Rightarrow> string set" where
  "axis_ineligible_ids candidates = mc_profile_id ` set (filter (\<lambda>c. \<not> axis_is_eligible c) candidates)"

definition axis_hard_ineligible_ids :: "('h, 's) axis_candidate list \<Rightarrow> string set" where
  "axis_hard_ineligible_ids candidates = mc_profile_id ` set (filter (\<lambda>c. \<not> axis_is_hard_eligible c) candidates)"

text \<open>The strict pass, then the pass that honors the hard axis only.\<close>

definition two_pass :: "('h, 's) axis_candidate list \<Rightarrow> u64 \<Rightarrow> ('h, 's) axis_candidate option" where
  "two_pass candidates cursor =
     (case axis_select candidates cursor of
        Some c \<Rightarrow> Some c
      | None \<Rightarrow> axis_select_ignoring_soft candidates cursor)"

definition axis_remaining :: "('h, 's) axis_candidate list \<Rightarrow> nat" where
  "axis_remaining candidates =
     (let strict = length (filter (\<lambda>c. mc_hard c = None \<and> mc_soft c = None) candidates)
      in if 0 < strict then strict else length (filter (\<lambda>c. mc_hard c = None) candidates))"

section \<open>Phases and budgets\<close>

datatype create_phase = BeforeCreate | Created

record create_policy =
  cp_transport_budget :: u32

definition create_policy_default :: create_policy where
  "create_policy_default = \<lparr>cp_transport_budget = 3\<rparr>"

datatype create_next = CreateRotate | CreateSurfaceUpstream | CreateSurfaceCapacity | CreateDone

record 'e create_decision =
  md_next :: create_next
  md_effect :: 'e
  md_policy :: create_policy

text \<open>The tail of both decisions, for a verdict that may rotate.\<close>

definition rotate_or_stop :: "bool \<Rightarrow> 'e \<Rightarrow> create_policy \<Rightarrow> nat \<Rightarrow> 'e create_decision" where
  "rotate_or_stop spends effect policy eligible_profiles_left =
     (let remaining = (if spends then sat_sub_u32 (cp_transport_budget policy) 1 else cp_transport_budget policy)
      in if spends \<and> remaining = 0
         then \<lparr>md_next = CreateSurfaceUpstream, md_effect = effect, md_policy = \<lparr>cp_transport_budget = 0\<rparr>\<rparr>
         else if eligible_profiles_left = 0
         then \<lparr>md_next = CreateSurfaceCapacity, md_effect = effect, md_policy = \<lparr>cp_transport_budget = remaining\<rparr>\<rparr>
         else \<lparr>md_next = CreateRotate, md_effect = effect, md_policy = \<lparr>cp_transport_budget = remaining\<rparr>\<rparr>)"

definition parse_retry_after :: "string \<Rightarrow> i64 option" where
  "parse_retry_after value =
     Option.bind (parse_i64 (trim value)) (\<lambda>seconds. if 0 < seconds then Some seconds else None)"

section \<open>Suno: verdicts and decisions\<close>

datatype suno_verdict =
    SunoOk | SunoRateLimitedHard | SunoQuotaExhausted | SunoAuthRefused | SunoCaptchaRequired
  | SunoTransport | SunoClientError | SunoProtocol

definition suno_classify_status :: "u16 \<Rightarrow> suno_verdict" where
  "suno_classify_status status =
     (if 200 \<le> status \<and> status \<le> 299 then SunoOk
      else if status \<in> {401, 403} then SunoAuthRefused
      else if status = 429 then SunoRateLimitedHard
      else if status = 408 \<or> (500 \<le> status \<and> status \<le> 599) then SunoTransport
      else SunoClientError)"

definition suno_may_rotate :: "suno_verdict \<Rightarrow> bool" where
  "suno_may_rotate verdict \<longleftrightarrow>
     verdict \<in> {SunoRateLimitedHard, SunoQuotaExhausted, SunoAuthRefused, SunoCaptchaRequired, SunoTransport}"

definition suno_spends_transport_budget :: "suno_verdict \<Rightarrow> bool" where
  "suno_spends_transport_budget verdict \<longleftrightarrow> verdict = SunoTransport"

datatype suno_effect =
    SunoNoEffect | SunoCoolRateLimited | SunoRestForQuota | SunoSoftAuthFault | SunoSoftCaptchaGate
  | SunoTransportFault

definition suno_effect_for :: "suno_verdict \<Rightarrow> suno_effect" where
  "suno_effect_for verdict =
     (case verdict of
        SunoRateLimitedHard \<Rightarrow> SunoCoolRateLimited
      | SunoQuotaExhausted \<Rightarrow> SunoRestForQuota
      | SunoAuthRefused \<Rightarrow> SunoSoftAuthFault
      | SunoCaptchaRequired \<Rightarrow> SunoSoftCaptchaGate
      | SunoTransport \<Rightarrow> SunoTransportFault
      | SunoOk \<Rightarrow> SunoNoEffect
      | SunoClientError \<Rightarrow> SunoNoEffect
      | SunoProtocol \<Rightarrow> SunoNoEffect)"

definition suno_decide :: "suno_verdict \<Rightarrow> create_phase \<Rightarrow> create_policy \<Rightarrow> nat \<Rightarrow> suno_effect create_decision" where
  "suno_decide verdict phase policy eligible_profiles_left =
     (if verdict = SunoOk then \<lparr>md_next = CreateDone, md_effect = SunoNoEffect, md_policy = policy\<rparr>
      else if phase = Created
      then \<lparr>md_next = CreateSurfaceUpstream, md_effect = suno_effect_for verdict, md_policy = policy\<rparr>
      else if verdict = SunoClientError \<or> verdict = SunoProtocol
      then \<lparr>md_next = CreateSurfaceUpstream, md_effect = SunoNoEffect, md_policy = policy\<rparr>
      else if \<not> suno_may_rotate verdict
      then \<lparr>md_next = CreateSurfaceUpstream, md_effect = suno_effect_for verdict, md_policy = policy\<rparr>
      else rotate_or_stop (suno_spends_transport_budget verdict) (suno_effect_for verdict) policy eligible_profiles_left)"

section \<open>Suno: health of a profile\<close>

datatype suno_hard = SunoRateLimited | SunoQuotaWall | SunoQuotaShortfall

datatype suno_soft = SunoAuthCooling | SunoCaptchaCooling | SunoTransportWedged

definition SUNO_TRANSPORT_COOL_SECS :: i64 where
  "SUNO_TRANSPORT_COOL_SECS = 15"

definition AUTH_SOFT_BASE_SECS :: i64 where
  "AUTH_SOFT_BASE_SECS = 15"

definition AUTH_SOFT_MAX_SECS :: i64 where
  "AUTH_SOFT_MAX_SECS = 900"

definition RATE_LIMIT_FALLBACK_COOL_SECS :: i64 where
  "RATE_LIMIT_FALLBACK_COOL_SECS = 30"

definition CAPTCHA_COOL_SECS :: i64 where
  "CAPTCHA_COOL_SECS = 30"

definition AUTH_DEAD_STREAK :: u32 where
  "AUTH_DEAD_STREAK = 8"

definition AUTH_DEAD_ELAPSED_SECS :: i64 where
  "AUTH_DEAD_ELAPSED_SECS = 3600"

record billing_snapshot =
  bs_total_credits_left :: "i64 option"
  bs_monthly_limit :: "i64 option"
  bs_monthly_usage :: "i64 option"
  bs_period_raw :: "string option"

record suno_profile_health =
  sh_authenticated :: bool
  sh_rate_limit_cool_until :: i64
  sh_quota_walled :: bool
  sh_auth_cool_until :: i64
  sh_auth_soft_streak :: u32
  sh_auth_first_fault_at :: "i64 option"
  sh_auth_dead :: bool
  sh_captcha_cool_until :: i64
  sh_transport_cool_until :: i64
  sh_total_credits_left :: "i64 option"
  sh_monthly_limit :: "i64 option"
  sh_monthly_usage :: "i64 option"
  sh_period_raw :: "string option"
  sh_quota_observed_at :: "i64 option"

definition suno_profile_health_default :: suno_profile_health where
  "suno_profile_health_default = \<lparr>sh_authenticated = False, sh_rate_limit_cool_until = 0,
     sh_quota_walled = False, sh_auth_cool_until = 0, sh_auth_soft_streak = 0,
     sh_auth_first_fault_at = None, sh_auth_dead = False, sh_captcha_cool_until = 0,
     sh_transport_cool_until = 0, sh_total_credits_left = None, sh_monthly_limit = None,
     sh_monthly_usage = None, sh_period_raw = None, sh_quota_observed_at = None\<rparr>"

record suno_runtime_profile =
  sf_id :: string
  sf_health :: suno_profile_health
  sf_inflight :: u32

definition proven_remaining_credits :: "suno_profile_health \<Rightarrow> i64 option" where
  "proven_remaining_credits health =
     (case sh_total_credits_left health of
        Some left \<Rightarrow> Some left
      | None \<Rightarrow>
          (case (sh_monthly_limit health, sh_monthly_usage health) of
             (Some limit, Some used) \<Rightarrow> Some (sat_sub_i64 limit used)
           | _ \<Rightarrow> None))"

definition suno_candidate :: "suno_runtime_profile \<Rightarrow> i64 \<Rightarrow> i64 \<Rightarrow> (suno_hard, suno_soft) axis_candidate option" where
  "suno_candidate p now reserve_credits =
     (let health = sf_health p
      in if sh_auth_dead health then None
         else Some
           \<lparr>mc_profile_id = sf_id p,
            mc_hard =
              (if now < sh_rate_limit_cool_until health then Some SunoRateLimited
               else if sh_quota_walled health then Some SunoQuotaWall
               else if (case proven_remaining_credits health of
                          Some remaining \<Rightarrow> remaining < reserve_credits | None \<Rightarrow> False)
               then Some SunoQuotaShortfall
               else None),
            mc_soft =
              (if now < sh_auth_cool_until health then Some SunoAuthCooling
               else if now < sh_captcha_cool_until health then Some SunoCaptchaCooling
               else if now < sh_transport_cool_until health then Some SunoTransportWedged
               else None),
            mc_inflight = sf_inflight p\<rparr>)"

text \<open>The exponential backoff of the soft authentication axis after a streak of faults.\<close>

definition auth_backoff :: "u32 \<Rightarrow> i64" where
  "auth_backoff streak = min (AUTH_SOFT_BASE_SECS * 2 ^ unat (min streak 6)) AUTH_SOFT_MAX_SECS"

definition sat_succ_u32 :: "u32 \<Rightarrow> u32" where
  "sat_succ_u32 a = (if a = - 1 then - 1 else a + 1)"

definition suno_apply_effect :: "suno_effect \<Rightarrow> i64 \<Rightarrow> i64 option \<Rightarrow> suno_profile_health \<Rightarrow> suno_profile_health" where
  "suno_apply_effect effect now retry_after health =
     (case effect of
        SunoNoEffect \<Rightarrow> health
      | SunoCoolRateLimited \<Rightarrow>
          health\<lparr>sh_rate_limit_cool_until :=
            (case retry_after of
               Some until \<Rightarrow> if now < until then until else sat_add_i64 now RATE_LIMIT_FALLBACK_COOL_SECS
             | None \<Rightarrow> sat_add_i64 now RATE_LIMIT_FALLBACK_COOL_SECS)\<rparr>
      | SunoRestForQuota \<Rightarrow> health\<lparr>sh_quota_walled := True\<rparr>
      | SunoSoftAuthFault \<Rightarrow>
          (let streak = sat_succ_u32 (sh_auth_soft_streak health);
               first = (case sh_auth_first_fault_at health of Some t \<Rightarrow> t | None \<Rightarrow> now);
               dead = (sh_auth_dead health \<or>
                 (AUTH_DEAD_STREAK \<le> streak \<and> AUTH_DEAD_ELAPSED_SECS \<le> sat_sub_i64 now first))
           in health\<lparr>sh_auth_soft_streak := streak, sh_auth_first_fault_at := Some first,
                sh_auth_dead := dead, sh_auth_cool_until := sat_add_i64 now (auth_backoff streak)\<rparr>)
      | SunoSoftCaptchaGate \<Rightarrow> health\<lparr>sh_captcha_cool_until := sat_add_i64 now CAPTCHA_COOL_SECS\<rparr>
      | SunoTransportFault \<Rightarrow> health\<lparr>sh_transport_cool_until := sat_add_i64 now SUNO_TRANSPORT_COOL_SECS\<rparr>)"

definition mark_generation_success :: "suno_profile_health \<Rightarrow> suno_profile_health" where
  "mark_generation_success health =
     health\<lparr>sh_authenticated := True, sh_auth_cool_until := 0, sh_auth_soft_streak := 0,
       sh_auth_first_fault_at := None, sh_auth_dead := False, sh_captcha_cool_until := 0,
       sh_transport_cool_until := 0\<rparr>"

definition suno_publish_quota :: "billing_snapshot \<Rightarrow> i64 \<Rightarrow> suno_profile_health \<Rightarrow> suno_profile_health" where
  "suno_publish_quota snapshot observed_at health =
     (let h = (mark_generation_success health)\<lparr>
            sh_total_credits_left := bs_total_credits_left snapshot,
            sh_monthly_limit := bs_monthly_limit snapshot,
            sh_monthly_usage := bs_monthly_usage snapshot,
            sh_period_raw := bs_period_raw snapshot,
            sh_quota_observed_at := Some observed_at\<rparr>
      in case proven_remaining_credits h of
           Some remaining \<Rightarrow> if remaining \<le> 0 then h\<lparr>sh_quota_walled := True\<rparr> else h\<lparr>sh_quota_walled := False\<rparr>
         | None \<Rightarrow> h)"

definition credit_delta :: "billing_snapshot \<Rightarrow> billing_snapshot \<Rightarrow> i64 option" where
  "credit_delta baseline post =
     (case (bs_total_credits_left baseline, bs_total_credits_left post) of
        (Some before, Some after) \<Rightarrow> if after \<le> before then Some (wrap_i64 (before - after)) else None
      | _ \<Rightarrow>
          (case (bs_monthly_usage baseline, bs_monthly_usage post) of
             (Some before, Some after) \<Rightarrow> if before \<le> after then Some (wrap_i64 (after - before)) else None
           | _ \<Rightarrow> None))"

section \<open>Suno: creating a generation\<close>

datatype suno_failure =
    SunoFailAuth | SunoFailTransport | SunoFailProtocol | SunoFailCapacity | SunoFailLowBalance
  | SunoFailBadRequest string | SunoFailUnsupported string | SunoFailUnavailable string
  | SunoFailUpstream u16

definition suno_failure_verdict :: "suno_failure \<Rightarrow> suno_verdict" where
  "suno_failure_verdict failure =
     (case failure of
        SunoFailAuth \<Rightarrow> SunoAuthRefused
      | SunoFailTransport \<Rightarrow> SunoTransport
      | SunoFailProtocol \<Rightarrow> SunoTransport
      | SunoFailUnavailable _ \<Rightarrow> SunoTransport
      | SunoFailUpstream status \<Rightarrow> suno_classify_status status
      | SunoFailCapacity \<Rightarrow> SunoQuotaExhausted
      | SunoFailLowBalance \<Rightarrow> SunoClientError
      | SunoFailBadRequest _ \<Rightarrow> SunoClientError
      | SunoFailUnsupported _ \<Rightarrow> SunoClientError)"

definition suno_from_verdict :: "suno_verdict \<Rightarrow> u16 \<Rightarrow> suno_failure" where
  "suno_from_verdict verdict status =
     (case verdict of
        SunoAuthRefused \<Rightarrow> SunoFailAuth
      | SunoRateLimitedHard \<Rightarrow> SunoFailCapacity
      | SunoQuotaExhausted \<Rightarrow> SunoFailCapacity
      | SunoCaptchaRequired \<Rightarrow> SunoFailCapacity
      | SunoTransport \<Rightarrow> SunoFailTransport
      | SunoProtocol \<Rightarrow> SunoFailProtocol
      | SunoClientError \<Rightarrow> SunoFailUpstream status
      | SunoOk \<Rightarrow> SunoFailProtocol)"

definition suno_select_profile ::
    "suno_runtime_profile list \<Rightarrow> i64 \<Rightarrow> u64 \<Rightarrow> string set \<Rightarrow> i64 \<Rightarrow> suno_runtime_profile option" where
  "suno_select_profile profiles now cursor excluded reserve_credits =
     (let candidates = List.map_filter (\<lambda>p. suno_candidate p now reserve_credits)
            (filter (\<lambda>p. sf_id p \<notin> excluded) profiles)
      in Option.bind (two_pass candidates cursor) (\<lambda>selected.
           List.find (\<lambda>p. sf_id p = mc_profile_id selected) profiles))"

definition suno_remaining_count ::
    "suno_runtime_profile list \<Rightarrow> i64 \<Rightarrow> string set \<Rightarrow> string \<Rightarrow> i64 \<Rightarrow> nat" where
  "suno_remaining_count profiles now excluded current reserve_credits =
     axis_remaining (List.map_filter (\<lambda>p. suno_candidate p now reserve_credits)
       (filter (\<lambda>p. sf_id p \<noteq> current \<and> sf_id p \<notin> excluded) profiles))"

definition earliest_expiry :: "i64 \<Rightarrow> i64 list \<Rightarrow> i64" where
  "earliest_expiry now deadlines =
     (let active = filter (\<lambda>until. now < until) deadlines
      in if active = [] then 60 else max (wrap_i64 (foldl min (hd active) (tl active) - now)) 1)"

definition suno_capacity_retry_after :: "suno_runtime_profile list \<Rightarrow> i64 \<Rightarrow> i64" where
  "suno_capacity_retry_after profiles now =
     earliest_expiry now (map (sh_rate_limit_cool_until \<circ> sf_health) profiles)"

text \<open>The answer to a creation call: the call failed, its body could not be read, or the body was read
  and gives a verdict or the ids of the clips; \<open>retry\<close> is the instant its hint names.\<close>

datatype suno_create_answer =
    SunoSendFailed
  | SunoBodyUnread u16
  | SunoParsed u16 "i64 option" "suno_verdict + string list"

definition suno_send_create :: "suno_create_answer \<Rightarrow> (suno_verdict \<times> i64 option \<times> u16) + string list" where
  "suno_send_create answer =
     (case answer of
        SunoSendFailed \<Rightarrow> Inl (SunoTransport, None, 502)
      | SunoBodyUnread status \<Rightarrow> Inl (SunoTransport, None, status)
      | SunoParsed status retry parsed \<Rightarrow>
          (case parsed of Inl verdict \<Rightarrow> Inl (verdict, retry, status) | Inr ids \<Rightarrow> Inr ids))"

text \<open>What one round of the loop meets: the token of the session, the pre-check, the quota read of the
  baseline, the creation call, the marker of the reservation and the tracker of the drain.\<close>

record suno_round =
  sr_profiles :: "suno_runtime_profile list"
  sr_select_now :: i64
  sr_cursor :: u64
  sr_jwt :: "suno_verdict option"
  sr_captcha :: "suno_verdict + bool"
  sr_quota :: "billing_snapshot option"
  sr_inflight :: u32
  sr_epoch :: u64
  sr_create :: suno_create_answer
  sr_count_profiles :: "suno_runtime_profile list"
  sr_count_now :: i64
  sr_effect_now :: i64
  sr_marked :: bool
  sr_tracked :: bool

type_synonym attribution_baseline = "billing_snapshot \<times> u64"

datatype suno_create_outcome =
    SunoCreated "string list" "attribution_baseline option"
  | SunoRefused suno_verdict "i64 option" u16

definition precheck_and_create :: "suno_round \<Rightarrow> suno_create_outcome" where
  "precheck_and_create r =
     (case sr_jwt r of
        Some verdict \<Rightarrow> SunoRefused verdict None 502
      | None \<Rightarrow>
          (case sr_captcha r of
             Inl verdict \<Rightarrow> SunoRefused verdict None 502
           | Inr required \<Rightarrow>
               if required then SunoRefused SunoCaptchaRequired None 200
               else
                 (let baseline = (case sr_quota r of
                        Some snapshot \<Rightarrow> if sr_inflight r = 1 then Some (snapshot, sr_epoch r) else None
                      | None \<Rightarrow> None)
                  in case suno_send_create (sr_create r) of
                       Inr ids \<Rightarrow> SunoCreated ids baseline
                     | Inl (verdict, retry, status) \<Rightarrow> SunoRefused verdict retry status)))"

text \<open>How the loop is left: the drain owns the reservation; the marker was not set, the drain runs
  without it and the guard keeps the hold; the generation exists but the plane is shutting down; or
  a failure, with the hint of a capacity answer.\<close>

datatype suno_outcome =
    SunoServed string "string list" "attribution_baseline option"
  | SunoUnmarked string "string list"
  | SunoShutdownRace string "string list"
  | SunoFailed suno_failure "i64 option"

text \<open>The answer to the creation call of a round, if the round reached that call.\<close>

definition suno_create_call :: "suno_round \<Rightarrow> suno_create_answer option" where
  "suno_create_call r = (if sr_jwt r = None \<and> sr_captcha r = Inr False then Some (sr_create r) else None)"

text \<open>An attempt: the profile, the effect applied to it with its clock and retry instant, and the
  answer to its creation call, if one was sent.\<close>

type_synonym suno_attempt = "string \<times> suno_effect \<times> i64 \<times> i64 option \<times> suno_create_answer option"

definition suno_step ::
    "i64 \<Rightarrow> suno_round \<Rightarrow> string set \<Rightarrow> create_policy
      \<Rightarrow> (suno_outcome, create_policy) loop_step \<times> suno_attempt list" where
  "suno_step reserve_credits r excluded policy =
     (case suno_select_profile (sr_profiles r) (sr_select_now r) (sr_cursor r) excluded reserve_credits of
        None \<Rightarrow> (Stop (SunoFailed SunoFailCapacity
            (Some (suno_capacity_retry_after (sr_profiles r) (sr_select_now r)))), [])
      | Some profile \<Rightarrow>
          (case precheck_and_create r of
             SunoRefused verdict retry status \<Rightarrow>
               (let remaining = suno_remaining_count (sr_count_profiles r) (sr_count_now r) excluded
                      (sf_id profile) reserve_credits;
                    decision = suno_decide verdict BeforeCreate policy remaining;
                    attempt = (sf_id profile, md_effect decision, sr_effect_now r, retry, suno_create_call r)
                in (case md_next decision of
                      CreateRotate \<Rightarrow> Go (sf_id profile) (md_policy decision)
                    | CreateSurfaceCapacity \<Rightarrow> Stop (SunoFailed SunoFailCapacity
                        (Some (suno_capacity_retry_after (sr_count_profiles r) (sr_effect_now r))))
                    | CreateSurfaceUpstream \<Rightarrow> Stop (SunoFailed (SunoFailUpstream status) None)
                    | CreateDone \<Rightarrow> Stop (SunoFailed SunoFailProtocol None),
                    [attempt]))
           | SunoCreated ids baseline \<Rightarrow>
               (Stop (if \<not> sr_marked r then SunoUnmarked (sf_id profile) ids
                      else if \<not> sr_tracked r then SunoShutdownRace (sf_id profile) ids
                      else SunoServed (sf_id profile) ids baseline),
                [(sf_id profile, SunoNoEffect, sr_effect_now r, None, suno_create_call r)])))"

definition suno_handle_create :: "i64 \<Rightarrow> suno_round list \<Rightarrow> suno_outcome option \<times> suno_attempt list" where
  "suno_handle_create reserve_credits rounds =
     rotate_rounds (suno_step reserve_credits) rounds {} create_policy_default"

text \<open>What an attempt does to the health of its profile: the effect of a refusal, or the rehabilitation
  by a creation whose drain the plane took over.\<close>

definition suno_attempt_health ::
    "suno_outcome option \<Rightarrow> suno_attempt \<Rightarrow> suno_profile_health \<Rightarrow> suno_profile_health" where
  "suno_attempt_health outcome attempt health =
     (case attempt of
        (_, _, _, _, Some (SunoParsed _ _ (Inr _))) \<Rightarrow>
          (case outcome of Some (SunoServed _ _ _) \<Rightarrow> mark_generation_success health | _ \<Rightarrow> health)
      | (_, effect, now, retry, _) \<Rightarrow> suno_apply_effect effect now retry health)"

section \<open>Tripo3D: verdicts and decisions\<close>

datatype tripo3d_verdict =
    TripoOk | TripoRateLimitedHard | TripoInsufficientBalance | TripoAuthRefused | TripoTransport
  | TripoClientError | TripoProtocol

definition tripo3d_error_business_code :: "'v serde_json \<Rightarrow> 'v \<Rightarrow> u32 option" where
  "tripo3d_error_business_code J payload =
     Option.bind (jget J payload ''code'') (\<lambda>code.
       case as_str J code of
         Some t \<Rightarrow> parse_u32 (trim t)
       | None \<Rightarrow> Option.bind (as_u64 J code) (\<lambda>n. if n < 2 ^ 32 then Some (ucast n) else None))"

definition tripo3d_classify_http_status :: "u16 \<Rightarrow> tripo3d_verdict" where
  "tripo3d_classify_http_status status =
     (if 200 \<le> status \<and> status \<le> 299 then TripoProtocol
      else if status = 401 then TripoAuthRefused
      else if status = 403 then TripoAuthRefused
      else if status \<in> {408, 409, 425, 429} then TripoTransport
      else if 500 \<le> status \<and> status \<le> 599 then TripoTransport
      else TripoClientError)"

definition tripo3d_classify_status :: "u16 \<Rightarrow> u32 option \<Rightarrow> tripo3d_verdict" where
  "tripo3d_classify_status status business_code =
     (case business_code of
        Some code \<Rightarrow>
          if code = 0
          then (if 200 \<le> status \<and> status < 300 then TripoOk else tripo3d_classify_http_status status)
          else if code = 2000 then TripoRateLimitedHard
          else if code = 1007 then TripoTransport
          else if code = 2010 then TripoInsufficientBalance
          else tripo3d_classify_http_status status
      | None \<Rightarrow> tripo3d_classify_http_status status)"

definition tripo3d_may_rotate :: "tripo3d_verdict \<Rightarrow> bool" where
  "tripo3d_may_rotate verdict \<longleftrightarrow>
     verdict \<in> {TripoRateLimitedHard, TripoInsufficientBalance, TripoAuthRefused, TripoTransport}"

definition tripo3d_spends_transport_budget :: "tripo3d_verdict \<Rightarrow> bool" where
  "tripo3d_spends_transport_budget verdict \<longleftrightarrow> verdict = TripoTransport"

text \<open>The body of a creation answer, when it parses.\<close>

definition parse_create_task :: "'v serde_json \<Rightarrow> u16 \<Rightarrow> 'v option \<Rightarrow> tripo3d_verdict + string" where
  "parse_create_task J status parsed =
     (let verdict = tripo3d_classify_status status (Option.bind parsed (tripo3d_error_business_code J))
      in if verdict \<noteq> TripoOk then Inl verdict
         else
           (case Option.bind parsed (\<lambda>v. Option.bind (jget J v ''data'') (\<lambda>data.
                   Option.bind (jget J data ''task_id'') (as_str J))) of
              Some task_id \<Rightarrow> if task_id = [] then Inl TripoProtocol else Inr task_id
            | None \<Rightarrow> Inl TripoProtocol))"

datatype tripo3d_effect =
    TripoNoEffect | TripoCoolRateLimited | TripoRestForBalance | TripoSoftAuthFault | TripoTransportFault

definition tripo3d_effect_for :: "tripo3d_verdict \<Rightarrow> tripo3d_effect" where
  "tripo3d_effect_for verdict =
     (case verdict of
        TripoRateLimitedHard \<Rightarrow> TripoCoolRateLimited
      | TripoInsufficientBalance \<Rightarrow> TripoRestForBalance
      | TripoAuthRefused \<Rightarrow> TripoSoftAuthFault
      | TripoTransport \<Rightarrow> TripoTransportFault
      | TripoOk \<Rightarrow> TripoNoEffect
      | TripoClientError \<Rightarrow> TripoNoEffect
      | TripoProtocol \<Rightarrow> TripoNoEffect)"

definition tripo3d_decide ::
    "tripo3d_verdict \<Rightarrow> create_phase \<Rightarrow> create_policy \<Rightarrow> nat \<Rightarrow> tripo3d_effect create_decision" where
  "tripo3d_decide verdict phase policy eligible_profiles_left =
     (if verdict = TripoOk then \<lparr>md_next = CreateDone, md_effect = TripoNoEffect, md_policy = policy\<rparr>
      else if phase = Created
      then \<lparr>md_next = CreateSurfaceUpstream, md_effect = tripo3d_effect_for verdict, md_policy = policy\<rparr>
      else if verdict = TripoClientError \<or> verdict = TripoProtocol
      then \<lparr>md_next = CreateSurfaceUpstream, md_effect = TripoNoEffect, md_policy = policy\<rparr>
      else if \<not> tripo3d_may_rotate verdict
      then \<lparr>md_next = CreateSurfaceUpstream, md_effect = tripo3d_effect_for verdict, md_policy = policy\<rparr>
      else rotate_or_stop (tripo3d_spends_transport_budget verdict) (tripo3d_effect_for verdict) policy
        eligible_profiles_left)"

section \<open>Tripo3D: health of a profile\<close>

datatype tripo3d_hard = TripoRateLimited | TripoBalanceWall | TripoBalanceShortfall

datatype tripo3d_soft = TripoAuthCooling | TripoTransportWedged

definition TRIPO3D_TRANSPORT_COOL_SECS :: i64 where
  "TRIPO3D_TRANSPORT_COOL_SECS = 10"

record tripo3d_profile_health =
  th_authenticated :: bool
  th_rate_limit_cool_until :: i64
  th_balance_walled :: bool
  th_auth_cool_until :: i64
  th_auth_soft_streak :: u32
  th_transport_cool_until :: i64
  th_balance_raw :: "string option"
  th_frozen_raw :: "string option"
  th_balance_micro_units :: "i64 option"
  th_frozen_micro_units :: "i64 option"
  th_balance_observed_at :: "i64 option"

definition tripo3d_profile_health_default :: tripo3d_profile_health where
  "tripo3d_profile_health_default = \<lparr>th_authenticated = False, th_rate_limit_cool_until = 0,
     th_balance_walled = False, th_auth_cool_until = 0, th_auth_soft_streak = 0,
     th_transport_cool_until = 0, th_balance_raw = None, th_frozen_raw = None,
     th_balance_micro_units = None, th_frozen_micro_units = None, th_balance_observed_at = None\<rparr>"

record tripo3d_runtime_profile =
  tf_id :: string
  tf_health :: tripo3d_profile_health
  tf_inflight :: u32

record balance_snapshot_view =
  bv_balance_raw :: string
  bv_frozen_raw :: string
  bv_balance_micro_units :: "i64 option"
  bv_frozen_micro_units :: "i64 option"

definition sat_mul_i64 :: "i64 \<Rightarrow> i64 \<Rightarrow> i64" where
  "sat_mul_i64 a b = max (- (2 ^ 63)) (min (2 ^ 63 - 1) (a * b))"

definition balance_shortfall :: "tripo3d_profile_health \<Rightarrow> i64 \<Rightarrow> bool" where
  "balance_shortfall health reserve_credits =
     (case (th_balance_micro_units health, th_frozen_micro_units health) of
        (Some balance, Some frozen) \<Rightarrow> sat_sub_i64 balance frozen < sat_mul_i64 reserve_credits 1000000
      | _ \<Rightarrow> False)"

definition split_once_dot :: "string \<Rightarrow> string \<times> string" where
  "split_once_dot raw =
     (let integer = takeWhile (\<lambda>c. c \<noteq> CHR ''.'') raw; rest = dropWhile (\<lambda>c. c \<noteq> CHR ''.'') raw
      in (integer, case rest of [] \<Rightarrow> [] | _ # fraction \<Rightarrow> fraction))"

definition balance_shows_funds :: "string \<Rightarrow> bool" where
  "balance_shows_funds raw =
     (let (integer, fraction) = split_once_dot raw
      in if integer = [] \<or> \<not> list_all is_ascii_digit integer \<or> \<not> list_all is_ascii_digit fraction
         then False
         else list_ex (\<lambda>b. b \<noteq> CHR ''0'') integer \<or> list_ex (\<lambda>b. b \<noteq> CHR ''0'') fraction)"

definition tripo3d_candidate :: "tripo3d_runtime_profile \<Rightarrow> i64 \<Rightarrow> i64 \<Rightarrow> (tripo3d_hard, tripo3d_soft) axis_candidate" where
  "tripo3d_candidate p now reserve_credits =
     (let health = tf_health p
      in \<lparr>mc_profile_id = tf_id p,
          mc_hard =
            (if now < th_rate_limit_cool_until health then Some TripoRateLimited
             else if th_balance_walled health then Some TripoBalanceWall
             else if balance_shortfall health reserve_credits then Some TripoBalanceShortfall
             else None),
          mc_soft =
            (if now < th_auth_cool_until health then Some TripoAuthCooling
             else if now < th_transport_cool_until health then Some TripoTransportWedged
             else None),
          mc_inflight = tf_inflight p\<rparr>)"

definition tripo3d_apply_effect ::
    "tripo3d_effect \<Rightarrow> i64 \<Rightarrow> i64 option \<Rightarrow> tripo3d_profile_health \<Rightarrow> tripo3d_profile_health" where
  "tripo3d_apply_effect effect now retry_after health =
     (case effect of
        TripoNoEffect \<Rightarrow> health
      | TripoCoolRateLimited \<Rightarrow>
          health\<lparr>th_rate_limit_cool_until :=
            (case retry_after of
               Some until \<Rightarrow> if now < until then until else sat_add_i64 now RATE_LIMIT_FALLBACK_COOL_SECS
             | None \<Rightarrow> sat_add_i64 now RATE_LIMIT_FALLBACK_COOL_SECS)\<rparr>
      | TripoRestForBalance \<Rightarrow> health\<lparr>th_balance_walled := True\<rparr>
      | TripoSoftAuthFault \<Rightarrow>
          (let streak = sat_succ_u32 (th_auth_soft_streak health)
           in health\<lparr>th_auth_soft_streak := streak, th_auth_cool_until := sat_add_i64 now (auth_backoff streak)\<rparr>)
      | TripoTransportFault \<Rightarrow> health\<lparr>th_transport_cool_until := sat_add_i64 now TRIPO3D_TRANSPORT_COOL_SECS\<rparr>)"

definition mark_task_success :: "tripo3d_profile_health \<Rightarrow> tripo3d_profile_health" where
  "mark_task_success health =
     health\<lparr>th_authenticated := True, th_auth_cool_until := 0, th_auth_soft_streak := 0, th_transport_cool_until := 0\<rparr>"

definition publish_balance :: "balance_snapshot_view \<Rightarrow> i64 \<Rightarrow> tripo3d_profile_health \<Rightarrow> tripo3d_profile_health" where
  "publish_balance snapshot observed_at health =
     (let h = mark_task_success health
      in h\<lparr>th_balance_walled := (if balance_shows_funds (bv_balance_raw snapshot) then False else th_balance_walled h),
          th_balance_raw := Some (bv_balance_raw snapshot), th_frozen_raw := Some (bv_frozen_raw snapshot),
          th_balance_micro_units := bv_balance_micro_units snapshot,
          th_frozen_micro_units := bv_frozen_micro_units snapshot,
          th_balance_observed_at := Some observed_at\<rparr>)"

section \<open>Tripo3D: upload pins\<close>

definition TOKEN_PIN_CAPACITY :: nat where
  "TOKEN_PIN_CAPACITY = 4096"

definition TOKEN_PIN_TTL_SECS :: i64 where
  "TOKEN_PIN_TTL_SECS = 3600"

record token_pin =
  tp_profile_id :: string
  tp_object :: "(string \<times> string) option"
  tp_created :: i64

text \<open>The pins are a hash map: an association list with distinct keys, in the order of its iteration.\<close>

type_synonym token_pins = "(string \<times> token_pin) list"

definition live_pin :: "token_pins \<Rightarrow> i64 \<Rightarrow> string \<Rightarrow> token_pin option" where
  "live_pin pins now token =
     Option.bind (map_of pins token) (\<lambda>pin.
       if wrap_i64 (now - tp_created pin) \<le> TOKEN_PIN_TTL_SECS then Some pin else None)"

definition profile_for_token :: "token_pins \<Rightarrow> i64 \<Rightarrow> string \<Rightarrow> string option" where
  "profile_for_token pins now token = map_option tp_profile_id (live_pin pins now token)"

definition model_object_for_token :: "token_pins \<Rightarrow> i64 \<Rightarrow> string \<Rightarrow> (string \<times> string \<times> string) option" where
  "model_object_for_token pins now token =
     Option.bind (live_pin pins now token) (\<lambda>pin.
     Option.bind (tp_object pin) (\<lambda>(bucket, key). Some (tp_profile_id pin, bucket, key)))"

definition pin_token :: "string \<Rightarrow> token_pin \<Rightarrow> token_pins \<Rightarrow> token_pins" where
  "pin_token token pin pins =
     (let pins' =
            (if TOKEN_PIN_CAPACITY \<le> length pins \<and> map_of pins token = None
             then (case min_by_key (\<lambda>(_, p). tp_created p) pins of
                     Some (oldest, _) \<Rightarrow> AList.delete oldest pins
                   | None \<Rightarrow> pins)
             else pins)
      in AList.update token pin pins')"

section \<open>Tripo3D: creating a task\<close>

datatype tripo3d_failure =
    TripoFailAuth | TripoFailTransport | TripoFailProtocol | TripoFailCapacity | TripoFailLowBalance
  | TripoFailBadRequest string | TripoFailUnsupported string | TripoFailUnavailable string
  | TripoFailUpstream u16

definition tripo3d_failure_verdict :: "tripo3d_failure \<Rightarrow> tripo3d_verdict" where
  "tripo3d_failure_verdict failure =
     (case failure of
        TripoFailAuth \<Rightarrow> TripoAuthRefused
      | TripoFailTransport \<Rightarrow> TripoTransport
      | TripoFailProtocol \<Rightarrow> TripoTransport
      | TripoFailUnavailable _ \<Rightarrow> TripoTransport
      | TripoFailUpstream status \<Rightarrow> tripo3d_classify_status status None
      | TripoFailCapacity \<Rightarrow> TripoInsufficientBalance
      | TripoFailLowBalance \<Rightarrow> TripoClientError
      | TripoFailBadRequest _ \<Rightarrow> TripoClientError
      | TripoFailUnsupported _ \<Rightarrow> TripoClientError)"

definition tripo3d_from_verdict :: "tripo3d_verdict \<Rightarrow> u16 \<Rightarrow> tripo3d_failure" where
  "tripo3d_from_verdict verdict status =
     (case verdict of
        TripoAuthRefused \<Rightarrow> TripoFailAuth
      | TripoRateLimitedHard \<Rightarrow> TripoFailCapacity
      | TripoInsufficientBalance \<Rightarrow> TripoFailCapacity
      | TripoTransport \<Rightarrow> TripoFailTransport
      | TripoProtocol \<Rightarrow> TripoFailProtocol
      | TripoClientError \<Rightarrow> TripoFailUpstream status
      | TripoOk \<Rightarrow> TripoFailProtocol)"

definition tripo3d_select_profile ::
    "tripo3d_runtime_profile list \<Rightarrow> i64 \<Rightarrow> u64 \<Rightarrow> string set \<Rightarrow> string option \<Rightarrow> i64
      \<Rightarrow> tripo3d_runtime_profile option" where
  "tripo3d_select_profile profiles now cursor excluded sticky reserve_credits =
     (let candidates = map (\<lambda>p. tripo3d_candidate p now reserve_credits) (filter (\<lambda>p. tf_id p \<notin> excluded) profiles)
      in case sticky of
           Some pinned_id \<Rightarrow>
             Option.bind (List.find (\<lambda>c. mc_profile_id c = pinned_id \<and> mc_hard c = None) candidates)
               (\<lambda>pinned. List.find (\<lambda>p. tf_id p = mc_profile_id pinned) profiles)
         | None \<Rightarrow>
             Option.bind (two_pass candidates cursor) (\<lambda>selected.
               List.find (\<lambda>p. tf_id p = mc_profile_id selected) profiles))"

definition tripo3d_remaining_count ::
    "tripo3d_runtime_profile list \<Rightarrow> i64 \<Rightarrow> string set \<Rightarrow> string \<Rightarrow> i64 \<Rightarrow> nat" where
  "tripo3d_remaining_count profiles now excluded current reserve_credits =
     axis_remaining (map (\<lambda>p. tripo3d_candidate p now reserve_credits)
       (filter (\<lambda>p. tf_id p \<noteq> current \<and> tf_id p \<notin> excluded) profiles))"

definition tripo3d_capacity_retry_after :: "tripo3d_runtime_profile list \<Rightarrow> i64 \<Rightarrow> i64" where
  "tripo3d_capacity_retry_after profiles now =
     earliest_expiry now (map (th_rate_limit_cool_until \<circ> tf_health) profiles)"

text \<open>The answer to a creation call: the call failed, its body could not be read, or the body was read
  and gives a verdict or the id of the task.\<close>

datatype tripo3d_answer =
    TripoSendFailed tripo3d_failure
  | TripoBodyUnread u16 tripo3d_failure
  | TripoParsed u16 "i64 option" "tripo3d_verdict + string"

record tripo3d_round =
  tr3_profiles :: "tripo3d_runtime_profile list"
  tr3_select_now :: i64
  tr3_cursor :: u64
  tr3_answer :: tripo3d_answer
  tr3_count_profiles :: "tripo3d_runtime_profile list"
  tr3_count_now :: i64
  tr3_effect_now :: i64
  tr3_marked :: bool
  tr3_tracked :: bool

datatype tripo3d_outcome =
    TripoServed string string
  | TripoUnmarked string string
  | TripoShutdownRace string string
  | TripoFailed tripo3d_failure "i64 option"

type_synonym tripo3d_attempt = "string \<times> tripo3d_effect \<times> i64 \<times> i64 option \<times> tripo3d_answer"

definition tripo3d_step ::
    "string option \<Rightarrow> i64 \<Rightarrow> tripo3d_round \<Rightarrow> string set \<Rightarrow> create_policy
      \<Rightarrow> (tripo3d_outcome, create_policy) loop_step \<times> tripo3d_attempt list" where
  "tripo3d_step sticky reserve_credits r excluded policy =
     (case tripo3d_select_profile (tr3_profiles r) (tr3_select_now r) (tr3_cursor r) excluded sticky reserve_credits of
        None \<Rightarrow> (Stop (TripoFailed TripoFailCapacity
            (Some (tripo3d_capacity_retry_after (tr3_profiles r) (tr3_select_now r)))), [])
      | Some profile \<Rightarrow>
          (let remaining = tripo3d_remaining_count (tr3_count_profiles r) (tr3_count_now r) excluded
                 (tf_id profile) reserve_credits
           in case tr3_answer r of
                TripoSendFailed failure \<Rightarrow>
                  (let decision = tripo3d_decide TripoTransport BeforeCreate policy remaining
                   in (if md_next decision = CreateRotate then Go (tf_id profile) (md_policy decision)
                       else Stop (TripoFailed failure None),
                       [(tf_id profile, md_effect decision, tr3_effect_now r, None, tr3_answer r)]))
              | TripoBodyUnread status failure \<Rightarrow>
                  (Stop (TripoFailed failure None), [(tf_id profile, TripoNoEffect, tr3_effect_now r, None, tr3_answer r)])
              | TripoParsed status retry (Inr task) \<Rightarrow>
                  (Stop (if \<not> tr3_marked r then TripoUnmarked (tf_id profile) task
                         else if \<not> tr3_tracked r then TripoShutdownRace (tf_id profile) task
                         else TripoServed (tf_id profile) task),
                   [(tf_id profile, TripoNoEffect, tr3_effect_now r, None, tr3_answer r)])
              | TripoParsed status retry (Inl verdict) \<Rightarrow>
                  (let decision = tripo3d_decide verdict BeforeCreate policy remaining
                   in (case md_next decision of
                         CreateRotate \<Rightarrow> Go (tf_id profile) (md_policy decision)
                       | CreateSurfaceCapacity \<Rightarrow> Stop (TripoFailed TripoFailCapacity
                           (Some (tripo3d_capacity_retry_after (tr3_count_profiles r) (tr3_effect_now r))))
                       | CreateSurfaceUpstream \<Rightarrow> Stop (TripoFailed (TripoFailUpstream status) None)
                       | CreateDone \<Rightarrow> Stop (TripoFailed TripoFailProtocol None),
                       [(tf_id profile, md_effect decision, tr3_effect_now r, retry, tr3_answer r)]))))"

definition tripo3d_handle_create ::
    "string option \<Rightarrow> i64 \<Rightarrow> tripo3d_round list \<Rightarrow> tripo3d_outcome option \<times> tripo3d_attempt list" where
  "tripo3d_handle_create sticky reserve_credits rounds =
     rotate_rounds (tripo3d_step sticky reserve_credits) rounds {} create_policy_default"

definition tripo3d_attempt_health ::
    "tripo3d_outcome option \<Rightarrow> tripo3d_attempt \<Rightarrow> tripo3d_profile_health \<Rightarrow> tripo3d_profile_health" where
  "tripo3d_attempt_health outcome attempt health =
     (case attempt of
        (_, _, _, _, TripoParsed _ _ (Inr _)) \<Rightarrow>
          (case outcome of Some (TripoServed _ _) \<Rightarrow> mark_task_success health | _ \<Rightarrow> health)
      | (_, effect, now, retry, _) \<Rightarrow> tripo3d_apply_effect effect now retry health)"

end
