(* ===== verification/Media_Properties.thy ===== *)
theory Media_Properties
  imports Plane_Media
begin

text \<open>
  The laws of the media planes: the two-pass choice, the attempt loops of Suno and Tripo3D as
  instances of the shared loop, the health axes, and the properties of the planes.
\<close>

section \<open>Two-pass selection\<close>

lemma two_pass_None: "two_pass cs cursor = None \<longleftrightarrow> filter axis_is_hard_eligible cs = []"
proof -
  have "filter axis_is_hard_eligible cs = [] \<Longrightarrow> filter axis_is_eligible cs = []"
    by (auto simp: filter_empty_conv axis_is_eligible_def axis_is_hard_eligible_def)
  moreover have "two_pass cs cursor = None \<longleftrightarrow> filter axis_is_eligible cs = [] \<and> filter axis_is_hard_eligible cs = []"
    unfolding two_pass_def axis_select_def axis_select_ignoring_soft_def axis_pick_def
    by (metis (no_types, lifting) option.case_eq_if option.distinct(1) option.exhaust_sel pick_ranked_None)
  ultimately show ?thesis by blast
qed

lemma two_pass_Some:
  assumes "two_pass cs cursor = Some c" "length cs < 2 ^ 64"
  shows "c \<in> set cs \<and> mc_hard c = None \<and> (mc_soft c = None \<or> (\<forall>d\<in>set cs. \<not> axis_is_eligible d))"
proof (cases "axis_select cs cursor")
  case (Some d)
  then have "pick_ranked mc_inflight mc_profile_id (filter axis_is_eligible cs) cursor = Some c"
    using assms(1) by (simp add: two_pass_def axis_select_def axis_pick_def)
  then have "c \<in> set (filter axis_is_eligible cs)"
    using pick_ranked_minimal [OF _ filter_short [OF assms(2)]] by blast
  then show ?thesis by (simp add: axis_is_eligible_def)
next
  case None
  then have "pick_ranked mc_inflight mc_profile_id (filter axis_is_hard_eligible cs) cursor = Some c"
    using assms(1) by (simp add: two_pass_def axis_select_ignoring_soft_def axis_pick_def)
  then have "c \<in> set (filter axis_is_hard_eligible cs)"
    using pick_ranked_minimal [OF _ filter_short [OF assms(2)]] by blast
  moreover have "filter axis_is_eligible cs = []"
    using None by (simp add: axis_select_def axis_pick_def pick_ranked_None)
  then have "\<forall>d\<in>set cs. \<not> axis_is_eligible d" by (simp add: filter_empty_conv)
  ultimately show ?thesis by (simp add: axis_is_hard_eligible_def)
qed

lemma suno_candidate_id: "suno_candidate p now reserve = Some c \<Longrightarrow> mc_profile_id c = sf_id p"
  by (auto simp: suno_candidate_def Let_def split: if_splits)

lemma tripo3d_candidate_id [simp]: "mc_profile_id (tripo3d_candidate p now reserve) = tf_id p"
  by (simp add: tripo3d_candidate_def Let_def)

definition suno_candidates :: "suno_runtime_profile list \<Rightarrow> i64 \<Rightarrow> string set \<Rightarrow> i64 \<Rightarrow> (suno_hard, suno_soft) axis_candidate list" where
  "suno_candidates profiles now excluded reserve =
     List.map_filter (\<lambda>p. suno_candidate p now reserve) (filter (\<lambda>p. sf_id p \<notin> excluded) profiles)"

lemma suno_candidates_set:
  "c \<in> set (suno_candidates profiles now excluded reserve) \<longleftrightarrow>
     (\<exists>p\<in>set profiles. sf_id p \<notin> excluded \<and> suno_candidate p now reserve = Some c)"
  by (force simp: suno_candidates_def List.map_filter_def image_iff)

lemma suno_candidates_short: "length profiles < n \<Longrightarrow> length (suno_candidates profiles now excluded reserve) < n"
  unfolding suno_candidates_def List.map_filter_def length_map by (intro filter_short)

lemma find_id:
  assumes "distinct (map f xs)" "x \<in> set xs"
  shows "List.find (\<lambda>y. f y = f x) xs = Some x"
proof (cases "List.find (\<lambda>y. f y = f x) xs")
  case (Some y)
  then show ?thesis using find_Some_mem [OF Some] assms by (auto simp: distinct_map dest: inj_onD)
qed (use assms(2) in \<open>auto simp: find_None_iff\<close>)

lemma suno_select_Some:
  assumes "suno_select_profile profiles now cursor excluded reserve = Some p"
    and "distinct (map sf_id profiles)" "length profiles < 2 ^ 64"
  shows "p \<in> set profiles \<and> sf_id p \<notin> excluded \<and> (\<exists>c. suno_candidate p now reserve = Some c \<and> mc_hard c = None
    \<and> (mc_soft c = None \<or> (\<forall>d\<in>set (suno_candidates profiles now excluded reserve). \<not> axis_is_eligible d)))"
proof -
  obtain c where c: "two_pass (suno_candidates profiles now excluded reserve) cursor = Some c"
    "List.find (\<lambda>p. sf_id p = mc_profile_id c) profiles = Some p"
    using assms(1) by (auto simp: suno_select_profile_def Let_def bind_eq_Some_conv suno_candidates_def)
  have m: "c \<in> set (suno_candidates profiles now excluded reserve) \<and> mc_hard c = None
    \<and> (mc_soft c = None \<or> (\<forall>d\<in>set (suno_candidates profiles now excluded reserve). \<not> axis_is_eligible d))"
    using two_pass_Some [OF c(1) suno_candidates_short [OF assms(3)]] .
  then obtain q where q: "q \<in> set profiles" "sf_id q \<notin> excluded" "suno_candidate q now reserve = Some c"
    using suno_candidates_set by blast
  have "mc_profile_id c = sf_id q" by (rule suno_candidate_id [OF q(3)])
  then have "p = q" using c(2) find_id [OF assms(2) q(1)] by simp
  then show ?thesis using m q by blast
qed

lemma suno_select_None:
  assumes "suno_select_profile profiles now cursor excluded reserve = None" "length profiles < 2 ^ 64"
  shows "list_all (\<lambda>p. sf_id p \<in> excluded \<or> (case suno_candidate p now reserve of
    None \<Rightarrow> True | Some c \<Rightarrow> mc_hard c \<noteq> None)) profiles"
proof -
  let ?cs = "suno_candidates profiles now excluded reserve"
  have "two_pass ?cs cursor = None"
  proof (rule ccontr)
    assume "two_pass ?cs cursor \<noteq> None"
    then obtain c where c: "two_pass ?cs cursor = Some c" by blast
    then obtain q where q: "q \<in> set profiles" "suno_candidate q now reserve = Some c"
      using two_pass_Some [OF c suno_candidates_short [OF assms(2)]] suno_candidates_set by metis
    then have "List.find (\<lambda>p. sf_id p = mc_profile_id c) profiles \<noteq> None"
      using suno_candidate_id by (auto simp: find_None_iff)
    then show False using assms(1) c by (simp add: suno_select_profile_def Let_def suno_candidates_def)
  qed
  then have "\<forall>c\<in>set ?cs. \<not> axis_is_hard_eligible c" by (simp add: two_pass_None filter_empty_conv)
  then have "mc_hard c \<noteq> None" if "p \<in> set profiles" "sf_id p \<notin> excluded" "suno_candidate p now reserve = Some c" for p c
    using that suno_candidates_set unfolding axis_is_hard_eligible_def by blast
  then show ?thesis by (simp add: list_all_iff split: option.splits) blast
qed

definition tripo3d_candidates ::
    "tripo3d_runtime_profile list \<Rightarrow> i64 \<Rightarrow> string set \<Rightarrow> i64 \<Rightarrow> (tripo3d_hard, tripo3d_soft) axis_candidate list" where
  "tripo3d_candidates profiles now excluded reserve =
     map (\<lambda>p. tripo3d_candidate p now reserve) (filter (\<lambda>p. tf_id p \<notin> excluded) profiles)"

lemma tripo3d_select_Some:
  assumes "tripo3d_select_profile profiles now cursor excluded sticky reserve = Some p"
    and "distinct (map tf_id profiles)" "length profiles < 2 ^ 64"
  shows "p \<in> set profiles \<and> tf_id p \<notin> excluded \<and> mc_hard (tripo3d_candidate p now reserve) = None
    \<and> (if sticky = None then mc_soft (tripo3d_candidate p now reserve) = None
         \<or> (\<forall>d\<in>set (tripo3d_candidates profiles now excluded reserve). \<not> axis_is_eligible d)
       else sticky = Some (tf_id p))"
proof -
  let ?cs = "tripo3d_candidates profiles now excluded reserve"
  have same: "p = q" if "List.find (\<lambda>p. tf_id p = tf_id q) profiles = Some p" "q \<in> set profiles" for q
    using that find_id [OF assms(2)] by simp
  show ?thesis
  proof (cases sticky)
    case None
    obtain c where c: "two_pass ?cs cursor = Some c" "List.find (\<lambda>p. tf_id p = mc_profile_id c) profiles = Some p"
      using assms(1) None by (auto simp: tripo3d_select_profile_def Let_def bind_eq_Some_conv tripo3d_candidates_def)
    have "length ?cs < 2 ^ 64" using filter_short [OF assms(3)] by (simp add: tripo3d_candidates_def)
    then have m: "c \<in> set ?cs \<and> mc_hard c = None \<and> (mc_soft c = None \<or> (\<forall>d\<in>set ?cs. \<not> axis_is_eligible d))"
      by (rule two_pass_Some [OF c(1)])
    then obtain q where "q \<in> set profiles" "tf_id q \<notin> excluded" "c = tripo3d_candidate q now reserve"
      by (auto simp: tripo3d_candidates_def)
    moreover from this have "p = q" using c(2) by (intro same) simp_all
    ultimately show ?thesis using m None by simp
  next
    case (Some i)
    obtain c where c: "List.find (\<lambda>c. mc_profile_id c = i \<and> mc_hard c = None) ?cs = Some c"
      "List.find (\<lambda>p. tf_id p = mc_profile_id c) profiles = Some p"
      using assms(1) Some by (auto simp: tripo3d_select_profile_def Let_def bind_eq_Some_conv tripo3d_candidates_def)
    have m: "c \<in> set ?cs" "mc_profile_id c = i" "mc_hard c = None" using find_Some_mem [OF c(1)] by simp_all
    from m(1) obtain q where q: "q \<in> set profiles" "tf_id q \<notin> excluded" "c = tripo3d_candidate q now reserve"
      unfolding tripo3d_candidates_def by auto
    have "List.find (\<lambda>p. tf_id p = tf_id q) profiles = Some p" using c(2) q(3) by simp
    then have "p = q" using q(1) by (rule same)
    then show ?thesis using q m(2,3) Some by simp
  qed
qed

lemma tripo3d_select_None:
  assumes "tripo3d_select_profile profiles now cursor excluded None reserve = None" "length profiles < 2 ^ 64"
  shows "list_all (\<lambda>p. tf_id p \<in> excluded \<or> mc_hard (tripo3d_candidate p now reserve) \<noteq> None) profiles"
proof -
  let ?cs = "tripo3d_candidates profiles now excluded reserve"
  have len: "length ?cs < 2 ^ 64" using filter_short [OF assms(2)] by (simp add: tripo3d_candidates_def)
  have "two_pass ?cs cursor = None"
  proof (rule ccontr)
    assume "two_pass ?cs cursor \<noteq> None"
    then obtain c where c: "two_pass ?cs cursor = Some c" by blast
    then obtain q where q: "q \<in> set profiles" "c = tripo3d_candidate q now reserve"
      using two_pass_Some [OF c len] by (auto simp: tripo3d_candidates_def)
    then have "List.find (\<lambda>p. tf_id p = mc_profile_id c) profiles \<noteq> None" by (auto simp: find_None_iff)
    then show False using assms(1) c by (simp add: tripo3d_select_profile_def Let_def tripo3d_candidates_def)
  qed
  then have "\<forall>c\<in>set ?cs. \<not> axis_is_hard_eligible c" by (simp add: two_pass_None filter_empty_conv)
  then show ?thesis by (auto simp: list_all_iff tripo3d_candidates_def axis_is_hard_eligible_def)
qed

section \<open>Decisions\<close>

lemma rotate_or_stop_law:
  assumes "md_next (rotate_or_stop spends e p n) = CreateRotate"
  shows "0 < n"
    and "spends \<Longrightarrow> unat (cp_transport_budget p) = Suc (unat (cp_transport_budget (md_policy (rotate_or_stop spends e p n))))
      \<and> 0 < unat (cp_transport_budget (md_policy (rotate_or_stop spends e p n)))"
    and "\<not> spends \<Longrightarrow> unat (cp_transport_budget (md_policy (rotate_or_stop spends e p n))) = unat (cp_transport_budget p)"
proof -
  show "0 < n" using assms by (auto simp: rotate_or_stop_def Let_def split: if_splits)
  show "unat (cp_transport_budget p) = Suc (unat (cp_transport_budget (md_policy (rotate_or_stop spends e p n))))
      \<and> 0 < unat (cp_transport_budget (md_policy (rotate_or_stop spends e p n)))" if spends
    using assms that spend_one [of "cp_transport_budget p"]
    by (auto simp: rotate_or_stop_def Let_def split: if_splits)
  show "unat (cp_transport_budget (md_policy (rotate_or_stop spends e p n))) = unat (cp_transport_budget p)" if "\<not> spends"
    using that by (auto simp: rotate_or_stop_def Let_def)
qed

lemma suno_decide_rotate:
  assumes "md_next (suno_decide v d p n) = CreateRotate"
  shows "d = BeforeCreate" "suno_decide v d p n
    = rotate_or_stop (suno_spends_transport_budget v) (suno_effect_for v) p n"
  using assms by (auto simp: suno_decide_def split: if_splits) (cases d, simp_all)

lemma tripo3d_decide_rotate:
  assumes "md_next (tripo3d_decide v d p n) = CreateRotate"
  shows "d = BeforeCreate" "tripo3d_decide v d p n
    = rotate_or_stop (tripo3d_spends_transport_budget v) (tripo3d_effect_for v) p n"
  using assms by (auto simp: tripo3d_decide_def split: if_splits) (cases d, simp_all)

interpretation suno_attempts: attempt_policy
  "\<lambda>v d p n. if md_next (suno_decide v d p n) = CreateRotate then Some (md_policy (suno_decide v d p n)) else None"
  suno_spends_transport_budget "\<lambda>p. unat (cp_transport_budget p)" "\<lambda>d. d = BeforeCreate"
proof
  fix v d p n p'
  assume "(if md_next (suno_decide v d p n) = CreateRotate then Some (md_policy (suno_decide v d p n)) else None) = Some p'"
  then have r: "md_next (suno_decide v d p n) = CreateRotate" "p' = md_policy (suno_decide v d p n)"
    by (simp_all split: if_splits)
  show "d = BeforeCreate" by (rule suno_decide_rotate(1) [OF r(1)])
  note eq = suno_decide_rotate(2) [OF r(1)]
  have rot: "md_next (rotate_or_stop (suno_spends_transport_budget v) (suno_effect_for v) p n) = CreateRotate"
    using r(1) unfolding eq .
  show "0 < n" by (rule rotate_or_stop_law(1) [OF rot])
  show "unat (cp_transport_budget p) = Suc (unat (cp_transport_budget p')) \<and> 0 < unat (cp_transport_budget p')"
    if "suno_spends_transport_budget v" using rotate_or_stop_law(2) [OF rot that] r(2) unfolding eq by simp
  show "unat (cp_transport_budget p') = unat (cp_transport_budget p)" if "\<not> suno_spends_transport_budget v"
    using rotate_or_stop_law(3) [OF rot that] r(2) unfolding eq by simp
qed

interpretation tripo3d_attempts: attempt_policy
  "\<lambda>v d p n. if md_next (tripo3d_decide v d p n) = CreateRotate then Some (md_policy (tripo3d_decide v d p n)) else None"
  tripo3d_spends_transport_budget "\<lambda>p. unat (cp_transport_budget p)" "\<lambda>d. d = BeforeCreate"
proof
  fix v d p n p'
  assume "(if md_next (tripo3d_decide v d p n) = CreateRotate then Some (md_policy (tripo3d_decide v d p n)) else None) = Some p'"
  then have r: "md_next (tripo3d_decide v d p n) = CreateRotate" "p' = md_policy (tripo3d_decide v d p n)"
    by (simp_all split: if_splits)
  show "d = BeforeCreate" by (rule tripo3d_decide_rotate(1) [OF r(1)])
  note eq = tripo3d_decide_rotate(2) [OF r(1)]
  have rot: "md_next (rotate_or_stop (tripo3d_spends_transport_budget v) (tripo3d_effect_for v) p n) = CreateRotate"
    using r(1) unfolding eq .
  show "0 < n" by (rule rotate_or_stop_law(1) [OF rot])
  show "unat (cp_transport_budget p) = Suc (unat (cp_transport_budget p')) \<and> 0 < unat (cp_transport_budget p')"
    if "tripo3d_spends_transport_budget v" using rotate_or_stop_law(2) [OF rot that] r(2) unfolding eq by simp
  show "unat (cp_transport_budget p') = unat (cp_transport_budget p)" if "\<not> tripo3d_spends_transport_budget v"
    using rotate_or_stop_law(3) [OF rot that] r(2) unfolding eq by simp
qed

text \<open>The attempts charged to the transport budget.\<close>

definition suno_charge :: "suno_attempt \<Rightarrow> nat" where
  "suno_charge a = (if fst (snd a) = SunoTransportFault then 1 else 0)"

definition tripo3d_charge :: "tripo3d_attempt \<Rightarrow> nat" where
  "tripo3d_charge a = (if fst (snd a) = TripoTransportFault then 1 else 0)"

text \<open>What an attempt left at the provider. It was refused when no creation call was sent or the provider
  answered with a refusal; otherwise something may exist there. The provider acknowledged it when it
  answered with ids; without an acknowledgement nobody knows: the call or the reading of its answer
  failed, or the answer is a fault of the server or not understood.\<close>

abbreviation attempt_call :: "string \<times> 'e \<times> i64 \<times> i64 option \<times> 'c \<Rightarrow> 'c" where
  "attempt_call a \<equiv> snd (snd (snd (snd a)))"

definition suno_refused :: "suno_attempt \<Rightarrow> bool" where
  "suno_refused a = (case attempt_call a of
      None \<Rightarrow> True
    | Some (SunoParsed _ _ (Inl verdict)) \<Rightarrow>
        verdict \<in> {SunoRateLimitedHard, SunoQuotaExhausted, SunoAuthRefused, SunoCaptchaRequired, SunoClientError}
    | Some _ \<Rightarrow> False)"

definition suno_acknowledged :: "suno_attempt \<Rightarrow> bool" where
  "suno_acknowledged a = (case attempt_call a of Some (SunoParsed _ _ (Inr _)) \<Rightarrow> True | _ \<Rightarrow> False)"

definition suno_unknown :: "suno_attempt \<Rightarrow> bool" where
  "suno_unknown a \<longleftrightarrow> \<not> suno_refused a \<and> \<not> suno_acknowledged a"

definition tripo3d_refused :: "tripo3d_attempt \<Rightarrow> bool" where
  "tripo3d_refused a = (case attempt_call a of
      TripoParsed _ _ (Inl verdict) \<Rightarrow>
        verdict \<in> {TripoRateLimitedHard, TripoInsufficientBalance, TripoAuthRefused, TripoClientError}
    | _ \<Rightarrow> False)"

definition tripo3d_acknowledged :: "tripo3d_attempt \<Rightarrow> bool" where
  "tripo3d_acknowledged a = (case attempt_call a of TripoParsed _ _ (Inr _) \<Rightarrow> True | _ \<Rightarrow> False)"

definition tripo3d_unknown :: "tripo3d_attempt \<Rightarrow> bool" where
  "tripo3d_unknown a \<longleftrightarrow> \<not> tripo3d_refused a \<and> \<not> tripo3d_acknowledged a"

text \<open>An answer that arrived and could not be read.\<close>

definition tripo3d_unread :: "tripo3d_attempt \<Rightarrow> bool" where
  "tripo3d_unread a = (case attempt_call a of TripoBodyUnread _ _ \<Rightarrow> True | _ \<Rightarrow> False)"

text \<open>The attempts the loops move past: refused ones, and unknown ones that are charged to the transport
  budget, for Tripo3D never one whose answer arrived and could not be read.\<close>

definition suno_passable :: "suno_attempt \<Rightarrow> bool" where
  "suno_passable a \<longleftrightarrow> suno_refused a \<or> suno_unknown a \<and> suno_charge a = 1"

definition tripo3d_passable :: "tripo3d_attempt \<Rightarrow> bool" where
  "tripo3d_passable a \<longleftrightarrow> tripo3d_refused a \<or> tripo3d_unknown a \<and> tripo3d_charge a = 1 \<and> \<not> tripo3d_unread a"

lemma rotate_or_stop_effect [simp]: "md_effect (rotate_or_stop spends e p n) = e"
  by (simp add: rotate_or_stop_def Let_def)

lemma suno_effect_transport:
  "md_effect (suno_decide v BeforeCreate p n) = SunoTransportFault \<longleftrightarrow> suno_spends_transport_budget v"
  by (cases v) (simp_all add: suno_decide_def suno_effect_for_def suno_may_rotate_def suno_spends_transport_budget_def)

lemma tripo3d_effect_transport:
  "md_effect (tripo3d_decide v BeforeCreate p n) = TripoTransportFault \<longleftrightarrow> tripo3d_spends_transport_budget v"
  by (cases v)
    (simp_all add: tripo3d_decide_def tripo3d_effect_for_def tripo3d_may_rotate_def tripo3d_spends_transport_budget_def)

lemma suno_rotate_budget:
  assumes "md_next (suno_decide v BeforeCreate p n) = CreateRotate" "0 < unat (cp_transport_budget p)"
  shows "unat (cp_transport_budget p) = unat (cp_transport_budget (md_policy (suno_decide v BeforeCreate p n)))
      + (if suno_spends_transport_budget v then 1 else 0)
    \<and> 0 < unat (cp_transport_budget (md_policy (suno_decide v BeforeCreate p n)))"
  using suno_attempts.rotates_spend [of v BeforeCreate p n] suno_attempts.rotates_keep [of v BeforeCreate p n] assms
  by (cases "suno_spends_transport_budget v") auto

lemma tripo3d_rotate_budget:
  assumes "md_next (tripo3d_decide v BeforeCreate p n) = CreateRotate" "0 < unat (cp_transport_budget p)"
  shows "unat (cp_transport_budget p) = unat (cp_transport_budget (md_policy (tripo3d_decide v BeforeCreate p n)))
      + (if tripo3d_spends_transport_budget v then 1 else 0)
    \<and> 0 < unat (cp_transport_budget (md_policy (tripo3d_decide v BeforeCreate p n)))"
  using tripo3d_attempts.rotates_spend [of v BeforeCreate p n] tripo3d_attempts.rotates_keep [of v BeforeCreate p n] assms
  by (cases "tripo3d_spends_transport_budget v") auto

section \<open>The creation loops\<close>

definition suno_round_ok :: "string set \<Rightarrow> suno_round \<Rightarrow> bool" where
  "suno_round_ok roster r \<longleftrightarrow>
     sf_id ` set (sr_profiles r) \<subseteq> roster \<and> distinct (map sf_id (sr_profiles r)) \<and> length (sr_profiles r) < 2 ^ 64"

definition tripo3d_round_ok :: "string set \<Rightarrow> tripo3d_round \<Rightarrow> bool" where
  "tripo3d_round_ok roster r \<longleftrightarrow>
     tf_id ` set (tr3_profiles r) \<subseteq> roster \<and> distinct (map tf_id (tr3_profiles r)) \<and> length (tr3_profiles r) < 2 ^ 64"

text \<open>The verdict a round decides over, as far as the creation call determines it.\<close>

definition suno_call_verdict :: "suno_create_answer option \<Rightarrow> suno_verdict \<Rightarrow> bool" where
  "suno_call_verdict call v \<longleftrightarrow> (case call of
      None \<Rightarrow> True
    | Some (SunoParsed _ _ (Inl verdict)) \<Rightarrow> v = verdict
    | Some (SunoParsed _ _ (Inr _)) \<Rightarrow> False
    | Some _ \<Rightarrow> v = SunoTransport)"

lemma precheck_verdict:
  assumes "precheck_and_create r = SunoRefused v retry status"
  shows "suno_call_verdict (suno_create_call r) v"
  using assms
  by (auto simp: precheck_and_create_def suno_create_call_def suno_call_verdict_def suno_send_create_def Let_def
      split: option.splits sum.splits if_splits suno_create_answer.splits)

definition tripo3d_call_verdict :: "tripo3d_answer \<Rightarrow> tripo3d_verdict \<Rightarrow> bool" where
  "tripo3d_call_verdict answer v \<longleftrightarrow> (case answer of
      TripoSendFailed _ \<Rightarrow> v = TripoTransport
    | TripoBodyUnread _ _ \<Rightarrow> False
    | TripoParsed _ _ (Inl verdict) \<Rightarrow> v = verdict
    | TripoParsed _ _ (Inr _) \<Rightarrow> False)"

text \<open>A round that tried a profile: it selected it, and it either decided over a verdict or ended the
  loop.\<close>

lemma suno_step_cases:
  assumes "suno_step reserve r ex p = (s, attempts)" "attempts \<noteq> []"
  obtains profile v n t retry where
    "suno_select_profile (sr_profiles r) (sr_select_now r) (sr_cursor r) ex reserve = Some profile"
    "attempts = [(sf_id profile, md_effect (suno_decide v BeforeCreate p n), t, retry, suno_create_call r)]"
    "suno_call_verdict (suno_create_call r) v"
    "s = Go (sf_id profile) (md_policy (suno_decide v BeforeCreate p n)) \<and> md_next (suno_decide v BeforeCreate p n) = CreateRotate
      \<or> (\<exists>outcome. s = Stop outcome)"
  | profile t where
    "suno_select_profile (sr_profiles r) (sr_select_now r) (sr_cursor r) ex reserve = Some profile"
    "attempts = [(sf_id profile, SunoNoEffect, t, None, suno_create_call r)]" "\<exists>outcome. s = Stop outcome"
proof -
  obtain profile where sel:
    "suno_select_profile (sr_profiles r) (sr_select_now r) (sr_cursor r) ex reserve = Some profile"
    using assms by (auto simp: suno_step_def split: option.splits)
  define n where "n = suno_remaining_count (sr_count_profiles r) (sr_count_now r) ex (sf_id profile) reserve"
  show ?thesis
  proof (cases "precheck_and_create r")
    case (SunoCreated ids baseline)
    then show ?thesis using assms(1) sel that(2) [OF sel, of "sr_effect_now r"] by (auto simp: suno_step_def)
  next
    case (SunoRefused v retry status)
    then have "suno_call_verdict (suno_create_call r) v" by (rule precheck_verdict)
    then show ?thesis
      using SunoRefused assms(1) sel that(1) [OF sel, of v n "sr_effect_now r" retry]
      by (cases "md_next (suno_decide v BeforeCreate p n)") (auto simp: suno_step_def Let_def n_def [symmetric])
  qed
qed

lemma tripo3d_step_cases:
  assumes "tripo3d_step sticky reserve r ex p = (s, attempts)" "attempts \<noteq> []"
  obtains profile v n t retry where
    "tripo3d_select_profile (tr3_profiles r) (tr3_select_now r) (tr3_cursor r) ex sticky reserve = Some profile"
    "attempts = [(tf_id profile, md_effect (tripo3d_decide v BeforeCreate p n), t, retry, tr3_answer r)]"
    "tripo3d_call_verdict (tr3_answer r) v"
    "s = Go (tf_id profile) (md_policy (tripo3d_decide v BeforeCreate p n)) \<and> md_next (tripo3d_decide v BeforeCreate p n) = CreateRotate
      \<or> (\<exists>outcome. s = Stop outcome)"
  | profile t where
    "tripo3d_select_profile (tr3_profiles r) (tr3_select_now r) (tr3_cursor r) ex sticky reserve = Some profile"
    "attempts = [(tf_id profile, TripoNoEffect, t, None, tr3_answer r)]" "\<exists>outcome. s = Stop outcome"
proof -
  obtain profile where sel:
    "tripo3d_select_profile (tr3_profiles r) (tr3_select_now r) (tr3_cursor r) ex sticky reserve = Some profile"
    using assms by (auto simp: tripo3d_step_def split: option.splits)
  define n where "n = tripo3d_remaining_count (tr3_count_profiles r) (tr3_count_now r) ex (tf_id profile) reserve"
  show ?thesis
  proof (cases "tr3_answer r")
    case (TripoSendFailed failure)
    then show ?thesis
      using assms(1) sel that(1) [OF sel, of TripoTransport n "tr3_effect_now r" None]
      by (auto simp: tripo3d_step_def tripo3d_call_verdict_def Let_def n_def [symmetric] split: if_splits)
  next
    case (TripoBodyUnread status failure)
    then show ?thesis
      using assms(1) sel that(2) [OF sel, of "tr3_effect_now r"] by (auto simp: tripo3d_step_def Let_def)
  next
    case (TripoParsed status retry parsed)
    show ?thesis
    proof (cases parsed)
      case (Inr task)
      then show ?thesis
        using assms(1) sel TripoParsed that(2) [OF sel, of "tr3_effect_now r"]
        by (auto simp: tripo3d_step_def Let_def)
    next
      case (Inl v)
      then show ?thesis
        using assms(1) sel TripoParsed that(1) [OF sel, of v n "tr3_effect_now r" retry]
        by (cases "md_next (tripo3d_decide v BeforeCreate p n)")
          (auto simp: tripo3d_step_def tripo3d_call_verdict_def Let_def n_def [symmetric])
    qed
  qed
qed

lemma suno_round_selects:
  assumes "suno_select_profile (sr_profiles r) now cursor ex reserve = Some profile" "suno_round_ok roster r"
  shows "sf_id profile \<in> roster - ex"
  using suno_select_Some [OF assms(1)] assms(2) by (auto simp: suno_round_ok_def)

lemma tripo3d_round_selects:
  assumes "tripo3d_select_profile (tr3_profiles r) now cursor ex sticky reserve = Some profile" "tripo3d_round_ok roster r"
  shows "tf_id profile \<in> roster - ex"
  using tripo3d_select_Some [OF assms(1)] assms(2) by (auto simp: tripo3d_round_ok_def)

text \<open>A round rotates over a refusal or over a charged fault of the transport.\<close>

lemma suno_rotate_passable:
  assumes "md_next (suno_decide v BeforeCreate p n) = CreateRotate" "suno_call_verdict call v"
  shows "suno_passable (i, md_effect (suno_decide v BeforeCreate p n), t, retry, call)"
proof -
  have v: "v \<in> {SunoRateLimitedHard, SunoQuotaExhausted, SunoAuthRefused, SunoCaptchaRequired, SunoTransport}"
    using assms(1) by (cases v) (simp_all add: suno_decide_def suno_may_rotate_def)
  have "suno_charge (i, md_effect (suno_decide v BeforeCreate p n), t, retry, call) = (if v = SunoTransport then 1 else 0)"
    by (simp add: suno_charge_def suno_effect_transport suno_spends_transport_budget_def)
  then show ?thesis
    using v assms(2)
    by (auto simp: suno_passable_def suno_refused_def suno_unknown_def suno_acknowledged_def suno_call_verdict_def
        split: option.splits suno_create_answer.splits sum.splits)
qed

lemma tripo3d_rotate_passable:
  assumes "md_next (tripo3d_decide v BeforeCreate p n) = CreateRotate" "tripo3d_call_verdict call v"
  shows "tripo3d_passable (i, md_effect (tripo3d_decide v BeforeCreate p n), t, retry, call)"
proof -
  have v: "v \<in> {TripoRateLimitedHard, TripoInsufficientBalance, TripoAuthRefused, TripoTransport}"
    using assms(1) by (cases v) (simp_all add: tripo3d_decide_def tripo3d_may_rotate_def)
  have "tripo3d_charge (i, md_effect (tripo3d_decide v BeforeCreate p n), t, retry, call) = (if v = TripoTransport then 1 else 0)"
    by (simp add: tripo3d_charge_def tripo3d_effect_transport tripo3d_spends_transport_budget_def)
  then show ?thesis
    using v assms(2)
    by (auto simp: tripo3d_passable_def tripo3d_refused_def tripo3d_unknown_def tripo3d_acknowledged_def
        tripo3d_unread_def tripo3d_call_verdict_def split: tripo3d_answer.splits sum.splits)
qed

interpretation suno_loop: creation_loop "suno_step reserve" roster "suno_round_ok roster" fst suno_charge
    "\<lambda>p. unat (cp_transport_budget p)" suno_passable for reserve roster
proof
  fix r ex p attempts and outcome :: suno_outcome
  assume s: "suno_step reserve r ex p = (Stop outcome, attempts)" and ok: "suno_round_ok roster r"
    and p: "0 < unat (cp_transport_budget p)"
  show "attempts = [] \<or> (\<exists>a. attempts = [a] \<and> fst a \<in> roster - ex \<and> suno_charge a \<le> unat (cp_transport_budget p))"
  proof (cases "attempts = []")
    case False
    from s False show ?thesis
      by (rule suno_step_cases) (use p ok in \<open>auto simp: suno_charge_def dest!: suno_round_selects\<close>)
  qed simp
next
  fix r ex p i p' attempts
  assume s: "suno_step reserve r ex p = (Go i p', attempts)" and ok: "suno_round_ok roster r"
    and p: "0 < unat (cp_transport_budget p)"
  have "attempts \<noteq> []" using s by (auto simp: suno_step_def Let_def split: option.splits suno_create_outcome.splits)
  with s show "\<exists>a. attempts = [a] \<and> fst a = i \<and> i \<in> roster - ex
      \<and> unat (cp_transport_budget p) = unat (cp_transport_budget p') + suno_charge a \<and> 0 < unat (cp_transport_budget p')"
  proof (rule suno_step_cases)
    fix profile v n t retry
    assume sel: "suno_select_profile (sr_profiles r) (sr_select_now r) (sr_cursor r) ex reserve = Some profile"
      and a: "attempts = [(sf_id profile, md_effect (suno_decide v BeforeCreate p n), t, retry, suno_create_call r)]"
      and "Go i p' = Go (sf_id profile) (md_policy (suno_decide v BeforeCreate p n))
          \<and> md_next (suno_decide v BeforeCreate p n) = CreateRotate \<or> (\<exists>outcome. Go i p' = Stop outcome)"
    then have "i = sf_id profile" "p' = md_policy (suno_decide v BeforeCreate p n)"
      "md_next (suno_decide v BeforeCreate p n) = CreateRotate" by auto
    then show ?thesis
      using a suno_rotate_budget [OF _ p] suno_round_selects [OF sel ok] by (simp add: suno_charge_def suno_effect_transport)
  qed auto
next
  fix r ex p i p' attempts
  assume s: "suno_step reserve r ex p = (Go i p', attempts)"
  have "attempts \<noteq> []" using s by (auto simp: suno_step_def Let_def split: option.splits suno_create_outcome.splits)
  with s show "list_all suno_passable attempts"
    by (rule suno_step_cases) (auto intro: suno_rotate_passable)
next
  fix r ex p attempts and outcome :: suno_outcome
  assume s: "suno_step reserve r ex p = (Stop outcome, attempts)"
  show "length attempts \<le> 1"
    by (cases "attempts = []") (use s in \<open>auto elim: suno_step_cases\<close>)
qed

interpretation tripo3d_loop: creation_loop "tripo3d_step sticky reserve" roster "tripo3d_round_ok roster" fst tripo3d_charge
    "\<lambda>p. unat (cp_transport_budget p)" tripo3d_passable for sticky reserve roster
proof
  fix r ex p attempts and outcome :: tripo3d_outcome
  assume s: "tripo3d_step sticky reserve r ex p = (Stop outcome, attempts)" and ok: "tripo3d_round_ok roster r"
    and p: "0 < unat (cp_transport_budget p)"
  show "attempts = [] \<or> (\<exists>a. attempts = [a] \<and> fst a \<in> roster - ex \<and> tripo3d_charge a \<le> unat (cp_transport_budget p))"
  proof (cases "attempts = []")
    case False
    from s False show ?thesis
      by (rule tripo3d_step_cases) (use p ok in \<open>auto simp: tripo3d_charge_def dest!: tripo3d_round_selects\<close>)
  qed simp
next
  fix r ex p i p' attempts
  assume s: "tripo3d_step sticky reserve r ex p = (Go i p', attempts)" and ok: "tripo3d_round_ok roster r"
    and p: "0 < unat (cp_transport_budget p)"
  have "attempts \<noteq> []"
    using s by (auto simp: tripo3d_step_def Let_def split: option.splits tripo3d_answer.splits sum.splits)
  with s show "\<exists>a. attempts = [a] \<and> fst a = i \<and> i \<in> roster - ex
      \<and> unat (cp_transport_budget p) = unat (cp_transport_budget p') + tripo3d_charge a \<and> 0 < unat (cp_transport_budget p')"
  proof (rule tripo3d_step_cases)
    fix profile v n t retry
    assume sel: "tripo3d_select_profile (tr3_profiles r) (tr3_select_now r) (tr3_cursor r) ex sticky reserve = Some profile"
      and a: "attempts = [(tf_id profile, md_effect (tripo3d_decide v BeforeCreate p n), t, retry, tr3_answer r)]"
      and "Go i p' = Go (tf_id profile) (md_policy (tripo3d_decide v BeforeCreate p n))
          \<and> md_next (tripo3d_decide v BeforeCreate p n) = CreateRotate \<or> (\<exists>outcome. Go i p' = Stop outcome)"
    then have "i = tf_id profile" "p' = md_policy (tripo3d_decide v BeforeCreate p n)"
      "md_next (tripo3d_decide v BeforeCreate p n) = CreateRotate" by auto
    then show ?thesis
      using a tripo3d_rotate_budget [OF _ p] tripo3d_round_selects [OF sel ok]
      by (simp add: tripo3d_charge_def tripo3d_effect_transport)
  qed auto
next
  fix r ex p i p' attempts
  assume s: "tripo3d_step sticky reserve r ex p = (Go i p', attempts)"
  have "attempts \<noteq> []"
    using s by (auto simp: tripo3d_step_def Let_def split: option.splits tripo3d_answer.splits sum.splits)
  with s show "list_all tripo3d_passable attempts"
    by (rule tripo3d_step_cases) (auto intro: tripo3d_rotate_passable)
next
  fix r ex p attempts and outcome :: tripo3d_outcome
  assume s: "tripo3d_step sticky reserve r ex p = (Stop outcome, attempts)"
  show "length attempts \<le> 1"
    by (cases "attempts = []") (use s in \<open>auto elim: tripo3d_step_cases\<close>)
qed

section \<open>Health over time\<close>

text \<open>What can happen to the health of a profile, and the evidence about money it carries: a verdict
  that the quota or the balance is exhausted, or a probe that proves what is left.\<close>

datatype suno_event =
    SunoEffectEvent suno_effect i64 "i64 option"
  | SunoSuccessEvent
  | SunoQuotaEvent billing_snapshot i64

definition suno_event_health :: "suno_event \<Rightarrow> suno_profile_health \<Rightarrow> suno_profile_health" where
  "suno_event_health e =
     (case e of
        SunoEffectEvent effect now retry \<Rightarrow> suno_apply_effect effect now retry
      | SunoSuccessEvent \<Rightarrow> mark_generation_success
      | SunoQuotaEvent snapshot now \<Rightarrow> suno_publish_quota snapshot now)"

definition suno_money_evidence :: "suno_event \<Rightarrow> bool option" where
  "suno_money_evidence e =
     (case e of
        SunoEffectEvent effect now retry \<Rightarrow> if effect = SunoRestForQuota then Some True else None
      | SunoSuccessEvent \<Rightarrow> None
      | SunoQuotaEvent snapshot now \<Rightarrow>
          (case bs_total_credits_left snapshot of
             Some left \<Rightarrow> Some (left \<le> 0)
           | None \<Rightarrow>
               (case (bs_monthly_limit snapshot, bs_monthly_usage snapshot) of
                  (Some limit, Some used) \<Rightarrow> Some (sat_sub_i64 limit used \<le> 0)
                | _ \<Rightarrow> None)))"

datatype tripo3d_event =
    TripoEffectEvent tripo3d_effect i64 "i64 option"
  | TripoSuccessEvent
  | TripoBalanceEvent balance_snapshot_view i64

definition tripo3d_event_health :: "tripo3d_event \<Rightarrow> tripo3d_profile_health \<Rightarrow> tripo3d_profile_health" where
  "tripo3d_event_health e =
     (case e of
        TripoEffectEvent effect now retry \<Rightarrow> tripo3d_apply_effect effect now retry
      | TripoSuccessEvent \<Rightarrow> mark_task_success
      | TripoBalanceEvent snapshot now \<Rightarrow> publish_balance snapshot now)"

definition tripo3d_money_evidence :: "tripo3d_event \<Rightarrow> bool option" where
  "tripo3d_money_evidence e =
     (case e of
        TripoEffectEvent effect now retry \<Rightarrow> if effect = TripoRestForBalance then Some True else None
      | TripoSuccessEvent \<Rightarrow> None
      | TripoBalanceEvent snapshot now \<Rightarrow> if balance_shows_funds (bv_balance_raw snapshot) then Some False else None)"

definition last_evidence :: "('e \<Rightarrow> bool option) \<Rightarrow> 'e list \<Rightarrow> bool \<Rightarrow> bool" where
  "last_evidence evidence es b = last (b # List.map_filter evidence es)"

lemma last_evidence_fold:
  assumes "\<And>e h. wall (step e h) = (case evidence e of Some b \<Rightarrow> b | None \<Rightarrow> wall h)"
  shows "wall (fold step es h) = last_evidence evidence es (wall h)"
  by (induction es arbitrary: h)
    (auto simp: last_evidence_def List.map_filter_def assms split: option.splits)

lemma suno_wall_step:
  "sh_quota_walled (suno_event_health e h) = (case suno_money_evidence e of Some b \<Rightarrow> b | None \<Rightarrow> sh_quota_walled h)"
proof (cases e)
  case (SunoEffectEvent effect now retry)
  then show ?thesis
    by (cases effect) (simp_all add: suno_event_health_def suno_money_evidence_def suno_apply_effect_def Let_def)
next
  case (SunoQuotaEvent snapshot now)
  then show ?thesis
    by (auto simp: suno_event_health_def suno_money_evidence_def suno_publish_quota_def Let_def
        proven_remaining_credits_def mark_generation_success_def split: option.splits)
qed (simp add: suno_event_health_def suno_money_evidence_def mark_generation_success_def)

lemma tripo3d_wall_step:
  "th_balance_walled (tripo3d_event_health e h) = (case tripo3d_money_evidence e of Some b \<Rightarrow> b | None \<Rightarrow> th_balance_walled h)"
proof (cases e)
  case (TripoEffectEvent effect now retry)
  then show ?thesis
    by (cases effect) (simp_all add: tripo3d_event_health_def tripo3d_money_evidence_def tripo3d_apply_effect_def Let_def)
qed (simp_all add: tripo3d_event_health_def tripo3d_money_evidence_def publish_balance_def mark_task_success_def Let_def)

text \<open>A raw balance shows funds exactly when the decimal it denotes is positive.\<close>

lemma digits_value_append: "digits_value (xs @ [c]) = 10 * digits_value xs + digit_value c"
  by (simp add: digits_value_def)

lemma digit_zero: "is_ascii_digit c \<Longrightarrow> digit_value c = 0 \<longleftrightarrow> c = CHR ''0''"
proof -
  assume c: "is_ascii_digit c"
  have "(of_char (CHR ''0'') :: nat) = 48" by simp
  then have "c = CHR ''0'' \<longleftrightarrow> (of_char c :: nat) = 48" by (metis of_char_eq_iff)
  then show ?thesis using c by (auto simp: is_ascii_digit_def digit_value_def)
qed

lemma digits_positive:
  "list_all is_ascii_digit s \<Longrightarrow> 0 < digits_value s \<longleftrightarrow> list_ex (\<lambda>b. b \<noteq> CHR ''0'') s"
proof (induction s rule: rev_induct)
  case Nil
  then show ?case by (simp add: digits_value_def)
next
  case (snoc c s)
  then show ?case using digit_zero [of c] by (auto simp: digits_value_append)
qed

lemma digit_not_dot: "list_all is_ascii_digit s \<Longrightarrow> takeWhile (\<lambda>c. c \<noteq> CHR ''.'') (s @ r) = s @ takeWhile (\<lambda>c. c \<noteq> CHR ''.'') r
    \<and> dropWhile (\<lambda>c. c \<noteq> CHR ''.'') (s @ r) = dropWhile (\<lambda>c. c \<noteq> CHR ''.'') r"
  by (induction s) (auto simp: is_ascii_digit_def)

lemma shows_funds_decimal:
  assumes "i \<noteq> []" "list_all is_ascii_digit i" "list_all is_ascii_digit f"
  shows "balance_shows_funds (i @ CHR ''.'' # f) \<longleftrightarrow> 0 < digits_value (i @ f)"
    and "balance_shows_funds i \<longleftrightarrow> 0 < digits_value i"
proof -
  have "list_all is_ascii_digit (i @ f)" using assms by simp
  then have "0 < digits_value (i @ f) \<longleftrightarrow> list_ex (\<lambda>b. b \<noteq> CHR ''0'') (i @ f)" by (rule digits_positive)
  then show "balance_shows_funds (i @ CHR ''.'' # f) \<longleftrightarrow> 0 < digits_value (i @ f)"
    using assms by (simp add: balance_shows_funds_def split_once_dot_def Let_def digit_not_dot)
  have "takeWhile (\<lambda>c. c \<noteq> CHR ''.'') i = i" "dropWhile (\<lambda>c. c \<noteq> CHR ''.'') i = []"
    using digit_not_dot [OF assms(2), of "[]"] by (simp_all only: append_Nil2 takeWhile.simps dropWhile.simps)
  note whole = this
  show "balance_shows_funds i \<longleftrightarrow> 0 < digits_value i"
    unfolding balance_shows_funds_def split_once_dot_def whole Let_def
    using assms digits_positive [OF assms(2)] by simp
qed

section \<open>Properties\<close>

text \<open>C23: A money wall of a media profile is lifted by money only. After any sequence of attempts,
  successes and probes, a Suno profile rests for its quota, and a Tripo3D profile for its balance,
  exactly as the last evidence about money says: a verdict of exhaustion raises the wall, a probe
  that proves credits or a positive balance lifts it; no success, no passing of time and no probe
  without a proven amount changes it.\<close>

theorem money_walls_follow_the_last_evidence:
  "sh_quota_walled (fold suno_event_health ses sh) = last_evidence suno_money_evidence ses (sh_quota_walled sh)
    \<and> th_balance_walled (fold tripo3d_event_health tes th) = last_evidence tripo3d_money_evidence tes (th_balance_walled th)"
  using last_evidence_fold [of sh_quota_walled suno_event_health suno_money_evidence, OF suno_wall_step]
    last_evidence_fold [of th_balance_walled tripo3d_event_health tripo3d_money_evidence, OF tripo3d_wall_step]
  by blast

text \<open>C18: The request for a Suno generation always ends, and what it may leave at the provider is bounded.
  Whatever the session, the pre-check and the provider answer in each round, with a finite roster one
  round per profile and one more give an outcome; the attempts are on pairwise different profiles, and
  at most three of them were charged to the transport budget. The loop never moves on after the
  provider acknowledged a generation: every attempt before the last was refused (no creation call was
  sent, or the provider answered with a refusal), or its fate is unknown (the call or the reading of
  its answer failed, or the answer was a fault of the transport class) and it was charged to the
  transport budget. There are at
  most two of the latter, so a request leaves at most two unacknowledged generations besides the
  outcome of its last attempt.\<close>

theorem suno_create_ends:
  assumes "finite roster" "card roster < length rounds" "list_all (suno_round_ok roster) rounds"
  shows "\<exists>outcome attempts. suno_handle_create reserve rounds = (Some outcome, attempts)
    \<and> distinct (map fst attempts) \<and> fst ` set attempts \<subseteq> roster \<and> sum_list (map suno_charge attempts) \<le> 3
    \<and> list_all (\<lambda>a. suno_refused a \<or> suno_unknown a \<and> suno_charge a = 1) (butlast attempts)
    \<and> length (filter suno_unknown (butlast attempts)) \<le> 2"
proof -
  let ?run = "rotate_rounds (suno_step reserve) rounds {} create_policy_default"
  have "length (filter suno_unknown (butlast (snd ?run))) < 3"
    using suno_loop.moves_counted [of roster rounds create_policy_default suno_unknown reserve "{}"] assms(3)
    by (simp add: create_policy_default_def suno_passable_def suno_unknown_def)
  then show ?thesis
    using suno_loop.loop_ends [of roster rounds "{}" create_policy_default reserve] assms
      suno_loop.moves_past [of reserve rounds "{}" create_policy_default]
    by (auto simp: suno_loop.bounded_run_def suno_handle_create_def create_policy_default_def suno_passable_def list_all_iff)
qed

definition example_suno_round :: "suno_create_answer \<Rightarrow> suno_round" where
  "example_suno_round answer =
     (let ps = [\<lparr>sf_id = ''suno-01'', sf_health = suno_profile_health_default, sf_inflight = 0\<rparr>,
            \<lparr>sf_id = ''suno-02'', sf_health = suno_profile_health_default, sf_inflight = 0\<rparr>]
      in \<lparr>sr_profiles = ps, sr_select_now = 100, sr_cursor = 0, sr_jwt = None, sr_captcha = Inr False,
          sr_quota = None, sr_inflight = 1, sr_epoch = 1, sr_create = answer, sr_count_profiles = ps,
          sr_count_now = 101, sr_effect_now = 102, sr_marked = True, sr_tracked = True\<rparr>)"

theorem suno_create_ends_witness:
  "\<exists>outcome attempts. suno_handle_create 10
      [example_suno_round (SunoParsed 429 (Some 160) (Inl SunoRateLimitedHard)),
       example_suno_round SunoSendFailed, example_suno_round (SunoParsed 200 None (Inr [''clip'']))]
      = (Some outcome, attempts)
    \<and> distinct (map fst attempts) \<and> fst ` set attempts \<subseteq> {''suno-01'', ''suno-02''}
    \<and> sum_list (map suno_charge attempts) \<le> 3
    \<and> list_all (\<lambda>a. suno_refused a \<or> suno_unknown a \<and> suno_charge a = 1) (butlast attempts)
    \<and> length (filter suno_unknown (butlast attempts)) \<le> 2"
  by (rule suno_create_ends) (simp_all add: example_suno_round_def suno_round_ok_def Let_def)

text \<open>C19: The request for a Tripo3D task always ends, and what it may leave at the provider is bounded:
  with a finite roster one round per profile and one more give an outcome, on pairwise different
  profiles, with at most three attempts charged to the transport budget. Every attempt before the last
  was refused by the provider, or its fate is unknown (the call failed without an answer, or the
  answer was a fault of the transport class) and it was charged to the transport budget; there are at
  most two of the latter. In particular the loop never moves on after an acknowledged task, and never
  after an answer that arrived and could not be read.\<close>

theorem tripo3d_create_ends:
  assumes "finite roster" "card roster < length rounds" "list_all (tripo3d_round_ok roster) rounds"
  shows "\<exists>outcome attempts. tripo3d_handle_create sticky reserve rounds = (Some outcome, attempts)
    \<and> distinct (map fst attempts) \<and> fst ` set attempts \<subseteq> roster \<and> sum_list (map tripo3d_charge attempts) \<le> 3
    \<and> list_all (\<lambda>a. tripo3d_refused a \<or> tripo3d_unknown a \<and> tripo3d_charge a = 1 \<and> \<not> tripo3d_unread a)
        (butlast attempts)
    \<and> length (filter tripo3d_unknown (butlast attempts)) \<le> 2"
proof -
  let ?run = "rotate_rounds (tripo3d_step sticky reserve) rounds {} create_policy_default"
  have "length (filter tripo3d_unknown (butlast (snd ?run))) < 3"
    using tripo3d_loop.moves_counted [of roster rounds create_policy_default tripo3d_unknown sticky reserve "{}"] assms(3)
    by (simp add: create_policy_default_def tripo3d_passable_def tripo3d_unknown_def)
  then show ?thesis
    using tripo3d_loop.loop_ends [of roster rounds "{}" create_policy_default sticky reserve] assms
      tripo3d_loop.moves_past [of sticky reserve rounds "{}" create_policy_default]
    by (auto simp: tripo3d_loop.bounded_run_def tripo3d_handle_create_def create_policy_default_def
        tripo3d_passable_def list_all_iff)
qed

definition example_tripo3d_round :: "tripo3d_answer \<Rightarrow> tripo3d_round" where
  "example_tripo3d_round answer =
     (let ps = [\<lparr>tf_id = ''tripo-01'', tf_health = tripo3d_profile_health_default, tf_inflight = 0\<rparr>,
            \<lparr>tf_id = ''tripo-02'', tf_health = tripo3d_profile_health_default, tf_inflight = 0\<rparr>]
      in \<lparr>tr3_profiles = ps, tr3_select_now = 100, tr3_cursor = 0, tr3_answer = answer, tr3_count_profiles = ps,
          tr3_count_now = 101, tr3_effect_now = 102, tr3_marked = True, tr3_tracked = True\<rparr>)"

theorem tripo3d_create_ends_witness:
  "\<exists>outcome attempts. tripo3d_handle_create None 10
      [example_tripo3d_round (TripoParsed 403 None (Inl TripoInsufficientBalance)),
       example_tripo3d_round (TripoSendFailed TripoFailTransport),
       example_tripo3d_round (TripoParsed 200 None (Inr ''task''))]
      = (Some outcome, attempts)
    \<and> distinct (map fst attempts) \<and> fst ` set attempts \<subseteq> {''tripo-01'', ''tripo-02''}
    \<and> sum_list (map tripo3d_charge attempts) \<le> 3
    \<and> list_all (\<lambda>a. tripo3d_refused a \<or> tripo3d_unknown a \<and> tripo3d_charge a = 1 \<and> \<not> tripo3d_unread a)
        (butlast attempts)
    \<and> length (filter tripo3d_unknown (butlast attempts)) \<le> 2"
  by (rule tripo3d_create_ends) (simp_all add: example_tripo3d_round_def tripo3d_round_ok_def Let_def)

text \<open>The soft axes of the media planes never empty the pool. A request is turned away only when a
  hard verdict of the provider, or for Suno the corroborated loss of the session, holds every
  remaining profile; and a profile on a soft axis is chosen only when no remaining profile is free
  of both axes.\<close>

lemma soft_axes_never_empty_the_pool:
  assumes "distinct (map sf_id sprofiles)" "length sprofiles < 2 ^ 64"
    and "distinct (map tf_id tprofiles)" "length tprofiles < 2 ^ 64"
  shows "(case suno_select_profile sprofiles now cursor excluded reserve of
      None \<Rightarrow> list_all (\<lambda>p. sf_id p \<in> excluded \<or> (case suno_candidate p now reserve of
          None \<Rightarrow> True | Some c \<Rightarrow> mc_hard c \<noteq> None)) sprofiles
    | Some p \<Rightarrow> p \<in> set sprofiles \<and> sf_id p \<notin> excluded
        \<and> (\<exists>c. suno_candidate p now reserve = Some c \<and> mc_hard c = None
          \<and> (mc_soft c = None \<or> list_all (\<lambda>d. \<not> axis_is_eligible d) (suno_candidates sprofiles now excluded reserve))))
    \<and> (case tripo3d_select_profile tprofiles now cursor excluded None reserve of
      None \<Rightarrow> list_all (\<lambda>p. tf_id p \<in> excluded \<or> mc_hard (tripo3d_candidate p now reserve) \<noteq> None) tprofiles
    | Some p \<Rightarrow> p \<in> set tprofiles \<and> tf_id p \<notin> excluded \<and> mc_hard (tripo3d_candidate p now reserve) = None
        \<and> (mc_soft (tripo3d_candidate p now reserve) = None
          \<or> list_all (\<lambda>d. \<not> axis_is_eligible d) (tripo3d_candidates tprofiles now excluded reserve)))"
proof (intro conjI)
  show "case suno_select_profile sprofiles now cursor excluded reserve of
      None \<Rightarrow> list_all (\<lambda>p. sf_id p \<in> excluded \<or> (case suno_candidate p now reserve of
          None \<Rightarrow> True | Some c \<Rightarrow> mc_hard c \<noteq> None)) sprofiles
    | Some p \<Rightarrow> p \<in> set sprofiles \<and> sf_id p \<notin> excluded
        \<and> (\<exists>c. suno_candidate p now reserve = Some c \<and> mc_hard c = None
          \<and> (mc_soft c = None \<or> list_all (\<lambda>d. \<not> axis_is_eligible d) (suno_candidates sprofiles now excluded reserve)))"
    using suno_select_None [OF _ assms(2)] suno_select_Some [OF _ assms(1,2)]
    by (cases "suno_select_profile sprofiles now cursor excluded reserve") (simp_all add: list_all_iff)
  show "case tripo3d_select_profile tprofiles now cursor excluded None reserve of
      None \<Rightarrow> list_all (\<lambda>p. tf_id p \<in> excluded \<or> mc_hard (tripo3d_candidate p now reserve) \<noteq> None) tprofiles
    | Some p \<Rightarrow> p \<in> set tprofiles \<and> tf_id p \<notin> excluded \<and> mc_hard (tripo3d_candidate p now reserve) = None
        \<and> (mc_soft (tripo3d_candidate p now reserve) = None
          \<or> list_all (\<lambda>d. \<not> axis_is_eligible d) (tripo3d_candidates tprofiles now excluded reserve))"
    using tripo3d_select_None [OF _ assms(4)] tripo3d_select_Some [OF _ assms(3,4), of now cursor excluded None reserve]
    by (cases "tripo3d_select_profile tprofiles now cursor excluded None reserve") (simp_all add: list_all_iff)
qed

text \<open>C24: A creation whose answer could not be read is treated differently by the two planes. The Suno
  loop takes an unread answer, a success status included, for a fault of the transport and moves on
  to another profile, where a second creation follows although the first generation may exist. The
  Tripo3D loop ends there.\<close>

theorem unread_creation_is_repeated_by_suno_only:
  assumes "suno_select_profile (sr_profiles r) (sr_select_now r) (sr_cursor r) ex reserve = Some p"
    and "sr_jwt r = None" "sr_captcha r = Inr False" "sr_create r = SunoBodyUnread status"
    and "0 < suno_remaining_count (sr_count_profiles r) (sr_count_now r) ex (sf_id p) reserve"
    and "1 < cp_transport_budget policy"
    and "tr3_answer t = TripoBodyUnread status failure"
  shows "(\<exists>policy'. fst (suno_step reserve r ex policy) = Go (sf_id p) policy')
    \<and> (\<exists>outcome. fst (tripo3d_step sticky reserve' t ex' policy) = Stop outcome)"
proof
  have "sat_sub_u32 (cp_transport_budget policy) 1 \<noteq> 0"
    using assms(6) by (auto simp: sat_sub_u32_def word_less_sub1)
  then have "md_next (suno_decide SunoTransport BeforeCreate policy n) = CreateRotate" if "0 < n" for n
    using that by (simp add: suno_decide_def suno_may_rotate_def suno_spends_transport_budget_def rotate_or_stop_def Let_def)
  then show "\<exists>policy'. fst (suno_step reserve r ex policy) = Go (sf_id p) policy'"
    using assms(1-5) by (simp add: suno_step_def precheck_and_create_def suno_send_create_def Let_def)
  show "\<exists>outcome. fst (tripo3d_step sticky reserve' t ex' policy) = Stop outcome"
    using assms(7) by (simp add: tripo3d_step_def Let_def split: option.splits)
qed

lemma example_unread_selects:
  "suno_select_profile (sr_profiles (example_suno_round (SunoBodyUnread 200))) (sr_select_now (example_suno_round (SunoBodyUnread 200)))
     (sr_cursor (example_suno_round (SunoBodyUnread 200))) {} 10
   = Some \<lparr>sf_id = ''suno-01'', sf_health = suno_profile_health_default, sf_inflight = 0\<rparr>"
  "0 < suno_remaining_count (sr_count_profiles (example_suno_round (SunoBodyUnread 200)))
     (sr_count_now (example_suno_round (SunoBodyUnread 200))) {} ''suno-01'' 10"
  by code_simp+

theorem unread_creation_is_repeated_by_suno_only_witness:
  "(\<exists>policy'. fst (suno_step 10 (example_suno_round (SunoBodyUnread 200)) {} create_policy_default)
      = Go (sf_id \<lparr>sf_id = ''suno-01'', sf_health = suno_profile_health_default, sf_inflight = 0\<rparr>) policy')
    \<and> (\<exists>outcome. fst (tripo3d_step None 10 (example_tripo3d_round (TripoBodyUnread 200 TripoFailTransport)) {} create_policy_default)
      = Stop outcome)"
  by (rule unread_creation_is_repeated_by_suno_only)
    (use example_unread_selects in \<open>simp_all add: example_suno_round_def example_tripo3d_round_def create_policy_default_def Let_def\<close>)

end
