(* ===== verification/Calibration_Core.thy ===== *)
theory Calibration_Core
  imports Engine_Prelude
begin

text \<open>
  What the window estimators of the providers share (\<open>gemini/calibration.rs\<close>,
  \<open>anthropic_calibration.rs\<close>, \<open>kimi_calibration.rs\<close>, \<open>glm_calibration.rs\<close> under
  \<open>crates/forward/src\<close>).

  An estimator reads quota observations of one subscription window, pairs each with the cumulative
  spend of the subscription, and estimates how many nanodollars of official price fit into the
  window. A completed interval contributes its movement of the used fraction, its movement of the
  spend and the width of its quantisation error.

  \<^item> The first part are the operations every estimator has a copy of. Their error texts differ only
    by the provider's name, which is an argument here; the two styles of guard on the rounding
    functions (return zero, or fail) are two definitions.
  \<^item> The second part is the specification: a list of intervals, its totals, and the bounds an
    envelope over them has to have. It is independent of the estimators' state.
  \<^item> The locale \<open>window_estimator\<close> is the contract of an estimator: its row is at all times
    described by the list of intervals it has completed.
\<close>

named_theorems calibration_defs "the arithmetic operators of the estimators"

section \<open>Operations of the estimators\<close>

definition CALIBRATION_SCALE :: i64 where
  "CALIBRATION_SCALE = 100000000"

text \<open>\<open>i128::checked_div\<close>: no result for a zero divisor, and none for the one quotient that leaves
  the type.\<close>

definition checked_div_i128 :: "i128 \<Rightarrow> i128 \<Rightarrow> i128 option" where
  "checked_div_i128 a b = (if b = 0 then None else i128_try_from (sgn a * sgn b * (\<bar>a\<bar> div \<bar>b\<bar>)))"

definition calibration_i64 :: "string \<Rightarrow> i128 \<Rightarrow> string + i64" where
  "calibration_i64 overflow value = ok_or overflow (i64_try_from value)"

text \<open>Gemini and Anthropic.\<close>

definition blend_round :: "string \<Rightarrow> i128 \<Rightarrow> i128 \<Rightarrow> string + i128" where
  "blend_round p numerator denominator =
     (if numerator \<le> 0 \<or> denominator \<le> 0 then Inr 0
      else ok_or (p @ '' capacity rounding overflow'')
        (Option.bind (checked_add_i128 numerator (trunc_div denominator 2))
           (\<lambda>value. checked_div_i128 value denominator)))"

definition blend_ceil :: "string \<Rightarrow> i128 \<Rightarrow> i128 \<Rightarrow> string + i128" where
  "blend_ceil p numerator denominator =
     (if numerator \<le> 0 \<or> denominator \<le> 0 then Inr 0
      else ok_or (p @ '' capacity ceiling overflow'')
        (Option.bind (checked_add_i128 numerator (sub_i128 denominator 1))
           (\<lambda>value. checked_div_i128 value denominator)))"

definition blend_ratio_bp :: "string \<Rightarrow> i128 \<Rightarrow> i128 \<Rightarrow> string + i128" where
  "blend_ratio_bp p numerator denominator =
     (if numerator \<le> 0 \<or> denominator \<le> 0 then Inr 0
      else ok_or (p @ '' confidence ratio overflow'')
        (map_option (\<lambda>value. max 0 (min 10000 value))
           (Option.bind (checked_mul_i128 10000 numerator)
              (\<lambda>value. checked_div_i128 value denominator))))"

text \<open>KIMI and GLM.\<close>

definition strict_round :: "string \<Rightarrow> i128 \<Rightarrow> i128 \<Rightarrow> string + i128" where
  "strict_round p numerator denominator =
     (if denominator \<le> 0 then Inl (p @ '' calibration divides by a non-positive denominator'')
      else ok_or (p @ '' calibration rounding overflow'')
        (Option.bind (checked_add_i128 numerator (trunc_div denominator 2))
           (\<lambda>value. checked_div_i128 value denominator)))"

definition strict_ceil :: "string \<Rightarrow> i128 \<Rightarrow> i128 \<Rightarrow> string + i128" where
  "strict_ceil p numerator denominator =
     (if denominator \<le> 0 then Inl (p @ '' calibration divides by a non-positive denominator'')
      else ok_or (p @ '' calibration ceiling overflow'')
        (Option.bind (checked_add_i128 numerator (sub_i128 denominator 1))
           (\<lambda>value. checked_div_i128 value denominator)))"

definition strict_ratio_bp :: "string \<Rightarrow> i128 \<Rightarrow> i128 \<Rightarrow> string + i128" where
  "strict_ratio_bp p numerator denominator =
     (if denominator \<le> 0 then Inr 0
      else ok_or (p @ '' calibration ratio overflow'')
        (map_option (\<lambda>value. max 0 (min 10000 value))
           (Option.bind (checked_mul_i128 numerator 10000)
              (\<lambda>value. checked_div_i128 value denominator))))"

text \<open>
  The body of \<open>update_workload_envelope\<close> (Gemini, Anthropic, GLM) over the bounds and the sample
  count of the row: the new low bound and the new high bound.
\<close>

definition workload_envelope ::
  "string \<Rightarrow> string \<Rightarrow> (i128 \<Rightarrow> i128 \<Rightarrow> string + i128) \<Rightarrow> i64 option \<Rightarrow> i64 option \<Rightarrow> i64
     \<Rightarrow> i64 \<Rightarrow> i64 \<Rightarrow> i64 \<Rightarrow> string + (i64 \<times> i64 option)" where
  "workload_envelope p overflow ceil_nonnegative current_low current_high samples
     delta_used uncertainty delta_spend =
   bind_res (ok_or (p @ '' workload envelope numerator overflow'')
       (checked_mul_i128 CALIBRATION_SCALE delta_spend)) (\<lambda>numerator.
   bind_res (ok_or (p @ '' workload low bound overflow'')
       (checked_div_i128 numerator (add_i128 delta_used uncertainty))) (\<lambda>quotient.
   bind_res (calibration_i64 overflow quotient) (\<lambda>low.
   bind_res (if uncertainty < delta_used
             then bind_res (ceil_nonnegative numerator (sub_i128 delta_used uncertainty)) (\<lambda>value.
                    bind_res (calibration_i64 overflow value) (\<lambda>high. Inr (Some high)))
             else Inr None) (\<lambda>sample_high.
   Inr (case current_low of None \<Rightarrow> low | Some existing \<Rightarrow> min existing low,
        if samples = 0 then sample_high
        else (case (current_high, sample_high) of
                (Some existing, Some sample) \<Rightarrow> Some (max existing sample)
              | _ \<Rightarrow> None))))))"

text \<open>
  The confidence at the end of every \<open>recompute\<close>: maturity, stability of the envelope and quality
  of the quantisation, in basis points. The quantisation denominator is computed between the two
  ratios; its own failure is the argument's.
\<close>

definition confidence ::
  "string \<Rightarrow> string \<Rightarrow> (i128 \<Rightarrow> i128 \<Rightarrow> string + i128) \<Rightarrow> i64 \<Rightarrow> i64 option \<Rightarrow> i64 option
     \<Rightarrow> i128 \<Rightarrow> string + i128 \<Rightarrow> string + i64" where
  "confidence p overflow ratio_bp samples low high denominator quantisation_denominator =
   bind_res (ratio_bp samples (add_i128 samples 2)) (\<lambda>maturity_bp.
   bind_res (case (low, high) of
               (Some l, Some h) \<Rightarrow> if 0 < h then ratio_bp l h else Inr 0
             | _ \<Rightarrow> Inr 0) (\<lambda>stability_bp.
   bind_res quantisation_denominator (\<lambda>qd.
   bind_res (ratio_bp denominator qd) (\<lambda>quantisation_bp.
   bind_res (ok_or (p @ '' confidence overflow'')
       (Option.bind (checked_mul_i128 maturity_bp stability_bp) (\<lambda>v.
        Option.bind (checked_div_i128 v 10000) (\<lambda>v.
        Option.bind (checked_mul_i128 v quantisation_bp) (\<lambda>v.
        checked_div_i128 v 10000))))) (\<lambda>confidence_bp.
   bind_res (calibration_i64 overflow confidence_bp) (\<lambda>value.
   Inr (max 0 (min 10000 value))))))))"

text \<open>The thresholds on the movement of the reset, from the length of the window in seconds.\<close>

definition reset_boundary :: "i128 \<Rightarrow> i128" where
  "reset_boundary duration_secs = max (trunc_div duration_secs 2) 1"

definition jitter_tolerance :: "i128 \<Rightarrow> i128" where
  "jitter_tolerance duration_secs = max 1 (min 3600 (trunc_div duration_secs 200))"

text \<open>\<open>kimi_fraction_from_native\<close> and \<open>glm_fraction_from_native\<close>.\<close>

record derived_fraction =
  df_used_fraction_units :: i64
  df_measurement_resolution_fraction_units :: i64

definition fraction_from_native :: "string \<Rightarrow> i64 \<Rightarrow> i64 \<Rightarrow> string + derived_fraction" where
  "fraction_from_native p used limit =
   (if limit \<le> 0 then Inl (p @ '' quota limit must be positive'')
    else if used < 0 then Inl (p @ '' quota used must not be negative'')
    else if limit < used then Inl (p @ '' quota used exceeds its limit'')
    else
      bind_res (ok_or (p @ '' quota fraction overflow'')
          (Option.bind (checked_mul_i128 used CALIBRATION_SCALE) (\<lambda>value.
           Option.bind (checked_div_i128 value limit) i64_try_from))) (\<lambda>used_fraction_units.
      bind_res (ok_or (p @ '' quota resolution overflow'')
          (Option.bind (checked_add_i128 CALIBRATION_SCALE (sub_i128 limit 1)) (\<lambda>value.
           Option.bind (checked_div_i128 value limit) i64_try_from))) (\<lambda>resolution.
      Inr \<lparr>df_used_fraction_units = used_fraction_units,
           df_measurement_resolution_fraction_units = max resolution 1\<rparr>)))"

section \<open>The specification\<close>

text \<open>A completed interval: movement of the used fraction, width of its error, movement of spend.\<close>

type_synonym interval = "int \<times> int \<times> int"

fun interval_ok :: "interval \<Rightarrow> bool" where
  "interval_ok (du, w, ds) \<longleftrightarrow> 0 < du \<and> 0 \<le> w \<and> 0 < ds"

fun interval_used :: "interval \<Rightarrow> int" where
  "interval_used (du, w, ds) = du"

fun interval_width :: "interval \<Rightarrow> int" where
  "interval_width (du, w, ds) = w"

fun interval_spend :: "interval \<Rightarrow> int" where
  "interval_spend (du, w, ds) = ds"

definition total_used :: "interval list \<Rightarrow> int" where
  "total_used ivs = sum_list (map interval_used ivs)"

definition total_spend :: "interval list \<Rightarrow> int" where
  "total_spend ivs = sum_list (map interval_spend ivs)"

text \<open>
  A window capacity \<open>c\<close> is admissible for an interval when the spend it predicts for the observed
  movement is within the width of the error.
\<close>

fun admissible :: "int \<Rightarrow> interval \<Rightarrow> bool" where
  "admissible c (du, w, ds) \<longleftrightarrow> \<bar>CALIBRATION_SCALE * ds - c * du\<bar> \<le> c * w"

text \<open>
  What an interval rests on before any width is computed: the movement of the used fraction, the
  resolutions of the readings at its two ends, and the movement of spend. A reading is off by at most
  half its resolution, so a capacity is admitted when the spend it predicts is within half the sum of
  the resolutions. An estimator works with a whole number of units for that width.
\<close>

type_synonym reading_pair = "int \<times> int \<times> int \<times> int"

fun admits :: "int \<Rightarrow> reading_pair \<Rightarrow> bool" where
  "admits c (du, a, b, ds) \<longleftrightarrow> 2 * \<bar>CALIBRATION_SCALE * ds - c * du\<bar> \<le> c * (a + b)"

fun measured :: "(i64 \<Rightarrow> i64 \<Rightarrow> int) \<Rightarrow> reading_pair \<Rightarrow> interval" where
  "measured width (du, a, b, ds) = (du, width a b, ds)"

text \<open>No reading of the pair is coarser than \<open>w\<close>; both resolutions are even.\<close>

fun no_coarser :: "int \<Rightarrow> reading_pair \<Rightarrow> bool" where
  "no_coarser w (du, a, b, ds) \<longleftrightarrow> a \<le> w \<and> b \<le> w"

fun even_resolutions :: "reading_pair \<Rightarrow> bool" where
  "even_resolutions (du, a, b, ds) \<longleftrightarrow> even a \<and> even b"

fun last_resolution :: "reading_pair \<Rightarrow> int" where
  "last_resolution (du, a, b, ds) = b"

definition ceiling_div :: "int \<Rightarrow> int \<Rightarrow> int" where
  "ceiling_div a b = (a + (b - 1)) div b"

definition rounded_div :: "int \<Rightarrow> int \<Rightarrow> int" where
  "rounded_div a b = (a + b div 2) div b"

definition blended_capacity :: "interval list \<Rightarrow> int" where
  "blended_capacity ivs = rounded_div (CALIBRATION_SCALE * total_spend ivs) (total_used ivs)"

text \<open>The bounds of one interval, and the envelope of the per-interval bounds.\<close>

fun interval_low :: "interval \<Rightarrow> int" where
  "interval_low (du, w, ds) = CALIBRATION_SCALE * ds div (du + w)"

fun interval_high :: "interval \<Rightarrow> int option" where
  "interval_high (du, w, ds) =
     (if w < du then Some (ceiling_div (CALIBRATION_SCALE * ds) (du - w)) else None)"

definition least_low :: "interval list \<Rightarrow> int option" where
  "least_low ivs = (if ivs = [] then None else Some (Min (interval_low ` set ivs)))"

definition greatest_high :: "interval list \<Rightarrow> int option" where
  "greatest_high ivs =
     (if ivs = [] \<or> (\<exists>i\<in>set ivs. interval_high i = None) then None
      else Some (Max ((\<lambda>i. the (interval_high i)) ` set ivs)))"

section \<open>The operations compute the specification\<close>

lemma trunc_div_nonneg: "0 \<le> a \<Longrightarrow> trunc_div a b = a div b"
  by (simp add: trunc_div_def)

lemma CALIBRATION_SCALE_pos [simp]: "0 < CALIBRATION_SCALE" "0 \<le> CALIBRATION_SCALE"
  by (simp_all add: CALIBRATION_SCALE_def)

lemma in_i128_small: "0 \<le> x \<Longrightarrow> x < 2 ^ 127 \<Longrightarrow> in_i128 x"
  by (simp add: in_i128_def)

lemma in_i64_small: "0 \<le> x \<Longrightarrow> x < 2 ^ 63 \<Longrightarrow> in_i64 x"
  by (simp add: in_i64_def)

lemma in_i64_lt: "in_i64 x \<Longrightarrow> x < 2 ^ 63"
  by (simp add: in_i64_def)

lemma checked_div_i128_nonneg:
  assumes "0 \<le> a" "a < 2 ^ 127" "0 < b"
  shows "checked_div_i128 a b = Some (a div b)"
proof -
  have "a div b \<le> a" using zdiv_mono2 [of a 1 b] assms by simp
  moreover have "0 \<le> a div b" using assms by (simp add: pos_imp_zdiv_nonneg_iff)
  ultimately show ?thesis
    using assms by (cases "a = 0") (simp_all add: checked_div_i128_def i128_try_from_def in_i128_def)
qed

lemma scaled_spend_range:
  assumes "0 \<le> ds" "ds < 2 ^ 63"
  shows "0 \<le> CALIBRATION_SCALE * ds" "CALIBRATION_SCALE * ds < 2 ^ 90"
  using assms by (simp_all add: CALIBRATION_SCALE_def)

lemma checked_scaled_spend:
  assumes "0 \<le> ds" "ds < 2 ^ 63"
  shows "checked_mul_i128 CALIBRATION_SCALE ds = Some (CALIBRATION_SCALE * ds)"
  using scaled_spend_range [OF assms] by (simp add: checked_mul_i128_def in_i128_def)

lemma rounded_sum_checked:
  assumes "0 \<le> n" "n < 2 ^ 126" "0 < d" "d < 2 ^ 126"
  shows "Option.bind (checked_add_i128 n (trunc_div d 2)) (\<lambda>v. checked_div_i128 v d)
           = Some (rounded_div n d)"
proof -
  have "0 \<le> n + d div 2" "n + d div 2 < 2 ^ 127" using assms by simp_all
  then show ?thesis using assms
    by (simp add: checked_add_i128_def i128_try_from_def in_i128_def trunc_div_nonneg
        checked_div_i128_nonneg rounded_div_def)
qed

lemma ceiling_sum_checked:
  assumes "0 \<le> n" "n < 2 ^ 126" "0 < d" "d < 2 ^ 126"
  shows "Option.bind (checked_add_i128 n (sub_i128 d 1)) (\<lambda>v. checked_div_i128 v d)
           = Some (ceiling_div n d)"
proof -
  have "sub_i128 d 1 = d - 1" using assms by (simp add: sub_i128_exact in_i128_def)
  moreover have "0 \<le> n + (d - 1)" "n + (d - 1) < 2 ^ 127" using assms by simp_all
  ultimately show ?thesis using assms
    by (simp add: checked_add_i128_def i128_try_from_def in_i128_def checked_div_i128_nonneg
        ceiling_div_def)
qed

lemma rounding_is_exact:
  assumes "0 \<le> n" "n < 2 ^ 126" "0 < d" "d < 2 ^ 126"
  shows "strict_round p n d = Inr (rounded_div n d)" "blend_round p n d = Inr (rounded_div n d)"
    "strict_ceil p n d = Inr (ceiling_div n d)" "blend_ceil p n d = Inr (ceiling_div n d)"
  using assms rounded_sum_checked [OF assms] ceiling_sum_checked [OF assms]
  by (auto simp: strict_round_def blend_round_def strict_ceil_def blend_ceil_def rounded_div_def
      ceiling_div_def div_pos_pos_trivial)

lemma ratio_range:
  "strict_ratio_bp p n d = Inr v \<Longrightarrow> 0 \<le> v \<and> v \<le> 10000"
  "blend_ratio_bp p n d = Inr v \<Longrightarrow> 0 \<le> v \<and> v \<le> 10000"
  by (auto simp: strict_ratio_bp_def blend_ratio_bp_def split: if_splits)

lemma confidence_range: "confidence p e ratio n low high d qd = Inr v \<Longrightarrow> 0 \<le> v \<and> v \<le> 10000"
  by (auto simp: confidence_def)

lemma confidence_without_high:
  assumes "confidence p e ratio n low None d qd = Inr v"
  shows "v = 0"
  using assms
  by (auto simp: confidence_def checked_mul_i128_def checked_div_i128_def calibration_i64_def
      i128_try_from_def in_i128_def in_i64_def i64_try_from_def split: option.splits)

subsection \<open>Bounds of one interval\<close>

lemma div_le_of_le_mult:
  assumes "0 < b" "a \<le> c * b"
  shows "a div b \<le> (c :: int)"
  using zdiv_mono1 [OF assms(2,1)] assms(1) by simp

lemma div_mult_le:
  assumes "0 < b"
  shows "a div b * b \<le> (a :: int)"
  using div_mult_mod_eq [of a b] pos_mod_sign [OF assms, of a] by linarith

lemma le_ceiling_div:
  assumes "0 < b" "c * b \<le> a"
  shows "c \<le> ceiling_div a b"
  using zdiv_mono1 [of "c * b" "a + (b - 1)" b] assms by (simp add: ceiling_div_def)

lemma le_mult_ceiling_div:
  assumes "0 < b"
  shows "a \<le> ceiling_div a b * (b :: int)"
proof -
  have "a + (b - 1) = ceiling_div a b * b + (a + (b - 1)) mod b"
    by (simp add: ceiling_div_def)
  moreover have "(a + (b - 1)) mod b < b" using assms by simp
  ultimately show ?thesis by linarith
qed

lemma ceiling_div_least:
  assumes "0 < b" "a \<le> c * b"
  shows "ceiling_div a b \<le> (c :: int)"
proof -
  have "a + (b - 1) < (c + 1) * b" using assms by (simp add: algebra_simps)
  then have "a + (b - 1) \<le> (c + 1) * b - 1" by simp
  then have "(a + (b - 1)) div b \<le> ((c + 1) * b - 1) div b" using assms by (intro zdiv_mono1)
  also have "((c + 1) * b - 1) div b = ((b - 1) + c * b) div b" by (simp add: algebra_simps)
  also have "\<dots> = c" using assms by (simp add: div_pos_pos_trivial)
  finally show ?thesis by (simp add: ceiling_div_def)
qed

lemma rounded_le_ceiling: "0 < b \<Longrightarrow> rounded_div a b \<le> ceiling_div a b"
  unfolding rounded_div_def ceiling_div_def by (intro zdiv_mono1) simp_all

lemma floor_le_rounded: "0 < b \<Longrightarrow> a div b \<le> rounded_div a b"
  unfolding rounded_div_def by (intro zdiv_mono1) simp_all

lemma interval_low_admissible:
  assumes "interval_ok i" "admissible c i"
  shows "interval_low i \<le> c"
proof -
  obtain du w ds where i: "i = (du, w, ds)" by (cases i)
  have "CALIBRATION_SCALE * ds \<le> c * (du + w)"
    using assms by (simp add: i algebra_simps)
  then show ?thesis using assms by (simp add: i div_le_of_le_mult)
qed

lemma interval_high_admissible:
  assumes "admissible c i" "interval_high i = Some h"
  shows "c \<le> h"
proof -
  obtain du w ds where i: "i = (du, w, ds)" by (cases i)
  have "c * (du - w) \<le> CALIBRATION_SCALE * ds" using assms by (simp add: i algebra_simps)
  then show ?thesis using assms by (auto simp: i le_ceiling_div split: if_splits)
qed

subsection \<open>Bounds of a list of intervals\<close>

lemma least_low_append:
  "least_low (ivs @ [i]) =
     Some (case least_low ivs of None \<Rightarrow> interval_low i | Some l \<Rightarrow> min l (interval_low i))"
proof (cases "ivs = []")
  case False
  then have "Min (insert (interval_low i) (interval_low ` set ivs))
      = min (interval_low i) (Min (interval_low ` set ivs))" by (intro Min.insert) auto
  then show ?thesis using False by (simp add: least_low_def min.commute)
qed (simp add: least_low_def)

lemma greatest_high_append:
  "greatest_high (ivs @ [i]) =
     (if ivs = [] then interval_high i
      else (case (greatest_high ivs, interval_high i) of
              (Some a, Some b) \<Rightarrow> Some (max a b) | _ \<Rightarrow> None))"
proof (cases "ivs = [] \<or> (\<exists>j\<in>set ivs. interval_high j = None) \<or> interval_high i = None")
  case True
  then show ?thesis by (auto simp: greatest_high_def split: option.splits)
next
  case False
  then have "Max (insert (the (interval_high i)) ((\<lambda>j. the (interval_high j)) ` set ivs))
      = max (the (interval_high i)) (Max ((\<lambda>j. the (interval_high j)) ` set ivs))"
    by (intro Max.insert) auto
  moreover have "\<not> (\<exists>j\<in>set (ivs @ [i]). interval_high j = None)" using False by auto
  ultimately show ?thesis using False by (auto simp: greatest_high_def max.commute)
qed

lemma least_low_le: "least_low ivs = Some l \<Longrightarrow> i \<in> set ivs \<Longrightarrow> l \<le> interval_low i"
  by (auto simp: least_low_def split: if_splits)

lemma greatest_high_ge:
  assumes "greatest_high ivs = Some h" "i \<in> set ivs"
  obtains hi where "interval_high i = Some hi" "hi \<le> h"
proof -
  have all: "\<forall>j\<in>set ivs. interval_high j \<noteq> None"
    and h: "h = Max ((\<lambda>j. the (interval_high j)) ` set ivs)"
    using assms by (auto simp: greatest_high_def split: if_splits)
  then obtain hi where hi: "interval_high i = Some hi" using assms(2) by auto
  moreover have "the (interval_high i) \<le> h" unfolding h using assms(2) by (intro Max_ge) auto
  ultimately show thesis using that by simp
qed

lemma interval_low_nonneg: "interval_ok i \<Longrightarrow> 0 \<le> interval_low i"
  by (cases i) (simp add: pos_imp_zdiv_nonneg_iff)

lemma least_low_nonneg: "\<forall>i\<in>set ivs. interval_ok i \<Longrightarrow> least_low ivs = Some l \<Longrightarrow> 0 \<le> l"
  by (auto simp: least_low_def interval_low_nonneg split: if_splits)

lemma least_low_admissible:
  assumes "least_low ivs = Some l" "i \<in> set ivs" "interval_ok i" "admissible c i"
  shows "l \<le> c"
  using least_low_le [OF assms(1,2)] interval_low_admissible [OF assms(3,4)] by simp

lemma greatest_high_admissible:
  assumes "greatest_high ivs = Some h" "i \<in> set ivs" "admissible c i"
  shows "c \<le> h"
  using greatest_high_ge [OF assms(1,2)] interval_high_admissible [OF assms(3)] by force

lemma total_used_simps [simp]: "total_used [] = 0" "total_used (i # ivs) = interval_used i + total_used ivs"
  "total_used (xs @ ys) = total_used xs + total_used ys"
  by (simp_all add: total_used_def)

lemma total_spend_simps [simp]: "total_spend [] = 0" "total_spend (i # ivs) = interval_spend i + total_spend ivs"
  "total_spend (xs @ ys) = total_spend xs + total_spend ys"
  by (simp_all add: total_spend_def)

lemma total_used_nonneg: "\<forall>i\<in>set ivs. interval_ok i \<Longrightarrow> 0 \<le> total_used ivs"
  by (induction ivs) auto

lemma total_spend_nonneg: "\<forall>i\<in>set ivs. interval_ok i \<Longrightarrow> 0 \<le> total_spend ivs"
  by (induction ivs) auto

lemma totals_pos:
  assumes "\<forall>i\<in>set ivs. interval_ok i" "ivs \<noteq> []"
  shows "0 < total_used ivs" "0 < total_spend ivs"
  using assms total_used_nonneg [of "tl ivs"] total_spend_nonneg [of "tl ivs"]
  by (cases ivs; auto)+

lemma low_bounds_total:
  assumes "\<forall>i\<in>set ivs. interval_ok i \<and> l \<le> interval_low i" "0 \<le> l"
  shows "l * total_used ivs \<le> CALIBRATION_SCALE * total_spend ivs"
  using assms
proof (induction ivs)
  case (Cons i ivs)
  obtain du w ds where i: "i = (du, w, ds)" by (cases i)
  have "l * du \<le> l * (du + w)" using Cons.prems by (auto simp: i algebra_simps)
  also have "\<dots> \<le> interval_low i * (du + w)" using Cons.prems by (auto simp: i intro!: mult_right_mono)
  also have "\<dots> \<le> CALIBRATION_SCALE * ds" using Cons.prems by (simp add: i div_mult_le)
  finally show ?case using Cons by (simp add: i algebra_simps)
qed simp

lemma high_bounds_total:
  assumes "\<forall>i\<in>set ivs. interval_ok i \<and> (\<exists>hi. interval_high i = Some hi \<and> hi \<le> h)" "0 \<le> h"
  shows "CALIBRATION_SCALE * total_spend ivs \<le> h * total_used ivs"
  using assms
proof (induction ivs)
  case (Cons i ivs)
  obtain du w ds where i: "i = (du, w, ds)" by (cases i)
  have w: "w < du" "0 \<le> w" and hi: "ceiling_div (CALIBRATION_SCALE * ds) (du - w) \<le> h"
    using Cons.prems by (auto simp: i split: if_splits)
  have "CALIBRATION_SCALE * ds \<le> ceiling_div (CALIBRATION_SCALE * ds) (du - w) * (du - w)"
    using w by (intro le_mult_ceiling_div) simp
  also have "\<dots> \<le> h * (du - w)" using hi w by (intro mult_right_mono) simp_all
  also have "\<dots> \<le> h * du" using w Cons.prems(2) by (intro mult_left_mono) simp_all
  finally show ?case using Cons by (simp add: i algebra_simps)
qed simp

lemma rounded_div_nonneg: "0 \<le> a \<Longrightarrow> 0 < b \<Longrightarrow> 0 \<le> rounded_div a b"
  by (simp add: rounded_div_def pos_imp_zdiv_nonneg_iff)

lemma ceiling_div_nonneg: "0 \<le> a \<Longrightarrow> 0 < b \<Longrightarrow> 0 \<le> ceiling_div a b"
  by (simp add: ceiling_div_def pos_imp_zdiv_nonneg_iff)

lemma blended_capacity_nonneg:
  assumes "\<forall>i\<in>set ivs. interval_ok i" "ivs \<noteq> []"
  shows "0 \<le> blended_capacity ivs"
  using totals_pos [OF assms] by (simp add: blended_capacity_def rounded_div_nonneg)

theorem least_low_le_blend:
  assumes "\<forall>i\<in>set ivs. interval_ok i" "least_low ivs = Some l"
  shows "l \<le> blended_capacity ivs"
proof -
  have ne: "ivs \<noteq> []" using assms(2) by (auto simp: least_low_def)
  have "l * total_used ivs \<le> CALIBRATION_SCALE * total_spend ivs"
    using assms least_low_le [OF assms(2)] by (intro low_bounds_total least_low_nonneg) auto
  then have "l \<le> CALIBRATION_SCALE * total_spend ivs div total_used ivs"
    using totals_pos [OF assms(1) ne] zdiv_mono1 [of "l * total_used ivs"] by force
  also have "\<dots> \<le> blended_capacity ivs"
    unfolding blended_capacity_def using totals_pos [OF assms(1) ne] by (intro floor_le_rounded)
  finally show ?thesis .
qed

theorem blend_le_greatest_high:
  assumes "\<forall>i\<in>set ivs. interval_ok i" "greatest_high ivs = Some h"
  shows "blended_capacity ivs \<le> h"
proof -
  have ne: "ivs \<noteq> []" using assms(2) by (auto simp: greatest_high_def)
  obtain hi where hi: "interval_high (hd ivs) = Some hi" "hi \<le> h"
    using greatest_high_ge [OF assms(2) hd_in_set [OF ne]] by blast
  have "0 \<le> hi" using hi(1) assms(1) ne
    by (cases "hd ivs"; cases ivs)
      (auto simp: ceiling_div_nonneg split: if_splits)
  then have "CALIBRATION_SCALE * total_spend ivs \<le> h * total_used ivs"
    using assms hi by (intro high_bounds_total) (auto elim: greatest_high_ge [OF assms(2)])
  then have "ceiling_div (CALIBRATION_SCALE * total_spend ivs) (total_used ivs) \<le> h"
    using totals_pos [OF assms(1) ne] by (intro ceiling_div_least)
  then show ?thesis
    using rounded_le_ceiling [OF totals_pos(1) [OF assms(1) ne]]
    unfolding blended_capacity_def by (meson order_trans)
qed

subsection \<open>The envelope operation\<close>

definition exact_ceiling :: "(i128 \<Rightarrow> i128 \<Rightarrow> string + i128) \<Rightarrow> bool" where
  "exact_ceiling f \<longleftrightarrow>
     (\<forall>n d. 0 \<le> n \<longrightarrow> n < 2 ^ 126 \<longrightarrow> 0 < d \<longrightarrow> d < 2 ^ 126 \<longrightarrow> f n d = Inr (ceiling_div n d))"

lemma exact_ceilings [simp]: "exact_ceiling (strict_ceil p)" "exact_ceiling (blend_ceil p)"
  by (simp_all add: exact_ceiling_def rounding_is_exact)

lemma workload_envelope_spec:
  assumes ceil: "exact_ceiling ceil"
    and i: "interval_ok (du, w, ds)" "du < 2 ^ 63" "w < 2 ^ 63" "ds < 2 ^ 63"
    and ok: "workload_envelope p e ceil cl ch n du w ds = Inr (l, h)"
  shows "l = (case cl of None \<Rightarrow> interval_low (du, w, ds) | Some x \<Rightarrow> min x (interval_low (du, w, ds)))"
    and "h = (if n = 0 then interval_high (du, w, ds)
              else (case (ch, interval_high (du, w, ds)) of
                      (Some a, Some b) \<Rightarrow> Some (max a b) | _ \<Rightarrow> None))"
proof -
  define num where "num = CALIBRATION_SCALE * ds"
  have num: "0 \<le> num" "num < 2 ^ 126"
    using scaled_spend_range [of ds] i by (simp_all add: num_def)
  have mul: "checked_mul_i128 CALIBRATION_SCALE ds = Some num"
    using checked_scaled_spend [of ds] i by (simp add: num_def)
  have add: "add_i128 du w = du + w" using i by (simp add: add_i128_exact in_i128_def)
  have divd: "checked_div_i128 num (du + w) = Some (num div (du + w))"
    using num i by (intro checked_div_i128_nonneg) simp_all
  have sub: "sub_i128 du w = du - w" using i by (simp add: sub_i128_exact in_i128_def)
  have high: "ceil num (du - w) = Inr (ceiling_div num (du - w))" if "w < du"
    using ceil num i that by (simp add: exact_ceiling_def)
  show "l = (case cl of None \<Rightarrow> interval_low (du, w, ds) | Some x \<Rightarrow> min x (interval_low (du, w, ds)))"
    and "h = (if n = 0 then interval_high (du, w, ds)
              else (case (ch, interval_high (du, w, ds)) of
                      (Some a, Some b) \<Rightarrow> Some (max a b) | _ \<Rightarrow> None))"
    using ok by (auto simp: workload_envelope_def mul add divd sub calibration_i64_def high
        num_def [symmetric] split: if_splits option.splits)
qed

lemma workload_envelope_extends:
  assumes "exact_ceiling ceil" "interval_ok i" "interval_used i < 2 ^ 63" "interval_width i < 2 ^ 63"
    "interval_spend i < 2 ^ 63" "n = int (length ivs)"
    "workload_envelope p e ceil (least_low ivs) (greatest_high ivs) n
       (interval_used i) (interval_width i) (interval_spend i) = Inr (l, h)"
  shows "least_low (ivs @ [i]) = Some l \<and> greatest_high (ivs @ [i]) = h"
proof -
  obtain du w ds where i: "i = (du, w, ds)" by (cases i)
  show ?thesis
    using workload_envelope_spec [of ceil du w ds p e "least_low ivs" "greatest_high ivs" n l h] assms
    by (simp add: i least_low_append greatest_high_append)
qed

subsection \<open>Bounds of an aggregate\<close>

text \<open>The KIMI estimator bounds the totals, with one width for all of them.\<close>

definition aggregate_low :: "interval list \<Rightarrow> int \<Rightarrow> int" where
  "aggregate_low ivs u = CALIBRATION_SCALE * total_spend ivs div (total_used ivs + u)"

definition aggregate_high :: "interval list \<Rightarrow> int \<Rightarrow> int option" where
  "aggregate_high ivs u =
     (if u < total_used ivs
      then Some (ceiling_div (CALIBRATION_SCALE * total_spend ivs) (total_used ivs - u)) else None)"

lemma admissible_totals:
  assumes "\<forall>i\<in>set ivs. admissible c i \<and> interval_width i \<le> w" "0 \<le> c"
  shows "\<bar>CALIBRATION_SCALE * total_spend ivs - c * total_used ivs\<bar> \<le> c * (int (length ivs) * w)"
  using assms
proof (induction ivs)
  case (Cons i ivs)
  obtain du v ds where i: "i = (du, v, ds)" by (cases i)
  have "c * v \<le> c * w" using Cons.prems by (intro mult_left_mono) (simp_all add: i)
  moreover have "\<bar>CALIBRATION_SCALE * ds - c * du\<bar> \<le> c * v" using Cons.prems by (simp add: i)
  moreover have "\<bar>CALIBRATION_SCALE * total_spend ivs - c * total_used ivs\<bar> \<le> c * (int (length ivs) * w)"
    using Cons by simp
  ultimately show ?case by (simp add: i algebra_simps abs_le_iff)
qed simp

lemma aggregate_sound:
  assumes "\<forall>i\<in>set ivs. interval_ok i \<and> admissible c i \<and> interval_width i \<le> w" "0 \<le> c" "ivs \<noteq> []" "0 \<le> w"
  shows "aggregate_low ivs (int (length ivs) * w) \<le> c"
    and "aggregate_high ivs (int (length ivs) * w) = Some h \<Longrightarrow> c \<le> h"
proof -
  let ?u = "int (length ivs) * w"
  have near: "\<bar>CALIBRATION_SCALE * total_spend ivs - c * total_used ivs\<bar> \<le> c * ?u"
    using assms by (intro admissible_totals) auto
  have pos: "0 < total_used ivs" using totals_pos assms by auto
  have "CALIBRATION_SCALE * total_spend ivs \<le> c * (total_used ivs + ?u)"
    using near by (simp add: algebra_simps abs_le_iff)
  then show "aggregate_low ivs ?u \<le> c"
    unfolding aggregate_low_def using pos assms(4) by (intro div_le_of_le_mult add_pos_nonneg) simp_all
  have "c * (total_used ivs - ?u) \<le> CALIBRATION_SCALE * total_spend ivs"
    using near by (simp add: algebra_simps abs_le_iff)
  then show "aggregate_high ivs ?u = Some h \<Longrightarrow> c \<le> h"
    by (auto simp: aggregate_high_def le_ceiling_div split: if_splits)
qed

lemma aggregate_brackets_blend:
  assumes "\<forall>i\<in>set ivs. interval_ok i" "ivs \<noteq> []" "0 \<le> u"
  shows "0 \<le> aggregate_low ivs u" "aggregate_low ivs u \<le> blended_capacity ivs"
    and "aggregate_high ivs u = Some h \<Longrightarrow> blended_capacity ivs \<le> h"
proof -
  let ?n = "CALIBRATION_SCALE * total_spend ivs"
  have pos: "0 < total_used ivs" "0 < ?n" using totals_pos assms by auto
  show "0 \<le> aggregate_low ivs u"
    using pos assms(3) by (simp add: aggregate_low_def pos_imp_zdiv_nonneg_iff)
  have "?n div (total_used ivs + u) \<le> ?n div total_used ivs"
    using pos assms(3) by (intro zdiv_mono2) simp_all
  then show "aggregate_low ivs u \<le> blended_capacity ivs"
    using floor_le_rounded [OF pos(1), of ?n] by (simp add: aggregate_low_def blended_capacity_def)
  assume h: "aggregate_high ivs u = Some h"
  then have u: "u < total_used ivs" and h': "h = ceiling_div ?n (total_used ivs - u)"
    by (auto simp: aggregate_high_def split: if_splits)
  have "?n \<le> h * (total_used ivs - u)" unfolding h' using u by (intro le_mult_ceiling_div) simp
  also have "\<dots> \<le> h * total_used ivs"
    using u pos assms(3) h' by (intro mult_left_mono) (simp_all add: ceiling_div_nonneg)
  finally have "ceiling_div ?n (total_used ivs) \<le> h" by (rule ceiling_div_least [OF pos(1)])
  then show "blended_capacity ivs \<le> h"
    using rounded_le_ceiling [OF pos(1), of ?n] by (simp add: blended_capacity_def)
qed

subsection \<open>Replaying observations, and the intervals they complete\<close>

fun replay :: "('r option \<Rightarrow> 'o \<Rightarrow> 'e + 'r) \<Rightarrow> 'r option \<Rightarrow> 'o list \<Rightarrow> 'e + 'r option" where
  "replay step r [] = Inr r"
| "replay step r (ob # obs) = bind_res (step r ob) (\<lambda>r'. replay step (Some r') obs)"

fun completed ::
  "('r option \<Rightarrow> 'o \<Rightarrow> 'e + 'r) \<Rightarrow> ('r option \<Rightarrow> 'o \<Rightarrow> 'i list) \<Rightarrow> 'r option \<Rightarrow> 'o list \<Rightarrow> 'i list" where
  "completed step taken r [] = []"
| "completed step taken r (ob # obs) =
     taken r ob @ (case step r ob of Inl _ \<Rightarrow> [] | Inr r' \<Rightarrow> completed step taken (Some r') obs)"

lemma completed_map:
  assumes "\<And>r ob. taken r ob = map f (readings r ob)"
  shows "completed step taken r obs = map f (completed step readings r obs)"
  by (induction obs arbitrary: r) (auto simp: assms split: sum.split)

text \<open>A width that covers half the sum of the resolutions makes an admitted capacity admissible.\<close>

lemma admits_measured:
  assumes "admits c (du, a, b, ds)" "a + b \<le> 2 * width a b" "0 \<le> c"
  shows "admissible c (measured width (du, a, b, ds))"
proof -
  have "c * (a + b) \<le> 2 * (c * width a b)" using mult_left_mono [OF assms(2,3)] by (simp add: mult_ac)
  then show ?thesis using assms(1) by simp
qed

locale window_estimator =
  fixes step :: "'r option \<Rightarrow> 'o \<Rightarrow> 'e + 'r"
    and taken :: "'r option \<Rightarrow> 'o \<Rightarrow> 'i list"
    and valid :: "'o \<Rightarrow> bool"
    and describes :: "'i list \<Rightarrow> 'r option \<Rightarrow> bool"
  assumes describes_empty: "describes [] None"
    and describes_step:
      "describes ivs r \<Longrightarrow> valid ob \<Longrightarrow> step r ob = Inr r' \<Longrightarrow> describes (ivs @ taken r ob) (Some r')"
begin

lemma describes_replay:
  assumes "describes ivs r" "list_all valid obs" "replay step r obs = Inr r'"
  shows "describes (ivs @ completed step taken r obs) r'"
  using assms
proof (induction obs arbitrary: ivs r)
  case (Cons ob obs)
  from Cons.prems(3) obtain r1 where r1: "step r ob = Inr r1" "replay step (Some r1) obs = Inr r'"
    by auto
  then have "describes ((ivs @ taken r ob) @ completed step taken (Some r1) obs) r'"
    using Cons.prems by (intro Cons.IH describes_step) auto
  then show ?case by (simp add: r1)
qed simp

lemma describes_history:
  "list_all valid obs \<Longrightarrow> replay step None obs = Inr r \<Longrightarrow> describes (completed step taken None obs) r"
  using describes_replay [OF describes_empty] by simp

end

end
