(* ===== verification/Calibration_Windows.thy ===== *)
theory Calibration_Windows
  imports Calibration_Core
begin

text \<open>
  The estimators whose observations always carry a used fraction: Gemini
  (\<open>crates/forward/src/gemini/calibration.rs\<close>), Anthropic (\<open>anthropic_calibration.rs\<close>) and
  KIMI (\<open>kimi_calibration.rs\<close>), with the rows, observations and row checks of
  \<open>crates/registry/src\<close> (\<open>provider_calibration.rs\<close>, \<open>kimi_calibration.rs\<close>,
  \<open>lib.rs\<close>).

  The three row structures have the same estimator columns, which are the record \<open>window_row\<close>; each
  provider's row extends it by its identity columns, and likewise the observations. The statements
  that the three sources repeat verbatim (moving the anchor, refreshing the row, holding or
  recording unattributed movement) are functions on the common part. Errors are the texts of the
  \<open>anyhow\<close> errors.
\<close>

section \<open>Rows and observations\<close>

record window_observation =
  wo_plan :: string
  wo_resets_at :: i64
  wo_observed_at :: i64
  wo_used_fraction_units :: i64
  wo_measurement_resolution_fraction_units :: i64
  wo_spend_nano :: i64

record window_row =
  wr_plan :: string
  wr_resets_at :: i64
  wr_anchor_used_fraction_units :: i64
  wr_anchor_resolution_fraction_units :: i64
  wr_anchor_spend_nano :: i64
  wr_used_fraction_units :: i64
  wr_measurement_resolution_fraction_units :: i64
  wr_observed_at :: i64
  wr_observed_fraction_units :: i64
  wr_observed_spend_nano :: i64
  wr_samples :: i64
  wr_unattributed_fraction_units :: i64
  wr_current_capacity_nano :: "i64 option"
  wr_current_low_nano :: "i64 option"
  wr_current_high_nano :: "i64 option"
  wr_current_confidence_bp :: i64
  wr_last_measured_at :: "i64 option"
  wr_estimator_version :: i64
  wr_version :: i64
  wr_updated_ts :: i64

record gemini_observation = window_observation +
  go_profile_id :: string
  go_bucket_id :: string
  go_window_kind :: string
  go_window_duration_mins :: i64
  go_observation_source :: string
  go_source_request_id :: "string option"

record gemini_window_row = window_row +
  gr_profile_id :: string
  gr_bucket_id :: string
  gr_window_kind :: string
  gr_window_duration_mins :: i64

record anthropic_observation = window_observation +
  ao_subject_id :: string
  ao_window_kind :: string
  ao_window_duration_mins :: i64
  ao_observation_source :: string
  ao_source_request_id :: "string option"

record anthropic_window_row = window_row +
  ar_subject_id :: string
  ar_window_kind :: string
  ar_window_duration_mins :: i64

record kimi_observation = window_observation +
  ko_subject_id :: string
  ko_window_duration_secs :: i64
  ko_window_name :: "string option"
  ko_native_used_units :: i64
  ko_native_limit_units :: i64

record kimi_window_row = window_row +
  kr_subject_id :: string
  kr_window_duration_secs :: i64
  kr_window_name :: "string option"
  kr_native_limit_units :: i64
  kr_native_used_units :: i64

section \<open>What the three sources repeat\<close>

text \<open>The common columns of \<open>anchor\<close>; the arguments are the estimator version and the columns of
  the extension.\<close>

definition anchored_row :: "i64 \<Rightarrow> 'o window_observation_scheme \<Rightarrow> 'r \<Rightarrow> 'r window_row_scheme" where
  "anchored_row estimator_version ob identity =
   \<lparr>wr_plan = wo_plan ob,
    wr_resets_at = wo_resets_at ob,
    wr_anchor_used_fraction_units = wo_used_fraction_units ob,
    wr_anchor_resolution_fraction_units = wo_measurement_resolution_fraction_units ob,
    wr_anchor_spend_nano = wo_spend_nano ob,
    wr_used_fraction_units = wo_used_fraction_units ob,
    wr_measurement_resolution_fraction_units = wo_measurement_resolution_fraction_units ob,
    wr_observed_at = wo_observed_at ob,
    wr_observed_fraction_units = 0,
    wr_observed_spend_nano = 0,
    wr_samples = 0,
    wr_unattributed_fraction_units = 0,
    wr_current_capacity_nano = None,
    wr_current_low_nano = None,
    wr_current_high_nano = None,
    wr_current_confidence_bp = 0,
    wr_last_measured_at = None,
    wr_estimator_version = estimator_version,
    wr_version = 0,
    wr_updated_ts = wo_observed_at ob,
    \<dots> = identity\<rparr>"

definition advance_anchor ::
  "'o window_observation_scheme \<Rightarrow> 'r window_row_scheme \<Rightarrow> 'r window_row_scheme" where
  "advance_anchor ob r = r\<lparr>
     wr_anchor_used_fraction_units := wo_used_fraction_units ob,
     wr_anchor_resolution_fraction_units := wo_measurement_resolution_fraction_units ob,
     wr_anchor_spend_nano := wo_spend_nano ob\<rparr>"

text \<open>The reading of an observation inside the window.\<close>

definition refresh_reading ::
  "'o window_observation_scheme \<Rightarrow> 'r window_row_scheme \<Rightarrow> 'r window_row_scheme" where
  "refresh_reading ob r = r\<lparr>
     wr_resets_at := max (wr_resets_at r) (wo_resets_at ob),
     wr_used_fraction_units := wo_used_fraction_units ob,
     wr_measurement_resolution_fraction_units := wo_measurement_resolution_fraction_units ob,
     wr_observed_at := wo_observed_at ob,
     wr_updated_ts := wo_observed_at ob\<rparr>"

definition begin_window ::
  "'o window_observation_scheme \<Rightarrow> 'r window_row_scheme \<Rightarrow> 'r window_row_scheme" where
  "begin_window ob r = (advance_anchor ob (r\<lparr>wr_resets_at := wo_resets_at ob\<rparr>))\<lparr>
     wr_used_fraction_units := wo_used_fraction_units ob,
     wr_measurement_resolution_fraction_units := wo_measurement_resolution_fraction_units ob,
     wr_observed_at := wo_observed_at ob,
     wr_updated_ts := wo_observed_at ob\<rparr>"

text \<open>The movement of the reset over the stored one, and the two tests on it.\<close>

definition reset_delta :: "'o window_observation_scheme \<Rightarrow> 'r window_row_scheme \<Rightarrow> i128" where
  "reset_delta ob r = wo_resets_at ob - wr_resets_at r"

definition window_rolled ::
  "i128 \<Rightarrow> 'o window_observation_scheme \<Rightarrow> 'r window_row_scheme \<Rightarrow> bool" where
  "window_rolled duration_secs ob r \<longleftrightarrow>
     reset_boundary duration_secs \<le> reset_delta ob r
     \<or> wo_used_fraction_units ob < wr_anchor_used_fraction_units r
        \<and> jitter_tolerance duration_secs \<le> reset_delta ob r"

definition window_regressed ::
  "i128 \<Rightarrow> 'o window_observation_scheme \<Rightarrow> 'r window_row_scheme \<Rightarrow> bool" where
  "window_regressed duration_secs ob r \<longleftrightarrow> reset_delta ob r \<le> - reset_boundary duration_secs"

text \<open>
  Quota movement without spend: held once, recorded as unattributed when the same reading is seen
  again. \<open>previous\<close> is the row before its reading was refreshed.
\<close>

definition hold_or_record_unattributed ::
  "string \<Rightarrow> 'o window_observation_scheme \<Rightarrow> 'r window_row_scheme \<Rightarrow> i64 \<Rightarrow> 'r window_row_scheme
     \<Rightarrow> string + 'r window_row_scheme" where
  "hold_or_record_unattributed p ob previous delta_used r =
   (if wr_used_fraction_units previous = wo_used_fraction_units ob
       \<and> wr_observed_at previous < wo_observed_at ob
    then bind_res (ok_or (p @ '' unattributed fraction overflow'')
             (checked_add_i64 (wr_unattributed_fraction_units r) delta_used)) (\<lambda>u.
           Inr (advance_anchor ob (r\<lparr>wr_unattributed_fraction_units := u\<rparr>)))
    else Inr r)"

text \<open>Adding a completed interval to the totals, moving the anchor and stamping the measurement.\<close>

definition add_interval ::
  "string \<Rightarrow> 'o window_observation_scheme \<Rightarrow> i64 \<Rightarrow> i64 \<Rightarrow> 'r window_row_scheme
     \<Rightarrow> string + 'r window_row_scheme" where
  "add_interval p ob delta_used delta_spend r =
   bind_res (ok_or (p @ '' observed fraction overflow'')
       (checked_add_i64 (wr_observed_fraction_units r) delta_used)) (\<lambda>fraction.
   bind_res (ok_or (p @ '' observed spend overflow'')
       (checked_add_i64 (wr_observed_spend_nano r) delta_spend)) (\<lambda>spend.
   bind_res (ok_or (p @ '' calibration sample overflow'')
       (checked_add_i64 (wr_samples r) 1)) (\<lambda>samples.
   Inr ((advance_anchor ob (r\<lparr>
          wr_observed_fraction_units := fraction,
          wr_observed_spend_nano := spend,
          wr_samples := samples\<rparr>))\<lparr>wr_last_measured_at := Some (wo_observed_at ob)\<rparr>))))"

section \<open>Gemini and Anthropic\<close>

definition interval_fraction_uncertainty :: "i64 \<Rightarrow> i64 \<Rightarrow> i64" where
  "interval_fraction_uncertainty anchor_resolution observed_resolution =
     max (trunc_div (sat_add_i64 (sat_add_i64 anchor_resolution observed_resolution) 1) 2) 1"

definition blend_overflow :: "string \<Rightarrow> string" where
  "blend_overflow p = p @ '' calibration result exceeds bigint''"

definition update_workload_envelope ::
  "string \<Rightarrow> i64 \<Rightarrow> i64 \<Rightarrow> i64 \<Rightarrow> 'r window_row_scheme \<Rightarrow> string + 'r window_row_scheme" where
  "update_workload_envelope p delta_used uncertainty delta_spend r =
   bind_res (workload_envelope p (blend_overflow p) (blend_ceil p)
       (wr_current_low_nano r) (wr_current_high_nano r) (wr_samples r)
       delta_used uncertainty delta_spend) (\<lambda>(low, high).
   Inr (r\<lparr>wr_current_low_nano := Some low, wr_current_high_nano := high\<rparr>))"

definition blend_recompute :: "string \<Rightarrow> 'r window_row_scheme \<Rightarrow> string + 'r window_row_scheme" where
  "blend_recompute p r =
   (let denominator = wr_observed_fraction_units r;
        samples = wr_samples r;
        resolution = max (wr_measurement_resolution_fraction_units r)
                         (wr_anchor_resolution_fraction_units r)
    in if denominator \<le> 0 then Inr r
       else
         bind_res (ok_or (p @ '' capacity numerator overflow'')
             (checked_mul_i128 CALIBRATION_SCALE (wr_observed_spend_nano r))) (\<lambda>numerator.
         bind_res (blend_round p numerator denominator) (\<lambda>rounded.
         bind_res (calibration_i64 (blend_overflow p) rounded) (\<lambda>capacity.
         bind_res (confidence p (blend_overflow p) (blend_ratio_bp p) samples
             (wr_current_low_nano r) (wr_current_high_nano r) denominator
             (bind_res (ok_or (p @ '' confidence resolution overflow'')
                (Option.bind (checked_mul_i128 resolution 2) (\<lambda>value.
                 checked_mul_i128 value samples))) (\<lambda>width.
              ok_or (p @ '' confidence denominator overflow'')
                (checked_add_i128 denominator width)))) (\<lambda>confidence_bp.
         Inr (r\<lparr>wr_current_capacity_nano := Some capacity,
                wr_current_confidence_bp := confidence_bp\<rparr>))))))"

definition blend_sample ::
  "string \<Rightarrow> 'o window_observation_scheme \<Rightarrow> i64 \<Rightarrow> i64 \<Rightarrow> 'r window_row_scheme
     \<Rightarrow> string + 'r window_row_scheme" where
  "blend_sample p ob delta_used delta_spend r =
   (let uncertainty = interval_fraction_uncertainty (wr_anchor_resolution_fraction_units r)
                        (wo_measurement_resolution_fraction_units ob)
    in bind_res (update_workload_envelope p delta_used uncertainty delta_spend r) (\<lambda>r1.
       bind_res (add_interval p ob delta_used delta_spend r1) (blend_recompute p)))"

text \<open>The source of an observation: a response names its request, a poll names none.\<close>

definition valid_source :: "string \<Rightarrow> string option \<Rightarrow> bool" where
  "valid_source source request_id \<longleftrightarrow>
     (if source = ''response'' then (case request_id of Some r \<Rightarrow> r \<noteq> [] | None \<Rightarrow> False)
      else if source = ''poll'' then request_id = None
      else False)"

definition valid_reading :: "'o window_observation_scheme \<Rightarrow> bool" where
  "valid_reading ob \<longleftrightarrow>
     0 < wo_resets_at ob \<and> 0 < wo_observed_at ob
     \<and> 0 \<le> wo_used_fraction_units ob \<and> wo_used_fraction_units ob \<le> CALIBRATION_SCALE
     \<and> 1 \<le> wo_measurement_resolution_fraction_units ob
     \<and> wo_measurement_resolution_fraction_units ob \<le> CALIBRATION_SCALE
     \<and> 0 \<le> wo_spend_nano ob"

text \<open>
  The checks \<open>validate_gemini_exact_calibration_row\<close> and
  \<open>validate_anthropic_calibration_row\<close> make of the common columns.
\<close>

definition empty_evidence :: "'r window_row_scheme \<Rightarrow> bool" where
  "empty_evidence r \<longleftrightarrow>
     wr_samples r = 0 \<and> wr_observed_fraction_units r = 0 \<and> wr_observed_spend_nano r = 0
     \<and> wr_current_capacity_nano r = None \<and> wr_current_low_nano r = None
     \<and> wr_current_high_nano r = None \<and> wr_current_confidence_bp r = 0
     \<and> wr_last_measured_at r = None"

definition measured_evidence :: "'r window_row_scheme \<Rightarrow> bool" where
  "measured_evidence r \<longleftrightarrow>
     0 < wr_samples r \<and> 0 < wr_observed_fraction_units r \<and> 0 < wr_observed_spend_nano r
     \<and> wr_current_capacity_nano r \<noteq> None \<and> wr_current_low_nano r \<noteq> None
     \<and> wr_last_measured_at r \<noteq> None"

fun some_and :: "i64 option \<Rightarrow> (i64 \<Rightarrow> bool) \<Rightarrow> bool" where
  "some_and None P = False"
| "some_and (Some x) P = P x"

fun both_and :: "i64 option \<Rightarrow> i64 option \<Rightarrow> (i64 \<Rightarrow> i64 \<Rightarrow> bool) \<Rightarrow> bool" where
  "both_and (Some x) (Some y) P = P x y"
| "both_and _ _ P = False"

definition evidence_invalid :: "'r window_row_scheme \<Rightarrow> bool" where
  "evidence_invalid r \<longleftrightarrow>
     wr_resets_at r \<le> 0
     \<or> \<not> (0 \<le> wr_anchor_used_fraction_units r \<and> wr_anchor_used_fraction_units r \<le> 100000000)
     \<or> \<not> (1 \<le> wr_anchor_resolution_fraction_units r \<and> wr_anchor_resolution_fraction_units r \<le> 100000000)
     \<or> wr_anchor_spend_nano r < 0
     \<or> \<not> (0 \<le> wr_used_fraction_units r \<and> wr_used_fraction_units r \<le> 100000000)
     \<or> \<not> (1 \<le> wr_measurement_resolution_fraction_units r
           \<and> wr_measurement_resolution_fraction_units r \<le> 100000000)
     \<or> wr_observed_at r \<le> 0
     \<or> wr_observed_fraction_units r < 0
     \<or> wr_observed_spend_nano r < 0
     \<or> wr_samples r < 0
     \<or> wr_unattributed_fraction_units r < 0
     \<or> some_and (wr_current_capacity_nano r) (\<lambda>value. value < 0)
     \<or> some_and (wr_current_low_nano r) (\<lambda>value. value < 0)
     \<or> some_and (wr_current_high_nano r) (\<lambda>value. value < 0)
     \<or> both_and (wr_current_low_nano r) (wr_current_capacity_nano r) (\<lambda>low capacity. capacity < low)
     \<or> both_and (wr_current_high_nano r) (wr_current_capacity_nano r) (\<lambda>high capacity. high < capacity)
     \<or> both_and (wr_current_low_nano r) (wr_current_high_nano r) (\<lambda>low high. high < low)
     \<or> \<not> (0 \<le> wr_current_confidence_bp r \<and> wr_current_confidence_bp r \<le> 10000)
     \<or> some_and (wr_last_measured_at r) (\<lambda>value. value \<le> 0)
     \<or> wr_estimator_version r \<le> 0
     \<or> wr_version r < 0
     \<or> wr_updated_ts r \<le> 0
     \<or> \<not> (empty_evidence r \<or> measured_evidence r)
     \<or> wr_current_high_nano r = None \<and> wr_current_confidence_bp r \<noteq> 0"

end
