(* ===== verification/Calibration_Blend.thy ===== *)
theory Calibration_Blend
  imports Calibration_Windows
begin

text \<open>
  The Gemini and Anthropic estimators: one observation, replay of a history, the change of
  estimator version, the row and pair checks of the registry that guard what is stored, and one
  round of the writer that stores an observation (\<open>observe_gemini_postgres\<close> and
  \<open>observe_anthropic_postgres\<close> of \<open>crates/forward/src/billing.rs\<close>; the stored row, the stored
  history and the outcome of the compare-and-swap are arguments).
\<close>

section \<open>Gemini\<close>

definition GEMINI_ESTIMATOR_VERSION :: i64 where
  "GEMINI_ESTIMATOR_VERSION = 3"

record gemini_bucket_contract =
  gbc_id :: string
  gbc_kind :: string
  gbc_duration_mins :: i64

definition GEMINI_FIVE_HOUR :: gemini_bucket_contract where
  "GEMINI_FIVE_HOUR = \<lparr>gbc_id = ''gemini-5h'', gbc_kind = ''5h'', gbc_duration_mins = 300\<rparr>"

definition GEMINI_WEEKLY :: gemini_bucket_contract where
  "GEMINI_WEEKLY = \<lparr>gbc_id = ''gemini-weekly'', gbc_kind = ''weekly'', gbc_duration_mins = 10080\<rparr>"

definition gemini_calibration_bucket :: "string \<Rightarrow> gemini_bucket_contract option" where
  "gemini_calibration_bucket bucket_id =
     (if bucket_id = ''gemini-5h'' then Some GEMINI_FIVE_HOUR
      else if bucket_id = ''gemini-weekly'' then Some GEMINI_WEEKLY
      else None)"

definition gemini_validate_observation :: "gemini_observation \<Rightarrow> string + unit" where
  "gemini_validate_observation ob =
   bind_res (ok_or ''unknown Gemini calibration bucket''
       (gemini_calibration_bucket (go_bucket_id ob))) (\<lambda>contract.
   if go_profile_id ob = [] \<or> wo_plan ob = []
      \<or> go_window_kind ob \<noteq> gbc_kind contract
      \<or> go_window_duration_mins ob \<noteq> gbc_duration_mins contract
      \<or> \<not> valid_reading ob
      \<or> \<not> valid_source (go_observation_source ob) (go_source_request_id ob)
   then Inl ''invalid Gemini calibration observation''
   else Inr ())"

definition valid_gemini_exact_window :: "string \<Rightarrow> string \<Rightarrow> i64 \<Rightarrow> bool" where
  "valid_gemini_exact_window bucket_id kind duration_mins \<longleftrightarrow>
     bucket_id = ''gemini-5h'' \<and> kind = ''5h'' \<and> duration_mins = 300
     \<or> bucket_id = ''gemini-weekly'' \<and> kind = ''weekly'' \<and> duration_mins = 10080"

definition validate_gemini_exact_calibration_row :: "gemini_window_row \<Rightarrow> string + unit" where
  "validate_gemini_exact_calibration_row r =
   (if gr_profile_id r = [] \<or> wr_plan r = []
       \<or> \<not> valid_gemini_exact_window (gr_bucket_id r) (gr_window_kind r) (gr_window_duration_mins r)
       \<or> evidence_invalid r
    then Inl ''invalid exact Gemini calibration row''
    else Inr ())"

definition gemini_validate_row :: "gemini_window_row \<Rightarrow> string + unit" where
  "gemini_validate_row r =
   bind_res (validate_gemini_exact_calibration_row r) (\<lambda>_.
   if wr_estimator_version r \<noteq> GEMINI_ESTIMATOR_VERSION
   then Inl ''Gemini calibration estimator version mismatch''
   else Inr ())"

definition gemini_anchor :: "gemini_observation \<Rightarrow> string + gemini_window_row" where
  "gemini_anchor ob =
   bind_res (gemini_validate_observation ob) (\<lambda>_.
   Inr (anchored_row GEMINI_ESTIMATOR_VERSION ob
     \<lparr>gr_profile_id = go_profile_id ob, gr_bucket_id = go_bucket_id ob,
      gr_window_kind = go_window_kind ob, gr_window_duration_mins = go_window_duration_mins ob\<rparr>))"

definition gemini_same_window :: "gemini_observation \<Rightarrow> gemini_window_row \<Rightarrow> bool" where
  "gemini_same_window ob r \<longleftrightarrow>
     go_profile_id ob = gr_profile_id r \<and> wo_plan ob = wr_plan r
     \<and> go_bucket_id ob = gr_bucket_id r \<and> go_window_kind ob = gr_window_kind r
     \<and> go_window_duration_mins ob = gr_window_duration_mins r"

definition gemini_observe :: "gemini_observation \<Rightarrow> gemini_window_row \<Rightarrow> string + gemini_window_row" where
  "gemini_observe ob r =
   bind_res (gemini_validate_observation ob) (\<lambda>_.
   if \<not> gemini_same_window ob r then Inl ''Gemini calibration observation identity mismatch''
   else if wo_observed_at ob < wr_observed_at r then Inr r
   else if wr_estimator_version r \<noteq> GEMINI_ESTIMATOR_VERSION
   then Inl ''Gemini calibration estimator version mismatch''
   else if wo_spend_nano ob < wr_anchor_spend_nano r
   then Inl ''Gemini cumulative calibration spend regressed''
   else let duration_secs = gr_window_duration_mins r * 60 in
     if window_rolled duration_secs ob r then Inr (begin_window ob r)
     else if window_regressed duration_secs ob r then Inr r
     else let seen = refresh_reading ob r;
              delta_used = wrap_i64 (wo_used_fraction_units ob - wr_anchor_used_fraction_units r) in
       if delta_used \<le> 0 then Inr seen
       else let delta_spend = wrap_i64 (wo_spend_nano ob - wr_anchor_spend_nano r) in
         if delta_spend = 0 then hold_or_record_unattributed ''Gemini'' ob r delta_used seen
         else blend_sample ''Gemini'' ob delta_used delta_spend seen)"

definition gemini_apply_observation ::
  "gemini_window_row option \<Rightarrow> gemini_observation \<Rightarrow> string + gemini_window_row" where
  "gemini_apply_observation existing ob =
   (let version = (case existing of None \<Rightarrow> 0 | Some r \<Rightarrow> wr_version r)
    in bind_res
         (case existing of
            Some r \<Rightarrow>
              if wr_estimator_version r = GEMINI_ESTIMATOR_VERSION
              then bind_res (gemini_validate_row r) (\<lambda>_. Inr r)
              else gemini_anchor ob
          | None \<Rightarrow> gemini_anchor ob) (\<lambda>calibration.
       let row = calibration\<lparr>wr_version := version\<rparr>
       in if wr_observed_at row \<le> wo_observed_at ob then gemini_observe ob row else Inr row))"

fun gemini_replay_rest ::
  "gemini_observation \<Rightarrow> gemini_window_row \<Rightarrow> gemini_observation list \<Rightarrow> string + gemini_window_row" where
  "gemini_replay_rest first r [] = Inr r"
| "gemini_replay_rest first r (ob # obs) =
     (if go_profile_id ob \<noteq> go_profile_id first \<or> wo_plan ob \<noteq> wo_plan first
         \<or> go_bucket_id ob \<noteq> go_bucket_id first \<or> go_window_kind ob \<noteq> go_window_kind first
         \<or> go_window_duration_mins ob \<noteq> go_window_duration_mins first
      then Inl ''mixed identity in Gemini calibration history''
      else bind_res (gemini_observe ob r) (\<lambda>r'. gemini_replay_rest first r' obs))"

definition gemini_replay_observations ::
  "gemini_observation list \<Rightarrow> i64 \<Rightarrow> string + gemini_window_row option" where
  "gemini_replay_observations observations version =
   (case observations of
      [] \<Rightarrow> Inr None
    | first # obs \<Rightarrow>
        bind_res (gemini_anchor first) (\<lambda>r.
        bind_res (gemini_replay_rest first (r\<lparr>wr_version := version\<rparr>) obs) (\<lambda>r'.
        Inr (Some r'))))"

definition gemini_apply_observation_with_history ::
  "gemini_window_row option \<Rightarrow> gemini_observation list \<Rightarrow> gemini_observation \<Rightarrow> string + gemini_window_row" where
  "gemini_apply_observation_with_history existing history ob =
   (case existing of
      None \<Rightarrow> gemini_apply_observation existing ob
    | Some r \<Rightarrow>
        if wr_estimator_version r = GEMINI_ESTIMATOR_VERSION
        then gemini_apply_observation existing ob
        else bind_res (gemini_replay_observations history (wr_version r)) (\<lambda>rebuilt.
             bind_res (ok_or ''missing immutable history for Gemini estimator rebuild'' rebuilt)
               (\<lambda>row. gemini_apply_observation (Some row) ob)))"

subsection \<open>Reading the estimate\<close>

record capacity_estimate =
  ce_capacity_nano :: i64
  ce_low_nano :: "i64 option"
  ce_high_nano :: "i64 option"
  ce_confidence_bp :: i64
  ce_measured_at :: i64
  ce_source :: string

definition gemini_estimate :: "gemini_window_row \<Rightarrow> capacity_estimate option" where
  "gemini_estimate r =
   map_option (\<lambda>capacity_nano.
     \<lparr>ce_capacity_nano = capacity_nano, ce_low_nano = wr_current_low_nano r,
      ce_high_nano = wr_current_high_nano r, ce_confidence_bp = wr_current_confidence_bp r,
      ce_measured_at = (case wr_last_measured_at r of None \<Rightarrow> wr_observed_at r | Some t \<Rightarrow> t),
      ce_source = ''workload_blend''\<rparr>) (wr_current_capacity_nano r)"

definition remaining_for_capacity :: "i64 \<Rightarrow> i64 \<Rightarrow> i64 option" where
  "remaining_for_capacity capacity_nano used_fraction_units =
   (let unused = CALIBRATION_SCALE - max 0 (min CALIBRATION_SCALE used_fraction_units)
    in Option.bind
         (Option.bind (checked_mul_i128 capacity_nano unused)
            (\<lambda>value. checked_div_i128 value CALIBRATION_SCALE))
         i64_try_from)"

definition gemini_remaining_nano :: "gemini_window_row \<Rightarrow> i64 \<Rightarrow> i64 option" where
  "gemini_remaining_nano r used =
   Option.bind (gemini_estimate r) (\<lambda>e. remaining_for_capacity (ce_capacity_nano e) used)"

definition gemini_remaining_low_nano :: "gemini_window_row \<Rightarrow> i64 \<Rightarrow> i64 option" where
  "gemini_remaining_low_nano r used =
   Option.bind (gemini_estimate r) (\<lambda>e.
   Option.bind (ce_low_nano e) (\<lambda>capacity. remaining_for_capacity capacity used))"

definition gemini_remaining_high_nano :: "gemini_window_row \<Rightarrow> i64 \<Rightarrow> i64 option" where
  "gemini_remaining_high_nano r used =
   Option.bind (gemini_estimate r) (\<lambda>e.
   Option.bind (ce_high_nano e) (\<lambda>capacity. remaining_for_capacity capacity used))"

subsection \<open>Storing an observation\<close>

definition validate_gemini_exact_window_observation :: "gemini_observation \<Rightarrow> string + unit" where
  "validate_gemini_exact_window_observation ob =
   (if go_profile_id ob = [] \<or> wo_plan ob = []
       \<or> \<not> valid_gemini_exact_window (go_bucket_id ob) (go_window_kind ob) (go_window_duration_mins ob)
       \<or> \<not> valid_reading ob
       \<or> \<not> valid_source (go_observation_source ob) (go_source_request_id ob)
    then Inl ''invalid exact Gemini calibration observation''
    else Inr ())"

definition same_reading :: "'r window_row_scheme \<Rightarrow> 'o window_observation_scheme \<Rightarrow> bool" where
  "same_reading r ob \<longleftrightarrow>
     wr_resets_at r = wo_resets_at ob
     \<and> wr_used_fraction_units r = wo_used_fraction_units ob
     \<and> wr_measurement_resolution_fraction_units r = wo_measurement_resolution_fraction_units ob
     \<and> wr_observed_at r = wo_observed_at ob
     \<and> wr_updated_ts r = wo_observed_at ob"

definition validate_gemini_exact_calibration_pair ::
  "gemini_window_row \<Rightarrow> gemini_observation \<Rightarrow> string + unit" where
  "validate_gemini_exact_calibration_pair r ob =
   bind_res (validate_gemini_exact_calibration_row r) (\<lambda>_.
   bind_res (validate_gemini_exact_window_observation ob) (\<lambda>_.
   if \<not> gemini_same_window ob r \<or> \<not> same_reading r ob
   then Inl ''exact Gemini calibration state/observation mismatch''
   else Inr ()))"

definition equal_second_reading :: "'r window_row_scheme \<Rightarrow> 'o window_observation_scheme \<Rightarrow> bool" where
  "equal_second_reading r ob \<longleftrightarrow>
     wo_observed_at ob = wr_observed_at r
     \<and> wo_resets_at ob = wr_resets_at r
     \<and> wo_used_fraction_units ob = wr_used_fraction_units r
     \<and> wo_measurement_resolution_fraction_units ob = wr_measurement_resolution_fraction_units r"

definition gemini_observation_is_stale_or_duplicate :: "gemini_window_row \<Rightarrow> gemini_observation \<Rightarrow> bool" where
  "gemini_observation_is_stale_or_duplicate r ob \<longleftrightarrow>
     wo_observed_at ob < wr_observed_at r
     \<or> equal_second_reading r ob
        \<and> \<not> (wr_anchor_used_fraction_units r < wr_used_fraction_units r
              \<and> wr_anchor_spend_nano r < wo_spend_nano ob)"

text \<open>One round of the writer: \<open>None\<close> is a lost compare-and-swap, after which it reads again.\<close>

definition observe_gemini_round ::
  "(gemini_window_row \<Rightarrow> i64 option) \<Rightarrow> gemini_window_row option \<Rightarrow> gemini_observation list \<Rightarrow> gemini_observation
     \<Rightarrow> string + gemini_window_row option" where
  "observe_gemini_round swap existing stored ob =
   (if (case existing of
          Some r \<Rightarrow> wr_estimator_version r = GEMINI_ESTIMATOR_VERSION
                    \<and> gemini_observation_is_stale_or_duplicate r ob
        | None \<Rightarrow> False)
    then Inr existing
    else
      let history = (case existing of
                       Some r \<Rightarrow> if wr_estimator_version r \<noteq> GEMINI_ESTIMATOR_VERSION then stored else []
                     | None \<Rightarrow> [])
      in bind_res (gemini_apply_observation_with_history existing history ob) (\<lambda>state.
         bind_res (validate_gemini_exact_calibration_pair state ob) (\<lambda>_.
         Inr (map_option (\<lambda>version. state\<lparr>wr_version := version\<rparr>) (swap state)))))"

section \<open>Anthropic\<close>

definition ANTHROPIC_ESTIMATOR_VERSION :: i64 where
  "ANTHROPIC_ESTIMATOR_VERSION = 1"

definition valid_anthropic_window :: "string \<Rightarrow> i64 \<Rightarrow> bool" where
  "valid_anthropic_window kind duration_mins \<longleftrightarrow>
     kind = ''5h'' \<and> duration_mins = 300 \<or> kind = ''7d'' \<and> duration_mins = 10080"

definition anthropic_validate_observation :: "anthropic_observation \<Rightarrow> string + unit" where
  "anthropic_validate_observation ob =
   (if ao_subject_id ob = [] \<or> wo_plan ob = []
       \<or> \<not> valid_anthropic_window (ao_window_kind ob) (ao_window_duration_mins ob)
       \<or> \<not> valid_reading ob
       \<or> \<not> valid_source (ao_observation_source ob) (ao_source_request_id ob)
    then Inl ''invalid Anthropic calibration observation''
    else Inr ())"

definition validate_anthropic_calibration_row :: "anthropic_window_row \<Rightarrow> string + unit" where
  "validate_anthropic_calibration_row r =
   (if ar_subject_id r = [] \<or> wr_plan r = []
       \<or> \<not> valid_anthropic_window (ar_window_kind r) (ar_window_duration_mins r)
       \<or> evidence_invalid r
    then Inl ''invalid Anthropic calibration row''
    else Inr ())"

definition anthropic_validate_row :: "anthropic_window_row \<Rightarrow> string + unit" where
  "anthropic_validate_row r =
   bind_res (validate_anthropic_calibration_row r) (\<lambda>_.
   if wr_estimator_version r \<noteq> ANTHROPIC_ESTIMATOR_VERSION
   then Inl ''Anthropic calibration estimator version mismatch''
   else Inr ())"

definition anthropic_anchor :: "anthropic_observation \<Rightarrow> string + anthropic_window_row" where
  "anthropic_anchor ob =
   bind_res (anthropic_validate_observation ob) (\<lambda>_.
   Inr (anchored_row ANTHROPIC_ESTIMATOR_VERSION ob
     \<lparr>ar_subject_id = ao_subject_id ob, ar_window_kind = ao_window_kind ob,
      ar_window_duration_mins = ao_window_duration_mins ob\<rparr>))"

definition anthropic_same_window :: "anthropic_observation \<Rightarrow> anthropic_window_row \<Rightarrow> bool" where
  "anthropic_same_window ob r \<longleftrightarrow>
     ao_subject_id ob = ar_subject_id r \<and> wo_plan ob = wr_plan r
     \<and> ao_window_kind ob = ar_window_kind r
     \<and> ao_window_duration_mins ob = ar_window_duration_mins r"

definition anthropic_observe ::
  "anthropic_observation \<Rightarrow> anthropic_window_row \<Rightarrow> string + anthropic_window_row" where
  "anthropic_observe ob r =
   bind_res (anthropic_validate_observation ob) (\<lambda>_.
   if \<not> anthropic_same_window ob r then Inl ''Anthropic calibration observation identity mismatch''
   else if wo_observed_at ob < wr_observed_at r then Inr r
   else if wr_estimator_version r \<noteq> ANTHROPIC_ESTIMATOR_VERSION
   then Inl ''Anthropic calibration estimator version mismatch''
   else let duration_secs = ar_window_duration_mins r * 60 in
     if window_rolled duration_secs ob r then Inr (begin_window ob r)
     else if window_regressed duration_secs ob r then Inr r
     else let seen = refresh_reading ob r;
              delta_used = wrap_i64 (wo_used_fraction_units ob - wr_anchor_used_fraction_units r) in
       if delta_used \<le> 0 \<or> wo_spend_nano ob < wr_anchor_spend_nano r then Inr seen
       else let delta_spend = wrap_i64 (wo_spend_nano ob - wr_anchor_spend_nano r) in
         if delta_spend = 0 then hold_or_record_unattributed ''Anthropic'' ob r delta_used seen
         else blend_sample ''Anthropic'' ob delta_used delta_spend seen)"

definition anthropic_apply_observation ::
  "anthropic_window_row option \<Rightarrow> anthropic_observation \<Rightarrow> string + anthropic_window_row" where
  "anthropic_apply_observation existing ob =
   (let version = (case existing of None \<Rightarrow> 0 | Some r \<Rightarrow> wr_version r)
    in bind_res
         (case existing of
            Some r \<Rightarrow>
              if wr_estimator_version r = ANTHROPIC_ESTIMATOR_VERSION
              then bind_res (anthropic_validate_row r) (\<lambda>_. Inr r)
              else anthropic_anchor ob
          | None \<Rightarrow> anthropic_anchor ob) (\<lambda>calibration.
       let row = calibration\<lparr>wr_version := version\<rparr>
       in if wr_observed_at row \<le> wo_observed_at ob then anthropic_observe ob row else Inr row))"

fun anthropic_replay_rest ::
  "anthropic_observation \<Rightarrow> anthropic_window_row \<Rightarrow> anthropic_observation list \<Rightarrow> string + anthropic_window_row" where
  "anthropic_replay_rest first r [] = Inr r"
| "anthropic_replay_rest first r (ob # obs) =
     (if ao_subject_id ob = ao_subject_id first \<and> wo_plan ob = wo_plan first
         \<and> ao_window_kind ob = ao_window_kind first
         \<and> ao_window_duration_mins ob = ao_window_duration_mins first
      then bind_res (anthropic_observe ob r) (\<lambda>r'. anthropic_replay_rest first r' obs)
      else anthropic_replay_rest first r obs)"

definition anthropic_replay_observations ::
  "anthropic_observation list \<Rightarrow> i64 \<Rightarrow> string + anthropic_window_row option" where
  "anthropic_replay_observations observations version =
   (case observations of
      [] \<Rightarrow> Inr None
    | first # obs \<Rightarrow>
        bind_res (anthropic_anchor first) (\<lambda>r.
        bind_res (anthropic_replay_rest first (r\<lparr>wr_version := version\<rparr>) obs) (\<lambda>r'.
        Inr (Some r'))))"

definition anthropic_apply_observation_with_history ::
  "anthropic_window_row option \<Rightarrow> anthropic_observation list \<Rightarrow> anthropic_observation
     \<Rightarrow> string + anthropic_window_row" where
  "anthropic_apply_observation_with_history existing history ob =
   (case existing of
      None \<Rightarrow> anthropic_apply_observation existing ob
    | Some r \<Rightarrow>
        if wr_estimator_version r = ANTHROPIC_ESTIMATOR_VERSION
        then anthropic_apply_observation existing ob
        else bind_res (anthropic_replay_observations history (wr_version r)) (\<lambda>rebuilt.
             anthropic_apply_observation rebuilt ob))"

subsection \<open>Storing an observation\<close>

definition validate_anthropic_window_observation :: "anthropic_observation \<Rightarrow> string + unit" where
  "validate_anthropic_window_observation ob =
   (if ao_subject_id ob = [] \<or> wo_plan ob = []
       \<or> \<not> valid_anthropic_window (ao_window_kind ob) (ao_window_duration_mins ob)
       \<or> \<not> valid_reading ob
       \<or> \<not> valid_source (ao_observation_source ob) (ao_source_request_id ob)
    then Inl ''invalid Anthropic calibration observation''
    else Inr ())"

definition validate_anthropic_calibration_pair ::
  "anthropic_window_row \<Rightarrow> anthropic_observation \<Rightarrow> string + unit" where
  "validate_anthropic_calibration_pair r ob =
   bind_res (validate_anthropic_calibration_row r) (\<lambda>_.
   bind_res (validate_anthropic_window_observation ob) (\<lambda>_.
   if \<not> anthropic_same_window ob r \<or> \<not> same_reading r ob
   then Inl ''Anthropic calibration state/observation mismatch''
   else Inr ()))"

definition anthropic_observation_is_stale_or_duplicate ::
  "anthropic_window_row \<Rightarrow> anthropic_observation \<Rightarrow> bool" where
  "anthropic_observation_is_stale_or_duplicate r ob \<longleftrightarrow>
     wo_observed_at ob < wr_observed_at r \<or> equal_second_reading r ob"

definition observe_anthropic_round ::
  "(anthropic_window_row \<Rightarrow> i64 option) \<Rightarrow> anthropic_window_row option \<Rightarrow> anthropic_observation list
     \<Rightarrow> anthropic_observation \<Rightarrow> string + anthropic_window_row option" where
  "observe_anthropic_round swap existing stored ob =
   (if (case existing of
          Some r \<Rightarrow> wr_estimator_version r = ANTHROPIC_ESTIMATOR_VERSION
                    \<and> anthropic_observation_is_stale_or_duplicate r ob
        | None \<Rightarrow> False)
    then Inr existing
    else
      let history = (case existing of
                       Some r \<Rightarrow> if wr_estimator_version r \<noteq> ANTHROPIC_ESTIMATOR_VERSION then stored else []
                     | None \<Rightarrow> [])
      in bind_res (anthropic_apply_observation_with_history existing history ob) (\<lambda>state.
         bind_res (validate_anthropic_calibration_pair state ob) (\<lambda>_.
         Inr (map_option (\<lambda>version. state\<lparr>wr_version := version\<rparr>) (swap state)))))"

end
