(* ===== verification/Calibration_Invariants.thy ===== *)
theory Calibration_Invariants
  imports Calibration_Windows
begin

text \<open>
  The invariant of the rows, on their common columns: the readings are in range
  (\<open>reading_ok\<close>), the totals are those of the completed intervals (\<open>totals_are\<close>), and the
  published bounds and capacity are those the specification computes from them
  (\<open>blend_evidence\<close> for the per-interval envelope of Gemini and Anthropic). Every step of an
  estimator keeps it; the step that completes an interval appends it to the list.
\<close>

definition reading_ok :: "'r window_row_scheme \<Rightarrow> bool" where
  "reading_ok r \<longleftrightarrow>
     0 < wr_resets_at r
     \<and> 0 \<le> wr_anchor_used_fraction_units r \<and> wr_anchor_used_fraction_units r \<le> CALIBRATION_SCALE
     \<and> 1 \<le> wr_anchor_resolution_fraction_units r
     \<and> wr_anchor_resolution_fraction_units r \<le> CALIBRATION_SCALE
     \<and> 0 \<le> wr_anchor_spend_nano r \<and> wr_anchor_spend_nano r < 2 ^ 63
     \<and> 0 \<le> wr_used_fraction_units r \<and> wr_used_fraction_units r \<le> CALIBRATION_SCALE
     \<and> 1 \<le> wr_measurement_resolution_fraction_units r
     \<and> wr_measurement_resolution_fraction_units r \<le> CALIBRATION_SCALE
     \<and> 0 < wr_observed_at r \<and> 0 < wr_updated_ts r
     \<and> 0 \<le> wr_unattributed_fraction_units r \<and> 0 \<le> wr_version r"

definition totals_are :: "interval list \<Rightarrow> 'r window_row_scheme \<Rightarrow> bool" where
  "totals_are ivs r \<longleftrightarrow>
     (\<forall>i\<in>set ivs. interval_ok i)
     \<and> wr_observed_fraction_units r = total_used ivs \<and> total_used ivs < 2 ^ 63
     \<and> wr_observed_spend_nano r = total_spend ivs \<and> total_spend ivs < 2 ^ 63
     \<and> wr_samples r = int (length ivs)
     \<and> 0 \<le> wr_current_confidence_bp r \<and> wr_current_confidence_bp r \<le> 10000
     \<and> (if ivs = []
        then wr_last_measured_at r = None \<and> wr_current_capacity_nano r = None
             \<and> wr_current_confidence_bp r = 0
        else (\<exists>t>0. wr_last_measured_at r = Some t)
             \<and> wr_current_capacity_nano r = Some (blended_capacity ivs))"

definition blend_evidence :: "interval list \<Rightarrow> 'r window_row_scheme \<Rightarrow> bool" where
  "blend_evidence ivs r \<longleftrightarrow>
     totals_are ivs r
     \<and> wr_current_low_nano r = least_low ivs
     \<and> wr_current_high_nano r = greatest_high ivs
     \<and> (wr_current_high_nano r = None \<longrightarrow> wr_current_confidence_bp r = 0)"

section \<open>Readings\<close>

lemma valid_reading_bounds:
  assumes "valid_reading ob" "wo_spend_nano ob < 2 ^ 63"
  shows "0 < wo_resets_at ob" "0 < wo_observed_at ob" "0 \<le> wo_used_fraction_units ob"
    "wo_used_fraction_units ob \<le> CALIBRATION_SCALE" "1 \<le> wo_measurement_resolution_fraction_units ob"
    "wo_measurement_resolution_fraction_units ob \<le> CALIBRATION_SCALE" "0 \<le> wo_spend_nano ob"
    "wo_spend_nano ob < 9223372036854775808"
  using assms by (simp_all add: valid_reading_def)

lemma reading_ok_anchored [simp]:
  "valid_reading ob \<Longrightarrow> wo_spend_nano ob < 2 ^ 63 \<Longrightarrow> reading_ok (anchored_row v ob ext)"
  using valid_reading_bounds [of ob] by (simp add: reading_ok_def anchored_row_def)

lemma reading_ok_advance:
  "valid_reading ob \<Longrightarrow> wo_spend_nano ob < 2 ^ 63 \<Longrightarrow> reading_ok r \<Longrightarrow> reading_ok (advance_anchor ob r)"
  using valid_reading_bounds [of ob] by (simp add: reading_ok_def advance_anchor_def)

lemma reading_ok_begin [simp]:
  "valid_reading ob \<Longrightarrow> wo_spend_nano ob < 2 ^ 63 \<Longrightarrow> reading_ok r \<Longrightarrow> reading_ok (begin_window ob r)"
  using valid_reading_bounds [of ob] by (simp add: reading_ok_def begin_window_def advance_anchor_def)

lemma reading_ok_refresh [simp]:
  "valid_reading ob \<Longrightarrow> wo_spend_nano ob < 2 ^ 63 \<Longrightarrow> reading_ok r \<Longrightarrow> reading_ok (refresh_reading ob r)"
  using valid_reading_bounds [of ob] by (simp add: reading_ok_def refresh_reading_def)

lemma reading_ok_more: "reading_ok (r\<lparr>window_row.more := x\<rparr>) \<longleftrightarrow> reading_ok r"
  by (simp add: reading_ok_def)

lemma evidence_of_readings [simp]:
  "totals_are ivs (begin_window ob r) \<longleftrightarrow> totals_are ivs r"
  "totals_are ivs (refresh_reading ob r) \<longleftrightarrow> totals_are ivs r"
  "totals_are ivs (advance_anchor ob r) \<longleftrightarrow> totals_are ivs r"
  "totals_are ivs (r\<lparr>wr_unattributed_fraction_units := u\<rparr>) \<longleftrightarrow> totals_are ivs r"
  "totals_are ivs (r\<lparr>wr_version := v\<rparr>) \<longleftrightarrow> totals_are ivs r"
  "blend_evidence ivs (begin_window ob r) \<longleftrightarrow> blend_evidence ivs r"
  "blend_evidence ivs (refresh_reading ob r) \<longleftrightarrow> blend_evidence ivs r"
  "blend_evidence ivs (advance_anchor ob r) \<longleftrightarrow> blend_evidence ivs r"
  "blend_evidence ivs (r\<lparr>wr_unattributed_fraction_units := u\<rparr>) \<longleftrightarrow> blend_evidence ivs r"
  "blend_evidence ivs (r\<lparr>wr_version := v\<rparr>) \<longleftrightarrow> blend_evidence ivs r"
  by (simp_all add: blend_evidence_def totals_are_def begin_window_def refresh_reading_def
      advance_anchor_def)

lemma evidence_of_anchored [simp]:
  "totals_are [] (anchored_row v ob ext)" "blend_evidence [] (anchored_row v ob ext)"
  by (simp_all add: blend_evidence_def totals_are_def anchored_row_def least_low_def greatest_high_def)

lemma hold_cases:
  assumes "hold_or_record_unattributed p ob prev du r = Inr r'"
  obtains "r' = r"
  | u where "u = wr_unattributed_fraction_units r + du"
      "r' = advance_anchor ob (r\<lparr>wr_unattributed_fraction_units := u\<rparr>)"
  using assms by (auto simp: hold_or_record_unattributed_def checked_add_i64_def split: if_splits)

lemma hold_keeps:
  assumes "hold_or_record_unattributed p ob prev du r = Inr r'" "0 \<le> du" "valid_reading ob"
    "wo_spend_nano ob < 2 ^ 63"
  shows "reading_ok r \<Longrightarrow> reading_ok r'" "totals_are ivs r' \<longleftrightarrow> totals_are ivs r"
    "blend_evidence ivs r' \<longleftrightarrow> blend_evidence ivs r"
    "wr_estimator_version r' = wr_estimator_version r" "wr_plan r' = wr_plan r"
    "window_row.more r' = window_row.more r"
proof -
  have *: "reading_ok (r\<lparr>wr_unattributed_fraction_units := wr_unattributed_fraction_units r + du\<rparr>)"
    if "reading_ok r" using that assms(2) by (simp add: reading_ok_def)
  show "reading_ok r \<Longrightarrow> reading_ok r'" "totals_are ivs r' \<longleftrightarrow> totals_are ivs r"
    "blend_evidence ivs r' \<longleftrightarrow> blend_evidence ivs r"
    "wr_estimator_version r' = wr_estimator_version r" "wr_plan r' = wr_plan r"
    "window_row.more r' = window_row.more r"
    using assms(1) * assms(3,4)
    by (auto elim!: hold_cases simp: reading_ok_advance) (simp_all add: advance_anchor_def)
qed

section \<open>Completing an interval\<close>

lemma add_interval_cases:
  assumes "add_interval p ob du ds r = Inr r'"
  shows "in_i64 (wr_observed_fraction_units r + du)" "in_i64 (wr_observed_spend_nano r + ds)"
    "in_i64 (wr_samples r + 1)"
    "r' = (advance_anchor ob (r\<lparr>
            wr_observed_fraction_units := wr_observed_fraction_units r + du,
            wr_observed_spend_nano := wr_observed_spend_nano r + ds,
            wr_samples := wr_samples r + 1\<rparr>))\<lparr>wr_last_measured_at := Some (wo_observed_at ob)\<rparr>"
  using assms by (auto simp: add_interval_def checked_add_i64_def)

lemma uncertainty_range:
  assumes "1 \<le> a" "a \<le> CALIBRATION_SCALE" "1 \<le> b" "b \<le> CALIBRATION_SCALE"
  shows "interval_fraction_uncertainty a b = (a + b + 1) div 2"
    and "1 \<le> (a + b + 1) div 2" "(a + b + 1) div 2 \<le> CALIBRATION_SCALE"
proof -
  have "sat_add_i64 a b = a + b" "sat_add_i64 (a + b) 1 = a + b + 1"
    using assms by (simp_all add: sat_add_i64_def clamp_i64_def CALIBRATION_SCALE_def)
  moreover show "1 \<le> (a + b + 1) div 2" "(a + b + 1) div 2 \<le> CALIBRATION_SCALE"
    using assms by (simp_all add: CALIBRATION_SCALE_def)
  ultimately show "interval_fraction_uncertainty a b = (a + b + 1) div 2"
    using assms by (simp add: interval_fraction_uncertainty_def trunc_div_nonneg)
qed

lemma blended_capacity_is_rounded:
  assumes "\<forall>i\<in>set ivs. interval_ok i" "ivs \<noteq> []" "total_used ivs < 2 ^ 63" "total_spend ivs < 2 ^ 63"
  shows "blend_round p (CALIBRATION_SCALE * total_spend ivs) (total_used ivs)
           = Inr (blended_capacity ivs)"
    and "strict_round p (CALIBRATION_SCALE * total_spend ivs) (total_used ivs)
           = Inr (blended_capacity ivs)"
  using scaled_spend_range [of "total_spend ivs"] totals_pos [OF assms(1,2)] assms
  by (simp_all add: rounding_is_exact blended_capacity_def)

text \<open>After the totals are updated, the recomputed row shows the blended capacity.\<close>

lemma blend_recompute_cases:
  assumes ok: "blend_recompute p r = Inr r'"
    and ivs: "\<forall>i\<in>set ivs. interval_ok i" "ivs \<noteq> []" "total_used ivs < 2 ^ 63" "total_spend ivs < 2 ^ 63"
    and r: "wr_observed_fraction_units r = total_used ivs" "wr_observed_spend_nano r = total_spend ivs"
  obtains c where "r' = r\<lparr>wr_current_capacity_nano := Some (blended_capacity ivs),
                           wr_current_confidence_bp := c\<rparr>"
    "0 \<le> c" "c \<le> 10000" "wr_current_high_nano r = None \<Longrightarrow> c = 0"
proof -
  have pos: "\<not> total_used ivs \<le> 0" using totals_pos(1) [OF ivs(1,2)] by simp
  have mul: "checked_mul_i128 CALIBRATION_SCALE (total_spend ivs)
      = Some (CALIBRATION_SCALE * total_spend ivs)"
    using total_spend_nonneg [OF ivs(1)] ivs(4) by (intro checked_scaled_spend) simp_all
  from ok pos r obtain c qd where
    c: "confidence p (blend_overflow p) (blend_ratio_bp p) (wr_samples r)
          (wr_current_low_nano r) (wr_current_high_nano r) (total_used ivs) qd = Inr c"
    and r': "r' = r\<lparr>wr_current_capacity_nano := Some (blended_capacity ivs),
                    wr_current_confidence_bp := c\<rparr>"
    by (auto simp: blend_recompute_def Let_def mul blended_capacity_is_rounded [OF ivs]
        calibration_i64_def)
  have "c = 0" if "wr_current_high_nano r = None"
    using c unfolding that by (rule confidence_without_high)
  then show thesis using confidence_range [OF c] by (intro that [OF r']) simp_all
qed

lemma blend_sample_appends:
  assumes ok: "blend_sample p ob du ds r = Inr r'"
    and r: "reading_ok r" "blend_evidence ivs r"
    and ob: "valid_reading ob" "wo_spend_nano ob < 2 ^ 63"
    and i: "0 < du" "du < 2 ^ 63" "0 < ds" "ds < 2 ^ 63"
  shows "reading_ok r'"
    "blend_evidence (ivs @ [(du, interval_fraction_uncertainty
        (wr_anchor_resolution_fraction_units r) (wo_measurement_resolution_fraction_units ob), ds)]) r'"
    "wr_estimator_version r' = wr_estimator_version r" "wr_plan r' = wr_plan r"
    "window_row.more r' = window_row.more r"
    "wr_anchor_spend_nano r' = wo_spend_nano ob"
proof -
  define w where "w = interval_fraction_uncertainty (wr_anchor_resolution_fraction_units r)
    (wo_measurement_resolution_fraction_units ob)"
  have w: "0 \<le> w" "w < 2 ^ 63"
    using uncertainty_range [of "wr_anchor_resolution_fraction_units r"
        "wo_measurement_resolution_fraction_units ob"] r(1) ob
    by (simp_all add: w_def reading_ok_def valid_reading_def CALIBRATION_SCALE_def)
  from ok obtain low high r2 where
    env: "workload_envelope p (blend_overflow p) (blend_ceil p) (wr_current_low_nano r)
        (wr_current_high_nano r) (wr_samples r) du w ds = Inr (low, high)"
    and add: "add_interval p ob du ds (r\<lparr>wr_current_low_nano := Some low,
        wr_current_high_nano := high\<rparr>) = Inr r2"
    and rec: "blend_recompute p r2 = Inr r'"
    by (auto simp: blend_sample_def Let_def w_def update_workload_envelope_def)
  let ?ivs = "ivs @ [(du, w, ds)]"
  have ivs: "\<forall>i\<in>set ivs. interval_ok i" "wr_observed_fraction_units r = total_used ivs"
    "wr_observed_spend_nano r = total_spend ivs" "wr_samples r = int (length ivs)"
    "wr_current_low_nano r = least_low ivs" "wr_current_high_nano r = greatest_high ivs"
    using r(2) by (simp_all add: blend_evidence_def totals_are_def)
  have bounds: "least_low ?ivs = Some low \<and> greatest_high ?ivs = high"
    using workload_envelope_extends [of "blend_ceil p" "(du, w, ds)" "wr_samples r" ivs p
        "blend_overflow p" low high] env i w ivs by simp
  have ok': "\<forall>i\<in>set ?ivs. interval_ok i" using ivs(1) i w by simp
  have tot: "total_used ?ivs < 2 ^ 63" "total_spend ?ivs < 2 ^ 63"
    using add_interval_cases(1,2) [OF add] ivs by (simp_all add: in_i64_def)
  note r2 = add_interval_cases(4) [OF add]
  obtain c where r': "r' = r2\<lparr>wr_current_capacity_nano := Some (blended_capacity ?ivs),
      wr_current_confidence_bp := c\<rparr>" and c: "0 \<le> c" "c \<le> 10000"
    "wr_current_high_nano r2 = None \<Longrightarrow> c = 0"
    by (rule blend_recompute_cases [OF rec ok' _ tot])
      (simp_all add: r2 ivs advance_anchor_def)
  show "blend_evidence (ivs @ [(du, interval_fraction_uncertainty
        (wr_anchor_resolution_fraction_units r) (wo_measurement_resolution_fraction_units ob), ds)]) r'"
    unfolding w_def [symmetric] blend_evidence_def totals_are_def
    using ok' tot bounds c ivs valid_reading_bounds(2) [OF ob]
    by (simp add: r' r2 advance_anchor_def)
  show "reading_ok r'"
    using r(1) valid_reading_bounds [OF ob] by (simp add: r' r2 advance_anchor_def reading_ok_def)
  show "wr_estimator_version r' = wr_estimator_version r" "wr_plan r' = wr_plan r"
    "window_row.more r' = window_row.more r" "wr_anchor_spend_nano r' = wo_spend_nano ob"
    by (simp_all add: r' r2 advance_anchor_def)
qed

section \<open>Valid rows\<close>

text \<open>A row with the invariant passes the registry's check of its columns.\<close>

lemma invariant_row_is_valid:
  assumes "reading_ok r" "blend_evidence ivs r" "0 < wr_estimator_version r"
  shows "\<not> evidence_invalid r"
proof (cases "ivs = []")
  case True
  then have "empty_evidence r" "wr_current_low_nano r = None" "wr_current_high_nano r = None"
    using assms(2) by (auto simp: blend_evidence_def totals_are_def empty_evidence_def least_low_def
        greatest_high_def)
  then show ?thesis using assms(1,3)
    by (simp add: evidence_invalid_def reading_ok_def CALIBRATION_SCALE_def empty_evidence_def)
next
  case False
  have ivs: "\<forall>i\<in>set ivs. interval_ok i" and cap: "wr_current_capacity_nano r = Some (blended_capacity ivs)"
    using assms(2) False by (auto simp: blend_evidence_def totals_are_def)
  obtain low where low: "least_low ivs = Some low" using False by (auto simp: least_low_def)
  have low_le: "low \<le> blended_capacity ivs" "0 \<le> low"
    using least_low_le_blend [OF ivs low] least_low_nonneg [OF ivs low] by auto
  have high_ge: "both_and (Some low) (greatest_high ivs) (\<lambda>l h. h < l) = False"
    "some_and (greatest_high ivs) (\<lambda>v. v < 0) = False"
    "both_and (greatest_high ivs) (Some (blended_capacity ivs)) (\<lambda>h c. h < c) = False"
    using blend_le_greatest_high [OF ivs] low_le by (cases "greatest_high ivs"; force)+
  have "measured_evidence r"
    using assms(2) False totals_pos [OF ivs False] low
    by (auto simp: measured_evidence_def blend_evidence_def totals_are_def)
  moreover have "some_and (wr_last_measured_at r) (\<lambda>v. v \<le> 0) = False"
    using assms(2) False by (auto simp: blend_evidence_def totals_are_def)
  moreover have "(\<exists>y. greatest_high ivs = Some y) \<or> wr_current_confidence_bp r = 0"
    using assms(2) by (cases "greatest_high ivs") (simp_all add: blend_evidence_def)
  ultimately show ?thesis
    using assms high_ge low_le low cap blended_capacity_nonneg [OF ivs False]
    by (simp add: evidence_invalid_def reading_ok_def CALIBRATION_SCALE_def blend_evidence_def
        measured_evidence_def totals_are_def)
qed

end
