(* ===== verification/Calibration_Live.thy ===== *)
theory Calibration_Live
  imports Calibration_Blend Calibration_Invariants
begin

text \<open>
  The Gemini and Anthropic estimators meet the contract \<open>window_estimator\<close>: after any sequence of
  observations the row is described by the intervals the observations delimit
  (\<open>delimited\<close>, a condition on the row and the observation only). A rebuild from the stored
  history gives the row the live estimator had.
\<close>

section \<open>The common body of the two estimators\<close>

definition blend_body ::
  "string \<Rightarrow> i128 \<Rightarrow> 'o window_observation_scheme \<Rightarrow> 'r window_row_scheme \<Rightarrow> string + 'r window_row_scheme"
where
  "blend_body p d ob r =
   (let du = wrap_i64 (wo_used_fraction_units ob - wr_anchor_used_fraction_units r);
        ds = wrap_i64 (wo_spend_nano ob - wr_anchor_spend_nano r);
        seen = refresh_reading ob r
    in if window_rolled d ob r then Inr (begin_window ob r)
       else if window_regressed d ob r then Inr r
       else if du \<le> 0 \<or> wo_spend_nano ob < wr_anchor_spend_nano r then Inr seen
       else if ds = 0 then hold_or_record_unattributed p ob r du seen
       else blend_sample p ob du ds seen)"

text \<open>
  The interval an observation delimits: it is not older than the row, lies in the same window, its
  used fraction is above the anchor and spend has moved since the anchor.
\<close>

definition delimiting ::
  "i128 \<Rightarrow> 'o window_observation_scheme \<Rightarrow> 'r window_row_scheme \<Rightarrow> reading_pair list" where
  "delimiting d ob r =
   (if wr_observed_at r \<le> wo_observed_at ob
       \<and> \<not> window_rolled d ob r \<and> \<not> window_regressed d ob r
       \<and> wr_anchor_used_fraction_units r < wo_used_fraction_units ob
       \<and> wr_anchor_spend_nano r < wo_spend_nano ob
    then [(wo_used_fraction_units ob - wr_anchor_used_fraction_units r,
           wr_anchor_resolution_fraction_units r, wo_measurement_resolution_fraction_units ob,
           wo_spend_nano ob - wr_anchor_spend_nano r)]
    else [])"

definition delimited ::
  "(i64 \<Rightarrow> i64 \<Rightarrow> int) \<Rightarrow> i128 \<Rightarrow> 'o window_observation_scheme \<Rightarrow> 'r window_row_scheme \<Rightarrow> interval list" where
  "delimited width d ob r = map (measured width) (delimiting d ob r)"

lemma delimited_if:
  "delimited width d ob r =
   (if wr_observed_at r \<le> wo_observed_at ob
       \<and> \<not> window_rolled d ob r \<and> \<not> window_regressed d ob r
       \<and> wr_anchor_used_fraction_units r < wo_used_fraction_units ob
       \<and> wr_anchor_spend_nano r < wo_spend_nano ob
    then [(wo_used_fraction_units ob - wr_anchor_used_fraction_units r,
           width (wr_anchor_resolution_fraction_units r) (wo_measurement_resolution_fraction_units ob),
           wo_spend_nano ob - wr_anchor_spend_nano r)]
    else [])"
  by (simp add: delimited_def delimiting_def)

text \<open>The width these estimators compute: half the sum of the resolutions, rounded up.\<close>

definition half_sum_width :: "i64 \<Rightarrow> i64 \<Rightarrow> int" where
  "half_sum_width a b = (a + b + 1) div 2"

lemma deltas_exact:
  assumes "reading_ok r" "valid_reading ob" "wo_spend_nano ob < 2 ^ 63"
  shows "wrap_i64 (wo_used_fraction_units ob - wr_anchor_used_fraction_units r)
           = wo_used_fraction_units ob - wr_anchor_used_fraction_units r"
    "wrap_i64 (wo_spend_nano ob - wr_anchor_spend_nano r) = wo_spend_nano ob - wr_anchor_spend_nano r"
  using assms valid_reading_bounds [of ob]
  by (auto simp: reading_ok_def CALIBRATION_SCALE_def in_i64_def intro!: wrap_i64_exact)

lemma refresh_keeps [simp]:
  "wr_anchor_resolution_fraction_units (refresh_reading ob r) = wr_anchor_resolution_fraction_units r"
  "wr_estimator_version (refresh_reading ob r) = wr_estimator_version r"
  "wr_plan (refresh_reading ob r) = wr_plan r"
  "wr_anchor_spend_nano (refresh_reading ob r) = wr_anchor_spend_nano r"
  "window_row.more (refresh_reading ob r) = window_row.more r"
  by (simp_all add: refresh_reading_def)

lemma begin_keeps [simp]:
  "wr_estimator_version (begin_window ob r) = wr_estimator_version r"
  "wr_plan (begin_window ob r) = wr_plan r"
  "wr_anchor_spend_nano (begin_window ob r) = wo_spend_nano ob"
  "window_row.more (begin_window ob r) = window_row.more r"
  by (simp_all add: begin_window_def advance_anchor_def)

lemma blend_body_appends:
  assumes ok: "blend_body p d ob r = Inr r'"
    and r: "reading_ok r" "blend_evidence ivs r" "wr_observed_at r \<le> wo_observed_at ob"
    and ob: "valid_reading ob" "wo_spend_nano ob < 2 ^ 63"
  shows "reading_ok r' \<and> blend_evidence (ivs @ delimited half_sum_width d ob r) r'
     \<and> wr_estimator_version r' = wr_estimator_version r \<and> wr_plan r' = wr_plan r
     \<and> window_row.more r' = window_row.more r"
proof -
  let ?du = "wo_used_fraction_units ob - wr_anchor_used_fraction_units r"
  let ?ds = "wo_spend_nano ob - wr_anchor_spend_nano r"
  note exact = deltas_exact [OF r(1) ob]
  consider (rolled) "window_rolled d ob r"
    | (regressed) "\<not> window_rolled d ob r" "window_regressed d ob r"
    | (idle) "\<not> window_rolled d ob r" "\<not> window_regressed d ob r" "?du \<le> 0 \<or> ?ds < 0"
    | (held) "\<not> window_rolled d ob r" "\<not> window_regressed d ob r" "0 < ?du" "?ds = 0"
    | (sampled) "\<not> window_rolled d ob r" "\<not> window_regressed d ob r" "0 < ?du" "0 < ?ds"
    by linarith
  then show ?thesis
  proof cases
    case rolled
    then have "r' = begin_window ob r" using ok by (simp add: blend_body_def)
    then show ?thesis using rolled r ob by (simp add: delimited_if)
  next
    case regressed
    then have "r' = r" using ok by (simp add: blend_body_def)
    then show ?thesis using regressed r by (simp add: delimited_if)
  next
    case idle
    then have "r' = refresh_reading ob r" using ok by (auto simp: blend_body_def exact)
    then show ?thesis using idle r ob by (auto simp: delimited_if)
  next
    case held
    then have "hold_or_record_unattributed p ob r ?du (refresh_reading ob r) = Inr r'"
      using ok by (simp add: blend_body_def exact Let_def wrap_i64_exact in_i64_def)
    from hold_keeps [OF this _ ob] show ?thesis using held r ob by (simp add: delimited_if)
  next
    case sampled
    then have s: "blend_sample p ob ?du ?ds (refresh_reading ob r) = Inr r'"
      using ok by (simp add: blend_body_def exact Let_def)
    have w: "interval_fraction_uncertainty (wr_anchor_resolution_fraction_units r)
        (wo_measurement_resolution_fraction_units ob)
      = half_sum_width (wr_anchor_resolution_fraction_units r)
        (wo_measurement_resolution_fraction_units ob)"
      using r(1) ob(1) unfolding half_sum_width_def
      by (intro uncertainty_range) (simp_all add: reading_ok_def valid_reading_def)
    have range: "?du < 2 ^ 63" "?ds < 2 ^ 63"
      using r(1) valid_reading_bounds [OF ob] by (simp_all add: reading_ok_def CALIBRATION_SCALE_def)
    have d: "delimited half_sum_width d ob r = [(?du, half_sum_width
        (wr_anchor_resolution_fraction_units r) (wo_measurement_resolution_fraction_units ob), ?ds)]"
      using sampled r(3) by (simp add: delimited_if)
    show ?thesis
      using blend_sample_appends [OF s _ _ ob sampled(3) range(1) sampled(4) range(2), of ivs] r ob
      by (simp add: d w)
  qed
qed

text \<open>The measured spend is never more than the spend between the first and the last anchor.\<close>

lemma blend_body_anchor:
  assumes ok: "blend_body p d ob r = Inr r'" and "reading_ok r" "valid_reading ob"
    "wo_spend_nano ob < 2 ^ 63" "wr_anchor_spend_nano r \<le> wo_spend_nano ob"
    "total_spend ivs + s0 \<le> wr_anchor_spend_nano r"
  shows "total_spend (ivs @ delimited half_sum_width d ob r) + s0 \<le> wr_anchor_spend_nano r'"
proof -
  note exact = deltas_exact [OF assms(2-4)]
  have hold: "wr_anchor_spend_nano r \<le> wr_anchor_spend_nano r'"
    if "hold_or_record_unattributed p ob r du (refresh_reading ob r) = Inr r'" for du
    using that assms(5) by (auto elim!: hold_cases simp: advance_anchor_def)
  have sample: "wr_anchor_spend_nano r' = wo_spend_nano ob"
    if "blend_sample p ob du ds (refresh_reading ob r) = Inr r'" for du ds
  proof -
    from that obtain r1 r2 where "add_interval p ob du ds r1 = Inr r2" "blend_recompute p r2 = Inr r'"
      by (auto simp: blend_sample_def Let_def)
    then show ?thesis
      by (auto simp: blend_recompute_def Let_def advance_anchor_def dest!: add_interval_cases(4)
          split: if_splits)
  qed
  show ?thesis
    using ok assms(5,6)
    by (auto simp: blend_body_def Let_def exact delimited_if dest!: hold sample split: if_splits)
qed

section \<open>Gemini\<close>

lemma gemini_validate_observation_Inr:
  "gemini_validate_observation ob = Inr () \<longleftrightarrow>
     go_profile_id ob \<noteq> [] \<and> wo_plan ob \<noteq> []
     \<and> valid_gemini_exact_window (go_bucket_id ob) (go_window_kind ob) (go_window_duration_mins ob)
     \<and> valid_reading ob \<and> valid_source (go_observation_source ob) (go_source_request_id ob)"
  by (auto simp: gemini_validate_observation_def gemini_calibration_bucket_def
      valid_gemini_exact_window_def GEMINI_FIVE_HOUR_def GEMINI_WEEKLY_def)

lemma gemini_validate_observation_iff:
  "gemini_validate_observation ob = Inr u \<longleftrightarrow> gemini_validate_observation ob = Inr ()"
  by simp

definition gemini_describes :: "interval list \<Rightarrow> gemini_window_row option \<Rightarrow> bool" where
  "gemini_describes ivs ro =
   (case ro of
      None \<Rightarrow> ivs = []
    | Some r \<Rightarrow>
        reading_ok r \<and> blend_evidence ivs r \<and> wr_estimator_version r = GEMINI_ESTIMATOR_VERSION
        \<and> gr_profile_id r \<noteq> [] \<and> wr_plan r \<noteq> []
        \<and> valid_gemini_exact_window (gr_bucket_id r) (gr_window_kind r) (gr_window_duration_mins r)
        \<and> total_spend ivs \<le> wr_anchor_spend_nano r)"

definition gemini_readings :: "gemini_window_row option \<Rightarrow> gemini_observation \<Rightarrow> reading_pair list" where
  "gemini_readings ro ob =
   (case ro of None \<Rightarrow> [] | Some r \<Rightarrow> delimiting (gr_window_duration_mins r * 60) ob r)"

definition gemini_taken :: "gemini_window_row option \<Rightarrow> gemini_observation \<Rightarrow> interval list" where
  "gemini_taken ro ob =
   (case ro of None \<Rightarrow> [] | Some r \<Rightarrow> delimited half_sum_width (gr_window_duration_mins r * 60) ob r)"

definition in_range :: "'o window_observation_scheme \<Rightarrow> bool" where
  "in_range ob \<longleftrightarrow> wo_spend_nano ob < 2 ^ 63"

lemma gemini_observe_body:
  "gemini_observe ob r = Inr r' \<longleftrightarrow>
     gemini_validate_observation ob = Inr () \<and> gemini_same_window ob r
     \<and> (if wo_observed_at ob < wr_observed_at r then r' = r
        else wr_estimator_version r = GEMINI_ESTIMATOR_VERSION
          \<and> wr_anchor_spend_nano r \<le> wo_spend_nano ob
          \<and> blend_body ''Gemini'' (gr_window_duration_mins r * 60) ob r = Inr r')"
  by (cases "gemini_validate_observation ob")
    (auto simp: gemini_observe_def blend_body_def Let_def not_less)

lemma gemini_more:
  "window_row.more r' = window_row.more r \<Longrightarrow>
     gr_profile_id r' = gr_profile_id r \<and> gr_bucket_id r' = gr_bucket_id r
     \<and> gr_window_kind r' = gr_window_kind r \<and> gr_window_duration_mins r' = gr_window_duration_mins r"
  by (cases r; cases r') simp

lemma gemini_observe_describes:
  assumes "gemini_describes ivs (Some r)" "in_range ob" "gemini_observe ob r = Inr r'"
  shows "gemini_describes (ivs @ gemini_taken (Some r) ob) (Some r')"
proof (cases "wo_observed_at ob < wr_observed_at r")
  case True
  then show ?thesis using assms by (simp add: gemini_observe_body gemini_taken_def delimited_if)
next
  case False
  then have body: "blend_body ''Gemini'' (gr_window_duration_mins r * 60) ob r = Inr r'"
    and ob: "valid_reading ob" "wo_spend_nano ob < 2 ^ 63" "wr_anchor_spend_nano r \<le> wo_spend_nano ob"
    using assms by (simp_all add: gemini_observe_body gemini_validate_observation_Inr in_range_def)
  have r: "reading_ok r" "blend_evidence ivs r" "total_spend ivs \<le> wr_anchor_spend_nano r"
    using assms(1) by (simp_all add: gemini_describes_def)
  note app = blend_body_appends [OF body r(1,2) _ ob(1,2)]
  show ?thesis
    using app False assms(1) gemini_more [of r' r] blend_body_anchor [OF body r(1) ob, of ivs 0] r(3)
    by (simp add: gemini_describes_def gemini_taken_def)
qed

lemma gemini_described_row_is_valid:
  "gemini_describes ivs (Some r) \<Longrightarrow> gemini_validate_row r = Inr ()"
  using invariant_row_is_valid [of r ivs]
  by (simp add: gemini_describes_def gemini_validate_row_def validate_gemini_exact_calibration_row_def
      GEMINI_ESTIMATOR_VERSION_def)

lemma gemini_anchor_describes:
  assumes "gemini_anchor ob = Inr r" "in_range ob"
  shows "gemini_describes [] (Some r)" "gemini_observe ob r = Inr r"
proof -
  have v: "gemini_validate_observation ob = Inr ()"
    and r: "r = anchored_row GEMINI_ESTIMATOR_VERSION ob
     \<lparr>gr_profile_id = go_profile_id ob, gr_bucket_id = go_bucket_id ob,
      gr_window_kind = go_window_kind ob, gr_window_duration_mins = go_window_duration_mins ob\<rparr>"
    using assms(1) by (auto simp: gemini_anchor_def)
  have ob: "valid_reading ob" "wo_spend_nano ob < 2 ^ 63"
    using v assms(2) by (auto simp: gemini_validate_observation_Inr in_range_def)
  show "gemini_describes [] (Some r)"
    using v ob valid_reading_bounds(7) [OF ob]
    by (auto simp: gemini_describes_def r gemini_validate_observation_Inr)
      (simp_all add: anchored_row_def)
  have "refresh_reading ob r = r" "reset_delta ob r = 0"
    by (simp_all add: r refresh_reading_def anchored_row_def reset_delta_def)
  moreover have "\<not> window_rolled d ob r" "\<not> window_regressed d ob r" for d
    using \<open>reset_delta ob r = 0\<close>
    by (simp_all add: window_rolled_def window_regressed_def reset_boundary_def jitter_tolerance_def)
  ultimately show "gemini_observe ob r = Inr r"
    using v by (simp add: gemini_observe_body blend_body_def gemini_same_window_def)
      (simp add: r anchored_row_def wrap_i64_exact in_i64_def)
qed

lemma gemini_apply_described:
  assumes "gemini_describes ivs (Some r)"
  shows "gemini_apply_observation (Some r) ob =
    (if wr_observed_at r \<le> wo_observed_at ob then gemini_observe ob r else Inr r)"
  using assms gemini_described_row_is_valid [OF assms]
  by (simp add: gemini_apply_observation_def gemini_describes_def)

lemma gemini_apply_first:
  assumes "in_range ob"
  shows "gemini_apply_observation None ob = gemini_anchor ob"
proof (cases "gemini_anchor ob")
  case (Inr r)
  then have "r\<lparr>wr_version := 0\<rparr> = r" "wr_observed_at r = wo_observed_at ob"
    by (auto simp: gemini_anchor_def anchored_row_def)
  then show ?thesis
    using gemini_anchor_describes(2) [OF Inr assms] by (simp add: gemini_apply_observation_def Inr)
qed (simp add: gemini_apply_observation_def)

interpretation gemini_window: window_estimator gemini_apply_observation gemini_taken in_range gemini_describes
proof
  show "gemini_describes [] None" by (simp add: gemini_describes_def)
next
  fix ivs r ob r'
  assume d: "gemini_describes ivs r" and ob: "in_range (ob :: gemini_observation)"
    and ok: "gemini_apply_observation r ob = Inr r'"
  show "gemini_describes (ivs @ gemini_taken r ob) (Some r')"
  proof (cases r)
    case None
    then show ?thesis using d ok gemini_anchor_describes(1) [of ob r'] ob
      by (simp add: gemini_apply_first gemini_describes_def [of ivs None] gemini_taken_def)
  next
    case (Some r0)
    show ?thesis
    proof (cases "wr_observed_at r0 \<le> wo_observed_at ob")
      case True
      then show ?thesis
        using d ok ob gemini_observe_describes [of ivs r0 ob r'] by (simp add: Some gemini_apply_described)
    next
      case False
      then show ?thesis
        using d ok by (simp add: Some gemini_apply_described gemini_taken_def delimited_if)
    qed
  qed
qed

subsection \<open>Rebuilding from the history\<close>

text \<open>The stored version of a row is carried along unchanged.\<close>

abbreviation with_version :: "i64 \<Rightarrow> 'r window_row_scheme \<Rightarrow> 'r window_row_scheme" where
  "with_version v r \<equiv> r\<lparr>wr_version := v\<rparr>"

lemma map_sum_bind_res: "map_sum id f (bind_res x g) = bind_res x (\<lambda>a. map_sum id f (g a))"
  by (cases x) simp_all

lemma hold_version:
  "hold_or_record_unattributed p ob (with_version v prev) du (with_version v r)
     = map_sum id (with_version v) (hold_or_record_unattributed p ob prev du r)"
  by (cases r) (simp add: hold_or_record_unattributed_def map_sum_bind_res advance_anchor_def)

lemma add_interval_version:
  "add_interval p ob du ds (with_version v r) = map_sum id (with_version v) (add_interval p ob du ds r)"
  by (cases r) (simp add: add_interval_def map_sum_bind_res advance_anchor_def)

lemma blend_recompute_version:
  "blend_recompute p (with_version v r) = map_sum id (with_version v) (blend_recompute p r)"
  by (cases r) (simp add: blend_recompute_def Let_def map_sum_bind_res)

lemma update_envelope_version:
  "update_workload_envelope p du w ds (with_version v r)
     = map_sum id (with_version v) (update_workload_envelope p du w ds r)"
  by (cases r) (auto simp: update_workload_envelope_def bind_res_def split: sum.split)

lemma bind_res_map_sum: "bind_res (map_sum id f x) g = bind_res x (\<lambda>a. g (f a))"
  by (cases x) simp_all

lemma blend_sample_version:
  "blend_sample p ob du ds (with_version v r) = map_sum id (with_version v) (blend_sample p ob du ds r)"
  by (simp add: blend_sample_def Let_def map_sum_bind_res bind_res_map_sum update_envelope_version
      add_interval_version blend_recompute_version)

lemma reading_version:
  "begin_window ob (with_version v r) = with_version v (begin_window ob r)"
  "refresh_reading ob (with_version v r) = with_version v (refresh_reading ob r)"
  "window_rolled d ob (with_version v r) = window_rolled d ob r"
  "window_regressed d ob (with_version v r) = window_regressed d ob r"
  by (simp_all add: begin_window_def refresh_reading_def advance_anchor_def window_rolled_def
      window_regressed_def reset_delta_def)

lemmas version_simps = reading_version hold_version blend_sample_version

lemma gemini_observe_version:
  "gemini_observe ob (with_version v r) = map_sum id (with_version v) (gemini_observe ob r)"
  by (simp add: gemini_observe_def Let_def map_sum_bind_res version_simps gemini_same_window_def)

definition gemini_history :: "gemini_observation list \<Rightarrow> bool" where
  "gemini_history obs \<longleftrightarrow>
     list_all (\<lambda>ob. in_range ob \<and> gemini_validate_observation ob = Inr ()
       \<and> go_profile_id ob = go_profile_id (hd obs) \<and> wo_plan ob = wo_plan (hd obs)
       \<and> go_bucket_id ob = go_bucket_id (hd obs) \<and> go_window_kind ob = go_window_kind (hd obs)
       \<and> go_window_duration_mins ob = go_window_duration_mins (hd obs)) obs"

lemma gemini_observe_keeps_window:
  assumes "gemini_observe ob r = Inr r'" "gemini_describes ivs (Some r)" "in_range ob"
  shows "gemini_same_window x r' = gemini_same_window x r"
proof (cases "wo_observed_at ob < wr_observed_at r")
  case True
  then show ?thesis using assms by (simp add: gemini_observe_body)
next
  case False
  then have "wr_plan r' = wr_plan r \<and> window_row.more r' = window_row.more r"
    using assms blend_body_appends [of "''Gemini''" "gr_window_duration_mins r * 60" ob r r' ivs]
    by (simp add: gemini_observe_body gemini_describes_def gemini_validate_observation_Inr in_range_def)
  then show ?thesis using gemini_more [of r' r] by (simp add: gemini_same_window_def)
qed

lemma gemini_replay_rest_is_live:
  assumes "gemini_describes ivs (Some r)" "gemini_same_window first r"
    "list_all (\<lambda>ob. in_range ob \<and> gemini_validate_observation ob = Inr ()
       \<and> go_profile_id ob = go_profile_id first \<and> wo_plan ob = wo_plan first
       \<and> go_bucket_id ob = go_bucket_id first \<and> go_window_kind ob = go_window_kind first
       \<and> go_window_duration_mins ob = go_window_duration_mins first) obs"
  shows "map_sum id Some (gemini_replay_rest first (with_version v r) obs)
    = map_sum id (map_option (with_version v)) (replay gemini_apply_observation (Some r) obs)"
  using assms
proof (induction obs arbitrary: ivs r)
  case (Cons ob obs)
  have same: "gemini_same_window ob r"
    using Cons.prems(2,3) by (simp add: gemini_same_window_def)
  have "gemini_observe ob r = Inr r" if "wo_observed_at ob < wr_observed_at r"
    using that same Cons.prems(3) by (simp add: gemini_observe_body)
  then have live: "gemini_apply_observation (Some r) ob = gemini_observe ob r"
    by (simp add: gemini_apply_described [OF Cons.prems(1)])
  show ?case
  proof (cases "gemini_observe ob r")
    case (Inl e)
    then show ?thesis using Cons.prems(3) by (simp add: live gemini_observe_version)
  next
    case (Inr r1)
    have "gemini_describes (ivs @ gemini_taken (Some r) ob) (Some r1)" "gemini_same_window first r1"
      using gemini_observe_describes [OF Cons.prems(1) _ Inr]
        gemini_observe_keeps_window [OF Inr Cons.prems(1)] Cons.prems by simp_all
    from Cons.IH [OF this] show ?thesis
      using Cons.prems(3) by (simp add: live gemini_observe_version Inr)
  qed
qed simp

lemma gemini_rebuild_is_live:
  assumes "gemini_history obs"
  shows "gemini_replay_observations obs v
    = map_sum id (map_option (with_version v)) (replay gemini_apply_observation None obs)"
proof (cases obs)
  case Nil
  then show ?thesis by (simp add: gemini_replay_observations_def)
next
  case (Cons first rest)
  have first: "in_range first" using assms by (simp add: Cons gemini_history_def)
  show ?thesis
  proof (cases "gemini_anchor first")
    case (Inl e)
    then show ?thesis by (simp add: Cons gemini_replay_observations_def gemini_apply_first first)
  next
    case (Inr r)
    have "gemini_same_window first r"
      using Inr by (auto simp: gemini_anchor_def gemini_same_window_def anchored_row_def)
    from gemini_replay_rest_is_live [OF gemini_anchor_describes(1) [OF Inr first] this, of rest v]
    show ?thesis
      using assms Inr
      by (cases "gemini_replay_rest first (with_version v r) rest")
        (simp_all add: Cons gemini_replay_observations_def gemini_apply_first first gemini_history_def)
  qed
qed

section \<open>Anthropic\<close>

lemma anthropic_validate_observation_Inr:
  "anthropic_validate_observation ob = Inr () \<longleftrightarrow>
     ao_subject_id ob \<noteq> [] \<and> wo_plan ob \<noteq> []
     \<and> valid_anthropic_window (ao_window_kind ob) (ao_window_duration_mins ob)
     \<and> valid_reading ob \<and> valid_source (ao_observation_source ob) (ao_source_request_id ob)"
  by (auto simp: anthropic_validate_observation_def)

definition anthropic_describes :: "interval list \<Rightarrow> anthropic_window_row option \<Rightarrow> bool" where
  "anthropic_describes ivs ro =
   (case ro of
      None \<Rightarrow> ivs = []
    | Some r \<Rightarrow>
        reading_ok r \<and> blend_evidence ivs r \<and> wr_estimator_version r = ANTHROPIC_ESTIMATOR_VERSION
        \<and> ar_subject_id r \<noteq> [] \<and> wr_plan r \<noteq> []
        \<and> valid_anthropic_window (ar_window_kind r) (ar_window_duration_mins r))"

definition anthropic_readings :: "anthropic_window_row option \<Rightarrow> anthropic_observation \<Rightarrow> reading_pair list" where
  "anthropic_readings ro ob =
   (case ro of None \<Rightarrow> [] | Some r \<Rightarrow> delimiting (ar_window_duration_mins r * 60) ob r)"

definition anthropic_taken :: "anthropic_window_row option \<Rightarrow> anthropic_observation \<Rightarrow> interval list" where
  "anthropic_taken ro ob =
   (case ro of None \<Rightarrow> [] | Some r \<Rightarrow> delimited half_sum_width (ar_window_duration_mins r * 60) ob r)"

lemma anthropic_observe_body:
  "anthropic_observe ob r = Inr r' \<longleftrightarrow>
     anthropic_validate_observation ob = Inr () \<and> anthropic_same_window ob r
     \<and> (if wo_observed_at ob < wr_observed_at r then r' = r
        else wr_estimator_version r = ANTHROPIC_ESTIMATOR_VERSION
          \<and> blend_body ''Anthropic'' (ar_window_duration_mins r * 60) ob r = Inr r')"
  by (cases "anthropic_validate_observation ob")
    (auto simp: anthropic_observe_def blend_body_def Let_def)

lemma anthropic_more:
  "window_row.more r' = window_row.more r \<Longrightarrow>
     ar_subject_id r' = ar_subject_id r \<and> ar_window_kind r' = ar_window_kind r
     \<and> ar_window_duration_mins r' = ar_window_duration_mins r"
  by (cases r; cases r') simp

lemma anthropic_observe_step:
  assumes "anthropic_describes ivs (Some r)" "in_range ob" "anthropic_observe ob r = Inr r'"
  shows "anthropic_describes (ivs @ anthropic_taken (Some r) ob) (Some r')"
    and "anthropic_same_window x r' = anthropic_same_window x r"
proof -
  have "anthropic_describes (ivs @ anthropic_taken (Some r) ob) (Some r')
    \<and> anthropic_same_window x r' = anthropic_same_window x r"
  proof (cases "wo_observed_at ob < wr_observed_at r")
    case True
    then show ?thesis using assms by (simp add: anthropic_observe_body anthropic_taken_def delimited_if)
  next
    case False
    then show ?thesis
      using assms anthropic_more [of r' r]
        blend_body_appends [of "''Anthropic''" "ar_window_duration_mins r * 60" ob r r' ivs]
      by (simp add: anthropic_observe_body anthropic_validate_observation_Inr in_range_def
          anthropic_describes_def anthropic_taken_def anthropic_same_window_def)
  qed
  then show "anthropic_describes (ivs @ anthropic_taken (Some r) ob) (Some r')"
    and "anthropic_same_window x r' = anthropic_same_window x r" by simp_all
qed

lemma anthropic_described_row_is_valid:
  "anthropic_describes ivs (Some r) \<Longrightarrow> anthropic_validate_row r = Inr ()"
  using invariant_row_is_valid [of r ivs]
  by (simp add: anthropic_describes_def anthropic_validate_row_def validate_anthropic_calibration_row_def
      ANTHROPIC_ESTIMATOR_VERSION_def)

lemma anthropic_anchor_describes:
  assumes "anthropic_anchor ob = Inr r" "in_range ob"
  shows "anthropic_describes [] (Some r)" "anthropic_observe ob r = Inr r"
proof -
  have v: "anthropic_validate_observation ob = Inr ()"
    and r: "r = anchored_row ANTHROPIC_ESTIMATOR_VERSION ob
     \<lparr>ar_subject_id = ao_subject_id ob, ar_window_kind = ao_window_kind ob,
      ar_window_duration_mins = ao_window_duration_mins ob\<rparr>"
    using assms(1) by (auto simp: anthropic_anchor_def)
  have ob: "valid_reading ob" "wo_spend_nano ob < 2 ^ 63"
    using v assms(2) by (auto simp: anthropic_validate_observation_Inr in_range_def)
  show "anthropic_describes [] (Some r)"
    using v ob by (auto simp: anthropic_describes_def r anthropic_validate_observation_Inr)
      (simp_all add: anchored_row_def)
  have "refresh_reading ob r = r" "reset_delta ob r = 0"
    by (simp_all add: r refresh_reading_def anchored_row_def reset_delta_def)
  moreover have "\<not> window_rolled d ob r" "\<not> window_regressed d ob r" for d
    using \<open>reset_delta ob r = 0\<close>
    by (simp_all add: window_rolled_def window_regressed_def reset_boundary_def jitter_tolerance_def)
  ultimately show "anthropic_observe ob r = Inr r"
    using v by (simp add: anthropic_observe_body blend_body_def anthropic_same_window_def)
      (simp add: r anchored_row_def wrap_i64_exact in_i64_def)
qed

lemma anthropic_apply_described:
  assumes "anthropic_describes ivs (Some r)"
  shows "anthropic_apply_observation (Some r) ob =
    (if wr_observed_at r \<le> wo_observed_at ob then anthropic_observe ob r else Inr r)"
  using assms anthropic_described_row_is_valid [OF assms]
  by (simp add: anthropic_apply_observation_def anthropic_describes_def)

lemma anthropic_apply_first:
  assumes "in_range ob"
  shows "anthropic_apply_observation None ob = anthropic_anchor ob"
proof (cases "anthropic_anchor ob")
  case (Inr r)
  then have "r\<lparr>wr_version := 0\<rparr> = r" "wr_observed_at r = wo_observed_at ob"
    by (auto simp: anthropic_anchor_def anchored_row_def)
  then show ?thesis
    using anthropic_anchor_describes(2) [OF Inr assms] by (simp add: anthropic_apply_observation_def Inr)
qed (simp add: anthropic_apply_observation_def)

interpretation anthropic_window:
  window_estimator anthropic_apply_observation anthropic_taken in_range anthropic_describes
proof
  show "anthropic_describes [] None" by (simp add: anthropic_describes_def)
next
  fix ivs r ob r'
  assume d: "anthropic_describes ivs r" and ob: "in_range (ob :: anthropic_observation)"
    and ok: "anthropic_apply_observation r ob = Inr r'"
  show "anthropic_describes (ivs @ anthropic_taken r ob) (Some r')"
  proof (cases r)
    case None
    then show ?thesis using d ok anthropic_anchor_describes(1) [of ob r'] ob
      by (simp add: anthropic_apply_first anthropic_describes_def [of ivs None] anthropic_taken_def)
  next
    case (Some r0)
    show ?thesis
    proof (cases "wr_observed_at r0 \<le> wo_observed_at ob")
      case True
      then show ?thesis
        using d ok ob anthropic_observe_step(1) [of ivs r0 ob r']
        by (simp add: Some anthropic_apply_described)
    next
      case False
      then show ?thesis
        using d ok by (simp add: Some anthropic_apply_described anthropic_taken_def delimited_if)
    qed
  qed
qed

lemma anthropic_observe_version:
  "anthropic_observe ob (with_version v r) = map_sum id (with_version v) (anthropic_observe ob r)"
  by (simp add: anthropic_observe_def Let_def map_sum_bind_res version_simps anthropic_same_window_def)

definition anthropic_same_identity :: "anthropic_observation \<Rightarrow> anthropic_observation \<Rightarrow> bool" where
  "anthropic_same_identity first ob \<longleftrightarrow>
     ao_subject_id ob = ao_subject_id first \<and> wo_plan ob = wo_plan first
     \<and> ao_window_kind ob = ao_window_kind first
     \<and> ao_window_duration_mins ob = ao_window_duration_mins first"

definition anthropic_history :: "anthropic_observation list \<Rightarrow> bool" where
  "anthropic_history obs \<longleftrightarrow>
     list_all (\<lambda>ob. in_range ob \<and> anthropic_validate_observation ob = Inr ()
       \<and> anthropic_same_identity (hd obs) ob) obs"

lemma anthropic_replay_rest_is_live:
  assumes "anthropic_describes ivs (Some r)" "anthropic_same_window first r"
    "list_all (\<lambda>ob. in_range ob \<and> anthropic_validate_observation ob = Inr ()
       \<and> anthropic_same_identity first ob) obs"
  shows "map_sum id Some (anthropic_replay_rest first (with_version v r) obs)
    = map_sum id (map_option (with_version v)) (replay anthropic_apply_observation (Some r) obs)"
  using assms
proof (induction obs arbitrary: ivs r)
  case (Cons ob obs)
  have same: "anthropic_same_window ob r"
    using Cons.prems(2,3) by (simp add: anthropic_same_window_def anthropic_same_identity_def)
  have "anthropic_observe ob r = Inr r" if "wo_observed_at ob < wr_observed_at r"
    using that same Cons.prems(3) by (simp add: anthropic_observe_body)
  then have live: "anthropic_apply_observation (Some r) ob = anthropic_observe ob r"
    by (simp add: anthropic_apply_described [OF Cons.prems(1)])
  show ?case
  proof (cases "anthropic_observe ob r")
    case (Inl e)
    then show ?thesis
      using Cons.prems(3) by (simp add: live anthropic_observe_version anthropic_same_identity_def)
  next
    case (Inr r1)
    have "anthropic_describes (ivs @ anthropic_taken (Some r) ob) (Some r1)"
      "anthropic_same_window first r1"
      using anthropic_observe_step [OF Cons.prems(1) _ Inr] Cons.prems by simp_all
    from Cons.IH [OF this] show ?thesis
      using Cons.prems(3) by (simp add: live anthropic_observe_version Inr anthropic_same_identity_def)
  qed
qed simp

lemma anthropic_rebuild_is_live:
  assumes "anthropic_history obs"
  shows "anthropic_replay_observations obs v
    = map_sum id (map_option (with_version v)) (replay anthropic_apply_observation None obs)"
proof (cases obs)
  case Nil
  then show ?thesis by (simp add: anthropic_replay_observations_def)
next
  case (Cons first rest)
  have first: "in_range first" using assms by (simp add: Cons anthropic_history_def)
  show ?thesis
  proof (cases "anthropic_anchor first")
    case (Inl e)
    then show ?thesis by (simp add: Cons anthropic_replay_observations_def anthropic_apply_first first)
  next
    case (Inr r)
    have "anthropic_same_window first r"
      using Inr by (auto simp: anthropic_anchor_def anthropic_same_window_def anchored_row_def)
    from anthropic_replay_rest_is_live [OF anthropic_anchor_describes(1) [OF Inr first] this, of rest v]
    show ?thesis
      using assms Inr
      by (cases "anthropic_replay_rest first (with_version v r) rest")
        (simp_all add: Cons anthropic_replay_observations_def anthropic_apply_first first
          anthropic_history_def)
  qed
qed

end
