(* ===== verification/Calibration_Kimi.thy ===== *)
theory Calibration_Kimi
  imports Calibration_Live
begin

text \<open>
  The KIMI estimator (\<open>crates/forward/src/kimi_calibration.rs\<close>), its observations, turn events and
  rows (\<open>crates/registry/src/kimi_calibration.rs\<close>) and the checks of the registry. Its bounds are
  computed over the totals, with one width per sample. The last part shows that it meets the
  contract \<open>window_estimator\<close>.
\<close>

section \<open>Observations and turn events\<close>

definition KIMI_ESTIMATOR_VERSION :: i64 where
  "KIMI_ESTIMATOR_VERSION = 2"

definition kimi_fraction_from_native :: "i64 \<Rightarrow> i64 \<Rightarrow> string + derived_fraction" where
  "kimi_fraction_from_native used limit = fraction_from_native ''KIMI'' used limit"

definition kimi_window_duration_secs :: "i64 \<Rightarrow> string \<Rightarrow> string + i64" where
  "kimi_window_duration_secs duration time_unit =
   (if duration \<le> 0 then Inl ''KIMI quota window duration must be positive''
    else bind_res
      (if time_unit = ''TIME_UNIT_MINUTE'' then Inr 60
       else if time_unit = ''TIME_UNIT_HOUR'' then Inr 3600
       else if time_unit = ''TIME_UNIT_DAY'' then Inr 86400
       else if time_unit = ''TIME_UNIT_WEEK'' then Inr 604800
       else Inl ''unsupported KIMI quota window unit'') (\<lambda>multiplier.
      ok_or ''KIMI quota window duration overflow'' (checked_mul_i64 duration multiplier)))"

record kimi_turn_event =
  kte_request_id :: string
  kte_subject_id :: string
  kte_plan :: string
  kte_requested_model :: string
  kte_served_model :: string
  kte_context_mode :: string
  kte_reasoning_effort :: string
  kte_tariff_schedule_id :: string
  kte_priced_ts :: i64
  kte_completed_at :: i64
  kte_input_tokens :: i64
  kte_cache_read_tokens :: i64
  kte_cache_write_tokens :: i64
  kte_output_tokens :: i64
  kte_reasoning_output_tokens :: i64
  kte_api_input_nanousd :: i64
  kte_api_cache_read_nanousd :: i64
  kte_api_cache_write_nanousd :: i64
  kte_api_output_nanousd :: i64
  kte_api_total_nanousd :: i64

datatype kimi_event_error =
    KimiEventMissingIdentity
  | KimiEventInvalidTimestamp
  | KimiEventNegativeCounter
  | KimiEventReasoningExceedsOutput
  | KimiEventLegsDoNotSum
  | KimiEventEmptyUsage
  | KimiEventUnsupportedContextMode
  | KimiEventUnsupportedReasoningEffort

definition kimi_event_validate :: "kimi_turn_event \<Rightarrow> kimi_event_error + unit" where
  "kimi_event_validate e =
   (if [] \<in> set [kte_request_id e, kte_subject_id e, kte_plan e, kte_requested_model e,
                kte_served_model e, kte_tariff_schedule_id e]
    then Inl KimiEventMissingIdentity
    else if kte_context_mode e \<notin> {''256k'', ''1m''} then Inl KimiEventUnsupportedContextMode
    else if kte_reasoning_effort e \<notin> {''low'', ''high'', ''max'', ''off''}
    then Inl KimiEventUnsupportedReasoningEffort
    else if kte_priced_ts e \<le> 0 \<or> kte_completed_at e \<le> 0 then Inl KimiEventInvalidTimestamp
    else if list_ex (\<lambda>v. v < 0)
              [kte_input_tokens e, kte_cache_read_tokens e, kte_cache_write_tokens e,
               kte_output_tokens e, kte_reasoning_output_tokens e, kte_api_input_nanousd e,
               kte_api_cache_read_nanousd e, kte_api_cache_write_nanousd e, kte_api_output_nanousd e]
            \<or> kte_api_total_nanousd e \<le> 0
    then Inl KimiEventNegativeCounter
    else if kte_output_tokens e < kte_reasoning_output_tokens e then Inl KimiEventReasoningExceedsOutput
    else if kte_input_tokens e = 0 \<and> kte_cache_read_tokens e = 0 \<and> kte_cache_write_tokens e = 0
            \<and> kte_output_tokens e = 0
    then Inl KimiEventEmptyUsage
    else
      bind_res (ok_or KimiEventLegsDoNotSum
          (Option.bind (checked_add_i64 (kte_api_input_nanousd e) (kte_api_cache_read_nanousd e)) (\<lambda>v.
           Option.bind (checked_add_i64 v (kte_api_cache_write_nanousd e)) (\<lambda>v.
           checked_add_i64 v (kte_api_output_nanousd e))))) (\<lambda>total.
      if total \<noteq> kte_api_total_nanousd e then Inl KimiEventLegsDoNotSum else Inr ()))"

section \<open>Rows\<close>

definition kimi_validate_observation :: "kimi_observation \<Rightarrow> string + unit" where
  "kimi_validate_observation ob =
   (if ko_subject_id ob = [] then Inl ''KIMI calibration observation has no subject''
    else if wo_plan ob = [] then Inl ''KIMI calibration observation has no paid plan''
    else if ko_window_duration_secs ob \<le> 0
    then Inl ''KIMI calibration observation has an invalid window duration''
    else if wo_resets_at ob \<le> 0 \<or> wo_observed_at ob \<le> 0
    then Inl ''KIMI calibration observation has an invalid timestamp''
    else if ko_native_limit_units ob \<le> 0
    then Inl ''KIMI calibration observation has an invalid quota limit''
    else if ko_native_used_units ob < 0 \<or> ko_native_limit_units ob < ko_native_used_units ob
    then Inl ''KIMI calibration observation has an invalid quota usage''
    else if \<not> (0 \<le> wo_used_fraction_units ob \<and> wo_used_fraction_units ob \<le> CALIBRATION_SCALE)
    then Inl ''KIMI calibration observation fraction is out of range''
    else if \<not> (1 \<le> wo_measurement_resolution_fraction_units ob
                \<and> wo_measurement_resolution_fraction_units ob \<le> CALIBRATION_SCALE)
    then Inl ''KIMI calibration observation resolution is out of range''
    else if wo_spend_nano ob < 0 then Inl ''KIMI calibration observation spend is negative''
    else Inr ())"

definition kimi_validate_row :: "kimi_window_row \<Rightarrow> string + unit" where
  "kimi_validate_row r =
   (if kr_subject_id r = [] \<or> wr_plan r = [] then Inl ''KIMI calibration row has no identity''
    else if kr_window_duration_secs r \<le> 0
    then Inl ''KIMI calibration row has an invalid window duration''
    else if kr_native_limit_units r \<le> 0 \<or> kr_native_limit_units r < kr_native_used_units r
    then Inl ''KIMI calibration row has an invalid quota window''
    else if \<not> (0 \<le> wr_used_fraction_units r \<and> wr_used_fraction_units r \<le> CALIBRATION_SCALE)
    then Inl ''KIMI calibration row fraction is out of range''
    else if both_and (wr_current_low_nano r) (wr_current_high_nano r) (\<lambda>low high. high < low)
    then Inl ''KIMI calibration row bounds are inverted''
    else Inr ())"

text \<open>The checks of the registry on reading a row back and before storing one.\<close>

definition validate_kimi_calibration_row :: "kimi_window_row \<Rightarrow> string + unit" where
  "validate_kimi_calibration_row r =
   (if kr_subject_id r = [] \<or> wr_plan r = [] then Inl ''KIMI calibration row has no identity''
    else if kr_window_duration_secs r \<le> 0
    then Inl ''KIMI calibration row has an invalid window duration''
    else if kr_native_limit_units r \<le> 0 \<or> kr_native_limit_units r < kr_native_used_units r
    then Inl ''KIMI calibration row has an invalid quota window''
    else if \<not> (0 \<le> wr_used_fraction_units r \<and> wr_used_fraction_units r \<le> CALIBRATION_SCALE)
    then Inl ''KIMI calibration row fraction is out of range''
    else if \<not> (1 \<le> wr_measurement_resolution_fraction_units r
                \<and> wr_measurement_resolution_fraction_units r \<le> CALIBRATION_SCALE)
    then Inl ''KIMI calibration row resolution is out of range''
    else (case (wr_current_low_nano r, wr_current_high_nano r, wr_current_capacity_nano r) of
            (Some _, _, None) \<Rightarrow> Inl ''KIMI calibration row has bounds without a capacity''
          | (None, Some _, None) \<Rightarrow> Inl ''KIMI calibration row has bounds without a capacity''
          | (Some low, Some high, _) \<Rightarrow>
              if high < low then Inl ''KIMI calibration row bounds are inverted'' else Inr ()
          | _ \<Rightarrow> Inr ()))"

definition kimi_same_window :: "kimi_observation \<Rightarrow> kimi_window_row \<Rightarrow> bool" where
  "kimi_same_window ob r \<longleftrightarrow>
     ko_subject_id ob = kr_subject_id r \<and> wo_plan ob = wr_plan r
     \<and> ko_window_duration_secs ob = kr_window_duration_secs r"

definition validate_kimi_calibration_pair :: "kimi_window_row \<Rightarrow> kimi_observation \<Rightarrow> string + unit" where
  "validate_kimi_calibration_pair r ob =
   bind_res (validate_kimi_calibration_row r) (\<lambda>_.
   if \<not> kimi_same_window ob r
   then Inl ''KIMI calibration state and observation describe different windows''
   else Inr ())"

definition kimi_native_remaining_units :: "kimi_window_row \<Rightarrow> i64 option" where
  "kimi_native_remaining_units r = checked_sub_i64 (kr_native_limit_units r) (kr_native_used_units r)"

definition kimi_current_remaining_nano :: "kimi_window_row \<Rightarrow> i64 option" where
  "kimi_current_remaining_nano r =
   Option.bind (wr_current_capacity_nano r) (\<lambda>capacity.
   Option.bind (checked_sub_i64 CALIBRATION_SCALE (wr_used_fraction_units r)) (\<lambda>unused.
   Option.bind (checked_mul_i128 capacity unused) (\<lambda>value.
   Option.bind (checked_div_i128 value CALIBRATION_SCALE) i64_try_from)))"

section \<open>The estimator\<close>

definition kimi_overflow :: string where
  "kimi_overflow = ''KIMI calibration value overflow''"

definition kimi_anchor :: "kimi_observation \<Rightarrow> string + kimi_window_row" where
  "kimi_anchor ob =
   bind_res (kimi_validate_observation ob) (\<lambda>_.
   Inr (anchored_row KIMI_ESTIMATOR_VERSION ob
     \<lparr>kr_subject_id = ko_subject_id ob, kr_window_duration_secs = ko_window_duration_secs ob,
      kr_window_name = ko_window_name ob, kr_native_limit_units = ko_native_limit_units ob,
      kr_native_used_units = ko_native_used_units ob\<rparr>))"

text \<open>The published size of the window is refreshed with every reading.\<close>

definition refresh_native :: "kimi_observation \<Rightarrow> kimi_window_row \<Rightarrow> kimi_window_row" where
  "refresh_native ob r = r\<lparr>kr_native_limit_units := ko_native_limit_units ob,
     kr_native_used_units := ko_native_used_units ob\<rparr>"

definition kimi_begin_window :: "kimi_observation \<Rightarrow> kimi_window_row \<Rightarrow> kimi_window_row" where
  "kimi_begin_window ob r = refresh_native ob (begin_window ob r)"

definition kimi_recompute :: "kimi_window_row \<Rightarrow> string + kimi_window_row" where
  "kimi_recompute r =
   (let denominator = wr_observed_fraction_units r;
        samples = wr_samples r;
        resolution = max (wr_measurement_resolution_fraction_units r)
                         (wr_anchor_resolution_fraction_units r)
    in if denominator \<le> 0 then Inr r
       else
         bind_res (ok_or ''KIMI capacity numerator overflow''
             (checked_mul_i128 CALIBRATION_SCALE (wr_observed_spend_nano r))) (\<lambda>numerator.
         bind_res (strict_round ''KIMI'' numerator denominator) (\<lambda>rounded.
         bind_res (calibration_i64 kimi_overflow rounded) (\<lambda>capacity.
         bind_res (ok_or ''KIMI envelope uncertainty overflow''
             (checked_mul_i128 samples resolution)) (\<lambda>uncertainty.
         bind_res (ok_or ''KIMI low bound overflow''
             (checked_div_i128 numerator (add_i128 denominator uncertainty))) (\<lambda>quotient.
         bind_res (calibration_i64 kimi_overflow quotient) (\<lambda>low.
         bind_res (if uncertainty < denominator
                   then bind_res (strict_ceil ''KIMI'' numerator (sub_i128 denominator uncertainty)) (\<lambda>value.
                        bind_res (calibration_i64 kimi_overflow value) (\<lambda>high. Inr (Some high)))
                   else Inr None) (\<lambda>high.
         bind_res (confidence ''KIMI'' kimi_overflow (strict_ratio_bp ''KIMI'') samples (Some low) high
             denominator
             (bind_res (ok_or ''KIMI confidence resolution overflow'' (checked_mul_i128 uncertainty 2))
               (\<lambda>width. ok_or ''KIMI confidence denominator overflow''
                  (checked_add_i128 denominator width)))) (\<lambda>confidence_bp.
         Inr (r\<lparr>wr_current_capacity_nano := Some capacity,
                wr_current_low_nano := Some low,
                wr_current_high_nano := high,
                wr_current_confidence_bp := confidence_bp\<rparr>))))))))))"

definition kimi_observe :: "kimi_observation \<Rightarrow> kimi_window_row \<Rightarrow> string + kimi_window_row" where
  "kimi_observe ob r =
   bind_res (kimi_validate_observation ob) (\<lambda>_.
   if \<not> kimi_same_window ob r then Inl ''KIMI calibration observation identity mismatch''
   else if wo_observed_at ob < wr_observed_at r then Inr r
   else if wr_estimator_version r \<noteq> KIMI_ESTIMATOR_VERSION
   then Inl ''KIMI calibration estimator version mismatch''
   else let duration_secs = kr_window_duration_secs r in
     if window_rolled duration_secs ob r then Inr (kimi_begin_window ob r)
     else if window_regressed duration_secs ob r then Inr r
     else let seen = refresh_native ob (refresh_reading ob r);
              delta_used = wrap_i64 (wo_used_fraction_units ob - wr_anchor_used_fraction_units r) in
       if delta_used \<le> 0 \<or> wo_spend_nano ob < wr_anchor_spend_nano r then Inr seen
       else let delta_spend = wrap_i64 (wo_spend_nano ob - wr_anchor_spend_nano r) in
         if delta_spend = 0 then hold_or_record_unattributed ''KIMI'' ob r delta_used seen
         else bind_res (add_interval ''KIMI'' ob delta_used delta_spend seen) kimi_recompute)"

definition kimi_apply_observation ::
  "kimi_window_row option \<Rightarrow> kimi_observation \<Rightarrow> string + kimi_window_row" where
  "kimi_apply_observation existing ob =
   (let version = (case existing of None \<Rightarrow> 0 | Some r \<Rightarrow> wr_version r)
    in bind_res
         (case existing of
            Some r \<Rightarrow>
              if wr_estimator_version r = KIMI_ESTIMATOR_VERSION
              then bind_res (kimi_validate_row r) (\<lambda>_. Inr r)
              else kimi_anchor ob
          | None \<Rightarrow> kimi_anchor ob) (\<lambda>calibration.
       bind_res (kimi_observe ob calibration) (\<lambda>row. Inr (row\<lparr>wr_version := version\<rparr>))))"

definition kimi_rebuild_from_history :: "kimi_observation list \<Rightarrow> string + kimi_window_row option" where
  "kimi_rebuild_from_history observations = replay kimi_apply_observation None observations"

definition kimi_apply_observation_with_history ::
  "kimi_window_row option \<Rightarrow> kimi_observation list \<Rightarrow> kimi_observation \<Rightarrow> string + kimi_window_row" where
  "kimi_apply_observation_with_history existing history ob =
   (case existing of
      None \<Rightarrow> kimi_apply_observation existing ob
    | Some r \<Rightarrow>
        if wr_estimator_version r = KIMI_ESTIMATOR_VERSION
        then kimi_apply_observation existing ob
        else bind_res (kimi_rebuild_from_history history) (\<lambda>rebuilt.
             bind_res (ok_or ''missing immutable history for KIMI estimator rebuild'' rebuilt)
               (\<lambda>row. kimi_apply_observation (Some (row\<lparr>wr_version := wr_version r\<rparr>)) ob)))"

definition kimi_observation_is_stale_or_duplicate :: "kimi_window_row \<Rightarrow> kimi_observation \<Rightarrow> bool" where
  "kimi_observation_is_stale_or_duplicate r ob \<longleftrightarrow>
     wo_observed_at ob < wr_observed_at r
     \<or> equal_second_reading r ob
        \<and> ko_native_used_units ob = kr_native_used_units r
        \<and> ko_native_limit_units ob = kr_native_limit_units r
        \<and> \<not> (wr_anchor_used_fraction_units r < wr_used_fraction_units r
              \<and> wr_anchor_spend_nano r < wo_spend_nano ob)"

definition observe_kimi_round ::
  "(kimi_window_row \<Rightarrow> i64 option) \<Rightarrow> kimi_window_row option \<Rightarrow> kimi_observation list \<Rightarrow> kimi_observation
     \<Rightarrow> string + kimi_window_row option" where
  "observe_kimi_round swap existing stored ob =
   (if (case existing of
          Some r \<Rightarrow> wr_estimator_version r = KIMI_ESTIMATOR_VERSION
                    \<and> kimi_observation_is_stale_or_duplicate r ob
        | None \<Rightarrow> False)
    then Inr existing
    else
      let history = (case existing of
                       Some r \<Rightarrow> if wr_estimator_version r \<noteq> KIMI_ESTIMATOR_VERSION then stored else []
                     | None \<Rightarrow> [])
      in bind_res (kimi_apply_observation_with_history existing history ob) (\<lambda>state.
         bind_res (validate_kimi_calibration_pair state ob) (\<lambda>_.
         Inr (map_option (\<lambda>version. state\<lparr>wr_version := version\<rparr>) (swap state)))))"

section \<open>The contract\<close>

text \<open>The width this estimator computes: the resolution of the later reading. In the aggregate bounds
  the one of the last interval stands for all.\<close>

definition observed_width :: "i64 \<Rightarrow> i64 \<Rightarrow> int" where
  "observed_width a b = b"

definition aggregate_width :: "interval list \<Rightarrow> int" where
  "aggregate_width ivs = int (length ivs) * interval_width (last ivs)"

definition kimi_evidence :: "interval list \<Rightarrow> 'r window_row_scheme \<Rightarrow> bool" where
  "kimi_evidence ivs r \<longleftrightarrow>
     totals_are ivs r
     \<and> (if ivs = [] then wr_current_low_nano r = None \<and> wr_current_high_nano r = None
        else wr_current_low_nano r = Some (aggregate_low ivs (aggregate_width ivs))
             \<and> wr_current_high_nano r = aggregate_high ivs (aggregate_width ivs))"

lemma kimi_evidence_of_readings [simp]:
  "kimi_evidence ivs (begin_window ob r) \<longleftrightarrow> kimi_evidence ivs r"
  "kimi_evidence ivs (refresh_reading ob r) \<longleftrightarrow> kimi_evidence ivs r"
  "kimi_evidence ivs (refresh_native kob kr) \<longleftrightarrow> kimi_evidence ivs kr"
  "kimi_evidence ivs (advance_anchor ob r) \<longleftrightarrow> kimi_evidence ivs r"
  "kimi_evidence ivs (r\<lparr>wr_unattributed_fraction_units := u\<rparr>) \<longleftrightarrow> kimi_evidence ivs r"
  "kimi_evidence ivs (r\<lparr>wr_version := v\<rparr>) \<longleftrightarrow> kimi_evidence ivs r"
  "kimi_evidence [] (anchored_row v ob ext)"
  by (simp_all add: kimi_evidence_def totals_are_def begin_window_def refresh_reading_def
      advance_anchor_def refresh_native_def anchored_row_def)

lemma refresh_native_keeps [simp]:
  "reading_ok (refresh_native ob r) \<longleftrightarrow> reading_ok r"
  "wr_estimator_version (refresh_native ob r) = wr_estimator_version r"
  "wr_plan (refresh_native ob r) = wr_plan r"
  "kr_subject_id (refresh_native ob r) = kr_subject_id r"
  "kr_window_duration_secs (refresh_native ob r) = kr_window_duration_secs r"
  "kr_native_limit_units (refresh_native ob r) = ko_native_limit_units ob"
  "kr_native_used_units (refresh_native ob r) = ko_native_used_units ob"
  by (simp_all add: refresh_native_def reading_ok_def)

lemma kimi_validate_observation_Inr:
  "kimi_validate_observation ob = Inr () \<longleftrightarrow>
     ko_subject_id ob \<noteq> [] \<and> wo_plan ob \<noteq> [] \<and> 0 < ko_window_duration_secs ob
     \<and> 0 < ko_native_limit_units ob \<and> 0 \<le> ko_native_used_units ob
     \<and> ko_native_used_units ob \<le> ko_native_limit_units ob \<and> valid_reading ob"
  by (auto simp: kimi_validate_observation_def valid_reading_def)

lemma hold_keeps_kimi:
  assumes "hold_or_record_unattributed p ob prev du r = Inr r'"
  shows "kimi_evidence ivs r' \<longleftrightarrow> kimi_evidence ivs r"
  using assms by (auto elim!: hold_cases)

text \<open>The recomputed bounds are those of the totals.\<close>

lemma kimi_recompute_cases:
  assumes ok: "kimi_recompute r = Inr r'"
    and ivs: "\<forall>i\<in>set ivs. interval_ok i" "ivs \<noteq> []" "total_used ivs < 2 ^ 63" "total_spend ivs < 2 ^ 63"
    and r: "wr_observed_fraction_units r = total_used ivs" "wr_observed_spend_nano r = total_spend ivs"
      "wr_samples r = int (length ivs)" "int (length ivs) < 2 ^ 63"
      "max (wr_measurement_resolution_fraction_units r) (wr_anchor_resolution_fraction_units r)
         = interval_width (last ivs)"
      "0 \<le> interval_width (last ivs)" "interval_width (last ivs) \<le> CALIBRATION_SCALE"
  obtains c where "0 \<le> c" "c \<le> 10000"
    "r' = r\<lparr>wr_current_capacity_nano := Some (blended_capacity ivs),
           wr_current_low_nano := Some (aggregate_low ivs (aggregate_width ivs)),
           wr_current_high_nano := aggregate_high ivs (aggregate_width ivs),
           wr_current_confidence_bp := c\<rparr>"
proof -
  let ?d = "total_used ivs" and ?n = "CALIBRATION_SCALE * total_spend ivs"
  define u where "u = aggregate_width ivs"
  have pos: "0 < ?d" using totals_pos(1) [OF ivs(1,2)] .
  have num: "0 \<le> ?n" "?n < 2 ^ 90"
    using scaled_spend_range [of "total_spend ivs"] total_spend_nonneg [OF ivs(1)] ivs(4) by simp_all
  have "int (length ivs) * interval_width (last ivs) \<le> 2 ^ 63 * CALIBRATION_SCALE"
    using r(4,6,7) by (intro mult_mono) simp_all
  then have u: "0 \<le> u" "u \<le> 2 ^ 90"
    using r(6) by (simp_all add: u_def aggregate_width_def CALIBRATION_SCALE_def)
  have mul: "checked_mul_i128 CALIBRATION_SCALE (total_spend ivs) = Some ?n"
    using total_spend_nonneg [OF ivs(1)] ivs(4) by (intro checked_scaled_spend) simp_all
  have unc: "checked_mul_i128 (int (length ivs)) (interval_width (last ivs)) = Some u"
    using u by (simp add: checked_mul_i128_def in_i128_def u_def aggregate_width_def)
  have add: "add_i128 ?d u = ?d + u" and sub: "sub_i128 ?d u = ?d - u"
    using u pos ivs(3) by (simp_all add: add_i128_exact sub_i128_exact in_i128_def)
  have low: "checked_div_i128 ?n (?d + u) = Some (aggregate_low ivs u)"
    using num u pos by (simp add: checked_div_i128_nonneg aggregate_low_def)
  have high: "strict_ceil ''KIMI'' ?n (?d - u) = Inr (ceiling_div ?n (?d - u))" if "u < ?d"
    using num u that ivs(3) by (simp add: rounding_is_exact)
  from ok pos obtain c qd where
    c: "confidence ''KIMI'' kimi_overflow (strict_ratio_bp ''KIMI'') (int (length ivs))
          (Some (aggregate_low ivs u)) (aggregate_high ivs u) ?d qd = Inr c"
    and r': "r' = r\<lparr>wr_current_capacity_nano := Some (blended_capacity ivs),
           wr_current_low_nano := Some (aggregate_low ivs u),
           wr_current_high_nano := aggregate_high ivs u,
           wr_current_confidence_bp := c\<rparr>"
    by (auto simp: kimi_recompute_def Let_def r mul unc add sub low high aggregate_high_def
        blended_capacity_is_rounded [OF ivs] calibration_i64_def split: if_splits)
  show thesis using that [of c] confidence_range [OF c] r' by (simp add: u_def)
qed

lemma kimi_sample_appends:
  assumes add: "add_interval p ob du ds r = Inr r2" and rec: "kimi_recompute r2 = Inr r'"
    and r: "reading_ok r" "kimi_evidence ivs r"
      "wr_measurement_resolution_fraction_units r = wo_measurement_resolution_fraction_units ob"
    and ob: "valid_reading ob" "wo_spend_nano ob < 2 ^ 63"
    and i: "0 < du" "0 < ds"
  shows "reading_ok r' \<and> kimi_evidence (ivs @ [(du, wo_measurement_resolution_fraction_units ob, ds)]) r'
     \<and> wr_estimator_version r' = wr_estimator_version r \<and> wr_plan r' = wr_plan r
     \<and> window_row.more r' = window_row.more r"
proof -
  let ?w = "wo_measurement_resolution_fraction_units ob"
  let ?ivs = "ivs @ [(du, ?w, ds)]"
  have ivs: "\<forall>i\<in>set ivs. interval_ok i" "wr_observed_fraction_units r = total_used ivs"
    "wr_observed_spend_nano r = total_spend ivs" "wr_samples r = int (length ivs)"
    using r(2) by (simp_all add: kimi_evidence_def totals_are_def)
  note b = valid_reading_bounds [OF ob]
  have ok': "\<forall>i\<in>set ?ivs. interval_ok i" using ivs(1) i b by simp
  have tot: "total_used ?ivs < 2 ^ 63" "total_spend ?ivs < 2 ^ 63" "int (length ?ivs) < 2 ^ 63"
    using add_interval_cases(1-3) [OF add] ivs by (simp_all add: in_i64_def)
  note r2 = add_interval_cases(4) [OF add]
  obtain c where c: "0 \<le> c" "c \<le> 10000" and r': "r' = r2\<lparr>
      wr_current_capacity_nano := Some (blended_capacity ?ivs),
      wr_current_low_nano := Some (aggregate_low ?ivs (aggregate_width ?ivs)),
      wr_current_high_nano := aggregate_high ?ivs (aggregate_width ?ivs),
      wr_current_confidence_bp := c\<rparr>"
    by (rule kimi_recompute_cases [OF rec ok' _ tot(1,2)])
      (use b tot(3) in \<open>simp_all add: r2 ivs r(3) advance_anchor_def\<close>)
  have "kimi_evidence ?ivs r'"
    unfolding kimi_evidence_def totals_are_def using ok' tot c ivs b(2)
    by (simp add: r' r2 advance_anchor_def)
  then show ?thesis using r(1) b by (simp add: r' r2 advance_anchor_def reading_ok_def)
qed

definition kimi_describes :: "interval list \<Rightarrow> kimi_window_row option \<Rightarrow> bool" where
  "kimi_describes ivs ro =
   (case ro of
      None \<Rightarrow> ivs = []
    | Some r \<Rightarrow>
        reading_ok r \<and> kimi_evidence ivs r \<and> wr_estimator_version r = KIMI_ESTIMATOR_VERSION
        \<and> kr_subject_id r \<noteq> [] \<and> wr_plan r \<noteq> [] \<and> 0 < kr_window_duration_secs r
        \<and> 0 < kr_native_limit_units r \<and> 0 \<le> kr_native_used_units r
        \<and> kr_native_used_units r \<le> kr_native_limit_units r)"

definition kimi_readings :: "kimi_window_row option \<Rightarrow> kimi_observation \<Rightarrow> reading_pair list" where
  "kimi_readings ro ob =
   (case ro of None \<Rightarrow> [] | Some r \<Rightarrow> delimiting (kr_window_duration_secs r) ob r)"

definition kimi_taken :: "kimi_window_row option \<Rightarrow> kimi_observation \<Rightarrow> interval list" where
  "kimi_taken ro ob =
   (case ro of None \<Rightarrow> [] | Some r \<Rightarrow> delimited observed_width (kr_window_duration_secs r) ob r)"

lemma kimi_more:
  "window_row.more r' = window_row.more r \<Longrightarrow>
     kr_subject_id r' = kr_subject_id r \<and> kr_window_duration_secs r' = kr_window_duration_secs r
     \<and> kr_native_limit_units r' = kr_native_limit_units r
     \<and> kr_native_used_units r' = kr_native_used_units r"
  by (cases r; cases r') simp

lemma kimi_observe_describes:
  assumes d: "kimi_describes ivs (Some r)" and ir: "in_range ob" and ok: "kimi_observe ob r = Inr r'"
  shows "kimi_describes (ivs @ kimi_taken (Some r) ob) (Some r')"
proof (cases "wo_observed_at ob < wr_observed_at r")
  case True
  then have "r' = r" using ok by (auto simp: kimi_observe_def split: if_splits)
  then show ?thesis using d True by (simp add: kimi_taken_def delimited_if)
next
  case new: False
  let ?d = "kr_window_duration_secs r"
  let ?du = "wo_used_fraction_units ob - wr_anchor_used_fraction_units r"
  let ?ds = "wo_spend_nano ob - wr_anchor_spend_nano r"
  let ?seen = "refresh_native ob (refresh_reading ob r)"
  have v: "kimi_validate_observation ob = Inr ()"
    using ok by (cases "kimi_validate_observation ob") (auto simp: kimi_observe_def)
  then have ob: "valid_reading ob" "wo_spend_nano ob < 2 ^ 63" "0 < ko_native_limit_units ob"
    "0 \<le> ko_native_used_units ob" "ko_native_used_units ob \<le> ko_native_limit_units ob"
    using ir by (simp_all add: kimi_validate_observation_Inr in_range_def)
  have r: "reading_ok r" "kimi_evidence ivs r" using d by (simp_all add: kimi_describes_def)
  note exact = deltas_exact [OF r(1) ob(1,2)]
  have same: "kimi_same_window ob r" "wr_estimator_version r = KIMI_ESTIMATOR_VERSION"
    using ok v new by (auto simp: kimi_observe_def split: if_splits)
  have seen: "kimi_describes ivs (Some ?seen)"
    using d ob by (simp add: kimi_describes_def) (simp add: refresh_reading_def)
  have keep: "kimi_describes jvs (Some x)"
    if "reading_ok x" "kimi_evidence jvs x" "wr_estimator_version x = wr_estimator_version ?seen"
      "wr_plan x = wr_plan ?seen" "window_row.more x = window_row.more ?seen" for x jvs
    using seen that kimi_more [OF that(5)] by (simp add: kimi_describes_def)
  note body = ok [unfolded kimi_observe_def, simplified v same new exact Let_def, simplified]
  consider (rolled) "window_rolled ?d ob r"
    | (regressed) "\<not> window_rolled ?d ob r" "window_regressed ?d ob r"
    | (idle) "\<not> window_rolled ?d ob r" "\<not> window_regressed ?d ob r" "?du \<le> 0 \<or> ?ds < 0"
    | (held) "\<not> window_rolled ?d ob r" "\<not> window_regressed ?d ob r" "0 < ?du" "?ds = 0"
    | (sampled) "\<not> window_rolled ?d ob r" "\<not> window_regressed ?d ob r" "0 < ?du" "0 < ?ds"
    by linarith
  then show ?thesis
  proof cases
    case rolled
    then have r': "r' = kimi_begin_window ob r" using body by simp
    have "kimi_describes ivs (Some (kimi_begin_window ob r))"
      using d ob by (simp add: kimi_begin_window_def kimi_describes_def)
        (simp add: begin_window_def advance_anchor_def)
    then show ?thesis using rolled by (simp add: r' kimi_taken_def delimited_if)
  next
    case regressed
    then show ?thesis using body d by (simp add: kimi_taken_def delimited_if)
  next
    case idle
    then have "r' = ?seen" using body by auto
    then show ?thesis using idle seen by (auto simp: kimi_taken_def delimited_if)
  next
    case held
    then have h: "hold_or_record_unattributed ''KIMI'' ob r ?du ?seen = Inr r'"
      using body by (simp add: wrap_i64_exact in_i64_def)
    have "kimi_describes ivs (Some r')"
      using hold_keeps [OF h _ ob(1,2)] hold_keeps_kimi [OF h] held seen
      by (intro keep) (simp_all add: kimi_describes_def)
    then show ?thesis using held by (simp add: kimi_taken_def delimited_if)
  next
    case sampled
    then obtain r2 where r2: "add_interval ''KIMI'' ob ?du ?ds ?seen = Inr r2" "kimi_recompute r2 = Inr r'"
      using body by auto
    have t: "kimi_taken (Some r) ob = [(?du, wo_measurement_resolution_fraction_units ob, ?ds)]"
      using sampled new by (simp add: kimi_taken_def delimited_if observed_width_def)
    have "wr_measurement_resolution_fraction_units ?seen = wo_measurement_resolution_fraction_units ob"
      by (simp add: refresh_native_def refresh_reading_def)
    from kimi_sample_appends [OF r2 _ _ this ob(1,2) sampled(3,4)] seen
    show ?thesis unfolding t by (intro keep) (auto simp: kimi_describes_def)
  qed
qed

lemma kimi_anchor_describes:
  assumes "kimi_anchor ob = Inr r" "in_range ob"
  shows "kimi_describes [] (Some r)" "kimi_observe ob r = Inr r" "wr_version r = 0"
proof -
  have v: "kimi_validate_observation ob = Inr ()"
    and r: "r = anchored_row KIMI_ESTIMATOR_VERSION ob
     \<lparr>kr_subject_id = ko_subject_id ob, kr_window_duration_secs = ko_window_duration_secs ob,
      kr_window_name = ko_window_name ob, kr_native_limit_units = ko_native_limit_units ob,
      kr_native_used_units = ko_native_used_units ob\<rparr>"
    using assms(1) by (auto simp: kimi_anchor_def)
  have ob: "valid_reading ob" "wo_spend_nano ob < 2 ^ 63"
    using v assms(2) by (auto simp: kimi_validate_observation_Inr in_range_def)
  show "kimi_describes [] (Some r)"
    using v ob by (auto simp: kimi_describes_def r kimi_validate_observation_Inr)
      (simp_all add: anchored_row_def)
  have "refresh_native ob (refresh_reading ob r) = r" "reset_delta ob r = 0"
    by (simp_all add: r refresh_reading_def refresh_native_def anchored_row_def reset_delta_def)
  moreover have "\<not> window_rolled d ob r" "\<not> window_regressed d ob r" for d
    using \<open>reset_delta ob r = 0\<close>
    by (simp_all add: window_rolled_def window_regressed_def reset_boundary_def jitter_tolerance_def)
  moreover have "kimi_same_window ob r" "wr_observed_at r = wo_observed_at ob" "wr_version r = 0"
    "wr_anchor_used_fraction_units r = wo_used_fraction_units ob"
    "wr_estimator_version r = KIMI_ESTIMATOR_VERSION"
    by (simp_all add: r anchored_row_def kimi_same_window_def)
  ultimately show "kimi_observe ob r = Inr r" "wr_version r = 0"
    using v by (simp_all add: kimi_observe_def wrap_i64_exact in_i64_def)
qed

text \<open>A described row passes the estimator's check and the registry's.\<close>

lemma aggregate_width_nonneg:
  assumes "\<forall>i\<in>set ivs. interval_ok i" "ivs \<noteq> []"
  shows "0 \<le> aggregate_width ivs"
proof -
  have "interval_ok (last ivs)" using assms by simp
  then show ?thesis by (cases "last ivs") (simp add: aggregate_width_def)
qed

lemma kimi_bounds_ordered:
  assumes "kimi_describes ivs (Some r)"
  shows "\<not> both_and (wr_current_low_nano r) (wr_current_high_nano r) (\<lambda>low high. high < low)"
proof (cases "ivs = [] \<or> wr_current_high_nano r = None")
  case True
  then show ?thesis using assms
    by (cases "wr_current_low_nano r") (auto simp: kimi_describes_def kimi_evidence_def)
next
  case False
  have e: "kimi_evidence ivs r" using assms by (simp add: kimi_describes_def)
  then have ivs: "\<forall>i\<in>set ivs. interval_ok i" by (simp add: kimi_evidence_def totals_are_def)
  obtain h where h: "aggregate_high ivs (aggregate_width ivs) = Some h" "wr_current_high_nano r = Some h"
    using False e by (auto simp: kimi_evidence_def)
  have "aggregate_low ivs (aggregate_width ivs) \<le> h"
    using aggregate_brackets_blend [OF ivs _ aggregate_width_nonneg [OF ivs]] h False
    by (meson order_trans)
  then show ?thesis using e h False by (simp add: kimi_evidence_def)
qed

lemma kimi_described_row_is_valid:
  assumes "kimi_describes ivs (Some r)"
  shows "kimi_validate_row r = Inr ()" "validate_kimi_calibration_row r = Inr ()"
proof -
  have r: "reading_ok r" "kimi_evidence ivs r" "kr_subject_id r \<noteq> []" "wr_plan r \<noteq> []"
    "0 < kr_window_duration_secs r" "0 < kr_native_limit_units r"
    "kr_native_used_units r \<le> kr_native_limit_units r"
    using assms by (simp_all add: kimi_describes_def)
  have cap: "wr_current_capacity_nano r = None \<Longrightarrow>
      wr_current_low_nano r = None \<and> wr_current_high_nano r = None"
    using r(2) by (auto simp: kimi_evidence_def totals_are_def split: if_splits)
  note bo = kimi_bounds_ordered [OF assms]
  show "kimi_validate_row r = Inr ()"
    using r bo by (simp add: kimi_validate_row_def reading_ok_def)
  show "validate_kimi_calibration_row r = Inr ()"
    using r(1,3-) bo cap unfolding validate_kimi_calibration_row_def reading_ok_def
    by (cases "wr_current_capacity_nano r"; cases "wr_current_low_nano r"; cases "wr_current_high_nano r")
      simp_all
qed

lemma kimi_apply_described:
  assumes "kimi_describes ivs (Some r)"
  shows "kimi_apply_observation (Some r) ob =
    bind_res (kimi_observe ob r) (\<lambda>row. Inr (row\<lparr>wr_version := wr_version r\<rparr>))"
  using assms kimi_described_row_is_valid(1) [OF assms]
  by (simp add: kimi_apply_observation_def kimi_describes_def)

lemma kimi_apply_first:
  assumes "in_range ob"
  shows "kimi_apply_observation None ob = kimi_anchor ob"
proof (cases "kimi_anchor ob")
  case (Inr r)
  then show ?thesis
    using kimi_anchor_describes(2,3) [OF Inr assms] by (simp add: kimi_apply_observation_def Inr)
qed (simp add: kimi_apply_observation_def)

lemma kimi_describes_version:
  "kimi_describes ivs (Some r) \<Longrightarrow> 0 \<le> v \<Longrightarrow> kimi_describes ivs (Some (r\<lparr>wr_version := v\<rparr>))"
  by (simp add: kimi_describes_def) (simp add: reading_ok_def)

interpretation kimi_window: window_estimator kimi_apply_observation kimi_taken in_range kimi_describes
proof
  show "kimi_describes [] None" by (simp add: kimi_describes_def)
next
  fix ivs r ob r'
  assume d: "kimi_describes ivs r" and ob: "in_range (ob :: kimi_observation)"
    and ok: "kimi_apply_observation r ob = Inr r'"
  show "kimi_describes (ivs @ kimi_taken r ob) (Some r')"
  proof (cases r)
    case None
    then show ?thesis using d ok kimi_anchor_describes(1) [of ob r'] ob
      by (simp add: kimi_apply_first kimi_describes_def [of ivs None] kimi_taken_def)
  next
    case (Some r0)
    then have d0: "kimi_describes ivs (Some r0)" using d by simp
    obtain r1 where r1: "kimi_observe ob r0 = Inr r1" "r' = r1\<lparr>wr_version := wr_version r0\<rparr>"
      using ok by (auto simp: Some kimi_apply_described [OF d0])
    have "0 \<le> wr_version r0" using d0 by (simp add: kimi_describes_def reading_ok_def)
    then show ?thesis
      using kimi_observe_describes [OF d0 ob r1(1)] by (simp add: Some r1(2) kimi_describes_version)
  qed
qed

end
