(* ===== verification/Calibration_Glm.thy ===== *)
theory Calibration_Glm
  imports Calibration_Windows
begin

text \<open>
  The GLM estimator (\<open>crates/forward/src/glm_calibration.rs\<close>) with its observations, turn events
  and rows (\<open>crates/registry/src/glm_calibration.rs\<close>) and the registry's checks of a row
  (\<open>lib.rs\<close>). A GLM row follows two ledgers, the official price and the native credits; its used
  fraction comes either from the quota endpoint or from the native ledger against the published size
  of the window, and a change of source begins a new window.
\<close>

section \<open>Observations, turn events and rows\<close>

definition GLM_ESTIMATOR_VERSION :: i64 where
  "GLM_ESTIMATOR_VERSION = 1"

definition MICROCREDITS_PER_CREDIT :: i64 where
  "MICROCREDITS_PER_CREDIT = 1000000"

record glm_observation =
  lo_subject_id :: string
  lo_plan :: string
  lo_window_duration_secs :: i64
  lo_reset_at :: "i64 option"
  lo_observed_at :: i64
  lo_native_used_units :: "i64 option"
  lo_native_limit_units :: "i64 option"
  lo_native_remaining_units :: "i64 option"
  lo_percentage_raw :: "i64 option"
  lo_used_fraction_units :: "i64 option"
  lo_measurement_resolution_fraction_units :: "i64 option"
  lo_cumulative_api_nanousd :: i64
  lo_cumulative_native_microcredits :: i64
  lo_observation_source :: string
  lo_source_request_id :: "string option"

record glm_window_row =
  lr_subject_id :: string
  lr_plan :: string
  lr_window_duration_secs :: i64
  lr_reset_at :: "i64 option"
  lr_anchor_used_fraction_units :: "i64 option"
  lr_anchor_resolution_fraction_units :: "i64 option"
  lr_anchor_spend_api_nanousd :: i64
  lr_anchor_spend_native_microcredits :: i64
  lr_used_fraction_units :: "i64 option"
  lr_measurement_resolution_fraction_units :: "i64 option"
  lr_observed_at :: i64
  lr_native_limit_microcredits :: "i64 option"
  lr_native_used_microcredits :: "i64 option"
  lr_observed_fraction_units :: i64
  lr_observed_spend_api_nanousd :: i64
  lr_observed_spend_native_microcredits :: i64
  lr_samples :: i64
  lr_unattributed_fraction_units :: i64
  lr_current_capacity_nanousd :: "i64 option"
  lr_current_low_nanousd :: "i64 option"
  lr_current_high_nanousd :: "i64 option"
  lr_current_confidence_bp :: i64
  lr_last_measured_at :: "i64 option"
  lr_estimator_version :: i64
  lr_version :: i64
  lr_updated_ts :: i64

record glm_turn_event =
  lte_request_id :: string
  lte_subject_id :: string
  lte_plan :: string
  lte_requested_model :: string
  lte_served_model :: string
  lte_context_mode :: string
  lte_reasoning_effort :: "string option"
  lte_api_tariff_schedule_id :: string
  lte_credit_schedule_id :: string
  lte_priced_ts :: i64
  lte_completed_at :: i64
  lte_fresh_input_tokens :: i64
  lte_cached_input_tokens :: i64
  lte_cache_write_tokens :: i64
  lte_output_tokens :: i64
  lte_reasoning_tokens :: i64
  lte_api_fresh_input_nanousd :: i64
  lte_api_cached_input_nanousd :: i64
  lte_api_output_nanousd :: i64
  lte_api_total_nanousd :: i64
  lte_native_fresh_input_microcredits :: i64
  lte_native_cached_input_microcredits :: i64
  lte_native_output_microcredits :: i64
  lte_native_total_microcredits :: i64
  lte_off_peak :: bool

datatype glm_event_error =
    GlmEventMissingIdentity
  | GlmEventInvalidTimestamp
  | GlmEventNegativeCounter
  | GlmEventReasoningExceedsOutput
  | GlmEventLegsDoNotSum
  | GlmEventNativeLegsDoNotSum
  | GlmEventEmptyUsage
  | GlmEventUnsupportedContextMode
  | GlmEventUnsupportedReasoningEffort

definition glm_event_validate :: "glm_turn_event \<Rightarrow> glm_event_error + unit" where
  "glm_event_validate e =
   (if [] \<in> set [lte_request_id e, lte_subject_id e, lte_plan e, lte_requested_model e,
                lte_served_model e, lte_api_tariff_schedule_id e, lte_credit_schedule_id e]
    then Inl GlmEventMissingIdentity
    else if lte_context_mode e \<notin> {''200k'', ''1m''} then Inl GlmEventUnsupportedContextMode
    else if (case lte_reasoning_effort e of
               Some effort \<Rightarrow> effort \<notin> {''off'', ''high'', ''max''} | None \<Rightarrow> False)
    then Inl GlmEventUnsupportedReasoningEffort
    else if lte_priced_ts e \<le> 0 \<or> lte_completed_at e \<le> 0 then Inl GlmEventInvalidTimestamp
    else if list_ex (\<lambda>v. v < 0)
              [lte_fresh_input_tokens e, lte_cached_input_tokens e, lte_cache_write_tokens e,
               lte_output_tokens e, lte_reasoning_tokens e, lte_api_fresh_input_nanousd e,
               lte_api_cached_input_nanousd e, lte_api_output_nanousd e,
               lte_native_fresh_input_microcredits e, lte_native_cached_input_microcredits e,
               lte_native_output_microcredits e]
            \<or> lte_api_total_nanousd e \<le> 0 \<or> lte_native_total_microcredits e \<le> 0
    then Inl GlmEventNegativeCounter
    else if lte_output_tokens e < lte_reasoning_tokens e then Inl GlmEventReasoningExceedsOutput
    else if lte_fresh_input_tokens e = 0 \<and> lte_cached_input_tokens e = 0
            \<and> lte_cache_write_tokens e = 0 \<and> lte_output_tokens e = 0
    then Inl GlmEventEmptyUsage
    else
      bind_res (ok_or GlmEventLegsDoNotSum
          (Option.bind (checked_add_i64 (lte_api_fresh_input_nanousd e)
              (lte_api_cached_input_nanousd e)) (\<lambda>v.
           checked_add_i64 v (lte_api_output_nanousd e)))) (\<lambda>api_sum.
      if api_sum \<noteq> lte_api_total_nanousd e then Inl GlmEventLegsDoNotSum
      else
        bind_res (ok_or GlmEventNativeLegsDoNotSum
            (Option.bind (checked_add_i64 (lte_native_fresh_input_microcredits e)
                (lte_native_cached_input_microcredits e)) (\<lambda>v.
             checked_add_i64 v (lte_native_output_microcredits e)))) (\<lambda>native_sum.
        if native_sum \<noteq> lte_native_total_microcredits e then Inl GlmEventNativeLegsDoNotSum else Inr ())))"

definition glm_fraction_from_native :: "i64 \<Rightarrow> i64 \<Rightarrow> string + derived_fraction" where
  "glm_fraction_from_native used limit = fraction_from_native ''GLM'' used limit"

definition glm_validate_observation :: "glm_observation \<Rightarrow> string + unit" where
  "glm_validate_observation ob =
   (if lo_subject_id ob = [] then Inl ''GLM calibration observation has no subject''
    else if lo_plan ob = [] then Inl ''GLM calibration observation has no declared paid plan''
    else if lo_window_duration_secs ob \<le> 0
    then Inl ''GLM calibration observation has an invalid window duration''
    else if lo_observed_at ob \<le> 0 \<or> some_and (lo_reset_at ob) (\<lambda>reset. reset \<le> 0)
    then Inl ''GLM calibration observation has an invalid timestamp''
    else if lo_cumulative_api_nanousd ob < 0 \<or> lo_cumulative_native_microcredits ob < 0
    then Inl ''GLM calibration observation has a negative cumulative ledger''
    else if some_and (lo_native_limit_units ob) (\<lambda>limit. limit \<le> 0)
    then Inl ''GLM calibration observation has an invalid quota limit''
    else if some_and (lo_native_used_units ob) (\<lambda>used.
              used < 0 \<or> some_and (lo_native_limit_units ob) (\<lambda>limit. limit < used))
    then Inl ''GLM calibration observation has an invalid quota usage''
    else if some_and (lo_native_remaining_units ob) (\<lambda>remaining.
              remaining < 0 \<or> some_and (lo_native_limit_units ob) (\<lambda>limit. limit < remaining))
    then Inl ''GLM calibration observation has an invalid quota remaining''
    else if (lo_used_fraction_units ob \<noteq> None)
            \<noteq> (lo_measurement_resolution_fraction_units ob \<noteq> None)
    then Inl ''GLM calibration observation fraction and resolution must move together''
    else if some_and (lo_used_fraction_units ob) (\<lambda>f. \<not> (0 \<le> f \<and> f \<le> CALIBRATION_SCALE))
    then Inl ''GLM calibration observation fraction is out of range''
    else if some_and (lo_measurement_resolution_fraction_units ob)
              (\<lambda>f. \<not> (1 \<le> f \<and> f \<le> CALIBRATION_SCALE))
    then Inl ''GLM calibration observation resolution is out of range''
    else if lo_observation_source ob = ''poll'' \<and> lo_source_request_id ob = None
            \<or> lo_observation_source ob = ''response'' \<and> lo_source_request_id ob \<noteq> None
    then Inr ()
    else Inl ''GLM calibration observation has an invalid source'')"

definition validate_glm_calibration_row :: "glm_window_row \<Rightarrow> string + unit" where
  "validate_glm_calibration_row r =
   (if lr_subject_id r = [] \<or> lr_plan r = [] then Inl ''GLM calibration row has no identity''
    else if lr_window_duration_secs r \<le> 0
    then Inl ''GLM calibration row has an invalid window duration''
    else if some_and (lr_native_limit_microcredits r) (\<lambda>limit. limit \<le> 0)
            \<or> some_and (lr_native_used_microcredits r) (\<lambda>used. used < 0)
            \<or> both_and (lr_native_used_microcredits r) (lr_native_limit_microcredits r)
                 (\<lambda>used limit. limit < used)
    then Inl ''GLM calibration row has an invalid quota window''
    else if some_and (lr_used_fraction_units r) (\<lambda>f. \<not> (0 \<le> f \<and> f \<le> CALIBRATION_SCALE))
    then Inl ''GLM calibration row fraction is out of range''
    else if some_and (lr_measurement_resolution_fraction_units r)
              (\<lambda>f. \<not> (1 \<le> f \<and> f \<le> CALIBRATION_SCALE))
    then Inl ''GLM calibration row resolution is out of range''
    else if (lr_used_fraction_units r \<noteq> None) \<noteq> (lr_measurement_resolution_fraction_units r \<noteq> None)
    then Inl ''GLM calibration row fraction and resolution must move together''
    else if (lr_anchor_used_fraction_units r \<noteq> None)
            \<noteq> (lr_anchor_resolution_fraction_units r \<noteq> None)
    then Inl ''GLM calibration row anchor fraction and resolution must move together''
    else (case (lr_current_low_nanousd r, lr_current_high_nanousd r, lr_current_capacity_nanousd r) of
            (Some _, _, None) \<Rightarrow> Inl ''GLM calibration row has bounds without a capacity''
          | (None, Some _, None) \<Rightarrow> Inl ''GLM calibration row has bounds without a capacity''
          | (Some low, Some high, _) \<Rightarrow>
              if high < low then Inl ''GLM calibration row bounds are inverted'' else Inr ()
          | _ \<Rightarrow> Inr ()))"

definition glm_same_window :: "glm_observation \<Rightarrow> glm_window_row \<Rightarrow> bool" where
  "glm_same_window ob r \<longleftrightarrow>
     lo_subject_id ob = lr_subject_id r \<and> lo_plan ob = lr_plan r
     \<and> lo_window_duration_secs ob = lr_window_duration_secs r"

definition validate_glm_calibration_pair :: "glm_window_row \<Rightarrow> glm_observation \<Rightarrow> string + unit" where
  "validate_glm_calibration_pair r ob =
   bind_res (validate_glm_calibration_row r) (\<lambda>_.
   if \<not> glm_same_window ob r
   then Inl ''GLM calibration state and observation describe different windows''
   else Inr ())"

definition glm_native_remaining_units :: "glm_window_row \<Rightarrow> i64 option" where
  "glm_native_remaining_units r =
   Option.bind (lr_native_limit_microcredits r) (\<lambda>limit.
   Option.bind (lr_native_used_microcredits r) (\<lambda>used. checked_sub_i64 limit used))"

definition glm_current_remaining_nano :: "glm_window_row \<Rightarrow> i64 option" where
  "glm_current_remaining_nano r =
   Option.bind (lr_current_capacity_nanousd r) (\<lambda>capacity.
   Option.bind (lr_used_fraction_units r) (\<lambda>used.
   Option.bind (checked_sub_i64 CALIBRATION_SCALE used) (\<lambda>unused.
   Option.bind (checked_mul_i128 capacity unused) (\<lambda>value.
   Option.bind (checked_div_i128 value CALIBRATION_SCALE) i64_try_from))))"

section \<open>The used fraction\<close>

definition published_window_limit_credits :: "string \<Rightarrow> i64 \<Rightarrow> i64 option" where
  "published_window_limit_credits plan window_duration_secs =
   (if window_duration_secs = 18000
    then (if plan = ''Lite'' then Some 2000
          else if plan = ''Pro'' then Some 12000
          else if plan = ''Max'' then Some 28000 else None)
    else if window_duration_secs = 604800
    then (if plan = ''Lite'' then Some 10000
          else if plan = ''Pro'' then Some 60000
          else if plan = ''Max'' then Some 140000 else None)
    else None)"

definition published_window_limit_microcredits :: "string \<Rightarrow> i64 \<Rightarrow> i64 option" where
  "published_window_limit_microcredits plan window_duration_secs =
   Option.bind (published_window_limit_credits plan window_duration_secs)
     (\<lambda>credits. checked_mul_i64 credits MICROCREDITS_PER_CREDIT)"

datatype fraction_source = QuotaEndpoint | NativeLedger

record resolved_fraction =
  rf_used_fraction_units :: i64
  rf_resolution_fraction_units :: i64
  rf_native_limit_microcredits :: "i64 option"
  rf_native_used_microcredits :: "i64 option"
  rf_source :: fraction_source

definition glm_overflow :: string where
  "glm_overflow = ''GLM calibration value overflow''"

text \<open>\<open>Option\<close> of a checked product, \<open>map\<close> and \<open>transpose\<close>.\<close>

definition scaled_units :: "string \<Rightarrow> i64 option \<Rightarrow> string + i64 option" where
  "scaled_units e units =
   (case units of
      None \<Rightarrow> Inr None
    | Some n \<Rightarrow> bind_res (ok_or e (checked_mul_i64 n MICROCREDITS_PER_CREDIT)) (\<lambda>v. Inr (Some v)))"

text \<open>The fraction and its width from a native usage and limit, as both readers compute them.\<close>

definition native_fraction :: "i64 \<Rightarrow> i64 \<Rightarrow> string + resolved_fraction" where
  "native_fraction used limit =
   bind_res (ok_or ''GLM native fraction overflow''
       (Option.bind (checked_mul_i128 used CALIBRATION_SCALE) (\<lambda>value.
        checked_div_i128 value limit))) (\<lambda>quotient.
   bind_res (calibration_i64 glm_overflow quotient) (\<lambda>used_fraction_units.
   bind_res (strict_ceil ''GLM'' CALIBRATION_SCALE limit) (\<lambda>ceiling.
   bind_res (calibration_i64 glm_overflow ceiling) (\<lambda>resolution.
   Inr \<lparr>rf_used_fraction_units = used_fraction_units,
        rf_resolution_fraction_units = max resolution 1,
        rf_native_limit_microcredits = Some limit,
        rf_native_used_microcredits = Some used,
        rf_source = NativeLedger\<rparr>))))"

definition resolve_fraction ::
  "glm_observation \<Rightarrow> i64 option \<Rightarrow> string + resolved_fraction option" where
  "resolve_fraction ob native_baseline_microcredits =
   (case lo_used_fraction_units ob of
      Some quota_fraction \<Rightarrow>
        bind_res (ok_or ''GLM quota fraction without its measurement resolution''
            (lo_measurement_resolution_fraction_units ob)) (\<lambda>resolution.
        bind_res (scaled_units ''GLM native limit overflow'' (lo_native_limit_units ob)) (\<lambda>limit.
        bind_res (scaled_units ''GLM native usage overflow'' (lo_native_used_units ob)) (\<lambda>used.
        Inr (Some \<lparr>rf_used_fraction_units = quota_fraction,
                   rf_resolution_fraction_units = resolution,
                   rf_native_limit_microcredits = limit,
                   rf_native_used_microcredits = used,
                   rf_source = QuotaEndpoint\<rparr>))))
    | None \<Rightarrow>
        (case published_window_limit_microcredits (lo_plan ob) (lo_window_duration_secs ob) of
           None \<Rightarrow> Inr None
         | Some limit \<Rightarrow>
             (case native_baseline_microcredits of
                None \<Rightarrow> Inr None
              | Some baseline \<Rightarrow>
                  bind_res (ok_or ''GLM native ledger regressed below the window baseline''
                      (checked_sub_i64 (lo_cumulative_native_microcredits ob) baseline)) (\<lambda>used.
                  bind_res (native_fraction used limit) (\<lambda>rf. Inr (Some rf))))))"

definition native_baseline :: "glm_window_row \<Rightarrow> i64 option" where
  "native_baseline r =
   Option.bind (lr_native_used_microcredits r) (\<lambda>used.
   checked_sub_i64 (lr_anchor_spend_native_microcredits r) used)"

definition resolve_native_fraction :: "i64 \<Rightarrow> i64 \<Rightarrow> string + resolved_fraction option" where
  "resolve_native_fraction used limit =
   (if limit \<le> 0 \<or> used < 0 \<or> limit < used then Inr None
    else bind_res (native_fraction used limit) (\<lambda>rf. Inr (Some rf)))"

definition stored_fraction_source :: "glm_window_row \<Rightarrow> fraction_source option" where
  "stored_fraction_source r =
   (case lr_used_fraction_units r of
      None \<Rightarrow> None
    | Some used_fraction \<Rightarrow>
        (case (lr_native_used_microcredits r, lr_native_limit_microcredits r) of
           (Some used, Some limit) \<Rightarrow>
             (case resolve_native_fraction used limit of
                Inr (Some native) \<Rightarrow>
                  if rf_used_fraction_units native = used_fraction
                     \<and> Some (rf_resolution_fraction_units native)
                         = lr_measurement_resolution_fraction_units r
                  then Some NativeLedger
                  else Some QuotaEndpoint
              | _ \<Rightarrow> Some QuotaEndpoint)
         | _ \<Rightarrow> Some QuotaEndpoint))"

section \<open>The estimator\<close>

definition glm_anchor :: "glm_observation \<Rightarrow> string + glm_window_row" where
  "glm_anchor ob =
   bind_res (glm_validate_observation ob) (\<lambda>_.
   bind_res (resolve_fraction ob (Some (lo_cumulative_native_microcredits ob))) (\<lambda>resolved.
   Inr \<lparr>lr_subject_id = lo_subject_id ob,
        lr_plan = lo_plan ob,
        lr_window_duration_secs = lo_window_duration_secs ob,
        lr_reset_at = lo_reset_at ob,
        lr_anchor_used_fraction_units = map_option rf_used_fraction_units resolved,
        lr_anchor_resolution_fraction_units = map_option rf_resolution_fraction_units resolved,
        lr_anchor_spend_api_nanousd = lo_cumulative_api_nanousd ob,
        lr_anchor_spend_native_microcredits = lo_cumulative_native_microcredits ob,
        lr_used_fraction_units = map_option rf_used_fraction_units resolved,
        lr_measurement_resolution_fraction_units = map_option rf_resolution_fraction_units resolved,
        lr_observed_at = lo_observed_at ob,
        lr_native_limit_microcredits = Option.bind resolved rf_native_limit_microcredits,
        lr_native_used_microcredits = Option.bind resolved rf_native_used_microcredits,
        lr_observed_fraction_units = 0,
        lr_observed_spend_api_nanousd = 0,
        lr_observed_spend_native_microcredits = 0,
        lr_samples = 0,
        lr_unattributed_fraction_units = 0,
        lr_current_capacity_nanousd = None,
        lr_current_low_nanousd = None,
        lr_current_high_nanousd = None,
        lr_current_confidence_bp = 0,
        lr_last_measured_at = None,
        lr_estimator_version = GLM_ESTIMATOR_VERSION,
        lr_version = 0,
        lr_updated_ts = lo_observed_at ob\<rparr>))"

definition glm_advance_anchor :: "glm_observation \<Rightarrow> resolved_fraction \<Rightarrow> glm_window_row \<Rightarrow> glm_window_row" where
  "glm_advance_anchor ob current r = r\<lparr>
     lr_anchor_used_fraction_units := Some (rf_used_fraction_units current),
     lr_anchor_resolution_fraction_units := Some (rf_resolution_fraction_units current),
     lr_anchor_spend_api_nanousd := lo_cumulative_api_nanousd ob,
     lr_anchor_spend_native_microcredits := lo_cumulative_native_microcredits ob\<rparr>"

text \<open>A resolved reading refreshes the fraction and the native halves of the row.\<close>

definition refresh_resolved :: "resolved_fraction \<Rightarrow> glm_window_row \<Rightarrow> glm_window_row" where
  "refresh_resolved value r = r\<lparr>
     lr_used_fraction_units := Some (rf_used_fraction_units value),
     lr_measurement_resolution_fraction_units := Some (rf_resolution_fraction_units value),
     lr_native_limit_microcredits := rf_native_limit_microcredits value,
     lr_native_used_microcredits := rf_native_used_microcredits value\<rparr>"

definition glm_begin_window :: "glm_observation \<Rightarrow> glm_window_row \<Rightarrow> string + glm_window_row" where
  "glm_begin_window ob r =
   bind_res (resolve_fraction ob (Some (lo_cumulative_native_microcredits ob))) (\<lambda>resolved.
   let r1 = r\<lparr>lr_reset_at := lo_reset_at ob, lr_observed_at := lo_observed_at ob,
              lr_updated_ts := lo_observed_at ob\<rparr>
   in Inr (case resolved of
        Some value \<Rightarrow> glm_advance_anchor ob value (refresh_resolved value r1)
      | None \<Rightarrow> r1\<lparr>
          lr_used_fraction_units := None,
          lr_measurement_resolution_fraction_units := None,
          lr_native_limit_microcredits := None,
          lr_native_used_microcredits := None,
          lr_anchor_used_fraction_units := None,
          lr_anchor_resolution_fraction_units := None,
          lr_anchor_spend_api_nanousd := lo_cumulative_api_nanousd ob,
          lr_anchor_spend_native_microcredits := lo_cumulative_native_microcredits ob\<rparr>))"

definition glm_interval_fraction_uncertainty :: "i64 \<Rightarrow> i64 \<Rightarrow> i64" where
  "glm_interval_fraction_uncertainty anchor_resolution current_resolution =
     trunc_div anchor_resolution 2 + trunc_div current_resolution 2"

definition glm_update_workload_envelope ::
  "i64 \<Rightarrow> i64 \<Rightarrow> i64 \<Rightarrow> glm_window_row \<Rightarrow> string + glm_window_row" where
  "glm_update_workload_envelope delta_used uncertainty delta_api r =
   bind_res (workload_envelope ''GLM'' glm_overflow (strict_ceil ''GLM'')
       (lr_current_low_nanousd r) (lr_current_high_nanousd r) (lr_samples r)
       delta_used uncertainty delta_api) (\<lambda>(low, high).
   Inr (r\<lparr>lr_current_low_nanousd := Some low, lr_current_high_nanousd := high\<rparr>))"

definition unwrap_or_zero :: "i64 option \<Rightarrow> i64" where
  "unwrap_or_zero x = (case x of None \<Rightarrow> 0 | Some v \<Rightarrow> v)"

definition glm_recompute :: "glm_window_row \<Rightarrow> string + glm_window_row" where
  "glm_recompute r =
   (let denominator = lr_observed_fraction_units r;
        samples = lr_samples r;
        resolution = max (unwrap_or_zero (lr_measurement_resolution_fraction_units r))
                         (unwrap_or_zero (lr_anchor_resolution_fraction_units r))
    in if denominator \<le> 0 then Inr r
       else
         bind_res (ok_or ''GLM capacity numerator overflow''
             (checked_mul_i128 CALIBRATION_SCALE (lr_observed_spend_api_nanousd r))) (\<lambda>numerator.
         bind_res (strict_round ''GLM'' numerator denominator) (\<lambda>rounded.
         bind_res (calibration_i64 glm_overflow rounded) (\<lambda>capacity.
         bind_res (confidence ''GLM'' glm_overflow (strict_ratio_bp ''GLM'') samples
             (lr_current_low_nanousd r) (lr_current_high_nanousd r) denominator
             (bind_res (ok_or ''GLM confidence resolution overflow''
                (Option.bind (checked_mul_i128 resolution 2) (\<lambda>value.
                 checked_mul_i128 value samples))) (\<lambda>width.
              ok_or ''GLM confidence denominator overflow''
                (checked_add_i128 denominator width)))) (\<lambda>confidence_bp.
         Inr (r\<lparr>lr_current_capacity_nanousd := Some capacity,
                lr_current_confidence_bp := confidence_bp\<rparr>))))))"

text \<open>The tests that make an observation begin a new window.\<close>

definition glm_reset_delta :: "glm_observation \<Rightarrow> glm_window_row \<Rightarrow> i128 option" where
  "glm_reset_delta ob r =
   (case (lo_reset_at ob, lr_reset_at r) of (Some new, Some old) \<Rightarrow> Some (new - old) | _ \<Rightarrow> None)"

definition fraction_fell_back :: "resolved_fraction option \<Rightarrow> glm_window_row \<Rightarrow> bool" where
  "fraction_fell_back resolved r \<longleftrightarrow>
     both_and (map_option rf_used_fraction_units resolved) (lr_anchor_used_fraction_units r)
       (\<lambda>current anchor. current < anchor)"

definition window_slid :: "resolved_fraction option \<Rightarrow> bool" where
  "window_slid resolved \<longleftrightarrow>
     (case resolved of
        None \<Rightarrow> False
      | Some value \<Rightarrow>
          rf_source value = NativeLedger
          \<and> both_and (rf_native_used_microcredits value) (rf_native_limit_microcredits value)
               (\<lambda>used limit. limit < used))"

definition fraction_cutover :: "resolved_fraction option \<Rightarrow> glm_window_row \<Rightarrow> bool" where
  "fraction_cutover resolved r \<longleftrightarrow>
     (case (stored_fraction_source r, map_option rf_source resolved) of
        (Some stored, Some new) \<Rightarrow> stored \<noteq> new
      | _ \<Rightarrow> False)"

definition glm_window_rolled :: "glm_observation \<Rightarrow> resolved_fraction option \<Rightarrow> glm_window_row \<Rightarrow> bool" where
  "glm_window_rolled ob resolved r \<longleftrightarrow>
     some_and (glm_reset_delta ob r) (\<lambda>delta. reset_boundary (lr_window_duration_secs r) \<le> delta)
     \<or> fraction_fell_back resolved r
        \<and> some_and (glm_reset_delta ob r) (\<lambda>delta. jitter_tolerance (lr_window_duration_secs r) \<le> delta)
     \<or> window_slid resolved
     \<or> fraction_cutover resolved r"

definition glm_refresh_reading ::
  "glm_observation \<Rightarrow> resolved_fraction option \<Rightarrow> glm_window_row \<Rightarrow> glm_window_row" where
  "glm_refresh_reading ob resolved r =
   (let r1 = r\<lparr>lr_reset_at :=
          (case (lr_reset_at r, lo_reset_at ob) of
             (Some old, Some new) \<Rightarrow> Some (max old new)
           | (Some old, None) \<Rightarrow> Some old
           | (None, new) \<Rightarrow> new)\<rparr>;
        r2 = (case resolved of Some value \<Rightarrow> refresh_resolved value r1 | None \<Rightarrow> r1)
    in r2\<lparr>lr_observed_at := lo_observed_at ob, lr_updated_ts := lo_observed_at ob\<rparr>)"

definition glm_hold_or_record_unattributed ::
  "glm_observation \<Rightarrow> resolved_fraction \<Rightarrow> glm_window_row \<Rightarrow> i64 \<Rightarrow> glm_window_row \<Rightarrow> string + glm_window_row" where
  "glm_hold_or_record_unattributed ob current previous delta_used r =
   (if lr_used_fraction_units previous = Some (rf_used_fraction_units current)
       \<and> lr_observed_at previous < lo_observed_at ob
    then bind_res (ok_or ''GLM unattributed fraction overflow''
             (checked_add_i64 (lr_unattributed_fraction_units r) delta_used)) (\<lambda>u.
           Inr (glm_advance_anchor ob current (r\<lparr>lr_unattributed_fraction_units := u\<rparr>)))
    else Inr r)"

definition glm_sample ::
  "glm_observation \<Rightarrow> resolved_fraction \<Rightarrow> i64 \<Rightarrow> i64 \<Rightarrow> i64 \<Rightarrow> i64 \<Rightarrow> glm_window_row \<Rightarrow> string + glm_window_row" where
  "glm_sample ob current anchor_resolution delta_used delta_api delta_native r =
   (let uncertainty = glm_interval_fraction_uncertainty anchor_resolution
                        (rf_resolution_fraction_units current)
    in bind_res (glm_update_workload_envelope delta_used uncertainty delta_api r) (\<lambda>r1.
       bind_res (ok_or ''GLM observed fraction overflow''
           (checked_add_i64 (lr_observed_fraction_units r1) delta_used)) (\<lambda>fraction.
       bind_res (ok_or ''GLM observed API spend overflow''
           (checked_add_i64 (lr_observed_spend_api_nanousd r1) delta_api)) (\<lambda>api.
       bind_res (ok_or ''GLM observed native spend overflow''
           (checked_add_i64 (lr_observed_spend_native_microcredits r1) delta_native)) (\<lambda>native.
       bind_res (ok_or ''GLM calibration sample overflow''
           (checked_add_i64 (lr_samples r1) 1)) (\<lambda>samples.
       glm_recompute ((glm_advance_anchor ob current (r1\<lparr>
          lr_observed_fraction_units := fraction,
          lr_observed_spend_api_nanousd := api,
          lr_observed_spend_native_microcredits := native,
          lr_samples := samples\<rparr>))\<lparr>lr_last_measured_at := Some (lo_observed_at ob)\<rparr>)))))))"

definition glm_observe :: "glm_observation \<Rightarrow> glm_window_row \<Rightarrow> string + glm_window_row" where
  "glm_observe ob r =
   bind_res (glm_validate_observation ob) (\<lambda>_.
   if \<not> glm_same_window ob r then Inl ''GLM calibration observation identity mismatch''
   else if lo_observed_at ob < lr_observed_at r then Inr r
   else if lr_estimator_version r \<noteq> GLM_ESTIMATOR_VERSION
   then Inl ''GLM calibration estimator version mismatch''
   else if lo_cumulative_api_nanousd ob < lr_anchor_spend_api_nanousd r
           \<or> lo_cumulative_native_microcredits ob < lr_anchor_spend_native_microcredits r
   then Inl ''GLM cumulative calibration ledger regressed''
   else bind_res (resolve_fraction ob (native_baseline r)) (\<lambda>resolved.
     if glm_window_rolled ob resolved r then glm_begin_window ob r
     else if some_and (glm_reset_delta ob r) (\<lambda>delta. delta \<le> - reset_boundary (lr_window_duration_secs r))
     then Inr r
     else let seen = glm_refresh_reading ob resolved r in
       case resolved of
         None \<Rightarrow> Inr seen
       | Some current \<Rightarrow>
           (case (lr_anchor_used_fraction_units r, lr_anchor_resolution_fraction_units r) of
              (Some anchor_used, Some anchor_resolution) \<Rightarrow>
                let delta_used = wrap_i64 (rf_used_fraction_units current - anchor_used) in
                if delta_used \<le> 0 then Inr seen
                else
                  let delta_api = wrap_i64 (lo_cumulative_api_nanousd ob - lr_anchor_spend_api_nanousd r);
                      delta_native = wrap_i64 (lo_cumulative_native_microcredits ob
                                       - lr_anchor_spend_native_microcredits r)
                  in if delta_api = 0 \<or> delta_native = 0
                     then glm_hold_or_record_unattributed ob current r delta_used seen
                     else glm_sample ob current anchor_resolution delta_used delta_api delta_native seen
            | _ \<Rightarrow> Inr (glm_advance_anchor ob current seen))))"

definition glm_apply_observation :: "glm_window_row option \<Rightarrow> glm_observation \<Rightarrow> string + glm_window_row" where
  "glm_apply_observation existing ob =
   (let version = (case existing of None \<Rightarrow> 0 | Some r \<Rightarrow> lr_version r)
    in bind_res
         (case existing of
            Some r \<Rightarrow>
              if lr_estimator_version r = GLM_ESTIMATOR_VERSION
              then bind_res (validate_glm_calibration_row r) (\<lambda>_. Inr r)
              else glm_anchor ob
          | None \<Rightarrow> glm_anchor ob) (\<lambda>calibration.
       bind_res (glm_observe ob calibration) (\<lambda>row. Inr (row\<lparr>lr_version := version\<rparr>))))"

definition glm_rebuild_from_history :: "glm_observation list \<Rightarrow> string + glm_window_row option" where
  "glm_rebuild_from_history observations = replay glm_apply_observation None observations"

definition glm_apply_observation_with_history ::
  "glm_window_row option \<Rightarrow> glm_observation list \<Rightarrow> glm_observation \<Rightarrow> string + glm_window_row" where
  "glm_apply_observation_with_history existing history ob =
   (case existing of
      None \<Rightarrow> glm_apply_observation existing ob
    | Some r \<Rightarrow>
        if lr_estimator_version r = GLM_ESTIMATOR_VERSION
        then glm_apply_observation existing ob
        else bind_res (glm_rebuild_from_history history) (\<lambda>rebuilt.
             bind_res (ok_or ''missing immutable history for GLM estimator rebuild'' rebuilt)
               (\<lambda>row. glm_apply_observation (Some (row\<lparr>lr_version := lr_version r\<rparr>)) ob)))"

subsection \<open>Cohorts\<close>

fun pooled_totals :: "glm_window_row \<Rightarrow> i64 \<Rightarrow> i64 \<Rightarrow> glm_window_row list \<Rightarrow> string + (i64 \<times> i64) option" where
  "pooled_totals first fraction spend [] = Inr (Some (fraction, spend))"
| "pooled_totals first fraction spend (r # rs) =
     (if lr_plan r \<noteq> lr_plan first \<or> lr_window_duration_secs r \<noteq> lr_window_duration_secs first
      then Inr None
      else
        bind_res (ok_or ''GLM cohort fraction overflow''
            (checked_add_i64 fraction (lr_observed_fraction_units r))) (\<lambda>fraction'.
        bind_res (ok_or ''GLM cohort spend overflow''
            (checked_add_i64 spend (lr_observed_spend_api_nanousd r))) (\<lambda>spend'.
        pooled_totals first fraction' spend' rs)))"

definition pooled_cohort_capacity_nanousd :: "glm_window_row list \<Rightarrow> string + i64 option" where
  "pooled_cohort_capacity_nanousd rows =
   (case rows of
      [] \<Rightarrow> Inr None
    | first # _ \<Rightarrow>
        if lr_plan first = []
           \<or> published_window_limit_microcredits (lr_plan first) (lr_window_duration_secs first) = None
        then Inr None
        else
          bind_res (pooled_totals first 0 0 rows) (\<lambda>totals.
          case totals of
            None \<Rightarrow> Inr None
          | Some (fraction, spend) \<Rightarrow>
              if fraction \<le> 0 then Inr None
              else
                bind_res (ok_or ''GLM cohort capacity numerator overflow''
                    (checked_mul_i128 CALIBRATION_SCALE spend)) (\<lambda>numerator.
                bind_res (strict_round ''GLM'' numerator fraction) (\<lambda>rounded.
                bind_res (calibration_i64 glm_overflow rounded) (\<lambda>capacity.
                Inr (Some capacity))))))"

definition pooled_remaining_nanousd :: "i64 \<Rightarrow> glm_window_row \<Rightarrow> i64 option" where
  "pooled_remaining_nanousd capacity_nanousd r =
   Option.bind (lr_used_fraction_units r) (\<lambda>used.
   Option.bind (checked_sub_i64 CALIBRATION_SCALE used) (\<lambda>unused.
   Option.bind (checked_mul_i128 capacity_nanousd unused) (\<lambda>value.
   Option.bind (checked_div_i128 value CALIBRATION_SCALE) i64_try_from)))"

subsection \<open>Storing an observation\<close>

definition glm_observation_is_stale_or_duplicate :: "glm_window_row \<Rightarrow> glm_observation \<Rightarrow> bool" where
  "glm_observation_is_stale_or_duplicate r ob \<longleftrightarrow>
     lo_observed_at ob < lr_observed_at r
     \<or> lo_observed_at ob = lr_observed_at r
        \<and> lo_reset_at ob = lr_reset_at r
        \<and> lo_used_fraction_units ob = lr_used_fraction_units r
        \<and> lo_measurement_resolution_fraction_units ob = lr_measurement_resolution_fraction_units r
        \<and> \<not> (both_and (lr_used_fraction_units r) (lr_anchor_used_fraction_units r)
                 (\<lambda>used anchor. anchor < used)
              \<and> (lr_anchor_spend_api_nanousd r < lo_cumulative_api_nanousd ob
                 \<or> lr_anchor_spend_native_microcredits r < lo_cumulative_native_microcredits ob))"

definition observe_glm_round ::
  "(glm_window_row \<Rightarrow> i64 option) \<Rightarrow> glm_window_row option \<Rightarrow> glm_observation list \<Rightarrow> glm_observation
     \<Rightarrow> string + glm_window_row option" where
  "observe_glm_round swap existing stored ob =
   (if (case existing of
          Some r \<Rightarrow> lr_estimator_version r = GLM_ESTIMATOR_VERSION
                    \<and> glm_observation_is_stale_or_duplicate r ob
        | None \<Rightarrow> False)
    then Inr existing
    else
      let history = (case existing of
                       Some r \<Rightarrow> if lr_estimator_version r \<noteq> GLM_ESTIMATOR_VERSION then stored else []
                     | None \<Rightarrow> [])
      in bind_res (glm_apply_observation_with_history existing history ob) (\<lambda>state.
         bind_res (validate_glm_calibration_pair state ob) (\<lambda>_.
         Inr (map_option (\<lambda>version. state\<lparr>lr_version := version\<rparr>) (swap state)))))"

end
