(* ===== verification/Calibration_Glm_Live.thy ===== *)
theory Calibration_Glm_Live
  imports Calibration_Glm Calibration_Invariants
begin

text \<open>
  The GLM estimator meets the contract \<open>window_estimator\<close>: its row is described by the intervals
  its observations delimit, whichever source the used fraction came from, and a described row passes
  the registry's check.
\<close>

section \<open>The invariant\<close>

fun fraction_pair_ok :: "i64 option \<Rightarrow> i64 option \<Rightarrow> bool" where
  "fraction_pair_ok None None \<longleftrightarrow> True"
| "fraction_pair_ok (Some u) (Some w) \<longleftrightarrow> 0 \<le> u \<and> u \<le> CALIBRATION_SCALE \<and> 1 \<le> w \<and> w \<le> CALIBRATION_SCALE"
| "fraction_pair_ok _ _ \<longleftrightarrow> False"

definition native_pair_ok :: "i64 option \<Rightarrow> i64 option \<Rightarrow> bool" where
  "native_pair_ok used limit \<longleftrightarrow>
     \<not> some_and limit (\<lambda>l. l \<le> 0) \<and> \<not> some_and used (\<lambda>u. u < 0)
     \<and> \<not> both_and used limit (\<lambda>u l. l < u)"

definition glm_reading_ok :: "glm_window_row \<Rightarrow> bool" where
  "glm_reading_ok r \<longleftrightarrow>
     lr_subject_id r \<noteq> [] \<and> lr_plan r \<noteq> [] \<and> 0 < lr_window_duration_secs r
     \<and> fraction_pair_ok (lr_anchor_used_fraction_units r) (lr_anchor_resolution_fraction_units r)
     \<and> fraction_pair_ok (lr_used_fraction_units r) (lr_measurement_resolution_fraction_units r)
     \<and> native_pair_ok (lr_native_used_microcredits r) (lr_native_limit_microcredits r)
     \<and> 0 \<le> lr_anchor_spend_api_nanousd r \<and> lr_anchor_spend_api_nanousd r < 2 ^ 63
     \<and> 0 \<le> lr_anchor_spend_native_microcredits r \<and> lr_anchor_spend_native_microcredits r < 2 ^ 63
     \<and> lr_estimator_version r = GLM_ESTIMATOR_VERSION"

definition glm_evidence :: "interval list \<Rightarrow> glm_window_row \<Rightarrow> bool" where
  "glm_evidence ivs r \<longleftrightarrow>
     (\<forall>i\<in>set ivs. interval_ok i)
     \<and> lr_observed_fraction_units r = total_used ivs \<and> total_used ivs < 2 ^ 63
     \<and> lr_observed_spend_api_nanousd r = total_spend ivs \<and> total_spend ivs < 2 ^ 63
     \<and> lr_samples r = int (length ivs)
     \<and> lr_current_low_nanousd r = least_low ivs
     \<and> lr_current_high_nanousd r = greatest_high ivs
     \<and> lr_current_capacity_nanousd r = (if ivs = [] then None else Some (blended_capacity ivs))
     \<and> 0 \<le> lr_current_confidence_bp r \<and> lr_current_confidence_bp r \<le> 10000
     \<and> total_spend ivs \<le> lr_anchor_spend_api_nanousd r"

definition resolved_ok :: "resolved_fraction \<Rightarrow> bool" where
  "resolved_ok rf \<longleftrightarrow>
     0 \<le> rf_used_fraction_units rf \<and> rf_used_fraction_units rf \<le> CALIBRATION_SCALE
     \<and> 1 \<le> rf_resolution_fraction_units rf \<and> rf_resolution_fraction_units rf \<le> CALIBRATION_SCALE
     \<and> native_pair_ok (rf_native_used_microcredits rf) (rf_native_limit_microcredits rf)"

definition glm_in_range :: "glm_observation \<Rightarrow> bool" where
  "glm_in_range ob \<longleftrightarrow>
     lo_cumulative_api_nanousd ob < 2 ^ 63 \<and> lo_cumulative_native_microcredits ob < 2 ^ 63"

section \<open>Resolved fractions\<close>

lemma published_limit_range:
  assumes "published_window_limit_microcredits plan d = Some l"
  shows "2000000000 \<le> l" "l \<le> 140000000000"
  using assms
  by (auto simp: published_window_limit_microcredits_def published_window_limit_credits_def
      checked_mul_i64_def MICROCREDITS_PER_CREDIT_def split: if_splits)

text \<open>Against a published limit the width of a native reading is one fraction unit.\<close>

lemma native_fraction_spec:
  assumes "native_fraction used limit = Inr rf" "0 \<le> used" "used < 2 ^ 63" "CALIBRATION_SCALE \<le> limit"
    "limit < 2 ^ 63"
  shows "rf = \<lparr>rf_used_fraction_units = used * CALIBRATION_SCALE div limit,
    rf_resolution_fraction_units = 1, rf_native_limit_microcredits = Some limit,
    rf_native_used_microcredits = Some used, rf_source = NativeLedger\<rparr>"
proof -
  have pos: "0 < limit" using assms(4) CALIBRATION_SCALE_pos(1) by linarith
  have num: "0 \<le> used * CALIBRATION_SCALE" "used * CALIBRATION_SCALE < 2 ^ 90"
    using scaled_spend_range [OF assms(2,3)] by (simp_all add: mult.commute)
  have mul: "checked_mul_i128 used CALIBRATION_SCALE = Some (used * CALIBRATION_SCALE)"
    using num by (simp add: checked_mul_i128_def in_i128_def)
  have divd: "checked_div_i128 (used * CALIBRATION_SCALE) limit = Some (used * CALIBRATION_SCALE div limit)"
    using num pos by (intro checked_div_i128_nonneg) simp_all
  have ceil: "strict_ceil ''GLM'' CALIBRATION_SCALE limit = Inr 1"
  proof -
    have "ceiling_div CALIBRATION_SCALE limit \<le> 1"
      using assms(4) pos by (intro ceiling_div_least) simp_all
    moreover have "1 \<le> ceiling_div CALIBRATION_SCALE limit"
      using pos by (simp add: int_one_le_iff_zero_less ceiling_div_def pos_imp_zdiv_pos_iff
          CALIBRATION_SCALE_def)
    moreover have "strict_ceil ''GLM'' CALIBRATION_SCALE limit = Inr (ceiling_div CALIBRATION_SCALE limit)"
      using assms(5) pos by (intro rounding_is_exact) (simp_all add: CALIBRATION_SCALE_def)
    ultimately show ?thesis by simp
  qed
  show ?thesis using assms(1) by (auto simp: native_fraction_def mul divd ceil calibration_i64_def)
qed

lemma scaled_units_spec:
  assumes "scaled_units e units = Inr v"
  shows "v = map_option (\<lambda>n. n * 1000000) units"
  using assms by (cases units)
    (auto simp: scaled_units_def checked_mul_i64_def MICROCREDITS_PER_CREDIT_def)

lemma guard_Inr: "(if c then Inl e else x) = Inr y \<longleftrightarrow> \<not> c \<and> x = Inr y"
  by simp

lemma glm_validate_observation_Inr:
  assumes "glm_validate_observation ob = Inr ()"
  shows "lo_subject_id ob \<noteq> []" "lo_plan ob \<noteq> []" "\<not> lo_window_duration_secs ob \<le> 0"
    "\<not> (lo_cumulative_api_nanousd ob < 0 \<or> lo_cumulative_native_microcredits ob < 0)"
    "\<not> some_and (lo_native_limit_units ob) (\<lambda>limit. limit \<le> 0)"
    "\<not> some_and (lo_native_used_units ob) (\<lambda>used.
       used < 0 \<or> some_and (lo_native_limit_units ob) (\<lambda>limit. limit < used))"
    "\<not> (lo_used_fraction_units ob \<noteq> None) \<noteq> (lo_measurement_resolution_fraction_units ob \<noteq> None)"
    "\<not> some_and (lo_used_fraction_units ob) (\<lambda>f. \<not> (0 \<le> f \<and> f \<le> CALIBRATION_SCALE))"
    "\<not> some_and (lo_measurement_resolution_fraction_units ob) (\<lambda>f. \<not> (1 \<le> f \<and> f \<le> CALIBRATION_SCALE))"
  using assms unfolding glm_validate_observation_def guard_Inr by iprover+

lemma glm_valid_observation:
  assumes "glm_validate_observation ob = Inr ()"
  shows "lo_subject_id ob \<noteq> []" "lo_plan ob \<noteq> []" "0 < lo_window_duration_secs ob"
    "0 \<le> lo_cumulative_api_nanousd ob" "0 \<le> lo_cumulative_native_microcredits ob"
    "fraction_pair_ok (lo_used_fraction_units ob) (lo_measurement_resolution_fraction_units ob)"
    "native_pair_ok (lo_native_used_units ob) (lo_native_limit_units ob)"
proof -
  note v = glm_validate_observation_Inr [OF assms]
  show "lo_subject_id ob \<noteq> []" "lo_plan ob \<noteq> []" "0 < lo_window_duration_secs ob"
    "0 \<le> lo_cumulative_api_nanousd ob" "0 \<le> lo_cumulative_native_microcredits ob"
    using v(1-4) by auto
  show "fraction_pair_ok (lo_used_fraction_units ob) (lo_measurement_resolution_fraction_units ob)"
    using v(7-9)
    by (cases "lo_used_fraction_units ob"; cases "lo_measurement_resolution_fraction_units ob") auto
  show "native_pair_ok (lo_native_used_units ob) (lo_native_limit_units ob)"
    using v(5,6)
    by (cases "lo_native_used_units ob"; cases "lo_native_limit_units ob") (auto simp: native_pair_ok_def)
qed

lemma native_pair_scaled:
  "native_pair_ok used limit \<Longrightarrow>
     native_pair_ok (map_option (\<lambda>n. n * 1000000) used) (map_option (\<lambda>n. n * 1000000) limit)"
  by (cases used; cases limit) (simp_all add: native_pair_ok_def)

lemma resolved_is_ok:
  assumes ok: "resolve_fraction ob base = Inr (Some rf)" and v: "glm_validate_observation ob = Inr ()"
    and base: "\<And>b. base = Some b \<Longrightarrow> b \<le> lo_cumulative_native_microcredits ob"
    and slid: "\<not> window_slid (Some rf)"
  shows "resolved_ok rf"
proof (cases "lo_used_fraction_units ob")
  case (Some u)
  then obtain w where w: "lo_measurement_resolution_fraction_units ob = Some w"
    using glm_valid_observation(6) [OF v] by (cases "lo_measurement_resolution_fraction_units ob") auto
  then show ?thesis
    using ok glm_valid_observation(6,7) [OF v] Some
    by (auto simp: resolve_fraction_def resolved_ok_def native_pair_scaled dest!: scaled_units_spec)
next
  case None
  with ok obtain limit b used where
    l: "published_window_limit_microcredits (lo_plan ob) (lo_window_duration_secs ob) = Some limit"
    and b: "base = Some b" and u: "used = lo_cumulative_native_microcredits ob - b" "in_i64 used"
    and nf: "native_fraction used limit = Inr rf"
    by (auto simp: resolve_fraction_def checked_sub_i64_def split: option.splits)
  note lim = published_limit_range [OF l]
  have "0 \<le> used" "used < 2 ^ 63" using base [OF b] u by (simp_all add: in_i64_def)
  then have rf: "rf = \<lparr>rf_used_fraction_units = used * CALIBRATION_SCALE div limit,
    rf_resolution_fraction_units = 1, rf_native_limit_microcredits = Some limit,
    rf_native_used_microcredits = Some used, rf_source = NativeLedger\<rparr>"
    using lim by (intro native_fraction_spec [OF nf]) (simp_all add: CALIBRATION_SCALE_def)
  have le: "used \<le> limit" using slid by (simp add: window_slid_def rf)
  have "used * CALIBRATION_SCALE div limit \<le> CALIBRATION_SCALE"
    using le lim by (intro div_le_of_le_mult) (simp_all add: mult.commute mult_mono)
  then show ?thesis
    using le lim \<open>0 \<le> used\<close>
    by (simp add: resolved_ok_def rf native_pair_ok_def pos_imp_zdiv_nonneg_iff CALIBRATION_SCALE_def)
qed

lemma resolve_at_current_total:
  assumes "resolve_fraction ob (Some (lo_cumulative_native_microcredits ob)) = Inr (Some rf)"
    "glm_validate_observation ob = Inr ()"
  shows "resolved_ok rf"
proof -
  have "\<not> window_slid (Some rf)"
  proof (cases "lo_used_fraction_units ob")
    case (Some u)
    then show ?thesis using assms(1) by (auto simp: resolve_fraction_def window_slid_def)
  next
    case None
    then obtain limit where
      l: "published_window_limit_microcredits (lo_plan ob) (lo_window_duration_secs ob) = Some limit"
      and nf: "native_fraction 0 limit = Inr rf"
      using assms(1) by (auto simp: resolve_fraction_def checked_sub_i64_def i64_try_from_def in_i64_def
          split: option.splits)
    show ?thesis
      using native_fraction_spec [OF nf] published_limit_range [OF l]
      by (simp add: window_slid_def CALIBRATION_SCALE_def)
  qed
  then show ?thesis using resolved_is_ok [OF assms] by simp
qed

lemma native_baseline_le:
  assumes "glm_reading_ok r" "native_baseline r = Some b"
  shows "b \<le> lr_anchor_spend_native_microcredits r"
  using assms
  by (cases "lr_native_used_microcredits r"; cases "lr_native_limit_microcredits r")
    (auto simp: native_baseline_def checked_sub_i64_def glm_reading_ok_def native_pair_ok_def)

section \<open>Steps\<close>

lemma glm_evidence_of_readings [simp]:
  "glm_evidence ivs (r\<lparr>lr_version := v\<rparr>) \<longleftrightarrow> glm_evidence ivs r"
  "glm_evidence ivs (glm_refresh_reading ob resolved r) \<longleftrightarrow> glm_evidence ivs r"
  by (simp_all add: glm_evidence_def glm_refresh_reading_def refresh_resolved_def Let_def
      split: option.split)

lemma glm_evidence_advance:
  assumes "glm_evidence ivs r" "lr_anchor_spend_api_nanousd r \<le> lo_cumulative_api_nanousd ob"
  shows "glm_evidence ivs (glm_advance_anchor ob current r)"
  using assms by (simp add: glm_evidence_def glm_advance_anchor_def)

lemma glm_reading_refresh:
  assumes "glm_reading_ok r" "\<And>value. resolved = Some value \<Longrightarrow> resolved_ok value"
  shows "glm_reading_ok (glm_refresh_reading ob resolved r)"
  using assms
  by (cases resolved)
    (simp_all add: glm_reading_ok_def glm_refresh_reading_def refresh_resolved_def resolved_ok_def)

lemma glm_reading_advance:
  assumes "glm_reading_ok r" "resolved_ok current" "glm_validate_observation ob = Inr ()" "glm_in_range ob"
  shows "glm_reading_ok (glm_advance_anchor ob current r)"
  using assms glm_valid_observation(4,5) [OF assms(3)]
  by (simp add: glm_reading_ok_def glm_advance_anchor_def resolved_ok_def glm_in_range_def)

lemma glm_begin_window_keeps:
  assumes ok: "glm_begin_window ob r = Inr r'" and r: "glm_reading_ok r" "glm_evidence ivs r"
    and ob: "glm_validate_observation ob = Inr ()" "glm_in_range ob"
      "lr_anchor_spend_api_nanousd r \<le> lo_cumulative_api_nanousd ob"
  shows "glm_reading_ok r' \<and> glm_evidence ivs r'"
proof -
  obtain resolved where res: "resolve_fraction ob (Some (lo_cumulative_native_microcredits ob)) = Inr resolved"
    using ok by (auto simp: glm_begin_window_def)
  show ?thesis
  proof (cases resolved)
    case None
    then show ?thesis
      using ok r ob glm_valid_observation(4,5) [OF ob(1)]
      by (auto simp: glm_begin_window_def res glm_reading_ok_def glm_evidence_def glm_in_range_def
          native_pair_ok_def)
  next
    case (Some val)
    have val: "resolved_ok val" using resolve_at_current_total res ob(1) Some by simp
    have r': "r' = glm_advance_anchor ob val (refresh_resolved val (r\<lparr>lr_reset_at := lo_reset_at ob,
        lr_observed_at := lo_observed_at ob, lr_updated_ts := lo_observed_at ob\<rparr>))"
      using ok by (simp add: glm_begin_window_def res Some Let_def)
    show ?thesis
      using r ob val glm_valid_observation(4,5) [OF ob(1)]
      by (simp add: r' glm_advance_anchor_def refresh_resolved_def glm_reading_ok_def glm_evidence_def
          resolved_ok_def glm_in_range_def)
  qed
qed

text \<open>The width this estimator computes: each resolution is halved and rounded down on its own, so that
  odd resolutions lose half a unit each.\<close>

definition half_widths :: "i64 \<Rightarrow> i64 \<Rightarrow> int" where
  "half_widths a b = a div 2 + b div 2"

lemma glm_recompute_cases:
  assumes ok: "glm_recompute r = Inr r'"
    and ivs: "\<forall>i\<in>set ivs. interval_ok i" "ivs \<noteq> []" "total_used ivs < 2 ^ 63" "total_spend ivs < 2 ^ 63"
    and r: "lr_observed_fraction_units r = total_used ivs" "lr_observed_spend_api_nanousd r = total_spend ivs"
  obtains c where "0 \<le> c" "c \<le> 10000"
    "r' = r\<lparr>lr_current_capacity_nanousd := Some (blended_capacity ivs), lr_current_confidence_bp := c\<rparr>"
proof -
  have pos: "\<not> total_used ivs \<le> 0" using totals_pos(1) [OF ivs(1,2)] by simp
  have mul: "checked_mul_i128 CALIBRATION_SCALE (total_spend ivs)
      = Some (CALIBRATION_SCALE * total_spend ivs)"
    using total_spend_nonneg [OF ivs(1)] ivs(4) by (intro checked_scaled_spend) simp_all
  from ok pos r obtain c qd where
    c: "confidence ''GLM'' glm_overflow (strict_ratio_bp ''GLM'') (lr_samples r)
          (lr_current_low_nanousd r) (lr_current_high_nanousd r) (total_used ivs) qd = Inr c"
    and r': "r' = r\<lparr>lr_current_capacity_nanousd := Some (blended_capacity ivs),
                    lr_current_confidence_bp := c\<rparr>"
    by (auto simp: glm_recompute_def Let_def mul blended_capacity_is_rounded [OF ivs] calibration_i64_def)
  show thesis using that [OF _ _ r'] confidence_range [OF c] by simp
qed

lemma glm_sample_appends:
  assumes ok: "glm_sample ob cur ares du da dn r = Inr r'"
    and r: "glm_reading_ok r" "glm_evidence ivs r" and cur: "resolved_ok cur"
    and ob: "glm_validate_observation ob = Inr ()" "glm_in_range ob"
      "lr_anchor_spend_api_nanousd r + da \<le> lo_cumulative_api_nanousd ob"
    and i: "0 < du" "du < 2 ^ 63" "0 < da" "da < 2 ^ 63" "1 \<le> ares" "ares \<le> CALIBRATION_SCALE"
  shows "glm_reading_ok r'
    \<and> glm_evidence (ivs @ [(du, half_widths ares (rf_resolution_fraction_units cur), da)]) r'"
proof -
  define w where "w = half_widths ares (rf_resolution_fraction_units cur)"
  have res: "1 \<le> rf_resolution_fraction_units cur" "rf_resolution_fraction_units cur \<le> CALIBRATION_SCALE"
    using cur by (simp_all add: resolved_ok_def)
  then have "ares div 2 \<le> ares" "rf_resolution_fraction_units cur div 2 \<le> rf_resolution_fraction_units cur"
    using i by simp_all
  with res have w: "0 \<le> w" "w < 2 ^ 63" "glm_interval_fraction_uncertainty ares (rf_resolution_fraction_units cur) = w"
    using i by (simp_all add: w_def half_widths_def CALIBRATION_SCALE_def
        glm_interval_fraction_uncertainty_def trunc_div_nonneg)
  let ?ivs = "ivs @ [(du, w, da)]"
  from ok obtain low high native where
    env: "workload_envelope ''GLM'' glm_overflow (strict_ceil ''GLM'') (lr_current_low_nanousd r)
        (lr_current_high_nanousd r) (lr_samples r) du w da = Inr (low, high)"
    and rng: "in_i64 (lr_observed_fraction_units r + du)" "in_i64 (lr_observed_spend_api_nanousd r + da)"
    and rec: "glm_recompute ((glm_advance_anchor ob cur (r\<lparr>
        lr_current_low_nanousd := Some low, lr_current_high_nanousd := high,
        lr_observed_fraction_units := lr_observed_fraction_units r + du,
        lr_observed_spend_api_nanousd := lr_observed_spend_api_nanousd r + da,
        lr_observed_spend_native_microcredits := native,
        lr_samples := lr_samples r + 1\<rparr>))\<lparr>lr_last_measured_at := Some (lo_observed_at ob)\<rparr>) = Inr r'"
    (is "glm_recompute ?r2 = _")
    by (auto simp: glm_sample_def Let_def w glm_update_workload_envelope_def checked_add_i64_def)
  have ivs: "\<forall>i\<in>set ivs. interval_ok i" "lr_observed_fraction_units r = total_used ivs"
    "lr_observed_spend_api_nanousd r = total_spend ivs" "lr_samples r = int (length ivs)"
    "lr_current_low_nanousd r = least_low ivs" "lr_current_high_nanousd r = greatest_high ivs"
    "total_spend ivs \<le> lr_anchor_spend_api_nanousd r"
    using r(2) by (simp_all add: glm_evidence_def)
  have bounds: "least_low ?ivs = Some low \<and> greatest_high ?ivs = high"
    using workload_envelope_extends [of "strict_ceil ''GLM''" "(du, w, da)" "lr_samples r" ivs "''GLM''"
        glm_overflow low high] env i w ivs by simp
  have ok': "\<forall>i\<in>set ?ivs. interval_ok i" using ivs(1) i w by simp
  have tot: "total_used ?ivs < 2 ^ 63" "total_spend ?ivs < 2 ^ 63"
    using rng ivs by (simp_all add: in_i64_def)
  obtain c where c: "0 \<le> c" "c \<le> 10000" and r': "r' = ?r2\<lparr>
      lr_current_capacity_nanousd := Some (blended_capacity ?ivs), lr_current_confidence_bp := c\<rparr>"
    by (rule glm_recompute_cases [OF rec ok' _ tot])
      (simp_all add: ivs glm_advance_anchor_def)
  have "glm_evidence ?ivs r'"
    unfolding glm_evidence_def using ok' tot bounds c ivs ob(3) i
    by (simp add: r' glm_advance_anchor_def)
  moreover have "glm_reading_ok r'"
    using r(1) cur ob glm_valid_observation(4,5) [OF ob(1)]
    by (simp add: r' glm_advance_anchor_def glm_reading_ok_def resolved_ok_def glm_in_range_def)
  ultimately show ?thesis by (simp add: w_def)
qed

lemma glm_hold_keeps:
  assumes "glm_hold_or_record_unattributed ob cur prev du r = Inr r'"
    and r: "glm_reading_ok r" "glm_evidence ivs r" and cur: "resolved_ok cur"
    and ob: "glm_validate_observation ob = Inr ()" "glm_in_range ob"
      "lr_anchor_spend_api_nanousd r \<le> lo_cumulative_api_nanousd ob"
  shows "glm_reading_ok r' \<and> glm_evidence ivs r'"
proof -
  have "glm_reading_ok (r\<lparr>lr_unattributed_fraction_units := u\<rparr>)"
    "glm_evidence ivs (r\<lparr>lr_unattributed_fraction_units := u\<rparr>)" for u
    using r by (simp_all add: glm_reading_ok_def glm_evidence_def)
  then show ?thesis
    using assms by (auto simp: glm_hold_or_record_unattributed_def split: if_splits
        intro: glm_reading_advance glm_evidence_advance)
qed

section \<open>The contract\<close>

definition glm_regressed :: "glm_observation \<Rightarrow> glm_window_row \<Rightarrow> bool" where
  "glm_regressed ob r \<longleftrightarrow>
     some_and (glm_reset_delta ob r) (\<lambda>delta. delta \<le> - reset_boundary (lr_window_duration_secs r))"

definition glm_readings :: "glm_window_row option \<Rightarrow> glm_observation \<Rightarrow> reading_pair list" where
  "glm_readings ro ob =
   (case ro of
      None \<Rightarrow> []
    | Some r \<Rightarrow>
        (case (resolve_fraction ob (native_baseline r), lr_anchor_used_fraction_units r,
               lr_anchor_resolution_fraction_units r) of
           (Inr (Some cur), Some anchor_used, Some anchor_resolution) \<Rightarrow>
             if lr_observed_at r \<le> lo_observed_at ob
                \<and> \<not> glm_window_rolled ob (Some cur) r \<and> \<not> glm_regressed ob r
                \<and> anchor_used < rf_used_fraction_units cur
                \<and> lr_anchor_spend_api_nanousd r < lo_cumulative_api_nanousd ob
                \<and> lr_anchor_spend_native_microcredits r < lo_cumulative_native_microcredits ob
             then [(rf_used_fraction_units cur - anchor_used,
                    anchor_resolution, rf_resolution_fraction_units cur,
                    lo_cumulative_api_nanousd ob - lr_anchor_spend_api_nanousd r)]
             else []
         | _ \<Rightarrow> []))"

definition glm_taken :: "glm_window_row option \<Rightarrow> glm_observation \<Rightarrow> interval list" where
  "glm_taken ro ob = map (measured half_widths) (glm_readings ro ob)"

lemma glm_taken_cases:
  "glm_taken ro ob =
   (case ro of
      None \<Rightarrow> []
    | Some r \<Rightarrow>
        (case (resolve_fraction ob (native_baseline r), lr_anchor_used_fraction_units r,
               lr_anchor_resolution_fraction_units r) of
           (Inr (Some cur), Some anchor_used, Some anchor_resolution) \<Rightarrow>
             if lr_observed_at r \<le> lo_observed_at ob
                \<and> \<not> glm_window_rolled ob (Some cur) r \<and> \<not> glm_regressed ob r
                \<and> anchor_used < rf_used_fraction_units cur
                \<and> lr_anchor_spend_api_nanousd r < lo_cumulative_api_nanousd ob
                \<and> lr_anchor_spend_native_microcredits r < lo_cumulative_native_microcredits ob
             then [(rf_used_fraction_units cur - anchor_used,
                    half_widths anchor_resolution (rf_resolution_fraction_units cur),
                    lo_cumulative_api_nanousd ob - lr_anchor_spend_api_nanousd r)]
             else []
         | _ \<Rightarrow> []))"
  by (auto simp: glm_taken_def glm_readings_def split: option.split sum.split)

definition glm_describes :: "interval list \<Rightarrow> glm_window_row option \<Rightarrow> bool" where
  "glm_describes ivs ro =
   (case ro of None \<Rightarrow> ivs = [] | Some r \<Rightarrow> glm_reading_ok r \<and> glm_evidence ivs r)"

lemma glm_refresh_anchor [simp]:
  "lr_anchor_spend_api_nanousd (glm_refresh_reading ob resolved r) = lr_anchor_spend_api_nanousd r"
  by (simp add: glm_refresh_reading_def refresh_resolved_def Let_def split: option.split)

lemma resolved_in_window_is_ok:
  assumes "glm_reading_ok r" "glm_validate_observation ob = Inr ()"
    "lr_anchor_spend_native_microcredits r \<le> lo_cumulative_native_microcredits ob"
    "resolve_fraction ob (native_baseline r) = Inr (Some cur)" "\<not> glm_window_rolled ob (Some cur) r"
  shows "resolved_ok cur"
proof (rule resolved_is_ok [OF assms(4,2)])
  show "b \<le> lo_cumulative_native_microcredits ob" if "native_baseline r = Some b" for b
    using native_baseline_le [OF assms(1) that] assms(3) by simp
  show "\<not> window_slid (Some cur)" using assms(5) by (simp add: glm_window_rolled_def)
qed

lemma glm_readable_step:
  assumes r: "glm_reading_ok r" "glm_evidence ivs r"
    and ob: "glm_validate_observation ob = Inr ()" "glm_in_range ob" "lr_observed_at r \<le> lo_observed_at ob"
      "lr_anchor_spend_api_nanousd r \<le> lo_cumulative_api_nanousd ob"
      "lr_anchor_spend_native_microcredits r \<le> lo_cumulative_native_microcredits ob"
    and res: "resolve_fraction ob (native_baseline r) = Inr (Some cur)"
    and win: "\<not> glm_window_rolled ob (Some cur) r" "\<not> glm_regressed ob r"
    and anchor: "lr_anchor_used_fraction_units r = Some au" "lr_anchor_resolution_fraction_units r = Some ar"
    and ok: "(let delta_used = wrap_i64 (rf_used_fraction_units cur - au) in
                if delta_used \<le> 0 then Inr (glm_refresh_reading ob (Some cur) r)
                else
                  let delta_api = wrap_i64 (lo_cumulative_api_nanousd ob - lr_anchor_spend_api_nanousd r);
                      delta_native = wrap_i64 (lo_cumulative_native_microcredits ob
                                       - lr_anchor_spend_native_microcredits r)
                  in if delta_api = 0 \<or> delta_native = 0
                     then glm_hold_or_record_unattributed ob cur r delta_used
                            (glm_refresh_reading ob (Some cur) r)
                     else glm_sample ob cur ar delta_used delta_api delta_native
                            (glm_refresh_reading ob (Some cur) r)) = Inr r'"
  shows "glm_describes (ivs @ glm_taken (Some r) ob) (Some r')"
proof -
  let ?seen = "glm_refresh_reading ob (Some cur) r"
  let ?du = "rf_used_fraction_units cur - au"
  let ?da = "lo_cumulative_api_nanousd ob - lr_anchor_spend_api_nanousd r"
  let ?dn = "lo_cumulative_native_microcredits ob - lr_anchor_spend_native_microcredits r"
  have cur: "resolved_ok cur" by (rule resolved_in_window_is_ok [OF r(1) ob(1,5) res win(1)])
  have seen: "glm_reading_ok ?seen" "glm_evidence ivs ?seen"
    using glm_reading_refresh [OF r(1), of "Some cur"] r(2) cur by simp_all
  have au: "0 \<le> au" "au \<le> CALIBRATION_SCALE" "1 \<le> ar" "ar \<le> CALIBRATION_SCALE"
    and c: "0 \<le> rf_used_fraction_units cur" "rf_used_fraction_units cur \<le> CALIBRATION_SCALE"
    and spend: "0 \<le> lr_anchor_spend_api_nanousd r" "0 \<le> lr_anchor_spend_native_microcredits r"
      "lo_cumulative_api_nanousd ob < 2 ^ 63" "lo_cumulative_native_microcredits ob < 2 ^ 63"
    using r(1) cur anchor ob(2) by (simp_all add: glm_reading_ok_def resolved_ok_def glm_in_range_def)
  have exact: "wrap_i64 ?du = ?du" "wrap_i64 ?da = ?da" "wrap_i64 ?dn = ?dn"
    using au c spend ob(4,5)
    by (auto intro!: wrap_i64_exact simp: in_i64_def CALIBRATION_SCALE_def)
  have t: "glm_taken (Some r) ob =
      (if 0 < ?du \<and> 0 < ?da \<and> 0 < ?dn
       then [(?du, half_widths ar (rf_resolution_fraction_units cur), ?da)] else [])"
    using win ob(3) by (simp add: glm_taken_cases res anchor)
  consider (idle) "?du \<le> 0" | (held) "0 < ?du" "?da = 0 \<or> ?dn = 0" | (sampled) "0 < ?du" "0 < ?da" "0 < ?dn"
    using ob(4,5) by linarith
  then show ?thesis
  proof cases
    case idle
    then have "r' = ?seen" using ok by (simp add: exact)
    then show ?thesis using idle seen by (simp add: t glm_describes_def)
  next
    case held
    then have "glm_hold_or_record_unattributed ob cur r ?du ?seen = Inr r'"
      using ok by (simp add: exact Let_def)
    from glm_hold_keeps [OF this seen cur ob(1,2)] show ?thesis
      using held ob(4) by (auto simp: t glm_describes_def)
  next
    case sampled
    then have s: "glm_sample ob cur ar ?du ?da ?dn ?seen = Inr r'" using ok by (simp add: exact Let_def)
    have "?du < 2 ^ 63" "?da < 2 ^ 63" using au c spend by (simp_all add: CALIBRATION_SCALE_def)
    from glm_sample_appends [OF s seen cur ob(1,2) _ sampled(1) this(1) sampled(2) this(2) au(3,4)]
    show ?thesis using sampled by (simp add: t glm_describes_def)
  qed
qed

lemma glm_observe_describes:
  assumes d: "glm_describes ivs (Some r)" and ir: "glm_in_range ob" and ok: "glm_observe ob r = Inr r'"
  shows "glm_describes (ivs @ glm_taken (Some r) ob) (Some r')"
proof (cases "lo_observed_at ob < lr_observed_at r")
  case True
  then have "r' = r" using ok by (auto simp: glm_observe_def split: if_splits)
  moreover have "glm_taken (Some r) ob = []"
    using True by (simp add: glm_taken_cases split: sum.split option.split)
  ultimately show ?thesis using d by simp
next
  case False
  have r: "glm_reading_ok r" "glm_evidence ivs r" using d by (simp_all add: glm_describes_def)
  have v: "glm_validate_observation ob = Inr ()"
    using ok by (cases "glm_validate_observation ob") (auto simp: glm_observe_def)
  obtain resolved where res: "resolve_fraction ob (native_baseline r) = Inr resolved"
    and ledgers: "lr_anchor_spend_api_nanousd r \<le> lo_cumulative_api_nanousd ob"
      "lr_anchor_spend_native_microcredits r \<le> lo_cumulative_native_microcredits ob"
    and same: "glm_same_window ob r" "lr_estimator_version r = GLM_ESTIMATOR_VERSION"
    using ok v False by (auto simp: glm_observe_def not_less split: if_splits)
  note body = ok [unfolded glm_observe_def, simplified v same res False ledgers, simplified,
    folded glm_regressed_def]
  show ?thesis
  proof (cases "glm_window_rolled ob resolved r")
    case True
    then have b: "glm_begin_window ob r = Inr r'" using body ledgers by simp
    have "glm_taken (Some r) ob = []"
      using True by (auto simp: glm_taken_cases res split: option.split)
    then show ?thesis
      using glm_begin_window_keeps [OF b r v ir ledgers(1)] by (simp add: glm_describes_def)
  next
    case stay: False
    show ?thesis
    proof (cases "glm_regressed ob r")
      case True
      have "glm_taken (Some r) ob = []"
        using True by (simp add: glm_taken_cases res split: option.split)
      then show ?thesis using body True stay ledgers d by simp
    next
      case win: False
      show ?thesis
      proof (cases resolved)
        case None
        then have "r' = glm_refresh_reading ob None r" using body stay win ledgers by simp
        moreover have "glm_taken (Some r) ob = []" by (simp add: glm_taken_cases res None)
        ultimately show ?thesis using r glm_reading_refresh [OF r(1), of None] by (simp add: glm_describes_def)
      next
        case (Some cur)
        have pair: "fraction_pair_ok (lr_anchor_used_fraction_units r) (lr_anchor_resolution_fraction_units r)"
          using r(1) by (simp add: glm_reading_ok_def)
        have cur: "resolved_ok cur"
          using resolved_in_window_is_ok [OF r(1) v ledgers(2)] res stay Some by simp
        show ?thesis
        proof (cases "lr_anchor_used_fraction_units r")
          case None
          then have ar: "lr_anchor_resolution_fraction_units r = None"
            using pair by (cases "lr_anchor_resolution_fraction_units r") auto
          have "r' = glm_advance_anchor ob cur (glm_refresh_reading ob (Some cur) r)"
            using body stay win ledgers by (simp add: Some None)
          moreover have "glm_reading_ok (glm_refresh_reading ob (Some cur) r)"
            using glm_reading_refresh [OF r(1), of "Some cur"] cur by simp
          ultimately show ?thesis
            using r(2) ledgers(1) glm_reading_advance [OF _ cur v ir]
            by (simp add: glm_describes_def glm_taken_cases res Some None glm_evidence_advance)
        next
          case au: (Some au)
          then obtain ar where ar: "lr_anchor_resolution_fraction_units r = Some ar"
            using pair by (cases "lr_anchor_resolution_fraction_units r") auto
          show ?thesis
            by (rule glm_readable_step [OF r v ir _ ledgers _ _ win au ar])
              (use False res Some stay win body ledgers in \<open>simp_all add: au ar Let_def\<close>)
        qed
      qed
    qed
  qed
qed

lemma glm_anchor_describes:
  assumes "glm_anchor ob = Inr r" "glm_in_range ob"
  shows "glm_describes [] (Some r)" "glm_taken (Some r) ob = []"
proof -
  from assms(1) obtain resolved where
    v: "glm_validate_observation ob = Inr ()"
    and res: "resolve_fraction ob (Some (lo_cumulative_native_microcredits ob)) = Inr resolved"
    and api: "lr_anchor_spend_api_nanousd r = lo_cumulative_api_nanousd ob"
    by (auto simp: glm_anchor_def)
  show "glm_taken (Some r) ob = []" by (simp add: glm_taken_cases api split: sum.split option.split)
  note b = glm_valid_observation [OF v]
  have "glm_evidence [] r"
    using assms(1) b(4) by (auto simp: glm_anchor_def glm_evidence_def least_low_def greatest_high_def)
  moreover have "glm_reading_ok r"
  proof (cases resolved)
    case None
    then show ?thesis using assms b
      by (auto simp: glm_anchor_def res glm_reading_ok_def glm_in_range_def native_pair_ok_def)
  next
    case (Some rf)
    then have "resolved_ok rf" using resolve_at_current_total [OF _ v] res by simp
    then show ?thesis using assms b Some
      by (auto simp: glm_anchor_def res glm_reading_ok_def glm_in_range_def resolved_ok_def)
  qed
  ultimately show "glm_describes [] (Some r)" by (simp add: glm_describes_def)
qed

lemma glm_describes_version:
  "glm_describes ivs (Some r) \<Longrightarrow> glm_describes ivs (Some (r\<lparr>lr_version := v\<rparr>))"
  by (simp add: glm_describes_def) (simp add: glm_reading_ok_def)

lemma glm_apply_cases:
  assumes "glm_apply_observation ro ob = Inr r'"
  obtains r r1 where "ro = None \<Longrightarrow> glm_anchor ob = Inr r"
    "\<And>r0. ro = Some r0 \<Longrightarrow> lr_estimator_version r0 = GLM_ESTIMATOR_VERSION \<Longrightarrow> r = r0"
    "glm_observe ob r = Inr r1" "\<exists>v. r' = r1\<lparr>lr_version := v\<rparr>"
  using assms by (cases ro) (auto simp: glm_apply_observation_def Let_def split: if_splits)

interpretation glm_window: window_estimator glm_apply_observation glm_taken glm_in_range glm_describes
proof
  show "glm_describes [] None" by (simp add: glm_describes_def)
next
  fix ivs ro ob r'
  assume d: "glm_describes ivs ro" and ob: "glm_in_range ob" and ok: "glm_apply_observation ro ob = Inr r'"
  from ok obtain r r1 v where first: "ro = None \<Longrightarrow> glm_anchor ob = Inr r"
    and later: "\<And>r0. ro = Some r0 \<Longrightarrow> lr_estimator_version r0 = GLM_ESTIMATOR_VERSION \<Longrightarrow> r = r0"
    and r1: "glm_observe ob r = Inr r1" and r': "r' = r1\<lparr>lr_version := v\<rparr>"
    by (rule glm_apply_cases) blast
  show "glm_describes (ivs @ glm_taken ro ob) (Some r')"
  proof (cases ro)
    case None
    then have "glm_describes ([] @ glm_taken (Some r) ob) (Some r1)"
      by (intro glm_observe_describes [OF glm_anchor_describes(1) [OF first ob] ob r1])
    then show ?thesis
      using d None glm_anchor_describes(2) [OF first ob]
      by (simp add: r' glm_describes_version glm_describes_def [of ivs None] glm_taken_cases [of None])
  next
    case (Some r0)
    then have "r = r0" using later d by (simp add: glm_describes_def glm_reading_ok_def)
    then show ?thesis using glm_observe_describes [OF _ ob r1] d Some by (simp add: r' glm_describes_version)
  qed
qed

lemma glm_described_row_is_valid:
  assumes "glm_describes ivs (Some r)"
  shows "validate_glm_calibration_row r = Inr ()"
proof -
  have r: "glm_reading_ok r" and ivs: "\<forall>i\<in>set ivs. interval_ok i"
    and low: "lr_current_low_nanousd r = least_low ivs"
    and high: "lr_current_high_nanousd r = greatest_high ivs"
    and cap: "lr_current_capacity_nanousd r = (if ivs = [] then None else Some (blended_capacity ivs))"
    using assms by (simp_all add: glm_describes_def glm_evidence_def)
  have order: "l \<le> h" if "least_low ivs = Some l" "greatest_high ivs = Some h" for l h
    using least_low_le_blend [OF ivs that(1)] blend_le_greatest_high [OF ivs that(2)] by simp
  have bounds: "(case (lr_current_low_nanousd r, lr_current_high_nanousd r, lr_current_capacity_nanousd r) of
            (Some _, _, None) \<Rightarrow> Inl ''GLM calibration row has bounds without a capacity''
          | (None, Some _, None) \<Rightarrow> Inl ''GLM calibration row has bounds without a capacity''
          | (Some low, Some high, _) \<Rightarrow>
              if high < low then Inl ''GLM calibration row bounds are inverted'' else Inr ()
          | _ \<Rightarrow> Inr ()) = (Inr () :: string + unit)"
  proof (cases "ivs = []")
    case True
    then show ?thesis by (simp add: low high cap least_low_def greatest_high_def)
  next
    case False
    then show ?thesis
      using order by (cases "least_low ivs"; cases "greatest_high ivs") (simp_all add: low high cap not_less)
  qed
  have pairs: "fraction_pair_ok (lr_anchor_used_fraction_units r) (lr_anchor_resolution_fraction_units r)"
    "fraction_pair_ok (lr_used_fraction_units r) (lr_measurement_resolution_fraction_units r)"
    using r by (simp_all add: glm_reading_ok_def)
  show ?thesis
    using r pairs unfolding validate_glm_calibration_row_def bounds glm_reading_ok_def native_pair_ok_def
    by (cases "lr_anchor_used_fraction_units r"; cases "lr_anchor_resolution_fraction_units r";
        cases "lr_used_fraction_units r"; cases "lr_measurement_resolution_fraction_units r") simp_all
qed

end
