(* ===== verification/Calibration_Properties.thy ===== *)
theory Calibration_Properties
  imports Calibration_Kimi Calibration_Glm_Live
begin

text \<open>
  Properties of the four window estimators over whole histories of observations: what their rows
  show, which capacities their bounds contain, that a stored row never refuses the next observation,
  that a rebuild is the live estimator, and where the bounds or the store do not do what the
  sources say.
\<close>

section \<open>Concrete histories\<close>

definition gemini_sample_observation :: "i64 \<Rightarrow> i64 \<Rightarrow> i64 \<Rightarrow> i64 \<Rightarrow> gemini_observation" where
  "gemini_sample_observation t reset used spend =
   \<lparr>wo_plan = ''pro'', wo_resets_at = reset, wo_observed_at = t, wo_used_fraction_units = used,
    wo_measurement_resolution_fraction_units = 100000, wo_spend_nano = spend,
    go_profile_id = ''p'', go_bucket_id = ''gemini-5h'', go_window_kind = ''5h'',
    go_window_duration_mins = 300, go_observation_source = ''poll'', go_source_request_id = None\<rparr>"

text \<open>An observation of native counters: the fraction and its resolution are the derived ones.\<close>

definition kimi_sample_observation :: "i64 \<Rightarrow> i64 \<Rightarrow> i64 \<Rightarrow> i64 \<Rightarrow> i64 \<Rightarrow> kimi_observation" where
  "kimi_sample_observation t reset used limit spend =
   (let d = (case kimi_fraction_from_native used limit of
               Inr d \<Rightarrow> d
             | Inl _ \<Rightarrow> \<lparr>df_used_fraction_units = 0, df_measurement_resolution_fraction_units = 1\<rparr>)
    in \<lparr>wo_plan = ''Moderato'', wo_resets_at = reset, wo_observed_at = t,
        wo_used_fraction_units = df_used_fraction_units d,
        wo_measurement_resolution_fraction_units = df_measurement_resolution_fraction_units d,
        wo_spend_nano = spend, ko_subject_id = ''u'', ko_window_duration_secs = 18000,
        ko_window_name = None, ko_native_used_units = used, ko_native_limit_units = limit\<rparr>)"

text \<open>An observation on the native path: every microcredit costs a thousand nanodollars.\<close>

definition glm_sample_observation :: "i64 \<Rightarrow> i64 \<Rightarrow> glm_observation" where
  "glm_sample_observation t native =
   \<lparr>lo_subject_id = ''u'', lo_plan = ''Lite'', lo_window_duration_secs = 18000, lo_reset_at = None,
    lo_observed_at = t, lo_native_used_units = None, lo_native_limit_units = None,
    lo_native_remaining_units = None, lo_percentage_raw = None, lo_used_fraction_units = None,
    lo_measurement_resolution_fraction_units = None, lo_cumulative_api_nanousd = 1000 * native,
    lo_cumulative_native_microcredits = native, lo_observation_source = ''poll'',
    lo_source_request_id = None\<rparr>"

definition shown :: "'e + 'r option \<Rightarrow> ('r \<Rightarrow> bool) \<Rightarrow> bool" where
  "shown x P \<longleftrightarrow> (case x of Inr (Some r) \<Rightarrow> P r | _ \<Rightarrow> False)"

lemma shownE:
  assumes "shown x P"
  obtains r where "x = Inr (Some r)" "P r"
  using assms by (auto simp: shown_def split: sum.splits option.splits)

section \<open>Rows show their intervals\<close>

lemma gemini_history_row:
  assumes "list_all in_range obs" "replay gemini_apply_observation None obs = Inr (Some r)"
  shows "gemini_describes (completed gemini_apply_observation gemini_taken None obs) (Some r)"
  using gemini_window.describes_history assms by simp

lemma anthropic_history_row:
  assumes "list_all in_range obs" "replay anthropic_apply_observation None obs = Inr (Some r)"
  shows "anthropic_describes (completed anthropic_apply_observation anthropic_taken None obs) (Some r)"
  using anthropic_window.describes_history assms by simp

lemma kimi_history_row:
  assumes "list_all in_range obs" "kimi_rebuild_from_history obs = Inr (Some r)"
  shows "kimi_describes (completed kimi_apply_observation kimi_taken None obs) (Some r)"
  using kimi_window.describes_history assms by (simp add: kimi_rebuild_from_history_def)

lemma glm_history_row:
  assumes "list_all glm_in_range obs" "glm_rebuild_from_history obs = Inr (Some r)"
  shows "glm_describes (completed glm_apply_observation glm_taken None obs) (Some r)"
  using glm_window.describes_history assms by (simp add: glm_rebuild_from_history_def)

text \<open>C25: after any history of observations the row of an estimator shows exactly the intervals
  the observations completed. The totals are the sums of their movements, the sample count their
  number, the capacity the rounded quotient of the totals; the bounds of Gemini, Anthropic and GLM
  are the least low and the greatest high bound of the intervals (no high bound as soon as one
  interval has none), those of KIMI the bounds of the totals with the width of the last interval
  taken once per sample. For Gemini and GLM the measured spend is at most the spend at the anchor,
  so no nanodollar is measured twice.\<close>

theorem rows_show_completed_intervals:
  "(\<forall>obs r. list_all in_range obs \<longrightarrow> replay gemini_apply_observation None obs = Inr (Some r) \<longrightarrow>
      blend_evidence (completed gemini_apply_observation gemini_taken None obs) r
      \<and> wr_observed_spend_nano r \<le> wr_anchor_spend_nano r)
   \<and> (\<forall>obs r. list_all in_range obs \<longrightarrow> replay anthropic_apply_observation None obs = Inr (Some r) \<longrightarrow>
      blend_evidence (completed anthropic_apply_observation anthropic_taken None obs) r)
   \<and> (\<forall>obs r. list_all in_range obs \<longrightarrow> kimi_rebuild_from_history obs = Inr (Some r) \<longrightarrow>
      kimi_evidence (completed kimi_apply_observation kimi_taken None obs) r)
   \<and> (\<forall>obs r. list_all glm_in_range obs \<longrightarrow> glm_rebuild_from_history obs = Inr (Some r) \<longrightarrow>
      glm_evidence (completed glm_apply_observation glm_taken None obs) r
      \<and> lr_observed_spend_api_nanousd r \<le> lr_anchor_spend_api_nanousd r)"
proof (intro conjI allI impI)
  fix obs r
  assume "list_all in_range obs" "replay gemini_apply_observation None obs = Inr (Some r)"
  from gemini_history_row [OF this]
  show "blend_evidence (completed gemini_apply_observation gemini_taken None obs) r"
    "wr_observed_spend_nano r \<le> wr_anchor_spend_nano r"
    by (simp_all add: gemini_describes_def) (simp add: blend_evidence_def totals_are_def)
next
  fix obs r
  assume "list_all glm_in_range obs" "glm_rebuild_from_history obs = Inr (Some r)"
  from glm_history_row [OF this]
  show "glm_evidence (completed glm_apply_observation glm_taken None obs) r"
    "lr_observed_spend_api_nanousd r \<le> lr_anchor_spend_api_nanousd r"
    by (simp_all add: glm_describes_def) (simp add: glm_evidence_def)
next
  fix obs r
  assume "list_all in_range obs" "replay anthropic_apply_observation None obs = Inr (Some r)"
  from anthropic_history_row [OF this]
  show "blend_evidence (completed anthropic_apply_observation anthropic_taken None obs) r"
    by (simp add: anthropic_describes_def)
next
  fix obs r
  assume "list_all in_range obs" "kimi_rebuild_from_history obs = Inr (Some r)"
  from kimi_history_row [OF this]
  show "kimi_evidence (completed kimi_apply_observation kimi_taken None obs) r"
    by (simp add: kimi_describes_def)
qed

definition gemini_example :: "gemini_observation list" where
  "gemini_example = [gemini_sample_observation 10 20000 1000000 500,
     gemini_sample_observation 20 20000 3000000 2000500,
     gemini_sample_observation 30 20000 4000000 3000500]"

theorem rows_show_completed_intervals_witness:
  "\<exists>g. replay gemini_apply_observation None gemini_example = Inr (Some g)
     \<and> blend_evidence [(2000000, 100000, 2000000), (1000000, 100000, 1000000)] g"
proof -
  have "shown (replay gemini_apply_observation None gemini_example) (\<lambda>g. wr_samples g = 2)"
    by code_simp
  then obtain g where g: "replay gemini_apply_observation None gemini_example = Inr (Some g)"
    by (rule shownE)
  have "list_all in_range gemini_example" by code_simp
  moreover have "completed gemini_apply_observation gemini_taken None gemini_example
    = [(2000000, 100000, 2000000), (1000000, 100000, 1000000)]" by code_simp
  ultimately show ?thesis using rows_show_completed_intervals [THEN conjunct1] g by (metis (no_types, lifting))
qed

section \<open>Bounds contain the capacities the evidence admits\<close>

lemma envelope_contains:
  assumes "\<forall>j\<in>set ivs. interval_ok j" "i \<in> set ivs" "admissible c i"
  shows "(\<exists>l. least_low ivs = Some l \<and> l \<le> c) \<and> \<not> some_and (greatest_high ivs) (\<lambda>h. h < c)"
proof -
  have "ivs \<noteq> []" using assms(2) by auto
  then obtain l where l: "least_low ivs = Some l" by (simp add: least_low_def)
  then show ?thesis
    using least_low_admissible [OF l assms(2) _ assms(3)] assms greatest_high_admissible [OF _ assms(2,3)]
    by (cases "greatest_high ivs") force+
qed

lemma kimi_bounds_contain:
  assumes "kimi_describes ivs (Some r)" "ivs \<noteq> []" "0 \<le> c"
    "\<forall>(du, w, ds)\<in>set ivs. admissible c (du, interval_width (last ivs), ds)"
  shows "(\<exists>l. wr_current_low_nano r = Some l \<and> l \<le> c) \<and> \<not> some_and (wr_current_high_nano r) (\<lambda>h. h < c)"
proof -
  let ?w = "interval_width (last ivs)" and ?ivs = "map (\<lambda>(du, w, ds). (du, interval_width (last ivs), ds)) ivs"
  have e: "kimi_evidence ivs r" and ok: "\<forall>j\<in>set ivs. interval_ok j"
    using assms(1) by (simp_all add: kimi_describes_def kimi_evidence_def totals_are_def)
  have "interval_ok (last ivs)" using ok assms(2) by simp
  then have w: "0 \<le> ?w" by (cases "last ivs") simp
  have totals: "total_used ?ivs = total_used ivs" "total_spend ?ivs = total_spend ivs"
    by (simp_all add: total_used_def total_spend_def o_def case_prod_unfold)
      (metis (no_types, lifting) interval_used.simps interval_spend.simps prod.collapse)+
  have same: "aggregate_low ?ivs u = aggregate_low ivs u" "aggregate_high ?ivs u = aggregate_high ivs u" for u
    by (simp_all add: aggregate_low_def aggregate_high_def totals)
  have "\<forall>i\<in>set ?ivs. interval_ok i \<and> admissible c i \<and> interval_width i \<le> ?w"
    using assms(4) ok w by fastforce
  from aggregate_sound [OF this assms(3) _ w] show ?thesis
    using e assms(2) unfolding same
    by (cases "aggregate_high ivs (aggregate_width ivs)") (auto simp: kimi_evidence_def aggregate_width_def)
qed

lemma readings_completed:
  "completed gemini_apply_observation gemini_taken None obs1
     = map (measured half_sum_width) (completed gemini_apply_observation gemini_readings None obs1)"
  "completed anthropic_apply_observation anthropic_taken None obs2
     = map (measured half_sum_width) (completed anthropic_apply_observation anthropic_readings None obs2)"
  "completed glm_apply_observation glm_taken None obs3
     = map (measured half_widths) (completed glm_apply_observation glm_readings None obs3)"
  "completed kimi_apply_observation kimi_taken None obs4
     = map (measured observed_width) (completed kimi_apply_observation kimi_readings None obs4)"
  by (rule completed_map, simp add: gemini_taken_def gemini_readings_def anthropic_taken_def
      anthropic_readings_def glm_taken_def kimi_taken_def kimi_readings_def delimited_def split: option.split)+

lemma blend_bounds_contain:
  assumes "\<forall>j\<in>set (map (measured half_sum_width) rs). interval_ok j" "i \<in> set rs" "admits c i" "0 \<le> c"
  shows "(\<exists>l. least_low (map (measured half_sum_width) rs) = Some l \<and> l \<le> c)
    \<and> \<not> some_and (greatest_high (map (measured half_sum_width) rs)) (\<lambda>h. h < c)"
proof (rule envelope_contains [OF assms(1)])
  show "measured half_sum_width i \<in> set (map (measured half_sum_width) rs)" using assms(2) by simp
  obtain du a b ds where "i = (du, a, b, ds)" by (cases i)
  moreover have "a + b \<le> 2 * half_sum_width a b" for a b by (simp add: half_sum_width_def)
  ultimately show "admissible c (measured half_sum_width i)" using assms(3,4) admits_measured by metis
qed

lemma glm_bounds_contain:
  assumes "\<forall>j\<in>set (map (measured half_widths) rs). interval_ok j" "i \<in> set rs" "admits c i" "0 \<le> c"
    "even_resolutions i"
  shows "(\<exists>l. least_low (map (measured half_widths) rs) = Some l \<and> l \<le> c)
    \<and> \<not> some_and (greatest_high (map (measured half_widths) rs)) (\<lambda>h. h < c)"
proof (rule envelope_contains [OF assms(1)])
  show "measured half_widths i \<in> set (map (measured half_widths) rs)" using assms(2) by simp
  obtain du a b ds where i: "i = (du, a, b, ds)" by (cases i)
  then have "a + b \<le> 2 * half_widths a b" using assms(5) by (auto simp: half_widths_def)
  then show "admissible c (measured half_widths i)" using assms(3,4) admits_measured i by metis
qed

lemma last_width:
  assumes "rs \<noteq> []"
  shows "interval_width (last (map (measured observed_width) rs)) = last_resolution (last rs)"
  using assms by (cases "last rs") (simp add: last_map observed_width_def)

lemma kimi_bounds_contain_readings:
  assumes h: "list_all in_range obs" "kimi_rebuild_from_history obs = Inr (Some r)" "0 \<le> c"
    "rs = completed kimi_apply_observation kimi_readings None obs" "rs \<noteq> []"
    "list_all (admits c) rs" "list_all (no_coarser (last_resolution (last rs))) rs"
  shows "(\<exists>l. wr_current_low_nano r = Some l \<and> l \<le> c) \<and> \<not> some_and (wr_current_high_nano r) (\<lambda>h. h < c)"
proof -
  let ?w = "last_resolution (last rs)"
  have "admissible c (du, ?w, ds)" if i: "(du, a, b, ds) \<in> set rs" for du a b ds
  proof -
    have "admits c (du, a, b, ds)" "no_coarser ?w (du, a, b, ds)" using h(6,7) i unfolding list_all_iff by blast+
    then show ?thesis using admits_measured [of c du a b ds "\<lambda>_ _. ?w"] h(3) by simp
  qed
  then have "\<forall>(du, w, ds)\<in>set (map (measured observed_width) rs). admissible c (du, ?w, ds)" by fastforce
  then show "(\<exists>l. wr_current_low_nano r = Some l \<and> l \<le> c) \<and> \<not> some_and (wr_current_high_nano r) (\<lambda>h. h < c)"
    using kimi_bounds_contain [OF kimi_history_row [OF h(1,2)] _ h(3)] h(5) last_width [OF h(5)]
    by (simp add: readings_completed h(4) [symmetric])
qed

text \<open>C26: the published bounds contain every window capacity the readings admit: every capacity whose
  predicted spend is within half the sum of the resolutions of the two readings of an interval. For
  Gemini and Anthropic this holds interval by interval: such a capacity is not below the published low
  bound and not above the published high bound, even if the capacity changed between intervals. For
  GLM it holds for the intervals both of whose resolutions are even; an odd resolution is halved
  downwards and its bounds can be too narrow. The aggregate bounds of KIMI contain a capacity that
  every interval admits, provided no reading of any interval was coarser than the last reading.\<close>

theorem bounds_contain_admissible_capacities:
  "(\<forall>obs r c. list_all in_range obs \<longrightarrow> replay gemini_apply_observation None obs = Inr (Some r) \<longrightarrow> 0 \<le> c \<longrightarrow>
      (\<forall>i\<in>set (completed gemini_apply_observation gemini_readings None obs). admits c i \<longrightarrow>
        (\<exists>l. wr_current_low_nano r = Some l \<and> l \<le> c)
        \<and> \<not> some_and (wr_current_high_nano r) (\<lambda>h. h < c)))
   \<and> (\<forall>obs r c. list_all in_range obs \<longrightarrow> replay anthropic_apply_observation None obs = Inr (Some r) \<longrightarrow> 0 \<le> c \<longrightarrow>
      (\<forall>i\<in>set (completed anthropic_apply_observation anthropic_readings None obs). admits c i \<longrightarrow>
        (\<exists>l. wr_current_low_nano r = Some l \<and> l \<le> c)
        \<and> \<not> some_and (wr_current_high_nano r) (\<lambda>h. h < c)))
   \<and> (\<forall>obs r c. list_all glm_in_range obs \<longrightarrow> glm_rebuild_from_history obs = Inr (Some r) \<longrightarrow> 0 \<le> c \<longrightarrow>
      (\<forall>i\<in>set (completed glm_apply_observation glm_readings None obs). admits c i \<longrightarrow> even_resolutions i \<longrightarrow>
        (\<exists>l. lr_current_low_nanousd r = Some l \<and> l \<le> c)
        \<and> \<not> some_and (lr_current_high_nanousd r) (\<lambda>h. h < c)))
   \<and> (\<forall>obs r c rs. list_all in_range obs \<longrightarrow> kimi_rebuild_from_history obs = Inr (Some r) \<longrightarrow> 0 \<le> c \<longrightarrow>
      rs = completed kimi_apply_observation kimi_readings None obs \<longrightarrow> rs \<noteq> [] \<longrightarrow>
      list_all (admits c) rs \<longrightarrow> list_all (no_coarser (last_resolution (last rs))) rs \<longrightarrow>
        (\<exists>l. wr_current_low_nano r = Some l \<and> l \<le> c)
        \<and> \<not> some_and (wr_current_high_nano r) (\<lambda>h. h < c))"
proof (intro conjI [where P = "\<forall>obs r c. P obs r c" for P] allI impI ballI)
  fix obs r c i
  assume "list_all in_range obs" "replay gemini_apply_observation None obs = Inr (Some r)" "0 \<le> c"
    and i: "i \<in> set (completed gemini_apply_observation gemini_readings None obs)" "admits c i"
  with gemini_history_row [OF this(1,2)]
  show "(\<exists>l. wr_current_low_nano r = Some l \<and> l \<le> c) \<and> \<not> some_and (wr_current_high_nano r) (\<lambda>h. h < c)"
    using blend_bounds_contain [OF _ i]
    by (simp add: gemini_describes_def blend_evidence_def totals_are_def readings_completed)
next
  fix obs r c i
  assume "list_all in_range obs" "replay anthropic_apply_observation None obs = Inr (Some r)" "0 \<le> c"
    and i: "i \<in> set (completed anthropic_apply_observation anthropic_readings None obs)" "admits c i"
  with anthropic_history_row [OF this(1,2)]
  show "(\<exists>l. wr_current_low_nano r = Some l \<and> l \<le> c) \<and> \<not> some_and (wr_current_high_nano r) (\<lambda>h. h < c)"
    using blend_bounds_contain [OF _ i]
    by (simp add: anthropic_describes_def blend_evidence_def totals_are_def readings_completed)
next
  fix obs r c i
  assume "list_all glm_in_range obs" "glm_rebuild_from_history obs = Inr (Some r)" "0 \<le> c" "even_resolutions i"
    and i: "i \<in> set (completed glm_apply_observation glm_readings None obs)" "admits c i"
  with glm_history_row [OF this(1,2)]
  show "(\<exists>l. lr_current_low_nanousd r = Some l \<and> l \<le> c)
      \<and> \<not> some_and (lr_current_high_nanousd r) (\<lambda>h. h < c)"
    using glm_bounds_contain [OF _ i] by (simp add: glm_describes_def glm_evidence_def readings_completed)
next
  fix obs r c rs
  assume h: "list_all in_range obs" "kimi_rebuild_from_history obs = Inr (Some r)" "0 \<le> c"
    "rs = completed kimi_apply_observation kimi_readings None obs" "rs \<noteq> []"
    "list_all (admits c) rs" "list_all (no_coarser (last_resolution (last rs))) rs"
  show "(\<exists>l. wr_current_low_nano r = Some l \<and> l \<le> c) \<and> \<not> some_and (wr_current_high_nano r) (\<lambda>h. h < c)"
    by (rule kimi_bounds_contain_readings [OF h])
qed

theorem bounds_contain_admissible_capacities_witness:
  "\<exists>g l. replay gemini_apply_observation None gemini_example = Inr (Some g)
     \<and> wr_current_low_nano g = Some l \<and> l \<le> 100000000"
proof -
  have "shown (replay gemini_apply_observation None gemini_example) (\<lambda>g. wr_samples g = 2)"
    by code_simp
  then obtain g where g: "replay gemini_apply_observation None gemini_example = Inr (Some g)"
    by (rule shownE)
  have "list_all in_range gemini_example" by code_simp
  moreover have "(1000000, 100000, 100000, 1000000)
    \<in> set (completed gemini_apply_observation gemini_readings None gemini_example)" by code_simp
  moreover have "admits 100000000 (1000000, 100000, 100000, 1000000)" by code_simp
  moreover have "(0 :: int) \<le> 100000000" by simp
  ultimately show ?thesis
    using bounds_contain_admissible_capacities [THEN conjunct1] g by blast
qed

section \<open>Stored rows\<close>

definition bounds_ordered :: "i64 option \<Rightarrow> i64 option \<Rightarrow> i64 option \<Rightarrow> i64 \<Rightarrow> bool" where
  "bounds_ordered low capacity high confidence_bp \<longleftrightarrow>
     \<not> both_and low capacity (\<lambda>l c. c < l) \<and> \<not> both_and capacity high (\<lambda>c h. h < c)
     \<and> \<not> some_and low (\<lambda>l. l < 0)
     \<and> (low = None) = (capacity = None) \<and> (high \<noteq> None \<longrightarrow> capacity \<noteq> None)
     \<and> 0 \<le> confidence_bp \<and> confidence_bp \<le> 10000"

lemma envelope_ordered:
  assumes "\<forall>i\<in>set ivs. interval_ok i" "0 \<le> c" "c \<le> 10000"
  shows "bounds_ordered (least_low ivs) (if ivs = [] then None else Some (blended_capacity ivs))
    (greatest_high ivs) c"
proof (cases "ivs = []")
  case True
  then show ?thesis using assms by (simp add: bounds_ordered_def least_low_def greatest_high_def)
next
  case False
  then obtain l where l: "least_low ivs = Some l" by (simp add: least_low_def)
  show ?thesis
    using least_low_le_blend [OF assms(1) l] least_low_nonneg [OF assms(1) l] False assms l
      blend_le_greatest_high [OF assms(1)]
    by (cases "greatest_high ivs") (force simp: bounds_ordered_def)+
qed

lemma blend_evidence_ordered:
  assumes "blend_evidence ivs r"
  shows "bounds_ordered (wr_current_low_nano r) (wr_current_capacity_nano r) (wr_current_high_nano r)
    (wr_current_confidence_bp r)"
proof -
  have "wr_current_capacity_nano r = (if ivs = [] then None else Some (blended_capacity ivs))"
    using assms by (simp add: blend_evidence_def totals_are_def split: if_splits)
  then show ?thesis
    using assms envelope_ordered [of ivs] by (simp add: blend_evidence_def totals_are_def)
qed

lemma kimi_evidence_ordered:
  assumes "kimi_evidence ivs r"
  shows "bounds_ordered (wr_current_low_nano r) (wr_current_capacity_nano r) (wr_current_high_nano r)
    (wr_current_confidence_bp r)"
proof (cases "ivs = []")
  case True
  then show ?thesis using assms by (simp add: bounds_ordered_def kimi_evidence_def totals_are_def)
next
  case False
  have ivs: "\<forall>i\<in>set ivs. interval_ok i" using assms by (simp add: kimi_evidence_def totals_are_def)
  have "bounds_ordered (Some (aggregate_low ivs (aggregate_width ivs))) (Some (blended_capacity ivs))
      (aggregate_high ivs (aggregate_width ivs)) (wr_current_confidence_bp r)"
    using aggregate_brackets_blend [OF ivs False aggregate_width_nonneg [OF ivs False]] assms
    by (cases "aggregate_high ivs (aggregate_width ivs)")
      (force simp: bounds_ordered_def kimi_evidence_def totals_are_def)+
  then show ?thesis using assms False by (simp add: kimi_evidence_def totals_are_def)
qed

text \<open>C27: a row that an estimator produced is accepted when it is read back: it passes the
  estimator's own check and the registry's, so no window is blocked by its stored row. Its low bound
  is at most its capacity and its capacity at most its high bound, bounds exist only with a
  capacity, and the confidence is between 0 and 10000 basis points.\<close>

theorem produced_rows_are_accepted:
  "(\<forall>obs r. list_all in_range obs \<longrightarrow> replay gemini_apply_observation None obs = Inr (Some r) \<longrightarrow>
      gemini_validate_row r = Inr ()
      \<and> bounds_ordered (wr_current_low_nano r) (wr_current_capacity_nano r) (wr_current_high_nano r)
          (wr_current_confidence_bp r))
   \<and> (\<forall>obs r. list_all in_range obs \<longrightarrow> replay anthropic_apply_observation None obs = Inr (Some r) \<longrightarrow>
      anthropic_validate_row r = Inr ()
      \<and> bounds_ordered (wr_current_low_nano r) (wr_current_capacity_nano r) (wr_current_high_nano r)
          (wr_current_confidence_bp r))
   \<and> (\<forall>obs r. list_all in_range obs \<longrightarrow> kimi_rebuild_from_history obs = Inr (Some r) \<longrightarrow>
      kimi_validate_row r = Inr () \<and> validate_kimi_calibration_row r = Inr ()
      \<and> bounds_ordered (wr_current_low_nano r) (wr_current_capacity_nano r) (wr_current_high_nano r)
          (wr_current_confidence_bp r))
   \<and> (\<forall>obs r. list_all glm_in_range obs \<longrightarrow> glm_rebuild_from_history obs = Inr (Some r) \<longrightarrow>
      validate_glm_calibration_row r = Inr ()
      \<and> bounds_ordered (lr_current_low_nanousd r) (lr_current_capacity_nanousd r)
          (lr_current_high_nanousd r) (lr_current_confidence_bp r))"
proof (intro conjI allI impI)
  fix obs r
  assume "list_all in_range obs" "replay gemini_apply_observation None obs = Inr (Some r)"
  note d = gemini_history_row [OF this]
  show "gemini_validate_row r = Inr ()" by (rule gemini_described_row_is_valid [OF d])
  show "bounds_ordered (wr_current_low_nano r) (wr_current_capacity_nano r) (wr_current_high_nano r)
      (wr_current_confidence_bp r)"
    using d by (auto simp: gemini_describes_def intro: blend_evidence_ordered)
next
  fix obs r
  assume "list_all in_range obs" "replay anthropic_apply_observation None obs = Inr (Some r)"
  note d = anthropic_history_row [OF this]
  show "anthropic_validate_row r = Inr ()" by (rule anthropic_described_row_is_valid [OF d])
  show "bounds_ordered (wr_current_low_nano r) (wr_current_capacity_nano r) (wr_current_high_nano r)
      (wr_current_confidence_bp r)"
    using d by (auto simp: anthropic_describes_def intro: blend_evidence_ordered)
next
  fix obs r
  assume "list_all in_range obs" "kimi_rebuild_from_history obs = Inr (Some r)"
  note d = kimi_history_row [OF this]
  show "kimi_validate_row r = Inr ()" "validate_kimi_calibration_row r = Inr ()"
    by (rule kimi_described_row_is_valid [OF d])+
  show "bounds_ordered (wr_current_low_nano r) (wr_current_capacity_nano r) (wr_current_high_nano r)
      (wr_current_confidence_bp r)"
    using d by (auto simp: kimi_describes_def intro: kimi_evidence_ordered)
next
  fix obs r
  assume "list_all glm_in_range obs" "glm_rebuild_from_history obs = Inr (Some r)"
  note d = glm_history_row [OF this]
  show "validate_glm_calibration_row r = Inr ()" by (rule glm_described_row_is_valid [OF d])
  show "bounds_ordered (lr_current_low_nanousd r) (lr_current_capacity_nanousd r)
      (lr_current_high_nanousd r) (lr_current_confidence_bp r)"
    using d envelope_ordered [of "completed glm_apply_observation glm_taken None obs"]
    by (simp add: glm_describes_def glm_evidence_def)
qed

theorem produced_rows_are_accepted_witness:
  "\<exists>r. replay gemini_apply_observation None gemini_example = Inr (Some r) \<and> gemini_validate_row r = Inr ()"
proof -
  have "shown (replay gemini_apply_observation None gemini_example) (\<lambda>g. wr_samples g = 2)"
    by code_simp
  then obtain g where g: "replay gemini_apply_observation None gemini_example = Inr (Some g)"
    by (rule shownE)
  have "list_all in_range gemini_example" by code_simp
  then show ?thesis using produced_rows_are_accepted [THEN conjunct1] g by blast
qed

section \<open>Rebuilding\<close>

text \<open>C28: rebuilding a row from its immutable history is the same as having folded the
  observations one by one with the current estimator: for a history of one window whose observations
  passed their check, the Gemini and Anthropic replay ends in the row, or the error, of the live
  estimator, with the stored version. With that, an observation that meets a row of another
  estimator version is applied to the live row.\<close>

theorem rebuild_is_the_live_estimator:
  "(gemini_history gobs \<longrightarrow>
      gemini_replay_observations gobs v
        = map_sum id (map_option (\<lambda>r. r\<lparr>wr_version := v\<rparr>)) (replay gemini_apply_observation None gobs))
   \<and> (anthropic_history aobs \<longrightarrow>
      anthropic_replay_observations aobs v
        = map_sum id (map_option (\<lambda>r. r\<lparr>wr_version := v\<rparr>)) (replay anthropic_apply_observation None aobs))
   \<and> (gemini_history gobs \<longrightarrow> wr_estimator_version old \<noteq> GEMINI_ESTIMATOR_VERSION \<longrightarrow>
      replay gemini_apply_observation None gobs = Inr (Some live) \<longrightarrow>
      gemini_apply_observation_with_history (Some old) gobs ob
        = gemini_apply_observation (Some (live\<lparr>wr_version := wr_version old\<rparr>)) ob)"
  using gemini_rebuild_is_live [of gobs] anthropic_rebuild_is_live [of aobs v]
  by (simp add: gemini_apply_observation_with_history_def)

theorem rebuild_is_the_live_estimator_witness:
  "shown (gemini_replay_observations gemini_example 7) (\<lambda>r. wr_samples r = 2 \<and> wr_version r = 7)"
proof -
  have h: "gemini_history gemini_example" by code_simp
  have "shown (replay gemini_apply_observation None gemini_example) (\<lambda>g. wr_samples g = 2)"
    by code_simp
  then obtain g where g: "replay gemini_apply_observation None gemini_example = Inr (Some g)"
    and n: "wr_samples g = 2" by (rule shownE)
  show ?thesis
    using rebuild_is_the_live_estimator [of gemini_example 7 "[]"] h g n by (simp add: shown_def)
qed

section \<open>Readings of native counters\<close>

lemma floor_difference:
  assumes "0 < (l :: int)"
  shows "\<bar>s * (b - a) - l * (s * b div l - s * a div l)\<bar> < l"
proof -
  have "s * (b - a) - l * (s * b div l - s * a div l) = s * b mod l - s * a mod l"
    by (simp add: algebra_simps minus_mult_div_eq_mod [symmetric])
  then show ?thesis
    using pos_mod_bound [OF assms, of "s * a"] pos_mod_bound [OF assms, of "s * b"]
      pos_mod_sign [OF assms, of "s * a"] pos_mod_sign [OF assms, of "s * b"] by linarith
qed

lemma fraction_from_native_spec:
  assumes "fraction_from_native p used limit = Inr d" "limit < 2 ^ 63"
  shows "0 < limit" "0 \<le> used" "used \<le> limit"
    "df_used_fraction_units d = CALIBRATION_SCALE * used div limit"
    "df_measurement_resolution_fraction_units d = ceiling_div CALIBRATION_SCALE limit"
    "1 \<le> ceiling_div CALIBRATION_SCALE limit"
proof -
  show l: "0 < limit" and u: "0 \<le> used" "used \<le> limit"
    using assms(1) by (auto simp: fraction_from_native_def split: if_splits)
  have num: "0 \<le> used * CALIBRATION_SCALE" "used * CALIBRATION_SCALE < 2 ^ 90"
    using scaled_spend_range [of used] u assms(2) by (simp_all add: mult.commute)
  have mul: "checked_mul_i128 used CALIBRATION_SCALE = Some (used * CALIBRATION_SCALE)"
    using num by (simp add: checked_mul_i128_def in_i128_def)
  have divd: "checked_div_i128 (used * CALIBRATION_SCALE) limit = Some (used * CALIBRATION_SCALE div limit)"
    using num l by (intro checked_div_i128_nonneg) simp_all
  have sum: "checked_add_i128 CALIBRATION_SCALE (sub_i128 limit 1)
      = Some (CALIBRATION_SCALE + (limit - 1))"
    using l assms(2)
    by (simp add: sub_i128_exact in_i128_def checked_add_i128_def CALIBRATION_SCALE_def)
  have res: "checked_div_i128 (CALIBRATION_SCALE + (limit - 1)) limit
      = Some (ceiling_div CALIBRATION_SCALE limit)"
    unfolding ceiling_div_def using l assms(2)
    by (intro checked_div_i128_nonneg) (simp_all add: CALIBRATION_SCALE_def)
  show one: "1 \<le> ceiling_div CALIBRATION_SCALE limit"
    using l by (simp add: int_one_le_iff_zero_less ceiling_div_def pos_imp_zdiv_pos_iff CALIBRATION_SCALE_def)
  show "df_used_fraction_units d = CALIBRATION_SCALE * used div limit"
    "df_measurement_resolution_fraction_units d = ceiling_div CALIBRATION_SCALE limit"
    using assms(1) l u one
    by (auto simp: fraction_from_native_def mul divd sum res mult.commute [of CALIBRATION_SCALE]
        split: if_splits)
qed

text \<open>A KIMI reading of the provider's counters lies between 0 and the fixed-point scale, and its
  resolution is at least one unit. If every native unit of a window of a given limit costs the same,
  the window's capacity is admissible for the interval between any two readings at that limit: the
  resolution of the second reading covers the rounding of both.\<close>

lemma native_readings_admit_the_capacity:
  assumes "kimi_fraction_from_native a limit = Inr fa" "kimi_fraction_from_native b limit = Inr fb"
    "limit < 2 ^ 63" "0 \<le> unit_cost"
  shows "0 \<le> df_used_fraction_units fa \<and> df_used_fraction_units fa \<le> CALIBRATION_SCALE
    \<and> 1 \<le> df_measurement_resolution_fraction_units fa
    \<and> admissible (unit_cost * limit)
        (df_used_fraction_units fb - df_used_fraction_units fa,
         df_measurement_resolution_fraction_units fb, unit_cost * (b - a))"
proof -
  note fa = fraction_from_native_spec [OF assms(1) [unfolded kimi_fraction_from_native_def] assms(3)]
  note fb = fraction_from_native_spec [OF assms(2) [unfolded kimi_fraction_from_native_def] assms(3)]
  have range: "0 \<le> CALIBRATION_SCALE * a div limit" "CALIBRATION_SCALE * a div limit \<le> CALIBRATION_SCALE"
    using fa(1-3) by (simp_all add: pos_imp_zdiv_nonneg_iff div_le_of_le_mult)
  let ?e = "CALIBRATION_SCALE * (b - a) - limit * (CALIBRATION_SCALE * b div limit - CALIBRATION_SCALE * a div limit)"
  have "\<bar>unit_cost * ?e\<bar> = unit_cost * \<bar>?e\<bar>" using assms(4) by (simp add: abs_mult)
  also have "\<dots> \<le> unit_cost * limit"
    using floor_difference [OF fa(1), of CALIBRATION_SCALE b a] assms(4) by (intro mult_left_mono) simp_all
  also have "\<dots> \<le> unit_cost * limit * ceiling_div CALIBRATION_SCALE limit"
    using fa(1,6) assms(4) mult_left_mono [of 1 "ceiling_div CALIBRATION_SCALE limit" "unit_cost * limit"] by simp
  finally have "admissible (unit_cost * limit)
      (df_used_fraction_units fb - df_used_fraction_units fa,
       df_measurement_resolution_fraction_units fb, unit_cost * (b - a))"
    by (simp add: fa(4) fb(4,5) algebra_simps)
  then show ?thesis using range fa(4-6) by simp
qed

section \<open>Bounds that exclude the capacity\<close>

lemma aggregate_low_above:
  assumes "0 < total_used ivs" "0 \<le> u" "(c + 1) * (total_used ivs + u) \<le> CALIBRATION_SCALE * total_spend ivs"
  shows "c < aggregate_low ivs u"
proof -
  have "c + 1 \<le> CALIBRATION_SCALE * total_spend ivs div (total_used ivs + u)"
    using zdiv_mono1 [OF assms(3), of "total_used ivs + u"] assms(1,2) by simp
  then show ?thesis by (simp add: aggregate_low_def)
qed

text \<open>The readings through the native ledger: both have a resolution of one unit, and the measured spend
  is more than a capacity predicts, but within the error of the readings.\<close>

fun unit_excess :: "int \<Rightarrow> reading_pair \<Rightarrow> bool" where
  "unit_excess c (du, a, b, ds) \<longleftrightarrow> a = 1 \<and> b = 1
     \<and> (c + 1) * du \<le> CALIBRATION_SCALE * ds \<and> CALIBRATION_SCALE * ds \<le> c * (du + 1)"

fun reading_used :: "reading_pair \<Rightarrow> int" where
  "reading_used (du, a, b, ds) = du"

fun reading_spend :: "reading_pair \<Rightarrow> int" where
  "reading_spend (du, a, b, ds) = ds"

lemma measured_totals:
  "total_used (map (measured width) rs) = sum_list (map reading_used rs)"
  "total_spend (map (measured width) rs) = sum_list (map reading_spend rs)"
  by (induction rs) (auto simp: total_used_def total_spend_def)

lemma unit_excess_admits:
  assumes "unit_excess c i" "interval_ok (measured half_widths i)"
  shows "admits c i \<and> c < interval_low (measured half_widths i)"
proof -
  obtain du ds where i: "i = (du, 1, 1, ds)" using assms(1) by (cases i) auto
  have e: "(c + 1) * du \<le> CALIBRATION_SCALE * ds" "CALIBRATION_SCALE * ds \<le> c * (du + 1)" "0 < du"
    using assms i by (simp_all add: half_widths_def)
  have "c * du \<le> CALIBRATION_SCALE * ds" using e(1,3) by (simp add: algebra_simps)
  moreover have "CALIBRATION_SCALE * ds - c * du \<le> c" using e(2) by (simp add: algebra_simps)
  ultimately have "admits c i" using i by simp
  moreover have "c + 1 \<le> CALIBRATION_SCALE * ds div du" using zdiv_mono1 [OF e(1,3)] e(3) by simp
  ultimately show ?thesis using i by (simp add: half_widths_def)
qed

text \<open>C30: the published bounds exclude capacities that all the readings admit, in two situations. A GLM
  window whose readings all have a resolution of one unit, as those through the native ledger: the two
  halves of the width round down to zero, so every capacity that predicts less than the measured spend
  in each interval, though within the error of the readings, is below the published low bound. A KIMI
  window: the resolution of the last reading stands for the error of all, so a capacity that every
  interval admits is below the published low bound as soon as the total spend exceeds its prediction
  for the total movement and that many last resolutions; then some earlier reading was coarser than
  the last one.\<close>

theorem bounds_can_exclude_the_capacity:
  "(\<forall>obs r c rs. list_all glm_in_range obs \<longrightarrow> glm_rebuild_from_history obs = Inr (Some r) \<longrightarrow>
      rs = completed glm_apply_observation glm_readings None obs \<longrightarrow> rs \<noteq> [] \<longrightarrow>
      list_all (unit_excess c) rs \<longrightarrow>
        list_all (admits c) rs \<and> (\<exists>l. lr_current_low_nanousd r = Some l \<and> c < l))
   \<and> (\<forall>obs r c rs. list_all in_range obs \<longrightarrow> kimi_rebuild_from_history obs = Inr (Some r) \<longrightarrow> 0 \<le> c \<longrightarrow>
      rs = completed kimi_apply_observation kimi_readings None obs \<longrightarrow> rs \<noteq> [] \<longrightarrow>
      list_all (admits c) rs \<longrightarrow>
      (c + 1) * (sum_list (map reading_used rs) + int (length rs) * last_resolution (last rs))
        \<le> CALIBRATION_SCALE * sum_list (map reading_spend rs) \<longrightarrow>
        (\<exists>l. wr_current_low_nano r = Some l \<and> c < l)
        \<and> \<not> list_all (no_coarser (last_resolution (last rs))) rs)"
proof (intro conjI [where P = "\<forall>obs r c. P obs r c" for P] allI impI)
  fix obs r c rs
  assume h: "list_all glm_in_range obs" "glm_rebuild_from_history obs = Inr (Some r)"
    "rs = completed glm_apply_observation glm_readings None obs" "rs \<noteq> []" "list_all (unit_excess c) rs"
  let ?ivs = "map (measured half_widths) rs"
  have e: "\<forall>i\<in>set ?ivs. interval_ok i" "lr_current_low_nanousd r = least_low ?ivs"
    using glm_history_row [OF h(1,2)]
    by (simp_all add: glm_describes_def glm_evidence_def readings_completed h(3) [symmetric])
  have each: "admits c i \<and> c < interval_low (measured half_widths i)" if "i \<in> set rs" for i
    using unit_excess_admits [of c i] h(5) e(1) that by (simp add: list_all_iff)
  have "\<exists>l. least_low ?ivs = Some l \<and> c < l" using each h(4) by (simp add: least_low_def)
  then show "list_all (admits c) rs \<and> (\<exists>l. lr_current_low_nanousd r = Some l \<and> c < l)"
    using each e(2) by (simp add: list_all_iff)
next
  fix obs r c rs
  assume h: "list_all in_range obs" "kimi_rebuild_from_history obs = Inr (Some r)" "0 \<le> c"
    "rs = completed kimi_apply_observation kimi_readings None obs" "rs \<noteq> []" "list_all (admits c) rs"
    and above: "(c + 1) * (sum_list (map reading_used rs) + int (length rs) * last_resolution (last rs))
        \<le> CALIBRATION_SCALE * sum_list (map reading_spend rs)"
  let ?ivs = "map (measured observed_width) rs"
  have e: "kimi_evidence ?ivs r" and d: "kimi_describes ?ivs (Some r)"
    using kimi_history_row [OF h(1,2)] by (simp_all add: kimi_describes_def readings_completed h(4) [symmetric])
  have ok: "\<forall>i\<in>set ?ivs. interval_ok i" using e by (simp add: kimi_evidence_def totals_are_def)
  have "c < aggregate_low ?ivs (aggregate_width ?ivs)"
    using above totals_pos(1) [OF ok] aggregate_width_nonneg [OF ok] h(5)
    by (intro aggregate_low_above) (simp_all add: aggregate_width_def last_width measured_totals)
  then have low: "\<exists>l. wr_current_low_nano r = Some l \<and> c < l" using e h(5) by (simp add: kimi_evidence_def)
  have "\<not> list_all (no_coarser (last_resolution (last rs))) rs"
    using kimi_bounds_contain_readings [OF h] low by auto
  with low show "(\<exists>l. wr_current_low_nano r = Some l \<and> c < l)
      \<and> \<not> list_all (no_coarser (last_resolution (last rs))) rs" by simp
qed

definition kimi_coarse_example :: "kimi_observation list" where
  "kimi_coarse_example = [kimi_sample_observation 1 100 0 100 0,
     kimi_sample_observation 2 100 1 100 1000000000,
     kimi_sample_observation 3 40000 0 100000 1000000000,
     kimi_sample_observation 4 40000 1000 100000 1600000000]"

definition glm_native_example :: "glm_observation list" where
  "glm_native_example = [glm_sample_observation 1 0, glm_sample_observation 2 39]"

theorem bounds_can_exclude_the_capacity_witness:
  "(\<exists>r l. glm_rebuild_from_history glm_native_example = Inr (Some r)
      \<and> map_option (\<lambda>limit. 1000 * limit)
          (published_window_limit_microcredits (lr_plan r) (lr_window_duration_secs r)) = Some 2000000000000
      \<and> lr_current_low_nanousd r = Some l \<and> 2000000000000 < l)
   \<and> (\<exists>r l. kimi_rebuild_from_history kimi_coarse_example = Inr (Some r)
      \<and> wr_current_low_nano r = Some l \<and> 60000000000 < l)"
proof
  have "shown (glm_rebuild_from_history glm_native_example) (\<lambda>r. map_option (\<lambda>limit. 1000 * limit)
      (published_window_limit_microcredits (lr_plan r) (lr_window_duration_secs r)) = Some 2000000000000)"
    by code_simp
  then obtain r where r: "glm_rebuild_from_history glm_native_example = Inr (Some r)"
    "map_option (\<lambda>limit. 1000 * limit)
      (published_window_limit_microcredits (lr_plan r) (lr_window_duration_secs r)) = Some 2000000000000"
    by (rule shownE)
  have "list_all glm_in_range glm_native_example"
    "completed glm_apply_observation glm_readings None glm_native_example \<noteq> []"
    "list_all (unit_excess 2000000000000) (completed glm_apply_observation glm_readings None glm_native_example)"
    by code_simp+
  then show "\<exists>r l. glm_rebuild_from_history glm_native_example = Inr (Some r)
      \<and> map_option (\<lambda>limit. 1000 * limit)
          (published_window_limit_microcredits (lr_plan r) (lr_window_duration_secs r)) = Some 2000000000000
      \<and> lr_current_low_nanousd r = Some l \<and> 2000000000000 < l"
    using bounds_can_exclude_the_capacity [THEN conjunct1] r by blast
  have "shown (kimi_rebuild_from_history kimi_coarse_example) (\<lambda>r. wr_samples r = 2)" by code_simp
  then obtain k where k: "kimi_rebuild_from_history kimi_coarse_example = Inr (Some k)" by (rule shownE)
  let ?rs = "completed kimi_apply_observation kimi_readings None kimi_coarse_example"
  have "list_all in_range kimi_coarse_example" "?rs \<noteq> []" "list_all (admits 60000000000) ?rs"
    "(60000000000 + 1) * (sum_list (map reading_used ?rs) + int (length ?rs) * last_resolution (last ?rs))
        \<le> CALIBRATION_SCALE * sum_list (map reading_spend ?rs)"
    by code_simp+
  moreover have "(0 :: int) \<le> 60000000000" by simp
  ultimately show "\<exists>r l. kimi_rebuild_from_history kimi_coarse_example = Inr (Some r)
      \<and> wr_current_low_nano r = Some l \<and> 60000000000 < l"
    using bounds_can_exclude_the_capacity [THEN conjunct2] k by blast
qed

section \<open>Backward resets are not stored\<close>

lemma blend_body_keeps_reset:
  assumes "blend_body p d ob r = Inr r'" "wo_resets_at ob < wr_resets_at r"
  shows "wr_resets_at r' = wr_resets_at r"
proof -
  have roll: "\<not> window_rolled d ob r"
    using assms(2)
    by (auto simp: window_rolled_def reset_delta_def reset_boundary_def jitter_tolerance_def)
  have seen: "wr_resets_at (refresh_reading ob r) = wr_resets_at r"
    using assms(2) by (simp add: refresh_reading_def)
  have hold: "wr_resets_at r' = wr_resets_at r"
    if "hold_or_record_unattributed p ob r du (refresh_reading ob r) = Inr r'" for du
    using that by (auto elim!: hold_cases simp: advance_anchor_def seen)
  have sample: "wr_resets_at r' = wr_resets_at r"
    if "blend_sample p ob du ds (refresh_reading ob r) = Inr r'" for du ds
  proof -
    from that obtain r1 r2 where "update_workload_envelope p du (interval_fraction_uncertainty
        (wr_anchor_resolution_fraction_units (refresh_reading ob r))
        (wo_measurement_resolution_fraction_units ob)) ds (refresh_reading ob r) = Inr r1"
      "add_interval p ob du ds r1 = Inr r2" "blend_recompute p r2 = Inr r'"
      by (auto simp: blend_sample_def Let_def)
    then show ?thesis
      by (auto simp: blend_recompute_def Let_def advance_anchor_def update_workload_envelope_def seen
          dest!: add_interval_cases(4) split: if_splits)
  qed
  show ?thesis
    using assms(1) roll seen hold sample by (auto simp: blend_body_def Let_def split: if_splits)
qed

lemma gemini_apply_keeps_reset:
  assumes "gemini_describes ivs (Some r)" "gemini_apply_observation (Some r) ob = Inr r'"
    "wo_resets_at ob < wr_resets_at r"
  shows "wr_resets_at r' = wr_resets_at r"
  using assms blend_body_keeps_reset [of "''Gemini''" _ ob r r']
  by (auto simp: gemini_apply_described gemini_observe_body split: if_splits)

lemma anthropic_apply_keeps_reset:
  assumes "anthropic_describes ivs (Some r)" "anthropic_apply_observation (Some r) ob = Inr r'"
    "wo_resets_at ob < wr_resets_at r"
  shows "wr_resets_at r' = wr_resets_at r"
  using assms blend_body_keeps_reset [of "''Anthropic''" _ ob r r']
  by (auto simp: anthropic_apply_described anthropic_observe_body split: if_splits)

text \<open>C29: a newer observation whose reset is earlier than the stored one is never stored by the
  Gemini and Anthropic writers. The estimator tolerates such a reset: it keeps the later one and
  folds the observation, or ignores the observation when the reset moved back by half a window. The
  check before the row is stored demands that the row repeats the observation's reset, so the writer
  fails with the mismatch error whenever the estimator itself succeeded.\<close>

theorem backward_reset_is_not_stored:
  "(list_all in_range gobs \<and> replay gemini_apply_observation None gobs = Inr (Some g)
      \<and> in_range gob \<and> gemini_validate_observation gob = Inr ()
      \<and> wr_observed_at g < wo_observed_at gob \<and> wo_resets_at gob < wr_resets_at g \<longrightarrow>
      observe_gemini_round gswap (Some g) gstored gob
        = bind_res (gemini_apply_observation (Some g) gob)
            (\<lambda>_. Inl ''exact Gemini calibration state/observation mismatch''))
   \<and> (list_all in_range aobs \<and> replay anthropic_apply_observation None aobs = Inr (Some a)
      \<and> in_range aob \<and> anthropic_validate_observation aob = Inr ()
      \<and> wr_observed_at a < wo_observed_at aob \<and> wo_resets_at aob < wr_resets_at a \<longrightarrow>
      observe_anthropic_round aswap (Some a) astored aob
        = bind_res (anthropic_apply_observation (Some a) aob)
            (\<lambda>_. Inl ''Anthropic calibration state/observation mismatch''))"
proof (intro conjI impI)
  assume h: "list_all in_range gobs \<and> replay gemini_apply_observation None gobs = Inr (Some g)
      \<and> in_range gob \<and> gemini_validate_observation gob = Inr ()
      \<and> wr_observed_at g < wo_observed_at gob \<and> wo_resets_at gob < wr_resets_at g"
  then have d: "gemini_describes (completed gemini_apply_observation gemini_taken None gobs) (Some g)"
    using gemini_history_row by blast
  have v: "wr_estimator_version g = GEMINI_ESTIMATOR_VERSION" using d by (simp add: gemini_describes_def)
  have mismatch: "validate_gemini_exact_calibration_pair r' gob
      = Inl ''exact Gemini calibration state/observation mismatch''"
    if "gemini_apply_observation (Some g) gob = Inr r'" for r'
    using gemini_described_row_is_valid [OF gemini_window.describes_step [OF d _ that]]
      gemini_apply_keeps_reset [OF d that] h
    by (auto simp: validate_gemini_exact_calibration_pair_def gemini_validate_row_def same_reading_def
        gemini_validate_observation_Inr validate_gemini_exact_window_observation_def)
  show "observe_gemini_round gswap (Some g) gstored gob
        = bind_res (gemini_apply_observation (Some g) gob)
            (\<lambda>_. Inl ''exact Gemini calibration state/observation mismatch'')"
    using h mismatch
    by (cases "gemini_apply_observation (Some g) gob")
      (simp_all add: observe_gemini_round_def gemini_observation_is_stale_or_duplicate_def v
        equal_second_reading_def gemini_apply_observation_with_history_def)
next
  assume h: "list_all in_range aobs \<and> replay anthropic_apply_observation None aobs = Inr (Some a)
      \<and> in_range aob \<and> anthropic_validate_observation aob = Inr ()
      \<and> wr_observed_at a < wo_observed_at aob \<and> wo_resets_at aob < wr_resets_at a"
  then have d: "anthropic_describes (completed anthropic_apply_observation anthropic_taken None aobs) (Some a)"
    using anthropic_history_row by blast
  have v: "wr_estimator_version a = ANTHROPIC_ESTIMATOR_VERSION" using d by (simp add: anthropic_describes_def)
  have mismatch: "validate_anthropic_calibration_pair r' aob
      = Inl ''Anthropic calibration state/observation mismatch''"
    if "anthropic_apply_observation (Some a) aob = Inr r'" for r'
    using anthropic_described_row_is_valid [OF anthropic_window.describes_step [OF d _ that]]
      anthropic_apply_keeps_reset [OF d that] h
    by (auto simp: validate_anthropic_calibration_pair_def anthropic_validate_row_def same_reading_def
        anthropic_validate_observation_Inr validate_anthropic_window_observation_def)
  show "observe_anthropic_round aswap (Some a) astored aob
        = bind_res (anthropic_apply_observation (Some a) aob)
            (\<lambda>_. Inl ''Anthropic calibration state/observation mismatch'')"
    using h mismatch
    by (cases "anthropic_apply_observation (Some a) aob")
      (simp_all add: observe_anthropic_round_def anthropic_observation_is_stale_or_duplicate_def v
        equal_second_reading_def anthropic_apply_observation_with_history_def)
qed

theorem backward_reset_is_not_stored_witness:
  "\<exists>g. replay gemini_apply_observation None gemini_example = Inr (Some g)
     \<and> is_Inr (gemini_apply_observation (Some g) (gemini_sample_observation 40 19970 5000000 4000500))
     \<and> observe_gemini_round (\<lambda>r. Some (wr_version r + 1)) (Some g) []
         (gemini_sample_observation 40 19970 5000000 4000500)
       = Inl ''exact Gemini calibration state/observation mismatch''"
proof -
  let ?ob = "gemini_sample_observation 40 19970 5000000 4000500"
  have "shown (replay gemini_apply_observation None gemini_example) (\<lambda>g.
      wr_observed_at g < 40 \<and> 19970 < wr_resets_at g \<and> is_Inr (gemini_apply_observation (Some g) ?ob))"
    by code_simp
  then obtain g where g: "replay gemini_apply_observation None gemini_example = Inr (Some g)"
    "wr_observed_at g < 40" "19970 < wr_resets_at g"
    "is_Inr (gemini_apply_observation (Some g) ?ob)" by (auto elim: shownE)
  have r: "list_all in_range gemini_example" "in_range ?ob" "gemini_validate_observation ?ob = Inr ()"
    by code_simp+
  have ob: "wo_observed_at ?ob = 40" "wo_resets_at ?ob = 19970"
    by (simp_all add: gemini_sample_observation_def)
  obtain r' where r': "gemini_apply_observation (Some g) ?ob = Inr r'"
    using g(4) by (auto simp: is_Inr_def split: sum.splits)
  have "observe_gemini_round (\<lambda>r. Some (wr_version r + 1)) (Some g) [] ?ob
      = bind_res (gemini_apply_observation (Some g) ?ob)
          (\<lambda>_. Inl ''exact Gemini calibration state/observation mismatch'')"
    using backward_reset_is_not_stored [THEN conjunct1, of gemini_example g ?ob] g(1-3) r ob by simp
  then show ?thesis using g r' by auto
qed

end
