(* ===== verification/Spec2Isabelle.thy ===== *)
theory Spec2Isabelle
  imports Tariff_Properties Tariff_Admin Ledger_Properties Pool_Accounting Breaker Body_Storage
    Turn_Queue Calendar Plane_Kimi Media_Properties Calibration_Properties
begin

text \<open>
  A verification library for the engine of the repository, the Rust workspace under
  \<open>src/crates\<close>: the gateway that sells turns of subscription-backed language, image, music and 3D
  models. The library translates the parts of the engine that decide about money, about which
  subscription serves a turn and about what is learnt from it, and proves what makes them correct.

  \<^bold>\<open>The program.\<close> A client's request reaches a plane of the \<open>forward\<close> crate (Anthropic, Codex,
  Gemini, GLM, KIMI, Suno, Tripo3D). The plane reserves money with the authority of the \<open>registry\<close>
  crate, chooses a profile (the \<open>pool\<close> crate for Anthropic, a selection module of its own
  elsewhere), sends the request, classifies the answer, and repeats on another profile where that is
  safe. The usage of the answer is parsed and priced by the \<open>metering\<close> crate at the compiled rates
  or at an override that operators publish through the \<open>server\<close> crate and that the tariff book keeps
  in memory; the price settles the reservation. Every turn is also an observation of how much of a
  provider's usage window it consumed, from which the calibration estimators derive the window's
  capacity in money. Around the turn stand the memory budget of request bodies
  (\<open>bounded-body\<close>), a circuit breaker, delivery queues and the subscription calendar.

  \<^bold>\<open>Foundations.\<close>
  \<^item> \<open>Engine_Prelude\<close>: token counters as 64-bit words with saturation written out, wider integers
    as \<open>int\<close> with their overflow checks, the JSON library as a record of its operations, byte-wise
    string operations, results as sums, and the locales \<open>command_system\<close> and \<open>guarded_system\<close> that lift an
    invariant of every command to every sequence of commands.
  \<^item> \<open>Decimal\<close>: \<open>Display\<close> and \<open>FromStr\<close> of the machine integers, with their round trips.

  \<^bold>\<open>Prices (crates/metering).\<close>
  \<^item> \<open>Rate_Catalog\<close>: the locales \<open>effective_schedule\<close>, \<open>rate_catalog\<close>, \<open>snapshot_merge\<close> and
    \<open>snapshot_stream\<close>, the contracts the provider modules share (the row in force, the gapless
    cover of time, counters of a stream as the last reported ones).
  \<^item> \<open>Metering_Anthropic\<close> (\<open>lib.rs\<close>), \<open>Metering_Codex\<close>, \<open>Metering_Gemini\<close>, \<open>Metering_Glm\<close>,
    \<open>Metering_Kimi\<close> and \<open>Metering_Media\<close> (\<open>openai_image.rs\<close>, \<open>suno.rs\<close>, \<open>tripo3d.rs\<close>): each table,
    alias, parser and charge of the module of that name; each catalogue interprets the locales.
    Their lemmas show that a charge is the exact rational cost rounded as the source rounds it, that
    no intermediate product leaves its type, and that parsers keep counters in range.
  \<^item> \<open>Tariff_Store\<close> and \<open>Tariff_Authority\<close> (\<open>registry/src/pricing/tariffs.rs\<close>): the append-only
    table of overrides; versions are gapless, every stored row passes the verification of a read,
    and a publication does not reprice the past. SHA-256 and the derived codecs are a parameter
    whose law is that decoding inverts encoding.
  \<^item> \<open>Tariff_Book\<close> (\<open>forward/src/pricing/tariff_book.rs\<close>): snapshots, refreshes, pins and charges;
    the snapshot refines the table and a pinned settlement is never repriced. The lookup of a
    pinned version takes the lock of the book three times; what other tasks do in between is an
    argument, and the property interleaves any publications, reads and installations there.
  \<^item> \<open>Tariff_Admin\<close> (\<open>server/src/tariff_admin.rs\<close> and the tariff endpoints of \<open>admin.rs\<close>): seeding
    the table from the compiled catalogue changes no price. \<open>Tariff_Properties\<close> holds what spans
    the provider modules.

  \<^bold>\<open>Money (crates/registry/src/lib.rs).\<close> \<open>Ledger\<close> models the SQLite authority as one record of
  tables and every operation as a transaction that either returns an error and leaves the record, or
  returns its successor: accounts, keys, top-ups, hot batches, reservations, durable requests with
  execution groups, settlement, cancellation and recovery. \<open>Ledger_Invariants\<close> proves the effect of
  each operation on balances, the invariant that ledger entries explain every balance, and the
  one-winner invariant of execution groups, through the locales \<open>tx_invariant\<close> and
  \<open>ledger_invariant\<close>, interpreted once per invariant. \<open>Ledger_Properties\<close> states the results over
  every reachable database. The reserved and spent aggregates are unbounded integers: SQL computes
  them, and SQLite would leave 64-bit integers only beyond nine billion dollars.

  \<^bold>\<open>Choosing a subscription.\<close>
  \<^item> \<open>Pool\<close> (\<open>crates/pool/src/lib.rs\<close>): the scheduler of the Anthropic plane with sticky homes,
    cooldowns, probes, calibrated capacities and the capacity report; \<open>f64\<close> values are exact
    rationals, the clock and BLAKE3 are parameters. \<open>Pool_Properties\<close> proves the choice to be the
    extremum of a lexicographic key (locale \<open>ranking\<close>), the routing contract and the invariants of
    the live table (locale \<open>live_invariant\<close>); \<open>Pool_Accounting\<close> the authentication verdict, spend,
    merging and reporting.
  \<^item> \<open>Plane_Core\<close>: the ranked choice with rotating ties and the attempt loop that four planes repeat,
    with the locales \<open>attempt_policy\<close>, \<open>rotation_loop\<close> and \<open>creation_loop\<close>: every attempt excludes
    its profile or spends a budget, so that the loop ends with an answer, and a plane that creates
    something moves on only past attempts it names.
  \<^item> \<open>Plane_Glm\<close>, \<open>Plane_Kimi\<close>, \<open>Plane_Media\<close> with \<open>Media_Properties\<close> (\<open>forward/src/glm\<close>, \<open>kimi\<close>,
    \<open>suno\<close>, \<open>tripo3d\<close>: \<open>transport.rs\<close>, \<open>selection.rs\<close>, \<open>pool.rs\<close>, \<open>gateway.rs\<close>): classification of
    answers, decisions, health axes, token refresh and the loops, each an interpretation of the
    locales above. The upstream is an oracle: the rounds of a loop carry its answers. A creation
    attempt is recorded with the answer to its creation call, so that refused, acknowledged and
    unknown creations are told apart.

  \<^bold>\<open>Learning capacities.\<close>
  \<^item> \<open>Calibration_Core\<close>: the arithmetic of the estimators (window fractions, rounding divisions,
    workload envelopes), the specification of a history as a list of completed intervals, and the
    locale \<open>window_estimator\<close>, which lifts the contract of one observation to whole histories.
  \<^item> \<open>Calibration_Windows\<close> and \<open>Calibration_Blend\<close>: observations and rows
    (\<open>registry/src/provider_calibration.rs\<close>) and the Gemini and Anthropic estimators
    (\<open>gemini/calibration.rs\<close>, \<open>anthropic_calibration.rs\<close>) with replay and one round of the writer of
    \<open>billing.rs\<close>; \<open>Calibration_Invariants\<close> and \<open>Calibration_Live\<close> prove their contract.
  \<^item> \<open>Calibration_Kimi\<close>, \<open>Calibration_Glm\<close> and \<open>Calibration_Glm_Live\<close> (\<open>kimi_calibration.rs\<close> and
    \<open>glm_calibration.rs\<close> of both crates) do the same for the other two.
    \<open>Calibration_Properties\<close> states the results for all four, and where bounds or store checks do
    not do what the sources say. What the readings admit is defined from their resolutions alone
    (\<open>admits\<close>); the widths the estimators compute are compared with it.

  \<^bold>\<open>Around the turn.\<close> \<open>Breaker\<close> (\<open>breaker.rs\<close>, \<open>settlement_policy.rs\<close>), \<open>Api_Limits\<close>
  (\<open>crates/api-limits\<close>), \<open>Body_Budget\<close> (\<open>bounded-body/src/budget.rs\<close>, over interleavings of its
  atomic operations), \<open>Body_Storage\<close> (\<open>bounded-body/src/storage.rs\<close>: a body comes back as it was
  sent, and whatever fails, dropping it returns exactly what it took), \<open>Turn_Queue\<close>
  (\<open>glm/queue.rs\<close>, a refinement of an abstract queue through the locale \<open>delivery_queue\<close>) and
  \<open>Calendar\<close> (\<open>lifecycle.rs\<close>).

  \<^bold>\<open>Rounds and bounds.\<close> Loops that are not structural carry a termination measure. An attempt loop
  is a recursion over the rounds it meets, and with too few of them it has no outcome; the
  termination properties show that more rounds than untried profiles, together with the waiting
  rounds and retries a plane allows itself, always give one. Compare-and-swap loops are one round
  each, with the outcome of the swap an argument. Integers that the source checks or saturates are
  checked or saturated in the model; where it uses plain operators the model wraps, and lemmas show
  where the result is exact.

  \<^bold>\<open>Not modelled.\<close> HTTP forwarding, stream relaying and protocol translation of the Anthropic,
  Codex and Gemini planes; OAuth and process transport; Tokio channels and background tasks; SQL run
  by PostgreSQL (\<open>pg.rs\<close>), whose contract is that of the modelled SQLite authority; reporting,
  pruning and consumer queries of the ledger; the detached drain of the media planes; sealing of credentials by third-party ciphers; the conversation store in Redis, whose
  result enters as the sticky profile; routing and configuration of the HTTP server; the Telegram
  bot. These are input and output around the decisions above, or run inside systems whose code is not
  part of the repository.
\<close>

end
